(* ===== verification/Prelude.thy ===== *)
theory Prelude
  imports Complex_Main "HOL-Library.AList" "HOL-Library.Multiset"
begin

text \<open>
  Shared vocabulary of the development.  A JavaScript \<open>number\<close> is modelled as an exact
  rational (\<open>rat\<close>): the columns the services read and write are decimals with three places,
  and every figure the code derives is passed through \<open>Math.round\<close>.  A \<open>Date\<close> is an
  \<open>int\<close> of milliseconds; an identifier (a UUID column) is a \<open>string\<close>.  An insertion-ordered
  \<open>Map\<close> is an association list updated with \<open>AList.update\<close> (overwrite in place, append when
  new, exactly what \<open>Map.set\<close> does); \<open>new Set(xs)\<close> is \<open>uniq xs\<close>.
\<close>

named_theorems order_simps \<open>unfoldings shared by the component proofs\<close>

type_synonym ident = string
type_synonym time = int

subsection \<open>Errors\<close>

text \<open>The exceptions the services throw, by the NestJS class; messages are not modelled.  \<open>Crash\<close> is a
  \<open>TypeError\<close> nobody catches.\<close>

datatype err = NotFound | BadRequest | Conflict | Forbidden | Crash

subsection \<open>Rounding\<close>

text \<open>\<open>Math.round(x)\<close>: nearest integer, ties towards plus infinity.\<close>

definition math_round :: "rat \<Rightarrow> int" where
  "math_round x = \<lfloor>x + 1/2\<rfloor>"

definition round3 :: "rat \<Rightarrow> rat" where
  "round3 x = of_int (math_round (x * 1000)) / 1000"

definition round4 :: "rat \<Rightarrow> rat" where
  "round4 x = of_int (math_round (x * 10000)) / 10000"

text \<open>A figure with at most three decimals, as the decimal columns hold.\<close>

definition milli :: "rat \<Rightarrow> bool" where
  "milli x \<longleftrightarrow> (x * 1000 \<in> \<int>)"

lemma math_round_of_int [simp]: "math_round (of_int n) = n"
  by (simp add: math_round_def floor_eq_iff)

lemma math_round_bounds: "x - 1/2 < of_int (math_round x)" "of_int (math_round x) \<le> x + 1/2"
  unfolding math_round_def by linarith+

lemma math_round_mono: "x \<le> y \<Longrightarrow> math_round x \<le> math_round y"
  unfolding math_round_def by (intro floor_mono) simp

lemma round3_error: "\<bar>round3 x - x\<bar> \<le> 1/2000"
proof -
  have "x * 1000 - 1/2 < of_int (math_round (x * 1000))"
    and "of_int (math_round (x * 1000)) \<le> x * 1000 + 1/2"
    by (rule math_round_bounds)+
  then have "\<bar>of_int (math_round (x * 1000)) - x * 1000\<bar> \<le> 1/2" by linarith
  moreover have "round3 x * 1000 = of_int (math_round (x * 1000))"
    by (simp add: round3_def)
  ultimately show ?thesis by linarith
qed

lemma round3_mono: "x \<le> y \<Longrightarrow> round3 x \<le> round3 y"
  unfolding round3_def by (intro divide_right_mono) (simp_all add: math_round_mono)

lemma milli_round3 [simp, intro]: "milli (round3 x)"
  by (simp add: milli_def round3_def)

lemma round3_milli [simp]: "milli x \<Longrightarrow> round3 x = x"
  by (auto simp: milli_def round3_def elim!: Ints_cases)

lemma round3_idem [simp]: "round3 (round3 x) = round3 x"
  by simp

lemma round3_0 [simp]: "round3 0 = 0"
  by (simp add: round3_def math_round_def floor_eq_iff)

lemma round3_nonneg: "0 \<le> x \<Longrightarrow> 0 \<le> round3 x"
  using round3_mono [of 0 x] by simp

lemma milli_0 [simp]: "milli 0"
  by (simp add: milli_def)

lemma milli_add [simp, intro]: "milli x \<Longrightarrow> milli y \<Longrightarrow> milli (x + y)"
  by (simp add: milli_def distrib_right)

lemma milli_diff [simp, intro]: "milli x \<Longrightarrow> milli y \<Longrightarrow> milli (x - y)"
  by (simp add: milli_def left_diff_distrib)

lemma milli_min [simp, intro]: "milli x \<Longrightarrow> milli y \<Longrightarrow> milli (min x y)"
  by (simp add: min_def)

lemma milli_max [simp, intro]: "milli x \<Longrightarrow> milli y \<Longrightarrow> milli (max x y)"
  by (simp add: max_def)

lemma milli_sum_list: "(\<And>x. x \<in> set xs \<Longrightarrow> milli (f x)) \<Longrightarrow> milli (sum_list (map f xs))"
  by (induction xs) auto

text \<open>Between a figure of three decimals and zero there is nothing below a thousandth.\<close>

lemma milli_pos_ge:
  assumes "milli x" and "0 < x"
  shows "1/1000 \<le> x"
proof -
  obtain k where k: "x * 1000 = of_int k"
    using assms(1) by (auto simp: milli_def elim: Ints_cases)
  then have "0 < k" using assms(2) by (metis mult_pos_pos of_int_0_less_iff zero_less_numeral)
  then have "(1::rat) \<le> of_int k" by simp
  then show ?thesis using k by simp
qed

text \<open>Evaluation of the rounding on numerals.\<close>

lemma floor_numeral_div_rat [simp]: "\<lfloor>numeral a / numeral b :: rat\<rfloor> = numeral a div numeral b"
  using floor_divide_of_int_eq [of "numeral a" "numeral b"] by simp

lemma floor_neg_numeral_div_rat [simp]:
  "\<lfloor>- (numeral a / numeral b) :: rat\<rfloor> = (- numeral a) div numeral b"
  using floor_divide_of_int_eq [of "- numeral a" "numeral b"] by simp

lemma floor_one_div_rat [simp]: "\<lfloor>1 / numeral b :: rat\<rfloor> = 1 div numeral b"
  using floor_divide_of_int_eq [of 1 "numeral b"] by simp

lemma milli_numeral [simp]: "milli (numeral n)"
  by (simp add: milli_def)

lemma milli_1 [simp]: "milli 1"
  by (simp add: milli_def)

subsection \<open>Sets and maps in insertion order\<close>

text \<open>\<open>[...new Set(xs)]\<close>: the first occurrence of each element, in order.\<close>

fun uniq :: "'a list \<Rightarrow> 'a list" where
  "uniq [] = []"
| "uniq (x # xs) = x # filter (\<lambda>y. y \<noteq> x) (uniq xs)"

lemma set_uniq [simp]: "set (uniq xs) = set xs"
  by (induction xs) auto

lemma distinct_uniq [simp]: "distinct (uniq xs)"
  by (induction xs) auto

lemma uniq_distinct: "distinct xs \<Longrightarrow> uniq xs = xs"
proof (induction xs)
  case (Cons x xs)
  then have "filter (\<lambda>y. y \<noteq> x) xs = xs" by (auto simp: filter_id_conv)
  with Cons show ?case by simp
qed simp

lemma uniq_Nil_iff [simp]: "uniq xs = [] \<longleftrightarrow> xs = []"
  by (cases xs) auto

text \<open>\<open>new Map(pairs)\<close>: a later pair overwrites an earlier one, in the earlier one's place.\<close>

definition js_map :: "('k \<times> 'v) list \<Rightarrow> ('k \<times> 'v) list" where
  "js_map ps = fold (\<lambda>(k, v). AList.update k v) ps []"

lemma js_map_distinct_aux:
  "distinct (map fst (m @ ps)) \<Longrightarrow> fold (\<lambda>(k, v). AList.update k v) ps m = m @ ps"
proof (induction ps arbitrary: m)
  case (Cons p ps)
  obtain k v where p: "p = (k, v)" by force
  with Cons.prems have "k \<notin> fst ` set m" by auto
  then have "AList.update k v m = m @ [(k, v)]"
    by (induction m) auto
  with Cons.IH [of "m @ [(k, v)]"] Cons.prems p show ?case by simp
qed simp

lemma js_map_distinct: "distinct (map fst ps) \<Longrightarrow> js_map ps = ps"
  using js_map_distinct_aux [of "[]" ps] by (simp add: js_map_def)

lemma set_map_filter: "y \<in> set (List.map_filter f xs) \<longleftrightarrow> (\<exists>x \<in> set xs. f x = Some y)"
  by (induction xs) (auto split: option.splits)

text \<open>\<open>xs.filter(...)\<close> and \<open>map\<close> over sums used throughout.\<close>

lemma sum_list_map_nonneg: "(\<And>x. x \<in> set xs \<Longrightarrow> 0 \<le> f x) \<Longrightarrow> 0 \<le> sum_list (map f xs :: rat list)"
  by (induction xs) auto

lemma sum_list_abs_le:
  "(\<And>x. x \<in> set xs \<Longrightarrow> \<bar>f x\<bar> \<le> c) \<Longrightarrow> \<bar>sum_list (map f xs) :: rat\<bar> \<le> of_nat (length xs) * c"
proof (induction xs)
  case (Cons x xs)
  then have "\<bar>f x\<bar> \<le> c" and "\<bar>sum_list (map f xs)\<bar> \<le> of_nat (length xs) * c" by auto
  then show ?case by (simp add: distrib_right abs_le_iff)
qed simp

subsection \<open>Tables\<close>

text \<open>
  A table is the list of its rows in insertion order.  \<open>repo.findOne({ where: { id } })\<close> is
  \<open>tbl_find\<close>; \<open>repo.save(row)\<close> replaces the row of that key or appends it.
\<close>

definition tbl_find :: "('r \<Rightarrow> ident) \<Rightarrow> ident \<Rightarrow> 'r list \<Rightarrow> 'r option" where
  "tbl_find key k rows = find (\<lambda>r. key r = k) rows"

fun tbl_save :: "('r \<Rightarrow> ident) \<Rightarrow> 'r \<Rightarrow> 'r list \<Rightarrow> 'r list" where
  "tbl_save key r [] = [r]"
| "tbl_save key r (x # xs) = (if key x = key r then r # xs else x # tbl_save key r xs)"

lemma tbl_find_Nil [simp]: "tbl_find key k [] = None"
  by (simp add: tbl_find_def)

lemma tbl_find_Cons [simp]:
  "tbl_find key k (r # rs) = (if key r = k then Some r else tbl_find key k rs)"
  by (simp add: tbl_find_def)

lemma tbl_find_SomeD: "tbl_find key k rows = Some r \<Longrightarrow> r \<in> set rows \<and> key r = k"
  by (induction rows) (auto split: if_splits)

lemma tbl_find_None_iff: "tbl_find key k rows = None \<longleftrightarrow> k \<notin> key ` set rows"
  by (induction rows) auto

lemma tbl_find_save: "tbl_find key k (tbl_save key r rows) =
    (if k = key r then Some r else tbl_find key k rows)"
  by (induction rows) auto

lemma keys_tbl_save:
  "map key (tbl_save key r rows) =
     (if key r \<in> key ` set rows then map key rows else map key rows @ [key r])"
  by (induction rows) auto

lemma distinct_tbl_save: "distinct (map key rows) \<Longrightarrow> distinct (map key (tbl_save key r rows))"
  by (auto simp: keys_tbl_save)

lemma set_tbl_save_subset: "set (tbl_save key r rows) \<subseteq> insert r (set rows)"
  by (induction rows) auto

lemma in_tbl_save: "r \<in> set (tbl_save key r rows)"
  by (induction rows) auto

lemma set_tbl_save:
  "distinct (map key rows) \<Longrightarrow>
   set (tbl_save key r rows) = insert r {x \<in> set rows. key x \<noteq> key r}"
proof (induction rows)
  case (Cons x xs)
  then have "\<forall>y \<in> set xs. key y \<noteq> key x" by (auto simp: image_iff)
  with Cons show ?case by (cases "key x = key r") auto
qed simp

lemma tbl_save_fresh: "key r \<notin> key ` set rows \<Longrightarrow> tbl_save key r rows = rows @ [r]"
  by (induction rows) auto

lemma tbl_save_map:
  "distinct (map key rows) \<Longrightarrow> key r' \<in> key ` set rows \<Longrightarrow>
   tbl_save key r' rows = map (\<lambda>x. if key x = key r' then r' else x) rows"
proof (induction rows)
  case (Cons x xs)
  then have "key x = key r' \<Longrightarrow> \<forall>y \<in> set xs. key y \<noteq> key r'" by (auto simp: image_iff)
  then have "key x = key r' \<Longrightarrow> map (\<lambda>y. if key y = key r' then r' else y) xs = xs"
    by (intro map_idI) auto
  with Cons show ?case by auto
qed simp

text \<open>\<open>save\<close> of a list of rows, one after the other.\<close>

definition tbl_save_all :: "('r \<Rightarrow> ident) \<Rightarrow> 'r list \<Rightarrow> 'r list \<Rightarrow> 'r list" where
  "tbl_save_all key rs rows = fold (tbl_save key) rs rows"

lemma the_row:
  "distinct (map key rows) \<Longrightarrow> tbl_find key k rows = Some r \<Longrightarrow> x \<in> set rows \<Longrightarrow> key x = k \<Longrightarrow> x = r"
  by (induction rows) (auto simp: image_iff split: if_splits)

lemma tbl_find_replaced:
  "key r = k \<Longrightarrow> tbl_find key k' (map (\<lambda>x. if key x = k then r else x) rows) =
     (if k' = k then map_option (\<lambda>_. r) (tbl_find key k' rows) else tbl_find key k' rows)"
  by (induction rows) auto

text \<open>A changed row, found by its key, is written back in place.\<close>

lemma save_in_place:
  assumes "distinct (map key rows)" and "x \<in> set rows" and "key (f x) = key x"
  shows "tbl_save key (f x) rows = map (\<lambda>y. if key y = key x then f y else y) rows"
proof -
  have "tbl_save key (f x) rows = map (\<lambda>y. if key y = key (f x) then f x else y) rows"
    using assms by (intro tbl_save_map) auto
  also have "\<dots> = map (\<lambda>y. if key y = key x then f y else y) rows"
    using assms by (auto simp: distinct_map inj_on_def)
  finally show ?thesis .
qed

lemma found_row:
  assumes "distinct (map key rows)"
  shows "tbl_find key k rows = Some r \<longleftrightarrow> r \<in> set rows \<and> key r = k"
proof
  assume r: "r \<in> set rows \<and> key r = k"
  then have "tbl_find key k rows \<noteq> None" by (auto simp: tbl_find_None_iff)
  then obtain x where "tbl_find key k rows = Some x" by blast
  with the_row [OF assms this] r show "tbl_find key k rows = Some r" by blast
qed (rule tbl_find_SomeD)

lemma filter_map_none: "(\<And>x. \<not> P (f x)) \<Longrightarrow> filter P (map f xs) = []"
  by (induction xs) simp_all

section \<open>Numbers as text\<close>

text \<open>\<open>String(n)\<close>\<close>

definition digit :: "nat \<Rightarrow> char" where
  "digit n = char_of (48 + n)"

fun show_nat :: "nat \<Rightarrow> string" where
  "show_nat n = (if n < 10 then [digit n] else show_nat (n div 10) @ [digit (n mod 10)])"

definition show_int :: "int \<Rightarrow> string" where
  "show_int i = (if i < 0 then CHR ''-'' # show_nat (nat (- i)) else show_nat (nat i))"

text \<open>\<open>String(n).padStart(w, '0')\<close>\<close>

definition padStart :: "nat \<Rightarrow> string \<Rightarrow> string" where
  "padStart w xs = replicate (w - length xs) CHR ''0'' @ xs"

text \<open>\<open>find\<close> returns a member, and over a range of numbers the least one.\<close>

lemma find_in_set: "find P xs = Some x \<Longrightarrow> x \<in> set xs"
  by (auto simp: find_Some_iff)

lemma find_upt_Some:
  "find P [0 ..< n] = Some p \<longleftrightarrow> p < n \<and> P p \<and> (\<forall>q < p. \<not> P q)"
  by (auto simp: find_Some_iff)

end
