(* ===== verification/CapacityPlanner.thy ===== *)
theory CapacityPlanner
  imports Prelude
begin

text \<open>
  \<open>order/providers/delivery-capacity-planner.ts\<close>: grouping the parts of a delivery into trucks
  by weight, farthest warehouse first.  A trip holds the parts in the order they are collected;
  a capacity that is not positive counts as unlimited (\<open>None\<close>).
\<close>

record packable_part =
  pk_partId :: ident
  pk_warehouse :: ident
  pk_distance :: rat
  pk_weight :: rat

record packed_trip =
  pt_start :: ident
  pt_parts :: "packable_part list"
  pt_totalWeight :: rat
  pt_overCapacity :: bool

definition EPS :: rat where
  "EPS = 1/10000"

definition fits_in :: "rat \<Rightarrow> rat option \<Rightarrow> bool" where
  "fits_in load capacity = (case capacity of None \<Rightarrow> True | Some c \<Rightarrow> load \<le> c + EPS)"

text \<open>The inner \<open>for (const part of pool)\<close> loop, over its accumulators.\<close>

fun load_truck :: "rat option \<Rightarrow> packable_part list \<Rightarrow>
    packable_part list \<times> packable_part list \<times> rat \<times> bool \<Rightarrow>
    packable_part list \<times> packable_part list \<times> rat \<times> bool" where
  "load_truck capacity [] acc = acc"
| "load_truck capacity (part # pool) (tripParts, remaining, load, overCapacity) =
     (if tripParts = []
      then load_truck capacity pool
             ([part], remaining, round3 (load + pk_weight part),
              overCapacity \<or> \<not> fits_in (pk_weight part) capacity)
      else if fits_in (round3 (load + pk_weight part)) capacity
      then load_truck capacity pool
             (tripParts @ [part], remaining, round3 (load + pk_weight part), overCapacity)
      else load_truck capacity pool (tripParts, remaining @ [part], load, overCapacity))"

definition declared_capacity :: "rat \<Rightarrow> rat option" where
  "declared_capacity declared = (if 0 < declared then Some declared else None)"

lemma load_truck_mset:
  "load_truck cap pool (ts, rm, load, over) = (ts', rm', load', over') \<Longrightarrow>
   mset ts' + mset rm' = mset ts + mset rm + mset pool"
proof (induction pool arbitrary: ts rm load over)
  case (Cons p pool)
  then show ?case by (auto split: if_splits dest!: Cons.IH)
qed simp

lemma load_truck_grows:
  "load_truck cap pool (ts, rm, load, over) = (ts', rm', load', over') \<Longrightarrow>
   \<exists>more. ts' = ts @ more \<and> (ts = [] \<longrightarrow> pool \<noteq> [] \<longrightarrow> hd more = hd pool \<and> more \<noteq> [])"
proof (induction pool arbitrary: ts rm load over)
  case (Cons p pool)
  show ?case
  proof (cases "ts = []")
    case True
    then show ?thesis using Cons.prems Cons.IH by fastforce
  next
    case False
    then show ?thesis using Cons.prems Cons.IH by (fastforce split: if_splits)
  qed
qed simp

definition pack_one :: "(ident \<Rightarrow> rat) \<Rightarrow> packable_part \<Rightarrow> packable_part list \<Rightarrow>
    packed_trip \<times> packable_part list" where
  "pack_one capacityForWarehouse start pool =
     (case load_truck (declared_capacity (capacityForWarehouse (pk_warehouse start)))
             pool ([], [], 0, False) of
        (tripParts, remaining, load, overCapacity) \<Rightarrow>
          (\<lparr>pt_start = pk_warehouse start, pt_parts = tripParts, pt_totalWeight = load,
            pt_overCapacity = overCapacity\<rparr>, remaining))"

lemma pack_one_mset:
  "mset (pt_parts (fst (pack_one cap p pool))) + mset (snd (pack_one cap p pool)) = mset pool"
  using load_truck_mset by (fastforce simp: pack_one_def split: prod.splits)

lemma pack_one_first:
  "pool \<noteq> [] \<Longrightarrow> pt_parts (fst (pack_one cap p pool)) \<noteq> []
     \<and> hd (pt_parts (fst (pack_one cap p pool))) = hd pool"
  using load_truck_grows by (fastforce simp: pack_one_def split: prod.splits)

lemma pack_one_shrinks: "pool \<noteq> [] \<Longrightarrow> length (snd (pack_one cap p pool)) < length pool"
proof -
  assume "pool \<noteq> []"
  then have "pt_parts (fst (pack_one cap p pool)) \<noteq> []" by (simp add: pack_one_first)
  then have "0 < length (pt_parts (fst (pack_one cap p pool)))" by simp
  moreover have "length (pt_parts (fst (pack_one cap p pool))) + length (snd (pack_one cap p pool))
      = length pool"
    using arg_cong [OF pack_one_mset, of size cap p pool] by simp
  ultimately show ?thesis by linarith
qed

text \<open>The outer \<open>while (pool.length)\<close> loop: the first part always goes, so the pool shrinks.\<close>

function pack_loop :: "(ident \<Rightarrow> rat) \<Rightarrow> packable_part list \<Rightarrow> packed_trip list" where
  "pack_loop capacityForWarehouse [] = []"
| "pack_loop capacityForWarehouse (start # rest) =
     fst (pack_one capacityForWarehouse start (start # rest))
     # pack_loop capacityForWarehouse (snd (pack_one capacityForWarehouse start (start # rest)))"
  by pat_completeness auto
termination
  by (relation "measure (\<lambda>(_, pool). length pool)") (simp_all only: in_measure case_prod_conv
      pack_one_shrinks [OF list.distinct(2)] wf_measure)


definition planDeliveryTrips :: "packable_part list \<Rightarrow> (ident \<Rightarrow> rat) \<Rightarrow> packed_trip list" where
  "planDeliveryTrips parts capacityForWarehouse =
     pack_loop capacityForWarehouse (sort_key (\<lambda>p. - pk_distance p) parts)"

subsection \<open>Order and load of one trip\<close>

definition descending :: "packable_part list \<Rightarrow> bool" where
  "descending ps \<longleftrightarrow> sorted_wrt (\<lambda>p q. pk_distance q \<le> pk_distance p) ps"

lemma load_truck_descending:
  "load_truck cap pool (ts, rm, load, over) = (ts', rm', load', over') \<Longrightarrow>
   descending (ts @ pool) \<Longrightarrow> descending (rm @ pool) \<Longrightarrow> descending ts' \<and> descending rm'"
proof (induction pool arbitrary: ts rm load over)
  case Nil
  then show ?case by (simp add: descending_def)
next
  case (Cons p pool)
  have "descending (ts @ pool)" "descending (rm @ pool)"
    "descending ((ts @ [p]) @ pool)" "descending ((rm @ [p]) @ pool)"
    using Cons.prems by (simp_all add: descending_def sorted_wrt_append)
  then show ?case using Cons.prems(1) by (auto split: if_splits dest!: Cons.IH)
qed

lemma pack_one_descending:
  "descending pool \<Longrightarrow> descending (pt_parts (fst (pack_one cap p pool)))
     \<and> descending (snd (pack_one cap p pool))"
  using load_truck_descending [of _ pool "[]" "[]"] by (fastforce simp: pack_one_def split: prod.splits)

definition weights_ok :: "packable_part list \<Rightarrow> bool" where
  "weights_ok ps \<longleftrightarrow> (\<forall>p \<in> set ps. milli (pk_weight p) \<and> 0 \<le> pk_weight p)"

definition load_ok :: "rat option \<Rightarrow> packable_part list \<Rightarrow> rat \<Rightarrow> bool \<Rightarrow> bool" where
  "load_ok cap ts load over \<longleftrightarrow> load = (\<Sum>p\<leftarrow>ts. pk_weight p) \<and> milli load \<and>
     (over \<longleftrightarrow> \<not> fits_in load cap) \<and> (over \<longrightarrow> length ts = 1)"

lemma fits_in_mono: "x \<le> y \<Longrightarrow> fits_in y cap \<Longrightarrow> fits_in x cap"
  by (auto simp: fits_in_def split: option.splits)

lemma load_truck_load:
  "load_truck cap pool (ts, rm, load, over) = (ts', rm', load', over') \<Longrightarrow>
   weights_ok pool \<Longrightarrow> (ts = [] \<longrightarrow> load = 0 \<and> \<not> over) \<Longrightarrow>
   (ts \<noteq> [] \<longrightarrow> load_ok cap ts load over) \<Longrightarrow> ts' \<noteq> [] \<Longrightarrow> load_ok cap ts' load' over'"
proof (induction pool arbitrary: ts rm load over)
  case Nil
  then show ?case by auto
next
  case (Cons p pool)
  have w: "milli (pk_weight p)" "0 \<le> pk_weight p" and pool: "weights_ok pool"
    using Cons.prems(2) by (auto simp: weights_ok_def)
  show ?case
  proof (cases "ts = []")
    case True
    have "load_ok cap [p] (round3 (load + pk_weight p)) (over \<or> \<not> fits_in (pk_weight p) cap)"
      using True Cons.prems(3) w by (simp add: load_ok_def)
    then show ?thesis using True Cons.prems Cons.IH [OF _ pool] by simp
  next
    case False
    then have ok: "load_ok cap ts load over" using Cons.prems(4) by simp
    show ?thesis
    proof (cases "fits_in (round3 (load + pk_weight p)) cap")
      case True
      have "milli load" using ok unfolding load_ok_def by blast
      then have milli: "milli (load + pk_weight p)" using w(1) by (intro milli_add)
      then have sum: "round3 (load + pk_weight p) = load + pk_weight p" by (rule round3_milli)
      have "\<not> over"
        using True sum fits_in_mono [of load "load + pk_weight p" cap] ok w by (auto simp: load_ok_def)
      moreover have "load + pk_weight p = (\<Sum>q\<leftarrow>ts @ [p]. pk_weight q)"
        using ok by (simp add: load_ok_def)
      ultimately have "load_ok cap (ts @ [p]) (round3 (load + pk_weight p)) over"
        using True milli unfolding sum load_ok_def by simp
      then show ?thesis using True False Cons.prems Cons.IH [OF _ pool] by simp
    next
      case nofit: False
      then show ?thesis using False Cons.prems Cons.IH [OF _ pool, of ts "rm @ [p]"] by simp
    qed
  qed
qed

lemma pack_one_load:
  assumes "weights_ok pool" and "pool \<noteq> []"
  shows "load_ok (declared_capacity (cap (pk_warehouse p))) (pt_parts (fst (pack_one cap p pool)))
     (pt_totalWeight (fst (pack_one cap p pool))) (pt_overCapacity (fst (pack_one cap p pool)))"
proof -
  obtain ts rm load over where eq:
    "load_truck (declared_capacity (cap (pk_warehouse p))) pool ([], [], 0, False) = (ts, rm, load, over)"
    by (metis prod_cases4)
  have "ts \<noteq> []" using pack_one_first [OF assms(2), of cap p] eq by (simp add: pack_one_def)
  then show ?thesis using load_truck_load [OF eq assms(1)] eq by (simp add: pack_one_def)
qed

subsection \<open>Properties\<close>

lemma planDeliveryTrips_partition:
  "mset (concat (map pt_parts (planDeliveryTrips parts capacity))) = mset parts
   \<and> list_all (\<lambda>t. pt_parts t \<noteq> [] \<and> pt_start t = pk_warehouse (hd (pt_parts t))
       \<and> descending (pt_parts t)) (planDeliveryTrips parts capacity)"
proof -
  have "mset (concat (map pt_parts (pack_loop capacity pool))) = mset pool
   \<and> list_all (\<lambda>t. pt_parts t \<noteq> [] \<and> pt_start t = pk_warehouse (hd (pt_parts t))
       \<and> descending (pt_parts t)) (pack_loop capacity pool)" if "descending pool" for pool
    using that
  proof (induction capacity pool rule: pack_loop.induct)
    case (2 cap start rest)
    let ?r = "pack_one cap start (start # rest)"
    have "pt_start (fst ?r) = pk_warehouse start"
      by (simp add: pack_one_def del: load_truck.simps split: prod.splits)
    then show ?case
      using 2 pack_one_mset [of cap start "start # rest"] pack_one_first [of "start # rest" cap start]
        pack_one_descending [of "start # rest" cap start] by simp
  qed simp
  moreover have "descending (sort_key (\<lambda>p. - pk_distance p) parts)"
    using sorted_sort_key [of "\<lambda>p. - pk_distance p" parts] by (simp add: descending_def sorted_map)
  ultimately show ?thesis by (simp add: planDeliveryTrips_def)
qed

text \<open>The trips share out the parts: every part rides on exactly one trip, no trip is empty, a
  trip sets out from the warehouse of its first part, and each trip collects its parts farthest
  from the buyer first.\<close>

theorem trips_partition:
  "mset (concat (map pt_parts (planDeliveryTrips parts capacity))) = mset parts
   \<and> list_all (\<lambda>t. pt_parts t \<noteq> [] \<and> pt_start t = pk_warehouse (hd (pt_parts t))
       \<and> descending (pt_parts t)) (planDeliveryTrips parts capacity)"
  by (rule planDeliveryTrips_partition)

text \<open>C10: a trip's recorded load is the weight of its parts, and it stays within the capacity of the
  truck of the warehouse it sets out from unless it is flagged as over capacity, which happens
  only to a trip of a single part that is too heavy on its own.\<close>

theorem trips_within_capacity:
  assumes "weights_ok parts" and "t \<in> set (planDeliveryTrips parts capacity)"
  shows "pt_totalWeight t = (\<Sum>p\<leftarrow>pt_parts t. pk_weight p)
    \<and> (pt_overCapacity t \<longleftrightarrow> \<not> fits_in (pt_totalWeight t) (declared_capacity (capacity (pt_start t))))
    \<and> (pt_overCapacity t \<longrightarrow> length (pt_parts t) = 1)"
proof -
  have "load_ok (declared_capacity (capacity (pt_start t))) (pt_parts t) (pt_totalWeight t)
      (pt_overCapacity t)" if "t \<in> set (pack_loop capacity pool)" "weights_ok pool" for pool
    using that
  proof (induction capacity pool rule: pack_loop.induct)
    case (2 cap start rest)
    let ?r = "pack_one cap start (start # rest)"
    have start: "pt_start (fst ?r) = pk_warehouse start"
      by (simp add: pack_one_def del: load_truck.simps split: prod.splits)
    have "set (snd ?r) \<subseteq> set (start # rest)"
      using pack_one_mset [of cap start "start # rest"]
      by (metis mset_subset_eq_add_right set_mset_mono set_mset_mset)
    then have "weights_ok (snd ?r)" using "2.prems"(2) by (auto simp: weights_ok_def)
    moreover note pack_one_load [OF "2.prems"(2), of cap start]
    ultimately show ?case using 2 start by auto
  qed simp
  moreover have "weights_ok (sort_key (\<lambda>p. - pk_distance p) parts)"
    using assms(1) by (simp add: weights_ok_def)
  ultimately show ?thesis using assms(2) by (simp add: planDeliveryTrips_def load_ok_def)
qed

definition ex_parts :: "packable_part list" where
  "ex_parts =
    [\<lparr>pk_partId = ''p1'', pk_warehouse = ''a'', pk_distance = 10, pk_weight = 400\<rparr>,
     \<lparr>pk_partId = ''p2'', pk_warehouse = ''b'', pk_distance = 40, pk_weight = 700\<rparr>,
     \<lparr>pk_partId = ''p3'', pk_warehouse = ''c'', pk_distance = 25, pk_weight = 500\<rparr>]"

lemma ex_parts_trips:
  "map (map pk_partId \<circ> pt_parts) (planDeliveryTrips ex_parts (\<lambda>_. 1200)) = [[''p2'', ''p3''], [''p1'']]"
  by code_simp

theorem trips_within_capacity_witness:
  "list_all (\<lambda>t. pt_totalWeight t = (\<Sum>p\<leftarrow>pt_parts t. pk_weight p))
     (planDeliveryTrips ex_parts (\<lambda>_. 1200))"
proof -
  have "weights_ok ex_parts" by (simp add: weights_ok_def ex_parts_def)
  then show ?thesis unfolding list_all_iff using trips_within_capacity by blast
qed

end
