(* ===== verification/TruckScore.thy ===== *)
theory TruckScore
  imports Prelude "HOL-Library.Product_Lexorder"
begin

text \<open>
  \<open>order/providers/truck-score.ts\<close>: the ranking of a warehouse's delivery trucks.  The sort
  comparator compares driver availability, then score, then payload, then id; it is modelled by
  a stable \<open>sort_key\<close> on the lexicographically ordered tuple of those four, negated where the
  code sorts in descending order.
\<close>

record scorable_truck =
  st_odooTruckId :: int
  st_maxPayloadKg :: rat
  st_recentTripCount :: rat
  st_hasAvailableDriver :: "bool option"

record truck_score =
  sc_odooTruckId :: int
  sc_score :: rat
  sc_capacityComponent :: rat
  sc_fairnessComponent :: rat
  sc_maxPayloadKg :: rat
  sc_recentTripCount :: rat
  sc_fits :: bool
  sc_hasAvailableDriver :: bool

record score_weights =
  w_capacity :: rat
  w_fairness :: rat

record score_options =
  so_requiredKg :: "rat option"
  so_weights :: "score_weights option"

text \<open>The second argument of \<open>scoreTrucks\<close> is a union: options, or bare weights from old callers.\<close>

datatype score_argument = ScoreOptions score_options | ScoreWeights score_weights

definition DEFAULT_TRUCK_SCORE_WEIGHTS :: score_weights where
  "DEFAULT_TRUCK_SCORE_WEIGHTS = \<lparr>w_capacity = 1/2, w_fairness = 1/2\<rparr>"

text \<open>\<open>Math.max(...candidates.map(f), 0)\<close>.\<close>

definition max_or_0 :: "('a \<Rightarrow> rat) \<Rightarrow> 'a list \<Rightarrow> rat" where
  "max_or_0 f xs = fold (\<lambda>x m. max m (max (f x) 0)) xs 0"

definition fits_load :: "rat option \<Rightarrow> scorable_truck \<Rightarrow> bool" where
  "fits_load requiredKg c = (case requiredKg of
       Some kg \<Rightarrow> if 0 < kg then kg \<le> max (st_maxPayloadKg c) 0 else True
     | None \<Rightarrow> True)"

definition bigger_is_better :: "rat \<Rightarrow> scorable_truck \<Rightarrow> rat" where
  "bigger_is_better maxCapacity c =
     (if 0 < maxCapacity then max (st_maxPayloadKg c) 0 / maxCapacity else 0)"

definition capacity_component :: "rat option \<Rightarrow> rat \<Rightarrow> scorable_truck \<Rightarrow> rat" where
  "capacity_component requiredKg maxCapacity c = (let payload = max (st_maxPayloadKg c) 0 in
     case requiredKg of
       Some kg \<Rightarrow> if 0 < kg
         then if fits_load requiredKg c then 1/2 + 1/2 * (kg / payload)
              else 1/2 * (if 0 < payload then payload / kg else 0)
         else bigger_is_better maxCapacity c
     | None \<Rightarrow> bigger_is_better maxCapacity c)"

definition fairness_component :: "rat \<Rightarrow> scorable_truck \<Rightarrow> rat" where
  "fairness_component maxUsage c =
     (if 0 < maxUsage then (maxUsage - max (st_recentTripCount c) 0) / maxUsage else 1)"

definition score_one :: "score_weights \<Rightarrow> rat option \<Rightarrow> rat \<Rightarrow> rat \<Rightarrow> scorable_truck \<Rightarrow> truck_score" where
  "score_one weights requiredKg maxCapacity maxUsage c =
     (let cap = capacity_component requiredKg maxCapacity c; fair = fairness_component maxUsage c in
      \<lparr>sc_odooTruckId = st_odooTruckId c,
       sc_score = round4 (w_capacity weights * cap + w_fairness weights * fair),
       sc_capacityComponent = round4 cap, sc_fairnessComponent = round4 fair,
       sc_maxPayloadKg = st_maxPayloadKg c, sc_recentTripCount = st_recentTripCount c,
       sc_fits = fits_load requiredKg c,
       sc_hasAvailableDriver = (st_hasAvailableDriver c \<noteq> Some False)\<rparr>)"

definition rank_key :: "truck_score \<Rightarrow> bool \<times> rat \<times> rat \<times> int" where
  "rank_key s = (\<not> sc_hasAvailableDriver s, - sc_score s, - sc_maxPayloadKg s, sc_odooTruckId s)"

definition scoreTrucks :: "scorable_truck list \<Rightarrow> score_argument \<Rightarrow> truck_score list" where
  "scoreTrucks candidates options = (if candidates = [] then [] else
     let opts = (case options of ScoreWeights w \<Rightarrow> \<lparr>so_requiredKg = None, so_weights = Some w\<rparr>
                               | ScoreOptions o' \<Rightarrow> o');
         weights = (case so_weights opts of Some w \<Rightarrow> w | None \<Rightarrow> DEFAULT_TRUCK_SCORE_WEIGHTS);
         maxCapacity = max_or_0 st_maxPayloadKg candidates;
         maxUsage = max_or_0 st_recentTripCount candidates
     in sort_key rank_key
          (map (score_one weights (so_requiredKg opts) maxCapacity maxUsage) candidates))"

definition pickBestDeliveryTruck ::
    "scorable_truck list \<Rightarrow> rat option \<Rightarrow> score_weights \<Rightarrow> truck_score option" where
  "pickBestDeliveryTruck candidates requiredKg weights = (if candidates = [] then None
     else Some (scoreTrucks candidates
       (ScoreOptions \<lparr>so_requiredKg = requiredKg, so_weights = Some weights\<rparr>) ! 0))"

subsection \<open>Facts of the components\<close>

lemma max_or_0_mono: "m \<le> fold (\<lambda>x m. max m (max (f x) 0)) xs (m :: rat)"
proof (induction xs arbitrary: m)
  case (Cons y xs)
  have "m \<le> max m (max (f y) 0)" by simp
  also have "\<dots> \<le> fold (\<lambda>x m. max m (max (f x) 0)) xs (max m (max (f y) 0))" by (rule Cons.IH)
  finally show ?case by simp
qed simp

lemma max_or_0_ge: "x \<in> set xs \<Longrightarrow> max (f x) 0 \<le> fold (\<lambda>x m. max m (max (f x) 0)) xs (m :: rat)"
proof (induction xs arbitrary: m)
  case (Cons y xs)
  show ?case
  proof (cases "x = y")
    case True
    have "max m (max (f y) 0) \<le> fold (\<lambda>x m. max m (max (f x) 0)) xs (max m (max (f y) 0))"
      by (rule max_or_0_mono)
    with True show ?thesis by simp
  next
    case False
    with Cons show ?thesis by simp
  qed
qed simp

lemma max_or_0_upper: "x \<in> set xs \<Longrightarrow> max (f x) 0 \<le> max_or_0 f xs"
  unfolding max_or_0_def by (rule max_or_0_ge)

lemma round4_mono: "x \<le> y \<Longrightarrow> round4 x \<le> round4 y"
  unfolding round4_def by (intro divide_right_mono) (simp_all add: math_round_mono)

lemma bigger_is_better_unit:
  "c \<in> set cs \<Longrightarrow> 0 \<le> bigger_is_better (max_or_0 st_maxPayloadKg cs) c
     \<and> bigger_is_better (max_or_0 st_maxPayloadKg cs) c \<le> 1"
  using max_or_0_upper [of c cs st_maxPayloadKg] by (auto simp: bigger_is_better_def divide_le_eq)

lemma fairness_unit:
  "c \<in> set cs \<Longrightarrow> 0 \<le> fairness_component (max_or_0 st_recentTripCount cs) c
     \<and> fairness_component (max_or_0 st_recentTripCount cs) c \<le> 1"
  using max_or_0_upper [of c cs st_recentTripCount] by (auto simp: fairness_component_def divide_le_eq)

lemma capacity_fit:
  assumes "0 < kg" and "fits_load (Some kg) c"
  shows "1/2 < capacity_component (Some kg) m c \<and> capacity_component (Some kg) m c \<le> 1"
proof -
  have "kg \<le> max (st_maxPayloadKg c) 0" using assms by (simp add: fits_load_def)
  then have "kg \<le> st_maxPayloadKg c" and "0 < st_maxPayloadKg c"
    using assms(1) by (auto simp: max_def split: if_splits)
  then have "0 < kg / st_maxPayloadKg c" and "kg / st_maxPayloadKg c \<le> 1"
    using assms(1) by (simp_all add: divide_le_eq)
  moreover have "capacity_component (Some kg) m c = 1/2 + 1/2 * (kg / st_maxPayloadKg c)"
    using assms \<open>0 < st_maxPayloadKg c\<close> by (simp add: capacity_component_def Let_def)
  ultimately show ?thesis by linarith
qed

lemma capacity_nofit:
  assumes "0 < kg" and "\<not> fits_load (Some kg) c"
  shows "0 \<le> capacity_component (Some kg) m c \<and> capacity_component (Some kg) m c < 1/2"
proof -
  have "max (st_maxPayloadKg c) 0 < kg" using assms by (simp add: fits_load_def)
  then show ?thesis using assms by (simp add: capacity_component_def Let_def divide_less_eq)
qed

lemma hd_sort_key_le:
  assumes "x \<in> set xs"
  shows "(f (sort_key f xs ! 0) :: 'b :: linorder) \<le> f x \<and> sort_key f xs ! 0 \<in> set xs"
proof -
  obtain y ys where eq: "sort_key f xs = y # ys"
    using assms by (cases "sort_key f xs") (auto dest: arg_cong [of _ _ set])
  then have "set xs = insert y (set ys)" by (metis list.simps(15) set_sort)
  moreover have "sorted (map f (y # ys))" using sorted_sort_key [of f xs] eq by simp
  ultimately show ?thesis using assms eq by auto
qed

subsection \<open>Properties\<close>

text \<open>The pick is a ranking of all the candidates: the truck chosen has a driver available
  whenever any candidate has one; among the trucks alike in that it has the highest score, on
  equal scores the largest payload, and then the lowest id.\<close>

theorem pick_best_truck:
  assumes "pickBestDeliveryTruck candidates requiredKg weights = Some best"
    and "s \<in> set (scoreTrucks candidates
          (ScoreOptions \<lparr>so_requiredKg = requiredKg, so_weights = Some weights\<rparr>))"
  shows "(sc_hasAvailableDriver s \<longrightarrow> sc_hasAvailableDriver best)
    \<and> (sc_hasAvailableDriver s = sc_hasAvailableDriver best \<longrightarrow>
        sc_score s < sc_score best
        \<or> sc_score s = sc_score best \<and> (sc_maxPayloadKg s < sc_maxPayloadKg best
          \<or> sc_maxPayloadKg s = sc_maxPayloadKg best \<and> sc_odooTruckId best \<le> sc_odooTruckId s))"
proof -
  have "rank_key best \<le> rank_key s"
    using assms hd_sort_key_le [of s _ rank_key]
    by (fastforce simp: pickBestDeliveryTruck_def scoreTrucks_def Let_def split: if_splits)
  then show ?thesis by (auto simp: rank_key_def le_bool_def less_bool_def)
qed

text \<open>With a load to carry and non-negative weights, the capacity component of every truck that
  fits the load lies in the upper half and of every truck that does not in the lower half, so a
  truck that has made no more trips than another and fits where the other does not never scores
  below it (\<open>mc\<close> and \<open>maxUsage\<close> are the fleet maxima both scores are computed from).\<close>

theorem fitting_truck_scores_higher:
  assumes "0 < kg" and "0 \<le> w_capacity w" and "0 \<le> w_fairness w"
    and "fits_load (Some kg) c" and "\<not> fits_load (Some kg) d"
    and "max (st_recentTripCount c) 0 \<le> max (st_recentTripCount d) 0"
  shows "sc_capacityComponent (score_one w (Some kg) mc maxUsage d) \<le> 1/2
    \<and> 1/2 \<le> sc_capacityComponent (score_one w (Some kg) mc maxUsage c)
    \<and> sc_score (score_one w (Some kg) mc maxUsage d)
      \<le> sc_score (score_one w (Some kg) mc maxUsage c)"
proof -
  let ?cap = "capacity_component (Some kg) mc"
  let ?fair = "fairness_component maxUsage"
  have half: "round4 (1/2) = (1/2)" by (simp add: round4_def math_round_def)
  have cap: "?cap d \<le> 1/2" "1/2 \<le> ?cap c"
    using capacity_fit [OF assms(1,4), of mc] capacity_nofit [OF assms(1,5), of mc] by auto
  have fair: "?fair d \<le> ?fair c"
    using assms(6) by (simp add: fairness_component_def divide_right_mono)
  have "w_capacity w * ?cap d + w_fairness w * ?fair d \<le> w_capacity w * ?cap c + w_fairness w * ?fair c"
    using assms(2,3) cap fair by (intro add_mono mult_left_mono) auto
  then show ?thesis
    using cap round4_mono [of "?cap d" "1/2"] round4_mono [of "1/2" "?cap c"] half
    by (simp add: score_one_def Let_def round4_mono)
qed

definition ex_fleet :: "scorable_truck list" where
  "ex_fleet =
    [\<lparr>st_odooTruckId = 1, st_maxPayloadKg = 5000, st_recentTripCount = 9, st_hasAvailableDriver = Some False\<rparr>,
     \<lparr>st_odooTruckId = 2, st_maxPayloadKg = 800, st_recentTripCount = 1, st_hasAvailableDriver = None\<rparr>,
     \<lparr>st_odooTruckId = 3, st_maxPayloadKg = 1500, st_recentTripCount = 4, st_hasAvailableDriver = Some True\<rparr>]"

lemma ex_fleet_pick:
  "map_option sc_odooTruckId (pickBestDeliveryTruck ex_fleet (Some 1000) DEFAULT_TRUCK_SCORE_WEIGHTS) = Some 3"
  by code_simp

theorem pick_best_truck_witness:
  "sc_hasAvailableDriver (the (pickBestDeliveryTruck ex_fleet (Some 1000) DEFAULT_TRUCK_SCORE_WEIGHTS))"
proof -
  obtain best where best:
    "pickBestDeliveryTruck ex_fleet (Some 1000) DEFAULT_TRUCK_SCORE_WEIGHTS = Some best"
    using ex_fleet_pick by blast
  let ?s = "scoreTrucks ex_fleet (ScoreOptions
       \<lparr>so_requiredKg = Some 1000, so_weights = Some DEFAULT_TRUCK_SCORE_WEIGHTS\<rparr>) ! 0"
  have "?s \<in> set (scoreTrucks ex_fleet (ScoreOptions
       \<lparr>so_requiredKg = Some 1000, so_weights = Some DEFAULT_TRUCK_SCORE_WEIGHTS\<rparr>)) \<and> sc_hasAvailableDriver ?s"
    by code_simp
  then show ?thesis using pick_best_truck [OF best, of ?s] best by simp
qed

theorem fitting_truck_scores_higher_witness:
  "sc_score (score_one DEFAULT_TRUCK_SCORE_WEIGHTS (Some 1000) 5000 9
      ((ex_fleet ! 2)\<lparr>st_maxPayloadKg := 800\<rparr>))
   \<le> sc_score (score_one DEFAULT_TRUCK_SCORE_WEIGHTS (Some 1000) 5000 9
      (ex_fleet ! 2))"
  using fitting_truck_scores_higher [of 1000 DEFAULT_TRUCK_SCORE_WEIGHTS "ex_fleet ! 2"
      "(ex_fleet ! 2)\<lparr>st_maxPayloadKg := 800\<rparr>" 5000 9]
  by (simp add: DEFAULT_TRUCK_SCORE_WEIGHTS_def fits_load_def ex_fleet_def)

end
