(* ===== verification/OrderLifecycle.thy ===== *)
theory OrderLifecycle
  imports Prelude
begin

text \<open>
  The life cycles of an order, of one warehouse's part of it, and of a delivery trip
  (\<open>order/enums/*.ts\<close>), the order status derived from its parts (\<open>derive-order-status.ts\<close>),
  what an Odoo event means for a part (\<open>order-event-map.ts\<close>) and the split test on the round
  ledger (\<open>latest-round-split.ts\<close>).  A transition map of the source is a function from a status
  to the list of statuses it may move to; the locale \<open>lifecycle\<close> is the contract the services
  rely on, interpreted below for each of the three maps.
\<close>

subsection \<open>Transition maps as a contract\<close>

definition allowed :: "('s \<Rightarrow> 's list) \<Rightarrow> 's \<Rightarrow> 's \<Rightarrow> bool" where
  "allowed nexts s t = List.member (nexts s) t"

inductive moves :: "('s \<Rightarrow> 's list) \<Rightarrow> 's \<Rightarrow> 's \<Rightarrow> bool" for nexts where
  stay: "moves nexts s s"
| move: "moves nexts s t \<Longrightarrow> allowed nexts t u \<Longrightarrow> moves nexts s u"

text \<open>A run of moves given by the statuses visited.\<close>

fun legal_run :: "('s \<Rightarrow> 's list) \<Rightarrow> 's \<Rightarrow> 's list \<Rightarrow> bool" where
  "legal_run nexts s [] \<longleftrightarrow> True"
| "legal_run nexts s (t # ts) \<longleftrightarrow> allowed nexts s t \<and> legal_run nexts t ts"

lemma moves_step: "allowed nexts s t \<Longrightarrow> moves nexts s t"
  by (rule moves.move [OF moves.stay])

lemma moves_trans: "moves nexts t u \<Longrightarrow> moves nexts s t \<Longrightarrow> moves nexts s u"
  by (induction rule: moves.induct) (auto intro: moves.move)

lemma legal_run_moves: "legal_run nexts s ss \<Longrightarrow> t \<in> set ss \<Longrightarrow> moves nexts s t"
  by (induction nexts s ss rule: legal_run.induct) (auto intro: moves_trans moves_step)

locale lifecycle =
  fixes nexts :: "'s \<Rightarrow> 's list"
    and rank :: "'s \<Rightarrow> nat"
    and rewind :: "'s \<Rightarrow> 's \<Rightarrow> bool"
  assumes no_self: "\<not> allowed nexts s s"
    and forward: "allowed nexts s t \<Longrightarrow> \<not> rewind s t \<Longrightarrow> rank s < rank t"
    and rewind_allowed: "rewind s t \<Longrightarrow> allowed nexts s t"
begin

fun rewinds :: "'s \<Rightarrow> 's list \<Rightarrow> nat" where
  "rewinds s [] = 0"
| "rewinds s (t # ts) = (if rewind s t then 1 else 0) + rewinds t ts"

lemma closed_set:
  assumes "moves nexts s t" and "s \<in> X" and "\<And>u v. u \<in> X \<Longrightarrow> allowed nexts u v \<Longrightarrow> v \<in> X"
  shows "t \<in> X"
  using assms by (induction rule: moves.induct) auto

lemma terminal_stuck:
  assumes "moves nexts s t" and "nexts s = []"
  shows "t = s"
  using closed_set [OF assms(1), of "{s}"] assms(2) by (auto simp: allowed_def)

text \<open>
  A run that never rewinds is at most as long as the ranks left; every rewind buys back at
  most \<open>n\<close> further moves when no rank exceeds \<open>n\<close>.
\<close>

lemma run_length:
  assumes "\<And>u. rank u \<le> n"
  shows "legal_run nexts s ts \<Longrightarrow> length ts + rank s \<le> n + rewinds s ts * Suc n"
proof (induction ts arbitrary: s)
  case Nil
  then show ?case using assms by simp
next
  case (Cons t ts)
  then have step: "allowed nexts s t" and ih: "length ts + rank t \<le> n + rewinds t ts * Suc n"
    by auto
  show ?case
  proof (cases "rewind s t")
    case True
    then show ?thesis using ih assms [of s] by simp
  next
    case False
    with step have "rank s < rank t" by (rule forward)
    with ih False show ?thesis by simp
  qed
qed

end

subsection \<open>Orders: \<open>order-status.enum.ts\<close>\<close>

datatype order_status =
    PENDING_ALLOCATION | AWAITING_APPROVAL | NEEDS_CUSTOMER_DECISION | REJECTED_AWAITING_BUYER
  | NEEDS_ADMIN | AWAITING_SPLIT_APPROVAL | PREPARING | IN_TRANSIT | CONSOLIDATING
  | READY_FOR_PICKUP | DELIVERED | COMPLETED | CANCELLED

fun ORDER_TRANSITIONS :: "order_status \<Rightarrow> order_status list" where
  "ORDER_TRANSITIONS PENDING_ALLOCATION =
     [AWAITING_APPROVAL, AWAITING_SPLIT_APPROVAL, NEEDS_CUSTOMER_DECISION, CANCELLED]"
| "ORDER_TRANSITIONS AWAITING_APPROVAL =
     [PENDING_ALLOCATION, PREPARING, NEEDS_ADMIN, REJECTED_AWAITING_BUYER, CANCELLED]"
| "ORDER_TRANSITIONS AWAITING_SPLIT_APPROVAL =
     [AWAITING_APPROVAL, REJECTED_AWAITING_BUYER, CANCELLED]"
| "ORDER_TRANSITIONS NEEDS_CUSTOMER_DECISION = [PENDING_ALLOCATION, CANCELLED]"
| "ORDER_TRANSITIONS REJECTED_AWAITING_BUYER = [CANCELLED]"
| "ORDER_TRANSITIONS NEEDS_ADMIN = [PENDING_ALLOCATION, CANCELLED]"
| "ORDER_TRANSITIONS PREPARING = [IN_TRANSIT, CONSOLIDATING, READY_FOR_PICKUP]"
| "ORDER_TRANSITIONS IN_TRANSIT = [DELIVERED]"
| "ORDER_TRANSITIONS CONSOLIDATING = [READY_FOR_PICKUP]"
| "ORDER_TRANSITIONS READY_FOR_PICKUP = [DELIVERED]"
| "ORDER_TRANSITIONS DELIVERED = [COMPLETED]"
| "ORDER_TRANSITIONS COMPLETED = []"
| "ORDER_TRANSITIONS CANCELLED = []"

definition BUYER_CANCELLABLE_STATUSES :: "order_status list" where
  "BUYER_CANCELLABLE_STATUSES =
     [PENDING_ALLOCATION, AWAITING_APPROVAL, AWAITING_SPLIT_APPROVAL, NEEDS_CUSTOMER_DECISION,
      REJECTED_AWAITING_BUYER, NEEDS_ADMIN]"

definition TERMINAL_ORDER_STATUSES :: "order_status list" where
  "TERMINAL_ORDER_STATUSES = [COMPLETED, CANCELLED]"

definition canTransition :: "order_status \<Rightarrow> order_status \<Rightarrow> bool" where
  "canTransition s t = List.member (ORDER_TRANSITIONS s) t"

lemma canTransition_allowed: "canTransition = allowed ORDER_TRANSITIONS"
  by (simp add: fun_eq_iff canTransition_def allowed_def)

text \<open>How far an order has come; going back to allocation is the only rewind.\<close>

fun order_rank :: "order_status \<Rightarrow> nat" where
  "order_rank PENDING_ALLOCATION = 0"
| "order_rank AWAITING_SPLIT_APPROVAL = 1"
| "order_rank NEEDS_CUSTOMER_DECISION = 1"
| "order_rank AWAITING_APPROVAL = 2"
| "order_rank NEEDS_ADMIN = 3"
| "order_rank REJECTED_AWAITING_BUYER = 3"
| "order_rank PREPARING = 3"
| "order_rank IN_TRANSIT = 4"
| "order_rank CONSOLIDATING = 4"
| "order_rank READY_FOR_PICKUP = 5"
| "order_rank DELIVERED = 6"
| "order_rank COMPLETED = 7"
| "order_rank CANCELLED = 7"

definition order_rewind :: "order_status \<Rightarrow> order_status \<Rightarrow> bool" where
  "order_rewind s t \<longleftrightarrow> t = PENDING_ALLOCATION \<and>
     (s = AWAITING_APPROVAL \<or> s = NEEDS_CUSTOMER_DECISION \<or> s = NEEDS_ADMIN)"

interpretation ordlife: lifecycle ORDER_TRANSITIONS order_rank order_rewind
proof
  fix s t
  show "\<not> allowed ORDER_TRANSITIONS s s" by (cases s) (simp_all add: allowed_def)
  show "order_rank s < order_rank t"
    if "allowed ORDER_TRANSITIONS s t" "\<not> order_rewind s t"
    using that by (cases s) (auto simp: allowed_def order_rewind_def)
  show "allowed ORDER_TRANSITIONS s t" if "order_rewind s t"
    using that by (auto simp: allowed_def order_rewind_def)
qed

subsection \<open>Parts: \<open>order-part-status.enum.ts\<close>\<close>

datatype part_status =
    P_OFFERED | P_ACCEPTED | P_PROCESSING | P_STOCK_DEDUCTED | P_IN_OUTPUT_ZONE
  | P_READY_FOR_PICKUP | P_DISPATCHED | P_DELIVERED | P_REJECTED | P_EXPIRED | P_CANCELLED

fun ORDER_PART_TRANSITIONS :: "part_status \<Rightarrow> part_status list" where
  "ORDER_PART_TRANSITIONS P_OFFERED = [P_ACCEPTED, P_REJECTED, P_EXPIRED, P_CANCELLED]"
| "ORDER_PART_TRANSITIONS P_ACCEPTED = [P_PROCESSING, P_CANCELLED]"
| "ORDER_PART_TRANSITIONS P_PROCESSING = [P_STOCK_DEDUCTED, P_ACCEPTED]"
| "ORDER_PART_TRANSITIONS P_STOCK_DEDUCTED = [P_IN_OUTPUT_ZONE]"
| "ORDER_PART_TRANSITIONS P_IN_OUTPUT_ZONE = [P_DISPATCHED, P_READY_FOR_PICKUP]"
| "ORDER_PART_TRANSITIONS P_DISPATCHED = [P_DELIVERED, P_READY_FOR_PICKUP]"
| "ORDER_PART_TRANSITIONS P_READY_FOR_PICKUP = [P_DELIVERED]"
| "ORDER_PART_TRANSITIONS P_DELIVERED = []"
| "ORDER_PART_TRANSITIONS P_REJECTED = []"
| "ORDER_PART_TRANSITIONS P_EXPIRED = []"
| "ORDER_PART_TRANSITIONS P_CANCELLED = []"

definition FAILED_PART_STATUSES :: "part_status list" where
  "FAILED_PART_STATUSES = [P_REJECTED, P_EXPIRED]"

definition RESERVING_PART_STATUSES :: "part_status list" where
  "RESERVING_PART_STATUSES = [P_OFFERED, P_ACCEPTED, P_PROCESSING]"

definition canTransitionPart :: "part_status \<Rightarrow> part_status \<Rightarrow> bool" where
  "canTransitionPart s t = List.member (ORDER_PART_TRANSITIONS s) t"

lemma canTransitionPart_allowed: "canTransitionPart = allowed ORDER_PART_TRANSITIONS"
  by (simp add: fun_eq_iff canTransitionPart_def allowed_def)

fun part_rank :: "part_status \<Rightarrow> nat" where
  "part_rank P_OFFERED = 0"
| "part_rank P_ACCEPTED = 1"
| "part_rank P_PROCESSING = 2"
| "part_rank P_STOCK_DEDUCTED = 3"
| "part_rank P_IN_OUTPUT_ZONE = 4"
| "part_rank P_DISPATCHED = 5"
| "part_rank P_READY_FOR_PICKUP = 6"
| "part_rank P_DELIVERED = 7"
| "part_rank P_REJECTED = 7"
| "part_rank P_EXPIRED = 7"
| "part_rank P_CANCELLED = 7"

definition part_rewind :: "part_status \<Rightarrow> part_status \<Rightarrow> bool" where
  "part_rewind s t \<longleftrightarrow> s = P_PROCESSING \<and> t = P_ACCEPTED"

interpretation partlife: lifecycle ORDER_PART_TRANSITIONS part_rank part_rewind
proof
  fix s t
  show "\<not> allowed ORDER_PART_TRANSITIONS s s" by (cases s) (simp_all add: allowed_def)
  show "part_rank s < part_rank t"
    if "allowed ORDER_PART_TRANSITIONS s t" "\<not> part_rewind s t"
    using that by (cases s) (auto simp: allowed_def part_rewind_def)
  show "allowed ORDER_PART_TRANSITIONS s t" if "part_rewind s t"
    using that by (auto simp: allowed_def part_rewind_def)
qed

subsection \<open>Offers: \<open>order-offer-status.enum.ts\<close>\<close>

datatype offer_status = F_OFFERED | F_ACCEPTED | F_REJECTED | F_EXPIRED | F_WITHDRAWN

definition DISQUALIFYING_OFFER_STATUSES :: "offer_status list" where
  "DISQUALIFYING_OFFER_STATUSES = [F_REJECTED, F_EXPIRED]"

subsection \<open>Trips: \<open>delivery-trip-status.enum.ts\<close>\<close>

datatype trip_status = T_PLANNED | T_ASSIGNED | T_IN_PROGRESS | T_COMPLETED | T_CANCELLED

fun DELIVERY_TRIP_TRANSITIONS :: "trip_status \<Rightarrow> trip_status list" where
  "DELIVERY_TRIP_TRANSITIONS T_PLANNED = [T_ASSIGNED, T_CANCELLED]"
| "DELIVERY_TRIP_TRANSITIONS T_ASSIGNED = [T_IN_PROGRESS, T_PLANNED, T_CANCELLED]"
| "DELIVERY_TRIP_TRANSITIONS T_IN_PROGRESS = [T_COMPLETED, T_CANCELLED]"
| "DELIVERY_TRIP_TRANSITIONS T_COMPLETED = []"
| "DELIVERY_TRIP_TRANSITIONS T_CANCELLED = []"

definition canTransitionTrip :: "trip_status \<Rightarrow> trip_status \<Rightarrow> bool" where
  "canTransitionTrip s t = List.member (DELIVERY_TRIP_TRANSITIONS s) t"

fun trip_rank :: "trip_status \<Rightarrow> nat" where
  "trip_rank T_PLANNED = 0"
| "trip_rank T_ASSIGNED = 1"
| "trip_rank T_IN_PROGRESS = 2"
| "trip_rank T_COMPLETED = 3"
| "trip_rank T_CANCELLED = 3"

definition trip_rewind :: "trip_status \<Rightarrow> trip_status \<Rightarrow> bool" where
  "trip_rewind s t \<longleftrightarrow> s = T_ASSIGNED \<and> t = T_PLANNED"

interpretation triplife: lifecycle DELIVERY_TRIP_TRANSITIONS trip_rank trip_rewind
proof
  fix s t
  show "\<not> allowed DELIVERY_TRIP_TRANSITIONS s s" by (cases s) (simp_all add: allowed_def)
  show "trip_rank s < trip_rank t"
    if "allowed DELIVERY_TRIP_TRANSITIONS s t" "\<not> trip_rewind s t"
    using that by (cases s) (auto simp: allowed_def trip_rewind_def)
  show "allowed DELIVERY_TRIP_TRANSITIONS s t" if "trip_rewind s t"
    using that by (auto simp: allowed_def trip_rewind_def)
qed

subsection \<open>Roles, fulfilment, complaints, periods\<close>

datatype role = CITIZEN | INSTITUTIONS | COLLECTOR | FACTORY | EXTERNAL_PARTNER | ADMIN

datatype fulfilment_mode = DELIVERY | PICKUP

definition canUseDelivery :: "role \<Rightarrow> bool" where
  "canUseDelivery r = List.member [FACTORY] r"

definition resolveFulfilmentMode :: "role \<Rightarrow> fulfilment_mode option \<Rightarrow> fulfilment_mode" where
  "resolveFulfilmentMode r requested =
     (if requested = Some DELIVERY \<and> canUseDelivery r then DELIVERY else PICKUP)"

datatype complaint_kind = SHORTAGE | QUALITY | K_DELIVERY | BILLING | OTHER

datatype complaint_route = R_WAREHOUSE | R_ADMIN

datatype complaint_status = OPEN | IN_REVIEW | RESOLVED | REJECTED

fun routeFor :: "complaint_kind \<Rightarrow> complaint_route" where
  "routeFor SHORTAGE = R_WAREHOUSE"
| "routeFor QUALITY = R_WAREHOUSE"
| "routeFor K_DELIVERY = R_ADMIN"
| "routeFor BILLING = R_ADMIN"
| "routeFor OTHER = R_ADMIN"

datatype cap_period = DAILY | MONTHLY

subsection \<open>The derived order status: \<open>derive-order-status.ts\<close>\<close>

definition live_status :: "part_status \<Rightarrow> bool" where
  "live_status p \<longleftrightarrow> \<not> List.member FAILED_PART_STATUSES p \<and> p \<noteq> P_CANCELLED"

definition deriveOrderStatus :: "fulfilment_mode \<Rightarrow> part_status list \<Rightarrow> order_status option" where
  "deriveOrderStatus mode parts =
     (let live = filter live_status parts;
          every = (\<lambda>xs. list_all (List.member xs) live)
      in if live = [] then None
         else if every [P_DELIVERED] then Some DELIVERED
         else if every [P_DISPATCHED, P_DELIVERED] then Some IN_TRANSIT
         else if every [P_READY_FOR_PICKUP, P_DELIVERED] then Some READY_FOR_PICKUP
         else if every [P_ACCEPTED, P_PROCESSING, P_STOCK_DEDUCTED, P_IN_OUTPUT_ZONE,
                        P_DISPATCHED, P_READY_FOR_PICKUP, P_DELIVERED]
         then Some PREPARING
         else Some AWAITING_APPROVAL)"

subsection \<open>Odoo events: \<open>order-event-map.ts\<close>\<close>

definition ODOO_EVENT_TO_PART_STATUS :: "(string \<times> part_status) list" where
  "ODOO_EVENT_TO_PART_STATUS =
     [(''manager_approved'', P_ACCEPTED), (''manager_rejected'', P_REJECTED),
      (''processing'', P_PROCESSING), (''stock_deducted'', P_STOCK_DEDUCTED),
      (''completed'', P_IN_OUTPUT_ZONE)]"

definition HANDOVER_TYPE_TO_PART_STATUS :: "(string \<times> part_status) list" where
  "HANDOVER_TYPE_TO_PART_STATUS = [(''carrier'', P_DISPATCHED), (''buyer'', P_DELIVERED)]"

definition resolvePartStatus :: "string \<Rightarrow> string option \<Rightarrow> part_status option" where
  "resolvePartStatus event handoverType =
     (if event = ''handed_over''
      then map_of HANDOVER_TYPE_TO_PART_STATUS (case handoverType of None \<Rightarrow> [] | Some h \<Rightarrow> h)
      else map_of ODOO_EVENT_TO_PART_STATUS event)"

definition autoAdvanceAfterPreparation ::
    "part_status \<Rightarrow> fulfilment_mode \<Rightarrow> bool \<Rightarrow> part_status option" where
  "autoAdvanceAfterPreparation status mode consolidate =
     (if status \<noteq> P_IN_OUTPUT_ZONE then None
      else if consolidate then None
      else if mode = PICKUP then Some P_READY_FOR_PICKUP else None)"

subsection \<open>The split test: \<open>latest-round-split.ts\<close>\<close>

text \<open>A ledger entry is a round number with the part offered in it.\<close>

definition latestRoundWasSplit :: "(nat \<times> ident) list \<Rightarrow> bool" where
  "latestRoundWasSplit offers =
     (if length offers < 2 then False
      else let latest = Max (set (map fst offers));
               partsInLatest = uniq (map snd (filter (\<lambda>o1. fst o1 = latest) offers))
           in 1 < length partsInLatest)"

subsection \<open>Facts about the life cycles\<close>

lemma order_committed_closed:
  "moves ORDER_TRANSITIONS s t \<Longrightarrow>
   s \<in> {PREPARING, IN_TRANSIT, CONSOLIDATING, READY_FOR_PICKUP, DELIVERED, COMPLETED} \<Longrightarrow>
   t \<in> {PREPARING, IN_TRANSIT, CONSOLIDATING, READY_FOR_PICKUP, DELIVERED, COMPLETED}"
  by (erule ordlife.closed_set) (auto simp: allowed_def)

lemma part_committed_closed:
  "moves ORDER_PART_TRANSITIONS s t \<Longrightarrow>
   s \<in> {P_STOCK_DEDUCTED, P_IN_OUTPUT_ZONE, P_DISPATCHED, P_READY_FOR_PICKUP, P_DELIVERED} \<Longrightarrow>
   t \<in> {P_STOCK_DEDUCTED, P_IN_OUTPUT_ZONE, P_DISPATCHED, P_READY_FOR_PICKUP, P_DELIVERED}"
  by (erule partlife.closed_set) (auto simp: allowed_def)

lemma buyer_cancellable_iff:
  "List.member BUYER_CANCELLABLE_STATUSES s = canTransition s CANCELLED"
  by (cases s) (simp_all add: BUYER_CANCELLABLE_STATUSES_def canTransition_def)

lemma order_rank_le: "order_rank s \<le> 7"
  by (cases s) simp_all

lemma part_rank_le: "part_rank s \<le> 7"
  by (cases s) simp_all

fun derived_stage :: "order_status option \<Rightarrow> nat" where
  "derived_stage (Some AWAITING_APPROVAL) = 0"
| "derived_stage (Some PREPARING) = 1"
| "derived_stage (Some IN_TRANSIT) = 2"
| "derived_stage (Some READY_FOR_PICKUP) = 2"
| "derived_stage (Some DELIVERED) = 3"
| "derived_stage _ = 0"

lemma live_status_simps [simp]:
  "live_status P_OFFERED" "live_status P_ACCEPTED" "live_status P_PROCESSING"
  "live_status P_STOCK_DEDUCTED" "live_status P_IN_OUTPUT_ZONE" "live_status P_DISPATCHED"
  "live_status P_READY_FOR_PICKUP" "live_status P_DELIVERED"
  "\<not> live_status P_REJECTED" "\<not> live_status P_EXPIRED" "\<not> live_status P_CANCELLED"
  by (simp_all add: live_status_def FAILED_PART_STATUSES_def)

lemma derive_None: "deriveOrderStatus m ps = None \<longleftrightarrow> filter live_status ps = []"
  by (simp add: deriveOrderStatus_def Let_def)

definition lives :: "part_status list \<Rightarrow> part_status set" where
  "lives ps = {p \<in> set ps. live_status p}"

lemma live_cases:
  "live_status p \<Longrightarrow> p = P_OFFERED \<or> p \<in> {P_ACCEPTED, P_PROCESSING, P_STOCK_DEDUCTED,
     P_IN_OUTPUT_ZONE, P_DISPATCHED, P_READY_FOR_PICKUP, P_DELIVERED}"
  by (cases p) auto

lemma lives_not_offered:
  "lives ps \<subseteq> {P_ACCEPTED, P_PROCESSING, P_STOCK_DEDUCTED, P_IN_OUTPUT_ZONE, P_DISPATCHED,
     P_READY_FOR_PICKUP, P_DELIVERED} \<longleftrightarrow> P_OFFERED \<notin> lives ps"
  unfolding lives_def using live_cases by blast

text \<open>The derivation reads nothing but the set of live statuses.\<close>

lemma derive_by_set:
  "deriveOrderStatus m ps =
     (if lives ps = {} then None
      else if lives ps \<subseteq> {P_DELIVERED} then Some DELIVERED
      else if lives ps \<subseteq> {P_DISPATCHED, P_DELIVERED} then Some IN_TRANSIT
      else if lives ps \<subseteq> {P_READY_FOR_PICKUP, P_DELIVERED} then Some READY_FOR_PICKUP
      else if P_OFFERED \<notin> lives ps then Some PREPARING
      else Some AWAITING_APPROVAL)"
proof -
  have "list_all (List.member xs) (filter live_status ps) \<longleftrightarrow> lives ps \<subseteq> set xs" for xs
    by (auto simp: list_all_iff lives_def)
  moreover have "filter live_status ps = [] \<longleftrightarrow> lives ps = {}"
    by (auto simp: lives_def filter_empty_conv)
  ultimately show ?thesis
    unfolding deriveOrderStatus_def Let_def
    by (simp only: list.set insert_is_Un [symmetric] lives_not_offered if_True if_False)
qed

lemma derive_Delivered:
  "deriveOrderStatus m ps = Some DELIVERED \<longleftrightarrow> lives ps = {P_DELIVERED}"
  by (simp add: derive_by_set subset_singleton_iff)

lemma derive_In_transit:
  "deriveOrderStatus m ps = Some IN_TRANSIT \<longleftrightarrow>
   P_DISPATCHED \<in> lives ps \<and> lives ps \<subseteq> {P_DISPATCHED, P_DELIVERED}"
  unfolding derive_by_set by (simp split: if_splits) blast

lemma derive_Ready:
  "deriveOrderStatus m ps = Some READY_FOR_PICKUP \<longleftrightarrow>
   P_READY_FOR_PICKUP \<in> lives ps \<and> lives ps \<subseteq> {P_READY_FOR_PICKUP, P_DELIVERED}"
  unfolding derive_by_set by (simp split: if_splits) blast

lemma derive_Awaiting:
  "deriveOrderStatus m ps = Some AWAITING_APPROVAL \<longleftrightarrow> P_OFFERED \<in> lives ps"
  unfolding derive_by_set by (simp split: if_splits) blast

subsection \<open>Properties\<close>

text \<open>The point of no return.  A buyer may cancel exactly in the statuses from which the life
  cycle allows CANCELLED, and once an order is being prepared no sequence of allowed moves leads
  to CANCELLED or back to a status the buyer can cancel.\<close>

theorem order_point_of_no_return:
  assumes "moves ORDER_TRANSITIONS PREPARING s"
  shows "s \<noteq> CANCELLED \<and> \<not> List.member BUYER_CANCELLABLE_STATUSES s"
proof -
  have "s \<in> {PREPARING, IN_TRANSIT, CONSOLIDATING, READY_FOR_PICKUP, DELIVERED, COMPLETED}"
    using order_committed_closed [OF assms] by simp
  then show ?thesis by (auto simp: BUYER_CANCELLABLE_STATUSES_def)
qed

theorem order_point_of_no_return_witness:
  "\<not> List.member BUYER_CANCELLABLE_STATUSES READY_FOR_PICKUP"
proof -
  have "moves ORDER_TRANSITIONS PREPARING CONSOLIDATING"
    by (rule moves.move [OF moves.stay]) (simp add: allowed_def)
  then have "moves ORDER_TRANSITIONS PREPARING READY_FOR_PICKUP"
    by (rule moves.move) (simp add: allowed_def)
  then show ?thesis using order_point_of_no_return by blast
qed

text \<open>Goods that left the shelf cannot be un-deducted: from STOCK_DEDUCTED on no sequence of
  allowed moves makes a part fail, cancels it, or returns it to a status that holds a
  reservation, and every such sequence has at most four moves.\<close>

theorem part_committed:
  assumes "legal_run ORDER_PART_TRANSITIONS P_STOCK_DEDUCTED ss" and "s \<in> set ss"
  shows "\<not> List.member FAILED_PART_STATUSES s \<and> s \<noteq> P_CANCELLED
    \<and> \<not> List.member RESERVING_PART_STATUSES s \<and> length ss \<le> 4"
proof -
  have s: "s \<in> {P_STOCK_DEDUCTED, P_IN_OUTPUT_ZONE, P_DISPATCHED, P_READY_FOR_PICKUP, P_DELIVERED}"
    using part_committed_closed [OF legal_run_moves [OF assms]] by simp
  have no_rewind: "partlife.rewinds t ts = 0"
    if "t \<in> {P_STOCK_DEDUCTED, P_IN_OUTPUT_ZONE, P_DISPATCHED, P_READY_FOR_PICKUP, P_DELIVERED}"
      "legal_run ORDER_PART_TRANSITIONS t ts" for t ts
    using that
  proof (induction ts arbitrary: t)
    case (Cons u us)
    have "moves ORDER_PART_TRANSITIONS t u" using Cons.prems(2) by (simp add: moves_step)
    note u = part_committed_closed [OF this Cons.prems(1)]
    have "\<not> part_rewind t u" using Cons.prems(1) by (auto simp: part_rewind_def)
    then show ?case using Cons.IH [OF u] Cons.prems(2) by simp
  qed simp
  have "length ss \<le> 4"
    using partlife.run_length [OF part_rank_le assms(1)] no_rewind [OF _ assms(1)] by simp
  with s show ?thesis by (auto simp: FAILED_PART_STATUSES_def RESERVING_PART_STATUSES_def)
qed

theorem part_committed_witness:
  "legal_run ORDER_PART_TRANSITIONS P_STOCK_DEDUCTED
     [P_IN_OUTPUT_ZONE, P_DISPATCHED, P_READY_FOR_PICKUP, P_DELIVERED]
   \<and> \<not> List.member RESERVING_PART_STATUSES P_DELIVERED"
  using part_committed [of "[P_IN_OUTPUT_ZONE, P_DISPATCHED, P_READY_FOR_PICKUP, P_DELIVERED]" P_DELIVERED]
  by (simp add: allowed_def)

text \<open>The slowest part decides.  The order derived from its parts is DELIVERED exactly when every
  live part is; IN_TRANSIT exactly when all live parts left and some is still on the road;
  READY_FOR_PICKUP exactly when all wait or were collected and some still waits; and it awaits
  approval exactly when some part is still offered.  No status is derived exactly when no part
  is live.\<close>

theorem derive_slowest_part:
  "(deriveOrderStatus m ps = None \<longleftrightarrow> lives ps = {})
   \<and> (deriveOrderStatus m ps = Some DELIVERED \<longleftrightarrow> lives ps = {P_DELIVERED})
   \<and> (deriveOrderStatus m ps = Some IN_TRANSIT \<longleftrightarrow>
        P_DISPATCHED \<in> lives ps \<and> lives ps \<subseteq> {P_DISPATCHED, P_DELIVERED})
   \<and> (deriveOrderStatus m ps = Some READY_FOR_PICKUP \<longleftrightarrow>
        P_READY_FOR_PICKUP \<in> lives ps \<and> lives ps \<subseteq> {P_READY_FOR_PICKUP, P_DELIVERED})
   \<and> (deriveOrderStatus m ps = Some AWAITING_APPROVAL \<longleftrightarrow> P_OFFERED \<in> lives ps)"
  using derive_Delivered derive_In_transit derive_Ready derive_Awaiting
  by (auto simp: derive_None lives_def filter_empty_conv)

text \<open>Progress of a part never sets the order back: when one live part makes an allowed move to
  a live status, the stage of the derived order status does not fall, except where a gathered
  part of a consolidation arrives at the warehouse it is collected from.\<close>

theorem derive_monotone:
  assumes "canTransitionPart p q" and "live_status p" and "live_status q"
    and "\<not> (p = P_DISPATCHED \<and> q = P_READY_FOR_PICKUP)"
  shows "derived_stage (deriveOrderStatus m (ps @ p # qs))
       \<le> derived_stage (deriveOrderStatus m (ps @ q # qs))"
proof -
  let ?R = "lives (ps @ qs)"
  have l: "lives (ps @ p # qs) = insert p ?R" "lives (ps @ q # qs) = insert q ?R"
    using assms(2,3) by (auto simp: lives_def)
  show ?thesis unfolding derive_by_set l using assms
    by (cases p; cases q) (simp_all add: canTransitionPart_def)
qed

theorem derive_monotone_witness:
  "derived_stage (deriveOrderStatus DELIVERY [P_IN_OUTPUT_ZONE, P_DISPATCHED]) = 1
   \<and> derived_stage (deriveOrderStatus DELIVERY [P_DISPATCHED, P_DISPATCHED]) = 2
   \<and> derived_stage (deriveOrderStatus DELIVERY [P_IN_OUTPUT_ZONE, P_DISPATCHED])
     \<le> derived_stage (deriveOrderStatus DELIVERY [P_DISPATCHED, P_DISPATCHED])"
  using derive_monotone [of P_IN_OUTPUT_ZONE P_DISPATCHED DELIVERY "[]" "[P_DISPATCHED]"]
  by (simp add: canTransitionPart_def deriveOrderStatus_def)

text \<open>
  The excepted move does set the derived stage back: of two parts on the road the first to arrive
  makes the derived status PREPARING again.
\<close>

lemma gathered_part_sets_back:
  "deriveOrderStatus PICKUP [P_DISPATCHED, P_DISPATCHED] = Some IN_TRANSIT
   \<and> deriveOrderStatus PICKUP [P_READY_FOR_PICKUP, P_DISPATCHED] = Some PREPARING"
  by (simp add: deriveOrderStatus_def)

end
