(* ===== verification/PriceRules.thy ===== *)
theory PriceRules
  imports Prelude OrderLifecycle
begin

text \<open>
  The pure rules of the price list: the tiers (\<open>enums/pricing-tier.enum.ts\<close>), the two sides an
  offer can be for and the direction it moves the price in (\<open>enums/offer-audience.enum.ts\<close>), and
  the two ways an offer is expressed (\<open>enums/offer-basis.enum.ts\<close>), all under
  \<open>waste-management\<close>.
\<close>

subsection \<open>Tiers\<close>

datatype pricing_tier = INDIVIDUAL | COMPANY | TIER_FACTORY | FREE_FACILITY

fun tierForRole :: "role \<Rightarrow> pricing_tier" where
  "tierForRole CITIZEN = INDIVIDUAL"
| "tierForRole INSTITUTIONS = COMPANY"
| "tierForRole FACTORY = TIER_FACTORY"
| "tierForRole EXTERNAL_PARTNER = FREE_FACILITY"
| "tierForRole _ = INDIVIDUAL"

subsection \<open>Audiences\<close>

datatype offer_audience = SELLERS | BUYERS

fun AUDIENCE_ROLES :: "offer_audience \<Rightarrow> role list" where
  "AUDIENCE_ROLES SELLERS = [CITIZEN, INSTITUTIONS]"
| "AUDIENCE_ROLES BUYERS = [FACTORY, EXTERNAL_PARTNER]"

definition audienceForRole :: "role \<Rightarrow> offer_audience option" where
  "audienceForRole r =
     (if List.member (AUDIENCE_ROLES SELLERS) r then Some SELLERS
      else if List.member (AUDIENCE_ROLES BUYERS) r then Some BUYERS
      else None)"

definition audienceIsGraded :: "offer_audience \<Rightarrow> bool" where
  "audienceIsGraded audience \<longleftrightarrow> audience = BUYERS"

definition priceAfterOffer :: "rat \<Rightarrow> rat \<Rightarrow> offer_audience \<Rightarrow> rat" where
  "priceAfterOffer basePrice amount audience =
     (let moved = (if audience = SELLERS then basePrice + amount else basePrice - amount)
      in max (round3 moved) 0)"

definition offerPercentage :: "rat \<Rightarrow> rat \<Rightarrow> rat" where
  "offerPercentage basePrice amount =
     (if basePrice = 0 \<or> basePrice \<le> 0 then 0
      else of_int (math_round ((amount / basePrice) * 100 * 100)) / 100)"

definition tiersForAudience :: "offer_audience \<Rightarrow> role list option \<Rightarrow> pricing_tier list" where
  "tiersForAudience audience roles =
     map tierForRole (case roles of Some (r # rs) \<Rightarrow> r # rs | _ \<Rightarrow> AUDIENCE_ROLES audience)"

subsection \<open>Bases\<close>

datatype offer_basis = BASIS_AMOUNT | BASIS_PERCENTAGE

definition amountFromPercentage :: "rat \<Rightarrow> rat \<Rightarrow> rat" where
  "amountFromPercentage basePrice percentage = round3 (basePrice * (percentage / 100))"

subsection \<open>Facts\<close>

lemma audience_of_tier_role [simp]: "audienceForRole r = Some a \<longleftrightarrow> r \<in> set (AUDIENCE_ROLES a)"
  by (cases r; cases a) (auto simp: audienceForRole_def)

lemma priceAfterOffer_nonneg: "0 \<le> priceAfterOffer b x a"
  by (simp add: priceAfterOffer_def Let_def)

lemma priceAfterOffer_sellers: "0 \<le> b \<Longrightarrow> 0 \<le> x \<Longrightarrow> milli b \<Longrightarrow> milli x \<Longrightarrow>
   priceAfterOffer b x SELLERS = b + x"
  by (simp add: priceAfterOffer_def Let_def)

lemma priceAfterOffer_buyers: "x \<le> b \<Longrightarrow> milli b \<Longrightarrow> milli x \<Longrightarrow> priceAfterOffer b x BUYERS = b - x"
  by (simp add: priceAfterOffer_def Let_def)

lemma milli_priceAfterOffer [simp]: "milli (priceAfterOffer b x a)"
  by (simp add: priceAfterOffer_def Let_def)

text \<open>A promised share of a positive price never reaches the whole of it below a hundred percent,
  up to the rounding to a thousandth.\<close>

lemma amountFromPercentage_bounds:
  assumes "0 \<le> b" and "milli b" and "0 \<le> q" and "q \<le> 100"
  shows "0 \<le> amountFromPercentage b q \<and> amountFromPercentage b q \<le> b"
proof -
  have "b * (q / 100) \<le> b * 1" using assms by (intro mult_left_mono) auto
  then have "round3 (b * (q / 100)) \<le> round3 b" by (intro round3_mono) simp
  then show ?thesis using assms by (simp add: amountFromPercentage_def round3_nonneg)
qed

end
