(* ===== verification/Actions.thy ===== *)
theory Actions
  imports Prelude
begin

text \<open>
  What every service is written in: an action takes a state to a result or an exception and to the
  state it leaves behind, so the writes made before an exception stay.  The state is a parameter:
  the order services run on one database record, the collection services on another.
\<close>

section \<open>Actions\<close>

type_synonym ('s, 'a) act = "'s \<Rightarrow> (err + 'a) \<times> 's"

definition ret :: "'a \<Rightarrow> ('s, 'a) act" where
  "ret x = (\<lambda>s. (Inr x, s))"

definition throw :: "err \<Rightarrow> ('s, 'a) act" where
  "throw e = (\<lambda>s. (Inl e, s))"

definition bind :: "('s, 'a) act \<Rightarrow> ('a \<Rightarrow> ('s, 'b) act) \<Rightarrow> ('s, 'b) act" where
  "bind m f = (\<lambda>s. case m s of (Inl e, s') \<Rightarrow> (Inl e, s') | (Inr x, s') \<Rightarrow> f x s')"

definition reads :: "('s \<Rightarrow> 'a) \<Rightarrow> ('s, 'a) act" where
  "reads f = (\<lambda>s. (Inr (f s), s))"

definition writes :: "('s \<Rightarrow> 's) \<Rightarrow> ('s, unit) act" where
  "writes f = (\<lambda>s. (Inr (), f s))"

text \<open>\<open>if (cond) throw ...\<close>\<close>

definition refuse_if :: "bool \<Rightarrow> err \<Rightarrow> ('s, unit) act" where
  "refuse_if b e = (if b then throw e else ret ())"

text \<open>\<open>for (const x of xs) await f(x)\<close>\<close>

fun for_each :: "'a list \<Rightarrow> ('a \<Rightarrow> ('s, unit) act) \<Rightarrow> ('s, unit) act" where
  "for_each [] f = ret ()"
| "for_each (x # xs) f = bind (f x) (\<lambda>_. for_each xs f)"

text \<open>A loop that collects what each round returns.\<close>

fun collect :: "'a list \<Rightarrow> ('a \<Rightarrow> ('s, 'b) act) \<Rightarrow> ('s, 'b list) act" where
  "collect [] f = ret []"
| "collect (x # xs) f = bind (f x) (\<lambda>y. bind (collect xs f) (\<lambda>ys. ret (y # ys)))"

text \<open>\<open>await m.catch(log)\<close>: an exception is swallowed, the writes stay.\<close>

definition best_effort :: "('s, 'a) act \<Rightarrow> ('s, unit) act" where
  "best_effort m = (\<lambda>s. (Inr (), snd (m s)))"

lemma ret_apply [simp]: "ret x s = (Inr x, s)"
  by (simp add: ret_def)

lemma throw_apply [simp]: "throw e s = (Inl e, s)"
  by (simp add: throw_def)

lemma reads_apply [simp]: "reads f s = (Inr (f s), s)"
  by (simp add: reads_def)

lemma writes_apply [simp]: "writes f s = (Inr (), f s)"
  by (simp add: writes_def)

lemma refuse_if_apply [simp]: "refuse_if b e s = (if b then (Inl e, s) else (Inr (), s))"
  by (simp add: refuse_if_def)

lemma bind_Inr: "m s = (Inr x, s') \<Longrightarrow> bind m f s = f x s'"
  by (simp add: bind_def)

lemma bind_Inl: "m s = (Inl e, s') \<Longrightarrow> bind m f s = (Inl e, s')"
  by (simp add: bind_def)

lemma bind_ret [simp]: "bind (ret x) f = f x"
  by (simp add: fun_eq_iff bind_def)

lemma bind_throw [simp]: "bind (throw e) f = throw e"
  by (simp add: fun_eq_iff bind_def)

lemma bind_reads [simp]: "bind (reads g) f s = f (g s) s"
  by (simp add: bind_def)

lemma bind_writes [simp]: "bind (writes g) f s = f () (g s)"
  by (simp add: bind_def)

lemma bind_pure [simp]: "bind (\<lambda>s. (Inr (g s), h s)) f s = f (g s) (h s)"
  by (simp add: bind_def)

lemma bind_refuse_if [simp]: "bind (refuse_if b e) f s = (if b then (Inl e, s) else f () s)"
  by (simp add: bind_def)

lemma bind_assoc: "bind (bind m f) g = bind m (\<lambda>x. bind (f x) g)"
  by (auto simp: fun_eq_iff bind_def split: prod.splits sum.splits)

lemma bind_Inr_iff:
  "bind m f s = (Inr y, s'') \<longleftrightarrow> (\<exists>x s'. m s = (Inr x, s') \<and> f x s' = (Inr y, s''))"
  by (auto simp: bind_def split: prod.splits sum.splits)

lemma bind_Inl_iff:
  "bind m f s = (Inl e, s'') \<longleftrightarrow>
     m s = (Inl e, s'') \<or> (\<exists>x s'. m s = (Inr x, s') \<and> f x s' = (Inl e, s''))"
  by (auto simp: bind_def split: prod.splits sum.splits)

subsection \<open>Invariants of actions\<close>

text \<open>
  \<open>keeps I m\<close>: whether \<open>m\<close> returns or throws, it leaves a store satisfying \<open>I\<close> from one that does.
  The rules are collected so that the invariant of a handler follows from those of its steps.
\<close>

definition keeps :: "('s \<Rightarrow> bool) \<Rightarrow> ('s, 'a) act \<Rightarrow> bool" where
  "keeps I m \<longleftrightarrow> (\<forall>s. I s \<longrightarrow> I (snd (m s)))"

named_theorems keeps_rules \<open>invariant rules for actions\<close>

lemma keepsD: "keeps I m \<Longrightarrow> I s \<Longrightarrow> m s = (r, s') \<Longrightarrow> I s'"
  by (metis keeps_def snd_conv)

lemma keeps_ret [keeps_rules]: "keeps I (ret x)"
  by (simp add: keeps_def)

lemma keeps_throw [keeps_rules]: "keeps I (throw e)"
  by (simp add: keeps_def)

lemma keeps_reads [keeps_rules]: "keeps I (reads f)"
  by (simp add: keeps_def)

lemma keeps_refuse_if [keeps_rules]: "keeps I (refuse_if b e)"
  by (simp add: keeps_def)

lemma keeps_bind [keeps_rules]:
  "keeps I m \<Longrightarrow> (\<And>x. keeps I (f x)) \<Longrightarrow> keeps I (bind m f)"
  unfolding keeps_def bind_def by (auto split: prod.splits sum.splits)

lemma keeps_if [keeps_rules]:
  "(b \<Longrightarrow> keeps I m) \<Longrightarrow> (\<not> b \<Longrightarrow> keeps I m') \<Longrightarrow> keeps I (if b then m else m')"
  by simp

lemma keeps_option [keeps_rules]:
  "(x = None \<Longrightarrow> keeps I m) \<Longrightarrow> (\<And>y. x = Some y \<Longrightarrow> keeps I (f y)) \<Longrightarrow>
   keeps I (case x of None \<Rightarrow> m | Some y \<Rightarrow> f y)"
  by (cases x) auto

lemma keeps_prod [keeps_rules]:
  "(\<And>x y. p = (x, y) \<Longrightarrow> keeps I (f x y)) \<Longrightarrow> keeps I (case p of (x, y) \<Rightarrow> f x y)"
  by (cases p) auto

lemma keeps_let [keeps_rules]: "(\<And>x. x = v \<Longrightarrow> keeps I (f x)) \<Longrightarrow> keeps I (let x = v in f x)"
  by simp

lemma keeps_for_each [keeps_rules]:
  "(\<And>x. x \<in> set xs \<Longrightarrow> keeps I (f x)) \<Longrightarrow> keeps I (for_each xs f)"
  by (induction xs) (auto intro: keeps_rules)

lemma keeps_collect [keeps_rules]:
  "(\<And>x. x \<in> set xs \<Longrightarrow> keeps I (f x)) \<Longrightarrow> keeps I (collect xs f)"
  by (induction xs) (auto intro!: keeps_rules)

lemma keeps_best_effort [keeps_rules]: "keeps I m \<Longrightarrow> keeps I (best_effort m)"
  by (simp add: keeps_def best_effort_def)

subsection \<open>Pre- and postconditions of actions\<close>

text \<open>
  \<open>triple P m Q E\<close>: from a store satisfying \<open>P\<close>, \<open>m\<close> either returns some \<open>x\<close> and leaves a store with
  \<open>Q x\<close>, or throws and leaves one with \<open>E\<close>.  \<open>keeps I m\<close> is the case where all three are \<open>I\<close>.
\<close>

definition triple :: "('s \<Rightarrow> bool) \<Rightarrow> ('s, 'a) act \<Rightarrow> ('a \<Rightarrow> 's \<Rightarrow> bool) \<Rightarrow> ('s \<Rightarrow> bool) \<Rightarrow> bool" where
  "triple P m Q E \<longleftrightarrow> (\<forall>s. P s \<longrightarrow> (case m s of (Inl e, s') \<Rightarrow> E s' | (Inr x, s') \<Rightarrow> Q x s'))"

named_theorems triple_rules \<open>pre- and postcondition rules for actions\<close>

lemma tripleI:
  "(\<And>s e s'. P s \<Longrightarrow> m s = (Inl e, s') \<Longrightarrow> E s') \<Longrightarrow>
   (\<And>s x s'. P s \<Longrightarrow> m s = (Inr x, s') \<Longrightarrow> Q x s') \<Longrightarrow> triple P m Q E"
  by (fastforce simp: triple_def split: prod.splits sum.splits)

lemma triple_InrD: "triple P m Q E \<Longrightarrow> P s \<Longrightarrow> m s = (Inr x, s') \<Longrightarrow> Q x s'"
  by (fastforce simp: triple_def)

lemma triple_InlD: "triple P m Q E \<Longrightarrow> P s \<Longrightarrow> m s = (Inl e, s') \<Longrightarrow> E s'"
  by (fastforce simp: triple_def)

lemma keeps_triple: "keeps (I :: 's \<Rightarrow> bool) (m :: ('s, 'a) act) \<longleftrightarrow> triple I m (\<lambda>_. I) I"
proof -
  have "I (snd p) \<longleftrightarrow> (case p of (Inl e, s') \<Rightarrow> I s' | (Inr x, s') \<Rightarrow> I s')" for p :: "(err + 'a) \<times> 's"
    by (auto split: prod.splits sum.splits)
  then show ?thesis by (simp add: keeps_def triple_def)
qed

lemma triple_conseq:
  "triple P' m Q' E' \<Longrightarrow> (\<And>s. P s \<Longrightarrow> P' s) \<Longrightarrow> (\<And>x s. Q' x s \<Longrightarrow> Q x s) \<Longrightarrow> (\<And>s. E' s \<Longrightarrow> E s) \<Longrightarrow>
   triple P m Q E"
  by (fastforce simp: triple_def split: prod.splits sum.splits)

lemma triple_pre: "triple P' m Q E \<Longrightarrow> (\<And>s. P s \<Longrightarrow> P' s) \<Longrightarrow> triple P m Q E"
  by (auto simp: triple_def)

lemma triple_ret [triple_rules]: "(\<And>s. P s \<Longrightarrow> Q x s) \<Longrightarrow> triple P (ret x) Q E"
  by (simp add: triple_def)

lemma triple_throw [triple_rules]: "(\<And>s. P s \<Longrightarrow> E s) \<Longrightarrow> triple P (throw e) Q E"
  by (simp add: triple_def)

lemma triple_reads [triple_rules]: "(\<And>s. P s \<Longrightarrow> Q (f s) s) \<Longrightarrow> triple P (reads f) Q E"
  by (simp add: triple_def)

lemma triple_writes [triple_rules]: "(\<And>s. P s \<Longrightarrow> Q () (f s)) \<Longrightarrow> triple P (writes f) Q E"
  by (simp add: triple_def)

lemma triple_bind_refuse [triple_rules]:
  "(\<And>s. b \<Longrightarrow> P s \<Longrightarrow> E s) \<Longrightarrow> (\<not> b \<Longrightarrow> triple P (f ()) Q E) \<Longrightarrow> triple P (bind (refuse_if b e) f) Q E"
  by (simp add: triple_def)

lemma triple_bind_reads [triple_rules]:
  "(\<And>x. triple (\<lambda>s. P s \<and> x = g s) (f x) Q E) \<Longrightarrow> triple P (bind (reads g) f) Q E"
  by (simp add: triple_def)

lemma triple_bind:
  "triple P m R E \<Longrightarrow> (\<And>x. triple (R x) (f x) Q E) \<Longrightarrow> triple P (bind m f) Q E"
  by (fastforce simp: triple_def bind_def split: prod.splits sum.splits)

lemma triple_option [triple_rules]:
  "(x = None \<Longrightarrow> triple P m Q E) \<Longrightarrow> (\<And>y. x = Some y \<Longrightarrow> triple P (f y) Q E) \<Longrightarrow>
   triple P (case x of None \<Rightarrow> m | Some y \<Rightarrow> f y) Q E"
  by (cases x) auto

lemma triple_if [triple_rules]:
  "(b \<Longrightarrow> triple P m Q E) \<Longrightarrow> (\<not> b \<Longrightarrow> triple P m' Q E) \<Longrightarrow> triple P (if b then m else m') Q E"
  by simp

lemma triple_let [triple_rules]: "(\<And>x. x = v \<Longrightarrow> triple P (f x) Q E) \<Longrightarrow> triple P (let x = v in f x) Q E"
  by simp

section \<open>Tables\<close>

text \<open>
  What a repository promises: reading gives back the rows last written, a write replaces the
  earlier one, and writing back what is there changes nothing.
\<close>

locale repository =
  fixes rows :: "'s \<Rightarrow> 'r list" and put :: "'r list \<Rightarrow> 's \<Rightarrow> 's" and key :: "'r \<Rightarrow> ident"
  assumes rows_put: "rows (put rs s) = rs"
    and put_put: "put rs' (put rs s) = put rs' s"
    and put_rows: "put (rows s) s = s"
begin

lemma find_save:
  "tbl_find key k (rows (put (tbl_save key r (rows s)) s)) =
     (if k = key r then Some r else tbl_find key k (rows s))"
  by (simp add: rows_put tbl_find_save)

lemma save_distinct:
  "distinct (map key (rows s)) \<Longrightarrow> distinct (map key (rows (put (tbl_save key r (rows s)) s)))"
  by (simp add: rows_put distinct_tbl_save)

lemma save_save:
  "key r' = key r \<Longrightarrow>
   put (tbl_save key r' (rows (put (tbl_save key r (rows s)) s))) (put (tbl_save key r (rows s)) s)
     = put (tbl_save key r' (rows s)) s"
proof -
  assume "key r' = key r"
  then have "tbl_save key r' (tbl_save key r xs) = tbl_save key r' xs" for xs
    by (induction xs) auto
  then show ?thesis by (simp add: rows_put put_put)
qed

lemma find_row: "tbl_find key k (rows s) = Some r \<Longrightarrow> r \<in> set (rows s) \<and> key r = k"
  by (rule tbl_find_SomeD)

end

end
