(* ===== verification/OrderStore.thy ===== *)
theory OrderStore
  imports PriceRules Actions
begin

text \<open>
  The database the order services share (\<open>order/entities/*.entity.ts\<close>,
  \<open>warehouse/entities/warehouse.entity.ts\<close>, \<open>warehouse-inventory.entity.ts\<close>,
  \<open>delivery-rate.entity.ts\<close>): one record per table row, one list of rows per table in insertion
  order, the queue of jobs handed to the Odoo worker, and the supply of row ids.  A service method
  is an \<open>action\<close>: it takes the store to a result or an exception, and to the store it leaves
  behind.  Writes made before an exception stay, unless the code runs in
  \<open>dataSource.transaction\<close> (\<open>transactional\<close>).  Decimal columns hold the written figure.
\<close>

section \<open>Rows\<close>

record requested_line =
  rq_productId :: ident
  rq_odooProductId :: int
  rq_productName :: string
  rq_conditionCode :: "string option"
  rq_quantity :: rat
  rq_unitType :: string
  rq_unitPrice :: rat

record order =
  o_id :: ident
  o_orderNumber :: string
  o_buyerAccountId :: ident
  o_buyerRole :: role
  o_buyerProfileId :: ident
  o_provinceId :: "ident option"
  o_status :: order_status
  o_fulfilmentMode :: fulfilment_mode
  o_consolidate :: bool
  o_consolidationWarehouseId :: "ident option"
  o_acceptPartialFulfilment :: bool
  o_allocationRound :: nat
  o_requestedLines :: "requested_line list option"
  o_goodsTotal :: rat
  o_deliveryTotal :: rat
  o_grandTotal :: rat
  o_currency :: string
  o_preparingAt :: "time option"
  o_deliveredAt :: "time option"
  o_completedAt :: "time option"
  o_cancelledAt :: "time option"
  o_cancelReason :: "string option"
  o_createdAt :: time

record order_part =
  p_id :: ident
  p_orderId :: ident
  p_warehouseId :: ident
  p_sequence :: nat
  p_status :: part_status
  p_odooOrderId :: "int option"
  p_stockReserved :: bool
  p_distanceKm :: rat
  p_deliveryCost :: rat
  p_goodsTotal :: rat
  p_invoiceNumber :: "string option"
  p_stockDeductedAt :: "time option"
  p_outputZoneName :: "string option"
  p_finishedAt :: "time option"
  p_dispatchedAt :: "time option"
  p_deliveredAt :: "time option"
  p_rejectReason :: "string option"

record order_part_line =
  l_id :: ident
  l_partId :: ident
  l_productId :: ident
  l_odooProductId :: int
  l_productName :: string
  l_conditionCode :: "string option"
  l_quantity :: rat
  l_unitType :: string
  l_unitPrice :: rat
  l_subtotal :: rat

record order_part_offer =
  f_id :: ident
  f_partId :: ident
  f_warehouseId :: ident
  f_orderId :: ident
  f_roundNumber :: nat
  f_status :: offer_status
  f_offeredAt :: time
  f_expiresAt :: time
  f_respondedAt :: "time option"
  f_rejectReason :: "string option"

record delivery_trip =
  t_id :: ident
  t_orderId :: ident
  t_isConsolidation :: bool
  t_destinationWarehouseId :: "ident option"
  t_tripNumber :: string
  t_originWarehouseId :: ident
  t_odooTruckId :: "int option"
  t_odooDriverId :: "int option"
  t_driverName :: "string option"
  t_driverPhone :: "string option"
  t_status :: trip_status
  t_routeDistanceKm :: rat
  t_deliveryCost :: rat
  t_ratePerKm :: rat
  t_baseFee :: rat
  t_currency :: string
  t_startedAt :: "time option"
  t_completedAt :: "time option"
  t_createdAt :: time

record delivery_trip_stop =
  s_id :: ident
  s_tripId :: ident
  s_partId :: ident
  s_warehouseId :: ident
  s_sequence :: nat
  s_distanceToBuyerKm :: rat
  s_legDistanceKm :: rat
  s_legCost :: rat
  s_pickedUpAt :: "time option"
  s_pickedUpNote :: "string option"

datatype warehouse_state = ACTIVE | CLOSING | INACTIVE

record warehouse =
  wh_id :: ident
  wh_name :: "string option"
  wh_odooWarehouseId :: "int option"
  wh_provinceId :: ident
  wh_state :: warehouse_state
  wh_latitude :: "rat option"
  wh_longitude :: "rat option"

record warehouse_inventory =
  i_warehouseId :: ident
  i_odooProductId :: int
  i_conditionCode :: string
  i_quantity :: rat
  i_reservedQuantity :: rat

record delivery_rate =
  dr_id :: ident
  dr_ratePerKm :: rat
  dr_baseFee :: rat
  dr_currency :: string
  dr_isActive :: bool
  dr_effectiveFrom :: time
  dr_effectiveUntil :: "time option"
  dr_createdBy :: "ident option"
  dr_updatedBy :: "ident option"

record order_minimum =
  m_id :: ident
  m_role :: role
  m_minOrderValue :: rat
  m_currency :: string
  m_isActive :: bool
  m_updatedBy :: "ident option"

record order_spending_cap =
  c_id :: ident
  c_role :: role
  c_maxAmount :: rat
  c_period :: cap_period
  c_currency :: string
  c_isActive :: bool
  c_updatedBy :: "ident option"

record order_part_rating =
  r_id :: ident
  r_partId :: ident
  r_warehouseId :: ident
  r_stars :: int
  r_note :: "string option"

record order_complaint =
  k_id :: ident
  k_partId :: "ident option"
  k_orderId :: ident
  k_warehouseId :: "ident option"
  k_kind :: complaint_kind
  k_route :: complaint_route
  k_status :: complaint_status
  k_description :: string
  k_claimedShortfall :: "rat option"
  k_resolution :: "string option"
  k_resolvedBy :: "ident option"
  k_resolvedAt :: "time option"

datatype distance_source = GOOGLE | HAVERSINE

record distance_cache =
  dc_buyerProfileId :: ident
  dc_warehouseId :: ident
  dc_distanceKm :: rat
  dc_source :: distance_source

subsection \<open>Catalogue, price list and baskets\<close>

text \<open>
  \<open>waste-management/entities\<close>: a material and its grades, the live price rows, the offers
  (here \<open>promo\<close>, an offer of an order being another thing), the basket of an account, its lines,
  and the measurement units.  \<open>buyer_profile\<close> is a row of the factory profiles or of the free
  facility profiles (\<open>bp_factory\<close> tells which table) with its governorate.
\<close>

record product =
  pd_id :: ident
  pd_name :: string
  pd_unitType :: string
  pd_unitWeightKg :: "rat option"
  pd_isActive :: bool
  pd_odooProductId :: "int option"

datatype sync_status = SYNC_PENDING | SYNCED | SYNC_FAILED

record material_condition =
  g_id :: ident
  g_productId :: ident
  g_code :: string
  g_nameEn :: string
  g_nameAr :: string
  g_sortOrder :: int
  g_isActive :: bool
  g_odooConditionId :: "int option"
  g_odooSyncStatus :: sync_status

record product_pricing =
  pr_id :: ident
  pr_productId :: ident
  pr_tier :: pricing_tier
  pr_conditionId :: "ident option"
  pr_conditionCode :: "string option"
  pr_price :: rat
  pr_currency :: string
  pr_effectiveFrom :: time
  pr_effectiveUntil :: "time option"

record promo =
  of_id :: ident
  of_productId :: ident
  of_targetRoles :: "role list option"
  of_conditionId :: "ident option"
  of_conditionCode :: "string option"
  of_audience :: offer_audience
  of_amount :: rat
  of_discountPercentage :: rat
  of_basis :: offer_basis
  of_basisPercentage :: "rat option"
  of_validFrom :: time
  of_validUntil :: "time option"
  of_isActive :: bool
  of_roleSpecific :: bool

record cart =
  ct_id :: ident
  ct_accountId :: ident

record cart_item =
  ci_id :: ident
  ci_cartId :: ident
  ci_productId :: ident
  ci_offerId :: "ident option"
  ci_quantity :: rat
  ci_unitType :: string
  ci_conditionCode :: "string option"
  ci_unitPrice :: rat
  ci_subtotal :: rat
  ci_isOffer :: bool

record measurement_unit =
  u_code :: string
  u_isWeight :: bool
  u_isActive :: bool

record buyer_profile =
  bp_id :: ident
  bp_accountId :: ident
  bp_factory :: bool
  bp_provinceId :: "ident option"
  bp_point :: "(rat \<times> rat) option"

subsection \<open>Accounts, points and stages\<close>

text \<open>
  \<open>user/entities/account.entity.ts\<close> with the columns the services read, and
  \<open>points-wallet/entities\<close>, \<open>stages/entities\<close>: the wallet of an account, the money one point is
  worth per role, the bands the wallets fall in, and the last recorded rank of a citizen.
\<close>

datatype account_status = A_INACTIVE | PENDING_PROFILE | PENDING_APPROVAL | NEED_CHANGES | A_ACTIVE
  | A_REJECTED | BLOCKED

record account =
  ac_id :: ident
  ac_name :: string
  ac_role :: role
  ac_status :: account_status

record points_wallet =
  pw_id :: ident
  pw_accountId :: ident
  pw_points :: rat
  pw_createdAt :: time

record points_rate =
  rt_id :: ident
  rt_role :: role
  rt_amountPerPoint :: rat
  rt_currency :: string
  rt_updatedBy :: "ident option"

record stage =
  sg_id :: ident
  sg_name :: string
  sg_imageUrl :: "string option"
  sg_sortOrder :: int
  sg_minPoints :: int
  sg_maxPoints :: int
  sg_isActive :: bool

record leaderboard_snapshot =
  ls_accountId :: ident
  ls_rank :: nat
  ls_points :: int
  ls_takenAt :: time

text \<open>A row of the audit trail: who did what to which row.\<close>

record audit_entry =
  au_userId :: ident
  au_action :: string
  au_entityId :: ident

text \<open>A notification queued for an account: the key of its title and the number it is about.\<close>

record notice =
  no_userId :: ident
  no_titleKey :: string
  no_reference :: string

section \<open>Jobs\<close>

record stop_push =
  sp_stopId :: ident
  sp_sequence :: nat
  sp_warehouseOdooId :: "int option"
  sp_partRef :: ident
  sp_productSummary :: string
  sp_distanceToBuyerKm :: rat
  sp_point :: "(rat option \<times> rat option)"

record trip_push =
  tp_tripId :: ident
  tp_tripNumber :: string
  tp_orderNumber :: string
  tp_orderId :: ident
  tp_buyerName :: string
  tp_originWarehouseOdooId :: "int option"
  tp_truckOdooId :: "int option"
  tp_driverOdooId :: "int option"
  tp_routeDistanceKm :: rat
  tp_deliveryCost :: rat
  tp_currency :: string
  tp_destination :: "(rat option \<times> rat option)"
  tp_stops :: "stop_push list"

text \<open>\<open>OrderEventPayload\<close>: what Odoo reports about a part.\<close>

record order_event =
  oe_partId :: ident
  oe_odooOrderId :: int
  oe_event :: string
  oe_invoiceNumber :: "string option"
  oe_outputZone :: "string option"
  oe_handoverType :: "string option"
  oe_rejectReason :: "string option"
  oe_warehouseOdooId :: "int option"

datatype job =
    PUSH_ORDER_PART ident
  | APPLY_ORDER_EVENT order_event
  | CANCEL_ORDER_PART ident string
  | PUSH_DELIVERY_TRIP trip_push
  | PUSH_COMPLAINT ident int complaint_kind string string
  | PLAN_CONSOLIDATION ident
  | PLAN_DELIVERY ident
  | UPDATE_PRICING ident

text \<open>What \<open>OrderStatusSubscriber\<close> emits: buyer, order number, new status, previous status.\<close>

record status_event =
  ev_buyerAccountId :: ident
  ev_orderNumber :: string
  ev_status :: order_status
  ev_previousStatus :: order_status

section \<open>The store\<close>

text \<open>
  \<open>db_uuid\<close> is the database's generator of row ids and \<open>db_next\<close> how many it has handed out.
  \<open>db_jobs\<close> holds the waiting queue entries with their \<open>jobId\<close>, when they were given one.
\<close>

record store =
  db_orders :: "order list"
  db_parts :: "order_part list"
  db_lines :: "order_part_line list"
  db_offers :: "order_part_offer list"
  db_trips :: "delivery_trip list"
  db_stops :: "delivery_trip_stop list"
  db_warehouses :: "warehouse list"
  db_inventory :: "warehouse_inventory list"
  db_rates :: "delivery_rate list"
  db_minimums :: "order_minimum list"
  db_caps :: "order_spending_cap list"
  db_ratings :: "order_part_rating list"
  db_complaints :: "order_complaint list"
  db_distances :: "distance_cache list"
  db_products :: "product list"
  db_grades :: "material_condition list"
  db_pricing :: "product_pricing list"
  db_promos :: "promo list"
  db_carts :: "cart list"
  db_cartItems :: "cart_item list"
  db_units :: "measurement_unit list"
  db_buyers :: "buyer_profile list"
  db_audit :: "audit_entry list"
  db_accounts :: "account list"
  db_wallets :: "points_wallet list"
  db_pointRates :: "points_rate list"
  db_stages :: "stage list"
  db_baselines :: "leaderboard_snapshot list"
  db_notices :: "notice list"
  db_currency :: string
  db_uuid :: "nat \<Rightarrow> ident"
  db_next :: nat
  db_jobs :: "(string option \<times> job) list"
  db_events :: "status_event list"

section \<open>Actions on the store\<close>

type_synonym 'a action = "(store, 'a) act"

text \<open>
  \<open>dataSource.transaction\<close>: an exception undoes the writes.  The events the subscriber emitted
  inside the transaction are not database writes and are not undone.
\<close>

definition transactional :: "'a action \<Rightarrow> 'a action" where
  "transactional m = (\<lambda>s. case m s of
       (Inl e, s') \<Rightarrow> (Inl e, s\<lparr>db_events := db_events s'\<rparr>)
     | (Inr x, s') \<Rightarrow> (Inr x, s'))"

lemma transactional_Inr_iff: "transactional m s = (Inr x, s') \<longleftrightarrow> m s = (Inr x, s')"
  by (auto simp: transactional_def split: prod.splits sum.splits)

lemma keeps_transactional [keeps_rules]:
  "keeps I m \<Longrightarrow> (\<And>s es. I s \<Longrightarrow> I (s\<lparr>db_events := es\<rparr>)) \<Longrightarrow> keeps I (transactional m)"
  unfolding keeps_def transactional_def by (auto split: prod.splits sum.splits)

section \<open>Tables\<close>

interpretation orders: repository db_orders "\<lambda>rs s. s\<lparr>db_orders := rs\<rparr>" o_id
  by unfold_locales simp_all

interpretation parts: repository db_parts "\<lambda>rs s. s\<lparr>db_parts := rs\<rparr>" p_id
  by unfold_locales simp_all

interpretation partlines: repository db_lines "\<lambda>rs s. s\<lparr>db_lines := rs\<rparr>" l_id
  by unfold_locales simp_all

interpretation partoffers: repository db_offers "\<lambda>rs s. s\<lparr>db_offers := rs\<rparr>" f_id
  by unfold_locales simp_all

interpretation trips: repository db_trips "\<lambda>rs s. s\<lparr>db_trips := rs\<rparr>" t_id
  by unfold_locales simp_all

interpretation tripstops: repository db_stops "\<lambda>rs s. s\<lparr>db_stops := rs\<rparr>" s_id
  by unfold_locales simp_all

interpretation complaints: repository db_complaints "\<lambda>rs s. s\<lparr>db_complaints := rs\<rparr>" k_id
  by unfold_locales simp_all

interpretation carts: repository db_carts "\<lambda>rs s. s\<lparr>db_carts := rs\<rparr>" ct_id
  by unfold_locales simp_all

interpretation cartlines: repository db_cartItems "\<lambda>rs s. s\<lparr>db_cartItems := rs\<rparr>" ci_id
  by unfold_locales simp_all

interpretation promos: repository db_promos "\<lambda>rs s. s\<lparr>db_promos := rs\<rparr>" of_id
  by unfold_locales simp_all

subsection \<open>Row operations\<close>

definition fresh_id :: "ident action" where
  "fresh_id = (\<lambda>s. (Inr (db_uuid s (db_next s)), s\<lparr>db_next := db_next s + 1\<rparr>))"

definition find_order :: "ident \<Rightarrow> store \<Rightarrow> order option" where
  "find_order k s = tbl_find o_id k (db_orders s)"

definition find_part :: "ident \<Rightarrow> store \<Rightarrow> order_part option" where
  "find_part k s = tbl_find p_id k (db_parts s)"

definition find_trip :: "ident \<Rightarrow> store \<Rightarrow> delivery_trip option" where
  "find_trip k s = tbl_find t_id k (db_trips s)"

definition find_complaint :: "ident \<Rightarrow> store \<Rightarrow> order_complaint option" where
  "find_complaint k s = tbl_find k_id k (db_complaints s)"

definition find_warehouse :: "ident \<Rightarrow> store \<Rightarrow> warehouse option" where
  "find_warehouse k s = tbl_find wh_id k (db_warehouses s)"

text \<open>\<open>partRepo.find({ where: { orderId } })\<close>, and the lines of a part.\<close>

definition parts_of :: "ident \<Rightarrow> store \<Rightarrow> order_part list" where
  "parts_of orderId s = filter (\<lambda>p. p_orderId p = orderId) (db_parts s)"

definition lines_of :: "ident \<Rightarrow> store \<Rightarrow> order_part_line list" where
  "lines_of partId s = filter (\<lambda>l. l_partId l = partId) (db_lines s)"

definition offers_of :: "ident \<Rightarrow> store \<Rightarrow> order_part_offer list" where
  "offers_of orderId s = filter (\<lambda>f. f_orderId f = orderId) (db_offers s)"

definition live_part :: "order_part \<Rightarrow> bool" where
  "live_part p \<longleftrightarrow> live_status (p_status p)"

text \<open>
  \<open>OrderStatusSubscriber.afterUpdate\<close>, run by every \<open>orderRepo.save\<close> of a row that exists: an
  event when the status changed.
\<close>

definition afterUpdate :: "order \<Rightarrow> order option \<Rightarrow> status_event list" where
  "afterUpdate after before = (case before of
       None \<Rightarrow> []
     | Some b \<Rightarrow> if o_status after = o_status b then []
         else [\<lparr>ev_buyerAccountId = o_buyerAccountId after, ev_orderNumber = o_orderNumber after,
                ev_status = o_status after, ev_previousStatus = o_status b\<rparr>])"

definition save_order :: "order \<Rightarrow> unit action" where
  "save_order o' = writes (\<lambda>s. s\<lparr>db_orders := tbl_save o_id o' (db_orders s),
     db_events := db_events s @ afterUpdate o' (find_order (o_id o') s)\<rparr>)"

definition save_part :: "order_part \<Rightarrow> unit action" where
  "save_part p = writes (\<lambda>s. s\<lparr>db_parts := tbl_save p_id p (db_parts s)\<rparr>)"

definition save_line :: "order_part_line \<Rightarrow> unit action" where
  "save_line l = writes (\<lambda>s. s\<lparr>db_lines := tbl_save l_id l (db_lines s)\<rparr>)"

definition save_offer :: "order_part_offer \<Rightarrow> unit action" where
  "save_offer f = writes (\<lambda>s. s\<lparr>db_offers := tbl_save f_id f (db_offers s)\<rparr>)"

definition save_trip :: "delivery_trip \<Rightarrow> unit action" where
  "save_trip t = writes (\<lambda>s. s\<lparr>db_trips := tbl_save t_id t (db_trips s)\<rparr>)"

definition save_stop :: "delivery_trip_stop \<Rightarrow> unit action" where
  "save_stop x = writes (\<lambda>s. s\<lparr>db_stops := tbl_save s_id x (db_stops s)\<rparr>)"

definition save_complaint :: "order_complaint \<Rightarrow> unit action" where
  "save_complaint k = writes (\<lambda>s. s\<lparr>db_complaints := tbl_save k_id k (db_complaints s)\<rparr>)"

text \<open>
  \<open>queue.add(name, payload, { jobId })\<close>: BullMQ drops a job whose \<open>jobId\<close> is already waiting.
\<close>

definition enqueue :: "string option \<Rightarrow> job \<Rightarrow> unit action" where
  "enqueue jobId j = writes (\<lambda>s. if jobId \<noteq> None \<and> List.member (map fst (db_jobs s)) jobId then s
     else s\<lparr>db_jobs := db_jobs s @ [(jobId, j)]\<rparr>)"

definition enqueuePushOrderPart :: "ident \<Rightarrow> unit action" where
  "enqueuePushOrderPart partId = enqueue None (PUSH_ORDER_PART partId)"

definition enqueueCancelOrderPart :: "ident \<Rightarrow> string \<Rightarrow> unit action" where
  "enqueueCancelOrderPart partId reason = enqueue None (CANCEL_ORDER_PART partId reason)"

text \<open>The destination of a reassignment is part of its key; \<open>x\<close> stands for none.\<close>

definition enqueueOrderEvent :: "order_event \<Rightarrow> unit action" where
  "enqueueOrderEvent e = enqueue (Some (
     if oe_event e = ''reassigned''
     then ''order-event-'' @ oe_partId e @ ''-reassigned-'' @
       (case oe_warehouseOdooId e of None \<Rightarrow> ''x'' | Some w \<Rightarrow> show_int w)
     else ''order-event-'' @ oe_partId e @ ''-'' @ oe_event e)) (APPLY_ORDER_EVENT e)"

definition enqueuePushDeliveryTrip :: "trip_push \<Rightarrow> unit action" where
  "enqueuePushDeliveryTrip trip =
     enqueue (Some (''push-delivery-trip-'' @ tp_tripId trip)) (PUSH_DELIVERY_TRIP trip)"

definition enqueuePushComplaint ::
    "ident \<Rightarrow> int \<Rightarrow> complaint_kind \<Rightarrow> string \<Rightarrow> string \<Rightarrow> unit action" where
  "enqueuePushComplaint complaintId odooWarehouseId kind description orderNumber =
     enqueue (Some (''push-complaint-'' @ complaintId))
       (PUSH_COMPLAINT complaintId odooWarehouseId kind description orderNumber)"

section \<open>Well-formed stores\<close>

text \<open>Row ids are unique per table, and the generator is ahead of every id handed out.\<close>

definition store_ids :: "store \<Rightarrow> ident list" where
  "store_ids s = map o_id (db_orders s) @ map p_id (db_parts s) @ map l_id (db_lines s)
     @ map f_id (db_offers s) @ map t_id (db_trips s) @ map s_id (db_stops s)
     @ map k_id (db_complaints s)"

definition ids_ok :: "store \<Rightarrow> bool" where
  "ids_ok s \<longleftrightarrow> inj (db_uuid s)
     \<and> (\<forall>i. db_uuid s i \<in> set (store_ids s) \<longrightarrow> i < db_next s)
     \<and> distinct (map o_id (db_orders s)) \<and> distinct (map p_id (db_parts s))
     \<and> distinct (map l_id (db_lines s)) \<and> distinct (map f_id (db_offers s))
     \<and> distinct (map t_id (db_trips s)) \<and> distinct (map s_id (db_stops s))
     \<and> distinct (map k_id (db_complaints s))"

text \<open>The id the database hands out next was never used for any of the given rows.\<close>

definition fresh_for :: "(store \<Rightarrow> ident set) \<Rightarrow> store \<Rightarrow> bool" where
  "fresh_for keys s \<longleftrightarrow> inj (db_uuid s) \<and> (\<forall>i. db_uuid s i \<in> keys s \<longrightarrow> i < db_next s)"

lemma fresh_next: "fresh_for keys s \<Longrightarrow> db_uuid s (db_next s) \<notin> keys s"
  unfolding fresh_for_def by blast

lemma fresh_after:
  assumes "fresh_for keys s" and "db_uuid s' = db_uuid s" and "db_next s' = Suc (db_next s)"
    and "keys s' \<subseteq> insert (db_uuid s (db_next s)) (keys s)"
  shows "fresh_for keys s'"
  using assms unfolding fresh_for_def by (auto dest!: subsetD [OF assms(4)] dest: injD intro: less_SucI)

section \<open>The world outside\<close>

text \<open>
  What a request sees beyond the database, as parameters: the clock (one instant per request),
  whether a Google key is configured, \<open>ST_Distance\<close> of PostGIS in kilometres between two points,
  the Distance Matrix answer for an origin and a batch of destinations (\<open>None\<close>: the call throws;
  an entry \<open>None\<close>: that pair is unroutable), Odoo's delivery trucks of a warehouse with their
  payloads, the trucks among a list that have a driver available, and the driver of a truck
  (\<open>None\<close>: the call throws), the calendar year and month of an instant on the server, and the
  start of the spending window an instant lies in (\<open>common/time/operation-time.util.ts\<close>).
\<close>

record world =
  w_now :: time
  w_apiKey :: bool
  w_geo :: "rat \<times> rat \<Rightarrow> rat \<times> rat \<Rightarrow> rat"
  w_google :: "rat \<times> rat \<Rightarrow> (rat \<times> rat) list \<Rightarrow> rat option list option"
  w_trucks :: "int \<Rightarrow> (int \<times> rat) list option"
  w_driversFor :: "int list \<Rightarrow> int list option"
  w_driver :: "int \<Rightarrow> (int \<times> string option \<times> string option) option option"
  w_yearMonth :: "time \<Rightarrow> nat \<times> nat"
  w_windowStart :: "cap_period \<Rightarrow> time \<Rightarrow> time"

section \<open>An empty database\<close>

text \<open>The store the concrete runs of the theories start from.\<close>

definition ex_store :: store where
  "ex_store = \<lparr>db_orders = [], db_parts = [], db_lines = [], db_offers = [], db_trips = [],
     db_stops = [], db_warehouses = [], db_inventory = [], db_rates = [], db_minimums = [],
     db_caps = [], db_ratings = [], db_complaints = [], db_distances = [], db_products = [],
     db_grades = [], db_pricing = [], db_promos = [], db_carts = [], db_cartItems = [],
     db_units = [], db_buyers = [], db_audit = [], db_accounts = [],
     db_wallets = [], db_pointRates = [], db_stages = [], db_baselines = [], db_notices = [],
     db_currency = ''SYP'', db_uuid = (\<lambda>n. replicate n CHR ''u''), db_next = 1,
     db_jobs = [], db_events = []\<rparr>"

lemma ex_uuid_inj: "inj (db_uuid ex_store)"
  by (rule injI) (simp add: ex_store_def replicate_eq_replicate)

definition ex_part :: "ident \<Rightarrow> ident \<Rightarrow> ident \<Rightarrow> part_status \<Rightarrow> order_part" where
  "ex_part i orderId wh st = \<lparr>p_id = i, p_orderId = orderId, p_warehouseId = wh, p_sequence = 1, p_status = st,
     p_odooOrderId = None, p_stockReserved = False, p_distanceKm = 5, p_deliveryCost = 0, p_goodsTotal = 100,
     p_invoiceNumber = None, p_stockDeductedAt = None, p_outputZoneName = None, p_finishedAt = None,
     p_dispatchedAt = None, p_deliveredAt = None, p_rejectReason = None\<rparr>"

definition ex_offer :: "ident \<Rightarrow> ident \<Rightarrow> ident \<Rightarrow> ident \<Rightarrow> time \<Rightarrow> order_part_offer" where
  "ex_offer i partId orderId wh expires = \<lparr>f_id = i, f_partId = partId, f_warehouseId = wh, f_orderId = orderId,
     f_roundNumber = 1, f_status = F_OFFERED, f_offeredAt = 0, f_expiresAt = expires, f_respondedAt = None,
     f_rejectReason = None\<rparr>"

text \<open>A store whose rows have readable names: none of them is an id the database hands out.\<close>

lemma ids_ok_example:
  assumes "db_uuid s = (\<lambda>n. replicate n CHR ''u'')"
    and "list_all (list_ex (\<lambda>c. c \<noteq> CHR ''u'')) (store_ids s)"
    and "distinct (map o_id (db_orders s))" "distinct (map p_id (db_parts s))"
    "distinct (map l_id (db_lines s))" "distinct (map f_id (db_offers s))"
    "distinct (map t_id (db_trips s))" "distinct (map s_id (db_stops s))" "distinct (map k_id (db_complaints s))"
  shows "ids_ok s"
proof -
  have "inj (db_uuid s)" using ex_uuid_inj assms(1) by (simp add: ex_store_def)
  moreover have "db_uuid s i \<notin> set (store_ids s)" for i
    using assms(1,2) by (auto simp: list_all_iff list_ex_iff)
  ultimately show ?thesis using assms(3-) by (auto simp: ids_ok_def)
qed

end
