(* ===== verification/OrderState.thy ===== *)
theory OrderState
  imports OrderStore
begin

text \<open>
  \<open>order/providers/order-state.service.ts\<close>: a guarded change of status with its timestamp, for an
  order and for a part.  No other service of the repository calls it; the handlers write the
  status themselves (\<open>OdooEvents\<close> shows what they keep of these guards).
\<close>

definition assertOrderTransition :: "order \<Rightarrow> order_status \<Rightarrow> err + unit" where
  "assertOrderTransition ord to =
     (if o_status ord = to then Inr ()
      else if \<not> canTransition (o_status ord) to then Inl Conflict else Inr ())"

definition stampOrder :: "order \<Rightarrow> order_status \<Rightarrow> time \<Rightarrow> order" where
  "stampOrder ord to now = (case to of
       PREPARING \<Rightarrow> ord\<lparr>o_preparingAt := Some now\<rparr>
     | DELIVERED \<Rightarrow> ord\<lparr>o_deliveredAt := Some now\<rparr>
     | COMPLETED \<Rightarrow> ord\<lparr>o_completedAt := Some now\<rparr>
     | CANCELLED \<Rightarrow> ord\<lparr>o_cancelledAt := Some now\<rparr>
     | _ \<Rightarrow> ord)"

definition applyOrderStatus :: "order \<Rightarrow> order_status \<Rightarrow> time \<Rightarrow> err + order" where
  "applyOrderStatus ord to now = (case assertOrderTransition ord to of Inl e \<Rightarrow> Inl e
     | Inr _ \<Rightarrow> Inr (if o_status ord = to then ord else stampOrder (ord\<lparr>o_status := to\<rparr>) to now))"

definition assertPartTransition :: "order_part \<Rightarrow> part_status \<Rightarrow> err + unit" where
  "assertPartTransition p to =
     (if p_status p = to then Inr ()
      else if \<not> canTransitionPart (p_status p) to then Inl Conflict else Inr ())"

definition stampPart :: "order_part \<Rightarrow> part_status \<Rightarrow> time \<Rightarrow> order_part" where
  "stampPart p to now = (case to of
       P_STOCK_DEDUCTED \<Rightarrow> p\<lparr>p_stockDeductedAt := Some now\<rparr>
     | P_IN_OUTPUT_ZONE \<Rightarrow> p\<lparr>p_finishedAt := Some now\<rparr>
     | P_DISPATCHED \<Rightarrow> p\<lparr>p_dispatchedAt := Some now\<rparr>
     | P_DELIVERED \<Rightarrow> p\<lparr>p_deliveredAt := Some now\<rparr>
     | _ \<Rightarrow> p)"

definition applyPartStatus :: "order_part \<Rightarrow> part_status \<Rightarrow> time \<Rightarrow> err + order_part" where
  "applyPartStatus p to now = (case assertPartTransition p to of Inl e \<Rightarrow> Inl e
     | Inr _ \<Rightarrow> Inr (if p_status p = to then p else stampPart (p\<lparr>p_status := to\<rparr>) to now))"

definition nextStatuses :: "order \<Rightarrow> order_status list" where
  "nextStatuses ord = ORDER_TRANSITIONS (o_status ord)"

lemma stampOrder_status [simp]: "o_status (stampOrder ord to now) = o_status ord"
  by (cases to) (simp_all add: stampOrder_def)

lemma stampPart_simps [simp]:
  "p_status (stampPart p to now) = p_status p" "p_id (stampPart p to now) = p_id p"
  "p_orderId (stampPart p to now) = p_orderId p" "p_stockReserved (stampPart p to now) = p_stockReserved p"
  by (cases to; simp add: stampPart_def)+

text \<open>The guard accepts exactly the listed moves (and staying put), and what it lets through reaches
  the status asked for.\<close>

lemma applyOrderStatus_iff:
  "(\<exists>ord'. applyOrderStatus ord to now = Inr ord' \<and> o_status ord' = to)
     \<longleftrightarrow> to = o_status ord \<or> to \<in> set (nextStatuses ord)"
  by (auto simp: applyOrderStatus_def assertOrderTransition_def nextStatuses_def canTransition_def)

lemma applyPartStatus_iff:
  "(\<exists>p'. applyPartStatus p to now = Inr p' \<and> p_status p' = to)
     \<longleftrightarrow> to = p_status p \<or> canTransitionPart (p_status p) to"
  by (auto simp: applyPartStatus_def assertPartTransition_def)

end
