(* ===== verification/Pricing.thy ===== *)
theory Pricing
  imports OrderStore
begin

text \<open>
  What a buyer may order and what it costs at this moment:
  \<open>waste-management/common/providers/sellability.service.ts\<close> and \<open>effective-price.service.ts\<close>, and
  \<open>offer-settlement.service.ts\<close>, which brings the offers of a material back into agreement with its
  prices after a price moved.
\<close>

subsection \<open>Sellability\<close>

text \<open>\<open>effectiveFrom <= NOW() AND (effectiveUntil IS NULL OR effectiveUntil > NOW())\<close>\<close>

definition in_force :: "time \<Rightarrow> time \<Rightarrow> time option \<Rightarrow> bool" where
  "in_force now from until \<longleftrightarrow> from \<le> now \<and> (case until of None \<Rightarrow> True | Some u \<Rightarrow> now < u)"

record sellability =
  sb_sellable :: bool
  sb_priceByCondition :: "(string \<times> rat) list"

definition condition_key :: "string option \<Rightarrow> string" where
  "condition_key c = (case c of None \<Rightarrow> [] | Some k \<Rightarrow> k)"

definition live_rows :: "world \<Rightarrow> pricing_tier \<Rightarrow> store \<Rightarrow> product_pricing list" where
  "live_rows W tier s = filter (\<lambda>r. pr_tier r = tier
     \<and> in_force (w_now W) (pr_effectiveFrom r) (pr_effectiveUntil r)) (db_pricing s)"

definition add_price :: "product_pricing \<Rightarrow> (ident \<times> sellability) list \<Rightarrow> (ident \<times> sellability) list" where
  "add_price row result =
     (let entry = (case map_of result (pr_productId row) of
            Some e \<Rightarrow> e | None \<Rightarrow> \<lparr>sb_sellable = True, sb_priceByCondition = []\<rparr>)
      in AList.update (pr_productId row)
           (entry\<lparr>sb_priceByCondition := AList.update (condition_key (pr_conditionCode row)) (pr_price row)
              (sb_priceByCondition entry)\<rparr>) result)"

definition forProducts :: "world \<Rightarrow> ident list \<Rightarrow> pricing_tier \<Rightarrow> store \<Rightarrow> (ident \<times> sellability) list" where
  "forProducts W productIds tier s = (if productIds = [] then [] else
     fold add_price (filter (\<lambda>r. List.member productIds (pr_productId r)) (live_rows W tier s)) [])"

definition sellableIds :: "world \<Rightarrow> ident list \<Rightarrow> pricing_tier \<Rightarrow> store \<Rightarrow> ident list" where
  "sellableIds W productIds tier s = map fst (forProducts W productIds tier s)"

definition forProduct :: "world \<Rightarrow> ident \<Rightarrow> pricing_tier \<Rightarrow> store \<Rightarrow> sellability" where
  "forProduct W productId tier s = (case map_of (forProducts W [productId] tier s) productId of
     Some e \<Rightarrow> e | None \<Rightarrow> \<lparr>sb_sellable = False, sb_priceByCondition = []\<rparr>)"

definition priceFor :: "world \<Rightarrow> ident \<Rightarrow> pricing_tier \<Rightarrow> string option \<Rightarrow> store \<Rightarrow> rat option" where
  "priceFor W productId tier conditionCode s =
     (let m = sb_priceByCondition (forProduct W productId tier s)
      in if m = [] then None else map_of m (condition_key conditionCode))"

definition assertSellable :: "world \<Rightarrow> ident \<Rightarrow> pricing_tier \<Rightarrow> string option \<Rightarrow> rat action" where
  "assertSellable W productId tier conditionCode =
     bind (reads (priceFor W productId tier conditionCode)) (\<lambda>price.
     case price of None \<Rightarrow> throw BadRequest | Some p \<Rightarrow> ret p)"

definition unpricedProducts :: "world \<Rightarrow> ident list \<Rightarrow> store \<Rightarrow> ident list" where
  "unpricedProducts W productIds s =
     (let priced = map pr_productId (filter (\<lambda>r. List.member productIds (pr_productId r)
            \<and> in_force (w_now W) (pr_effectiveFrom r) (pr_effectiveUntil r)) (db_pricing s))
      in uniq (filter (\<lambda>i. \<not> List.member priced i) productIds))"

subsection \<open>The price charged\<close>

record effective_price =
  ep_basePrice :: rat
  ep_offer :: "promo option"
  ep_price :: rat

text \<open>\<open>ORDER BY amount DESC LIMIT 1\<close>: on equal amounts the row first in the table.\<close>

definition biggest :: "promo list \<Rightarrow> promo option" where
  "biggest ps = (case sort_key (\<lambda>o'. - of_amount o') ps of [] \<Rightarrow> None | o' # _ \<Rightarrow> Some o')"

definition offer_reaches :: "world \<Rightarrow> ident \<Rightarrow> role \<Rightarrow> offer_audience \<Rightarrow> string option \<Rightarrow> promo \<Rightarrow> bool" where
  "offer_reaches W productId r audience conditionCode o' \<longleftrightarrow>
     of_productId o' = productId \<and> of_audience o' = audience
     \<and> (case of_targetRoles o' of None \<Rightarrow> True | Some rs \<Rightarrow> List.member rs r)
     \<and> of_isActive o' \<and> in_force (w_now W) (of_validFrom o') (of_validUntil o')
     \<and> (case conditionCode of Some (c # cs) \<Rightarrow> of_conditionCode o' = Some (c # cs)
          | _ \<Rightarrow> of_conditionCode o' = None)"

definition liveOfferFor :: "world \<Rightarrow> ident \<Rightarrow> role \<Rightarrow> string option \<Rightarrow> store \<Rightarrow> promo option" where
  "liveOfferFor W productId r conditionCode s = (case audienceForRole r of
       None \<Rightarrow> None
     | Some audience \<Rightarrow>
         biggest (filter (offer_reaches W productId r audience conditionCode) (db_promos s)))"

definition effectivePrice :: "world \<Rightarrow> ident \<Rightarrow> role \<Rightarrow> string option \<Rightarrow> store \<Rightarrow> effective_price option" where
  "effectivePrice W productId r conditionCode s =
     (case priceFor W productId (tierForRole r) conditionCode s of
        None \<Rightarrow> None
      | Some basePrice \<Rightarrow>
          let offer = liveOfferFor W productId r conditionCode s
          in Some \<lparr>ep_basePrice = basePrice, ep_offer = offer,
               ep_price = (case offer of None \<Rightarrow> basePrice
                  | Some o' \<Rightarrow> priceAfterOffer basePrice (of_amount o') (of_audience o'))\<rparr>)"

subsection \<open>Settlement\<close>

text \<open>\<open>ORDER BY effectiveFrom DESC LIMIT 1\<close>, then the row must be in force.\<close>

definition livePrice :: "world \<Rightarrow> ident \<Rightarrow> pricing_tier \<Rightarrow> string option \<Rightarrow> store \<Rightarrow> rat option" where
  "livePrice W productId tier conditionCode s =
     (let wanted = (case conditionCode of Some (c # cs) \<Rightarrow> Some (c # cs) | _ \<Rightarrow> None)
      in case sort_key (\<lambda>r. - pr_effectiveFrom r) (filter (\<lambda>r. pr_productId r = productId
             \<and> pr_tier r = tier \<and> pr_conditionCode r = wanted) (db_pricing s)) of
           [] \<Rightarrow> None
         | row # _ \<Rightarrow> if in_force (w_now W) (pr_effectiveFrom row) (pr_effectiveUntil row)
                     then Some (pr_price row) else None)"

definition cheapest_of :: "rat list \<Rightarrow> rat option" where
  "cheapest_of ps = fold (\<lambda>base c. Some (case c of None \<Rightarrow> base | Some m \<Rightarrow> min m base)) ps None"

definition settled_amount :: "promo \<Rightarrow> rat list \<Rightarrow> rat" where
  "settled_amount o' prices = (case (of_basis o', of_basisPercentage o', cheapest_of prices) of
       (BASIS_PERCENTAGE, Some q, Some cheapest) \<Rightarrow> amountFromPercentage cheapest q
     | _ \<Rightarrow> of_amount o')"

text \<open>The second loop over the tiers: it stops at the first price the amount swallows.\<close>

fun find_break :: "offer_audience \<Rightarrow> rat \<Rightarrow> rat option \<Rightarrow> rat list \<Rightarrow> rat option \<times> bool" where
  "find_break audience amount dearest [] = (dearest, False)"
| "find_break audience amount dearest (base # ps) =
     (if audience = BUYERS \<and> base \<le> amount then (dearest, True)
      else find_break audience amount (Some (case dearest of None \<Rightarrow> base | Some m \<Rightarrow> max m base)) ps)"

definition offer_tiers :: "promo \<Rightarrow> pricing_tier list" where
  "offer_tiers o' = tiersForAudience (of_audience o')
     (Some (case of_targetRoles o' of Some (r # rs) \<Rightarrow> r # rs | _ \<Rightarrow> AUDIENCE_ROLES (of_audience o')))"

definition live_prices :: "world \<Rightarrow> ident \<Rightarrow> promo \<Rightarrow> store \<Rightarrow> rat list" where
  "live_prices W productId o' s =
     List.map_filter (\<lambda>tier. livePrice W productId tier (of_conditionCode o') s) (offer_tiers o')"

definition save_promo :: "promo \<Rightarrow> unit action" where
  "save_promo o' = writes (\<lambda>s. s\<lparr>db_promos := tbl_save of_id o' (db_promos s)\<rparr>)"

definition record_audit :: "ident \<Rightarrow> string \<Rightarrow> ident \<Rightarrow> unit action" where
  "record_audit userId act entityId = writes (\<lambda>s. s\<lparr>db_audit := db_audit s @
     [\<lparr>au_userId = userId, au_action = act, au_entityId = entityId\<rparr>]\<rparr>)"

text \<open>One round of the loop over the offers: what it adds to \<open>(repriced, suspended)\<close>.\<close>

definition resettle_one :: "world \<Rightarrow> ident \<Rightarrow> ident option \<Rightarrow> promo \<Rightarrow> (nat \<times> nat) action" where
  "resettle_one W productId adminId offer =
     bind (reads (live_prices W productId offer)) (\<lambda>prices.
     let amount = settled_amount offer prices;
         (dearestBase, breaks) = find_break (of_audience offer) amount None prices
     in if breaks then
          (if \<not> of_isActive offer then ret (0, 0)
           else bind (save_promo (offer\<lparr>of_isActive := False\<rparr>)) (\<lambda>_.
                bind (record_audit (case adminId of None \<Rightarrow> ''system'' | Some a \<Rightarrow> a)
                        ''SUSPEND_OFFER_PRICE_TOO_LOW'' (of_id offer)) (\<lambda>_. ret (0, 1))))
        else
          let percentage = offerPercentage (case dearestBase of None \<Rightarrow> 0 | Some b \<Rightarrow> b) amount in
          if amount \<noteq> of_amount offer \<or> percentage \<noteq> of_discountPercentage offer
          then bind (save_promo (offer\<lparr>of_amount := amount, of_discountPercentage := percentage\<rparr>))
                 (\<lambda>_. ret (1, 0))
          else ret (0, 0))"

definition resettle :: "world \<Rightarrow> ident \<Rightarrow> ident option \<Rightarrow> (nat \<times> nat) action" where
  "resettle W productId adminId =
     bind (reads (\<lambda>s. filter (\<lambda>o'. of_productId o' = productId) (db_promos s))) (\<lambda>offers.
     bind (collect offers (resettle_one W productId adminId)) (\<lambda>counts.
     ret (sum_list (map fst counts), sum_list (map snd counts))))"

section \<open>Facts\<close>

lemma priceFor_row_aux:
  "map_of (fold add_price rows acc) p = Some e \<Longrightarrow> map_of (sb_priceByCondition e) k = Some x \<Longrightarrow>
   (\<exists>row \<in> set rows. pr_productId row = p \<and> condition_key (pr_conditionCode row) = k \<and> pr_price row = x)
   \<or> (\<exists>e0. map_of acc p = Some e0 \<and> map_of (sb_priceByCondition e0) k = Some x)"
proof (induction rows arbitrary: acc)
  case (Cons row rows)
  from Cons.IH [of "add_price row acc"] Cons.prems
  consider (row) "\<exists>row' \<in> set rows. pr_productId row' = p \<and> condition_key (pr_conditionCode row') = k \<and> pr_price row' = x"
    | (acc) e1 where "map_of (add_price row acc) p = Some e1" "map_of (sb_priceByCondition e1) k = Some x"
    by auto
  then show ?case
  proof cases
    case acc
    then show ?thesis
      by (auto simp: add_price_def Let_def update_conv' split: if_splits option.splits)
  qed auto
qed simp

text \<open>A price a buyer is quoted is the price of a row in force for that tier and grade.\<close>

lemma priceFor_row:
  assumes "priceFor W p tier c s = Some x"
  obtains row where "row \<in> set (db_pricing s)" and "pr_productId row = p" and "pr_tier row = tier"
    and "in_force (w_now W) (pr_effectiveFrom row) (pr_effectiveUntil row)"
    and "condition_key (pr_conditionCode row) = condition_key c" and "pr_price row = x"
proof -
  let ?rows = "filter (\<lambda>r. List.member [p] (pr_productId r)) (live_rows W tier s)"
  obtain e where "map_of (fold add_price ?rows []) p = Some e"
    and "map_of (sb_priceByCondition e) (condition_key c) = Some x"
    using assms by (auto simp: priceFor_def forProduct_def forProducts_def Let_def split: option.splits if_splits)
  from priceFor_row_aux [OF this] show thesis by (auto simp: live_rows_def intro: that)
qed

text \<open>The live table holds one row per material, tier and grade, and no blank grade.\<close>

definition one_price :: "store \<Rightarrow> bool" where
  "one_price s \<longleftrightarrow> distinct (map (\<lambda>r. (pr_productId r, pr_tier r, pr_conditionCode r)) (db_pricing s))
     \<and> (\<forall>r \<in> set (db_pricing s). pr_conditionCode r \<noteq> Some [])"

lemma sort_key_head: "sort_key f xs = y # ys \<Longrightarrow> y \<in> set xs"
  by (metis list.set_intros(1) set_sort)

lemma filter_key_singleton:
  "distinct (map f xs) \<Longrightarrow> x \<in> set xs \<Longrightarrow> filter (\<lambda>y. f y = f x) xs = [x]"
proof (induction xs)
  case (Cons y ys)
  show ?case
  proof (cases "f y = f x")
    case True
    then have "y = x" and "filter (\<lambda>y. f y = f x) ys = []"
      using Cons.prems by (auto simp: filter_empty_conv image_iff)
    then show ?thesis using True by simp
  next
    case False
    then show ?thesis using Cons by auto
  qed
qed simp

lemma livePrice_in: "livePrice W p tier c s = Some x \<Longrightarrow> \<exists>r \<in> set (db_pricing s). pr_price r = x"
  using sort_key_head [where f = "\<lambda>r. - pr_effectiveFrom r"]
  by (fastforce simp: livePrice_def Let_def split: list.splits if_splits)

lemma livePrice_row:
  assumes "one_price s" and "row \<in> set (db_pricing s)"
    and "in_force (w_now W) (pr_effectiveFrom row) (pr_effectiveUntil row)"
    and "pr_conditionCode row = (case c of Some (k # ks) \<Rightarrow> Some (k # ks) | _ \<Rightarrow> None)"
  shows "livePrice W (pr_productId row) (pr_tier row) c s = Some (pr_price row)"
proof -
  have "filter (\<lambda>r. (pr_productId r, pr_tier r, pr_conditionCode r)
      = (pr_productId row, pr_tier row, pr_conditionCode row)) (db_pricing s) = [row]"
    using assms(1,2) by (intro filter_key_singleton) (simp_all add: one_price_def)
  then show ?thesis using assms(3,4) by (simp add: livePrice_def conj_assoc)
qed

subsection \<open>What a settlement does to one offer\<close>

definition settled :: "world \<Rightarrow> ident \<Rightarrow> store \<Rightarrow> promo \<Rightarrow> promo" where
  "settled W productId s offer =
     (let prices = live_prices W productId offer s;
          amount = settled_amount offer prices;
          (dearestBase, breaks) = find_break (of_audience offer) amount None prices
      in if breaks then offer\<lparr>of_isActive := False\<rparr>
         else offer\<lparr>of_amount := amount, of_discountPercentage :=
                offerPercentage (case dearestBase of None \<Rightarrow> 0 | Some b \<Rightarrow> b) amount\<rparr>)"

lemma settled_keeps [simp]:
  "of_id (settled W p s x) = of_id x" "of_productId (settled W p s x) = of_productId x"
  "of_audience (settled W p s x) = of_audience x" "of_targetRoles (settled W p s x) = of_targetRoles x"
  "of_conditionCode (settled W p s x) = of_conditionCode x" "of_basis (settled W p s x) = of_basis x"
  "of_basisPercentage (settled W p s x) = of_basisPercentage x"
  by (simp_all add: settled_def Let_def split: prod.splits)

lemma live_prices_settled [simp]: "live_prices W p (settled W q s x) s' = live_prices W p x s'"
  by (simp add: live_prices_def offer_tiers_def cong: option.case_cong list.case_cong)

lemma find_break_False:
  "find_break a m d ps = (d', False) \<Longrightarrow> a = BUYERS \<Longrightarrow> b \<in> set ps \<Longrightarrow> m < b"
  by (induction a m d ps rule: find_break.induct) (auto split: if_splits)

text \<open>An offer left in force to the buyers is smaller than every price it touches.\<close>

lemma settled_fits:
  assumes "of_audience x = BUYERS" and "of_isActive (settled W p s x)"
    and "b \<in> set (live_prices W p x s)"
  shows "of_amount (settled W p s x) < b"
  using assms find_break_False [of BUYERS "settled_amount x (live_prices W p x s)" None "live_prices W p x s" _ b]
  by (auto simp: settled_def Let_def split: prod.splits if_splits)

lemma live_prices_cong [simp]:
  "live_prices W p x (s\<lparr>db_promos := ps\<rparr>) = live_prices W p x s"
  "live_prices W p x (s\<lparr>db_audit := au\<rparr>) = live_prices W p x s"
  by (simp_all add: live_prices_def livePrice_def)

lemma settled_cong [simp]:
  "settled W p (s\<lparr>db_promos := ps\<rparr>) = settled W p s"
  "settled W p (s\<lparr>db_audit := au\<rparr>) = settled W p s"
  by (simp_all add: fun_eq_iff settled_def)

lemma promo_updates:
  "x\<lparr>of_isActive := False\<rparr> = x \<longleftrightarrow> \<not> of_isActive (x :: promo)"
  "x\<lparr>of_amount := m, of_discountPercentage := q\<rparr> = x \<longleftrightarrow> m = of_amount x \<and> q = of_discountPercentage x"
  by (cases x; auto)+

lemma resettle_one_effect:
  assumes "distinct (map of_id (db_promos s))" and "x \<in> set (db_promos s)"
  shows "\<exists>n au. resettle_one W p a x s = (Inr n, s\<lparr>db_promos :=
      map (\<lambda>y. if of_id y = of_id x then settled W p s x else y) (db_promos s), db_audit := au\<rparr>)
    \<and> (n = (0, 0) \<longleftrightarrow> settled W p s x = x)"
proof -
  let ?m = "map (\<lambda>y. if of_id y = of_id x then settled W p s x else y) (db_promos s)"
  have saved: "tbl_save of_id (settled W p s x) (db_promos s) = ?m"
    using tbl_save_map [OF assms(1), of "settled W p s x"] assms(2) by simp
  have same: "?m = db_promos s" if "settled W p s x = x"
    using assms that by (intro map_idI) (auto simp: distinct_map inj_on_def)
  obtain d b where fb: "find_break (of_audience x) (settled_amount x (live_prices W p x s)) None
      (live_prices W p x s) = (d, b)" by fastforce
  show ?thesis
  proof (cases "settled W p s x = x")
    case True
    then have "resettle_one W p a x s = (Inr (0, 0), s)"
      using fb by (cases b) (auto simp: resettle_one_def settled_def Let_def promo_updates)
    then show ?thesis using same True by (intro exI [of _ "(0, 0)"] exI [of _ "db_audit s"]) simp
  next
    case False
    have audit: "s\<lparr>db_promos := ps\<rparr> = s\<lparr>db_promos := ps, db_audit := db_audit s\<rparr>" for ps by simp
    show ?thesis
    proof (cases b)
      case True
      then have "resettle_one W p a x s = (Inr (0, 1), s\<lparr>db_promos := ?m, db_audit := db_audit s @
          [\<lparr>au_userId = (case a of None \<Rightarrow> ''system'' | Some u \<Rightarrow> u),
            au_action = ''SUSPEND_OFFER_PRICE_TOO_LOW'', au_entityId = of_id x\<rparr>]\<rparr>)"
        using fb False saved by (auto simp: resettle_one_def settled_def Let_def promo_updates
            save_promo_def record_audit_def)
      then show ?thesis using False by (intro exI conjI) auto
    next
      case nob: False
      then have "resettle_one W p a x s = (Inr (1, 0), s\<lparr>db_promos := ?m\<rparr>)"
        using fb False saved by (auto simp: resettle_one_def settled_def Let_def promo_updates save_promo_def)
      then have "resettle_one W p a x s = (Inr (1, 0), s\<lparr>db_promos := ?m, db_audit := db_audit s\<rparr>)"
        by (rule trans) (rule arg_cong [OF audit [of ?m], of "\<lambda>z. (Inr (1, 0), z)"])
      with False show ?thesis
        by (intro exI [of _ "(1, 0)"] exI [of _ "db_audit s"] conjI) simp_all
    qed
  qed
qed

lemma resettle_loop:
  assumes "distinct (map of_id (db_promos s))" and "distinct (map of_id xs)" and "set xs \<subseteq> set (db_promos s)"
  shows "\<exists>ns au. collect xs (resettle_one W p a) s = (Inr ns, s\<lparr>db_promos :=
      map (\<lambda>y. if y \<in> set xs then settled W p s y else y) (db_promos s), db_audit := au\<rparr>)
    \<and> (sum_list (map fst ns) = 0 \<and> sum_list (map snd ns) = 0 \<longleftrightarrow> (\<forall>x \<in> set xs. settled W p s x = x))"
  using assms
proof (induction xs arbitrary: s)
  case Nil
  show ?case by (intro exI [of _ "[]"] exI [of _ "db_audit s"]) simp
next
  case (Cons x xs)
  let ?m = "map (\<lambda>y. if of_id y = of_id x then settled W p s x else y) (db_promos s)"
  obtain n au where one: "resettle_one W p a x s = (Inr n, s\<lparr>db_promos := ?m, db_audit := au\<rparr>)"
    and n: "n = (0, 0) \<longleftrightarrow> settled W p s x = x"
    using resettle_one_effect [OF Cons.prems(1), of x W p a] Cons.prems(3) by auto
  let ?s1 = "s\<lparr>db_promos := ?m, db_audit := au\<rparr>"
  have keys: "map of_id (db_promos ?s1) = map of_id (db_promos s)" by (simp add: if_distrib cong: if_cong)
  have other: "of_id y \<noteq> of_id x" if "y \<in> set xs" for y
    using Cons.prems(2) that by (auto simp: image_iff)
  have "set xs \<subseteq> set ?m"
  proof
    fix y assume "y \<in> set xs"
    then have "y \<in> set (db_promos s)" and "y = (if of_id y = of_id x then settled W p s x else y)"
      using other Cons.prems(3) by auto
    then show "y \<in> set ?m" by (auto simp: image_iff)
  qed
  then have "set xs \<subseteq> set (db_promos ?s1)" by simp
  moreover have dist1: "distinct (map of_id (db_promos ?s1))" using Cons.prems(1) keys by metis
  moreover have dist2: "distinct (map of_id xs)" using Cons.prems(2) by simp
  ultimately obtain ns au' where rest: "collect xs (resettle_one W p a) ?s1 = (Inr ns, ?s1\<lparr>db_promos :=
      map (\<lambda>y. if y \<in> set xs then settled W p ?s1 y else y) (db_promos ?s1), db_audit := au'\<rparr>)"
    and ns: "sum_list (map fst ns) = 0 \<and> sum_list (map snd ns) = 0
      \<longleftrightarrow> (\<forall>x \<in> set xs. settled W p ?s1 x = x)"
    using Cons.IH [OF dist1 dist2 \<open>set xs \<subseteq> set (db_promos ?s1)\<close>] by blast
  have eq: "map (\<lambda>y. if y \<in> set xs then settled W p s y else y) ?m
      = map (\<lambda>y. if y \<in> set (x # xs) then settled W p s y else y) (db_promos s)"
    unfolding map_map
  proof (rule map_cong [OF refl], goal_cases)
    case (1 y)
    show ?case
    proof (cases "of_id y = of_id x")
      case True
      then have "y = x" using 1 Cons.prems(1,3) by (auto simp: distinct_map inj_on_def)
      moreover have "settled W p s x \<notin> set xs" using other by fastforce
      ultimately show ?thesis by simp
    next
      case False
      then show ?thesis by auto
    qed
  qed
  have se: "settled W p ?s1 = settled W p s" and promos: "db_promos ?s1 = ?m" by simp_all
  have st: "?s1\<lparr>db_promos := ps, db_audit := au'\<rparr> = s\<lparr>db_promos := ps, db_audit := au'\<rparr>" for ps by simp
  note rest' = rest [unfolded se promos eq st] and ns' = ns [unfolded se]
  have "collect (x # xs) (resettle_one W p a) s = (Inr (n # ns), s\<lparr>db_promos :=
      map (\<lambda>y. if y \<in> set (x # xs) then settled W p s y else y) (db_promos s), db_audit := au'\<rparr>)"
    unfolding collect.simps bind_Inr [where m = "resettle_one W p a x", OF one]
      bind_Inr [where m = "collect xs (resettle_one W p a)", OF rest'] ret_apply ..
  moreover have "sum_list (map fst (n # ns)) = 0 \<and> sum_list (map snd (n # ns)) = 0
      \<longleftrightarrow> (\<forall>y \<in> set (x # xs). settled W p s y = y)"
    using n ns' by (cases n) auto
  ultimately show ?case by blast
qed

lemma settled_amount_again [simp]:
  "settled_amount (x\<lparr>of_isActive := b\<rparr>) ps = settled_amount x ps"
  "settled_amount (x\<lparr>of_amount := settled_amount x ps, of_discountPercentage := q\<rparr>) ps = settled_amount x ps"
  by (auto simp: settled_amount_def split: offer_basis.splits option.splits)

lemma settled_idem: "settled W p s (settled W p s x) = settled W p s x"
proof -
  let ?ps = "live_prices W p x s"
  obtain d b where fb: "find_break (of_audience x) (settled_amount x ?ps) None ?ps = (d, b)" by fastforce
  then have eq: "settled W p s x = (if b then x\<lparr>of_isActive := False\<rparr> else x\<lparr>of_amount := settled_amount x ?ps,
      of_discountPercentage := offerPercentage (case d of None \<Rightarrow> 0 | Some y \<Rightarrow> y) (settled_amount x ?ps)\<rparr>)"
    by (simp add: settled_def Let_def)
  have "settled_amount (settled W p s x) ?ps = settled_amount x ?ps" by (simp add: eq)
  then have "settled W p s (settled W p s x) = (if b then (settled W p s x)\<lparr>of_isActive := False\<rparr>
      else (settled W p s x)\<lparr>of_amount := settled_amount x ?ps,
      of_discountPercentage := offerPercentage (case d of None \<Rightarrow> 0 | Some y \<Rightarrow> y) (settled_amount x ?ps)\<rparr>)"
    using fb by (subst settled_def) (simp add: Let_def)
  then show ?thesis by (cases b) (simp_all add: eq)
qed

text \<open>The settlement of a material is the settlement of each of its offers, row by row.\<close>

lemma resettle_effect:
  assumes "distinct (map of_id (db_promos s))"
  shows "\<exists>n m au. resettle W p a s = (Inr (n, m), s\<lparr>db_promos :=
      map (\<lambda>y. if of_productId y = p then settled W p s y else y) (db_promos s), db_audit := au\<rparr>)
    \<and> (n = 0 \<and> m = 0 \<longleftrightarrow> (\<forall>x \<in> set (db_promos s). of_productId x = p \<longrightarrow> settled W p s x = x))"
proof -
  let ?xs = "filter (\<lambda>x. of_productId x = p) (db_promos s)"
  obtain ns au where loop: "collect ?xs (resettle_one W p a) s = (Inr ns, s\<lparr>db_promos :=
      map (\<lambda>y. if y \<in> set ?xs then settled W p s y else y) (db_promos s), db_audit := au\<rparr>)"
    and ns: "sum_list (map fst ns) = 0 \<and> sum_list (map snd ns) = 0 \<longleftrightarrow> (\<forall>x \<in> set ?xs. settled W p s x = x)"
    using resettle_loop [OF assms, of ?xs W p a] assms by (auto simp: distinct_map_filter)
  have map: "map (\<lambda>y. if y \<in> set ?xs then settled W p s y else y) (db_promos s)
      = map (\<lambda>y. if of_productId y = p then settled W p s y else y) (db_promos s)"
    by (intro map_cong) auto
  have "resettle W p a s = (Inr (sum_list (map fst ns), sum_list (map snd ns)), s\<lparr>db_promos :=
      map (\<lambda>y. if of_productId y = p then settled W p s y else y) (db_promos s), db_audit := au\<rparr>)"
    unfolding resettle_def bind_reads
    by (subst bind_Inr [where m = "collect ?xs (resettle_one W p a)", OF loop]) (simp only: map ret_apply)
  moreover have "(\<forall>x \<in> set ?xs. settled W p s x = x)
      \<longleftrightarrow> (\<forall>x \<in> set (db_promos s). of_productId x = p \<longrightarrow> settled W p s x = x)" by auto
  ultimately show ?thesis using ns by blast
qed

text \<open>Prices are positive figures of three decimals; so are the amounts, and a promised share is at
  most the whole price.\<close>

definition prices_ok :: "store \<Rightarrow> bool" where
  "prices_ok s \<longleftrightarrow> one_price s \<and> (\<forall>r \<in> set (db_pricing s). milli (pr_price r) \<and> 0 < pr_price r)"

definition promos_ok :: "store \<Rightarrow> bool" where
  "promos_ok s \<longleftrightarrow> distinct (map of_id (db_promos s))
     \<and> (\<forall>x \<in> set (db_promos s). milli (of_amount x) \<and> 0 \<le> of_amount x
        \<and> (case of_basisPercentage x of None \<Rightarrow> True | Some q \<Rightarrow> 0 \<le> q))"

lemma cheapest_in:
  assumes "cheapest_of ps = Some y"
  shows "y \<in> set ps"
proof -
  have "fold (\<lambda>base c. Some (case c of None \<Rightarrow> base | Some m \<Rightarrow> min m base)) qs c = Some y \<Longrightarrow>
      c = Some y \<or> y \<in> set qs" for qs c
  proof (induction qs arbitrary: c)
    case (Cons q qs)
    from Cons.IH [of "Some (case c of None \<Rightarrow> q | Some m \<Rightarrow> min m q)"] Cons.prems
    show ?case by (cases c) (auto simp: min_def split: if_splits)
  qed simp
  from this [of ps None] assms show ?thesis by (simp add: cheapest_of_def)
qed

lemma settled_amount_ok:
  assumes "milli (of_amount x)" and "0 \<le> of_amount x" and "\<And>b. b \<in> set ps \<Longrightarrow> 0 < b"
    and "\<And>q. of_basisPercentage x = Some q \<Longrightarrow> 0 \<le> q"
  shows "milli (settled_amount x ps) \<and> 0 \<le> settled_amount x ps"
proof (cases "\<exists>q c. of_basis x = BASIS_PERCENTAGE \<and> of_basisPercentage x = Some q \<and> cheapest_of ps = Some c")
  case True
  then obtain q c where eq: "of_basis x = BASIS_PERCENTAGE" "of_basisPercentage x = Some q"
    "cheapest_of ps = Some c" by blast
  then have "0 \<le> c * (q / 100)" using assms(3) [OF cheapest_in [of ps c]] assms(4) by simp
  then show ?thesis using eq by (simp add: settled_amount_def amountFromPercentage_def round3_nonneg)
next
  case False
  then have "settled_amount x ps = of_amount x"
    by (auto simp: settled_amount_def split: offer_basis.splits option.splits)
  then show ?thesis using assms by simp
qed

text \<open>A buyer is never quoted a price of nothing once the offers are settled.\<close>

lemma effective_positive:
  assumes prices: "prices_ok s" and ep: "effectivePrice W p r c s = Some ep"
    and fits: "\<And>x b. x \<in> set (db_promos s) \<Longrightarrow> of_productId x = p \<Longrightarrow> of_audience x = BUYERS \<Longrightarrow> of_isActive x \<Longrightarrow>
      b \<in> set (live_prices W p x s) \<Longrightarrow> of_amount x < b"
    and amounts: "\<And>x. x \<in> set (db_promos s) \<Longrightarrow> of_productId x = p \<Longrightarrow> milli (of_amount x) \<and> 0 \<le> of_amount x"
  shows "0 < ep_price ep"
proof -
  obtain base where base: "priceFor W p (tierForRole r) c s = Some base"
    and ep_eq: "ep_price ep = (case liveOfferFor W p r c s of None \<Rightarrow> base
      | Some o' \<Rightarrow> priceAfterOffer base (of_amount o') (of_audience o'))"
    using ep by (auto simp: effectivePrice_def Let_def split: option.splits)
  obtain row where row: "row \<in> set (db_pricing s)" "pr_productId row = p" "pr_tier row = tierForRole r"
    "in_force (w_now W) (pr_effectiveFrom row) (pr_effectiveUntil row)"
    "condition_key (pr_conditionCode row) = condition_key c" "pr_price row = base"
    using priceFor_row [OF base] .
  have one: "one_price s" and base_ok: "milli base" "0 < base"
    using prices row(1,6) by (auto simp: prices_ok_def)
  show ?thesis
  proof (cases "liveOfferFor W p r c s")
    case None
    then show ?thesis using ep_eq base_ok by simp
  next
    case (Some x)
    then obtain aud where aud: "audienceForRole r = Some aud"
      and big: "biggest (filter (offer_reaches W p r aud c) (db_promos s)) = Some x"
      by (auto simp: liveOfferFor_def split: option.splits)
    obtain rest where "sort_key (\<lambda>o'. - of_amount o')
        (filter (offer_reaches W p r aud c) (db_promos s)) = x # rest"
      using big by (auto simp: biggest_def split: list.splits)
    then have "x \<in> set (sort_key (\<lambda>o'. - of_amount o') (filter (offer_reaches W p r aud c) (db_promos s)))"
      by (simp only: list.set_intros)
    then have x: "x \<in> set (db_promos s)" and reach: "offer_reaches W p r aud c x" by auto
    then have px: "of_productId x = p" and ax: "of_audience x = aud" and act: "of_isActive x"
      by (simp_all add: offer_reaches_def)
    note amt = amounts [OF x px]
    show ?thesis
    proof (cases aud)
      case SELLERS
      then show ?thesis
        using ep_eq Some amt base_ok ax by (simp add: priceAfterOffer_sellers)
    next
      case BUYERS
      have "pr_conditionCode row \<noteq> Some []" using one row(1) by (simp add: one_price_def)
      then have "pr_conditionCode row = (case of_conditionCode x of Some (k # ks) \<Rightarrow> Some (k # ks) | _ \<Rightarrow> None)"
        using row(5) reach by (auto simp: offer_reaches_def condition_key_def split: option.splits list.splits)
      from livePrice_row [OF one row(1,4) this]
      have live: "livePrice W p (tierForRole r) (of_conditionCode x) s = Some base" by (simp add: row)
      have "r \<in> set (case of_targetRoles x of Some (r # rs) \<Rightarrow> r # rs | _ \<Rightarrow> AUDIENCE_ROLES (of_audience x))"
        using reach aud ax by (auto simp: offer_reaches_def split: option.splits list.splits)
      then have "tierForRole r \<in> set (offer_tiers x)"
        by (auto simp: offer_tiers_def tiersForAudience_def split: option.splits list.splits)
      with live have "base \<in> set (live_prices W p x s)"
        by (force simp: live_prices_def set_map_filter)
      from fits [OF x px _ act this] BUYERS ax have "of_amount x < base" by simp
      then have "priceAfterOffer base (of_amount x) BUYERS = base - of_amount x"
        using base_ok amt by (intro priceAfterOffer_buyers) auto
      then show ?thesis using ep_eq Some ax BUYERS \<open>of_amount x < base\<close> by simp
    qed
  qed
qed

section \<open>Properties\<close>


text \<open>The price of copper for the factories falls to 3 while an offer takes 4 off it and another a
  quarter.\<close>

definition ex_promo :: "ident \<Rightarrow> rat \<Rightarrow> offer_basis \<Rightarrow> rat option \<Rightarrow> promo" where
  "ex_promo i amount basis q = \<lparr>of_id = i, of_productId = ''copper'', of_targetRoles = Some [FACTORY],
     of_conditionId = None, of_conditionCode = None, of_audience = BUYERS, of_amount = amount, of_discountPercentage = 40,
     of_basis = basis, of_basisPercentage = q, of_validFrom = 0, of_validUntil = None,
     of_isActive = True, of_roleSpecific = True\<rparr>"

definition ex_shop :: store where
  "ex_shop = ex_store\<lparr>
     db_pricing := [\<lparr>pr_id = ''pr'', pr_productId = ''copper'', pr_tier = TIER_FACTORY, pr_conditionId = None,
       pr_conditionCode = None, pr_price = 3, pr_currency = ''SYP'', pr_effectiveFrom = 0,
       pr_effectiveUntil = None\<rparr>],
     db_promos := [ex_promo ''of1'' 4 BASIS_AMOUNT None, ex_promo ''of2'' (5/2) BASIS_PERCENTAGE (Some 25)]\<rparr>"

definition ex_clock :: world where
  "ex_clock = \<lparr>w_now = 1000, w_apiKey = False, w_geo = (\<lambda>_ _. 0), w_google = (\<lambda>_ _. None),
     w_trucks = (\<lambda>_. None), w_driversFor = (\<lambda>_. None), w_driver = (\<lambda>_. None),
     w_yearMonth = (\<lambda>_. (2026, 7)), w_windowStart = (\<lambda>_ _. 0)\<rparr>"

lemma ex_shop_ok: "prices_ok ex_shop" "promos_ok ex_shop"
  by (simp_all add: prices_ok_def one_price_def promos_ok_def ex_shop_def ex_promo_def milli_def)

lemma ex_shop_settled:
  "map (\<lambda>x. (of_isActive x, of_amount x, of_discountPercentage x))
     (db_promos (snd (resettle ex_clock ''copper'' None ex_shop))) = [(False, 4, 40), (True, 3/4, 25)]"
  by code_simp


end
