(* ===== verification/Cart.thy ===== *)
theory Cart
  imports Pricing
begin

text \<open>
  The basket: \<open>waste-management/cart/cart.service.ts\<close>, with the two readers it rests on, the grades of
  a material (\<open>common/providers/conditions.service.ts\<close>) and the buyer's profile
  (\<open>common/providers/buyer-profile.service.ts\<close>).  The one-minute caches of grades and units are
  modelled as always fresh: every administrator edit invalidates them.
\<close>

subsection \<open>Grades\<close>

definition activeForProduct :: "ident \<Rightarrow> store \<Rightarrow> material_condition list" where
  "activeForProduct productId s = filter g_isActive
     (sort_key g_sortOrder (filter (\<lambda>g. g_productId g = productId) (db_grades s)))"

definition hasConditions :: "ident \<Rightarrow> store \<Rightarrow> bool" where
  "hasConditions productId s \<longleftrightarrow> 0 < length (activeForProduct productId s)"

definition resolveActiveById :: "ident \<Rightarrow> ident \<Rightarrow> (ident \<times> string) action" where
  "resolveActiveById productId conditionId =
     bind (reads (\<lambda>s. find (\<lambda>g. g_id g = conditionId) (activeForProduct productId s))) (\<lambda>found.
     case found of None \<Rightarrow> throw BadRequest | Some g \<Rightarrow> ret (g_id g, g_code g))"

subsection \<open>The buyer's profile\<close>

record buyer_profile_ref =
  br_profileId :: ident
  br_provinceId :: "ident option"

definition forAccount :: "ident \<Rightarrow> role \<Rightarrow> buyer_profile_ref action" where
  "forAccount accountId r =
     bind (reads (\<lambda>s. find (\<lambda>b. bp_accountId b = accountId \<and> bp_factory b = (r = FACTORY)) (db_buyers s)))
       (\<lambda>profile. case profile of None \<Rightarrow> throw BadRequest
         | Some b \<Rightarrow> ret \<lparr>br_profileId = bp_id b, br_provinceId = bp_provinceId b\<rparr>)"

definition provinceForBuyer :: "ident \<Rightarrow> role \<Rightarrow> store \<Rightarrow> ident option" where
  "provinceForBuyer accountId r s =
     (if r \<noteq> FACTORY \<and> r \<noteq> EXTERNAL_PARTNER then None
      else case fst (forAccount accountId r s) of Inl e \<Rightarrow> None | Inr b \<Rightarrow> br_provinceId b)"

subsection \<open>The summary\<close>

record cart_summary =
  cs_total_items :: nat
  cs_totals_by_unit :: "(string \<times> rat) list"
  cs_total_weight :: rat
  cs_subtotal :: rat
  cs_total :: rat
  cs_can_checkout :: bool

definition add_quantity :: "cart_item \<Rightarrow> (string \<times> rat) list \<Rightarrow> (string \<times> rat) list" where
  "add_quantity it m = AList.update (ci_unitType it)
     ((case map_of m (ci_unitType it) of None \<Rightarrow> 0 | Some q \<Rightarrow> q) + ci_quantity it) m"

definition buildSummary :: "cart_item list \<Rightarrow> store \<Rightarrow> cart_summary" where
  "buildSummary items s =
     (let subtotal = sum_list (map ci_subtotal items);
          quantityByUnit = fold add_quantity items [];
          weightCodes = map u_code (filter u_isWeight (db_units s));
          totalWeight = sum_list (map ci_quantity (filter (\<lambda>it. List.member weightCodes (ci_unitType it)) items))
      in \<lparr>cs_total_items = length items,
          cs_totals_by_unit = map (\<lambda>(unit, qty). (unit, round3 qty)) quantityByUnit,
          cs_total_weight = round3 totalWeight, cs_subtotal = round3 subtotal, cs_total = round3 subtotal,
          cs_can_checkout = (0 < length items)\<rparr>)"

subsection \<open>Operations\<close>

definition items_of :: "ident \<Rightarrow> store \<Rightarrow> cart_item list" where
  "items_of cartId s = filter (\<lambda>it. ci_cartId it = cartId) (db_cartItems s)"

definition cart_of :: "ident \<Rightarrow> store \<Rightarrow> cart option" where
  "cart_of accountId s = find (\<lambda>c. ct_accountId c = accountId) (db_carts s)"

definition getOrCreateCart :: "ident \<Rightarrow> cart action" where
  "getOrCreateCart accountId =
     bind (reads (cart_of accountId)) (\<lambda>found. case found of Some c \<Rightarrow> ret c
     | None \<Rightarrow> bind fresh_id (\<lambda>i. let c = \<lparr>ct_id = i, ct_accountId = accountId\<rparr> in
         bind (writes (\<lambda>s. s\<lparr>db_carts := tbl_save ct_id c (db_carts s)\<rparr>)) (\<lambda>_. ret c)))"

definition availableInProvince :: "int \<Rightarrow> ident option \<Rightarrow> string option \<Rightarrow> store \<Rightarrow> rat" where
  "availableInProvince odooProductId provinceId conditionCode s =
     sum_list (map (\<lambda>i. max (i_quantity i - i_reservedQuantity i) 0)
       (filter (\<lambda>i. i_odooProductId i = odooProductId
          \<and> (case conditionCode of Some (c # cs) \<Rightarrow> i_conditionCode i = c # cs | _ \<Rightarrow> True)
          \<and> (case find_warehouse (i_warehouseId i) s of None \<Rightarrow> False
             | Some w \<Rightarrow> wh_state w = ACTIVE
                 \<and> (case provinceId of Some p \<Rightarrow> wh_provinceId w = p | None \<Rightarrow> True)))
         (db_inventory s)))"

definition buysPerGrade :: "role \<Rightarrow> bool" where
  "buysPerGrade r \<longleftrightarrow> r = FACTORY \<or> r = EXTERNAL_PARTNER"

text \<open>The grade of the new line: asked for only of buyers priced per grade, on graded materials.\<close>

definition chosenCondition :: "role \<Rightarrow> ident \<Rightarrow> ident option \<Rightarrow> string option action" where
  "chosenCondition r productId conditionId =
     bind (reads (hasConditions productId)) (\<lambda>graded.
     if buysPerGrade r \<and> graded then
       (case conditionId of None \<Rightarrow> throw BadRequest
        | Some i \<Rightarrow> bind (resolveActiveById productId i) (\<lambda>(_, code). ret (Some code)))
     else ret None)"

text \<open>The stock guard for those who buy from a warehouse.\<close>

definition stockGuard :: "ident \<Rightarrow> role \<Rightarrow> product \<Rightarrow> string option \<Rightarrow> rat \<Rightarrow> unit action" where
  "stockGuard accountId r material conditionCode quantity =
     (if buysPerGrade r then
        bind (reads (\<lambda>s. case pd_odooProductId material of
            Some pid \<Rightarrow> if pid = 0 then 0
              else availableInProvince pid (provinceForBuyer accountId r s) conditionCode s
          | None \<Rightarrow> 0)) (\<lambda>available. refuse_if (available < quantity) BadRequest)
      else ret ())"

definition new_item :: "ident \<Rightarrow> cart \<Rightarrow> product \<Rightarrow> effective_price \<Rightarrow> string option \<Rightarrow> rat \<Rightarrow> cart_item" where
  "new_item i c material effective conditionCode quantity =
     \<lparr>ci_id = i, ci_cartId = ct_id c, ci_productId = pd_id material,
      ci_offerId = map_option of_id (ep_offer effective), ci_quantity = quantity,
      ci_unitType = pd_unitType material, ci_conditionCode = conditionCode,
      ci_unitPrice = ep_price effective, ci_subtotal = round3 (ep_price effective * quantity),
      ci_isOffer = (ep_offer effective \<noteq> None)\<rparr>"

definition save_item :: "cart_item \<Rightarrow> unit action" where
  "save_item it = writes (\<lambda>s. s\<lparr>db_cartItems := tbl_save ci_id it (db_cartItems s)\<rparr>)"

text \<open>The second half of \<open>addItem\<close>: the basket, the duplicate check, the new line.\<close>

definition addLine ::
    "ident \<Rightarrow> product \<Rightarrow> effective_price \<Rightarrow> string option \<Rightarrow> rat \<Rightarrow> (cart_item \<times> cart_summary) action" where
  "addLine accountId material price conditionCode quantity =
     bind (getOrCreateCart accountId) (\<lambda>c.
     bind (reads (\<lambda>s. find (\<lambda>it. ci_cartId it = ct_id c \<and> ci_productId it = pd_id material
         \<and> ci_conditionCode it = conditionCode) (db_cartItems s))) (\<lambda>duplicate.
     bind (refuse_if (duplicate \<noteq> None) Conflict) (\<lambda>_.
     bind fresh_id (\<lambda>i.
     let item = new_item i c material price conditionCode quantity in
     bind (save_item item) (\<lambda>_.
     reads (\<lambda>s. (item, buildSummary (items_of (ct_id c) s) s)))))))"

definition addItem ::
    "world \<Rightarrow> ident \<Rightarrow> role \<Rightarrow> ident \<Rightarrow> rat \<Rightarrow> ident option \<Rightarrow> (cart_item \<times> cart_summary) action" where
  "addItem W accountId r productId quantity conditionId =
     bind (reads (\<lambda>s. find (\<lambda>p. pd_id p = productId \<and> pd_isActive p) (db_products s))) (\<lambda>found.
     case found of None \<Rightarrow> throw NotFound | Some material \<Rightarrow>
     bind (chosenCondition r (pd_id material) conditionId) (\<lambda>conditionCode.
     bind (reads (effectivePrice W (pd_id material) r conditionCode)) (\<lambda>effective.
     case effective of None \<Rightarrow> throw BadRequest | Some price \<Rightarrow>
     bind (stockGuard accountId r material conditionCode quantity) (\<lambda>_.
     addLine accountId material price conditionCode quantity))))"

definition loadOwnedItem :: "ident \<Rightarrow> ident \<Rightarrow> cart_item action" where
  "loadOwnedItem accountId itemId =
     bind (reads (\<lambda>s. tbl_find ci_id itemId (db_cartItems s))) (\<lambda>found.
     case found of None \<Rightarrow> throw NotFound | Some item \<Rightarrow>
     bind (reads (\<lambda>s. tbl_find ct_id (ci_cartId item) (db_carts s))) (\<lambda>c.
     bind (refuse_if (map_option ct_accountId c \<noteq> Some accountId) Forbidden) (\<lambda>_.
     ret item)))"

definition getCart :: "ident \<Rightarrow> (cart_item list \<times> cart_summary) action" where
  "getCart accountId =
     bind (getOrCreateCart accountId) (\<lambda>c.
     reads (\<lambda>s. (items_of (ct_id c) s, buildSummary (items_of (ct_id c) s) s)))"

definition updateItem :: "ident \<Rightarrow> ident \<Rightarrow> rat \<Rightarrow> (cart_item list \<times> cart_summary) action" where
  "updateItem accountId itemId quantity =
     bind (loadOwnedItem accountId itemId) (\<lambda>item.
     bind (save_item (item\<lparr>ci_quantity := quantity, ci_subtotal := round3 (ci_unitPrice item * quantity)\<rparr>))
       (\<lambda>_. getCart accountId))"

definition removeItem :: "ident \<Rightarrow> ident \<Rightarrow> unit action" where
  "removeItem accountId itemId =
     bind (loadOwnedItem accountId itemId) (\<lambda>item.
     writes (\<lambda>s. s\<lparr>db_cartItems := filter (\<lambda>it. ci_id it \<noteq> ci_id item) (db_cartItems s)\<rparr>))"

text \<open>The lines cascade with their cart.\<close>

definition clearCart :: "ident \<Rightarrow> unit action" where
  "clearCart accountId =
     bind (reads (cart_of accountId)) (\<lambda>found. case found of None \<Rightarrow> ret ()
     | Some c \<Rightarrow> writes (\<lambda>s. s\<lparr>db_carts := filter (\<lambda>x. ct_id x \<noteq> ct_id c) (db_carts s),
         db_cartItems := filter (\<lambda>it. ci_cartId it \<noteq> ct_id c) (db_cartItems s)\<rparr>))"

section \<open>Well-formed baskets\<close>

definition basket_keys :: "store \<Rightarrow> ident set" where
  "basket_keys s = ct_id ` set (db_carts s) \<union> ci_id ` set (db_cartItems s)"

definition line_key :: "cart_item \<Rightarrow> ident \<times> ident \<times> string option" where
  "line_key it = (ci_cartId it, ci_productId it, ci_conditionCode it)"

definition cart_ok :: "store \<Rightarrow> bool" where
  "cart_ok s \<longleftrightarrow> fresh_for basket_keys s
     \<and> distinct (map ct_id (db_carts s)) \<and> distinct (map ct_accountId (db_carts s))
     \<and> distinct (map ci_id (db_cartItems s)) \<and> distinct (map line_key (db_cartItems s))
     \<and> ci_cartId ` set (db_cartItems s) \<subseteq> ct_id ` set (db_carts s)
     \<and> (\<forall>it \<in> set (db_cartItems s). ci_subtotal it = round3 (ci_unitPrice it * ci_quantity it))"

lemma cart_ok_cart:
  assumes "cart_ok s" and "accountId \<notin> ct_accountId ` set (db_carts s)"
  shows "cart_ok (s\<lparr>db_next := Suc (db_next s),
    db_carts := db_carts s @ [\<lparr>ct_id = db_uuid s (db_next s), ct_accountId = accountId\<rparr>]\<rparr>)"
proof -
  have fresh: "fresh_for basket_keys s" using assms(1) by (simp add: cart_ok_def)
  then have "db_uuid s (db_next s) \<notin> ct_id ` set (db_carts s)"
    using fresh_next [of basket_keys s] by (simp add: basket_keys_def)
  moreover have "fresh_for basket_keys (s\<lparr>db_next := Suc (db_next s),
      db_carts := db_carts s @ [\<lparr>ct_id = db_uuid s (db_next s), ct_accountId = accountId\<rparr>]\<rparr>)"
    using fresh by (rule fresh_after) (auto simp: basket_keys_def)
  ultimately show ?thesis using assms by (auto simp: cart_ok_def)
qed

lemma cart_ok_next: "cart_ok s \<Longrightarrow> cart_ok (s\<lparr>db_next := Suc (db_next s)\<rparr>)"
  by (auto simp: cart_ok_def basket_keys_def fresh_for_def intro: less_SucI)

text \<open>A basket for the account is there afterwards, and no line moved.\<close>

lemma getOrCreateCart_triple:
  "triple (\<lambda>s. cart_ok s \<and> R (db_cartItems s)) (getOrCreateCart accountId)
     (\<lambda>c s. cart_ok s \<and> R (db_cartItems s) \<and> c \<in> set (db_carts s) \<and> ct_accountId c = accountId) (\<lambda>_. False)"
proof (rule tripleI, goal_cases)
  case (1 s e s')
  then show ?case by (auto simp: getOrCreateCart_def fresh_id_def Let_def bind_def split: option.splits)
next
  case (2 s c s')
  show ?case
  proof (cases "cart_of accountId s")
    case None
    then have none: "accountId \<notin> ct_accountId ` set (db_carts s)"
      by (auto simp: cart_of_def find_None_iff)
    have "db_uuid s (db_next s) \<notin> ct_id ` set (db_carts s)"
      using 2(1) fresh_next [of basket_keys s] by (simp add: cart_ok_def basket_keys_def)
    then show ?thesis
      using 2 None cart_ok_cart [of s accountId] none
      by (auto simp: getOrCreateCart_def fresh_id_def Let_def bind_def tbl_save_fresh)
  next
    case (Some x)
    then have "x \<in> set (db_carts s)" and "ct_accountId x = accountId"
      by (auto simp: cart_of_def find_Some_iff)
    then show ?thesis using 2 Some by (auto simp: getOrCreateCart_def)
  qed
qed

lemma keeps_getOrCreateCart [keeps_rules]: "keeps cart_ok (getOrCreateCart accountId)"
  unfolding keeps_triple
  by (rule triple_conseq [OF getOrCreateCart_triple [where R = "\<lambda>_. True"]]) auto

lemma keeps_loadOwnedItem [keeps_rules]: "keeps cart_ok (loadOwnedItem accountId itemId)"
  unfolding loadOwnedItem_def by (intro keeps_rules)

lemma loadOwnedItem_triple:
  "triple cart_ok (loadOwnedItem accountId itemId)
     (\<lambda>it s. cart_ok s \<and> it \<in> set (db_cartItems s) \<and> ci_id it = itemId) cart_ok"
  unfolding loadOwnedItem_def
  by (intro triple_rules) (auto dest: tbl_find_SomeD)

text \<open>The writes: a line changed in place, a new line, lines taken out.\<close>

lemma cart_ok_items:
  assumes "cart_ok s" and "map ci_id its = map ci_id (db_cartItems s)"
    and "map line_key its = map line_key (db_cartItems s)"
    and "\<forall>it \<in> set its. ci_subtotal it = round3 (ci_unitPrice it * ci_quantity it)"
  shows "cart_ok (s\<lparr>db_cartItems := its\<rparr>)"
proof -
  have "map (fst \<circ> line_key) its = map (fst \<circ> line_key) (db_cartItems s)"
    using assms(3) by (metis map_map)
  moreover have "fst \<circ> line_key = ci_cartId" by (simp add: fun_eq_iff line_key_def)
  ultimately have "map ci_cartId its = map ci_cartId (db_cartItems s)" by simp
  then have "ci_cartId ` set its = ci_cartId ` set (db_cartItems s)" by (metis set_map)
  moreover have "ci_id ` set its = ci_id ` set (db_cartItems s)" using assms(2) by (metis set_map)
  ultimately show ?thesis
    using assms by (simp add: cart_ok_def fresh_for_def basket_keys_def)
qed

lemma save_item_changed:
  assumes "cart_ok s" and "it \<in> set (db_cartItems s)" and "line_key it' = line_key it" and "ci_id it' = ci_id it"
    and "ci_subtotal it' = round3 (ci_unitPrice it' * ci_quantity it')"
  shows "cart_ok (s\<lparr>db_cartItems := tbl_save ci_id it' (db_cartItems s)\<rparr>)"
proof -
  let ?f = "\<lambda>x. if ci_id x = ci_id it' then it' else x"
  have dist: "distinct (map ci_id (db_cartItems s))" using assms(1) by (simp add: cart_ok_def)
  have saved: "tbl_save ci_id it' (db_cartItems s) = map ?f (db_cartItems s)"
    using tbl_save_map [OF dist, of it'] assms(2,4) by auto
  have "x = it" if "x \<in> set (db_cartItems s)" "ci_id x = ci_id it'" for x
    using that assms(2,4) dist by (auto simp: distinct_map inj_on_def)
  then have "map ci_id (map ?f (db_cartItems s)) = map ci_id (db_cartItems s)"
    and "map line_key (map ?f (db_cartItems s)) = map line_key (db_cartItems s)"
    using assms(3) by (auto simp: comp_def)
  moreover have "\<forall>x \<in> set (map ?f (db_cartItems s)). ci_subtotal x = round3 (ci_unitPrice x * ci_quantity x)"
    using assms(1,5) by (auto simp: cart_ok_def)
  ultimately show ?thesis unfolding saved using assms(1) by (intro cart_ok_items)
qed

lemma save_item_new:
  assumes "cart_ok s" and "line_key it \<notin> line_key ` set (db_cartItems s)" and "ci_id it = db_uuid s (db_next s)"
    and "ci_cartId it \<in> ct_id ` set (db_carts s)" and "ci_subtotal it = round3 (ci_unitPrice it * ci_quantity it)"
  shows "cart_ok (s\<lparr>db_next := Suc (db_next s), db_cartItems := tbl_save ci_id it (db_cartItems s)\<rparr>)"
proof -
  have fresh: "fresh_for basket_keys s" using assms(1) by (simp add: cart_ok_def)
  then have new: "ci_id it \<notin> ci_id ` set (db_cartItems s)"
    using fresh_next [of basket_keys s] assms(3) by (simp add: basket_keys_def)
  have "fresh_for basket_keys (s\<lparr>db_next := Suc (db_next s), db_cartItems := db_cartItems s @ [it]\<rparr>)"
    using fresh by (rule fresh_after) (auto simp: basket_keys_def assms(3))
  then show ?thesis
    using assms new by (auto simp: cart_ok_def tbl_save_fresh)
qed

lemma cart_ok_filter:
  assumes "cart_ok s" and "\<And>it. it \<in> set (db_cartItems s) \<Longrightarrow> P it \<Longrightarrow> Q (ci_cartId it)"
  shows "cart_ok (s\<lparr>db_carts := filter (\<lambda>c. Q (ct_id c)) (db_carts s),
    db_cartItems := filter P (db_cartItems s)\<rparr>)"
  using assms unfolding cart_ok_def fresh_for_def basket_keys_def
  by (auto simp: distinct_map_filter subset_iff image_iff) (metis assms(2))

section \<open>Every operation keeps the baskets well formed\<close>

lemma keeps_getCart: "keeps cart_ok (getCart accountId)"
  unfolding getCart_def by (intro keeps_rules)

lemma keeps_updateItem: "keeps cart_ok (updateItem accountId itemId quantity)"
proof -
  have "triple (\<lambda>s. cart_ok s \<and> it \<in> set (db_cartItems s) \<and> ci_id it = itemId)
      (bind (save_item (it\<lparr>ci_quantity := quantity, ci_subtotal := round3 (ci_unitPrice it * quantity)\<rparr>))
        (\<lambda>_. getCart accountId)) (\<lambda>_. cart_ok) cart_ok" for it
  proof (rule triple_bind [where R = "\<lambda>_. cart_ok"])
    show "triple (\<lambda>s. cart_ok s \<and> it \<in> set (db_cartItems s) \<and> ci_id it = itemId)
      (save_item (it\<lparr>ci_quantity := quantity, ci_subtotal := round3 (ci_unitPrice it * quantity)\<rparr>))
      (\<lambda>_. cart_ok) cart_ok"
      unfolding save_item_def
      by (rule triple_writes) (auto intro!: save_item_changed simp: line_key_def)
  qed (use keeps_getCart in \<open>simp add: keeps_triple\<close>)
  then show ?thesis
    unfolding keeps_triple updateItem_def by (rule triple_bind [OF loadOwnedItem_triple])
qed

lemma keeps_removeItem: "keeps cart_ok (removeItem accountId itemId)"
proof -
  have "cart_ok (s\<lparr>db_cartItems := filter (\<lambda>x. ci_id x \<noteq> i) (db_cartItems s)\<rparr>)" if "cart_ok s" for s i
    using cart_ok_filter [OF that, of "\<lambda>x. ci_id x \<noteq> i" "\<lambda>_. True"] by simp
  then show ?thesis
    unfolding keeps_triple removeItem_def
    by (intro triple_bind [OF loadOwnedItem_triple] triple_rules) auto
qed

lemma keeps_clearCart: "keeps cart_ok (clearCart accountId)"
  unfolding keeps_triple clearCart_def
  by (intro triple_rules) (auto intro!: cart_ok_filter)

lemma keeps_stockGuard [keeps_rules]: "keeps I (stockGuard accountId r material conditionCode quantity)"
  unfolding stockGuard_def by (intro keeps_rules)

lemma keeps_chosenCondition [keeps_rules]: "keeps I (chosenCondition r productId conditionId)"
  unfolding chosenCondition_def resolveActiveById_def by (intro keeps_rules)

lemma addLine_triple:
  "triple (\<lambda>s. cart_ok s \<and> c \<in> set (db_carts s) \<and> ct_accountId c = accountId)
     (bind (reads (\<lambda>s. find (\<lambda>it. ci_cartId it = ct_id c \<and> ci_productId it = pd_id material
         \<and> ci_conditionCode it = conditionCode) (db_cartItems s))) (\<lambda>duplicate.
      bind (refuse_if (duplicate \<noteq> None) Conflict) (\<lambda>_.
      bind fresh_id (\<lambda>i.
      let item = new_item i c material price conditionCode quantity in
      bind (save_item item) (\<lambda>_.
      reads (\<lambda>s. (item, buildSummary (items_of (ct_id c) s) s)))))))
     (\<lambda>_. cart_ok) cart_ok"
proof (intro triple_rules, goal_cases)
  case (1 d s)
  then show ?case by simp
next
  case (2 d)
  show ?case
  proof (rule tripleI, goal_cases)
    case (2 s x s')
    let ?it = "new_item (db_uuid s (db_next s)) c material price conditionCode quantity"
    have none: "find (\<lambda>it. ci_cartId it = ct_id c \<and> ci_productId it = pd_id material
         \<and> ci_conditionCode it = conditionCode) (db_cartItems s) = None" using 2(1) \<open>\<not> d \<noteq> None\<close> by simp
    have "cart_ok (s\<lparr>db_next := Suc (db_next s), db_cartItems := tbl_save ci_id ?it (db_cartItems s)\<rparr>)"
    proof (rule save_item_new)
      show "line_key ?it \<notin> line_key ` set (db_cartItems s)"
        using none by (auto simp: find_None_iff line_key_def new_item_def)
    qed (use 2 in \<open>auto simp: new_item_def\<close>)
    then show ?case using 2(2) by (auto simp: fresh_id_def save_item_def Let_def bind_def)
  qed (auto simp: fresh_id_def save_item_def Let_def bind_def)
qed

lemma cart_there:
  "triple cart_ok (getOrCreateCart accountId)
     (\<lambda>c s. cart_ok s \<and> c \<in> set (db_carts s) \<and> ct_accountId c = accountId) cart_ok"
  by (rule triple_conseq [OF getOrCreateCart_triple [where R = "\<lambda>_. True"]]) auto

lemma keeps_addLine [keeps_rules]: "keeps cart_ok (addLine accountId material price conditionCode quantity)"
  unfolding keeps_triple addLine_def by (rule triple_bind [OF cart_there]) (rule addLine_triple)

lemma keeps_addItem: "keeps cart_ok (addItem W accountId r productId quantity conditionId)"
  unfolding addItem_def by (intro keeps_rules)

section \<open>Properties\<close>

text \<open>A request to the basket, as the routes of the cart controller dispatch it.\<close>

datatype cart_request =
    Add_Item ident role ident rat "ident option"
  | Update_Item ident ident rat
  | Remove_Item ident ident
  | Clear_Cart ident
  | Get_Cart ident

fun cart_serve :: "world \<Rightarrow> cart_request \<Rightarrow> unit action" where
  "cart_serve W (Add_Item a r p q c) = bind (addItem W a r p q c) (\<lambda>_. ret ())"
| "cart_serve W (Update_Item a i q) = bind (updateItem a i q) (\<lambda>_. ret ())"
| "cart_serve W (Remove_Item a i) = removeItem a i"
| "cart_serve W (Clear_Cart a) = clearCart a"
| "cart_serve W (Get_Cart a) = bind (getCart a) (\<lambda>_. ret ())"

text \<open>Requests one after the other; a refused one answers its caller and the next is served.\<close>

definition cart_session :: "world \<Rightarrow> cart_request list \<Rightarrow> unit action" where
  "cart_session W rs = for_each rs (\<lambda>r. best_effort (cart_serve W r))"


definition ex_basket :: store where
  "ex_basket = ex_shop\<lparr>db_products := [\<lparr>pd_id = ''copper'', pd_name = ''Copper'', pd_unitType = ''KG'',
       pd_unitWeightKg = None, pd_isActive = True, pd_odooProductId = Some 7\<rparr>],
     db_warehouses := [\<lparr>wh_id = ''wa'', wh_name = Some ''A'', wh_odooWarehouseId = Some 1,
       wh_provinceId = ''dam'', wh_state = ACTIVE, wh_latitude = None, wh_longitude = None\<rparr>],
     db_inventory := [\<lparr>i_warehouseId = ''wa'', i_odooProductId = 7, i_conditionCode = ''UNGRADED'',
       i_quantity = 50, i_reservedQuantity = 10\<rparr>],
     db_promos := [], db_buyers := [\<lparr>bp_id = ''b'', bp_accountId = ''acc'', bp_factory = True,
       bp_provinceId = Some ''dam'', bp_point = None\<rparr>]\<rparr>"

text \<open>Forty are free: thirty are basketed, a second line of the same material is refused, and so is
  a line of more than the stock.\<close>

lemma ex_basket_run:
  "map (\<lambda>it. (ci_quantity it, ci_subtotal it)) (db_cartItems (snd (cart_session ex_clock
     [Add_Item ''acc'' FACTORY ''copper'' 41 None, Add_Item ''acc'' FACTORY ''copper'' 30 None,
      Add_Item ''acc'' FACTORY ''copper'' 2 None] ex_basket))) = [(30, 90)]"
  by code_simp


end
