(* ===== verification/OrderPolicy.thy ===== *)
theory OrderPolicy
  imports OrderStore
begin

text \<open>
  What the administrator sets and an order is held to: the minimum order value
  (\<open>order/providers/order-minimum.service.ts\<close>), the spending cap
  (\<open>order-spending-cap.service.ts\<close>) and the delivery rate
  (\<open>warehouse/providers/delivery-rate.service.ts\<close>).
\<close>

section \<open>Minimum order value\<close>

record minimum_check =
  mc_passed :: bool
  mc_goodsTotal :: rat
  mc_required :: rat
  mc_shortfall :: rat
  mc_currency :: string

definition min_forRole :: "role \<Rightarrow> store \<Rightarrow> order_minimum option" where
  "min_forRole r s = find (\<lambda>m. m_role m = r \<and> m_isActive m) (db_minimums s)"

definition min_check :: "role \<Rightarrow> rat \<Rightarrow> store \<Rightarrow> minimum_check" where
  "min_check r goodsTotal s = (let minimum = min_forRole r s;
      required = (case minimum of None \<Rightarrow> 0 | Some m \<Rightarrow> m_minOrderValue m);
      shortfall = max (required - goodsTotal) 0
    in \<lparr>mc_passed = (shortfall \<le> 0), mc_goodsTotal = goodsTotal, mc_required = required,
        mc_shortfall = round3 shortfall,
        mc_currency = (case minimum of None \<Rightarrow> db_currency s | Some m \<Rightarrow> m_currency m)\<rparr>)"

definition min_upsert :: "role \<Rightarrow> rat \<Rightarrow> bool option \<Rightarrow> ident \<Rightarrow> order_minimum action" where
  "min_upsert r value isActive adminId =
     bind (reads (\<lambda>s. find (\<lambda>m. m_role m = r) (db_minimums s))) (\<lambda>found.
     bind (case found of Some m \<Rightarrow> ret m
           | None \<Rightarrow> bind fresh_id (\<lambda>i. ret \<lparr>m_id = i, m_role = r, m_minOrderValue = 0,
                m_currency = ''SYP'', m_isActive = True, m_updatedBy = None\<rparr>)) (\<lambda>row.
     bind (reads db_currency) (\<lambda>currency.
     let row' = row\<lparr>m_minOrderValue := value, m_currency := currency,
          m_isActive := (case isActive of None \<Rightarrow> m_isActive row | Some b \<Rightarrow> b),
          m_updatedBy := Some adminId\<rparr>
     in bind (writes (\<lambda>s. s\<lparr>db_minimums := tbl_save m_id row' (db_minimums s)\<rparr>)) (\<lambda>_. ret row'))))"

definition min_remove :: "role \<Rightarrow> unit action" where
  "min_remove r =
     bind (reads (\<lambda>s. find (\<lambda>m. m_role m = r) (db_minimums s))) (\<lambda>row. case row of
       None \<Rightarrow> throw NotFound
     | Some m \<Rightarrow> writes (\<lambda>s. s\<lparr>db_minimums := filter (\<lambda>x. m_id x \<noteq> m_id m) (db_minimums s)\<rparr>))"

section \<open>Spending cap\<close>

text \<open>\<open>sc_remaining = None\<close> stands for \<open>Infinity\<close>.\<close>

record spending_check =
  sk_passed :: bool
  sk_period :: "cap_period option"
  sk_alreadySpent :: rat
  sk_cap :: "rat option"
  sk_incoming :: rat
  sk_remaining :: "rat option"
  sk_currency :: string

definition cap_forRole :: "role \<Rightarrow> store \<Rightarrow> order_spending_cap option" where
  "cap_forRole r s = find (\<lambda>c. c_role c = r \<and> c_isActive c) (db_caps s)"

definition spent_since :: "ident \<Rightarrow> time \<Rightarrow> store \<Rightarrow> rat" where
  "spent_since accountId windowStart s =
     sum_list (map o_goodsTotal (filter (\<lambda>x. o_buyerAccountId x = accountId
        \<and> o_status x \<noteq> CANCELLED \<and> windowStart \<le> o_createdAt x) (db_orders s)))"

definition cap_check :: "world \<Rightarrow> role \<Rightarrow> ident \<Rightarrow> rat \<Rightarrow> store \<Rightarrow> spending_check" where
  "cap_check W r accountId incoming s = (case cap_forRole r s of
       None \<Rightarrow> \<lparr>sk_passed = True, sk_period = None, sk_alreadySpent = 0, sk_cap = None,
         sk_incoming = round3 incoming, sk_remaining = None, sk_currency = db_currency s\<rparr>
     | Some cap \<Rightarrow>
         let ceiling = c_maxAmount cap;
             alreadySpent = spent_since accountId (w_windowStart W (c_period cap) (w_now W)) s;
             projected = alreadySpent + incoming;
             passed = (projected \<le> ceiling)
         in \<lparr>sk_passed = passed, sk_period = Some (c_period cap),
             sk_alreadySpent = round3 alreadySpent, sk_cap = Some ceiling,
             sk_incoming = round3 incoming,
             sk_remaining = Some (round3 (max (ceiling - (if passed then projected else alreadySpent)) 0)),
             sk_currency = c_currency cap\<rparr>)"

definition cap_upsert ::
    "role \<Rightarrow> rat \<Rightarrow> cap_period \<Rightarrow> bool option \<Rightarrow> ident \<Rightarrow> order_spending_cap action" where
  "cap_upsert r maxAmount period isActive adminId =
     bind (reads (\<lambda>s. find (\<lambda>c. c_role c = r) (db_caps s))) (\<lambda>found.
     bind (case found of Some c \<Rightarrow> ret c
           | None \<Rightarrow> bind fresh_id (\<lambda>i. ret \<lparr>c_id = i, c_role = r, c_maxAmount = 0,
                c_period = MONTHLY, c_currency = ''SYP'', c_isActive = True, c_updatedBy = None\<rparr>)) (\<lambda>row.
     bind (reads db_currency) (\<lambda>currency.
     let row' = row\<lparr>c_maxAmount := maxAmount, c_period := period, c_currency := currency,
          c_isActive := (case isActive of None \<Rightarrow> c_isActive row | Some b \<Rightarrow> b),
          c_updatedBy := Some adminId\<rparr>
     in bind (writes (\<lambda>s. s\<lparr>db_caps := tbl_save c_id row' (db_caps s)\<rparr>)) (\<lambda>_. ret row'))))"

definition cap_remove :: "role \<Rightarrow> unit action" where
  "cap_remove r =
     bind (reads (\<lambda>s. find (\<lambda>c. c_role c = r) (db_caps s))) (\<lambda>row. case row of
       None \<Rightarrow> throw NotFound
     | Some c \<Rightarrow> writes (\<lambda>s. s\<lparr>db_caps := filter (\<lambda>x. c_id x \<noteq> c_id c) (db_caps s)\<rparr>))"

section \<open>Delivery rate\<close>

record rate_quote =
  q_distance :: rat
  q_baseFee :: rat
  q_ratePerKm :: rat
  q_cost :: rat
  q_currency :: string

definition latest_first :: "delivery_rate list \<Rightarrow> delivery_rate list" where
  "latest_first = sort_key (\<lambda>r. - dr_effectiveFrom r)"

definition current_rate :: "store \<Rightarrow> delivery_rate option" where
  "current_rate s = (case latest_first (filter dr_isActive (db_rates s)) of
       [] \<Rightarrow> None | r # _ \<Rightarrow> Some r)"

definition currentOrFail :: "delivery_rate action" where
  "currentOrFail = bind (reads current_rate) (\<lambda>rate. case rate of
       None \<Rightarrow> throw NotFound | Some r \<Rightarrow> ret r)"

definition rate_view :: "store \<Rightarrow> bool \<times> delivery_rate option \<times> delivery_rate list" where
  "rate_view s = (current_rate s \<noteq> None, current_rate s, take 20 (latest_first (db_rates s)))"

definition assertSane :: "rat \<Rightarrow> rat option \<Rightarrow> unit action" where
  "assertSane rate_per_km base_fee =
     bind (refuse_if (\<not> 0 < rate_per_km) BadRequest) (\<lambda>_.
     case base_fee of Some f \<Rightarrow> refuse_if (f < 0) BadRequest | None \<Rightarrow> ret ())"

definition close_rate :: "time \<Rightarrow> ident \<Rightarrow> delivery_rate \<Rightarrow> delivery_rate" where
  "close_rate now adminId r =
     r\<lparr>dr_isActive := False, dr_effectiveUntil := Some now, dr_updatedBy := Some adminId\<rparr>"

text \<open>The new version of the rate, and the row that opens it.\<close>

definition open_rate :: "world \<Rightarrow> rat \<Rightarrow> rat \<Rightarrow> string \<Rightarrow> ident option \<Rightarrow> ident \<Rightarrow> delivery_rate action" where
  "open_rate W rate_per_km base_fee currency createdBy adminId =
     bind fresh_id (\<lambda>i.
     let row = \<lparr>dr_id = i, dr_ratePerKm = rate_per_km, dr_baseFee = base_fee, dr_currency = currency,
          dr_isActive = True, dr_effectiveFrom = w_now W, dr_effectiveUntil = None,
          dr_createdBy = createdBy, dr_updatedBy = Some adminId\<rparr>
     in bind (writes (\<lambda>s. s\<lparr>db_rates := tbl_save dr_id row (db_rates s)\<rparr>)) (\<lambda>_. ret row))"

definition rate_set :: "world \<Rightarrow> rat \<Rightarrow> rat option \<Rightarrow> ident \<Rightarrow> delivery_rate action" where
  "rate_set W rate_per_km base_fee adminId =
     bind (assertSane rate_per_km base_fee) (\<lambda>_.
     bind (reads db_currency) (\<lambda>currency.
     transactional (
       bind (writes (\<lambda>s. s\<lparr>db_rates :=
              map (\<lambda>r. if dr_isActive r then close_rate (w_now W) adminId r else r) (db_rates s)\<rparr>)) (\<lambda>_.
       open_rate W rate_per_km (case base_fee of None \<Rightarrow> 0 | Some f \<Rightarrow> f) currency (Some adminId) adminId))))"

definition rate_update ::
    "world \<Rightarrow> ident \<Rightarrow> rat option \<Rightarrow> rat option \<Rightarrow> ident \<Rightarrow> delivery_rate action" where
  "rate_update W k rate_per_km base_fee adminId =
     bind (reads (\<lambda>s. tbl_find dr_id k (db_rates s))) (\<lambda>found. case found of
       None \<Rightarrow> throw NotFound
     | Some rate \<Rightarrow>
       bind (refuse_if (\<not> dr_isActive rate) BadRequest) (\<lambda>_.
       let merged_rate = (case rate_per_km of Some x \<Rightarrow> x | None \<Rightarrow> dr_ratePerKm rate);
           merged_fee = (case base_fee of Some x \<Rightarrow> x | None \<Rightarrow> dr_baseFee rate)
       in bind (assertSane merged_rate (Some merged_fee)) (\<lambda>_.
       transactional (
         bind (writes (\<lambda>s. s\<lparr>db_rates :=
                map (\<lambda>r. if dr_id r = dr_id rate then close_rate (w_now W) adminId r else r) (db_rates s)\<rparr>)) (\<lambda>_.
         open_rate W merged_rate merged_fee (dr_currency rate)
           (case dr_createdBy rate of Some c \<Rightarrow> Some c | None \<Rightarrow> Some adminId) adminId)))))"

definition quote :: "rat \<Rightarrow> rate_quote action" where
  "quote distanceKm = bind currentOrFail (\<lambda>rate.
     let distance = max distanceKm 0;
         cost = dr_baseFee rate + distance * dr_ratePerKm rate
     in ret \<lparr>q_distance = round3 distance, q_baseFee = dr_baseFee rate,
             q_ratePerKm = dr_ratePerKm rate, q_cost = round3 cost, q_currency = dr_currency rate\<rparr>)"

section \<open>Lemmas\<close>

lemma find_Some_iff_distinct:
  "distinct (map f xs) \<Longrightarrow> find (\<lambda>x. f x = k) xs = Some y \<longleftrightarrow> y \<in> set xs \<and> f y = k"
proof (induction xs)
  case (Cons x xs)
  then show ?case by (auto simp: image_iff)
qed simp

lemma find_active_distinct:
  "distinct (map f xs) \<Longrightarrow> find (\<lambda>x. f x = k \<and> P x) xs =
     (case find (\<lambda>x. f x = k) xs of None \<Rightarrow> None | Some x \<Rightarrow> if P x then Some x else None)"
proof (induction xs)
  case (Cons x xs)
  have "find (\<lambda>x. f x = k \<and> P x) xs = None" if "f x = k"
    using that Cons.prems by (auto simp: find_None_iff image_iff)
  with Cons show ?case by auto
qed simp

lemma map_tbl_save_same:
  "distinct (map key rows) \<Longrightarrow> old \<in> set rows \<Longrightarrow> key old = key r \<Longrightarrow> f old = f r \<Longrightarrow>
   map f (tbl_save key r rows) = map f rows"
proof (induction rows)
  case (Cons x xs)
  show ?case
  proof (cases "key x = key r")
    case True
    with Cons.prems have "x = old" by (auto simp: image_iff)
    with True Cons.prems show ?thesis by simp
  next
    case False
    with Cons show ?thesis by auto
  qed
qed simp

text \<open>An upsert of a row that is unique per role: replaced in place, or appended.\<close>

lemma upsert_by_role:
  assumes "distinct (map key rows)" and "distinct (map rl rows)"
    and "find (\<lambda>x. rl x = r) rows = Some old \<and> key new = key old
       \<or> find (\<lambda>x. rl x = r) rows = None \<and> key new \<notin> key ` set rows"
    and "rl new = r"
  shows "distinct (map rl (tbl_save key new rows))"
    and "find (\<lambda>x. rl x = q) (tbl_save key new rows) =
      (if q = r then Some new else find (\<lambda>x. rl x = q) rows)"
proof -
  consider (old) "old \<in> set rows" "rl old = r" "key new = key old"
    | (fresh) "r \<notin> rl ` set rows" "key new \<notin> key ` set rows"
    using assms(2,3) by (auto simp: find_Some_iff_distinct find_None_iff)
  then have both: "distinct (map rl (tbl_save key new rows))
    \<and> set (tbl_save key new rows) = insert new {x \<in> set rows. key x \<noteq> key new}
    \<and> (\<forall>x \<in> set rows. key x = key new \<longrightarrow> rl x = r)"
  proof cases
    case old
    have "x = old" if "x \<in> set rows" "key x = key new" for x
      using that old assms(1) by (auto simp: distinct_map dest: inj_onD)
    then show ?thesis using old assms
      by (auto simp: map_tbl_save_same [where old = old] set_tbl_save)
  next
    case fresh
    then have "key x \<noteq> key new" if "x \<in> set rows" for x
      using that by (metis image_eqI)
    then show ?thesis using fresh assms by (auto simp: tbl_save_fresh)
  qed
  then show "distinct (map rl (tbl_save key new rows))" by simp
  have uniq: "x \<in> set rows \<Longrightarrow> rl x = r \<Longrightarrow> key x = key new" for x
    using assms(2,3) by (auto simp: find_Some_iff_distinct find_None_iff distinct_map inj_on_def)
  show "find (\<lambda>x. rl x = q) (tbl_save key new rows) =
      (if q = r then Some new else find (\<lambda>x. rl x = q) rows)" (is "?l = ?r")
  proof (cases "q = r")
    case True
    have "?l = Some new" using both True assms(4) by (auto simp: find_Some_iff_distinct)
    with True show ?thesis by simp
  next
    case False
    show ?thesis
    proof (cases "find (\<lambda>x. rl x = q) rows")
      case None
      then have "?l = None" using False both assms(4) by (auto simp: find_None_iff)
      with None False show ?thesis by simp
    next
      case (Some x)
      then have "?l = Some x"
        using False both assms(2,4) by (auto simp: find_Some_iff_distinct)
      with Some False show ?thesis by simp
    qed
  qed
qed

section \<open>Properties\<close>

text \<open>C14: setting the minimum of a role keeps one row per role, is what the next check of that role
  holds an order to (when active: refused exactly below the value, short by the difference), and
  leaves every other role's check as it was.\<close>

theorem minimum_roundtrip:
  assumes "distinct (map m_id (db_minimums s))" and "distinct (map m_role (db_minimums s))"
    and "db_uuid s (db_next s) \<notin> m_id ` set (db_minimums s)"
    and "min_upsert r value (Some active) admin s = (Inr row, s')"
  shows "distinct (map m_role (db_minimums s'))
    \<and> (active \<longrightarrow> mc_passed (min_check r amount s') = (value \<le> amount)
        \<and> mc_shortfall (min_check r amount s') = round3 (max (value - amount) 0))
    \<and> (\<not> active \<longrightarrow> mc_passed (min_check r amount s') = (0 \<le> amount))
    \<and> (q \<noteq> r \<longrightarrow> min_check q amount s' = min_check q amount s)"
proof -
  define old where "old = (case find (\<lambda>m. m_role m = r) (db_minimums s) of Some m \<Rightarrow> m
      | None \<Rightarrow> \<lparr>m_id = db_uuid s (db_next s), m_role = r, m_minOrderValue = 0,
                m_currency = ''SYP'', m_isActive = True, m_updatedBy = None\<rparr>)"
  have row: "row = old\<lparr>m_minOrderValue := value, m_currency := db_currency s,
      m_isActive := active, m_updatedBy := Some admin\<rparr>"
    and s': "db_minimums s' = tbl_save m_id row (db_minimums s)" "db_currency s' = db_currency s"
    using assms(4) by (auto simp: min_upsert_def old_def bind_def fresh_id_def ret_def reads_def
        writes_def Let_def split: option.splits)
  have role: "m_role old = r" and keyed:
    "find (\<lambda>m. m_role m = r) (db_minimums s) = Some old \<and> m_id row = m_id old
     \<or> find (\<lambda>m. m_role m = r) (db_minimums s) = None \<and> m_id row \<notin> m_id ` set (db_minimums s)"
    using assms(2,3) row by (auto simp: old_def find_Some_iff_distinct split: option.splits)
  note up = upsert_by_role [where key = m_id and rl = m_role, OF assms(1,2) keyed]
  have found: "find (\<lambda>m. m_role m = p) (db_minimums s')
      = (if p = r then Some row else find (\<lambda>m. m_role m = p) (db_minimums s))" for p
    using up(2) [of p] role row s' by simp
  have dist: "distinct (map m_role (db_minimums s'))"
    using up(1) role row s' by simp
  have forRole: "min_forRole p s' = (if p = r then if active then Some row else None
      else min_forRole p s)" for p
    using found [of p] dist assms(2) row
    by (simp add: min_forRole_def find_active_distinct split: option.splits)
  show ?thesis
    using dist row by (cases active) (auto simp: min_check_def forRole Let_def max_def s'(2) split: option.splits)
qed

theorem minimum_roundtrip_witness:
  "\<not> mc_passed (min_check FACTORY 400 (snd (min_upsert FACTORY 500 (Some True) ''admin'' ex_store)))"
proof -
  obtain row s' where eq: "min_upsert FACTORY 500 (Some True) ''admin'' ex_store = (Inr row, s')"
    by (simp add: min_upsert_def ex_store_def fresh_id_def bind_def ret_def reads_def writes_def Let_def)
  show ?thesis
    using minimum_roundtrip [OF _ _ _ eq, of 400] unfolding eq by (simp add: ex_store_def)
qed

text \<open>The figures of a rate that a quote rests on; closing a rate leaves them alone.\<close>

definition rate_figures where
  "rate_figures r = (dr_id r, dr_ratePerKm r, dr_baseFee r, dr_currency r, dr_effectiveFrom r, dr_createdBy r)"

lemma close_rate_figures [simp]: "rate_figures (close_rate now a r) = rate_figures r"
  by (simp add: close_rate_def rate_figures_def)

lemma open_rate_result:
  "open_rate W x f c cb a s = (Inr row, s') \<Longrightarrow> db_uuid s (db_next s) \<notin> dr_id ` set (db_rates s) \<Longrightarrow>
   db_rates s' = db_rates s @ [row] \<and> dr_isActive row \<and> dr_effectiveFrom row = w_now W
   \<and> dr_effectiveUntil row = None \<and> dr_ratePerKm row = x \<and> dr_baseFee row = f"
  by (auto simp: open_rate_def fresh_id_def bind_def ret_def writes_def Let_def tbl_save_fresh)

text \<open>C12: a change of the delivery rate is a new version: afterwards exactly the new row is in force and
  every quote uses it, the rows before it keep their figures, and the row that was in force is
  closed at the very instant the new one starts.  It holds for a new rate and, when one rate was in
  force, for an edit of it; the price per kilometre is always positive.\<close>

theorem rate_versions:
  assumes "db_uuid s (db_next s) \<notin> dr_id ` set (db_rates s)"
    and "filter dr_isActive (db_rates s) = [old]" and "distinct (map dr_id (db_rates s))"
    and "rate_set W x f admin s = (Inr row, s') \<or> rate_update W k x' f admin s = (Inr row, s')"
  shows "filter dr_isActive (db_rates s') = [row] \<and> current_rate s' = Some row
    \<and> 0 < dr_ratePerKm row \<and> 0 \<le> dr_baseFee row
    \<and> map rate_figures (db_rates s') = map rate_figures (db_rates s) @ [rate_figures row]
    \<and> close_rate (w_now W) admin old \<in> set (db_rates s') \<and> dr_effectiveFrom row = w_now W"
proof -
  define close where "close = (\<lambda>r. if dr_isActive r then close_rate (w_now W) admin r else r)"
  have act: "dr_isActive r \<longleftrightarrow> r = old" if "r \<in> set (db_rates s)" for r
    using that arg_cong [OF assms(2), of set] by auto
  have inact: "filter dr_isActive (map close (db_rates s)) = []"
    by (auto simp: filter_empty_conv close_def close_rate_def)
  have figs: "map rate_figures (map close (db_rates s)) = map rate_figures (db_rates s)"
    by (simp add: close_def)
  have ids: "dr_id ` set (map close (db_rates s)) = dr_id ` set (db_rates s)"
    using arg_cong [OF figs, of "\<lambda>xs. fst ` set xs"] by (simp add: image_image rate_figures_def)
  have opened: ?thesis
    if "open_rate W y g c cb admin (s\<lparr>db_rates := map close (db_rates s)\<rparr>) = (Inr row, s')"
      "0 < y" "0 \<le> g" for y g c cb
  proof -
    have new: "db_rates s' = map close (db_rates s) @ [row]" "dr_isActive row"
      "dr_effectiveFrom row = w_now W" "dr_ratePerKm row = y" "dr_baseFee row = g"
      using open_rate_result [OF that(1)] assms(1) ids by auto
    moreover from this inact have active: "filter dr_isActive (db_rates s') = [row]" by simp
    moreover have "old \<in> set (db_rates s)" "dr_isActive old"
      using arg_cong [OF assms(2), of set] by auto
    then have "close_rate (w_now W) admin old \<in> set (db_rates s')"
      by (force simp: new(1) close_def)
    moreover have "current_rate s' = Some row"
      using active by (simp add: current_rate_def latest_first_def)
    ultimately show ?thesis using that figs by simp
  qed
  from assms(4) show ?thesis
  proof
    assume "rate_set W x f admin s = (Inr row, s')"
    then show ?thesis
      by (intro opened [of x "case f of None \<Rightarrow> 0 | Some f \<Rightarrow> f" "db_currency s" "Some admin"])
        (auto simp: rate_set_def assertSane_def bind_Inr_iff transactional_Inr_iff close_def
          split: option.splits if_splits)
  next
    assume up: "rate_update W k x' f admin s = (Inr row, s')"
    obtain rate where found: "tbl_find dr_id k (db_rates s) = Some rate"
      using up by (cases "tbl_find dr_id k (db_rates s)") (simp_all add: rate_update_def)
    have active: "dr_isActive rate"
    proof (rule ccontr)
      assume "\<not> dr_isActive rate"
      then have "rate_update W k x' f admin s = (Inl BadRequest, s)"
        using found by (simp add: rate_update_def)
      then show False using up by simp
    qed
    note rate = found active
    have "rate = old" using act [of rate] tbl_find_SomeD [OF found] active by simp
    have same: "map (\<lambda>r. if dr_id r = dr_id rate then close_rate (w_now W) admin r else r) (db_rates s)
      = map close (db_rates s)"
    proof (rule map_cong [OF refl])
      fix r assume r: "r \<in> set (db_rates s)"
      have "inj_on dr_id (set (db_rates s))" using assms(3) by (simp add: distinct_map)
      then have "dr_id r = dr_id rate \<longleftrightarrow> r = rate"
        using r tbl_find_SomeD [OF found] by (auto dest: inj_onD)
      then show "(if dr_id r = dr_id rate then close_rate (w_now W) admin r else r) = close r"
        using act [OF r] \<open>rate = old\<close> by (simp add: close_def)
    qed
    have "open_rate W (case x' of Some x \<Rightarrow> x | None \<Rightarrow> dr_ratePerKm rate)
          (case f of Some x \<Rightarrow> x | None \<Rightarrow> dr_baseFee rate) (dr_currency rate)
          (case dr_createdBy rate of Some c \<Rightarrow> Some c | None \<Rightarrow> Some admin) admin
          (s\<lparr>db_rates := map close (db_rates s)\<rparr>) = (Inr row, s')
      \<and> 0 < (case x' of Some x \<Rightarrow> x | None \<Rightarrow> dr_ratePerKm rate)
      \<and> 0 \<le> (case f of Some x \<Rightarrow> x | None \<Rightarrow> dr_baseFee rate)"
      using up rate unfolding rate_update_def Let_def bind_reads assertSane_def
      by (simp add: same bind_assoc transactional_Inr_iff split: if_splits)
    then show ?thesis using opened by blast
  qed
qed

definition ex_rate :: delivery_rate where
  "ex_rate = \<lparr>dr_id = ''r1'', dr_ratePerKm = 500, dr_baseFee = 10000, dr_currency = ''SYP'',
     dr_isActive = True, dr_effectiveFrom = 0, dr_effectiveUntil = None, dr_createdBy = None,
     dr_updatedBy = None\<rparr>"

definition ex_world :: world where
  "ex_world = \<lparr>w_now = 1000, w_apiKey = False,
     w_geo = (\<lambda>p q. \<bar>fst p - fst q\<bar> + \<bar>snd p - snd q\<bar>), w_google = (\<lambda>_ _. None),
     w_trucks = (\<lambda>w. Some [(10 * w + 1, 1000), (10 * w + 2, 3000)]), w_driversFor = Some,
     w_driver = (\<lambda>t. Some (Some (t + 100, Some ''driver'', None))), w_yearMonth = (\<lambda>_. (2026, 7)),
     w_windowStart = (\<lambda>_ _. 0)\<rparr>"

theorem rate_versions_witness:
  "\<exists>row s'. rate_update ex_world ''r1'' (Some 600) None ''admin'' (ex_store\<lparr>db_rates := [ex_rate]\<rparr>)
      = (Inr row, s') \<and> current_rate s' = Some row \<and> length (db_rates s') = 2"
proof -
  obtain row s' where eq:
    "rate_update ex_world ''r1'' (Some 600) None ''admin'' (ex_store\<lparr>db_rates := [ex_rate]\<rparr>) = (Inr row, s')"
    by (simp add: rate_update_def ex_rate_def assertSane_def transactional_def Let_def open_rate_def
        fresh_id_def bind_def ret_def writes_def reads_def refuse_if_def)
  have "current_rate s' = Some row
    \<and> map rate_figures (db_rates s') = map rate_figures [ex_rate] @ [rate_figures row]"
    using rate_versions [OF _ _ _ disjI2 [OF eq], of ex_rate] by (simp add: ex_rate_def ex_store_def)
  moreover from this have "length (db_rates s') = 2"
    by (metis One_nat_def Suc_1 length_append length_Cons length_map list.size(3) plus_1_eq_Suc)
  ultimately show ?thesis using eq by blast
qed

text \<open>Without a rate nothing can be quoted, and the refusal writes nothing.\<close>

lemma quote_result:
  "quote d s = (case current_rate s of None \<Rightarrow> (Inl NotFound, s)
     | Some r \<Rightarrow> (Inr \<lparr>q_distance = round3 (max d 0), q_baseFee = dr_baseFee r,
         q_ratePerKm = dr_ratePerKm r, q_cost = round3 (dr_baseFee r + max d 0 * dr_ratePerKm r),
         q_currency = dr_currency r\<rparr>, s))"
  by (simp add: quote_def currentOrFail_def bind_assoc Let_def split: option.splits)

lemma keeps_quote [keeps_rules]: "keeps I (quote d)"
  by (simp add: keeps_def quote_result split: option.splits)

lemma quote_mono:
  assumes "0 \<le> dr_ratePerKm r" and "d \<le> d'"
  shows "round3 (dr_baseFee r + max d 0 * dr_ratePerKm r) \<le> round3 (dr_baseFee r + max d' 0 * dr_ratePerKm r)"
  using assms by (intro round3_mono add_left_mono mult_right_mono) auto


end
