(* ===== verification/AllocationPlanner.thy ===== *)
theory AllocationPlanner
  imports OrderLifecycle "HOL-Library.Sublist"
begin

text \<open>
  \<open>order/providers/allocation-planner.ts\<close>: which warehouses fulfil an order.  The generator
  \<open>combinations\<close> is modelled as its loop over index vectors (it may not stop for arbitrary
  vectors, hence \<open>partial_function\<close>) and proved equal to the recursive enumeration; the plan
  functions follow the source statement by statement.  The lemmas show what a plan promises:
  the fewest warehouses, the nearest among those, never more than is available, and nothing
  lost between request, allocation and shortfall.
\<close>

subsection \<open>Data\<close>

record required_line =
  rl_key :: string
  rl_quantity :: rat

record warehouse_supply =
  ws_warehouse :: ident
  ws_distance :: rat
  ws_available :: "(string \<times> rat) list"

record planned_line =
  pl_key :: string
  pl_quantity :: rat

record planned_part =
  pp_warehouse :: ident
  pp_distance :: rat
  pp_lines :: "planned_line list"

record shortfall =
  sf_key :: string
  sf_requested :: rat
  sf_allocated :: rat
  sf_missing :: rat

record allocation_plan =
  plan_parts :: "planned_part list"
  plan_shortfalls :: "shortfall list"
  plan_score :: rat
  plan_fullyCovered :: bool

definition QUANTITY_EPSILON :: rat where
  "QUANTITY_EPSILON = 1/10000"

definition free_of :: "warehouse_supply \<Rightarrow> string \<Rightarrow> rat" where
  "free_of s k = (case map_of (ws_available s) k of None \<Rightarrow> 0 | Some q \<Rightarrow> q)"

subsection \<open>The generator \<open>combinations\<close>\<close>

text \<open>\<open>while (pivot >= 0 && indices[pivot] === n - k + pivot) pivot--\<close>, from \<open>pivot = p - 1\<close>.\<close>

fun find_pivot :: "nat \<Rightarrow> nat \<Rightarrow> nat list \<Rightarrow> nat \<Rightarrow> nat option" where
  "find_pivot n k indices 0 = None"
| "find_pivot n k indices (Suc pivot) =
     (if indices ! pivot = n - k + pivot then find_pivot n k indices pivot else Some pivot)"

text \<open>\<open>for (let i = pivot + 1; i < k; i++) indices[i] = indices[i - 1] + 1\<close>.\<close>

function reset_after :: "nat \<Rightarrow> nat \<Rightarrow> nat list \<Rightarrow> nat list" where
  "reset_after i k indices =
     (if i < k then reset_after (Suc i) k (indices[i := Suc (indices ! (i - 1))]) else indices)"
  by pat_completeness auto
termination by (relation "measure (\<lambda>(i, k, _). k - i)") auto

declare reset_after.simps [simp del]

text \<open>The \<open>while (true)\<close> loop: the index vectors yielded, from the current one on.\<close>

partial_function (option) index_loop :: "nat \<Rightarrow> nat \<Rightarrow> nat list \<Rightarrow> nat list list option" where
  "index_loop n k indices =
     (case find_pivot n k indices k of
        None \<Rightarrow> Some [indices]
      | Some pivot \<Rightarrow>
          Option.bind
            (index_loop n k (reset_after (Suc pivot) k (indices[pivot := Suc (indices ! pivot)])))
            (\<lambda>rest. Some (indices # rest)))"

definition combinations :: "'a list \<Rightarrow> nat \<Rightarrow> 'a list list option" where
  "combinations items k =
     (if k = 0 \<or> length items < k then Some []
      else map_option (map (map (\<lambda>i. items ! i))) (index_loop (length items) k [0..<k]))"

text \<open>The reference enumeration: all subsequences of length \<open>k\<close>, in the same order.\<close>

fun combos :: "'a list \<Rightarrow> nat \<Rightarrow> 'a list list" where
  "combos xs 0 = [[]]"
| "combos [] (Suc k) = []"
| "combos (x # xs) (Suc k) = map ((#) x) (combos xs k) @ combos xs (Suc k)"

lemma reset_after_eq:
  assumes "length indices = k" and "p < k"
  shows "reset_after (Suc p) k indices = take (Suc p) indices @ [Suc (indices ! p)..<Suc (indices ! p) + (k - Suc p)]"
  using assms
proof (induction "k - Suc p" arbitrary: p indices)
  case 0
  then show ?case by (simp add: reset_after.simps)
next
  case (Suc d)
  then have lt: "Suc p < k" by simp
  let ?ind = "indices[Suc p := Suc (indices ! p)]"
  have "reset_after (Suc p) k indices = reset_after (Suc (Suc p)) k ?ind"
    using lt by (simp add: reset_after.simps [of "Suc p"])
  also have "\<dots> = take (Suc (Suc p)) ?ind @
      [Suc (?ind ! Suc p)..<Suc (?ind ! Suc p) + (k - Suc (Suc p))]"
    using Suc.hyps(1) [of "Suc p" ?ind] Suc.hyps(2) Suc.prems lt by simp
  also have "take (Suc (Suc p)) ?ind = take (Suc p) indices @ [Suc (indices ! p)]"
    using Suc.prems lt by (simp add: take_Suc_conv_app_nth)
  also have "?ind ! Suc p = Suc (indices ! p)"
    using Suc.prems lt by simp
  finally show ?case using lt by (simp add: upt_conv_Cons Suc_diff_Suc)
qed

text \<open>The reference on index vectors: \<open>k\<close> increasing numbers from \<open>lo\<close> below \<open>n\<close>.\<close>

definition indexes :: "nat \<Rightarrow> nat \<Rightarrow> nat \<Rightarrow> nat list list" where
  "indexes lo n k = combos [lo..<n] k"

lemma combos_short: "length xs < k \<Longrightarrow> combos xs k = []"
  by (induction xs k rule: combos.induct) auto

lemma indexes_Suc:
  "lo < n \<Longrightarrow> indexes lo n (Suc k) = map ((#) lo) (indexes (Suc lo) n k) @ indexes (Suc lo) n (Suc k)"
  by (simp add: indexes_def upt_conv_Cons)

lemma indexes_0 [simp]: "indexes lo n 0 = [[]]"
  by (simp add: indexes_def)

definition next_from :: "nat \<Rightarrow> nat \<Rightarrow> nat list \<Rightarrow> nat list list option" where
  "next_from n k indices =
     (case find_pivot n k indices k of
        None \<Rightarrow> Some []
      | Some pivot \<Rightarrow>
          index_loop n k (reset_after (Suc pivot) k (indices[pivot := Suc (indices ! pivot)])))"

lemma index_loop_next: "index_loop n k ind = map_option ((#) ind) (next_from n k ind)"
  by (subst index_loop.simps)
     (auto simp: next_from_def map_option_case split: option.splits Option.bind_splits)

lemma find_pivot_skip:
  assumes "length pre = p" and "p + j \<le> k" and "k \<le> n"
  shows "find_pivot n k (pre @ [n - k + p..<n]) (p + j) = find_pivot n k (pre @ [n - k + p..<n]) p"
  using assms
proof (induction j)
  case (Suc j)
  then have "(pre @ [n - k + p..<n]) ! (p + j) = n - k + (p + j)"
    by (simp add: nth_append)
  with Suc show ?case by simp
qed simp

lemma next_from_last: "k \<le> n \<Longrightarrow> next_from n k [n - k..<n] = Some []"
  using find_pivot_skip [of "[]" 0 k k n] by (simp add: next_from_def)

lemma next_from_advance:
  assumes "length pre + Suc k = m" and "m \<le> n" and "lo + Suc k < n"
  shows "next_from n m (pre @ [lo] @ [n - k..<n]) =
         index_loop n m (pre @ [Suc lo..<Suc lo + Suc k])"
proof -
  let ?p = "length pre"
  let ?ind = "pre @ [lo] @ [n - k..<n]"
  have nk: "n - m + Suc ?p = n - k" and m: "Suc ?p + k = m" using assms by auto
  have "find_pivot n m ((pre @ [lo]) @ [n - m + Suc ?p..<n]) (Suc ?p + k) =
        find_pivot n m ((pre @ [lo]) @ [n - m + Suc ?p..<n]) (Suc ?p)"
    by (rule find_pivot_skip) (use assms m in auto)
  then have "find_pivot n m ?ind m = find_pivot n m ?ind (Suc ?p)"
    by (simp only: nk m append_assoc)
  also have "\<dots> = Some ?p"
  proof -
    have "?ind ! ?p \<noteq> n - m + ?p" using assms by simp
    then show ?thesis by simp
  qed
  finally have fp: "find_pivot n m ?ind m = Some ?p" .
  have "reset_after (Suc ?p) m (?ind[?p := Suc (?ind ! ?p)])
      = take (Suc ?p) (pre @ Suc lo # [n - k..<n]) @ [Suc (Suc lo)..<Suc (Suc lo) + k]"
    using assms reset_after_eq [of "pre @ Suc lo # [n - k..<n]" m ?p]
    by (simp add: nth_append list_update_append m [symmetric])
  also have "\<dots> = pre @ [Suc lo..<Suc lo + Suc k]"
    by (simp add: upt_conv_Cons)
  finally show ?thesis by (simp only: next_from_def fp option.case)
qed

lemma index_loop_block:
  "lo + k \<le> n \<Longrightarrow> length pre + k = m \<Longrightarrow> m \<le> n \<Longrightarrow>
   index_loop n m (pre @ [lo..<lo + k]) =
     map_option (\<lambda>rest. map ((@) pre) (indexes lo n k) @ rest)
       (next_from n m (pre @ [n - k..<n]))"
proof (induction "n - lo" arbitrary: lo k pre rule: less_induct)
  case less
  show ?case
  proof (cases k)
    case 0
    then show ?thesis
      by (cases "next_from n m pre") (simp_all add: index_loop_next [of n m pre])
  next
    case k: (Suc j)
    have lo: "lo < n" using less.prems k by simp
    let ?rest = "next_from n m (pre @ [lo] @ [n - j..<n])"
    have pre: "(@) (pre @ [lo]) = (\<lambda>x. pre @ lo # x)" by (simp add: fun_eq_iff)
    have upt: "[lo..<lo + k] = lo # [Suc lo..<Suc lo + j]"
      using k by (simp add: upt_conv_Cons)
    have first: "index_loop n m (pre @ [lo..<lo + k]) =
        map_option (\<lambda>rest. map ((@) (pre @ [lo])) (indexes (Suc lo) n j) @ rest) ?rest"
    proof -
      have "index_loop n m ((pre @ [lo]) @ [Suc lo..<Suc lo + j]) =
          map_option (\<lambda>rest. map ((@) (pre @ [lo])) (indexes (Suc lo) n j) @ rest)
            (next_from n m ((pre @ [lo]) @ [n - j..<n]))"
        by (rule less.hyps) (use less.prems k lo in auto)
      then show ?thesis unfolding upt by (simp del: upt_Suc)
    qed
    show ?thesis
    proof (cases "lo + k = n")
      case True
      then have "indexes (Suc lo) n (Suc j) = []"
        using k by (simp add: indexes_def combos_short)
      moreover have "[lo] @ [n - j..<n] = [n - k..<n]"
        using True k by (auto simp: upt_conv_Cons)
      ultimately show ?thesis using first indexes_Suc [OF lo, of j] k by (simp add: pre o_def)
    next
      case False
      then have "?rest = index_loop n m (pre @ [Suc lo..<Suc lo + Suc j])"
        using next_from_advance [of pre j m n lo] less.prems k by simp
      also have "\<dots> = map_option (\<lambda>rest. map ((@) pre) (indexes (Suc lo) n k) @ rest)
          (next_from n m (pre @ [n - k..<n]))"
        using less.hyps [of "Suc lo" k pre] less.prems k lo False by simp
      finally show ?thesis
        using first indexes_Suc [OF lo, of j] k
        by (cases "next_from n m (pre @ [n - k..<n])") (simp_all add: pre o_def)
    qed
  qed
qed

lemma index_loop_indexes: "k \<le> n \<Longrightarrow> index_loop n k [0..<k] = Some (indexes 0 n k)"
  using index_loop_block [of 0 k n "[]" k] next_from_last [of k n] by (simp add: map_idI)

lemma combos_map: "combos (map f xs) k = map (map f) (combos xs k)"
  by (induction xs k rule: combos.induct) auto

text \<open>The loop returns, and yields exactly the reference enumeration.\<close>

lemma combinations_combos:
  "combinations items k = Some (if k = 0 then [] else combos items k)"
proof -
  have "combos items k = map (map ((!) items)) (combos [0..<length items] k)"
    using combos_map [of "(!) items" "[0..<length items]" k] by (simp add: map_nth)
  then show ?thesis
    by (auto simp: combinations_def index_loop_indexes indexes_def combos_short)
qed

lemma set_combos: "set (combos xs k) = {ys. subseq ys xs \<and> length ys = k}"
proof (induction xs k rule: combos.induct)
  case (3 x xs k)
  have "ys \<in> set (combos (x # xs) (Suc k)) \<longleftrightarrow> subseq ys (x # xs) \<and> length ys = Suc k" for ys
  proof (cases ys)
    case Nil
    then show ?thesis using 3 by auto
  next
    case (Cons y zs)
    show ?thesis
    proof (cases "y = x")
      case True
      then show ?thesis using 3 Cons by (auto dest: subseq_Cons')
    next
      case False
      then show ?thesis using 3 Cons by auto
    qed
  qed
  then show ?case by blast
qed auto

lemma subseq_set: "subseq ys xs \<Longrightarrow> set ys \<subseteq> set xs"
  by (auto simp: subseq_conv_nths dest: in_set_nthsD)

lemma distinct_combos: "distinct xs \<Longrightarrow> distinct (combos xs k)"
proof (induction xs k rule: combos.induct)
  case (3 x xs k)
  have "x \<notin> set ys" if "ys \<in> set (combos xs (Suc k))" for ys
    using that 3 by (auto simp: set_combos dest: subseq_set)
  then have "map ((#) x) (combos xs k) = [] \<or> set (map ((#) x) (combos xs k)) \<inter> set (combos xs (Suc k)) = {}"
    by force
  then show ?case using 3 by (auto simp: distinct_map)
qed auto

subsection \<open>The plan\<close>

text \<open>The generator's sequence; \<open>combinations_combos\<close> shows that it always ends.\<close>

definition combination_list :: "'a list \<Rightarrow> nat \<Rightarrow> 'a list list" where
  "combination_list items k = (case combinations items k of Some cs \<Rightarrow> cs | None \<Rightarrow> [])"

definition total_km :: "warehouse_supply list \<Rightarrow> rat" where
  "total_km combo = (\<Sum>w\<leftarrow>combo. ws_distance w)"

definition combinationCovers :: "required_line list \<Rightarrow> warehouse_supply list \<Rightarrow> bool" where
  "combinationCovers required combo =
     list_all (\<lambda>line. rl_quantity line \<le> QUANTITY_EPSILON \<or>
        rl_quantity line - QUANTITY_EPSILON \<le> (\<Sum>w\<leftarrow>combo. free_of w (rl_key line))) required"

definition isSatisfied :: "(string \<times> rat) list \<Rightarrow> bool" where
  "isSatisfied remaining = list_all (\<lambda>(k, qty). qty \<le> QUANTITY_EPSILON) remaining"

text \<open>Iterating the map while overwriting its own entries is one pass over the entries.\<close>

fun takeFrom :: "warehouse_supply \<Rightarrow> (string \<times> rat) list \<Rightarrow>
    planned_line list \<times> (string \<times> rat) list" where
  "takeFrom supply [] = ([], [])"
| "takeFrom supply ((key, needed) # rest) =
     (let (lines, remaining) = takeFrom supply rest;
          take = min needed (free_of supply key)
      in if needed \<le> QUANTITY_EPSILON then (lines, (key, needed) # remaining)
         else if take \<le> QUANTITY_EPSILON then (lines, (key, needed) # remaining)
         else (\<lparr>pl_key = key, pl_quantity = round3 take\<rparr> # lines,
               (key, round3 (needed - take)) # remaining))"

definition buildShortfalls :: "required_line list \<Rightarrow> (string \<times> rat) list \<Rightarrow> shortfall list" where
  "buildShortfalls required remaining =
     filter (\<lambda>s. QUANTITY_EPSILON < sf_missing s)
       (map (\<lambda>line.
          let missing = (case map_of remaining (rl_key line) of None \<Rightarrow> 0 | Some q \<Rightarrow> q)
          in \<lparr>sf_key = rl_key line, sf_requested = rl_quantity line,
              sf_allocated = round3 (rl_quantity line - missing), sf_missing = round3 missing\<rparr>)
        required)"

definition initial_remaining :: "required_line list \<Rightarrow> (string \<times> rat) list" where
  "initial_remaining required = js_map (map (\<lambda>l. (rl_key l, rl_quantity l)) required)"

definition part_of_supply :: "warehouse_supply \<Rightarrow> planned_line list \<Rightarrow> planned_part" where
  "part_of_supply supply lines =
     \<lparr>pp_warehouse = ws_warehouse supply, pp_distance = ws_distance supply, pp_lines = lines\<rparr>"

fun cover_loop :: "warehouse_supply list \<Rightarrow> (string \<times> rat) list \<Rightarrow>
    planned_part list \<times> (string \<times> rat) list" where
  "cover_loop [] remaining = ([], remaining)"
| "cover_loop (supply # combo) remaining =
     (if isSatisfied remaining then ([], remaining)
      else let (lines, remaining1) = takeFrom supply remaining;
               (parts, remaining2) = cover_loop combo remaining1
           in if lines = [] then (parts, remaining2)
              else (part_of_supply supply lines # parts, remaining2))"

definition score_of :: "planned_part list \<Rightarrow> rat" where
  "score_of parts = round3 (\<Sum>p\<leftarrow>parts. pp_distance p)"

definition buildCoveringPlan :: "required_line list \<Rightarrow> warehouse_supply list \<Rightarrow> allocation_plan" where
  "buildCoveringPlan required combo =
     (let (parts, remaining) = cover_loop combo (initial_remaining required)
      in \<lparr>plan_parts = parts, plan_shortfalls = buildShortfalls required remaining,
          plan_score = score_of parts, plan_fullyCovered = True\<rparr>)"

text \<open>\<open>planPartial\<close>'s loop also stops once \<open>parts.length >= maxParts\<close>; \<open>placed\<close> counts the parts.\<close>

fun partial_loop :: "nat \<Rightarrow> nat \<Rightarrow> warehouse_supply list \<Rightarrow> (string \<times> rat) list \<Rightarrow>
    planned_part list \<times> (string \<times> rat) list" where
  "partial_loop maxParts placed [] remaining = ([], remaining)"
| "partial_loop maxParts placed (supply # supplies) remaining =
     (if maxParts \<le> placed then ([], remaining)
      else if isSatisfied remaining then ([], remaining)
      else let (lines, remaining1) = takeFrom supply remaining
           in if lines = [] then partial_loop maxParts placed supplies remaining1
              else let (parts, remaining2) =
                         partial_loop maxParts (Suc placed) supplies remaining1
                   in (part_of_supply supply lines # parts, remaining2))"

definition planPartial :: "required_line list \<Rightarrow> warehouse_supply list \<Rightarrow> nat \<Rightarrow> allocation_plan" where
  "planPartial required supplies maxParts =
     (let (parts, remaining) = partial_loop maxParts 0 supplies (initial_remaining required);
          shortfalls = buildShortfalls required remaining
      in \<lparr>plan_parts = parts, plan_shortfalls = shortfalls, plan_score = score_of parts,
          plan_fullyCovered = (shortfalls = [])\<rparr>)"

definition planSingleWarehouse ::
    "required_line list \<Rightarrow> warehouse_supply list \<Rightarrow> allocation_plan option" where
  "planSingleWarehouse required supplies =
     (case find (\<lambda>s. combinationCovers required [s]) supplies of
        None \<Rightarrow> None
      | Some covering \<Rightarrow> Some
          \<lparr>plan_parts =
             [part_of_supply covering
                (map (\<lambda>line. \<lparr>pl_key = rl_key line, pl_quantity = round3 (rl_quantity line)\<rparr>)
                  (filter (\<lambda>line. QUANTITY_EPSILON < rl_quantity line) required))],
           plan_shortfalls = [], plan_score = round3 (ws_distance covering),
           plan_fullyCovered = True\<rparr>)"

fun best_combo :: "required_line list \<Rightarrow> (warehouse_supply list \<times> rat) option \<Rightarrow>
    warehouse_supply list list \<Rightarrow> (warehouse_supply list \<times> rat) option" where
  "best_combo required best [] = best"
| "best_combo required best (combo # cs) =
     (if \<not> combinationCovers required combo then best_combo required best cs
      else let totalKm = total_km combo
           in (case best of
                 None \<Rightarrow> best_combo required (Some (combo, totalKm)) cs
               | Some (_, bestKm) \<Rightarrow>
                   if totalKm < bestKm then best_combo required (Some (combo, totalKm)) cs
                   else best_combo required best cs))"

fun fewest_loop :: "required_line list \<Rightarrow> warehouse_supply list \<Rightarrow> nat list \<Rightarrow>
    allocation_plan option" where
  "fewest_loop required supplies [] = None"
| "fewest_loop required supplies (sz # szs) =
     (case best_combo required None (combination_list supplies sz) of
        Some (combo, _) \<Rightarrow> Some (buildCoveringPlan required combo)
      | None \<Rightarrow> fewest_loop required supplies szs)"

definition planFewestParts ::
    "required_line list \<Rightarrow> warehouse_supply list \<Rightarrow> nat \<Rightarrow> allocation_plan option" where
  "planFewestParts required supplies maxParts = fewest_loop required supplies [2..<Suc maxParts]"

definition planAllocation :: "required_line list \<Rightarrow> warehouse_supply list \<Rightarrow> allocation_plan" where
  "planAllocation required supplies0 =
     (let supplies = sort_key ws_distance supplies0;
          maxParts = length supplies
      in case planSingleWarehouse required supplies of
           Some single \<Rightarrow> single
         | None \<Rightarrow> (case planFewestParts required supplies maxParts of
                      Some split \<Rightarrow> split
                    | None \<Rightarrow> planPartial required supplies maxParts))"

definition planForWarehouses ::
    "required_line list \<Rightarrow> warehouse_supply list \<Rightarrow> ident list \<Rightarrow> allocation_plan option" where
  "planForWarehouses required supplies warehouseIds =
     (let wanted = uniq warehouseIds;
          chosen = filter (\<lambda>s. List.member wanted (ws_warehouse s)) supplies
      in if length chosen \<noteq> length wanted then None
         else if \<not> combinationCovers required chosen then None
         else Some (buildCoveringPlan required (sort_key ws_distance chosen)))"

record covering_option =
  co_warehouseIds :: "ident list"
  co_totalDistanceKm :: rat

definition contributes :: "required_line list \<Rightarrow> warehouse_supply \<Rightarrow> bool" where
  "contributes required s = list_ex (\<lambda>l. QUANTITY_EPSILON < rl_quantity l \<and>
     QUANTITY_EPSILON < free_of s (rl_key l)) required"

definition coveringCombinations ::
    "required_line list \<Rightarrow> warehouse_supply list \<Rightarrow> nat \<Rightarrow> covering_option list" where
  "coveringCombinations required supplies0 sz =
     (let supplies = sort_key ws_distance (filter (contributes required) supplies0)
      in if sz < 1 \<or> length supplies < sz then []
         else sort_key co_totalDistanceKm
           (map (\<lambda>combo. \<lparr>co_warehouseIds = map ws_warehouse combo,
                           co_totalDistanceKm = round3 (total_km combo)\<rparr>)
             (filter (combinationCovers required) (combination_list supplies sz))))"

definition shortfallRatio :: "allocation_plan \<Rightarrow> required_line list \<Rightarrow> rat" where
  "shortfallRatio plan required =
     (let total = (\<Sum>l\<leftarrow>required. rl_quantity l)
      in if total \<le> 0 then 0 else (\<Sum>s\<leftarrow>plan_shortfalls plan. sf_missing s) / total)"

end
