(* ===== verification/AllocationPlans.thy ===== *)
theory AllocationPlans
  imports AllocationPlanner
begin

text \<open>
  What a plan of \<open>AllocationPlanner\<close> promises.  Quantities are figures of three decimals, as
  the columns they come from hold; \<open>QUANTITY_EPSILON\<close> is smaller than the smallest such
  figure, so on these inputs the comparisons with it are exact.
\<close>

definition exact_request :: "required_line list \<Rightarrow> bool" where
  "exact_request required \<longleftrightarrow> distinct (map rl_key required) \<and>
     (\<forall>l \<in> set required. milli (rl_quantity l) \<and> 0 \<le> rl_quantity l)"

definition exact_supply :: "warehouse_supply \<Rightarrow> bool" where
  "exact_supply s \<longleftrightarrow> (\<forall>(k, q) \<in> set (ws_available s). milli q \<and> 0 \<le> q)"

definition exact_remaining :: "(string \<times> rat) list \<Rightarrow> bool" where
  "exact_remaining r \<longleftrightarrow> distinct (map fst r) \<and> (\<forall>(k, q) \<in> set r. milli q \<and> 0 \<le> q)"

definition rem_at :: "(string \<times> rat) list \<Rightarrow> string \<Rightarrow> rat" where
  "rem_at r k = (case map_of r k of None \<Rightarrow> 0 | Some q \<Rightarrow> q)"

definition line_qty :: "planned_line list \<Rightarrow> string \<Rightarrow> rat" where
  "line_qty lines k = (\<Sum>l\<leftarrow>filter (\<lambda>l. pl_key l = k) lines. pl_quantity l)"

text \<open>What the parts of a plan hand over of one material, and what the plan reports missing.\<close>

definition gives :: "planned_part list \<Rightarrow> string \<Rightarrow> rat" where
  "gives parts k = (\<Sum>p\<leftarrow>parts. line_qty (pp_lines p) k)"

definition lacks :: "shortfall list \<Rightarrow> string \<Rightarrow> rat" where
  "lacks ss k = (\<Sum>s\<leftarrow>filter (\<lambda>s. sf_key s = k) ss. sf_missing s)"

definition stock_of :: "warehouse_supply list \<Rightarrow> string \<Rightarrow> rat" where
  "stock_of combo k = (\<Sum>w\<leftarrow>combo. free_of w k)"

lemma milli_le_eps: "milli x \<Longrightarrow> x \<le> QUANTITY_EPSILON \<longleftrightarrow> x \<le> 0"
  using milli_pos_ge [of x] by (force simp: QUANTITY_EPSILON_def)

lemma milli_gt_eps: "milli x \<Longrightarrow> QUANTITY_EPSILON < x \<longleftrightarrow> 0 < x"
  using milli_le_eps [of x] by linarith

lemma milli_le_tolerance:
  "milli x \<Longrightarrow> milli y \<Longrightarrow> x - QUANTITY_EPSILON \<le> y \<longleftrightarrow> x \<le> y"
  using milli_le_eps [of "x - y"] by (auto simp: algebra_simps)

lemma exact_free:
  assumes "exact_supply s"
  shows "milli (free_of s k)" and "0 \<le> free_of s k"
  using assms by (auto simp: exact_supply_def free_of_def split: option.splits dest!: map_of_SomeD)

lemma exact_stock:
  assumes "\<forall>s \<in> set combo. exact_supply s"
  shows "milli (stock_of combo k)" and "0 \<le> stock_of combo k"
  using assms by (auto simp: stock_of_def exact_free intro!: milli_sum_list sum_list_map_nonneg)

lemma exact_rem_at:
  assumes "exact_remaining r"
  shows "milli (rem_at r k)" and "0 \<le> rem_at r k"
  using assms by (auto simp: exact_remaining_def rem_at_def split: option.splits dest!: map_of_SomeD)

lemma satisfied_rem_at:
  assumes "exact_remaining r"
  shows "isSatisfied r \<longleftrightarrow> (\<forall>k. rem_at r k = 0)"
proof -
  have "rem_at r k = q" if "(k, q) \<in> set r" for k q
    using that assms by (auto simp: exact_remaining_def rem_at_def)
  then have "(\<forall>k. rem_at r k = 0) \<longleftrightarrow> (\<forall>(k, q) \<in> set r. q = 0)"
    by (force simp: rem_at_def split: option.splits dest!: map_of_SomeD)
  moreover have "(\<forall>(k, q) \<in> set r. q = 0) \<longleftrightarrow> (\<forall>(k, q) \<in> set r. q \<le> QUANTITY_EPSILON)"
    using assms milli_le_eps by (force simp: exact_remaining_def)
  ultimately show ?thesis by (simp add: isSatisfied_def list_all_iff)
qed

subsection \<open>One warehouse\<close>

lemma takeFrom_keys: "map fst (snd (takeFrom s r)) = map fst r"
  by (induction s r rule: takeFrom.induct) (auto simp: Let_def split: prod.splits)

lemma takeFrom_line_keys: "pl_key ` set (fst (takeFrom s r)) \<subseteq> fst ` set r"
proof (induction s r rule: takeFrom.induct)
  case (2 s key needed rest)
  then have "pl_key ` set (fst (takeFrom s rest)) \<subseteq> insert key (fst ` set rest)" by blast
  then show ?case by (simp add: Let_def case_prod_beta)
qed simp

lemma line_qty_Nil [simp]: "line_qty [] k = 0"
  by (simp add: line_qty_def)

lemma line_qty_Cons [simp]:
  "line_qty (l # ls) k = (if pl_key l = k then pl_quantity l else 0) + line_qty ls k"
  by (simp add: line_qty_def)

lemma line_qty_absent: "k \<notin> pl_key ` set ls \<Longrightarrow> line_qty ls k = 0"
  by (induction ls) auto

lemma rem_at_Cons [simp]: "rem_at ((k', q) # r) k = (if k = k' then q else rem_at r k)"
  by (simp add: rem_at_def)

lemma rem_at_absent: "k \<notin> fst ` set r \<Longrightarrow> rem_at r k = 0"
  by (simp add: rem_at_def map_of_eq_None_iff [THEN iffD2])

lemma takeFrom_exact:
  assumes "exact_remaining r" and "exact_supply s"
  shows "exact_remaining (snd (takeFrom s r))"
    and "rem_at (snd (takeFrom s r)) k = rem_at r k - min (rem_at r k) (free_of s k)"
    and "line_qty (fst (takeFrom s r)) k = min (rem_at r k) (free_of s k)"
    and "\<forall>l \<in> set (fst (takeFrom s r)). 0 < pl_quantity l \<and> pl_quantity l \<le> free_of s (pl_key l)"
proof -
  have "exact_remaining (snd (takeFrom s r)) \<and>
     (\<forall>k. rem_at (snd (takeFrom s r)) k = rem_at r k - min (rem_at r k) (free_of s k)) \<and>
     (\<forall>k. line_qty (fst (takeFrom s r)) k = min (rem_at r k) (free_of s k)) \<and>
     (\<forall>l \<in> set (fst (takeFrom s r)). 0 < pl_quantity l \<and> pl_quantity l \<le> free_of s (pl_key l))"
    using assms
  proof (induction s r rule: takeFrom.induct)
    case (1 s)
    then show ?case by (simp add: rem_at_def exact_free min_def)
  next
    case (2 s key needed rest)
    obtain ls rm where tf: "takeFrom s rest = (ls, rm)" by force
    have ex: "exact_remaining rest" and n: "milli needed" "0 \<le> needed"
      and fresh: "key \<notin> fst ` set rest"
      using "2.prems" by (auto simp: exact_remaining_def)
    note f = exact_free [OF "2.prems"(2), of key]
    let ?t = "min needed (free_of s key)"
    have t: "milli ?t" "milli (needed - ?t)" "0 \<le> ?t" "0 \<le> needed - ?t" using n f by auto
    note ih = "2.IH" [OF ex "2.prems"(2), unfolded tf, simplified]
    have "fst ` set rm = fst ` set rest"
      by (metis set_map takeFrom_keys tf snd_conv)
    then have fresh': "key \<notin> fst ` set rm" "key \<notin> pl_key ` set ls"
      using fresh takeFrom_line_keys [of s rest] tf by auto
    have r0: "rem_at rest key = 0" using fresh by (rule rem_at_absent)
    show ?case
    proof (cases "needed \<le> QUANTITY_EPSILON \<or> ?t \<le> QUANTITY_EPSILON")
      case True
      then have t0: "?t = 0" using n f t milli_le_eps by (auto simp: min_def split: if_splits)
      have "takeFrom s ((key, needed) # rest) = (ls, (key, needed) # rm)"
        using True tf by (auto simp: Let_def)
      then show ?thesis
        using ih t0 n fresh' r0 line_qty_absent [of key ls]
        by (auto simp: exact_remaining_def)
    next
      case False
      then have "takeFrom s ((key, needed) # rest) =
          (\<lparr>pl_key = key, pl_quantity = ?t\<rparr> # ls, (key, needed - ?t) # rm)"
        using tf t by (simp add: Let_def)
      moreover have "0 < ?t" using False t milli_le_eps [of ?t] by linarith
      ultimately show ?thesis
        using ih t fresh' r0 line_qty_absent [of key ls]
        by (auto simp: exact_remaining_def)
    qed
  qed
  then show "exact_remaining (snd (takeFrom s r))"
    and "rem_at (snd (takeFrom s r)) k = rem_at r k - min (rem_at r k) (free_of s k)"
    and "line_qty (fst (takeFrom s r)) k = min (rem_at r k) (free_of s k)"
    and "\<forall>l \<in> set (fst (takeFrom s r)). 0 < pl_quantity l \<and> pl_quantity l \<le> free_of s (pl_key l)"
    by blast+
qed

subsection \<open>A sequence of warehouses\<close>

lemma gives_Nil [simp]: "gives [] k = 0"
  by (simp add: gives_def)

lemma gives_Cons [simp]: "gives (p # ps) k = line_qty (pp_lines p) k + gives ps k"
  by (simp add: gives_def)

lemma stock_of_Nil [simp]: "stock_of [] k = 0"
  by (simp add: stock_of_def)

lemma stock_of_Cons [simp]: "stock_of (s # ss) k = free_of s k + stock_of ss k"
  by (simp add: stock_of_def)

text \<open>A part is drawn from a supply: its identity, and lines within what that supply has free.\<close>

definition drawn_from :: "planned_part \<Rightarrow> warehouse_supply \<Rightarrow> bool" where
  "drawn_from p s \<longleftrightarrow> pp_warehouse p = ws_warehouse s \<and> pp_distance p = ws_distance s \<and>
     (\<forall>l \<in> set (pp_lines p). 0 < pl_quantity l \<and> pl_quantity l \<le> free_of s (pl_key l))"

lemma part_of_supply_simps [simp]:
  "pp_warehouse (part_of_supply s ls) = ws_warehouse s"
  "pp_distance (part_of_supply s ls) = ws_distance s"
  "pp_lines (part_of_supply s ls) = ls"
  by (simp_all add: part_of_supply_def)

lemma cover_loop_exact:
  assumes "exact_remaining r" and "\<forall>s \<in> set combo. exact_supply s"
    and "cover_loop combo r = (parts, rm)"
  shows "exact_remaining rm \<and>
     rem_at rm k = max 0 (rem_at r k - stock_of combo k) \<and>
     gives parts k + rem_at rm k = rem_at r k \<and>
     (\<forall>p \<in> set parts. \<exists>s \<in> set combo. drawn_from p s)"
  using assms
proof (induction combo r arbitrary: parts rm rule: cover_loop.induct)
  case (1 r)
  then show ?case using exact_rem_at [OF 1(1), of k] by simp
next
  case (2 s combo r)
  have ex: "exact_remaining r" and s: "exact_supply s" and rest: "\<forall>s \<in> set combo. exact_supply s"
    using "2.prems" by auto
  note stk = exact_stock [OF rest, of k] and rk = exact_rem_at [OF ex, of k]
    and fk = exact_free [OF s, of k]
  show ?case
  proof (cases "isSatisfied r")
    case True
    then have "rem_at r k = 0" using satisfied_rem_at [OF ex] by blast
    then show ?thesis using True "2.prems" stk fk by simp
  next
    case False
    obtain ls r1 where tf: "takeFrom s r = (ls, r1)" by force
    obtain ps r2 where cl: "cover_loop combo r1 = (ps, r2)" by force
    note te = takeFrom_exact [OF ex s, unfolded tf fst_conv snd_conv]
    have ih: "exact_remaining r2 \<and> rem_at r2 k = max 0 (rem_at r1 k - stock_of combo k) \<and>
        gives ps k + rem_at r2 k = rem_at r1 k \<and> (\<forall>p \<in> set ps. \<exists>s \<in> set combo. drawn_from p s)"
      using "2.IH" [OF False tf [symmetric] refl _ rest cl] te(1) by simp
    have parts: "parts = (if ls = [] then ps else part_of_supply s ls # ps)" and rm: "rm = r2"
      using "2.prems"(3) False tf cl by (auto split: if_splits)
    have "gives parts k = line_qty ls k + gives ps k"
      using parts by simp
    moreover have "\<forall>p \<in> set parts. \<exists>s \<in> set (s # combo). drawn_from p s"
      using ih parts te(4) by (auto simp: drawn_from_def)
    ultimately show ?thesis using ih rm te(2,3) [of k] stk rk fk
      by (auto simp: min_def max_def)
  qed
qed

lemma cover_loop_order:
  "cover_loop combo r = (parts, rm) \<Longrightarrow>
   subseq (map (\<lambda>p. (pp_warehouse p, pp_distance p)) parts)
     (map (\<lambda>s. (ws_warehouse s, ws_distance s)) combo)"
proof (induction combo r arbitrary: parts rm rule: cover_loop.induct)
  case (2 s combo r)
  obtain ls r1 where tf: "takeFrom s r = (ls, r1)" by force
  obtain ps r2 where cl: "cover_loop combo r1 = (ps, r2)" by force
  show ?case using 2 tf cl by (auto split: if_splits)
qed simp

text \<open>The ceiling of \<open>planPartial\<close> is the number of warehouses, so it never stops the loop.\<close>

lemma partial_loop_cover_loop:
  "placed + length supplies \<le> maxParts \<Longrightarrow>
   partial_loop maxParts placed supplies r = cover_loop supplies r"
  by (induction maxParts placed supplies r rule: partial_loop.induct)
     (auto simp: split: prod.splits)

lemma exact_initial:
  assumes "exact_request required"
  shows "exact_remaining (initial_remaining required)"
    and "l \<in> set required \<Longrightarrow> rem_at (initial_remaining required) (rl_key l) = rl_quantity l"
    and "k \<notin> rl_key ` set required \<Longrightarrow> rem_at (initial_remaining required) k = 0"
proof -
  have d: "distinct (map rl_key required)" using assms by (simp add: exact_request_def)
  then have eq: "initial_remaining required = map (\<lambda>l. (rl_key l, rl_quantity l)) required"
    unfolding initial_remaining_def by (intro js_map_distinct) (simp add: o_def)
  have keys: "map fst (initial_remaining required) = map rl_key required"
    by (simp add: eq o_def)
  show "exact_remaining (initial_remaining required)"
    unfolding exact_remaining_def keys using assms d by (auto simp: eq exact_request_def)
  show "rem_at (initial_remaining required) (rl_key l) = rl_quantity l" if "l \<in> set required"
  proof -
    have "(rl_key l, rl_quantity l) \<in> set (initial_remaining required)" using that eq by auto
    moreover have "distinct (map fst (initial_remaining required))" unfolding keys by (rule d)
    ultimately show ?thesis by (simp add: rem_at_def)
  qed
  show "rem_at (initial_remaining required) k = 0" if "k \<notin> rl_key ` set required"
    using that by (intro rem_at_absent) (auto simp: eq)
qed

lemma covers_exact:
  assumes "exact_request required" and "\<forall>s \<in> set combo. exact_supply s"
  shows "combinationCovers required combo \<longleftrightarrow>
    (\<forall>l \<in> set required. rl_quantity l \<le> stock_of combo (rl_key l))"
proof -
  have "(rl_quantity l \<le> QUANTITY_EPSILON \<or>
         rl_quantity l - QUANTITY_EPSILON \<le> stock_of combo (rl_key l))
       \<longleftrightarrow> rl_quantity l \<le> stock_of combo (rl_key l)" if "l \<in> set required" for l
  proof -
    have "milli (rl_quantity l)" "0 \<le> rl_quantity l"
      using that assms(1) by (auto simp: exact_request_def)
    moreover note exact_stock [OF assms(2), of "rl_key l"]
    ultimately show ?thesis
      using milli_le_eps [of "rl_quantity l"]
        milli_le_tolerance [of "rl_quantity l" "stock_of combo (rl_key l)"] by auto
  qed
  then show ?thesis by (simp add: combinationCovers_def list_all_iff stock_of_def)
qed

lemma lacks_shortfalls:
  assumes "exact_request required" and "exact_remaining rm" and "l \<in> set required"
  shows "lacks (buildShortfalls required rm) (rl_key l) = rem_at rm (rl_key l)"
proof -
  let ?sf = "\<lambda>line. \<lparr>sf_key = rl_key line, sf_requested = rl_quantity line,
      sf_allocated = round3 (rl_quantity line - rem_at rm (rl_key line)),
      sf_missing = round3 (rem_at rm (rl_key line))\<rparr>"
  have eq: "buildShortfalls required rm =
      map ?sf (filter (\<lambda>l. 0 < rem_at rm (rl_key l)) required)" for required
    using exact_rem_at [OF assms(2)]
    by (simp add: buildShortfalls_def rem_at_def [symmetric] Let_def filter_map o_def milli_gt_eps
        cong: filter_cong)
  have total: "lacks (map ?sf (filter (\<lambda>l. 0 < rem_at rm (rl_key l)) required)) k =
      (if k \<in> rl_key ` set required then rem_at rm k else 0)"
    if "distinct (map rl_key required)" for k and required :: "required_line list"
    using that exact_rem_at [OF assms(2), of k]
    by (induction required) (auto simp: lacks_def)
  show ?thesis
    using total [of required "rl_key l"] assms(1,3) by (simp add: eq exact_request_def)
qed

lemma shortfalls_Nil:
  assumes "exact_request required" and "exact_remaining rm"
  shows "buildShortfalls required rm = [] \<longleftrightarrow> (\<forall>l \<in> set required. rem_at rm (rl_key l) = 0)"
proof -
  have "(QUANTITY_EPSILON < round3 (rem_at rm k)) \<longleftrightarrow> rem_at rm k \<noteq> 0" for k
    using exact_rem_at [OF assms(2), of k] milli_gt_eps [of "rem_at rm k"] by auto
  then show ?thesis
    by (simp add: buildShortfalls_def Let_def filter_map filter_empty_conv o_def
        rem_at_def [symmetric] image_iff)
qed

subsection \<open>The search for the fewest, nearest warehouses\<close>

lemma combination_list_set:
  "set (combination_list items k) = {ys. subseq ys items \<and> length ys = k \<and> ys \<noteq> []}"
  by (auto simp: combination_list_def combinations_combos set_combos)

definition good_combo :: "required_line list \<Rightarrow> (warehouse_supply list \<times> rat) option \<Rightarrow>
    warehouse_supply list list \<Rightarrow> bool" where
  "good_combo required best cs \<longleftrightarrow> (case best of
     None \<Rightarrow> \<forall>c \<in> set cs. \<not> combinationCovers required c
   | Some (c, km) \<Rightarrow> c \<in> set cs \<and> km = total_km c \<and> combinationCovers required c \<and>
       (\<forall>c' \<in> set cs. combinationCovers required c' \<longrightarrow> km \<le> total_km c'))"

lemma best_combo_good:
  "good_combo required best seen \<Longrightarrow> good_combo required (best_combo required best cs) (seen @ cs)"
proof (induction cs arbitrary: best seen)
  case (Cons c cs)
  let ?b = "if \<not> combinationCovers required c then best
    else (case best of None \<Rightarrow> Some (c, total_km c)
          | Some (c0, km) \<Rightarrow> if total_km c < km then Some (c, total_km c) else best)"
  have step: "best_combo required best (c # cs) = best_combo required ?b cs"
    by (auto simp: Let_def split: option.splits prod.splits)
  have "good_combo required ?b (seen @ [c])"
  proof (cases best)
    case None
    then show ?thesis using Cons.prems by (simp add: good_combo_def)
  next
    case (Some p)
    obtain c0 km where p: "p = (c0, km)" by force
    then show ?thesis using Cons.prems Some by (auto simp: good_combo_def)
  qed
  then have "good_combo required (best_combo required ?b cs) ((seen @ [c]) @ cs)"
    by (rule Cons.IH)
  then show ?case by (simp only: step append_assoc append.simps)
qed simp

lemma best_combo_spec: "good_combo required (best_combo required None cs) cs"
  using best_combo_good [of required None "[]" cs] by (simp add: good_combo_def)

lemma fewest_loop_None:
  "fewest_loop required supplies szs = None \<longleftrightarrow>
   (\<forall>n \<in> set szs. \<forall>c \<in> set (combination_list supplies n). \<not> combinationCovers required c)"
proof (induction szs)
  case (Cons n szs)
  show ?case
    using Cons best_combo_spec [of required "combination_list supplies n"]
    by (cases "best_combo required None (combination_list supplies n)")
       (auto simp: good_combo_def)
qed simp

lemma fewest_loop_Some:
  assumes "fewest_loop required supplies szs = Some plan" and "sorted szs"
  shows "\<exists>combo. plan = buildCoveringPlan required combo \<and> length combo \<in> set szs \<and>
    subseq combo supplies \<and> combo \<noteq> [] \<and> combinationCovers required combo \<and>
    (\<forall>c. subseq c supplies \<longrightarrow> c \<noteq> [] \<longrightarrow> length c \<in> set szs \<longrightarrow> combinationCovers required c \<longrightarrow>
       length combo \<le> length c \<and> (length c = length combo \<longrightarrow> total_km combo \<le> total_km c))"
  using assms
proof (induction szs)
  case (Cons n szs)
  note spec = best_combo_spec [of required "combination_list supplies n"]
  show ?case
  proof (cases "best_combo required None (combination_list supplies n)")
    case None
    then have no: "\<not> combinationCovers required c"
      if "subseq c supplies" "c \<noteq> []" "length c = n" for c
      using that spec by (auto simp: good_combo_def combination_list_set)
    have "fewest_loop required supplies szs = Some plan" "sorted szs"
      using Cons.prems None by simp_all
    then obtain combo where combo: "plan = buildCoveringPlan required combo"
      "length combo \<in> set szs" "subseq combo supplies" "combo \<noteq> []"
      "combinationCovers required combo"
      and least: "\<And>c. subseq c supplies \<Longrightarrow> c \<noteq> [] \<Longrightarrow> length c \<in> set szs \<Longrightarrow>
        combinationCovers required c \<Longrightarrow>
        length combo \<le> length c \<and> (length c = length combo \<longrightarrow> total_km combo \<le> total_km c)"
      using Cons.IH by auto
    have "length combo \<le> length c \<and> (length c = length combo \<longrightarrow> total_km combo \<le> total_km c)"
      if "subseq c supplies" "c \<noteq> []" "length c \<in> set (n # szs)" "combinationCovers required c" for c
      using that no least by (cases "length c = n") auto
    with combo show ?thesis by (intro exI [of _ combo]) simp
  next
    case (Some p)
    obtain combo km where p: "p = (combo, km)" by force
    have c: "subseq combo supplies" "length combo = n" "combo \<noteq> []" "combinationCovers required combo"
      and least: "\<And>c. subseq c supplies \<Longrightarrow> c \<noteq> [] \<Longrightarrow> length c = n \<Longrightarrow> combinationCovers required c \<Longrightarrow>
         total_km combo \<le> total_km c"
      using spec Some p by (auto simp: good_combo_def combination_list_set)
    have "plan = buildCoveringPlan required combo" using Cons.prems(1) Some p by simp
    moreover have "\<forall>c. subseq c supplies \<longrightarrow> c \<noteq> [] \<longrightarrow> length c \<in> set (n # szs) \<longrightarrow>
       combinationCovers required c \<longrightarrow>
       length combo \<le> length c \<and> (length c = length combo \<longrightarrow> total_km combo \<le> total_km c)"
      using Cons.prems(2) least c(2) by simp
    ultimately show ?thesis using c by (intro exI [of _ combo] conjI) simp_all
  qed
qed simp

text \<open>The three outcomes of \<open>planAllocation\<close>, with what each guarantees.\<close>

definition covering_sets :: "required_line list \<Rightarrow> warehouse_supply list \<Rightarrow> warehouse_supply list set" where
  "covering_sets required supplies =
     {c. subseq c supplies \<and> c \<noteq> [] \<and> combinationCovers required c}"

lemma planAllocation_cases:
  fixes supplies0 :: "warehouse_supply list"
  defines "supplies \<equiv> sort_key ws_distance supplies0"
  obtains
    (single) s where "s \<in> set supplies" "combinationCovers required [s]"
      "\<forall>s' \<in> set supplies. combinationCovers required [s'] \<longrightarrow> ws_distance s \<le> ws_distance s'"
      "planSingleWarehouse required supplies = Some (planAllocation required supplies0)"
      "pp_warehouse (hd (plan_parts (planAllocation required supplies0))) = ws_warehouse s"
      "find (\<lambda>s. combinationCovers required [s]) supplies = Some s"
  | (split) combo where "combo \<in> covering_sets required supplies" "2 \<le> length combo"
      "planAllocation required supplies0 = buildCoveringPlan required combo"
      "\<forall>c \<in> covering_sets required supplies. length combo \<le> length c \<and>
         (length c = length combo \<longrightarrow> total_km combo \<le> total_km c)"
  | (partial) "covering_sets required supplies = {}"
      "planAllocation required supplies0 = planPartial required supplies (length supplies)"
proof -
  show thesis
  proof (cases "find (\<lambda>s. combinationCovers required [s]) supplies")
    case (Some s)
    then obtain i where i: "i < length supplies" "supplies ! i = s"
      "combinationCovers required [s]" "\<forall>j<i. \<not> combinationCovers required [supplies ! j]"
      by (auto simp: find_Some_iff)
    have "ws_distance s \<le> ws_distance s'"
      if s': "s' \<in> set supplies" "combinationCovers required [s']" for s'
    proof -
      obtain j where j: "j < length supplies" "supplies ! j = s'"
        using s'(1) by (auto simp: in_set_conv_nth)
      then have "i \<le> j" using i(4) s'(2) by (meson not_less)
      moreover have "sorted (map ws_distance supplies)" by (simp add: supplies_def)
      ultimately show ?thesis using i(2) j sorted_nth_mono [of "map ws_distance supplies" i j] i(1)
        by simp
    qed
    moreover have "s \<in> set supplies" using i(1,2) nth_mem by blast
    ultimately show thesis using i(3) Some
      by (intro single [of s]) (auto simp: planAllocation_def planSingleWarehouse_def
          Let_def supplies_def)
  next
    case None
    then have none1: "\<not> combinationCovers required c" if "subseq c supplies" "length c = 1" for c
      using that by (auto simp: length_Suc_conv find_None_iff subseq_singleton_left)
    have sizes: "length c \<in> set [2..<Suc (length supplies)] \<longleftrightarrow> length c \<noteq> 1"
      if "subseq c supplies" "c \<noteq> []" for c
    proof -
      have "length c \<le> length supplies" using that(1) by (rule list_emb_length)
      moreover have "length c \<noteq> 0" using that(2) by simp
      ultimately show ?thesis unfolding set_upt atLeastLessThan_iff by linarith
    qed
    show thesis
    proof (cases "planFewestParts required supplies (length supplies)")
      case s: (Some plan)
      then have fl: "fewest_loop required supplies [2..<Suc (length supplies)] = Some plan"
        by (simp add: planFewestParts_def)
      obtain combo where c: "plan = buildCoveringPlan required combo"
        "length combo \<in> set [2..<Suc (length supplies)]" "subseq combo supplies" "combo \<noteq> []"
        "combinationCovers required combo"
        "\<forall>c. subseq c supplies \<longrightarrow> c \<noteq> [] \<longrightarrow> length c \<in> set [2..<Suc (length supplies)] \<longrightarrow>
           combinationCovers required c \<longrightarrow>
           length combo \<le> length c \<and> (length c = length combo \<longrightarrow> total_km combo \<le> total_km c)"
        using fewest_loop_Some [OF fl sorted_upt] by blast
      have "\<forall>c \<in> covering_sets required supplies. length combo \<le> length c \<and>
         (length c = length combo \<longrightarrow> total_km combo \<le> total_km c)"
        using c(6) sizes none1 unfolding covering_sets_def by blast
      with c s None show thesis
        by (intro split [of combo]) (auto simp: covering_sets_def planAllocation_def
            planSingleWarehouse_def Let_def supplies_def)
    next
      case n: None
      then have "\<not> combinationCovers required c"
        if "subseq c supplies" "c \<noteq> []" for c
        using that sizes [OF that] none1 [OF that(1)]
        by (auto simp: planFewestParts_def fewest_loop_None combination_list_set)
      then have "covering_sets required supplies = {}" by (auto simp: covering_sets_def)
      with n None show thesis
        by (intro partial) (auto simp: planAllocation_def planSingleWarehouse_def Let_def
            supplies_def)
    qed
  qed
qed

subsection \<open>What every plan guarantees\<close>

lemma supplies_sorted [simp]: "set (sort_key ws_distance ss) = set ss"
  by simp

lemma covering_exact_supply:
  "\<forall>s \<in> set ss. exact_supply s \<Longrightarrow> c \<in> covering_sets required (sort_key ws_distance ss) \<Longrightarrow>
   \<forall>s \<in> set c. exact_supply s"
  using subseq_set [of c "sort_key ws_distance ss"] by (auto simp: covering_sets_def)

lemma stock_of_subseq:
  "subseq c ss \<Longrightarrow> \<forall>s \<in> set ss. exact_supply s \<Longrightarrow> stock_of c k \<le> stock_of ss k"
proof (induction rule: list_emb.induct)
  case (list_emb_Nil ss)
  then show ?case by (simp add: exact_stock)
next
  case (list_emb_Cons c ss s)
  then show ?case using exact_free [of s k] by simp
qed simp

lemma stock_of_perm: "mset c = mset c' \<Longrightarrow> stock_of c k = stock_of c' k"
  unfolding stock_of_def by (metis mset_map sum_mset_sum_list)

lemma stock_of_sort [simp]: "stock_of (sort_key ws_distance c) k = stock_of c k"
  by (rule stock_of_perm) simp

lemma total_km_perm: "mset c = mset c' \<Longrightarrow> total_km c = total_km c'"
  unfolding total_km_def by (metis mset_map sum_mset_sum_list)

text \<open>The plan built from a list of warehouses, nearest first, for an exact request.\<close>

lemma buildCoveringPlan_exact:
  assumes "exact_request required" and "\<forall>s \<in> set combo. exact_supply s"
  defines "plan \<equiv> buildCoveringPlan required combo"
  shows "l \<in> set required \<Longrightarrow>
      gives (plan_parts plan) (rl_key l) + lacks (plan_shortfalls plan) (rl_key l) = rl_quantity l"
    and "l \<in> set required \<Longrightarrow>
      lacks (plan_shortfalls plan) (rl_key l) = max 0 (rl_quantity l - stock_of combo (rl_key l))"
    and "combinationCovers required combo \<Longrightarrow> plan_shortfalls plan = []"
    and "p \<in> set (plan_parts plan) \<Longrightarrow> \<exists>s \<in> set combo. drawn_from p s"
    and "subseq (map (\<lambda>p. (pp_warehouse p, pp_distance p)) (plan_parts plan))
           (map (\<lambda>s. (ws_warehouse s, ws_distance s)) combo)"
proof -
  obtain parts rm where cl: "cover_loop combo (initial_remaining required) = (parts, rm)" by force
  note ex = exact_initial [OF assms(1)]
  note loop = cover_loop_exact [OF ex(1) assms(2) cl]
  have plan: "plan_parts plan = parts" "plan_shortfalls plan = buildShortfalls required rm"
    by (simp_all add: plan_def buildCoveringPlan_def cl)
  have rm: "exact_remaining rm" using loop by blast
  show "lacks (plan_shortfalls plan) (rl_key l) = max 0 (rl_quantity l - stock_of combo (rl_key l))"
    if "l \<in> set required"
    using loop [of "rl_key l"] ex(2) [OF that] plan lacks_shortfalls [OF assms(1) rm that] by simp
  then show "gives (plan_parts plan) (rl_key l) + lacks (plan_shortfalls plan) (rl_key l) = rl_quantity l"
    if "l \<in> set required"
    using that loop [of "rl_key l"] ex(2) [OF that] plan lacks_shortfalls [OF assms(1) rm that] by simp
  show "plan_shortfalls plan = []" if "combinationCovers required combo"
  proof -
    have "rem_at rm (rl_key l) = 0" if "l \<in> set required" for l
      using that \<open>combinationCovers required combo\<close> covers_exact [OF assms(1,2)]
        loop [of "rl_key l"] ex(2) [OF that] by auto
    then show ?thesis using plan shortfalls_Nil [OF assms(1) rm] by simp
  qed
  show "\<exists>s \<in> set combo. drawn_from p s" if "p \<in> set (plan_parts plan)"
    using that loop plan by simp
  show "subseq (map (\<lambda>p. (pp_warehouse p, pp_distance p)) (plan_parts plan))
           (map (\<lambda>s. (ws_warehouse s, ws_distance s)) combo)"
    using cover_loop_order [OF cl] plan by simp
qed

lemma planPartial_covering:
  "planPartial required supplies (length supplies) =
     buildCoveringPlan required supplies
       \<lparr>plan_fullyCovered := plan_shortfalls (buildCoveringPlan required supplies) = []\<rparr>"
  by (simp add: planPartial_def buildCoveringPlan_def partial_loop_cover_loop Let_def
      split: prod.splits)

lemma planSingle_parts:
  assumes "planSingleWarehouse required supplies = Some plan"
    and "find (\<lambda>s. combinationCovers required [s]) supplies = Some s"
  shows "plan_parts plan = [part_of_supply s
      (map (\<lambda>line. \<lparr>pl_key = rl_key line, pl_quantity = round3 (rl_quantity line)\<rparr>)
        (filter (\<lambda>line. QUANTITY_EPSILON < rl_quantity line) required))]"
    and "plan_shortfalls plan = []" and "plan_fullyCovered plan"
    and "plan_score plan = round3 (ws_distance s)"
  using assms by (auto simp: planSingleWarehouse_def)

lemma single_line_qty:
  "distinct (map rl_key required) \<Longrightarrow> \<forall>l \<in> set required. milli (rl_quantity l) \<and> 0 \<le> rl_quantity l \<Longrightarrow>
   l \<in> set required \<Longrightarrow>
   line_qty (map (\<lambda>line. \<lparr>pl_key = rl_key line, pl_quantity = round3 (rl_quantity line)\<rparr>)
     (filter (\<lambda>line. QUANTITY_EPSILON < rl_quantity line) required)) (rl_key l) = rl_quantity l"
proof (induction required)
  case (Cons a required)
  show ?case
  proof (cases "l = a")
    case True
    then have "rl_key l \<notin> rl_key ` set required" using Cons.prems by auto
    then have "line_qty (map (\<lambda>line. \<lparr>pl_key = rl_key line, pl_quantity = round3 (rl_quantity line)\<rparr>)
        (filter (\<lambda>line. QUANTITY_EPSILON < rl_quantity line) required)) (rl_key l) = 0"
      by (intro line_qty_absent) auto
    then show ?thesis using True Cons.prems milli_gt_eps [of "rl_quantity a"] by auto
  next
    case False
    then have "l \<in> set required" and "rl_key a \<noteq> rl_key l" using Cons.prems by auto
    then show ?thesis using Cons by simp
  qed
qed simp

lemma plan_split_or_partial:
  assumes "exact_request required" and "\<forall>s \<in> set supplies. exact_supply s"
  obtains
    (single) s where "s \<in> set supplies" "combinationCovers required [s]"
      "plan_parts (planAllocation required supplies) = [part_of_supply s
        (map (\<lambda>line. \<lparr>pl_key = rl_key line, pl_quantity = round3 (rl_quantity line)\<rparr>)
          (filter (\<lambda>line. QUANTITY_EPSILON < rl_quantity line) required))]"
      "plan_shortfalls (planAllocation required supplies) = []"
      "plan_fullyCovered (planAllocation required supplies)"
  | (list) combo where "subseq combo (sort_key ws_distance supplies)"
      "plan_parts (planAllocation required supplies) = plan_parts (buildCoveringPlan required combo)"
      "plan_shortfalls (planAllocation required supplies) =
         plan_shortfalls (buildCoveringPlan required combo)"
      "plan_fullyCovered (planAllocation required supplies) \<longleftrightarrow>
         plan_shortfalls (buildCoveringPlan required combo) = []"
      "combo = sort_key ws_distance supplies \<or> combinationCovers required combo"
proof (cases rule: planAllocation_cases [of supplies required])
  case (single s)
  then show thesis using that(1) [of s] planSingle_parts [OF single(4) single(6)] by simp
next
  case (split combo)
  then have "\<forall>s \<in> set combo. exact_supply s" using covering_exact_supply [OF assms(2)] by blast
  then have "plan_shortfalls (buildCoveringPlan required combo) = []"
    using buildCoveringPlan_exact(3) [OF assms(1)] split(1) by (simp add: covering_sets_def)
  moreover have "plan_fullyCovered (buildCoveringPlan required combo)"
    by (simp add: buildCoveringPlan_def split: prod.splits)
  ultimately show thesis using that(2) [of combo] split by (simp add: covering_sets_def)
next
  case partial
  then show thesis using that(2) [of "sort_key ws_distance supplies"]
      planPartial_covering [of required "sort_key ws_distance supplies"] by simp
qed

subsection \<open>Properties\<close>

text \<open>C9: the generator \<open>combinations\<close> always ends and yields, each exactly once, all the
  subsequences of the given length, in the order of the recursive enumeration; for a length of
  zero it yields nothing.\<close>

theorem combinations_enumerates:
  "combinations items k = Some (if k = 0 then [] else combos items k)
   \<and> set (combos items k) = {ys. subseq ys items \<and> length ys = k}
   \<and> (distinct items \<longrightarrow> distinct (combos items k))"
  by (simp add: combinations_combos set_combos distinct_combos)

theorem combinations_enumerates_witness:
  "combinations [10, 20, 30 :: nat] 2 = Some [[10, 20], [10, 30], [20, 30]]
   \<and> distinct (combos [10, 20, 30 :: nat] 2)"
  using combinations_enumerates [of "[10, 20, 30 :: nat]" 2]
  by (simp add: numeral_2_eq_2)

lemma plan_conserves:
  assumes "exact_request required" and "\<forall>s \<in> set supplies. exact_supply s" and "l \<in> set required"
  shows "gives (plan_parts (planAllocation required supplies)) (rl_key l)
       + lacks (plan_shortfalls (planAllocation required supplies)) (rl_key l) = rl_quantity l"
  using assms(1,2)
proof (cases rule: plan_split_or_partial)
  case (single s)
  then show ?thesis using single_line_qty [of required l] assms
    by (simp add: exact_request_def lacks_def)
next
  case (list combo)
  have "\<forall>s \<in> set combo. exact_supply s"
    using subseq_set [OF list(1)] assms(2) by auto
  then show ?thesis using buildCoveringPlan_exact(1) [OF assms(1) _ assms(3)] list by simp
qed

text \<open>C4: nothing is lost and nothing invented: for every material of a request, what the parts
  of the plan hand over plus what the plan reports missing is the quantity requested.\<close>

theorem plan_conserves_quantity:
  assumes "exact_request required" and "\<forall>s \<in> set supplies. exact_supply s" and "l \<in> set required"
  shows "gives (plan_parts (planAllocation required supplies)) (rl_key l)
       + lacks (plan_shortfalls (planAllocation required supplies)) (rl_key l) = rl_quantity l"
  by (rule plan_conserves [OF assms])

lemma plan_drawn:
  assumes "exact_request required" and "\<forall>s \<in> set supplies. exact_supply s"
  shows "(\<forall>p \<in> set (plan_parts (planAllocation required supplies)). \<exists>s \<in> set supplies. drawn_from p s)
    \<and> (distinct (map ws_warehouse supplies) \<longrightarrow>
         distinct (map pp_warehouse (plan_parts (planAllocation required supplies))))"
  using assms
proof (cases rule: plan_split_or_partial)
  case (single s)
  have "exact_supply s" using single(1) assms(2) by blast
  then have "rl_quantity l \<le> free_of s (rl_key l)" if "l \<in> set required" for l
    using single(2) that covers_exact [OF assms(1), of "[s]"] by simp
  then show ?thesis using single assms(1) milli_gt_eps
    by (auto simp: drawn_from_def exact_request_def)
next
  case (list combo)
  have ex: "\<forall>s \<in> set combo. exact_supply s"
    using subseq_set [OF list(1)] assms(2) by auto
  note exact = buildCoveringPlan_exact [OF assms(1) ex]
  have "\<exists>s \<in> set supplies. drawn_from p s"
    if "p \<in> set (plan_parts (planAllocation required supplies))" for p
    using that exact(4) list(2) subseq_set [OF list(1)] by fastforce
  moreover have "distinct (map pp_warehouse (plan_parts (planAllocation required supplies)))"
    if "distinct (map ws_warehouse supplies)"
  proof -
    have "subseq (map pp_warehouse (plan_parts (buildCoveringPlan required combo)))
        (map ws_warehouse (sort_key ws_distance supplies))"
      using subseq_map [OF exact(5), of fst] subseq_map [OF list(1), of ws_warehouse]
      by (simp add: o_def)
    moreover have "distinct (map ws_warehouse (sort_key ws_distance supplies))"
      using that by (simp add: distinct_map)
    ultimately show ?thesis
      using list(2) by (metis subseq_conv_nths distinct_nthsI)
  qed
  ultimately show ?thesis by blast
qed

text \<open>C5: a plan never takes from a warehouse what is not free there: every part is drawn from one
  of the supplies, each of its lines within that supply's free quantity, and no warehouse is
  given two parts.\<close>

theorem plan_within_stock:
  assumes "exact_request required" and "\<forall>s \<in> set supplies. exact_supply s"
  shows "(\<forall>p \<in> set (plan_parts (planAllocation required supplies)). \<exists>s \<in> set supplies. drawn_from p s)
    \<and> (distinct (map ws_warehouse supplies) \<longrightarrow>
         distinct (map pp_warehouse (plan_parts (planAllocation required supplies))))"
  by (rule plan_drawn [OF assms])

lemma combination_list_code [code]:
  "combination_list items k = (if k = 0 then [] else combos items k)"
  by (simp add: combination_list_def combinations_combos)

text \<open>C3: a plan uses the fewest warehouses that can cover the order together, and the least
  total distance among those: compared with any set of the offered supplies that covers the
  order, the plan covers it fully, with no more parts, and with no greater distance when the
  numbers are equal.\<close>

theorem plan_fewest_nearest:
  assumes req: "exact_request required" and ex: "\<forall>s \<in> set supplies. exact_supply s"
    and dist: "distinct supplies" and km: "\<forall>s \<in> set supplies. 0 \<le> ws_distance s"
    and sub: "set rival \<subseteq> set supplies" "distinct rival" "rival \<noteq> []"
    and cov: "combinationCovers required rival"
  defines "plan \<equiv> planAllocation required supplies"
  shows "plan_fullyCovered plan \<and> plan_shortfalls plan = []
    \<and> length (plan_parts plan) \<le> length rival
    \<and> (length (plan_parts plan) = length rival \<longrightarrow> plan_score plan \<le> round3 (total_km rival))"
proof -
  let ?S = "sort_key ws_distance supplies"
  let ?c = "filter (\<lambda>s. s \<in> set rival) ?S"
  have m: "mset ?c = mset rival"
    using sub dist by (intro set_eq_iff_mset_eq_distinct [THEN iffD1]) auto
  note len = mset_eq_length [OF m] and kms = total_km_perm [OF m] and stk = stock_of_perm [OF m]
  have "combinationCovers required ?c"
    using cov stk by (simp add: combinationCovers_def stock_of_def)
  then have mem: "?c \<in> covering_sets required ?S"
  proof -
    have "?c \<noteq> []" using len sub(3) by (metis length_0_conv)
    then show ?thesis using \<open>combinationCovers required ?c\<close> by (simp add: covering_sets_def)
  qed
  show ?thesis
  proof (cases rule: planAllocation_cases [of supplies required])
    case (single s)
    note plan = planSingle_parts [OF single(4) single(6), folded plan_def]
    have "1 \<le> length rival" using sub(3) by (cases rival) auto
    moreover have "plan_score plan \<le> round3 (total_km rival)" if one: "length rival = 1"
    proof -
      obtain r where r: "rival = [r]" using one by (auto simp: length_Suc_conv)
      then have "ws_distance s \<le> ws_distance r" using single(3) sub(1) cov by auto
      then show ?thesis using plan(4) r by (simp add: total_km_def round3_mono)
    qed
    ultimately show ?thesis using plan by auto
  next
    case (split combo)
    have exc: "\<forall>s \<in> set combo. exact_supply s" using covering_exact_supply [OF ex split(1)] .
    note build = buildCoveringPlan_exact [OF req exc]
    have seq: "subseq (map (\<lambda>p. (pp_warehouse p, pp_distance p)) (plan_parts plan))
        (map (\<lambda>s. (ws_warehouse s, ws_distance s)) combo)"
      using build(5) split(3) by (simp add: plan_def)
    have cs: "set combo \<subseteq> set supplies"
      using split(1) subseq_set [of combo ?S] by (simp add: covering_sets_def)
    have parts: "length (plan_parts plan) \<le> length combo"
      using list_emb_length [OF seq] by simp
    moreover have "length combo \<le> length rival" using split(4) mem len by fastforce
    moreover have "plan_score plan \<le> round3 (total_km rival)"
      if "length (plan_parts plan) = length rival"
    proof -
      have "length (map (\<lambda>p. (pp_warehouse p, pp_distance p)) (plan_parts plan)) =
          length (map (\<lambda>s. (ws_warehouse s, ws_distance s)) combo)"
        using that parts \<open>length combo \<le> length rival\<close> by simp
      then have "map (\<lambda>p. (pp_warehouse p, pp_distance p)) (plan_parts plan) =
          map (\<lambda>s. (ws_warehouse s, ws_distance s)) combo"
        using seq subseq_same_length by blast
      then have "map pp_distance (plan_parts plan) = map ws_distance combo"
        by (metis (no_types, lifting) list.map_comp map_eq_conv o_def snd_conv)
      moreover have "plan_score plan = score_of (plan_parts plan)"
        by (simp add: plan_def split(3) buildCoveringPlan_def split: prod.splits)
      ultimately have "plan_score plan = round3 (total_km combo)"
        by (simp add: score_of_def total_km_def)
      moreover have "total_km combo \<le> total_km rival"
        using split(4) mem len kms that parts \<open>length combo \<le> length rival\<close> by fastforce
      ultimately show ?thesis by (simp add: round3_mono)
    qed
    moreover have "plan_shortfalls plan = []" "plan_fullyCovered plan"
      using build(3) split by (simp_all add: plan_def covering_sets_def buildCoveringPlan_def
          split: prod.splits)
    ultimately show ?thesis by simp
  next
    case partial
    then show ?thesis using mem by simp
  qed
qed


lemma for_warehouses_facts:
  assumes "exact_request required" and "\<forall>s \<in> set supplies. exact_supply s"
    and "planForWarehouses required supplies ids = Some plan"
  shows "plan_shortfalls plan = [] \<and> plan_fullyCovered plan
    \<and> (\<forall>p \<in> set (plan_parts plan). pp_warehouse p \<in> set ids \<and> (\<exists>s \<in> set supplies. drawn_from p s))
    \<and> (\<forall>l \<in> set required. gives (plan_parts plan) (rl_key l) = rl_quantity l)"
proof -
  let ?chosen = "filter (\<lambda>s. List.member (uniq ids) (ws_warehouse s)) supplies"
  have plan: "plan = buildCoveringPlan required (sort_key ws_distance ?chosen)"
    and cov: "combinationCovers required ?chosen"
    using assms(3) by (auto simp: planForWarehouses_def Let_def split: if_splits)
  have ex: "\<forall>s \<in> set (sort_key ws_distance ?chosen). exact_supply s" using assms(2) by simp
  note build = buildCoveringPlan_exact [OF assms(1) ex]
  have cov': "combinationCovers required (sort_key ws_distance ?chosen)"
    using cov stock_of_sort [of ?chosen] by (simp add: combinationCovers_def stock_of_def)
  have none: "plan_shortfalls plan = []" using build(3) [OF cov'] plan by simp
  have "pp_warehouse p \<in> set ids \<and> (\<exists>s \<in> set supplies. drawn_from p s)"
    if "p \<in> set (plan_parts plan)" for p
    using that build(4) [of p] plan by (auto simp: drawn_from_def)
  moreover have "gives (plan_parts plan) (rl_key l) = rl_quantity l" if "l \<in> set required" for l
    using build(1) [OF that] none plan by (simp add: lacks_def)
  moreover have "plan_fullyCovered plan"
    by (simp add: plan buildCoveringPlan_def split: prod.splits)
  ultimately show ?thesis using none by blast
qed

text \<open>The plan for the warehouses an administrator names is given exactly when each of them is
  a candidate and together they cover the order; the plan then misses nothing and uses no other
  warehouse.\<close>

theorem planForWarehouses_sound:
  assumes "exact_request required" and "\<forall>s \<in> set supplies. exact_supply s"
    and "planForWarehouses required supplies ids = Some plan"
  shows "plan_shortfalls plan = [] \<and> plan_fullyCovered plan
    \<and> (\<forall>p \<in> set (plan_parts plan). pp_warehouse p \<in> set ids \<and> (\<exists>s \<in> set supplies. drawn_from p s))
    \<and> (\<forall>l \<in> set required. gives (plan_parts plan) (rl_key l) = rl_quantity l)"
  by (rule for_warehouses_facts [OF assms])

lemma covers_superset:
  assumes "exact_request required" and "\<forall>s \<in> set supplies. exact_supply s"
    and "subseq c supplies" and "combinationCovers required c"
  shows "combinationCovers required supplies"
proof -
  have "\<forall>s \<in> set c. exact_supply s" using assms(2) subseq_set [OF assms(3)] by blast
  then show ?thesis
    using assms stock_of_subseq [OF assms(3,2)] covers_exact [OF assms(1)] by (meson order_trans)
qed

lemma not_covered_no_subset:
  assumes "exact_request required" and "\<forall>s \<in> set supplies. exact_supply s"
    and "\<not> plan_fullyCovered (planAllocation required supplies)" and "subseq c supplies"
    and "c \<noteq> []"
  shows "\<not> combinationCovers required c"
proof
  assume "combinationCovers required c"
  then have "combinationCovers required supplies"
    using covers_superset [OF assms(1,2,4)] by blast
  then have "combinationCovers required (sort_key ws_distance supplies)"
    using stock_of_sort [of supplies] by (simp add: combinationCovers_def stock_of_def)
  moreover have "supplies \<noteq> []" using assms(4,5) by auto
  ultimately have "sort_key ws_distance supplies \<in> covering_sets required (sort_key ws_distance supplies)"
    by (simp add: covering_sets_def) (metis length_0_conv length_sort)
  then show False
  proof (cases rule: planAllocation_cases [of supplies required])
    case (single s)
    then show False using planSingle_parts(3) assms(3) by blast
  next
    case (split combo)
    then show False using assms(3) by (simp add: buildCoveringPlan_def split: prod.splits)
  next
    case partial
    then show False using \<open>sort_key ws_distance supplies \<in> _\<close> by simp
  qed
qed

text \<open>
  The warehouses of a plan that does not cover the order are never accepted by
  \<open>planForWarehouses\<close>: no subset of the supplies covers it.
\<close>

lemma partial_plan_refused:
  assumes "exact_request required" and "\<forall>s \<in> set supplies. exact_supply s"
    and "\<not> plan_fullyCovered (planAllocation required supplies)" and "ids \<noteq> []"
  shows "planForWarehouses required supplies ids = None"
proof -
  let ?wanted = "uniq ids"
  let ?chosen = "filter (\<lambda>s. List.member ?wanted (ws_warehouse s)) supplies"
  have seq: "subseq ?chosen supplies" by simp
  show ?thesis
  proof (cases "?chosen = []")
    case True
    have "length ?wanted \<noteq> 0" using assms(4) by simp
    then have "length ?chosen \<noteq> length ?wanted" unfolding True by simp
    then show ?thesis by (simp only: planForWarehouses_def Let_def not_False_eq_True if_True)
  next
    case False
    then have "\<not> combinationCovers required ?chosen"
      using not_covered_no_subset [OF assms(1-3) seq] by blast
    then show ?thesis by (simp only: planForWarehouses_def Let_def) simp
  qed
qed

text \<open>The list offered to the administrator holds exactly the sets of the given size, out of the
  warehouses that contribute anything, which cover the order together, nearest first.\<close>

theorem coveringCombinations_complete:
  "sorted (map co_totalDistanceKm (coveringCombinations required supplies n))
   \<and> set (coveringCombinations required supplies n) =
     {\<lparr>co_warehouseIds = map ws_warehouse c, co_totalDistanceKm = round3 (total_km c)\<rparr> | c.
        subseq c (sort_key ws_distance (filter (contributes required) supplies))
        \<and> length c = n \<and> c \<noteq> [] \<and> combinationCovers required c}"
proof -
  let ?S = "sort_key ws_distance (filter (contributes required) supplies)"
  have "length c \<le> length ?S" if "subseq c ?S" for c using that by (rule list_emb_length)
  then have "coveringCombinations required supplies n =
      sort_key co_totalDistanceKm (map (\<lambda>combo. \<lparr>co_warehouseIds = map ws_warehouse combo,
          co_totalDistanceKm = round3 (total_km combo)\<rparr>)
        (filter (combinationCovers required) (combination_list ?S n)))"
    by (auto simp: coveringCombinations_def Let_def combination_list_code combos_short)
  then show ?thesis by (auto simp: combination_list_set)
qed

text \<open>
  Two lines of one request that name the same material are each compared with the whole stock:
  eight and eight are promised from a warehouse that has ten.
\<close>

lemma duplicate_lines_oversell:
  "let plan = planAllocation
         [\<lparr>rl_key = ''7:'', rl_quantity = 8\<rparr>, \<lparr>rl_key = ''7:'', rl_quantity = 8\<rparr>]
         [\<lparr>ws_warehouse = ''w'', ws_distance = 3, ws_available = [(''7:'', 10)]\<rparr>]
   in plan_fullyCovered plan \<and> gives (plan_parts plan) ''7:'' = 16"
  by (simp add: planAllocation_def planSingleWarehouse_def combinationCovers_def
      QUANTITY_EPSILON_def free_of_def Let_def gives_def line_qty_def part_of_supply_def)

subsection \<open>Witnesses\<close>

text \<open>
  An order of two materials, no warehouse of the governorate holding both: the nearest pair that
  covers it is taken although a third warehouse lies closer than one of them.
\<close>

definition ex_request :: "required_line list" where
  "ex_request = [\<lparr>rl_key = ''7:'', rl_quantity = 10\<rparr>, \<lparr>rl_key = ''9:GOOD'', rl_quantity = 4\<rparr>]"

definition ex_near :: warehouse_supply where
  "ex_near = \<lparr>ws_warehouse = ''near'', ws_distance = 5, ws_available = [(''7:'', 6)]\<rparr>"

definition ex_mid :: warehouse_supply where
  "ex_mid = \<lparr>ws_warehouse = ''mid'', ws_distance = 9, ws_available = [(''7:'', 3)]\<rparr>"

definition ex_far :: warehouse_supply where
  "ex_far = \<lparr>ws_warehouse = ''far'', ws_distance = 20, ws_available = [(''7:'', 5), (''9:GOOD'', 4)]\<rparr>"

definition ex_supplies :: "warehouse_supply list" where
  "ex_supplies = [ex_far, ex_near, ex_mid]"

lemmas ex_defs = ex_request_def ex_supplies_def ex_near_def ex_mid_def ex_far_def

lemma ex_request_exact: "exact_request ex_request"
  by (simp add: exact_request_def ex_defs)

lemma ex_supplies_exact: "\<forall>s \<in> set ex_supplies. exact_supply s"
  by (simp add: exact_supply_def ex_defs)

lemma ex_plan:
  "planAllocation ex_request ex_supplies =
     \<lparr>plan_parts =
        [\<lparr>pp_warehouse = ''near'', pp_distance = 5,
          pp_lines = [\<lparr>pl_key = ''7:'', pl_quantity = 6\<rparr>]\<rparr>,
         \<lparr>pp_warehouse = ''far'', pp_distance = 20,
          pp_lines = [\<lparr>pl_key = ''7:'', pl_quantity = 4\<rparr>, \<lparr>pl_key = ''9:GOOD'', pl_quantity = 4\<rparr>]\<rparr>],
      plan_shortfalls = [], plan_score = 25, plan_fullyCovered = True\<rparr>"
  by code_simp

lemma ex_short_plan:
  "planAllocation ex_request [ex_near, ex_mid] =
     \<lparr>plan_parts =
        [\<lparr>pp_warehouse = ''near'', pp_distance = 5,
          pp_lines = [\<lparr>pl_key = ''7:'', pl_quantity = 6\<rparr>]\<rparr>,
         \<lparr>pp_warehouse = ''mid'', pp_distance = 9,
          pp_lines = [\<lparr>pl_key = ''7:'', pl_quantity = 3\<rparr>]\<rparr>],
      plan_shortfalls =
        [\<lparr>sf_key = ''7:'', sf_requested = 10, sf_allocated = 9, sf_missing = 1\<rparr>,
         \<lparr>sf_key = ''9:GOOD'', sf_requested = 4, sf_allocated = 0, sf_missing = 4\<rparr>],
      plan_score = 14, plan_fullyCovered = False\<rparr>"
  by code_simp

theorem plan_conserves_quantity_witness:
  "gives (plan_parts (planAllocation ex_request ex_supplies)) ''7:''
   + lacks (plan_shortfalls (planAllocation ex_request ex_supplies)) ''7:'' = 10"
  using plan_conserves_quantity [OF ex_request_exact ex_supplies_exact,
      of "\<lparr>rl_key = ''7:'', rl_quantity = 10\<rparr>"]
  by (simp add: ex_request_def)

theorem plan_within_stock_witness:
  "list_all (\<lambda>p. list_ex (drawn_from p) ex_supplies)
     (plan_parts (planAllocation ex_request ex_supplies))"
  using plan_within_stock [OF ex_request_exact ex_supplies_exact]
  unfolding list_all_iff list_ex_iff by blast

theorem plan_fewest_nearest_witness:
  "length (plan_parts (planAllocation ex_request ex_supplies)) = 2
   \<and> plan_score (planAllocation ex_request ex_supplies) \<le> round3 (total_km [ex_far, ex_near])"
proof -
  have "distinct ex_supplies" and "\<forall>s \<in> set ex_supplies. 0 \<le> ws_distance s"
    and "set [ex_far, ex_near] \<subseteq> set ex_supplies" and "distinct [ex_far, ex_near]"
    by (simp_all add: ex_defs)
  moreover have "combinationCovers ex_request [ex_far, ex_near]"
    by (simp add: combinationCovers_def ex_defs free_of_def QUANTITY_EPSILON_def)
  ultimately show ?thesis
    using plan_fewest_nearest [OF ex_request_exact ex_supplies_exact, of "[ex_far, ex_near]"]
    by (simp add: ex_plan)
qed


theorem planForWarehouses_sound_witness:
  "\<exists>plan. planForWarehouses ex_request ex_supplies [''far'', ''mid'', ''near''] = Some plan
     \<and> plan_shortfalls plan = [] \<and> gives (plan_parts plan) ''7:'' = 10"
proof -
  have "planForWarehouses ex_request ex_supplies [''far'', ''mid'', ''near''] \<noteq> None"
    by (simp add: planForWarehouses_def Let_def combinationCovers_def ex_defs free_of_def
        QUANTITY_EPSILON_def)
  then obtain plan where
    "planForWarehouses ex_request ex_supplies [''far'', ''mid'', ''near''] = Some plan"
    by blast
  then show ?thesis
    using planForWarehouses_sound [OF ex_request_exact ex_supplies_exact] by (auto simp: ex_request_def)
qed

end
