(* ===== verification/Distances.thy ===== *)
theory Distances
  imports OrderStore
begin

text \<open>
  \<open>order/providers/distance.service.ts\<close>: which warehouses may serve a buyer, nearest first.  The
  straight-line pass is the PostGIS query, the paid pass the Distance Matrix, both parameters of
  \<open>world\<close>; the cache table, the fallback and the upserts are the code's.  Also the raw queries of
  \<open>delivery-trip.service.ts\<close> on the same tables (\<open>distancesToBuyer\<close>, \<open>betweenWarehouses\<close>).
\<close>

record warehouse_distance =
  wd_warehouseId :: ident
  wd_distanceKm :: rat
  wd_source :: distance_source

definition MAX_DESTINATIONS_PER_CALL :: nat where
  "MAX_DESTINATIONS_PER_CALL = 25"

definition MAX_CANDIDATE_WAREHOUSES :: nat where
  "MAX_CANDIDATE_WAREHOUSES = 10"

definition PROVISIONAL_SOURCES :: "distance_source list" where
  "PROVISIONAL_SOURCES = [HAVERSINE]"

definition isProvisional :: "distance_source \<Rightarrow> bool" where
  "isProvisional src = List.member PROVISIONAL_SOURCES src"

definition warehouse_point :: "warehouse \<Rightarrow> (rat \<times> rat) option" where
  "warehouse_point w = (case (wh_latitude w, wh_longitude w) of
       (Some lat, Some lng) \<Rightarrow> Some (lat, lng) | _ \<Rightarrow> None)"

definition buyerCoordinates :: "ident \<Rightarrow> store \<Rightarrow> (rat \<times> rat) option" where
  "buyerCoordinates profileId s = (case List.map_filter bp_point
       (filter (\<lambda>b. bp_id b = profileId) (db_buyers s)) of [] \<Rightarrow> None | pt # _ \<Rightarrow> Some pt)"

definition straight_line :: "world \<Rightarrow> rat \<times> rat \<Rightarrow> warehouse \<Rightarrow> warehouse_distance option" where
  "straight_line W buyer w = map_option (\<lambda>pt. \<lparr>wd_warehouseId = wh_id w,
     wd_distanceKm = w_geo W buyer pt, wd_source = HAVERSINE\<rparr>) (warehouse_point w)"

definition shortlistByStraightLine ::
    "world \<Rightarrow> ident \<Rightarrow> ident \<Rightarrow> nat \<Rightarrow> ident list option \<Rightarrow> store \<Rightarrow> warehouse_distance list" where
  "shortlistByStraightLine W buyerProfileId provinceId limit warehouseIds s =
     (let restrictIds = (case warehouseIds of Some (i # is) \<Rightarrow> Some (i # is) | _ \<Rightarrow> None)
      in case buyerCoordinates buyerProfileId s of
        None \<Rightarrow> []
      | Some buyer \<Rightarrow> take limit (sort_key wd_distanceKm (List.map_filter (straight_line W buyer)
          (filter (\<lambda>w. wh_provinceId w = provinceId \<and> wh_state w = ACTIVE
             \<and> (case restrictIds of None \<Rightarrow> True | Some ids \<Rightarrow> List.member ids (wh_id w)))
            (db_warehouses s)))))"

text \<open>Empty when any of the warehouses has no coordinates, else in the order of the ids.\<close>

fun warehouseCoordinates :: "ident list \<Rightarrow> store \<Rightarrow> (rat \<times> rat) list" where
  "warehouseCoordinates [] s = []"
| "warehouseCoordinates (i # ids) s =
     (case Option.bind (find_warehouse i s) warehouse_point of
        None \<Rightarrow> []
      | Some pt \<Rightarrow> if ids = [] then [pt]
          else (case warehouseCoordinates ids s of [] \<Rightarrow> [] | pts \<Rightarrow> pt # pts))"

definition callDistanceMatrix ::
    "world \<Rightarrow> rat \<times> rat \<Rightarrow> (rat \<times> rat) list \<Rightarrow> rat option list option" where
  "callDistanceMatrix W origin destinations =
     (let batch = take MAX_DESTINATIONS_PER_CALL destinations
      in map_option (\<lambda>elements. map (\<lambda>i. if i < length elements then elements ! i else None)
           [0..<length batch]) (w_google W origin batch))"

definition estimate_for :: "warehouse_distance list \<Rightarrow> ident \<Rightarrow> warehouse_distance" where
  "estimate_for fallback i = (case find (\<lambda>f. wd_warehouseId f = i) fallback of
       Some f \<Rightarrow> f
     | None \<Rightarrow> \<lparr>wd_warehouseId = i, wd_distanceKm = 0, wd_source = HAVERSINE\<rparr>)"

definition measure_pairs ::
    "world \<Rightarrow> ident \<Rightarrow> ident list \<Rightarrow> warehouse_distance list \<Rightarrow> store \<Rightarrow> warehouse_distance list" where
  "measure_pairs W buyerProfileId warehouseIds fallback s =
     (let estimates = map (estimate_for fallback) warehouseIds;
          destinations = warehouseCoordinates warehouseIds s
      in if \<not> w_apiKey W then estimates
         else case buyerCoordinates buyerProfileId s of
           None \<Rightarrow> estimates
         | Some origin \<Rightarrow>
             if length destinations \<noteq> length warehouseIds then estimates
             else case callDistanceMatrix W origin destinations of
               None \<Rightarrow> estimates
             | Some road \<Rightarrow> map (\<lambda>(index, i).
                 case (if index < length road then road ! index else None) of
                   None \<Rightarrow> estimate_for fallback i
                 | Some km \<Rightarrow> \<lparr>wd_warehouseId = i, wd_distanceKm = km, wd_source = GOOGLE\<rparr>)
                 (enumerate 0 warehouseIds))"

text \<open>\<open>INSERT ... ON CONFLICT (buyer, warehouse) DO UPDATE\<close>.\<close>

fun upsert_distance :: "distance_cache \<Rightarrow> distance_cache list \<Rightarrow> distance_cache list" where
  "upsert_distance r [] = [r]"
| "upsert_distance r (x # xs) =
     (if dc_buyerProfileId x = dc_buyerProfileId r \<and> dc_warehouseId x = dc_warehouseId r
      then x\<lparr>dc_distanceKm := dc_distanceKm r, dc_source := dc_source r\<rparr> # xs
      else x # upsert_distance r xs)"

definition persist :: "ident \<Rightarrow> warehouse_distance list \<Rightarrow> unit action" where
  "persist buyerProfileId entries = for_each entries (\<lambda>entry.
     writes (\<lambda>s. s\<lparr>db_distances := upsert_distance
       \<lparr>dc_buyerProfileId = buyerProfileId, dc_warehouseId = wd_warehouseId entry,
        dc_distanceKm = wd_distanceKm entry, dc_source = wd_source entry\<rparr> (db_distances s)\<rparr>))"

definition cached_distances :: "ident \<Rightarrow> ident list \<Rightarrow> store \<Rightarrow> (ident \<times> warehouse_distance) list" where
  "cached_distances buyerProfileId warehouseIds s =
     js_map (map (\<lambda>c. (dc_warehouseId c, \<lparr>wd_warehouseId = dc_warehouseId c,
         wd_distanceKm = dc_distanceKm c, wd_source = dc_source c\<rparr>))
       (filter (\<lambda>c. dc_buyerProfileId c = buyerProfileId \<and> List.member warehouseIds (dc_warehouseId c))
         (db_distances s)))"

definition resolveDistances ::
    "world \<Rightarrow> ident \<Rightarrow> ident list \<Rightarrow> warehouse_distance list \<Rightarrow> warehouse_distance list action" where
  "resolveDistances W buyerProfileId warehouseIds fallback =
     bind (reads (cached_distances buyerProfileId warehouseIds)) (\<lambda>byWarehouse.
     let missing = filter (\<lambda>i. map_of byWarehouse i = None) warehouseIds
     in if missing = [] then ret (map snd byWarehouse)
        else bind (reads (measure_pairs W buyerProfileId missing fallback)) (\<lambda>fresh.
             bind (persist buyerProfileId fresh) (\<lambda>_.
             ret (map snd (fold (\<lambda>e. AList.update (wd_warehouseId e) e) fresh byWarehouse)))))"

definition rankWarehouses ::
    "world \<Rightarrow> ident \<Rightarrow> ident \<Rightarrow> nat option \<Rightarrow> ident list option \<Rightarrow> warehouse_distance list action" where
  "rankWarehouses W buyerProfileId provinceId limit warehouseIds =
     (if warehouseIds = Some [] then ret []
      else let lim = (case limit of None \<Rightarrow> MAX_CANDIDATE_WAREHOUSES | Some l \<Rightarrow> l)
      in bind (reads (shortlistByStraightLine W buyerProfileId provinceId lim warehouseIds)) (\<lambda>shortlist.
         if shortlist = [] then ret []
         else bind (resolveDistances W buyerProfileId (map wd_warehouseId shortlist) shortlist) (\<lambda>resolved.
              ret (sort_key wd_distanceKm resolved))))"

definition warmUp :: "world \<Rightarrow> ident \<Rightarrow> ident \<Rightarrow> nat action" where
  "warmUp W buyerProfileId provinceId =
     bind (rankWarehouses W buyerProfileId provinceId (Some MAX_CANDIDATE_WAREHOUSES) None) (\<lambda>ranked.
     ret (length ranked))"

definition invalidateBuyer :: "ident \<Rightarrow> unit action" where
  "invalidateBuyer buyerProfileId = writes (\<lambda>s. s\<lparr>db_distances :=
     filter (\<lambda>c. dc_buyerProfileId c \<noteq> buyerProfileId) (db_distances s)\<rparr>)"

definition invalidateWarehouse :: "ident \<Rightarrow> unit action" where
  "invalidateWarehouse warehouseId = writes (\<lambda>s. s\<lparr>db_distances :=
     filter (\<lambda>c. dc_warehouseId c \<noteq> warehouseId) (db_distances s)\<rparr>)"

text \<open>\<open>delivery-trip.service.ts\<close>\<close>

definition distancesToBuyer :: "ident \<Rightarrow> ident list \<Rightarrow> store \<Rightarrow> (ident \<times> rat) list" where
  "distancesToBuyer buyerProfileId warehouseIds s =
     js_map (map (\<lambda>c. (dc_warehouseId c, dc_distanceKm c))
       (filter (\<lambda>c. dc_buyerProfileId c = buyerProfileId \<and> List.member warehouseIds (dc_warehouseId c))
         (db_distances s)))"

definition ROAD_WINDING_FACTOR :: rat where
  "ROAD_WINDING_FACTOR = 13/10"

definition betweenWarehouses :: "world \<Rightarrow> ident \<Rightarrow> ident \<Rightarrow> store \<Rightarrow> rat" where
  "betweenWarehouses W fromId toId s = (if fromId = toId then 0
     else case (Option.bind (find_warehouse fromId s) warehouse_point,
                Option.bind (find_warehouse toId s) warehouse_point) of
       (Some a, Some b) \<Rightarrow> round3 (w_geo W a b * ROAD_WINDING_FACTOR)
     | _ \<Rightarrow> 0)"

section \<open>Lemmas\<close>

definition pairs_unique :: "store \<Rightarrow> bool" where
  "pairs_unique s \<longleftrightarrow> distinct (map (\<lambda>c. (dc_buyerProfileId c, dc_warehouseId c)) (db_distances s))"

lemma distinct_map_filter_list: "distinct (map f (List.map_filter g xs))"
  if "distinct (map h xs)" "\<And>x y. x \<in> set xs \<Longrightarrow> g x = Some y \<Longrightarrow> f y = h x"
  using that
proof (induction xs)
  case (Cons x xs)
  have IH: "distinct (map f (List.map_filter g xs))" using Cons by simp
  show ?case
  proof (cases "g x")
    case None
    with IH show ?thesis by (simp add: List.map_filter_simps)
  next
    case (Some y)
    have "f y \<notin> f ` set (List.map_filter g xs)"
      using Cons.prems Some by (force simp: List.map_filter_def image_iff)
    with Some IH show ?thesis by (simp add: List.map_filter_simps)
  qed
qed (simp add: List.map_filter_simps)

lemma shortlist_sound:
  assumes "w \<in> set (shortlistByStraightLine W b p lm ids s)"
  shows "\<exists>x \<in> set (db_warehouses s). wh_id x = wd_warehouseId w \<and> wh_provinceId x = p
     \<and> wh_state x = ACTIVE \<and> (\<forall>is. ids = Some is \<longrightarrow> is \<noteq> [] \<longrightarrow> wh_id x \<in> set is)"
  using assms
  by (auto simp: shortlistByStraightLine_def Let_def List.map_filter_def straight_line_def
      split: option.splits list.splits dest!: in_set_takeD) blast+

lemma shortlist_distinct:
  assumes "distinct (map wh_id (db_warehouses s))"
  shows "distinct (map wd_warehouseId (shortlistByStraightLine W b p lm ids s))"
proof -
  have "distinct (map wd_warehouseId (sort_key wd_distanceKm (List.map_filter (straight_line W c)
      (filter P (db_warehouses s)))))" for c P
  proof -
    have "distinct (map wd_warehouseId (List.map_filter (straight_line W c) (filter P (db_warehouses s))))"
      using assms by (intro distinct_map_filter_list [where h = wh_id])
        (auto simp: straight_line_def distinct_map_filter)
    then show ?thesis by (simp add: distinct_map)
  qed
  then show ?thesis
    by (auto simp: shortlistByStraightLine_def Let_def take_map [symmetric] split: option.splits)
qed

lemma shortlist_length: "length (shortlistByStraightLine W b p lm ids s) \<le> lm"
  by (auto simp: shortlistByStraightLine_def Let_def split: option.splits)

lemma estimate_for_id [simp]: "wd_warehouseId (estimate_for fb i) = i"
  by (auto simp: estimate_for_def find_Some_iff split: option.splits)

lemma measure_ids: "map wd_warehouseId (measure_pairs W b ids fb s) = ids"
proof -
  have "map wd_warehouseId (map (\<lambda>(index, i). case g index of None \<Rightarrow> estimate_for fb i
      | Some km \<Rightarrow> \<lparr>wd_warehouseId = i, wd_distanceKm = km, wd_source = GOOGLE\<rparr>) (enumerate n ids)) = ids"
    for g :: "nat \<Rightarrow> rat option" and n
    by (induction ids arbitrary: n) (auto split: option.splits)
  then show ?thesis
    by (auto simp: measure_pairs_def Let_def comp_def split: option.splits)
qed

lemma upsert_distance_new:
  "\<forall>c \<in> set xs. dc_buyerProfileId c = dc_buyerProfileId r \<longrightarrow> dc_warehouseId c \<noteq> dc_warehouseId r
   \<Longrightarrow> upsert_distance r xs = xs @ [r]"
  by (induction xs) auto

definition cache_row :: "ident \<Rightarrow> warehouse_distance \<Rightarrow> distance_cache" where
  "cache_row b e = \<lparr>dc_buyerProfileId = b, dc_warehouseId = wd_warehouseId e,
     dc_distanceKm = wd_distanceKm e, dc_source = wd_source e\<rparr>"

lemma persist_appends:
  "distinct (map wd_warehouseId es) \<Longrightarrow>
   \<forall>e \<in> set es. \<forall>c \<in> set (db_distances s). dc_buyerProfileId c = b \<longrightarrow> dc_warehouseId c \<noteq> wd_warehouseId e \<Longrightarrow>
   persist b es s = (Inr (), s\<lparr>db_distances := db_distances s @ map (cache_row b) es\<rparr>)"
  unfolding persist_def
proof (induction es arbitrary: s)
  case (Cons e es)
  let ?s = "s\<lparr>db_distances := db_distances s @ [cache_row b e]\<rparr>"
  have "upsert_distance (cache_row b e) (db_distances s) = db_distances s @ [cache_row b e]"
    using Cons.prems by (intro upsert_distance_new) (simp add: cache_row_def)
  moreover have "\<forall>x \<in> set es. \<forall>c \<in> set (db_distances ?s). dc_buyerProfileId c = b \<longrightarrow>
      dc_warehouseId c \<noteq> wd_warehouseId x"
  proof
    fix x assume x: "x \<in> set es"
    then have "wd_warehouseId e \<noteq> wd_warehouseId x" using Cons.prems(1) by (metis distinct.simps(2) image_eqI image_set list.simps(9))
    then show "\<forall>c \<in> set (db_distances ?s). dc_buyerProfileId c = b \<longrightarrow> dc_warehouseId c \<noteq> wd_warehouseId x"
      using x Cons.prems(2) by (simp add: cache_row_def)
  qed
  ultimately show ?case using Cons.IH [of ?s] Cons.prems by (simp add: cache_row_def)
qed simp

lemma cached_distances_eq:
  assumes "pairs_unique s"
  shows "cached_distances b ids s = map (\<lambda>c. (dc_warehouseId c, \<lparr>wd_warehouseId = dc_warehouseId c,
         wd_distanceKm = dc_distanceKm c, wd_source = dc_source c\<rparr>))
       (filter (\<lambda>c. dc_buyerProfileId c = b \<and> dc_warehouseId c \<in> set ids) (db_distances s))"
proof -
  have "distinct (map (\<lambda>c. (dc_buyerProfileId c, dc_warehouseId c))
      (filter (\<lambda>c. dc_buyerProfileId c = b \<and> dc_warehouseId c \<in> set ids) (db_distances s)))"
    using assms by (simp add: pairs_unique_def distinct_map_filter)
  then have "distinct (map dc_warehouseId
      (filter (\<lambda>c. dc_buyerProfileId c = b \<and> dc_warehouseId c \<in> set ids) (db_distances s)))"
    by (auto simp: distinct_map inj_on_def)
  then show ?thesis
    by (simp add: cached_distances_def js_map_distinct comp_def)
qed

lemma fold_update_append:
  fixes m :: "(ident \<times> warehouse_distance) list"
  shows "distinct (map wd_warehouseId es) \<Longrightarrow> (\<forall>e \<in> set es. wd_warehouseId e \<notin> fst ` set m) \<Longrightarrow>
   fold (\<lambda>e. AList.update (wd_warehouseId e) e) es m = m @ map (\<lambda>e. (wd_warehouseId e, e)) es"
proof (induction es arbitrary: m)
  case (Cons e es)
  have "AList.update k v m = m @ [(k, v)]" if "k \<notin> fst ` set m"
    for k v and m :: "(ident \<times> warehouse_distance) list"
    using that by (induction m) auto
  moreover have "\<forall>x \<in> set es. wd_warehouseId x \<notin> fst ` set (m @ [(wd_warehouseId e, e)])"
  proof
    fix x assume x: "x \<in> set es"
    then have "wd_warehouseId e \<noteq> wd_warehouseId x" using Cons.prems(1) by (metis distinct.simps(2) image_eqI image_set list.simps(9))
    then show "wd_warehouseId x \<notin> fst ` set (m @ [(wd_warehouseId e, e)])"
      using x Cons.prems(2) by simp
  qed
  ultimately show ?case using Cons.prems Cons.IH [of "m @ [(wd_warehouseId e, e)]"] by simp
qed simp

text \<open>
  What resolving leaves behind: the result is the cached rows and the fresh ones, and all of it is
  in the cache afterwards.
\<close>

lemma resolve_result:
  assumes u: "pairs_unique s" and d: "distinct ids"
    and r: "resolveDistances W b ids fb s = (Inr rs, s')"
  shows "pairs_unique s' \<and> rs = map snd (cached_distances b ids s') \<and> set (map wd_warehouseId rs) = set ids
    \<and> distinct (map wd_warehouseId rs)
    \<and> (\<exists>new. s' = s\<lparr>db_distances := db_distances s @ new\<rparr>)"
proof -
  define C where "C = filter (\<lambda>c. dc_buyerProfileId c = b \<and> dc_warehouseId c \<in> set ids) (db_distances s)"
  define wd :: "distance_cache \<Rightarrow> warehouse_distance" where "wd = (\<lambda>c. \<lparr>wd_warehouseId = dc_warehouseId c,
         wd_distanceKm = dc_distanceKm c, wd_source = dc_source c\<rparr>)"
  define missing where "missing = filter (\<lambda>i. i \<notin> dc_warehouseId ` set C) ids"
  define fresh where "fresh = measure_pairs W b missing fb s"
  have cached: "cached_distances b ids s = map (\<lambda>c. (dc_warehouseId c, wd c)) C"
    unfolding C_def wd_def by (rule cached_distances_eq [OF u])
  have keys: "fst ` set (cached_distances b ids s) = dc_warehouseId ` set C"
    by (force simp: cached)
  then have miss: "filter (\<lambda>i. map_of (cached_distances b ids s) i = None) ids = missing"
    unfolding missing_def by (intro filter_cong) (auto simp: map_of_eq_None_iff)
  have Cids: "dc_warehouseId ` set C \<subseteq> set ids" by (auto simp: C_def)
  have Cdist: "distinct (map dc_warehouseId C)"
  proof -
    have "distinct (map (\<lambda>c. (dc_buyerProfileId c, dc_warehouseId c)) C)"
      using u by (simp add: C_def pairs_unique_def distinct_map_filter)
    then show ?thesis by (auto simp: distinct_map inj_on_def C_def)
  qed
  have fids: "map wd_warehouseId fresh = missing" by (simp add: fresh_def measure_ids)
  then have fdist: "distinct (map wd_warehouseId fresh)" using d by (simp add: missing_def)
  have new: "\<forall>e \<in> set fresh. \<forall>c \<in> set (db_distances s). dc_buyerProfileId c = b \<longrightarrow>
      dc_warehouseId c \<noteq> wd_warehouseId e"
  proof
    fix e assume "e \<in> set fresh"
    then have "wd_warehouseId e \<in> set missing" using fids by (metis image_eqI image_set)
    then show "\<forall>c \<in> set (db_distances s). dc_buyerProfileId c = b \<longrightarrow> dc_warehouseId c \<noteq> wd_warehouseId e"
      unfolding missing_def C_def by (auto simp: image_iff) (metis (no_types, lifting))
  qed
  have s': "s' = s\<lparr>db_distances := db_distances s @ map (cache_row b) fresh\<rparr>"
    and rs: "rs = map wd C @ fresh"
  proof -
    have "\<forall>e \<in> set fresh. wd_warehouseId e \<notin> fst ` set (cached_distances b ids s)"
      using fids unfolding keys missing_def by (metis (no_types, lifting) filter_set imageI image_set mem_Collect_eq set_filter)
    note upd = fold_update_append [OF fdist this]
    have step: "resolveDistances W b ids fb s = (if missing = []
        then (Inr (map snd (cached_distances b ids s)), s)
        else bind (persist b fresh) (\<lambda>_. ret (map snd (fold (\<lambda>e. AList.update (wd_warehouseId e) e)
               fresh (cached_distances b ids s)))) s)"
      by (cases "missing = []") (simp_all add: resolveDistances_def miss Let_def fresh_def)
    have "missing = [] \<Longrightarrow> fresh = []" using fids by simp
    then have "resolveDistances W b ids fb s
        = (Inr (map wd C @ fresh), s\<lparr>db_distances := db_distances s @ map (cache_row b) fresh\<rparr>)"
      using persist_appends [OF fdist new] upd unfolding step
      by (auto simp: bind_def cached comp_def)
    then show "s' = s\<lparr>db_distances := db_distances s @ map (cache_row b) fresh\<rparr>"
      and "rs = map wd C @ fresh" using r by auto
  qed
  have u': "pairs_unique s'"
  proof -
    have "distinct (map (\<lambda>c. (dc_buyerProfileId c, dc_warehouseId c)) (map (cache_row b) fresh))"
      using fdist by (auto simp: cache_row_def distinct_map inj_on_def)
    moreover have "set (map (\<lambda>c. (dc_buyerProfileId c, dc_warehouseId c)) (db_distances s))
        \<inter> set (map (\<lambda>c. (dc_buyerProfileId c, dc_warehouseId c)) (map (cache_row b) fresh)) = {}"
      using new by (fastforce simp: cache_row_def)
    ultimately show ?thesis using u by (simp add: pairs_unique_def s')
  qed
  have "map snd (cached_distances b ids s') = rs"
  proof -
    have "filter (\<lambda>c. dc_buyerProfileId c = b \<and> dc_warehouseId c \<in> set ids) (map (cache_row b) fresh)
        = map (cache_row b) fresh"
    proof -
      have "wd_warehouseId e \<in> set ids" if "e \<in> set fresh" for e
        using that fids d unfolding missing_def by (metis (no_types, lifting) filter_is_subset imageI image_set subsetD)
      then show ?thesis by (auto simp: filter_id_conv cache_row_def)
    qed
    moreover have "map wd (map (cache_row b) fresh) = fresh"
    proof -
      have "wd (cache_row b e) = e" for e by (simp add: wd_def cache_row_def)
      then show ?thesis by (simp add: comp_def)
    qed
    moreover have "map snd (cached_distances b ids s') = map wd (filter (\<lambda>c. dc_buyerProfileId c = b
        \<and> dc_warehouseId c \<in> set ids) (db_distances s'))"
      by (simp add: cached_distances_eq [OF u'] comp_def wd_def)
    ultimately show ?thesis by (simp add: s' rs C_def [symmetric])
  qed
  moreover have "map wd_warehouseId rs = map dc_warehouseId C @ missing"
    by (simp add: rs fids comp_def wd_def)
  moreover have "set (map dc_warehouseId C @ missing) = set ids"
    using Cids by (auto simp: missing_def)
  moreover have "distinct (map dc_warehouseId C @ missing)"
    using Cdist d by (auto simp: missing_def)
  ultimately show ?thesis using u' s' by auto
qed

section \<open>Properties\<close>

lemma rank_facts:
  assumes "pairs_unique s" and "distinct (map wh_id (db_warehouses s))"
    and "rankWarehouses W b p limit ids s = (Inr rs, s')"
  shows "sorted (map wd_distanceKm rs) \<and> distinct (map wd_warehouseId rs)
    \<and> length rs \<le> (case limit of None \<Rightarrow> MAX_CANDIDATE_WAREHOUSES | Some l \<Rightarrow> l)
    \<and> (\<forall>r \<in> set rs. (\<exists>w \<in> set (db_warehouses s). wh_id w = wd_warehouseId r \<and> wh_provinceId w = p
          \<and> wh_state w = ACTIVE \<and> (\<forall>is. ids = Some is \<longrightarrow> wh_id w \<in> set is))
        \<and> (\<exists>c \<in> set (db_distances s'). dc_buyerProfileId c = b
          \<and> dc_warehouseId c = wd_warehouseId r \<and> dc_distanceKm c = wd_distanceKm r))"
proof -
  define n where "n = (case limit of None \<Rightarrow> MAX_CANDIDATE_WAREHOUSES | Some l \<Rightarrow> l)"
  define sh where "sh = shortlistByStraightLine W b p n ids s"
  show ?thesis
  proof (cases "ids = Some [] \<or> sh = []")
    case True
    then have "rs = []" using assms(3)
      by (auto simp: rankWarehouses_def Let_def n_def [symmetric] sh_def [symmetric] split: if_splits)
    then show ?thesis by simp
  next
    case False
    then obtain rd where rd: "resolveDistances W b (map wd_warehouseId sh) sh s = (Inr rd, s')"
      and rs: "rs = sort_key wd_distanceKm rd"
      using assms(3) by (auto simp: rankWarehouses_def Let_def n_def [symmetric] sh_def [symmetric]
          bind_Inr_iff split: if_splits)
    have dist: "distinct (map wd_warehouseId sh)"
      unfolding sh_def by (rule shortlist_distinct [OF assms(2)])
    note res = resolve_result [OF assms(1) dist rd]
    have ids: "set (map wd_warehouseId rs) = set (map wd_warehouseId sh)"
      using conjunct1 [OF conjunct2 [OF conjunct2 [OF res]]] by (simp only: rs set_map set_sort)
    moreover have "distinct (map wd_warehouseId rd)" using res by blast
    then have "distinct (map wd_warehouseId rs)" by (simp add: rs distinct_map)
    moreover have "length rs \<le> n"
      using ids dist calculation shortlist_length [of W b p n ids s]
      by (metis distinct_card length_map sh_def)
    moreover have "\<exists>w \<in> set (db_warehouses s). wh_id w = wd_warehouseId r \<and> wh_provinceId w = p
        \<and> wh_state w = ACTIVE \<and> (\<forall>is. ids = Some is \<longrightarrow> wh_id w \<in> set is)" if "r \<in> set rs" for r
    proof -
      have "wd_warehouseId r \<in> set (map wd_warehouseId rs)" using that by simp
      then have "wd_warehouseId r \<in> wd_warehouseId ` set sh" using ids by simp
      then obtain w where "w \<in> set sh" "wd_warehouseId w = wd_warehouseId r" by (metis imageE)
      then show ?thesis using shortlist_sound [of w W b p n ids s] False
        unfolding sh_def by (metis option.inject)
    qed
    moreover have "\<exists>c \<in> set (db_distances s'). dc_buyerProfileId c = b
        \<and> dc_warehouseId c = wd_warehouseId r \<and> dc_distanceKm c = wd_distanceKm r" if "r \<in> set rs" for r
    proof -
      have "pairs_unique s'" and "rd = map snd (cached_distances b (map wd_warehouseId sh) s')"
        using res by blast+
      then have "r \<in> snd ` set (cached_distances b (map wd_warehouseId sh) s')"
        using that by (simp add: rs)
      then obtain c where "c \<in> set (db_distances s')" "dc_buyerProfileId c = b"
        and "r = \<lparr>wd_warehouseId = dc_warehouseId c, wd_distanceKm = dc_distanceKm c, wd_source = dc_source c\<rparr>"
        unfolding cached_distances_eq [OF \<open>pairs_unique s'\<close>] by fastforce
      then show ?thesis by (intro bexI [of _ c]) simp_all
    qed
    ultimately show ?thesis by (simp add: rs n_def)
  qed
qed

text \<open>The ranking serves the allocator what it promises: nearest first, no warehouse twice, at most
  the limit, every one an active warehouse of the buyer's governorate (and of the set it was
  restricted to), and every pair ranked is in the cache afterwards.\<close>

theorem rank_sound:
  assumes "pairs_unique s" and "distinct (map wh_id (db_warehouses s))"
    and "rankWarehouses W b p limit ids s = (Inr rs, s')"
  shows "sorted (map wd_distanceKm rs) \<and> distinct (map wd_warehouseId rs)
    \<and> length rs \<le> (case limit of None \<Rightarrow> MAX_CANDIDATE_WAREHOUSES | Some l \<Rightarrow> l)
    \<and> (\<forall>r \<in> set rs. (\<exists>w \<in> set (db_warehouses s). wh_id w = wd_warehouseId r \<and> wh_provinceId w = p
          \<and> wh_state w = ACTIVE \<and> (\<forall>is. ids = Some is \<longrightarrow> wh_id w \<in> set is))
        \<and> (\<exists>c \<in> set (db_distances s'). dc_buyerProfileId c = b
          \<and> dc_warehouseId c = wd_warehouseId r \<and> dc_distanceKm c = wd_distanceKm r))"
  by (rule rank_facts [OF assms])


definition ex_warehouses :: "warehouse list" where
  "ex_warehouses =
    [\<lparr>wh_id = ''wa'', wh_name = Some ''A'', wh_odooWarehouseId = Some 1, wh_provinceId = ''dam'',
      wh_state = ACTIVE, wh_latitude = Some 10, wh_longitude = Some 0\<rparr>,
     \<lparr>wh_id = ''wb'', wh_name = Some ''B'', wh_odooWarehouseId = Some 2, wh_provinceId = ''dam'',
      wh_state = ACTIVE, wh_latitude = Some 4, wh_longitude = Some 0\<rparr>,
     \<lparr>wh_id = ''wc'', wh_name = Some ''C'', wh_odooWarehouseId = Some 3, wh_provinceId = ''dam'',
      wh_state = INACTIVE, wh_latitude = Some 1, wh_longitude = Some 0\<rparr>]"

definition ex_buyer :: buyer_profile where
  "ex_buyer = \<lparr>bp_id = ''buyer'', bp_accountId = ''account'', bp_factory = True,
     bp_provinceId = Some ''dam'', bp_point = Some (0, 0)\<rparr>"

definition ex_map_store :: store where
  "ex_map_store = ex_store\<lparr>db_warehouses := ex_warehouses, db_buyers := [ex_buyer]\<rparr>"

text \<open>The Distance Matrix answers for the first destination of a batch only.\<close>

definition ex_google :: "rat \<times> rat \<Rightarrow> (rat \<times> rat) list \<Rightarrow> rat option list option" where
  "ex_google origin dests = (case dests of [] \<Rightarrow> Some [] | d # ds \<Rightarrow> Some (Some 23 # map (\<lambda>_. None) ds))"

definition ex_map_world :: world where
  "ex_map_world = \<lparr>w_now = 1000, w_apiKey = True,
     w_geo = (\<lambda>p q. \<bar>fst p - fst q\<bar> + \<bar>snd p - snd q\<bar>), w_google = ex_google,
     w_trucks = (\<lambda>w. Some [(10 * w + 1, 1000), (10 * w + 2, 3000)]), w_driversFor = Some,
     w_driver = (\<lambda>t. Some (Some (t + 100, Some ''driver'', None))), w_yearMonth = (\<lambda>_. (2026, 7)),
     w_windowStart = (\<lambda>_ _. 0)\<rparr>"

lemma ex_rank:
  "map_sum id (map (\<lambda>r. (wd_warehouseId r, wd_distanceKm r, wd_source r)))
     (fst (rankWarehouses ex_map_world ''buyer'' ''dam'' None None ex_map_store))
   = Inr [(''wa'', 10, HAVERSINE), (''wb'', 23, GOOGLE)]"
  by code_simp

lemma ex_map_ok: "pairs_unique ex_map_store \<and> distinct (map wh_id (db_warehouses ex_map_store))"
  by (simp add: pairs_unique_def ex_map_store_def ex_store_def ex_warehouses_def)

lemma ex_rank_returns:
  obtains rs s' where "rankWarehouses ex_map_world ''buyer'' ''dam'' None None ex_map_store = (Inr rs, s')"
    and "map wd_warehouseId rs = [''wa'', ''wb'']"
proof -
  obtain r s' where eq: "rankWarehouses ex_map_world ''buyer'' ''dam'' None None ex_map_store = (r, s')"
    by (cases "rankWarehouses ex_map_world ''buyer'' ''dam'' None None ex_map_store")
  with ex_rank obtain rs where "r = Inr rs"
    and map: "map (\<lambda>r. (wd_warehouseId r, wd_distanceKm r, wd_source r)) rs
      = [(''wa'', 10, HAVERSINE), (''wb'', 23, GOOGLE)]"
    by (cases r) auto
  from arg_cong [OF map, of "map fst"] have "map wd_warehouseId rs = [''wa'', ''wb'']"
    by (simp add: comp_def)
  then show thesis using eq \<open>r = Inr rs\<close> by (intro that [of rs s']) simp_all
qed

theorem rank_sound_witness:
  "\<exists>rs s'. rankWarehouses ex_map_world ''buyer'' ''dam'' None None ex_map_store = (Inr rs, s')
     \<and> rs \<noteq> [] \<and> sorted (map wd_distanceKm rs)"
proof -
  obtain rs s' where eq: "rankWarehouses ex_map_world ''buyer'' ''dam'' None None ex_map_store = (Inr rs, s')"
    and "map wd_warehouseId rs = [''wa'', ''wb'']"
    by (rule ex_rank_returns)
  then have "rs \<noteq> []" by auto
  then show ?thesis using eq rank_sound [OF _ _ eq] ex_map_ok by blast
qed


end
