(* ===== verification/OrderAllocation.thy ===== *)
theory OrderAllocation
  imports OrderPolicy AllocationPlans Distances "HOL-Library.List_Lexorder" "HOL-Library.Char_ord"
begin

text \<open>
  \<open>order/providers/order-allocation.service.ts\<close>: turning a placed order into work for warehouses.
  The decision is \<open>planAllocation\<close> (theory \<open>AllocationPlanner\<close>); here stock is read, parts, lines
  and offers are written and pushes to Odoo queued.  The service uses no transaction, so a write
  before an exception stays.
\<close>

section \<open>Keys\<close>

text \<open>\<open>toUpperCase\<close> on the ASCII codes grades are written in.\<close>

definition upper_char :: "char \<Rightarrow> char" where
  "upper_char c = (if 97 \<le> (of_char c :: nat) \<and> (of_char c :: nat) \<le> 122
     then char_of ((of_char c :: nat) - 32) else c)"

definition toUpperCase :: "string \<Rightarrow> string" where
  "toUpperCase s = map upper_char s"

definition grade_of :: "string option \<Rightarrow> string" where
  "grade_of conditionCode =
     (let code = toUpperCase (case conditionCode of None \<Rightarrow> [] | Some c \<Rightarrow> c)
      in if code = ''UNGRADED'' then [] else code)"

definition lineKey :: "int \<Rightarrow> string option \<Rightarrow> string" where
  "lineKey odooProductId conditionCode = show_int odooProductId @ '':'' @ grade_of conditionCode"

definition is_hex :: "char \<Rightarrow> bool" where
  "is_hex c = (let n = (of_char c :: nat) in
     48 \<le> n \<and> n \<le> 57 \<or> 97 \<le> n \<and> n \<le> 102 \<or> 65 \<le> n \<and> n \<le> 70)"

text \<open>\<open>ORDER_UUID_RE\<close>\<close>

definition is_uuid :: "string \<Rightarrow> bool" where
  "is_uuid s \<longleftrightarrow> length s = 36 \<and> list_all (\<lambda>i. if List.member [8, 13, 18, 23] i
      then s ! i = CHR ''-'' else is_hex (s ! i)) [0..<36]"

definition is_space :: "char \<Rightarrow> bool" where
  "is_space c = (let n = (of_char c :: nat) in n = 32 \<or> 9 \<le> n \<and> n \<le> 13)"

definition trim :: "string \<Rightarrow> string" where
  "trim s = rev (dropWhile is_space (rev (dropWhile is_space s)))"

section \<open>Configuration: \<open>order.config.ts\<close>\<close>

definition OFFER_EXPIRY_HOURS :: int where
  "OFFER_EXPIRY_HOURS = 24"

definition MAX_ALLOCATION_ROUNDS :: nat where
  "MAX_ALLOCATION_ROUNDS = 3"

definition PARTIAL_FULFILMENT_TOLERANCE :: rat where
  "PARTIAL_FULFILMENT_TOLERANCE = 5/100"

section \<open>Reading\<close>

datatype allocation_outcome =
    ALLOCATED nat | PARTIAL_NEEDS_BUYER rat | EXHAUSTED | NO_STOCK

definition required_of :: "requested_line list \<Rightarrow> required_line list" where
  "required_of lines = map (\<lambda>l. \<lparr>rl_key = lineKey (rq_odooProductId l) (rq_conditionCode l),
     rl_quantity = rq_quantity l\<rparr>) lines"

definition byKey_of :: "requested_line list \<Rightarrow> (string \<times> requested_line) list" where
  "byKey_of lines = js_map (map (\<lambda>l. (lineKey (rq_odooProductId l) (rq_conditionCode l), l)) lines)"

definition disqualifiedWarehouses :: "ident \<Rightarrow> store \<Rightarrow> ident list" where
  "disqualifiedWarehouses orderId s = map f_warehouseId
     (filter (\<lambda>f. List.member DISQUALIFYING_OFFER_STATUSES (f_status f)) (offers_of orderId s))"

definition free_stock :: "warehouse_inventory \<Rightarrow> rat" where
  "free_stock i = i_quantity i - i_reservedQuantity i"

text \<open>The active warehouses of the governorate that hold free stock of an ordered material.\<close>

definition stockWarehouseIds :: "ident \<Rightarrow> int list \<Rightarrow> store \<Rightarrow> ident list" where
  "stockWarehouseIds provinceId productIds s =
     uniq (map i_warehouseId (filter (\<lambda>i. 0 < free_stock i \<and> List.member productIds (i_odooProductId i)
        \<and> list_ex (\<lambda>w. wh_id w = i_warehouseId i \<and> wh_provinceId w = provinceId \<and> wh_state w = ACTIVE)
            (db_warehouses s)) (db_inventory s)))"

definition available_at :: "ident \<Rightarrow> int list \<Rightarrow> store \<Rightarrow> (string \<times> rat) list" where
  "available_at warehouseId productIds s =
     js_map (map (\<lambda>i. (lineKey (i_odooProductId i) (Some (i_conditionCode i)), free_stock i))
       (filter (\<lambda>i. i_warehouseId i = warehouseId \<and> List.member productIds (i_odooProductId i)
          \<and> 0 < free_stock i) (db_inventory s)))"

definition buildSupplies :: "world \<Rightarrow> order \<Rightarrow> requested_line list \<Rightarrow> warehouse_supply list action" where
  "buildSupplies W ord lines = (case o_provinceId ord of
       None \<Rightarrow> ret []
     | Some provinceId \<Rightarrow>
         let productIds = uniq (map rq_odooProductId lines)
         in bind (reads (stockWarehouseIds provinceId productIds)) (\<lambda>stockIds.
            if stockIds = [] then ret []
            else bind (reads (disqualifiedWarehouses (o_id ord))) (\<lambda>excluded.
              let eligibleIds = filter (\<lambda>i. \<not> List.member excluded i) stockIds
              in if eligibleIds = [] then ret []
                 else bind (rankWarehouses W (o_buyerProfileId ord) provinceId None (Some eligibleIds)) (\<lambda>ranked.
                   reads (\<lambda>s. map (\<lambda>c. \<lparr>ws_warehouse = wd_warehouseId c, ws_distance = wd_distanceKm c,
                      ws_available = available_at (wd_warehouseId c) productIds s\<rparr>) ranked)))))"

text \<open>The lines of some parts, one per material and grade, quantities added up.\<close>

definition line_request :: "order_part_line \<Rightarrow> requested_line" where
  "line_request l = \<lparr>rq_productId = l_productId l, rq_odooProductId = l_odooProductId l,
     rq_productName = l_productName l, rq_conditionCode = l_conditionCode l,
     rq_quantity = l_quantity l, rq_unitType = l_unitType l, rq_unitPrice = l_unitPrice l\<rparr>"

definition merge_line ::
    "order_part_line \<Rightarrow> (string \<times> requested_line) list \<Rightarrow> (string \<times> requested_line) list" where
  "merge_line l merged = (let key = lineKey (l_odooProductId l) (l_conditionCode l) in
     case map_of merged key of
       Some existing \<Rightarrow> AList.update key
         (existing\<lparr>rq_quantity := round3 (rq_quantity existing + l_quantity l)\<rparr>) merged
     | None \<Rightarrow> AList.update key (line_request l) merged)"

definition requestedFromParts :: "order_part list \<Rightarrow> store \<Rightarrow> requested_line list" where
  "requestedFromParts parts s =
     map snd (fold merge_line (concat (map (\<lambda>p. lines_of (p_id p) s) parts)) [])"

definition linesFromFailedParts :: "ident \<Rightarrow> store \<Rightarrow> requested_line list" where
  "linesFromFailedParts orderId s = requestedFromParts
     (filter (\<lambda>p. List.member FAILED_PART_STATUSES (p_status p)) (parts_of orderId s)) s"

section \<open>Writing\<close>

definition recalculateTotals :: "order \<Rightarrow> order action" where
  "recalculateTotals ord = bind (reads (parts_of (o_id ord))) (\<lambda>parts.
     let live = filter live_part parts;
         goods = sum_list (map p_goodsTotal live);
         delivery = sum_list (map p_deliveryCost live);
         ord' = ord\<lparr>o_goodsTotal := round3 goods, o_deliveryTotal := round3 delivery,
                    o_grandTotal := round3 (goods + delivery)\<rparr>
     in bind (save_order ord') (\<lambda>_. ret ord'))"

definition markExhausted :: "order \<Rightarrow> unit action" where
  "markExhausted ord = save_order (ord\<lparr>o_status := NEEDS_ADMIN\<rparr>)"

definition new_part :: "ident \<Rightarrow> order \<Rightarrow> planned_part \<Rightarrow> nat \<Rightarrow> order_part" where
  "new_part i ord planned sequence = \<lparr>p_id = i, p_orderId = o_id ord,
     p_warehouseId = pp_warehouse planned, p_sequence = sequence, p_status = P_OFFERED,
     p_odooOrderId = None, p_stockReserved = False, p_distanceKm = pp_distance planned,
     p_deliveryCost = 0, p_goodsTotal = 0, p_invoiceNumber = None, p_stockDeductedAt = None,
     p_outputZoneName = None, p_finishedAt = None, p_dispatchedAt = None, p_deliveredAt = None,
     p_rejectReason = None\<rparr>"

definition new_line :: "ident \<Rightarrow> ident \<Rightarrow> planned_line \<Rightarrow> requested_line \<Rightarrow> order_part_line" where
  "new_line i partId line source = \<lparr>l_id = i, l_partId = partId, l_productId = rq_productId source,
     l_odooProductId = rq_odooProductId source, l_productName = rq_productName source,
     l_conditionCode = rq_conditionCode source, l_quantity = pl_quantity line,
     l_unitType = rq_unitType source, l_unitPrice = rq_unitPrice source,
     l_subtotal = round3 (pl_quantity line * rq_unitPrice source)\<rparr>"

definition createLine ::
    "(string \<times> requested_line) list \<Rightarrow> ident \<Rightarrow> planned_line \<Rightarrow> rat action" where
  "createLine byKey partId line = (case map_of byKey (pl_key line) of
       None \<Rightarrow> ret 0
     | Some source \<Rightarrow> bind fresh_id (\<lambda>i.
         let row = new_line i partId line source in bind (save_line row) (\<lambda>_. ret (l_subtotal row))))"

definition new_offer :: "world \<Rightarrow> ident \<Rightarrow> ident \<Rightarrow> order \<Rightarrow> planned_part \<Rightarrow> nat \<Rightarrow> order_part_offer" where
  "new_offer W i partId ord planned roundNo = \<lparr>f_id = i, f_partId = partId,
     f_warehouseId = pp_warehouse planned, f_orderId = o_id ord, f_roundNumber = roundNo,
     f_status = F_OFFERED, f_offeredAt = w_now W,
     f_expiresAt = w_now W + OFFER_EXPIRY_HOURS * 3600000, f_respondedAt = None, f_rejectReason = None\<rparr>"

text \<open>The second half of \<open>createPart\<close>: totals and charge, the offer, the push.\<close>

definition finishPart :: "world \<Rightarrow> order \<Rightarrow> planned_part \<Rightarrow> nat \<Rightarrow> order_part \<Rightarrow> rat list \<Rightarrow> unit action" where
  "finishPart W ord planned roundNo part subtotals =
     (let part1 = part\<lparr>p_goodsTotal := round3 (sum_list subtotals)\<rparr> in
     bind (if o_fulfilmentMode ord = DELIVERY
           then bind (quote (pp_distance planned)) (\<lambda>q. ret (part1\<lparr>p_deliveryCost := q_cost q\<rparr>))
           else ret part1) (\<lambda>part2.
     bind (save_part part2) (\<lambda>_.
     bind fresh_id (\<lambda>offerId.
     bind (save_offer (new_offer W offerId (p_id part) ord planned roundNo)) (\<lambda>_.
     enqueuePushOrderPart (p_id part))))))"

definition createPart ::
    "world \<Rightarrow> order \<Rightarrow> planned_part \<Rightarrow> (string \<times> requested_line) list \<Rightarrow> nat \<Rightarrow> nat \<Rightarrow> unit action" where
  "createPart W ord planned byKey sequence roundNo =
     bind fresh_id (\<lambda>partId.
     let part = new_part partId ord planned sequence in
     bind (save_part part) (\<lambda>_.
     bind (collect (pp_lines planned) (createLine byKey partId)) (\<lambda>subtotals.
     finishPart W ord planned roundNo part subtotals)))"

text \<open>\<open>for (const planned of plan.parts) { sequence += 1; await this.createPart(...) }\<close>\<close>

definition createParts ::
    "world \<Rightarrow> order \<Rightarrow> planned_part list \<Rightarrow> (string \<times> requested_line) list \<Rightarrow> nat \<Rightarrow> nat \<Rightarrow> unit action" where
  "createParts W ord planned byKey existing roundNo =
     for_each (enumerate (existing + 1) planned)
       (\<lambda>(sequence, p). createPart W ord p byKey sequence roundNo)"

definition allocate ::
    "world \<Rightarrow> ident \<Rightarrow> requested_line list option \<Rightarrow> bool \<Rightarrow> allocation_outcome action" where
  "allocate W orderId requested forcePartial =
     bind (reads (find_order orderId)) (\<lambda>found. case found of None \<Rightarrow> ret NO_STOCK | Some ord \<Rightarrow>
     if MAX_ALLOCATION_ROUNDS \<le> o_allocationRound ord
     then bind (markExhausted ord) (\<lambda>_. ret EXHAUSTED)
     else
     bind (reads (\<lambda>s. case requested of Some ls \<Rightarrow> ls | None \<Rightarrow> linesFromFailedParts orderId s)) (\<lambda>lines.
     if lines = [] then ret (ALLOCATED 0)
     else
     bind (buildSupplies W ord lines) (\<lambda>supplies.
     if supplies = [] then bind (markExhausted ord) (\<lambda>_. ret NO_STOCK)
     else
     let required = required_of lines; plan = planAllocation required supplies in
     if plan_parts plan = [] then bind (markExhausted ord) (\<lambda>_. ret NO_STOCK)
     else
     let missing = shortfallRatio plan required;
         withinTolerance = (missing \<le> PARTIAL_FULFILMENT_TOLERANCE) in
     if \<not> plan_fullyCovered plan \<and> \<not> forcePartial \<and> \<not> (o_acceptPartialFulfilment ord \<and> withinTolerance)
     then bind (save_order (ord\<lparr>o_status := NEEDS_CUSTOMER_DECISION, o_requestedLines := Some lines\<rparr>)) (\<lambda>_.
          ret (PARTIAL_NEEDS_BUYER missing))
     else if 1 < length (plan_parts plan)
     then bind (save_order (ord\<lparr>o_status := AWAITING_SPLIT_APPROVAL, o_requestedLines := Some lines\<rparr>)) (\<lambda>_.
          ret (ALLOCATED (length (plan_parts plan))))
     else
     let ord1 = ord\<lparr>o_requestedLines := None\<rparr>; roundNo = o_allocationRound ord + 1 in
     bind (reads (\<lambda>s. length (parts_of orderId s))) (\<lambda>existing.
     bind (createParts W ord1 (plan_parts plan) (byKey_of lines) existing roundNo) (\<lambda>_.
     bind (recalculateTotals (ord1\<lparr>o_allocationRound := roundNo, o_status := AWAITING_APPROVAL\<rparr>)) (\<lambda>_.
     ret (ALLOCATED (length (plan_parts plan)))))))))"

section \<open>Splits and modifications\<close>

record named_warehouse =
  nw_id :: ident
  nw_name :: "string option"
  nw_odooWarehouseId :: "int option"

text \<open>\<open>names.get(id)?.name ?? null\<close>\<close>

definition namedWarehouse :: "store \<Rightarrow> ident \<Rightarrow> named_warehouse" where
  "namedWarehouse s i = (case find_warehouse i s of
       None \<Rightarrow> \<lparr>nw_id = i, nw_name = None, nw_odooWarehouseId = None\<rparr>
     | Some w \<Rightarrow> \<lparr>nw_id = i, nw_name = wh_name w, nw_odooWarehouseId = wh_odooWarehouseId w\<rparr>)"

definition namedWarehouses :: "ident list \<Rightarrow> store \<Rightarrow> named_warehouse list" where
  "namedWarehouses ids s = map (namedWarehouse s) ids"

record split_result =
  sr_orderId :: ident
  sr_warehouses :: "named_warehouse list"
  sr_parts :: nat

record modification =
  mo_orderId :: ident
  mo_orderNumber :: string
  mo_splitSize :: nat
  mo_isSplit :: bool
  mo_current :: "named_warehouse list"
  mo_options :: "(named_warehouse list \<times> rat) list"

text \<open>\<open>[...ids].sort().join('|')\<close>\<close>

definition set_key :: "ident list \<Rightarrow> string" where
  "set_key ids = concat (case sort ids of [] \<Rightarrow> [] | x # xs \<Rightarrow> x # map (\<lambda>y. ''|'' @ y) xs)"

definition alternatives_of :: "ident list \<Rightarrow> covering_option list \<Rightarrow> covering_option list" where
  "alternatives_of currentWarehouses options =
     filter (\<lambda>c. set_key (co_warehouseIds c) \<noteq> set_key currentWarehouses) options"

definition modification_of ::
    "order \<Rightarrow> ident list \<Rightarrow> covering_option list \<Rightarrow> store \<Rightarrow> modification" where
  "modification_of ord current options s = \<lparr>mo_orderId = o_id ord, mo_orderNumber = o_orderNumber ord,
     mo_splitSize = length current, mo_isSplit = (1 < length current),
     mo_current = namedWarehouses current s,
     mo_options = map (\<lambda>a. (namedWarehouses (co_warehouseIds a) s, co_totalDistanceKm a)) options\<rparr>"

definition pending_lines :: "order \<Rightarrow> requested_line list" where
  "pending_lines ord = (case o_requestedLines ord of None \<Rightarrow> [] | Some ls \<Rightarrow> ls)"

definition modificationOptions :: "world \<Rightarrow> ident \<Rightarrow> modification action" where
  "modificationOptions W orderId =
     bind (refuse_if (\<not> is_uuid (trim orderId)) NotFound) (\<lambda>_.
     bind (reads (find_order orderId)) (\<lambda>found. case found of None \<Rightarrow> throw NotFound | Some ord \<Rightarrow>
     if o_status ord = AWAITING_SPLIT_APPROVAL then
       let requested = pending_lines ord in
       bind (refuse_if (requested = []) NotFound) (\<lambda>_.
       bind (buildSupplies W ord requested) (\<lambda>supplies.
       let plan = planAllocation (required_of requested) supplies;
           current = map pp_warehouse (plan_parts plan);
           sz = length current
       in reads (modification_of ord current (if sz < 2 then []
            else alternatives_of current (coveringCombinations (required_of requested) supplies sz)))))
     else
       bind (reads (\<lambda>s. filter live_part (parts_of orderId s))) (\<lambda>live.
       let current = uniq (map p_warehouseId live); sz = length current in
       if sz < 2 then reads (modification_of ord current [])
       else
       bind (reads (requestedFromParts live)) (\<lambda>requested.
       bind (buildSupplies W ord requested) (\<lambda>supplies.
       reads (modification_of ord current
         (alternatives_of current (coveringCombinations (required_of requested) supplies sz))))))))"

definition createSplitParts ::
    "world \<Rightarrow> order \<Rightarrow> requested_line list \<Rightarrow> ident list \<Rightarrow> split_result action" where
  "createSplitParts W ord requested warehouseIds =
     bind (buildSupplies W ord requested) (\<lambda>supplies.
     case planForWarehouses (required_of requested) supplies warehouseIds of
       None \<Rightarrow> throw BadRequest
     | Some plan \<Rightarrow>
       let roundNo = o_allocationRound ord + 1 in
       bind (reads (\<lambda>s. length (parts_of (o_id ord) s))) (\<lambda>existing.
       bind (createParts W ord (plan_parts plan) (byKey_of requested) existing roundNo) (\<lambda>_.
       bind (recalculateTotals (ord\<lparr>o_allocationRound := roundNo, o_status := AWAITING_APPROVAL,
           o_requestedLines := None\<rparr>)) (\<lambda>_.
       reads (\<lambda>s. \<lparr>sr_orderId = o_id ord, sr_warehouses = namedWarehouses warehouseIds s,
          sr_parts = length (plan_parts plan)\<rparr>)))))"

definition approveSplit :: "world \<Rightarrow> ident \<Rightarrow> split_result action" where
  "approveSplit W orderId =
     bind (reads (find_order orderId)) (\<lambda>found. case found of None \<Rightarrow> throw NotFound | Some ord \<Rightarrow>
     bind (refuse_if (o_status ord \<noteq> AWAITING_SPLIT_APPROVAL) Conflict) (\<lambda>_.
     let requested = pending_lines ord in
     bind (refuse_if (requested = []) BadRequest) (\<lambda>_.
     bind (buildSupplies W ord requested) (\<lambda>supplies.
     let plan = planAllocation (required_of requested) supplies in
     bind (refuse_if (length (plan_parts plan) < 2) BadRequest) (\<lambda>_.
     createSplitParts W ord requested (map pp_warehouse (plan_parts plan)))))))"

definition rejectSplit :: "ident \<Rightarrow> string option \<Rightarrow> order_status action" where
  "rejectSplit orderId reason =
     bind (reads (find_order orderId)) (\<lambda>found. case found of None \<Rightarrow> throw NotFound | Some ord \<Rightarrow>
     bind (refuse_if (o_status ord \<noteq> AWAITING_SPLIT_APPROVAL) Conflict) (\<lambda>_.
     bind (save_order (ord\<lparr>o_status := REJECTED_AWAITING_BUYER, o_requestedLines := None,
         o_cancelReason := Some (case reason of Some (c # cs) \<Rightarrow> c # cs
            | _ \<Rightarrow> ''Split order rejected by warehouse manager'')\<rparr>)) (\<lambda>_.
     ret REJECTED_AWAITING_BUYER)))"

text \<open>\<open>offerRepo.update({ orderId, status: OFFERED }, { status: WITHDRAWN, respondedAt })\<close>\<close>

definition withdraw_offers :: "world \<Rightarrow> ident \<Rightarrow> unit action" where
  "withdraw_offers W orderId = writes (\<lambda>s. s\<lparr>db_offers := map (\<lambda>f.
     if f_orderId f = orderId \<and> f_status f = F_OFFERED
     then f\<lparr>f_status := F_WITHDRAWN, f_respondedAt := Some (w_now W)\<rparr> else f) (db_offers s)\<rparr>)"

definition reroute_reason :: string where
  "reroute_reason = ''Re-routed to different warehouses by the administrator''"

definition applyModification :: "world \<Rightarrow> ident \<Rightarrow> ident list \<Rightarrow> split_result action" where
  "applyModification W orderId warehouseIds =
     bind (refuse_if (\<not> is_uuid (trim orderId)) NotFound) (\<lambda>_.
     bind (reads (find_order orderId)) (\<lambda>found. case found of None \<Rightarrow> throw NotFound | Some ord \<Rightarrow>
     bind (refuse_if (o_status ord \<noteq> AWAITING_APPROVAL \<and> o_status ord \<noteq> AWAITING_SPLIT_APPROVAL)
       Conflict) (\<lambda>_.
     if o_status ord = AWAITING_SPLIT_APPROVAL then
       let requested = pending_lines ord in
       bind (refuse_if (requested = []) BadRequest) (\<lambda>_.
       bind (buildSupplies W ord requested) (\<lambda>supplies.
       let current = map pp_warehouse (plan_parts (planAllocation (required_of requested) supplies)) in
       bind (refuse_if (length current < 2) BadRequest) (\<lambda>_.
       let chosen = uniq warehouseIds in
       bind (refuse_if (length chosen \<noteq> length current) BadRequest) (\<lambda>_.
       createSplitParts W ord requested chosen))))
     else
       bind (reads (\<lambda>s. filter live_part (parts_of orderId s))) (\<lambda>live.
       let current = uniq (map p_warehouseId live) in
       bind (refuse_if (length current < 2) BadRequest) (\<lambda>_.
       let chosen = uniq warehouseIds in
       bind (refuse_if (length chosen \<noteq> length current) BadRequest) (\<lambda>_.
       bind (reads (requestedFromParts live)) (\<lambda>requested.
       bind (buildSupplies W ord requested) (\<lambda>supplies.
       case planForWarehouses (required_of requested) supplies chosen of
         None \<Rightarrow> throw BadRequest
       | Some plan \<Rightarrow>
         bind (for_each live (\<lambda>p. save_part (p\<lparr>p_status := P_CANCELLED, p_stockReserved := False\<rparr>))) (\<lambda>_.
         bind (withdraw_offers W orderId) (\<lambda>_.
         let roundNo = o_allocationRound ord + 1 in
         bind (reads (\<lambda>s. length (parts_of orderId s))) (\<lambda>existing.
         bind (createParts W ord (plan_parts plan) (byKey_of requested) existing roundNo) (\<lambda>_.
         bind (recalculateTotals (ord\<lparr>o_allocationRound := roundNo, o_status := AWAITING_APPROVAL\<rparr>)) (\<lambda>_.
         bind (for_each live (\<lambda>p. enqueueCancelOrderPart (p_id p) reroute_reason)) (\<lambda>_.
         reads (\<lambda>s. \<lparr>sr_orderId = orderId, sr_warehouses = namedWarehouses chosen s,
            sr_parts = length (plan_parts plan)\<rparr>)))))))))))))))"

end
