(* ===== verification/AllocationFacts.thy ===== *)
theory AllocationFacts
  imports OrderAllocation
begin

text \<open>
  What \<open>OrderAllocation\<close> does to the store: the effect of one \<open>createPart\<close>, of a loop of them, of
  \<open>buildSupplies\<close> and of \<open>allocate\<close>, and the properties of allocation that rest on them.
\<close>

section \<open>Fresh rows\<close>

lemma js_map_subset: "set (js_map ps) \<subseteq> set ps"
proof -
  have upd: "set (AList.update k v m) \<subseteq> insert (k, v) (set m)" for k v and m :: "('a \<times> 'b) list"
    by (induction m) auto
  have "set (fold (\<lambda>(k, v). AList.update k v) ps m) \<subseteq> set m \<union> set ps" for m
  proof (induction ps arbitrary: m)
    case (Cons p ps)
    obtain k v where p: "p = (k, v)" by force
    show ?case using Cons.IH [of "AList.update k v m"] upd [of k v m] by (auto simp: p)
  qed simp
  from this [of "[]"] show ?thesis by (simp add: js_map_def)
qed

lemma ids_fresh:
  assumes "ids_ok s"
  shows "db_uuid s (db_next s) \<notin> o_id ` set (db_orders s)" "db_uuid s (db_next s) \<notin> p_id ` set (db_parts s)"
    "db_uuid s (db_next s) \<notin> l_id ` set (db_lines s)" "db_uuid s (db_next s) \<notin> f_id ` set (db_offers s)"
    "db_uuid s (db_next s) \<notin> t_id ` set (db_trips s)" "db_uuid s (db_next s) \<notin> s_id ` set (db_stops s)"
    "db_uuid s (db_next s) \<notin> k_id ` set (db_complaints s)"
  using assms by (auto simp: ids_ok_def store_ids_def image_iff)

lemma ids_ok_step:
  assumes "ids_ok s" and "db_uuid s' = db_uuid s" and "db_next s \<le> db_next s'"
    and "set (store_ids s') \<subseteq> set (store_ids s) \<union> db_uuid s ` {..<db_next s'}"
    and "distinct (map o_id (db_orders s'))" "distinct (map p_id (db_parts s'))"
      "distinct (map l_id (db_lines s'))" "distinct (map f_id (db_offers s'))"
      "distinct (map t_id (db_trips s'))" "distinct (map s_id (db_stops s'))"
      "distinct (map k_id (db_complaints s'))"
  shows "ids_ok s'"
proof -
  have "i < db_next s'" if "db_uuid s i \<in> set (store_ids s')" for i
  proof -
    from that assms(4) consider "db_uuid s i \<in> set (store_ids s)" | j where "j < db_next s'" "db_uuid s i = db_uuid s j"
      by auto
    then show ?thesis
    proof cases
      case 1
      then show ?thesis using assms(1,3) by (fastforce simp: ids_ok_def)
    next
      case 2
      then show ?thesis using assms(1) by (simp add: ids_ok_def inj_eq)
    qed
  qed
  then show ?thesis using assms by (simp add: ids_ok_def)
qed

lemma ids_ok_add_part:
  assumes "ids_ok s" and "p_id p = db_uuid s (db_next s)"
  shows "ids_ok (s\<lparr>db_next := db_next s + 1, db_parts := db_parts s @ [p]\<rparr>)"
  using assms ids_fresh(2) [OF assms(1)]
  by (intro ids_ok_step [OF assms(1)]) (auto simp: ids_ok_def store_ids_def)

lemma ids_ok_add_line:
  assumes "ids_ok s" and "l_id l = db_uuid s (db_next s)"
  shows "ids_ok (s\<lparr>db_next := db_next s + 1, db_lines := db_lines s @ [l]\<rparr>)"
  using assms ids_fresh(3) [OF assms(1)]
  by (intro ids_ok_step [OF assms(1)]) (auto simp: ids_ok_def store_ids_def)

lemma ids_ok_add_offer:
  assumes "ids_ok s" and "f_id f = db_uuid s (db_next s)"
  shows "ids_ok (s\<lparr>db_next := db_next s + 1, db_offers := db_offers s @ [f]\<rparr>)"
  using assms ids_fresh(4) [OF assms(1)]
  by (intro ids_ok_step [OF assms(1)]) (auto simp: ids_ok_def store_ids_def)

lemma ids_ok_same:
  assumes "ids_ok s" and "map o_id (db_orders s') = map o_id (db_orders s)"
    "map p_id (db_parts s') = map p_id (db_parts s)" "map l_id (db_lines s') = map l_id (db_lines s)"
    "map f_id (db_offers s') = map f_id (db_offers s)" "map t_id (db_trips s') = map t_id (db_trips s)"
    "map s_id (db_stops s') = map s_id (db_stops s)" "map k_id (db_complaints s') = map k_id (db_complaints s)"
    "db_uuid s' = db_uuid s" "db_next s \<le> db_next s'"
  shows "ids_ok s'"
proof -
  have "store_ids s' = store_ids s" using assms(2-8) by (simp add: store_ids_def)
  then show ?thesis using assms by (fastforce simp: ids_ok_def)
qed

section \<open>One part\<close>

text \<open>The lines a planned part sells: those whose material is among the requested ones.\<close>

definition sold :: "(string \<times> requested_line) list \<Rightarrow> planned_line list \<Rightarrow> (planned_line \<times> requested_line) list" where
  "sold byKey pls = List.map_filter (\<lambda>pl. map_option (Pair pl) (map_of byKey (pl_key pl))) pls"

definition line_body :: "order_part_line \<Rightarrow> order_part_line" where
  "line_body l = l\<lparr>l_id := []\<rparr>"

lemma line_body_new [simp]: "line_body (new_line i pid pl src) = new_line [] pid pl src"
  by (simp add: line_body_def new_line_def)

lemma line_body_subtotal [simp]: "l_subtotal (line_body l) = l_subtotal l"
  by (simp add: line_body_def)

lemma createLines_effect:
  "ids_ok s \<Longrightarrow> \<exists>ls subs. collect pls (createLine byKey pid) s
      = (Inr subs, s\<lparr>db_next := db_next s + length ls, db_lines := db_lines s @ ls\<rparr>)
    \<and> ids_ok (s\<lparr>db_next := db_next s + length ls, db_lines := db_lines s @ ls\<rparr>)
    \<and> map line_body ls = map (\<lambda>(pl, src). new_line [] pid pl src) (sold byKey pls)
    \<and> sum_list subs = sum_list (map l_subtotal ls)"
proof (induction pls arbitrary: s)
  case Nil
  then show ?case by (intro exI [of _ "[]"]) (simp add: sold_def List.map_filter_simps)
next
  case (Cons pl pls)
  show ?case
  proof (cases "map_of byKey (pl_key pl)")
    case None
    from Cons.IH [OF Cons.prems] obtain ls subs where
      IH: "collect pls (createLine byKey pid) s
        = (Inr subs, s\<lparr>db_next := db_next s + length ls, db_lines := db_lines s @ ls\<rparr>)"
      "ids_ok (s\<lparr>db_next := db_next s + length ls, db_lines := db_lines s @ ls\<rparr>)"
      "map line_body ls = map (\<lambda>(pl, src). new_line [] pid pl src) (sold byKey pls)"
      "sum_list subs = sum_list (map l_subtotal ls)" by blast
    have one: "createLine byKey pid pl = ret 0" by (simp add: createLine_def None)
    show ?thesis
      using IH(2-4) by (intro exI [of _ ls] exI [of _ "0 # subs"])
        (simp add: one bind_def IH(1) sold_def List.map_filter_simps None)
  next
    case (Some src)
    define row where "row = new_line (db_uuid s (db_next s)) pid pl src"
    let ?s = "s\<lparr>db_next := db_next s + 1, db_lines := db_lines s @ [row]\<rparr>"
    have one: "createLine byKey pid pl s = (Inr (l_subtotal row), ?s)"
      using ids_fresh(3) [OF Cons.prems]
      by (simp add: createLine_def Some fresh_id_def save_line_def row_def new_line_def tbl_save_fresh)
    have "ids_ok ?s" using Cons.prems by (rule ids_ok_add_line) (simp add: row_def new_line_def)
    from Cons.IH [OF this] obtain ls subs where
      IH: "collect pls (createLine byKey pid) ?s
        = (Inr subs, ?s\<lparr>db_next := db_next ?s + length ls, db_lines := db_lines ?s @ ls\<rparr>)"
      "ids_ok (?s\<lparr>db_next := db_next ?s + length ls, db_lines := db_lines ?s @ ls\<rparr>)"
      "map line_body ls = map (\<lambda>(pl, src). new_line [] pid pl src) (sold byKey pls)"
      "sum_list subs = sum_list (map l_subtotal ls)" by blast
    have "line_body row = new_line [] pid pl src" by (simp add: row_def)
    then show ?thesis
      using IH(2-4) by (intro exI [of _ "row # ls"] exI [of _ "l_subtotal row # subs"])
        (simp add: bind_def one IH(1) [simplified] sold_def List.map_filter_simps Some)
  qed
qed

lemma tbl_save_last:
  "key r \<notin> key ` set rows \<Longrightarrow> key x = key r \<Longrightarrow> tbl_save key r (rows @ [x]) = rows @ [r]"
  by (induction rows) auto

text \<open>The delivery charge of a part, at the rate in force.\<close>

definition part_charge :: "store \<Rightarrow> order \<Rightarrow> rat \<Rightarrow> rat option" where
  "part_charge s ord km = (if o_fulfilmentMode ord = DELIVERY
     then map_option (\<lambda>r. round3 (dr_baseFee r + max km 0 * dr_ratePerKm r)) (current_rate s)
     else Some 0)"

text \<open>
  One created part: the part itself, its lines, its offer, and the store they are in.
\<close>

record created =
  cr_part :: order_part
  cr_lines :: "order_part_line list"
  cr_offer :: order_part_offer

definition created_ok ::
    "world \<Rightarrow> order \<Rightarrow> planned_part \<Rightarrow> (string \<times> requested_line) list \<Rightarrow> nat \<Rightarrow> nat \<Rightarrow> rat \<Rightarrow> created \<Rightarrow> bool" where
  "created_ok W ord pl byKey sequence roundNo charge c \<longleftrightarrow>
     cr_part c = (new_part (p_id (cr_part c)) ord pl sequence)\<lparr>p_deliveryCost := charge,
        p_goodsTotal := round3 (sum_list (map l_subtotal (cr_lines c)))\<rparr>
     \<and> map line_body (cr_lines c) = map (\<lambda>(x, src). new_line [] (p_id (cr_part c)) x src) (sold byKey (pp_lines pl))
     \<and> cr_offer c = new_offer W (f_id (cr_offer c)) (p_id (cr_part c)) ord pl roundNo"

definition add_created :: "created list \<Rightarrow> nat \<Rightarrow> store \<Rightarrow> store" where
  "add_created cs n s = s\<lparr>db_next := n, db_parts := db_parts s @ map cr_part cs,
     db_lines := db_lines s @ concat (map cr_lines cs), db_offers := db_offers s @ map cr_offer cs,
     db_jobs := db_jobs s @ map (\<lambda>c. (None, PUSH_ORDER_PART (p_id (cr_part c)))) cs\<rparr>"

lemma createPart_starts:
  assumes "ids_ok s"
  shows "createPart W ord pl byKey sequence roundNo s =
    bind (collect (pp_lines pl) (createLine byKey (db_uuid s (db_next s))))
      (finishPart W ord pl roundNo (new_part (db_uuid s (db_next s)) ord pl sequence))
      (s\<lparr>db_next := db_next s + 1,
         db_parts := db_parts s @ [new_part (db_uuid s (db_next s)) ord pl sequence]\<rparr>)"
proof -
  have "p_id (new_part i ord pl sequence) = i" for i by (simp add: new_part_def)
  then have "tbl_save p_id (new_part (db_uuid s (db_next s)) ord pl sequence) (db_parts s)
      = db_parts s @ [new_part (db_uuid s (db_next s)) ord pl sequence]"
    using ids_fresh(2) [OF assms] by (intro tbl_save_fresh) simp
  then show ?thesis by (simp add: createPart_def fresh_id_def save_part_def Let_def)
qed

lemma createPart_effect:
  assumes "ids_ok s" and "part_charge s ord (pp_distance pl) = Some charge"
  shows "\<exists>c n. createPart W ord pl byKey sequence roundNo s = (Inr (), add_created [c] n s)
    \<and> created_ok W ord pl byKey sequence roundNo charge c \<and> ids_ok (add_created [c] n s)"
proof -
  define pid where "pid = db_uuid s (db_next s)"
  define p0 where "p0 = new_part pid ord pl sequence"
  define s1 where "s1 = s\<lparr>db_next := db_next s + 1, db_parts := db_parts s @ [p0]\<rparr>"
  have fresh: "pid \<notin> p_id ` set (db_parts s)" using ids_fresh(2) [OF assms(1)] by (simp add: pid_def)
  have s1: "ids_ok s1" unfolding s1_def
    using assms(1) by (rule ids_ok_add_part) (simp add: p0_def new_part_def pid_def)
  from createLines_effect [OF s1, of "pp_lines pl" byKey pid] obtain ls subs where
    lines: "collect (pp_lines pl) (createLine byKey pid) s1
        = (Inr subs, s1\<lparr>db_next := db_next s1 + length ls, db_lines := db_lines s1 @ ls\<rparr>)"
      "ids_ok (s1\<lparr>db_next := db_next s1 + length ls, db_lines := db_lines s1 @ ls\<rparr>)"
      "map line_body ls = map (\<lambda>(pl, src). new_line [] pid pl src) (sold byKey (pp_lines pl))"
      "sum_list subs = sum_list (map l_subtotal ls)" by blast
  define s2 where "s2 = s1\<lparr>db_next := db_next s1 + length ls, db_lines := db_lines s1 @ ls\<rparr>"
  define p1 where "p1 = p0\<lparr>p_goodsTotal := round3 (sum_list subs)\<rparr>"
  define p2 where "p2 = p1\<lparr>p_deliveryCost := charge\<rparr>"
  have pid: "p_id p0 = pid" by (simp add: p0_def new_part_def)
  have cost0: "p_deliveryCost p1 = 0" by (simp add: p1_def p0_def new_part_def)
  have rate: "current_rate s2 = current_rate s" by (simp add: s2_def s1_def current_rate_def)
  have charged: "(if o_fulfilmentMode ord = DELIVERY
           then bind (quote (pp_distance pl)) (\<lambda>q. ret (p1\<lparr>p_deliveryCost := q_cost q\<rparr>))
           else ret p1) s2 = (Inr p2, s2)"
    using assms(2) cost0 by (auto simp: part_charge_def bind_def quote_result rate p2_def)
  define s3 where "s3 = s2\<lparr>db_parts := db_parts s @ [p2]\<rparr>"
  have save: "tbl_save p_id p2 (db_parts s2) = db_parts s @ [p2]"
    using fresh by (auto simp: s2_def s1_def p2_def p1_def p0_def new_part_def intro!: tbl_save_last)
  have "ids_ok s2" using lines(2) by (simp add: s2_def)
  then have s3: "ids_ok s3"
    by (rule ids_ok_same) (simp_all add: s3_def s2_def s1_def p2_def p1_def)
  define f where "f = new_offer W (db_uuid s3 (db_next s3)) pid ord pl roundNo"
  have ffresh: "f_id f \<notin> f_id ` set (db_offers s3)"
    using ids_fresh(4) [OF s3] by (simp add: f_def new_offer_def)
  have run: "createPart W ord pl byKey sequence roundNo s = (Inr (), s3\<lparr>db_next := db_next s3 + 1,
      db_offers := db_offers s3 @ [f], db_jobs := db_jobs s3 @ [(None, PUSH_ORDER_PART pid)]\<rparr>)"
  proof -
    have "createPart W ord pl byKey sequence roundNo s = finishPart W ord pl roundNo p0 subs s2"
      using createPart_starts [OF assms(1)] lines(1)
      by (simp add: pid_def [symmetric] p0_def [symmetric] s1_def [symmetric, simplified] s2_def bind_def)
    also have "\<dots> = bind (save_part p2) (\<lambda>_.
       bind fresh_id (\<lambda>offerId.
       bind (save_offer (new_offer W offerId pid ord pl roundNo)) (\<lambda>_.
       enqueuePushOrderPart pid))) s2"
      unfolding finishPart_def Let_def
      by (subst bind_def) (simp only: p1_def [symmetric] charged prod.case sum.case pid)
    also have "\<dots> = bind fresh_id (\<lambda>offerId.
       bind (save_offer (new_offer W offerId pid ord pl roundNo)) (\<lambda>_.
       enqueuePushOrderPart pid)) s3"
      by (simp add: save_part_def save s3_def)
    also have "\<dots> = (Inr (), s3\<lparr>db_next := db_next s3 + 1,
      db_offers := db_offers s3 @ [f], db_jobs := db_jobs s3 @ [(None, PUSH_ORDER_PART pid)]\<rparr>)"
      using ffresh by (simp add: fresh_id_def save_offer_def f_def [symmetric] enqueuePushOrderPart_def
          enqueue_def tbl_save_fresh)
    finally show ?thesis .
  qed
  define c where "c = \<lparr>cr_part = p2, cr_lines = ls, cr_offer = f\<rparr>"
  have c: "add_created [c] (db_next s3 + 1) s = s3\<lparr>db_next := db_next s3 + 1,
      db_offers := db_offers s3 @ [f], db_jobs := db_jobs s3 @ [(None, PUSH_ORDER_PART pid)]\<rparr>"
    by (simp add: add_created_def c_def s3_def s2_def s1_def p2_def p1_def p0_def new_part_def)
  have "ids_ok (s3\<lparr>db_next := db_next s3 + 1, db_offers := db_offers s3 @ [f]\<rparr>)"
    using s3 by (rule ids_ok_add_offer) (simp add: f_def new_offer_def)
  then have "ids_ok (add_created [c] (db_next s3 + 1) s)"
    unfolding c by (rule ids_ok_same) simp_all
  moreover have "created_ok W ord pl byKey sequence roundNo charge c"
    using lines(3,4) by (simp add: created_ok_def c_def p2_def p1_def p0_def f_def new_part_def new_offer_def)
  ultimately show ?thesis using run c by metis
qed

lemma createPart_refused:
  assumes "ids_ok s" and "part_charge s ord (pp_distance pl) = None"
  shows "\<exists>p s'. createPart W ord pl byKey sequence roundNo s = (Inl NotFound, s')
    \<and> p_orderId p = o_id ord \<and> p_status p = P_OFFERED \<and> p_warehouseId p = pp_warehouse pl
    \<and> db_parts s' = db_parts s @ [p] \<and> db_offers s' = db_offers s \<and> db_jobs s' = db_jobs s
    \<and> db_orders s' = db_orders s"
proof -
  define pid where "pid = db_uuid s (db_next s)"
  define p0 where "p0 = new_part pid ord pl sequence"
  define s1 where "s1 = s\<lparr>db_next := db_next s + 1, db_parts := db_parts s @ [p0]\<rparr>"
  have fresh: "pid \<notin> p_id ` set (db_parts s)" using ids_fresh(2) [OF assms(1)] by (simp add: pid_def)
  have s1: "ids_ok s1" unfolding s1_def
    using assms(1) by (rule ids_ok_add_part) (simp add: p0_def new_part_def pid_def)
  from createLines_effect [OF s1, of "pp_lines pl" byKey pid] obtain ls subs where
    lines: "collect (pp_lines pl) (createLine byKey pid) s1
        = (Inr subs, s1\<lparr>db_next := db_next s1 + length ls, db_lines := db_lines s1 @ ls\<rparr>)" by blast
  have mode: "o_fulfilmentMode ord = DELIVERY" and "current_rate s = None"
    using assms(2) by (auto simp: part_charge_def split: if_splits)
  then have none: "current_rate (s1\<lparr>db_next := db_next s1 + length ls, db_lines := db_lines s1 @ ls\<rparr>) = None"
    by (simp add: current_rate_def s1_def)
  have "createPart W ord pl byKey sequence roundNo s
      = (Inl NotFound, s1\<lparr>db_next := db_next s1 + length ls, db_lines := db_lines s1 @ ls\<rparr>)"
    using createPart_starts [OF assms(1)] lines none mode
    by (simp add: pid_def [symmetric] p0_def [symmetric] s1_def [symmetric, simplified] bind_def
        finishPart_def Let_def quote_result)
  then show ?thesis by (auto simp: s1_def p0_def new_part_def)
qed

section \<open>A loop of parts\<close>

lemma add_created_Cons: "add_created cs n (add_created [c] m s) = add_created (c # cs) n s"
  by (simp add: add_created_def)

lemma add_created_simps [simp]:
  "db_parts (add_created cs n s) = db_parts s @ map cr_part cs"
  "db_lines (add_created cs n s) = db_lines s @ concat (map cr_lines cs)"
  "db_offers (add_created cs n s) = db_offers s @ map cr_offer cs"
  "db_jobs (add_created cs n s) = db_jobs s @ map (\<lambda>c. (None, PUSH_ORDER_PART (p_id (cr_part c)))) cs"
  "db_orders (add_created cs n s) = db_orders s" "db_events (add_created cs n s) = db_events s"
  "db_warehouses (add_created cs n s) = db_warehouses s" "db_inventory (add_created cs n s) = db_inventory s"
  "db_rates (add_created cs n s) = db_rates s" "db_distances (add_created cs n s) = db_distances s"
  by (simp_all add: add_created_def)

lemma part_charge_add_created [simp]: "part_charge (add_created cs n s) = part_charge s"
  by (simp add: fun_eq_iff part_charge_def current_rate_def)

lemma createParts_effect:
  assumes "ids_ok s" and "\<forall>pl \<in> set pls. part_charge s ord (pp_distance pl) \<noteq> None"
  shows "\<exists>cs n. createParts W ord pls byKey existing roundNo s = (Inr (), add_created cs n s)
    \<and> ids_ok (add_created cs n s)
    \<and> list_all2 (\<lambda>(sequence, pl). created_ok W ord pl byKey sequence roundNo
         (the (part_charge s ord (pp_distance pl)))) (enumerate (existing + 1) pls) cs"
  using assms unfolding createParts_def
proof (induction pls arbitrary: s existing)
  case Nil
  then show ?case
    by (intro exI [of _ "[]"] exI [of _ "db_next s"]) (simp add: add_created_def)
next
  case (Cons pl pls)
  have "part_charge s ord (pp_distance pl) = Some (the (part_charge s ord (pp_distance pl)))"
    using Cons.prems(2) by simp
  from createPart_effect [OF Cons.prems(1) this, of W byKey "existing + 1" roundNo] obtain c m where
    one: "createPart W ord pl byKey (existing + 1) roundNo s = (Inr (), add_created [c] m s)"
      "created_ok W ord pl byKey (existing + 1) roundNo (the (part_charge s ord (pp_distance pl))) c"
      "ids_ok (add_created [c] m s)" by blast
  have "\<forall>pl \<in> set pls. part_charge (add_created [c] m s) ord (pp_distance pl) \<noteq> None"
    using Cons.prems(2) by simp
  from Cons.IH [OF one(3) this, of "existing + 1"] obtain cs n where
    rest: "for_each (enumerate (existing + 1 + 1) pls) (\<lambda>(sequence, p). createPart W ord p byKey sequence roundNo)
        (add_created [c] m s) = (Inr (), add_created cs n (add_created [c] m s))"
      "ids_ok (add_created cs n (add_created [c] m s))"
      "list_all2 (\<lambda>(sequence, pl). created_ok W ord pl byKey sequence roundNo
         (the (part_charge (add_created [c] m s) ord (pp_distance pl)))) (enumerate (existing + 1 + 1) pls) cs"
    by blast
  show ?case
    using one(2) rest(2,3) unfolding add_created_Cons
    by (intro exI [of _ "c # cs"] exI [of _ n]) (use one(1) rest(1) in \<open>simp add: bind_def add_created_Cons\<close>)
qed

lemma created_okD:
  assumes "created_ok W ord pl byKey sequence roundNo charge c"
  shows "p_orderId (cr_part c) = o_id ord" "p_status (cr_part c) = P_OFFERED"
    "p_warehouseId (cr_part c) = pp_warehouse pl" "p_sequence (cr_part c) = sequence"
    "p_deliveryCost (cr_part c) = charge"
    "p_goodsTotal (cr_part c) = round3 (sum_list (map l_subtotal (cr_lines c)))"
    "f_partId (cr_offer c) = p_id (cr_part c)" "f_warehouseId (cr_offer c) = pp_warehouse pl"
    "f_orderId (cr_offer c) = o_id ord" "f_status (cr_offer c) = F_OFFERED"
    "f_roundNumber (cr_offer c) = roundNo" "f_expiresAt (cr_offer c) = w_now W + 86400000"
proof -
  have c: "cr_part c = (new_part (p_id (cr_part c)) ord pl sequence)\<lparr>p_deliveryCost := charge,
        p_goodsTotal := round3 (sum_list (map l_subtotal (cr_lines c)))\<rparr>"
    and f: "cr_offer c = new_offer W (f_id (cr_offer c)) (p_id (cr_part c)) ord pl roundNo"
    using assms by (simp_all add: created_ok_def)
  show "p_orderId (cr_part c) = o_id ord" by (subst c) (simp add: new_part_def)
  show "p_status (cr_part c) = P_OFFERED" by (subst c) (simp add: new_part_def)
  show "p_warehouseId (cr_part c) = pp_warehouse pl" by (subst c) (simp add: new_part_def)
  show "p_sequence (cr_part c) = sequence" by (subst c) (simp add: new_part_def)
  show "p_deliveryCost (cr_part c) = charge" by (subst c) simp
  show "p_goodsTotal (cr_part c) = round3 (sum_list (map l_subtotal (cr_lines c)))" by (subst c) simp
  show "f_partId (cr_offer c) = p_id (cr_part c)" by (subst f) (simp add: new_offer_def)
  show "f_warehouseId (cr_offer c) = pp_warehouse pl" by (subst f) (simp add: new_offer_def)
  show "f_orderId (cr_offer c) = o_id ord" by (subst f) (simp add: new_offer_def)
  show "f_status (cr_offer c) = F_OFFERED" by (subst f) (simp add: new_offer_def)
  show "f_roundNumber (cr_offer c) = roundNo" by (subst f) (simp add: new_offer_def)
  show "f_expiresAt (cr_offer c) = w_now W + 86400000"
    by (subst f) (simp add: new_offer_def OFFER_EXPIRY_HOURS_def)
qed

lemma created_line:
  assumes "created_ok W ord pl byKey sequence roundNo charge c" and "l \<in> set (cr_lines c)"
  obtains x src where "x \<in> set (pp_lines pl)" "map_of byKey (pl_key x) = Some src"
    "l_partId l = p_id (cr_part c)" "l_quantity l = pl_quantity x"
    "l_odooProductId l = rq_odooProductId src" "l_conditionCode l = rq_conditionCode src"
    "l_subtotal l = round3 (pl_quantity x * rq_unitPrice src)"
proof -
  have "line_body l \<in> set (map line_body (cr_lines c))" using assms(2) by simp
  moreover have "map line_body (cr_lines c) = map (\<lambda>(x, src). new_line [] (p_id (cr_part c)) x src)
      (sold byKey (pp_lines pl))"
    using assms(1) unfolding created_ok_def by blast
  ultimately obtain x src where "(x, src) \<in> set (sold byKey (pp_lines pl))"
    and body: "line_body l = new_line [] (p_id (cr_part c)) x src" by auto
  then have "x \<in> set (pp_lines pl)" "map_of byKey (pl_key x) = Some src"
    by (auto simp: sold_def List.map_filter_def)
  moreover have "l_partId l = l_partId (line_body l)" "l_quantity l = l_quantity (line_body l)"
    "l_odooProductId l = l_odooProductId (line_body l)" "l_conditionCode l = l_conditionCode (line_body l)"
    "l_subtotal l = l_subtotal (line_body l)" by (simp_all add: line_body_def)
  ultimately show thesis by (intro that [of x src]) (simp_all add: body new_line_def)
qed

section \<open>Supplies\<close>

lemma persist_total: "\<exists>d. persist b es s = (Inr (), s\<lparr>db_distances := d\<rparr>)"
  unfolding persist_def
proof (induction es arbitrary: s)
  case Nil
  then show ?case by (intro exI [of _ "db_distances s"]) simp
next
  case (Cons e es)
  show ?case using Cons.IH [of "s\<lparr>db_distances := d\<rparr>" for d] by simp
qed

lemma resolve_total: "\<exists>rs d. resolveDistances W b ids fb s = (Inr rs, s\<lparr>db_distances := d\<rparr>)"
proof -
  define missing where "missing = filter (\<lambda>i. map_of (cached_distances b ids s) i = None) ids"
  show ?thesis
  proof (cases "missing = []")
    case True
    then show ?thesis
      by (intro exI [of _ "map snd (cached_distances b ids s)"] exI [of _ "db_distances s"])
        (simp add: resolveDistances_def missing_def [symmetric])
  next
    case False
    obtain d where "persist b (measure_pairs W b missing fb s) s = (Inr (), s\<lparr>db_distances := d\<rparr>)"
      using persist_total by blast
    with False show ?thesis
      by (simp add: resolveDistances_def missing_def [symmetric] bind_def) blast
  qed
qed

lemma rank_total: "\<exists>rs d. rankWarehouses W b p n ids s = (Inr rs, s\<lparr>db_distances := d\<rparr>)"
proof -
  define sh where "sh = shortlistByStraightLine W b p
    (case n of None \<Rightarrow> MAX_CANDIDATE_WAREHOUSES | Some l \<Rightarrow> l) ids s"
  show ?thesis
  proof (cases "ids = Some [] \<or> sh = []")
    case True
    then show ?thesis
      by (intro exI [of _ "[]"] exI [of _ "db_distances s"])
        (auto simp: rankWarehouses_def Let_def sh_def [symmetric])
  next
    case False
    obtain rs d where "resolveDistances W b (map wd_warehouseId sh) sh s = (Inr rs, s\<lparr>db_distances := d\<rparr>)"
      using resolve_total by blast
    with False show ?thesis
      by (simp add: rankWarehouses_def Let_def sh_def [symmetric] bind_def) blast
  qed
qed

text \<open>What makes a supply a candidate for an order.\<close>

definition candidate :: "store \<Rightarrow> order \<Rightarrow> requested_line list \<Rightarrow> warehouse_supply \<Rightarrow> bool" where
  "candidate s ord lines w \<longleftrightarrow>
     ws_available w = available_at (ws_warehouse w) (uniq (map rq_odooProductId lines)) s
     \<and> ws_warehouse w \<notin> set (disqualifiedWarehouses (o_id ord) s)
     \<and> (\<exists>x \<in> set (db_warehouses s). wh_id x = ws_warehouse w \<and> wh_state x = ACTIVE
          \<and> o_provinceId ord = Some (wh_provinceId x))"

lemma buildSupplies_result:
  assumes "pairs_unique s" and "distinct (map wh_id (db_warehouses s))"
  obtains sups d where "buildSupplies W ord lines s = (Inr sups, s\<lparr>db_distances := d\<rparr>)"
    and "distinct (map ws_warehouse sups)" and "\<forall>w \<in> set sups. candidate s ord lines w"
proof -
  show thesis
  proof (cases "o_provinceId ord")
    case None
    then show ?thesis by (intro that [of "[]" "db_distances s"]) (simp_all add: buildSupplies_def)
  next
    case (Some prov)
    define ids where "ids = filter (\<lambda>i. i \<notin> set (disqualifiedWarehouses (o_id ord) s))
      (stockWarehouseIds prov (uniq (map rq_odooProductId lines)) s)"
    obtain rs d where rank: "rankWarehouses W (o_buyerProfileId ord) prov None (Some ids) s
        = (Inr rs, s\<lparr>db_distances := d\<rparr>)" using rank_total by blast
    show ?thesis
    proof (cases "ids = []")
      case True
      then show ?thesis
        by (intro that [of "[]" "db_distances s"])
          (simp_all add: buildSupplies_def Some Let_def ids_def [symmetric])
    next
      case False
      then have "stockWarehouseIds prov (uniq (map rq_odooProductId lines)) s \<noteq> []"
        by (auto simp: ids_def)
      then have run: "buildSupplies W ord lines s = (Inr (map (\<lambda>c. \<lparr>ws_warehouse = wd_warehouseId c,
            ws_distance = wd_distanceKm c, ws_available = available_at (wd_warehouseId c)
              (uniq (map rq_odooProductId lines)) (s\<lparr>db_distances := d\<rparr>)\<rparr>) rs), s\<lparr>db_distances := d\<rparr>)"
        using False by (simp add: buildSupplies_def Some Let_def ids_def [symmetric] bind_def rank)
      note facts = rank_facts [OF assms rank]
      show ?thesis
      proof (rule that [OF run])
        show "distinct (map ws_warehouse (map (\<lambda>c. \<lparr>ws_warehouse = wd_warehouseId c,
            ws_distance = wd_distanceKm c, ws_available = available_at (wd_warehouseId c)
              (uniq (map rq_odooProductId lines)) (s\<lparr>db_distances := d\<rparr>)\<rparr>) rs))"
          using facts by (simp add: comp_def)
        show "\<forall>w \<in> set (map (\<lambda>c. \<lparr>ws_warehouse = wd_warehouseId c,
            ws_distance = wd_distanceKm c, ws_available = available_at (wd_warehouseId c)
              (uniq (map rq_odooProductId lines)) (s\<lparr>db_distances := d\<rparr>)\<rparr>) rs). candidate s ord lines w"
        proof
          fix w assume "w \<in> set (map (\<lambda>c. \<lparr>ws_warehouse = wd_warehouseId c,
            ws_distance = wd_distanceKm c, ws_available = available_at (wd_warehouseId c)
              (uniq (map rq_odooProductId lines)) (s\<lparr>db_distances := d\<rparr>)\<rparr>) rs)"
          then obtain c where c: "c \<in> set rs" and w: "ws_warehouse w = wd_warehouseId c"
            "ws_available w = available_at (wd_warehouseId c) (uniq (map rq_odooProductId lines)) s"
            by (auto simp: available_at_def)
          from facts c obtain x where x: "x \<in> set (db_warehouses s)" "wh_id x = wd_warehouseId c"
            "wh_provinceId x = prov" "wh_state x = ACTIVE" "wh_id x \<in> set ids" by blast
          then have "ws_warehouse w \<notin> set (disqualifiedWarehouses (o_id ord) s)"
            by (simp add: w ids_def)
          then show "candidate s ord lines w" using w x Some by (auto simp: candidate_def)
        qed
      qed
    qed
  qed
qed

section \<open>Allocation\<close>

definition alloc_lines :: "ident \<Rightarrow> requested_line list option \<Rightarrow> store \<Rightarrow> requested_line list" where
  "alloc_lines k req s = (case req of Some ls \<Rightarrow> ls | None \<Rightarrow> linesFromFailedParts k s)"

lemma find_order_id: "find_order k s = Some ord \<Longrightarrow> o_id ord = k"
  by (auto simp: find_order_def dest: tbl_find_SomeD)

lemma save_order_apply: "save_order ord s = (Inr (), s\<lparr>db_orders := tbl_save o_id ord (db_orders s),
     db_events := db_events s @ afterUpdate ord (find_order (o_id ord) s)\<rparr>)"
  by (simp add: save_order_def)

lemma bind_save_order: "bind (save_order ord) f s = f () (s\<lparr>db_orders := tbl_save o_id ord (db_orders s),
     db_events := db_events s @ afterUpdate ord (find_order (o_id ord) s)\<rparr>)"
  by (simp add: save_order_def)

lemma find_saved: "find_order k (s\<lparr>db_orders := tbl_save o_id ord os, db_events := es\<rparr>) =
    (if k = o_id ord then Some ord else tbl_find o_id k os)"
  by (simp add: find_order_def tbl_find_save)

text \<open>What \<open>allocate\<close> does once the lines and the supplies are known.\<close>

definition with_supplies :: "world \<Rightarrow> ident \<Rightarrow> order \<Rightarrow> requested_line list \<Rightarrow> bool \<Rightarrow>
    warehouse_supply list \<Rightarrow> allocation_outcome action" where
  "with_supplies W k ord lines force sups s1 =
      (let required = required_of lines; plan = planAllocation required sups;
           missing = shortfallRatio plan required; n = length (plan_parts plan)
       in if sups = [] \<or> plan_parts plan = [] then (Inr NO_STOCK, snd (markExhausted ord s1))
          else if \<not> plan_fullyCovered plan \<and> \<not> force
               \<and> \<not> (o_acceptPartialFulfilment ord \<and> missing \<le> PARTIAL_FULFILMENT_TOLERANCE)
          then (Inr (PARTIAL_NEEDS_BUYER missing), snd (save_order (ord\<lparr>o_status := NEEDS_CUSTOMER_DECISION,
                 o_requestedLines := Some lines\<rparr>) s1))
          else if 1 < n
          then (Inr (ALLOCATED n), snd (save_order (ord\<lparr>o_status := AWAITING_SPLIT_APPROVAL,
                 o_requestedLines := Some lines\<rparr>) s1))
          else bind (createParts W (ord\<lparr>o_requestedLines := None\<rparr>) (plan_parts plan) (byKey_of lines)
                  (length (parts_of k s1)) (Suc (o_allocationRound ord))) (\<lambda>_.
               bind (recalculateTotals (ord\<lparr>o_requestedLines := None,
                  o_allocationRound := Suc (o_allocationRound ord), o_status := AWAITING_APPROVAL\<rparr>)) (\<lambda>_.
               ret (ALLOCATED n))) s1)"

lemma allocate_steps:
  assumes "pairs_unique s" and "distinct (map wh_id (db_warehouses s))" and "find_order k s = Some ord"
    and "o_allocationRound ord < MAX_ALLOCATION_ROUNDS" and "alloc_lines k req s \<noteq> []"
  obtains sups d where "distinct (map ws_warehouse sups)"
    and "\<forall>w \<in> set sups. candidate s ord (alloc_lines k req s) w"
    and "allocate W k req force s
        = with_supplies W k ord (alloc_lines k req s) force sups (s\<lparr>db_distances := d\<rparr>)"
proof -
  obtain sups d where build: "buildSupplies W ord (alloc_lines k req s) s = (Inr sups, s\<lparr>db_distances := d\<rparr>)"
    and sups: "distinct (map ws_warehouse sups)" "\<forall>w \<in> set sups. candidate s ord (alloc_lines k req s) w"
    by (rule buildSupplies_result [OF assms(1,2)])
  show thesis
    by (rule that [OF sups, of d])
      (use assms(3-5) build in \<open>simp add: allocate_def alloc_lines_def [symmetric] bind_def [of "buildSupplies _ _ _"]
        with_supplies_def Let_def markExhausted_def save_order_apply bind_save_order\<close>)
qed

lemma recalculateTotals_apply:
  "recalculateTotals ord s = (let live = filter live_part (parts_of (o_id ord) s);
      goods = sum_list (map p_goodsTotal live); delivery = sum_list (map p_deliveryCost live);
      ord' = ord\<lparr>o_goodsTotal := round3 goods, o_deliveryTotal := round3 delivery,
                 o_grandTotal := round3 (goods + delivery)\<rparr>
    in (Inr ord', snd (save_order ord' s)))"
  by (simp add: recalculateTotals_def bind_save_order save_order_apply Let_def)

lemma markExhausted_apply: "markExhausted ord s = (Inr (), snd (save_order (ord\<lparr>o_status := NEEDS_ADMIN\<rparr>) s))"
  by (simp add: markExhausted_def save_order_apply)

lemma find_order_add_created [simp]: "find_order k (add_created cs n s) = find_order k s"
  by (simp add: find_order_def)

lemma save_order_simps [simp]:
  "db_parts (snd (save_order ord s)) = db_parts s" "db_lines (snd (save_order ord s)) = db_lines s"
  "db_offers (snd (save_order ord s)) = db_offers s" "db_jobs (snd (save_order ord s)) = db_jobs s"
  "db_orders (snd (save_order ord s)) = tbl_save o_id ord (db_orders s)"
  "find_order k (snd (save_order ord s)) = (if k = o_id ord then Some ord else find_order k s)"
  by (simp_all add: save_order_apply find_order_def tbl_find_save)

lemma parts_of_add_created:
  "\<forall>c \<in> set cs. p_orderId (cr_part c) = k \<Longrightarrow> parts_of k (add_created cs n s) = parts_of k s @ map cr_part cs"
  by (induction cs) (auto simp: parts_of_def)

text \<open>What \<open>allocate\<close> does once the supplies are known to yield a plan of a single part.\<close>

lemma allocate_one:
  assumes "ids_ok s" and "o_id ord = k" and "part_charge s ord (pp_distance pl) = Some charge"
  shows "\<exists>c n s'. created_ok W ord pl byKey (length (parts_of k s) + 1) roundNo charge c
    \<and> bind (createParts W ord [pl] byKey (length (parts_of k s)) roundNo) (\<lambda>_.
        bind (recalculateTotals (ord\<lparr>o_allocationRound := roundNo, o_status := AWAITING_APPROVAL\<rparr>)) (\<lambda>_.
        ret (ALLOCATED 1))) s = (Inr (ALLOCATED 1), s')
    \<and> db_parts s' = db_parts s @ [cr_part c] \<and> db_lines s' = db_lines s @ cr_lines c
    \<and> db_offers s' = db_offers s @ [cr_offer c]
    \<and> db_jobs s' = db_jobs s @ [(None, PUSH_ORDER_PART (p_id (cr_part c)))]
    \<and> (\<exists>ord'. find_order k s' = Some ord' \<and> o_status ord' = AWAITING_APPROVAL
        \<and> o_allocationRound ord' = roundNo \<and> o_requestedLines ord' = o_requestedLines ord
        \<and> o_goodsTotal ord' = round3 (sum_list (map p_goodsTotal (filter live_part (parts_of k s')))))"
proof -
  have charges: "\<forall>x \<in> set [pl]. part_charge s ord (pp_distance x) \<noteq> None" using assms(3) by simp
  from createParts_effect [OF assms(1) charges, of W byKey "length (parts_of k s)" roundNo]
  obtain cs n where run: "createParts W ord [pl] byKey (length (parts_of k s)) roundNo s = (Inr (), add_created cs n s)"
    and "list_all2 (\<lambda>(sequence, pl). created_ok W ord pl byKey sequence roundNo
       (the (part_charge s ord (pp_distance pl)))) (enumerate (length (parts_of k s) + 1) [pl]) cs" by blast
  then obtain c where cs: "cs = [c]"
    and c: "created_ok W ord pl byKey (length (parts_of k s) + 1) roundNo charge c"
    using assms(3) by (auto simp: list_all2_Cons1)
  let ?ord = "ord\<lparr>o_allocationRound := roundNo, o_status := AWAITING_APPROVAL\<rparr>"
  let ?s = "add_created [c] n s"
  define fin where "fin = snd (recalculateTotals ?ord ?s)"
  have fin: "\<exists>ord'. recalculateTotals ?ord ?s = (Inr ord', fin)"
    by (simp add: fin_def recalculateTotals_apply Let_def)
  have eq: "bind (createParts W ord [pl] byKey (length (parts_of k s)) roundNo) (\<lambda>_.
        bind (recalculateTotals ?ord) (\<lambda>_. ret (ALLOCATED 1))) s = (Inr (ALLOCATED 1), fin)"
    using run fin by (auto simp: bind_def cs)
  have parts: "parts_of k fin = parts_of k ?s"
    by (simp add: fin_def recalculateTotals_apply Let_def parts_of_def)
  show ?thesis
    using c eq assms(2) parts
    by (intro exI [of _ c] exI [of _ n] exI [of _ fin])
      (simp add: fin_def recalculateTotals_apply Let_def)
qed

lemma length_one: "xs \<noteq> [] \<Longrightarrow> \<not> 1 < length xs \<Longrightarrow> \<exists>x. xs = [x]"
  by (cases xs) auto

definition exact_lines :: "requested_line list \<Rightarrow> bool" where
  "exact_lines lines \<longleftrightarrow> exact_request (required_of lines)"

definition exact_inventory :: "store \<Rightarrow> bool" where
  "exact_inventory s \<longleftrightarrow> (\<forall>i \<in> set (db_inventory s). milli (i_quantity i) \<and> milli (i_reservedQuantity i))"

lemma available_rows:
  assumes "(key, q) \<in> set (available_at w products s)"
  shows "\<exists>i \<in> set (db_inventory s). i_warehouseId i = w \<and> q = free_stock i \<and> 0 < q
     \<and> key = lineKey (i_odooProductId i) (Some (i_conditionCode i))"
  using assms js_map_subset unfolding available_at_def by fastforce

lemma candidate_exact:
  assumes "exact_inventory s" and "candidate s ord lines w"
  shows "exact_supply w"
  unfolding exact_supply_def
proof
  fix x assume mem: "x \<in> set (ws_available w)"
  obtain key q where x: "x = (key, q)" by (cases x)
  have "ws_available w = available_at (ws_warehouse w) (uniq (map rq_odooProductId lines)) s"
    using assms(2) unfolding candidate_def by blast
  then have "(key, q) \<in> set (available_at (ws_warehouse w) (uniq (map rq_odooProductId lines)) s)"
    using mem x by simp
  then obtain i where "i \<in> set (db_inventory s)" "q = free_stock i" "0 < q"
    using available_rows by blast
  then show "case x of (k, q) \<Rightarrow> milli q \<and> 0 \<le> q"
    using assms(1) by (auto simp: x exact_inventory_def free_stock_def)
qed

lemma drawn_line_stock:
  assumes "drawn_from pl w" and "candidate s ord lines w" and "x \<in> set (pp_lines pl)"
  shows "\<exists>i \<in> set (db_inventory s). i_warehouseId i = pp_warehouse pl
     \<and> pl_key x = lineKey (i_odooProductId i) (Some (i_conditionCode i)) \<and> pl_quantity x \<le> free_stock i"
proof -
  have "0 < pl_quantity x" "pl_quantity x \<le> free_of w (pl_key x)" "pp_warehouse pl = ws_warehouse w"
    using assms(1,3) by (auto simp: drawn_from_def)
  moreover from this obtain q where "map_of (ws_available w) (pl_key x) = Some q" "free_of w (pl_key x) = q"
    by (auto simp: free_of_def split: option.splits)
  ultimately show ?thesis
    using assms(2) available_rows map_of_SomeD unfolding candidate_def by metis
qed

lemma byKey_source:
  assumes "map_of (byKey_of lines) key = Some src"
  shows "src \<in> set lines \<and> key = lineKey (rq_odooProductId src) (rq_conditionCode src)"
  using map_of_SomeD [OF assms] js_map_subset unfolding byKey_of_def by fastforce

section \<open>Properties\<close>

text \<open>An order that one warehouse can serve becomes exactly one part, offered with a deadline of a
  day and pushed to Odoo once.  The warehouse is active, in the buyer's governorate, and has not
  refused or let expire an offer of this order; every line sold is within the free stock it holds
  of that very material and grade; the order awaits approval, one round further, and is worth what
  its live parts are worth.\<close>

theorem allocate_single:
  assumes "ids_ok s" and "pairs_unique s" and "distinct (map wh_id (db_warehouses s))"
    and "exact_inventory s" and "find_order k s = Some ord" and "exact_lines (alloc_lines k req s)"
    and "allocate W k req force s = (Inr (ALLOCATED 1), s')"
  shows "\<exists>p ls f ord'. db_parts s' = db_parts s @ [p] \<and> db_lines s' = db_lines s @ ls
    \<and> db_offers s' = db_offers s @ [f] \<and> db_jobs s' = db_jobs s @ [(None, PUSH_ORDER_PART (p_id p))]
    \<and> p_orderId p = k \<and> p_status p = P_OFFERED
    \<and> f_partId f = p_id p \<and> f_orderId f = k \<and> f_warehouseId f = p_warehouseId p
    \<and> f_status f = F_OFFERED \<and> f_expiresAt f = w_now W + 86400000
    \<and> p_warehouseId p \<notin> set (disqualifiedWarehouses k s)
    \<and> (\<exists>w \<in> set (db_warehouses s). wh_id w = p_warehouseId p \<and> wh_state w = ACTIVE
         \<and> o_provinceId ord = Some (wh_provinceId w))
    \<and> (\<forall>l \<in> set ls. l_partId l = p_id p \<and> (\<exists>i \<in> set (db_inventory s). i_warehouseId i = p_warehouseId p
         \<and> lineKey (l_odooProductId l) (l_conditionCode l) = lineKey (i_odooProductId i) (Some (i_conditionCode i))
         \<and> l_quantity l \<le> free_stock i))
    \<and> find_order k s' = Some ord' \<and> o_status ord' = AWAITING_APPROVAL
    \<and> o_allocationRound ord' = Suc (o_allocationRound ord) \<and> o_allocationRound ord' \<le> MAX_ALLOCATION_ROUNDS
    \<and> o_requestedLines ord' = None
    \<and> o_goodsTotal ord' = round3 (sum_list (map p_goodsTotal (filter live_part (parts_of k s'))))"
proof -
  have k: "o_id ord = k" by (rule find_order_id [OF assms(5)])
  have rounds: "o_allocationRound ord < MAX_ALLOCATION_ROUNDS"
    using assms(5,7) by (rule_tac ccontr) (simp add: allocate_def bind_def markExhausted_apply)
  have some: "alloc_lines k req s \<noteq> []"
    using assms(5,7) rounds by (rule_tac notI) (simp add: allocate_def alloc_lines_def [symmetric])
  obtain sups d where sups: "distinct (map ws_warehouse sups)"
      "\<forall>w \<in> set sups. candidate s ord (alloc_lines k req s) w"
    and run: "allocate W k req force s
        = with_supplies W k ord (alloc_lines k req s) force sups (s\<lparr>db_distances := d\<rparr>)"
    by (rule allocate_steps [OF assms(2,3,5) rounds some, where W = W and force = force])
  define lines where "lines = alloc_lines k req s"
  define plan where "plan = planAllocation (required_of lines) sups"
  define s1 where "s1 = s\<lparr>db_distances := d\<rparr>"
  define ord1 where "ord1 = ord\<lparr>o_requestedLines := None\<rparr>"
  have nonempty: "plan_parts plan \<noteq> []" and "\<not> 1 < length (plan_parts plan)"
    using run assms(7) unfolding with_supplies_def Let_def lines_def [symmetric] plan_def [symmetric]
    by (auto split: if_splits)
  then obtain pl where pl: "plan_parts plan = [pl]" using length_one by blast
  have go: "bind (createParts W ord1 [pl] (byKey_of lines) (length (parts_of k s1)) (Suc (o_allocationRound ord))) (\<lambda>_.
      bind (recalculateTotals (ord1\<lparr>o_allocationRound := Suc (o_allocationRound ord),
        o_status := AWAITING_APPROVAL\<rparr>)) (\<lambda>_. ret (ALLOCATED 1))) s1 = (Inr (ALLOCATED 1), s')"
    using run assms(7) unfolding with_supplies_def Let_def lines_def [symmetric] plan_def [symmetric] s1_def [symmetric] pl
    by (auto simp: ord1_def split: if_splits)
  have s1: "ids_ok s1" unfolding s1_def by (rule ids_ok_same [OF assms(1)]) simp_all
  have charge: "part_charge s1 ord1 (pp_distance pl) \<noteq> None"
  proof
    assume "part_charge s1 ord1 (pp_distance pl) = None"
    from createPart_refused [OF s1 this, of W "byKey_of lines" "length (parts_of k s1) + 1" "Suc (o_allocationRound ord)"]
    obtain s2 where "createPart W ord1 pl (byKey_of lines) (length (parts_of k s1) + 1)
        (Suc (o_allocationRound ord)) s1 = (Inl NotFound, s2)" by blast
    with go show False by (simp add: createParts_def bind_def)
  qed
  then obtain c where c: "part_charge s1 ord1 (pp_distance pl) = Some c" by blast
  have "o_id ord1 = k" by (simp add: ord1_def k)
  from allocate_one [OF s1 this c, of W "byKey_of lines" "Suc (o_allocationRound ord)"] go
  obtain cr where cr: "created_ok W ord1 pl (byKey_of lines) (length (parts_of k s1) + 1) (Suc (o_allocationRound ord)) c cr"
    and eff: "db_parts s' = db_parts s @ [cr_part cr]" "db_lines s' = db_lines s @ cr_lines cr"
      "db_offers s' = db_offers s @ [cr_offer cr]"
      "db_jobs s' = db_jobs s @ [(None, PUSH_ORDER_PART (p_id (cr_part cr)))]"
    and ord': "\<exists>ord'. find_order k s' = Some ord' \<and> o_status ord' = AWAITING_APPROVAL
        \<and> o_allocationRound ord' = Suc (o_allocationRound ord) \<and> o_requestedLines ord' = None
        \<and> o_goodsTotal ord' = round3 (sum_list (map p_goodsTotal (filter live_part (parts_of k s'))))"
    by (auto simp: s1_def ord1_def)
  have "\<forall>w \<in> set sups. exact_supply w" using sups(2) candidate_exact [OF assms(4)] by blast
  from plan_drawn [OF _ this, of "required_of lines"] obtain w where w: "w \<in> set sups" "drawn_from pl w"
    using assms(6) pl by (auto simp: plan_def exact_lines_def lines_def)
  then have cand: "candidate s ord lines w" using sups(2) by (simp add: lines_def)
  have wh: "pp_warehouse pl = ws_warehouse w" using w by (simp add: drawn_from_def)
  have stock: "l_partId l = p_id (cr_part cr) \<and> (\<exists>i \<in> set (db_inventory s). i_warehouseId i = p_warehouseId (cr_part cr)
       \<and> lineKey (l_odooProductId l) (l_conditionCode l) = lineKey (i_odooProductId i) (Some (i_conditionCode i))
       \<and> l_quantity l \<le> free_stock i)" if sells: "l \<in> set (cr_lines cr)" for l
  proof -
    obtain x src where x: "x \<in> set (pp_lines pl)" "map_of (byKey_of lines) (pl_key x) = Some src"
      and l: "l_partId l = p_id (cr_part cr)" "l_quantity l = pl_quantity x"
        "l_odooProductId l = rq_odooProductId src" "l_conditionCode l = rq_conditionCode src"
      by (rule created_line [OF cr sells])
    show ?thesis
      using drawn_line_stock [OF w(2) cand x(1)] byKey_source [OF x(2)] l created_okD(3) [OF cr] by auto
  qed
  obtain ord' where ord': "find_order k s' = Some ord'" "o_status ord' = AWAITING_APPROVAL"
    "o_allocationRound ord' = Suc (o_allocationRound ord)" "o_requestedLines ord' = None"
    "o_goodsTotal ord' = round3 (sum_list (map p_goodsTotal (filter live_part (parts_of k s'))))"
    using ord' by blast
  show ?thesis
    using eff ord' stock cand created_okD [OF cr] rounds
    by (intro exI [of _ "cr_part cr"] exI [of _ "cr_lines cr"] exI [of _ "cr_offer cr"] exI [of _ ord'])
      (simp add: candidate_def k wh ord1_def)
qed

end
