(* ===== verification/AllocationOutcomes.thy ===== *)
theory AllocationOutcomes
  imports AllocationFacts
begin

text \<open>
  Every way \<open>allocate\<close> can end, with the state of the order it leaves, the decisions on a split
  (\<open>approveSplit\<close>, \<open>rejectSplit\<close>, \<open>applyModification\<close>), and what re-allocation does after refusals.
\<close>

lemma outcomes_of_allocate:
  assumes "ids_ok s" and "pairs_unique s" and "distinct (map wh_id (db_warehouses s))"
    and "find_order k s = Some ord" and "allocate W k req force s = (Inr out, s')"
  shows "\<exists>ord'. find_order k s' = Some ord' \<and> (case out of
      EXHAUSTED \<Rightarrow> MAX_ALLOCATION_ROUNDS \<le> o_allocationRound ord \<and> o_status ord' = NEEDS_ADMIN
        \<and> db_parts s' = db_parts s
    | NO_STOCK \<Rightarrow> o_status ord' = NEEDS_ADMIN \<and> db_parts s' = db_parts s
        \<and> o_allocationRound ord' = o_allocationRound ord
    | PARTIAL_NEEDS_BUYER missing \<Rightarrow> \<not> force
        \<and> \<not> (o_acceptPartialFulfilment ord \<and> missing \<le> PARTIAL_FULFILMENT_TOLERANCE)
        \<and> o_status ord' = NEEDS_CUSTOMER_DECISION \<and> o_requestedLines ord' = Some (alloc_lines k req s)
        \<and> db_parts s' = db_parts s \<and> o_allocationRound ord' = o_allocationRound ord
    | ALLOCATED n \<Rightarrow>
        if n = 0 then alloc_lines k req s = [] \<and> s' = s
        else if n = 1 then o_status ord' = AWAITING_APPROVAL \<and> o_requestedLines ord' = None
          \<and> o_allocationRound ord' = Suc (o_allocationRound ord)
          \<and> Suc (o_allocationRound ord) \<le> MAX_ALLOCATION_ROUNDS
          \<and> length (db_parts s') = Suc (length (db_parts s))
        else o_status ord' = AWAITING_SPLIT_APPROVAL \<and> o_requestedLines ord' = Some (alloc_lines k req s)
          \<and> o_allocationRound ord' = o_allocationRound ord \<and> db_parts s' = db_parts s \<and> db_jobs s' = db_jobs s)"
proof -
  have k: "o_id ord = k" by (rule find_order_id [OF assms(4)])
  consider (rounds) "MAX_ALLOCATION_ROUNDS \<le> o_allocationRound ord"
    | (none) "o_allocationRound ord < MAX_ALLOCATION_ROUNDS" "alloc_lines k req s = []"
    | (plan) "o_allocationRound ord < MAX_ALLOCATION_ROUNDS" "alloc_lines k req s \<noteq> []" by linarith
  then show ?thesis
  proof cases
    case rounds
    then show ?thesis using assms(4,5) by (auto simp: allocate_def bind_def markExhausted_apply k)
  next
    case none
    then show ?thesis using assms(4,5) by (auto simp: allocate_def alloc_lines_def [symmetric])
  next
    case plan
    obtain sups d where
      run: "allocate W k req force s
        = with_supplies W k ord (alloc_lines k req s) force sups (s\<lparr>db_distances := d\<rparr>)"
      by (rule allocate_steps [OF assms(2,3,4) plan, where W = W and force = force])
    define lines where "lines = alloc_lines k req s"
    define pn where "pn = planAllocation (required_of lines) sups"
    define s1 where "s1 = s\<lparr>db_distances := d\<rparr>"
    define ord1 where "ord1 = ord\<lparr>o_requestedLines := None\<rparr>"
    note run = run [unfolded with_supplies_def Let_def, folded lines_def, folded pn_def s1_def]
    have s1: "ids_ok s1" unfolding s1_def by (rule ids_ok_same [OF assms(1)]) simp_all
    have tables [simp]: "db_parts s1 = db_parts s" "db_jobs s1 = db_jobs s" by (simp_all add: s1_def)
    consider (stock) "sups = [] \<or> plan_parts pn = []"
      | (partial) "\<not> (sups = [] \<or> plan_parts pn = [])" "\<not> plan_fullyCovered pn \<and> \<not> force
          \<and> \<not> (o_acceptPartialFulfilment ord \<and> shortfallRatio pn (required_of lines) \<le> PARTIAL_FULFILMENT_TOLERANCE)"
      | (split) "\<not> (sups = [] \<or> plan_parts pn = [])" "1 < length (plan_parts pn)" "\<not> (\<not> plan_fullyCovered pn \<and> \<not> force
          \<and> \<not> (o_acceptPartialFulfilment ord \<and> shortfallRatio pn (required_of lines) \<le> PARTIAL_FULFILMENT_TOLERANCE))"
      | (single) pl where "sups \<noteq> []" "plan_parts pn = [pl]" "\<not> (\<not> plan_fullyCovered pn \<and> \<not> force
          \<and> \<not> (o_acceptPartialFulfilment ord \<and> shortfallRatio pn (required_of lines) \<le> PARTIAL_FULFILMENT_TOLERANCE))"
      using length_one by blast
    then show ?thesis
    proof cases
      case stock
      then show ?thesis using run assms(5) by (auto simp: markExhausted_apply k)
    next
      case partial
      then show ?thesis using run assms(5) by (auto simp: k lines_def)
    next
      case split
      then show ?thesis using run assms(5) by (auto simp: k lines_def)
    next
      case single
      have go: "bind (createParts W ord1 [pl] (byKey_of lines) (length (parts_of k s1)) (Suc (o_allocationRound ord))) (\<lambda>_.
          bind (recalculateTotals (ord1\<lparr>o_allocationRound := Suc (o_allocationRound ord),
            o_status := AWAITING_APPROVAL\<rparr>)) (\<lambda>_. ret (ALLOCATED 1))) s1 = (Inr out, s')"
        using run assms(5) single by (auto simp: ord1_def)
      obtain c where c: "part_charge s1 ord1 (pp_distance pl) = Some c"
      proof (cases "part_charge s1 ord1 (pp_distance pl)")
        case None
        from createPart_refused [OF s1 this, of W "byKey_of lines" "length (parts_of k s1) + 1" "Suc (o_allocationRound ord)"]
        obtain s2 where "createPart W ord1 pl (byKey_of lines) (length (parts_of k s1) + 1)
            (Suc (o_allocationRound ord)) s1 = (Inl NotFound, s2)" by blast
        with go show ?thesis by (simp add: createParts_def bind_def)
      qed
      have "o_id ord1 = k" by (simp add: ord1_def k)
      from allocate_one [OF s1 this c, of W "byKey_of lines" "Suc (o_allocationRound ord)"] go plan(1)
      show ?thesis by (auto simp: ord1_def)
    qed
  qed
qed


lemma failure_of_allocate:
  assumes "ids_ok s" and "pairs_unique s" and "distinct (map wh_id (db_warehouses s))"
    and "find_order k s = Some ord" and "allocate W k req force s = (Inl e, s')"
  shows "e = NotFound \<and> o_fulfilmentMode ord = DELIVERY \<and> current_rate s = None
    \<and> (\<exists>p. db_parts s' = db_parts s @ [p] \<and> p_orderId p = k \<and> p_status p = P_OFFERED)
    \<and> db_offers s' = db_offers s \<and> db_jobs s' = db_jobs s \<and> db_orders s' = db_orders s"
proof -
  have k: "o_id ord = k" by (rule find_order_id [OF assms(4)])
  have rounds: "o_allocationRound ord < MAX_ALLOCATION_ROUNDS"
    using assms(4,5) by (rule_tac ccontr) (simp add: allocate_def bind_def markExhausted_apply)
  have some: "alloc_lines k req s \<noteq> []"
    using assms(4,5) rounds by (rule_tac notI) (simp add: allocate_def alloc_lines_def [symmetric])
  obtain sups d where
    run: "allocate W k req force s
        = with_supplies W k ord (alloc_lines k req s) force sups (s\<lparr>db_distances := d\<rparr>)"
    by (rule allocate_steps [OF assms(2,3,4) rounds some, where W = W and force = force])
  define lines where "lines = alloc_lines k req s"
  define pn where "pn = planAllocation (required_of lines) sups"
  define s1 where "s1 = s\<lparr>db_distances := d\<rparr>"
  define ord1 where "ord1 = ord\<lparr>o_requestedLines := None\<rparr>"
  note run = run [unfolded with_supplies_def Let_def, folded lines_def, folded pn_def s1_def]
  have s1: "ids_ok s1" unfolding s1_def by (rule ids_ok_same [OF assms(1)]) simp_all
  have "plan_parts pn \<noteq> []" "\<not> 1 < length (plan_parts pn)"
    using run assms(5) by (auto split: if_splits)
  then obtain pl where pl: "plan_parts pn = [pl]" using length_one by blast
  have go: "bind (createParts W ord1 [pl] (byKey_of lines) (length (parts_of k s1)) (Suc (o_allocationRound ord))) (\<lambda>_.
      bind (recalculateTotals (ord1\<lparr>o_allocationRound := Suc (o_allocationRound ord),
        o_status := AWAITING_APPROVAL\<rparr>)) (\<lambda>_. ret (ALLOCATED 1))) s1 = (Inl e, s')"
    using run assms(5) pl by (auto simp: ord1_def split: if_splits)
  have none: "part_charge s1 ord1 (pp_distance pl) = None"
  proof (rule ccontr)
    assume "part_charge s1 ord1 (pp_distance pl) \<noteq> None"
    then obtain c where c: "part_charge s1 ord1 (pp_distance pl) = Some c" by blast
    have "o_id ord1 = k" by (simp add: ord1_def k)
    from allocate_one [OF s1 this c, of W "byKey_of lines" "Suc (o_allocationRound ord)"] go
    show False by auto
  qed
  from createPart_refused [OF s1 none, of W "byKey_of lines" "length (parts_of k s1) + 1" "Suc (o_allocationRound ord)"]
  obtain p s2 where refused: "createPart W ord1 pl (byKey_of lines) (length (parts_of k s1) + 1)
        (Suc (o_allocationRound ord)) s1 = (Inl NotFound, s2)" "p_orderId p = o_id ord1" "p_status p = P_OFFERED"
      "db_parts s2 = db_parts s1 @ [p]" "db_offers s2 = db_offers s1" "db_jobs s2 = db_jobs s1"
      "db_orders s2 = db_orders s1" by blast
  then have "e = NotFound" "s' = s2" using go by (simp_all add: createParts_def bind_def)
  moreover have "o_fulfilmentMode ord = DELIVERY \<and> current_rate s = None"
    using none by (auto simp: part_charge_def ord1_def s1_def current_rate_def split: if_splits)
  ultimately show ?thesis using refused by (auto simp: s1_def ord1_def k)
qed

text \<open>C8: the one way an allocation fails: the buyer wants delivery and no delivery rate is set.  The
  exception leaves behind a part that is offered to its warehouse but has no offer on the ledger
  and was never pushed, and the order as it was.\<close>

theorem allocate_failure:
  assumes "ids_ok s" and "pairs_unique s" and "distinct (map wh_id (db_warehouses s))"
    and "find_order k s = Some ord" and "allocate W k req force s = (Inl e, s')"
  shows "e = NotFound \<and> o_fulfilmentMode ord = DELIVERY \<and> current_rate s = None
    \<and> (\<exists>p. db_parts s' = db_parts s @ [p] \<and> p_orderId p = k \<and> p_status p = P_OFFERED)
    \<and> db_offers s' = db_offers s \<and> db_jobs s' = db_jobs s \<and> db_orders s' = db_orders s"
  using assms by (rule failure_of_allocate)

section \<open>An order of the example governorate\<close>

definition ex_order :: order where
  "ex_order = \<lparr>o_id = ''o1'', o_orderNumber = ''ORD-1'', o_buyerAccountId = ''acc'', o_buyerRole = FACTORY,
     o_buyerProfileId = ''buyer'', o_provinceId = Some ''dam'', o_status = PENDING_ALLOCATION,
     o_fulfilmentMode = DELIVERY, o_consolidate = False, o_consolidationWarehouseId = None,
     o_acceptPartialFulfilment = False, o_allocationRound = 0, o_requestedLines = None,
     o_goodsTotal = 0, o_deliveryTotal = 0, o_grandTotal = 0, o_currency = ''SYP'',
     o_preparingAt = None, o_deliveredAt = None, o_completedAt = None, o_cancelledAt = None,
     o_cancelReason = None, o_createdAt = 500\<rparr>"

definition ex_inventory :: "warehouse_inventory list" where
  "ex_inventory =
    [\<lparr>i_warehouseId = ''wa'', i_odooProductId = 7, i_conditionCode = ''UNGRADED'', i_quantity = 50, i_reservedQuantity = 10\<rparr>,
     \<lparr>i_warehouseId = ''wb'', i_odooProductId = 7, i_conditionCode = ''UNGRADED'', i_quantity = 30, i_reservedQuantity = 0\<rparr>,
     \<lparr>i_warehouseId = ''wc'', i_odooProductId = 7, i_conditionCode = ''UNGRADED'', i_quantity = 900, i_reservedQuantity = 0\<rparr>]"

definition ex_alloc_store :: store where
  "ex_alloc_store = ex_map_store\<lparr>db_orders := [ex_order], db_inventory := ex_inventory, db_rates := [ex_rate]\<rparr>"

definition ex_lines :: "rat \<Rightarrow> requested_line list" where
  "ex_lines q = [\<lparr>rq_productId = ''p7'', rq_odooProductId = 7, rq_productName = ''steel'',
     rq_conditionCode = None, rq_quantity = q, rq_unitType = ''KG'', rq_unitPrice = 100\<rparr>]"

lemma ex_single_outcome:
  "fst (allocate ex_map_world ''o1'' (Some (ex_lines 40)) False ex_alloc_store) = Inr (ALLOCATED 1)"
  by code_simp

lemma ex_split_outcome:
  "fst (allocate ex_map_world ''o1'' (Some (ex_lines 60)) False ex_alloc_store) = Inr (ALLOCATED 2)"
  by code_simp

lemma ex_no_rate_outcome:
  "fst (allocate ex_map_world ''o1'' (Some (ex_lines 40)) False (ex_alloc_store\<lparr>db_rates := []\<rparr>)) = Inl NotFound"
  by code_simp

lemma ex_alloc_ok:
  "ids_ok (ex_alloc_store\<lparr>db_rates := rs\<rparr>)" "pairs_unique (ex_alloc_store\<lparr>db_rates := rs\<rparr>)"
  "distinct (map wh_id (db_warehouses (ex_alloc_store\<lparr>db_rates := rs\<rparr>)))"
  "exact_inventory (ex_alloc_store\<lparr>db_rates := rs\<rparr>)"
  "find_order ''o1'' (ex_alloc_store\<lparr>db_rates := rs\<rparr>) = Some ex_order"
proof -
  have "inj (\<lambda>n. replicate n CHR ''u'')" by (rule injI) (simp add: replicate_eq_replicate)
  moreover have "replicate n CHR ''u'' \<noteq> ''o1''" for n
    by (cases n) (simp_all add: replicate_append_same [symmetric])
  ultimately show "ids_ok (ex_alloc_store\<lparr>db_rates := rs\<rparr>)"
    by (simp add: ids_ok_def store_ids_def ex_alloc_store_def ex_map_store_def ex_store_def ex_order_def)
  show "pairs_unique (ex_alloc_store\<lparr>db_rates := rs\<rparr>)"
    and "distinct (map wh_id (db_warehouses (ex_alloc_store\<lparr>db_rates := rs\<rparr>)))"
    and "exact_inventory (ex_alloc_store\<lparr>db_rates := rs\<rparr>)"
    and "find_order ''o1'' (ex_alloc_store\<lparr>db_rates := rs\<rparr>) = Some ex_order"
    by (simp_all add: pairs_unique_def exact_inventory_def ex_alloc_store_def ex_map_store_def ex_store_def
        ex_warehouses_def ex_inventory_def find_order_def ex_order_def)
qed

lemma ex_alloc_store_rates: "ex_alloc_store = ex_alloc_store\<lparr>db_rates := [ex_rate]\<rparr>"
  by (simp add: ex_alloc_store_def)

lemmas ex_alloc_store_ok = ex_alloc_ok [of "[ex_rate]", folded ex_alloc_store_rates]

lemma ex_lines_exact: "milli q \<Longrightarrow> 0 \<le> q \<Longrightarrow> exact_lines (ex_lines q)"
  by (simp add: exact_lines_def exact_request_def required_of_def ex_lines_def)

theorem allocate_single_witness:
  "\<exists>s'. allocate ex_map_world ''o1'' (Some (ex_lines 40)) False ex_alloc_store = (Inr (ALLOCATED 1), s')
     \<and> (\<exists>ord'. find_order ''o1'' s' = Some ord' \<and> o_status ord' = AWAITING_APPROVAL)
     \<and> (\<exists>p. db_jobs s' = [(None, PUSH_ORDER_PART p)])"
proof -
  obtain s' where run: "allocate ex_map_world ''o1'' (Some (ex_lines 40)) False ex_alloc_store = (Inr (ALLOCATED 1), s')"
    using ex_single_outcome by (metis prod.collapse)
  have "db_jobs ex_alloc_store = []" by (simp add: ex_alloc_store_def ex_map_store_def ex_store_def)
  then show ?thesis
    using allocate_single [OF ex_alloc_store_ok(1-5) _ run] run ex_lines_exact [of 40]
    by (fastforce simp: alloc_lines_def)
qed


theorem allocate_failure_witness:
  "\<exists>s' p. allocate ex_map_world ''o1'' (Some (ex_lines 40)) False (ex_alloc_store\<lparr>db_rates := []\<rparr>) = (Inl NotFound, s')
     \<and> db_parts s' = [p] \<and> db_offers s' = []"
proof -
  obtain s' where run: "allocate ex_map_world ''o1'' (Some (ex_lines 40)) False (ex_alloc_store\<lparr>db_rates := []\<rparr>) = (Inl NotFound, s')"
    using ex_no_rate_outcome by (metis prod.collapse)
  have "db_parts ex_alloc_store = []" "db_offers ex_alloc_store = []"
    by (simp_all add: ex_alloc_store_def ex_map_store_def ex_store_def)
  then show ?thesis using allocate_failure [OF ex_alloc_ok(1-3,5) run] run by auto
qed

end
