(* ===== verification/OrderFrame.thy ===== *)
theory OrderFrame
  imports OrderAllocation
begin

text \<open>
  What the order services never touch.  The allocator writes orders, parts, lines, the distance
  cache, the queue and the events, and puts new offers on the ledger; the locale \<open>allocation_frame\<close>
  is the interface of a fact that these writes keep, and each of its lemmas says that a step of the
  allocation keeps it.  The handlers around the allocator also answer and withdraw offers: the
  locale \<open>order_frame\<close> is the interface of a fact about the rest of the database.
\<close>

lemma upsert_keys:
  "map (\<lambda>c. (dc_buyerProfileId c, dc_warehouseId c)) (upsert_distance r rows) =
     (let ks = map (\<lambda>c. (dc_buyerProfileId c, dc_warehouseId c)) rows;
          k = (dc_buyerProfileId r, dc_warehouseId r)
      in if k \<in> set ks then ks else ks @ [k])"
  by (induction rows) (auto simp: Let_def)

lemma keeps_pairs_persist: "keeps pairs_unique (persist b es)"
  unfolding persist_def
  by (intro keeps_rules) (simp add: keeps_def pairs_unique_def upsert_keys Let_def)

locale allocation_frame =
  fixes I :: "store \<Rightarrow> bool" and W :: world
  assumes order_rows: "I s \<Longrightarrow> I (s\<lparr>db_orders := x1\<rparr>)" and part_rows: "I s \<Longrightarrow> I (s\<lparr>db_parts := x2\<rparr>)"
    and line_rows: "I s \<Longrightarrow> I (s\<lparr>db_lines := x3\<rparr>)" and id_rows: "I s \<Longrightarrow> I (s\<lparr>db_next := x6\<rparr>)"
    and job_rows: "I s \<Longrightarrow> I (s\<lparr>db_jobs := x7\<rparr>)" and event_rows: "I s \<Longrightarrow> I (s\<lparr>db_events := x8\<rparr>)"
    and new_offers: "I s \<Longrightarrow> I (s\<lparr>db_offers := tbl_save f_id (new_offer W i p ord pl n) (db_offers s)\<rparr>)"
    and keeps_cache: "keeps I (persist b es)"
begin

lemma keeps_writes: "(\<And>s. I s \<Longrightarrow> I (f s)) \<Longrightarrow> keeps I (writes f)"
  by (simp add: keeps_def)

lemma keeps_save_order: "keeps I (save_order ord)"
  unfolding save_order_def by (rule keeps_writes) (intro order_rows event_rows)

lemma keeps_save_part: "keeps I (save_part p)"
  unfolding save_part_def by (rule keeps_writes) (rule part_rows)

lemma keeps_save_line: "keeps I (save_line l)"
  unfolding save_line_def by (rule keeps_writes) (rule line_rows)

lemma keeps_new_offer: "keeps I (save_offer (new_offer W i p ord pl n))"
  unfolding save_offer_def by (rule keeps_writes) (rule new_offers)

lemma keeps_fresh_id: "keeps I fresh_id"
  by (simp add: keeps_def fresh_id_def id_rows)

lemma keeps_enqueue: "keeps I (enqueue j x)"
  unfolding enqueue_def by (rule keeps_writes) (simp add: job_rows)

lemmas steps = keeps_rules keeps_save_order keeps_save_part keeps_save_line keeps_new_offer
  keeps_fresh_id keeps_enqueue

lemma keeps_rank: "keeps I (rankWarehouses W b p n ids)"
  unfolding rankWarehouses_def resolveDistances_def by (intro steps keeps_cache)

lemma keeps_supplies: "keeps I (buildSupplies W ord lines)"
  unfolding buildSupplies_def by (intro steps keeps_rank)

lemma keeps_createPart: "keeps I (createPart W ord pl byKey sequence roundNo)"
  unfolding createPart_def createLine_def finishPart_def enqueuePushOrderPart_def by (intro steps)

lemma keeps_createParts: "keeps I (createParts W ord pls byKey existing roundNo)"
  unfolding createParts_def by (intro steps keeps_createPart)

lemma keeps_recalculate: "keeps I (recalculateTotals ord)"
  unfolding recalculateTotals_def by (intro steps)

lemma keeps_exhausted: "keeps I (markExhausted ord)"
  unfolding markExhausted_def by (intro steps)

lemma keeps_allocate: "keeps I (allocate W k req force)"
  unfolding allocate_def by (intro steps keeps_supplies keeps_createParts keeps_recalculate keeps_exhausted)

lemma keeps_createSplitParts: "keeps I (createSplitParts W ord requested ids)"
  unfolding createSplitParts_def by (intro steps keeps_supplies keeps_createParts keeps_recalculate)

lemma keeps_approveSplit: "keeps I (approveSplit W k)"
  unfolding approveSplit_def by (intro steps keeps_supplies keeps_createSplitParts)

lemma keeps_rejectSplit: "keeps I (rejectSplit k reason)"
  unfolding rejectSplit_def by (intro steps)

end

locale order_frame =
  fixes I :: "store \<Rightarrow> bool"
  assumes orders: "I s \<Longrightarrow> I (s\<lparr>db_orders := x1\<rparr>)" and parts: "I s \<Longrightarrow> I (s\<lparr>db_parts := x2\<rparr>)"
    and lines: "I s \<Longrightarrow> I (s\<lparr>db_lines := x3\<rparr>)" and offers: "I s \<Longrightarrow> I (s\<lparr>db_offers := x4\<rparr>)"
    and distances: "I s \<Longrightarrow> I (s\<lparr>db_distances := x5\<rparr>)" and ids: "I s \<Longrightarrow> I (s\<lparr>db_next := x6\<rparr>)"
    and jobs: "I s \<Longrightarrow> I (s\<lparr>db_jobs := x7\<rparr>)" and events: "I s \<Longrightarrow> I (s\<lparr>db_events := x8\<rparr>)"

sublocale order_frame \<subseteq> allocation_frame I W for W
proof (unfold_locales, goal_cases)
  case (8 b es)
  show ?case
    unfolding persist_def by (intro keeps_rules) (simp add: keeps_def distances)
qed (simp_all add: orders parts lines offers ids jobs events)

context order_frame
begin

lemma keeps_withdraw: "keeps I (withdraw_offers W k)"
  unfolding withdraw_offers_def by (rule keeps_writes) (rule offers)

lemma keeps_applyModification: "keeps I (applyModification W k ids)"
  unfolding applyModification_def enqueueCancelOrderPart_def
  by (intro steps keeps_withdraw keeps_supplies keeps_createSplitParts keeps_createParts keeps_recalculate)

end

interpretation basket_frame: order_frame "\<lambda>s. db_cartItems s = its" for its
  by unfold_locales simp_all

interpretation shop_frame: order_frame "\<lambda>s. db_pricing s = prices \<and> db_promos s = promos" for prices promos
  by unfold_locales simp_all

interpretation stock_frame: order_frame "\<lambda>s. db_inventory s = rows \<and> db_warehouses s = whs" for rows whs
  by unfold_locales simp_all

text \<open>Cached distances stay one per pair, and an offer made now is not overdue.\<close>

interpretation pairs_frame: allocation_frame pairs_unique W for W
proof (unfold_locales, goal_cases)
  case (8 b es)
  show ?case by (simp add: keeps_pairs_persist)
qed (simp_all add: pairs_unique_def)

definition none_overdue :: "world \<Rightarrow> store \<Rightarrow> bool" where
  "none_overdue W s \<longleftrightarrow> (\<forall>f \<in> set (db_offers s). f_status f = F_OFFERED \<longrightarrow> w_now W \<le> f_expiresAt f)"

interpretation deadline_frame: allocation_frame "none_overdue W" W for W
proof (unfold_locales, goal_cases)
  case (7 s i p ord pl n)
  then show ?case
    by (auto simp: none_overdue_def new_offer_def OFFER_EXPIRY_HOURS_def dest!: subsetD [OF set_tbl_save_subset])
next
  case (8 b es)
  show ?case unfolding persist_def by (intro keeps_rules) (simp add: keeps_def none_overdue_def)
qed (simp_all add: none_overdue_def)

end
