(* ===== verification/OrderCheckout.thy ===== *)
theory OrderCheckout
  imports Cart AllocationOutcomes OrderFrame
begin

text \<open>
  \<open>order/providers/order-checkout.service.ts\<close>: the moment of commitment (from the basket, or typed in
  by the administrator for a buyer) and the buyer's own decisions afterwards: cancelling, answering
  a partial offer, acknowledging a refusal.
\<close>

section \<open>Checkout\<close>

record checkout_item =
  xi_productId :: ident
  xi_quantity :: rat
  xi_conditionCode :: "string option"
  xi_unitType :: "string option"

definition item_of_cart :: "cart_item \<Rightarrow> checkout_item" where
  "item_of_cart it = \<lparr>xi_productId = ci_productId it, xi_quantity = ci_quantity it,
     xi_conditionCode = ci_conditionCode it, xi_unitType = Some (ci_unitType it)\<rparr>"

text \<open>One round of the loop: refuse what cannot be ordered or has no price, then freeze the line.\<close>

definition toRequestedLine :: "world \<Rightarrow> role \<Rightarrow> checkout_item \<Rightarrow> requested_line action" where
  "toRequestedLine W r item =
     bind (reads (\<lambda>s. tbl_find pd_id (xi_productId item) (db_products s))) (\<lambda>found.
     case found of None \<Rightarrow> throw BadRequest | Some material \<Rightarrow>
     (case pd_odooProductId material of None \<Rightarrow> throw BadRequest | Some pid \<Rightarrow>
     bind (refuse_if (pid = 0) BadRequest) (\<lambda>_.
     bind (assertSellable W (pd_id material) (tierForRole r) (xi_conditionCode item)) (\<lambda>_.
     bind (reads (effectivePrice W (pd_id material) r (xi_conditionCode item))) (\<lambda>effective.
     case effective of None \<Rightarrow> throw Crash | Some ep \<Rightarrow>
     ret \<lparr>rq_productId = xi_productId item, rq_odooProductId = pid, rq_productName = pd_name material,
        rq_conditionCode = xi_conditionCode item, rq_quantity = xi_quantity item,
        rq_unitType = (case xi_unitType item of None \<Rightarrow> pd_unitType material | Some u \<Rightarrow> u),
        rq_unitPrice = ep_price ep\<rparr>)))))"

definition toRequestedLines :: "world \<Rightarrow> role \<Rightarrow> checkout_item list \<Rightarrow> requested_line list action" where
  "toRequestedLines W r items = collect items (toRequestedLine W r)"

definition nextOrderNumber :: "world \<Rightarrow> store \<Rightarrow> string" where
  "nextOrderNumber W s =
     (let (year, month) = w_yearMonth W (w_now W);
          prefix = ''ORD-'' @ show_nat year @ padStart 2 (show_nat month);
          used = length (db_orders s)
      in prefix @ ''-'' @ padStart 5 (show_nat (used + 1)))"

record checkout_result =
  xr_orderId :: ident
  xr_orderNumber :: string
  xr_status :: "order_status option"
  xr_goodsTotal :: rat
  xr_currency :: string
  xr_mode :: fulfilment_mode
  xr_deliveryAvailable :: bool
  xr_allocation :: allocation_outcome

definition new_order ::
    "world \<Rightarrow> ident \<Rightarrow> string \<Rightarrow> ident \<Rightarrow> role \<Rightarrow> ident \<Rightarrow> ident \<Rightarrow> fulfilment_mode \<Rightarrow> bool \<Rightarrow> rat \<Rightarrow> string \<Rightarrow> order" where
  "new_order W i number accountId r profileId provinceId mode partialOk goodsTotal currency =
     \<lparr>o_id = i, o_orderNumber = number, o_buyerAccountId = accountId, o_buyerRole = r,
      o_buyerProfileId = profileId, o_provinceId = Some provinceId, o_status = PENDING_ALLOCATION,
      o_fulfilmentMode = mode, o_consolidate = False, o_consolidationWarehouseId = None,
      o_acceptPartialFulfilment = partialOk, o_allocationRound = 0, o_requestedLines = None,
      o_goodsTotal = goodsTotal, o_deliveryTotal = 0, o_grandTotal = goodsTotal, o_currency = currency,
      o_preparingAt = None, o_deliveredAt = None, o_completedAt = None, o_cancelledAt = None,
      o_cancelReason = None, o_createdAt = w_now W\<rparr>"

text \<open>From the saved order on, the two checkouts do the same.\<close>

definition handOver ::
    "world \<Rightarrow> order \<Rightarrow> requested_line list \<Rightarrow> checkout_result action" where
  "handOver W ord lines =
     bind (allocate W (o_id ord) (Some lines) False) (\<lambda>outcome.
     reads (\<lambda>s. \<lparr>xr_orderId = o_id ord, xr_orderNumber = o_orderNumber ord,
       xr_status = map_option o_status (find_order (o_id ord) s), xr_goodsTotal = o_goodsTotal ord,
       xr_currency = o_currency ord, xr_mode = o_fulfilmentMode ord,
       xr_deliveryAvailable = canUseDelivery (o_buyerRole ord), xr_allocation = outcome\<rparr>))"

record checkout_input =
  xc_accountId :: ident
  xc_role :: role
  xc_profileId :: ident
  xc_provinceId :: "ident option"
  xc_fulfilmentMode :: "fulfilment_mode option"
  xc_acceptPartial :: "bool option"

definition basket_of :: "ident \<Rightarrow> store \<Rightarrow> (cart option \<times> cart_item list)" where
  "basket_of accountId s = (case cart_of accountId s of None \<Rightarrow> (None, [])
     | Some c \<Rightarrow> (Some c, items_of (ct_id c) s))"

text \<open>Everything up to the first write: the checks, the frozen lines.\<close>

definition checkoutChecks ::
    "world \<Rightarrow> checkout_input \<Rightarrow> (ident \<times> ident \<times> rat \<times> string \<times> requested_line list) action" where
  "checkoutChecks W input =
     (case xc_provinceId input of None \<Rightarrow> throw BadRequest | Some provinceId \<Rightarrow>
     bind (reads (basket_of (xc_accountId input))) (\<lambda>(cart, items).
     case cart of None \<Rightarrow> throw BadRequest | Some c \<Rightarrow>
     bind (refuse_if (items = []) BadRequest) (\<lambda>_.
     let goodsTotal = round3 (sum_list (map ci_subtotal items)) in
     bind (reads (min_check (xc_role input) goodsTotal)) (\<lambda>check.
     bind (refuse_if (\<not> mc_passed check) BadRequest) (\<lambda>_.
     bind (reads (cap_check W (xc_role input) (xc_accountId input) goodsTotal)) (\<lambda>cap.
     bind (refuse_if (\<not> sk_passed cap) BadRequest) (\<lambda>_.
     bind (toRequestedLines W (xc_role input) (map item_of_cart items)) (\<lambda>lines.
     ret (provinceId, ct_id c, goodsTotal, mc_currency check, lines)))))))))"

definition checkout :: "world \<Rightarrow> checkout_input \<Rightarrow> checkout_result action" where
  "checkout W input =
     bind (checkoutChecks W input) (\<lambda>(provinceId, cartId, goodsTotal, currency, lines).
     let mode = resolveFulfilmentMode (xc_role input) (xc_fulfilmentMode input) in
     bind (reads (nextOrderNumber W)) (\<lambda>number.
     bind fresh_id (\<lambda>i.
     let ord = new_order W i number (xc_accountId input) (xc_role input) (xc_profileId input) provinceId mode
           (case xc_acceptPartial input of None \<Rightarrow> False | Some b \<Rightarrow> b) goodsTotal currency in
     bind (save_order ord) (\<lambda>_.
     bind (writes (\<lambda>s. s\<lparr>db_cartItems := filter (\<lambda>it. ci_cartId it \<noteq> cartId) (db_cartItems s)\<rparr>)) (\<lambda>_.
     handOver W ord lines)))))"

definition adminCheckout :: "world \<Rightarrow> checkout_input \<Rightarrow> checkout_item list \<Rightarrow> checkout_result action" where
  "adminCheckout W input items =
     (case xc_provinceId input of None \<Rightarrow> throw BadRequest | Some provinceId \<Rightarrow>
     bind (refuse_if (items = []) BadRequest) (\<lambda>_.
     bind (toRequestedLines W (xc_role input) items) (\<lambda>lines.
     let goodsTotal = round3 (sum_list (map (\<lambda>l. rq_quantity l * rq_unitPrice l) lines)) in
     bind (reads (min_check (xc_role input) goodsTotal)) (\<lambda>check.
     let mode = resolveFulfilmentMode (xc_role input) (xc_fulfilmentMode input) in
     bind (reads (nextOrderNumber W)) (\<lambda>number.
     bind fresh_id (\<lambda>i.
     let ord = new_order W i number (xc_accountId input) (xc_role input) (xc_profileId input) provinceId mode
           (case xc_acceptPartial input of None \<Rightarrow> False | Some b \<Rightarrow> b) goodsTotal (mc_currency check) in
     bind (save_order ord) (\<lambda>_.
     handOver W ord lines)))))))"

section \<open>The buyer's decisions\<close>

text \<open>\<open>!order || order.buyerAccountId !== accountId\<close>: the same answer for both.\<close>

definition mine_or_throw :: "ident \<Rightarrow> ident \<Rightarrow> order action" where
  "mine_or_throw accountId orderId =
     bind (reads (find_order orderId)) (\<lambda>found. case found of None \<Rightarrow> throw NotFound
     | Some ord \<Rightarrow> bind (refuse_if (o_buyerAccountId ord \<noteq> accountId) NotFound) (\<lambda>_. ret ord))"

definition reserving_parts :: "ident \<Rightarrow> store \<Rightarrow> order_part list" where
  "reserving_parts orderId s = filter (\<lambda>p. List.member RESERVING_PART_STATUSES (p_status p)) (parts_of orderId s)"

definition cancelTx :: "world \<Rightarrow> ident \<Rightarrow> ident \<Rightarrow> string option \<Rightarrow> ident list action" where
  "cancelTx W accountId orderId reason =
     bind (mine_or_throw accountId orderId) (\<lambda>ord.
     bind (refuse_if (\<not> List.member BUYER_CANCELLABLE_STATUSES (o_status ord)) Conflict) (\<lambda>_.
     bind (save_order (ord\<lparr>o_status := CANCELLED, o_cancelledAt := Some (w_now W), o_cancelReason := reason\<rparr>)) (\<lambda>_.
     bind (reads (reserving_parts orderId)) (\<lambda>live.
     bind (for_each live (\<lambda>p. save_part (p\<lparr>p_status := P_CANCELLED, p_stockReserved := False\<rparr>))) (\<lambda>_.
     bind (withdraw_offers W orderId) (\<lambda>_.
     ret (map p_id live)))))))"

definition cancel :: "world \<Rightarrow> ident \<Rightarrow> ident \<Rightarrow> string option \<Rightarrow> nat action" where
  "cancel W accountId orderId reason =
     bind (transactional (cancelTx W accountId orderId reason)) (\<lambda>partIds.
     bind (for_each partIds (\<lambda>i. enqueueCancelOrderPart i
       (case reason of None \<Rightarrow> ''Cancelled by the buyer'' | Some r \<Rightarrow> r))) (\<lambda>_.
     ret (length partIds)))"

definition respondTx :: "world \<Rightarrow> ident \<Rightarrow> ident \<Rightarrow> bool \<Rightarrow> requested_line list option action" where
  "respondTx W accountId orderId accept =
     bind (mine_or_throw accountId orderId) (\<lambda>ord.
     bind (refuse_if (o_status ord \<noteq> NEEDS_CUSTOMER_DECISION) Conflict) (\<lambda>_.
     if \<not> accept then
       bind (save_order (ord\<lparr>o_status := CANCELLED, o_cancelledAt := Some (w_now W),
           o_cancelReason := Some ''Buyer declined the available quantity'', o_requestedLines := None\<rparr>)) (\<lambda>_.
       ret None)
     else
       let lines = pending_lines ord in
       bind (refuse_if (lines = []) Conflict) (\<lambda>_.
       bind (save_order (ord\<lparr>o_status := PENDING_ALLOCATION\<rparr>)) (\<lambda>_.
       ret (Some lines)))))"

text \<open>The answer is \<open>None\<close> when the order was cancelled, else the outcome of the allocation.\<close>

definition respondToPartial :: "world \<Rightarrow> ident \<Rightarrow> ident \<Rightarrow> bool \<Rightarrow> allocation_outcome option action" where
  "respondToPartial W accountId orderId accept =
     bind (transactional (respondTx W accountId orderId accept)) (\<lambda>snapshot.
     case snapshot of None \<Rightarrow> ret None
     | Some lines \<Rightarrow> bind (allocate W orderId (Some lines) True) (\<lambda>outcome. ret (Some outcome)))"

definition confirmRejection :: "world \<Rightarrow> ident \<Rightarrow> ident \<Rightarrow> unit action" where
  "confirmRejection W accountId orderId =
     transactional (
       bind (mine_or_throw accountId orderId) (\<lambda>ord.
       bind (refuse_if (o_status ord \<noteq> REJECTED_AWAITING_BUYER) Conflict) (\<lambda>_.
       save_order (ord\<lparr>o_status := CANCELLED, o_cancelledAt := Some (w_now W), o_cancelReason :=
         Some ''Order could not be fulfilled - declined by the administrator and confirmed by the buyer''\<rparr>))))"

section \<open>Facts\<close>

subsection \<open>The checks write nothing\<close>

text \<open>\<open>readonly m\<close>: whatever \<open>m\<close> answers, it leaves the store alone.\<close>

definition readonly :: "'a action \<Rightarrow> bool" where
  "readonly m \<longleftrightarrow> (\<forall>s. snd (m s) = s)"

lemma readonly_keeps: "readonly m \<longleftrightarrow> (\<forall>s0. keeps (\<lambda>s. s = s0) m)"
  by (auto simp: readonly_def keeps_def)

lemma readonlyD: "readonly m \<Longrightarrow> m s = (r, s') \<Longrightarrow> s' = s"
  by (metis readonly_def snd_conv)

lemma readonly_toRequestedLine: "readonly (toRequestedLine W r item)"
  unfolding readonly_keeps toRequestedLine_def assertSellable_def by (intro allI keeps_rules)

lemma readonly_toRequestedLines: "readonly (toRequestedLines W r items)"
  using readonly_toRequestedLine unfolding readonly_keeps toRequestedLines_def by (intro allI keeps_rules) blast

lemma readonly_checkoutChecks: "readonly (checkoutChecks W input)"
  using readonly_toRequestedLines unfolding readonly_keeps checkoutChecks_def by (intro allI keeps_rules) blast+

lemma readonly_mine_or_throw: "readonly (mine_or_throw accountId orderId)"
  unfolding readonly_keeps mine_or_throw_def by (intro allI keeps_rules)

lemma collect_readonly:
  assumes "\<And>x. readonly (f x)" and "collect xs f s = (Inr ys, s')"
  shows "list_all2 (\<lambda>x y. f x s = (Inr y, s)) xs ys"
  using assms(2)
proof (induction xs arbitrary: ys s')
  case (Cons x xs)
  then obtain y s1 zs s2 where one: "f x s = (Inr y, s1)" and rest: "collect xs f s1 = (Inr zs, s2)"
    and ys: "ys = y # zs"
    by (auto simp: bind_Inr_iff)
  have "s1 = s" by (rule readonlyD [OF assms(1) one])
  then show ?case using Cons.IH [of zs s2] one rest ys by simp
qed simp

lemma toRequestedLine_result:
  assumes "toRequestedLine W r item s = (Inr l, s')"
  obtains material ep where "tbl_find pd_id (xi_productId item) (db_products s) = Some material"
    and "effectivePrice W (xi_productId item) r (xi_conditionCode item) s = Some ep"
    and "rq_productId l = xi_productId item" and "rq_quantity l = xi_quantity item"
    and "rq_conditionCode l = xi_conditionCode item" and "rq_unitPrice l = ep_price ep"
  using assms tbl_find_SomeD [of pd_id "xi_productId item" "db_products s"]
  by (fastforce simp: toRequestedLine_def assertSellable_def bind_Inr_iff split: option.splits if_splits)

text \<open>A price that passed the check is there when it is charged: the lines never crash the checkout.\<close>

lemma toRequestedLines_error:
  "toRequestedLines W r items s = (Inl e, s') \<Longrightarrow> e = BadRequest"
proof -
  have one: "toRequestedLine W r item s = (Inl e, s') \<Longrightarrow> e = BadRequest" for item s s'
    by (auto simp: toRequestedLine_def assertSellable_def effectivePrice_def Let_def bind_Inl_iff bind_Inr_iff
        split: option.splits if_splits)
  show "toRequestedLines W r items s = (Inl e, s') \<Longrightarrow> e = BadRequest"
    unfolding toRequestedLines_def
  proof (induction items arbitrary: s)
    case (Cons x xs)
    then show ?case using one by (auto simp: bind_Inl_iff)
  qed simp
qed

lemma checkoutChecks_error:
  assumes "checkoutChecks W input s = (Inl e, s')"
  shows "e = BadRequest \<and> s' = s"
proof -
  have "s' = s" by (rule readonlyD [OF readonly_checkoutChecks assms])
  moreover have "e = BadRequest"
  proof (cases "xc_provinceId input")
    case (Some p)
    show ?thesis
    proof (cases "cart_of (xc_accountId input) s")
      case c: (Some c)
      let ?lines = "toRequestedLines W (xc_role input) (map item_of_cart (items_of (ct_id c) s))"
      show ?thesis
      proof (cases "?lines s")
        case (Pair r s1)
        then show ?thesis
          using assms Some c toRequestedLines_error [of W "xc_role input" "map item_of_cart (items_of (ct_id c) s)" s]
          by (cases r) (auto simp: checkoutChecks_def basket_of_def Let_def bind_def split: if_splits)
      qed
    qed (use assms Some in \<open>auto simp: checkoutChecks_def basket_of_def\<close>)
  qed (use assms in \<open>simp add: checkoutChecks_def\<close>)
  ultimately show ?thesis by simp
qed

subsection \<open>What a checkout writes before the allocation\<close>

definition placed :: "order \<Rightarrow> (cart_item \<Rightarrow> bool) \<Rightarrow> store \<Rightarrow> store" where
  "placed ord left s = s\<lparr>db_next := db_next s + 1, db_orders := db_orders s @ [ord],
     db_cartItems := filter left (db_cartItems s)\<rparr>"

lemma ids_ok_placed:
  assumes "ids_ok s" and "o_id ord = db_uuid s (db_next s)"
  shows "ids_ok (placed ord left s)"
  using assms ids_fresh(1) [OF assms(1)] unfolding placed_def
  by (intro ids_ok_step [OF assms(1)]) (auto simp: ids_ok_def store_ids_def)

lemma find_placed:
  assumes "ids_ok s" and "o_id ord = db_uuid s (db_next s)"
  shows "find_order (o_id ord) s = None" "find_order (o_id ord) (placed ord left s) = Some ord"
proof -
  have fresh: "o_id ord \<notin> o_id ` set (db_orders s)" using ids_fresh(1) [OF assms(1)] assms(2) by simp
  then show "find_order (o_id ord) s = None" by (simp add: find_order_def tbl_find_None_iff)
  have "o_id ord \<notin> o_id ` set xs \<Longrightarrow> tbl_find o_id (o_id ord) (xs @ [ord]) = Some ord" for xs
    by (induction xs) auto
  from this [OF fresh] have "tbl_find o_id (o_id ord) (db_orders s @ [ord]) = Some ord" .
  then show "find_order (o_id ord) (placed ord left s) = Some ord" by (simp add: find_order_def placed_def)
qed

definition order_of_checkout ::
    "world \<Rightarrow> checkout_input \<Rightarrow> ident \<Rightarrow> rat \<Rightarrow> string \<Rightarrow> store \<Rightarrow> order" where
  "order_of_checkout W input provinceId goodsTotal currency s =
     new_order W (db_uuid s (db_next s)) (nextOrderNumber W s) (xc_accountId input) (xc_role input)
       (xc_profileId input) provinceId (resolveFulfilmentMode (xc_role input) (xc_fulfilmentMode input))
       (case xc_acceptPartial input of None \<Rightarrow> False | Some b \<Rightarrow> b) goodsTotal currency"

lemma order_of_checkout_simps [simp]:
  "o_id (order_of_checkout W input p g cur s) = db_uuid s (db_next s)"
  "o_buyerAccountId (order_of_checkout W input p g cur s) = xc_accountId input"
  "o_status (order_of_checkout W input p g cur s) = PENDING_ALLOCATION"
  "o_allocationRound (order_of_checkout W input p g cur s) = 0"
  "o_fulfilmentMode (order_of_checkout W input p g cur s)
     = resolveFulfilmentMode (xc_role input) (xc_fulfilmentMode input)"
  "o_goodsTotal (order_of_checkout W input p g cur s) = g"
  by (simp_all add: order_of_checkout_def new_order_def)

lemma checkout_run:
  assumes "ids_ok s" and "checkoutChecks W input s = (Inr (p, cartId, g, cur, ls), s)"
  shows "checkout W input s = handOver W (order_of_checkout W input p g cur s) ls
    (placed (order_of_checkout W input p g cur s) (\<lambda>it. ci_cartId it \<noteq> cartId) s)"
proof -
  let ?ord = "order_of_checkout W input p g cur s"
  have fresh: "o_id ?ord \<notin> o_id ` set (db_orders s)" using ids_fresh(1) [OF assms(1)] by simp
  then have "tbl_find o_id (o_id ?ord) (db_orders s) = None" by (simp add: tbl_find_None_iff)
  then show ?thesis
    using fresh
    by (simp add: checkout_def bind_def assms(2) Let_def fresh_id_def save_order_apply find_order_def afterUpdate_def
        tbl_save_fresh order_of_checkout_def [symmetric] placed_def)
qed

text \<open>A pass of the checks, spelled out.\<close>

lemma checkoutChecks_pass:
  assumes "checkoutChecks W input s = (Inr (p, cartId, g, cur, ls), s')"
  obtains c where "xc_provinceId input = Some p" and "cart_of (xc_accountId input) s = Some c"
    and "cartId = ct_id c" and "items_of (ct_id c) s \<noteq> []"
    and "g = round3 (sum_list (map ci_subtotal (items_of (ct_id c) s)))"
    and "mc_passed (min_check (xc_role input) g s)"
    and "sk_passed (cap_check W (xc_role input) (xc_accountId input) g s)"
    and "toRequestedLines W (xc_role input) (map item_of_cart (items_of (ct_id c) s)) s = (Inr ls, s)"
    and "s' = s"
proof -
  have s': "s' = s" by (rule readonlyD [OF readonly_checkoutChecks assms])
  obtain c q where c: "cart_of (xc_accountId input) s = Some c" and q: "xc_provinceId input = Some q"
    using assms by (auto simp: checkoutChecks_def basket_of_def split: option.splits)
  obtain r s1 where lines: "toRequestedLines W (xc_role input) (map item_of_cart (items_of (ct_id c) s)) s = (r, s1)"
    by fastforce
  have "s1 = s" by (rule readonlyD [OF readonly_toRequestedLines lines])
  with assms c q lines show thesis
    by (cases r) (auto simp: checkoutChecks_def basket_of_def Let_def bind_def s' intro!: that split: if_splits)
qed

section \<open>Properties of the checkout\<close>



text \<open>A factory with forty kilograms of steel in its basket.\<close>

definition ex_steel_store :: "delivery_rate list \<Rightarrow> store" where
  "ex_steel_store rates = ex_alloc_store\<lparr>db_rates := rates,
     db_products := [\<lparr>pd_id = ''p7'', pd_name = ''steel'', pd_unitType = ''KG'', pd_unitWeightKg = None,
       pd_isActive = True, pd_odooProductId = Some 7\<rparr>],
     db_pricing := [\<lparr>pr_id = ''pr'', pr_productId = ''p7'', pr_tier = TIER_FACTORY, pr_conditionId = None,
       pr_conditionCode = None, pr_price = 100, pr_currency = ''SYP'', pr_effectiveFrom = 0,
       pr_effectiveUntil = None\<rparr>],
     db_carts := [\<lparr>ct_id = ''c1'', ct_accountId = ''acc''\<rparr>],
     db_cartItems := [\<lparr>ci_id = ''i1'', ci_cartId = ''c1'', ci_productId = ''p7'', ci_offerId = None,
       ci_quantity = 40, ci_unitType = ''KG'', ci_conditionCode = None, ci_unitPrice = 100,
       ci_subtotal = 4000, ci_isOffer = False\<rparr>]\<rparr>"

definition ex_input :: checkout_input where
  "ex_input = \<lparr>xc_accountId = ''acc'', xc_role = FACTORY, xc_profileId = ''buyer'',
     xc_provinceId = Some ''dam'', xc_fulfilmentMode = Some DELIVERY, xc_acceptPartial = None\<rparr>"

lemma ex_steel_ok:
  "ids_ok (ex_steel_store rates)" "pairs_unique (ex_steel_store rates)"
  "distinct (map wh_id (db_warehouses (ex_steel_store rates)))"
  using ex_alloc_ok(1-3) [of rates] by (simp_all add: ex_steel_store_def ids_ok_def store_ids_def pairs_unique_def)

lemma ex_checkout_outcome:
  "map_sum id (\<lambda>r. (xr_orderNumber r, xr_status r, xr_goodsTotal r, xr_allocation r))
     (fst (checkout ex_map_world ex_input (ex_steel_store [ex_rate])))
   = Inr (''ORD-202607-00002'', Some AWAITING_APPROVAL, 4000, ALLOCATED 1)"
  by code_simp


lemma ex_checkout_error: "fst (checkout ex_map_world ex_input (ex_steel_store [])) = Inl NotFound"
  by code_simp


section \<open>Cancelling\<close>

lemma mine_or_throw_result:
  "mine_or_throw a k s = (case find_order k s of None \<Rightarrow> (Inl NotFound, s)
     | Some ord \<Rightarrow> if o_buyerAccountId ord \<noteq> a then (Inl NotFound, s) else (Inr ord, s))"
  by (simp add: mine_or_throw_def bind_def split: option.split)

text \<open>Saving a list of changed rows, each there before, is a change in place.\<close>

lemma save_parts_run:
  assumes "distinct (map p_id (db_parts s))" and "set ps \<subseteq> set (db_parts s)" and "distinct (map p_id ps)"
    and "\<And>p. p_id (f p) = p_id p"
  shows "for_each ps (\<lambda>p. save_part (f p)) s
    = (Inr (), s\<lparr>db_parts := map (\<lambda>p. if p \<in> set ps then f p else p) (db_parts s)\<rparr>)"
  using assms(1-3)
proof (induction ps arbitrary: s)
  case (Cons x xs)
  let ?g = "\<lambda>p. if p_id p = p_id (f x) then f x else p"
  have saved: "tbl_save p_id (f x) (db_parts s) = map ?g (db_parts s)"
    using Cons.prems(2) assms(4) by (intro tbl_save_map [OF Cons.prems(1)]) auto
  have same: "p = x" if "p \<in> set (db_parts s)" "p_id p = p_id x" for p
    using that Cons.prems(1,2) by (auto simp: distinct_map inj_on_def)
  have other: "p_id p \<noteq> p_id x" if "p \<in> set xs" for p using that Cons.prems(3) by (auto simp: image_iff)
  have ids: "map p_id (map ?g (db_parts s)) = map p_id (db_parts s)" using assms(4) by (auto simp: comp_def)
  have sub: "set xs \<subseteq> set (map ?g (db_parts s))"
  proof
    fix y assume y: "y \<in> set xs"
    then have "p_id y \<noteq> p_id (f x)" using other [OF y] assms(4) by simp
    then have "y = ?g y" by simp
    moreover have "y \<in> set (db_parts s)" using y Cons.prems(2) by auto
    ultimately show "y \<in> set (map ?g (db_parts s))" unfolding set_map by (rule image_eqI)
  qed
  have eq: "map (\<lambda>p. if p \<in> set xs then f p else p) (map ?g (db_parts s))
      = map (\<lambda>p. if p \<in> set (x # xs) then f p else p) (db_parts s)"
    unfolding map_map
  proof (rule map_cong [OF refl])
    fix p assume p: "p \<in> set (db_parts s)"
    show "((\<lambda>p. if p \<in> set xs then f p else p) \<circ> ?g) p = (if p \<in> set (x # xs) then f p else p)"
    proof (cases "p_id p = p_id x")
      case True
      then have "p = x" using same p by blast
      moreover have "f x \<notin> set xs" using other assms(4) by metis
      ultimately show ?thesis using assms(4) by simp
    qed (use assms(4) in auto)
  qed
  let ?s1 = "s\<lparr>db_parts := map ?g (db_parts s)\<rparr>"
  have parts: "db_parts ?s1 = map ?g (db_parts s)" by simp
  have "distinct (map p_id (map ?g (db_parts s)))" using Cons.prems(1) ids by metis
  from Cons.IH [of ?s1, unfolded parts, OF this sub] Cons.prems(3)
  have "for_each xs (\<lambda>p. save_part (f p)) ?s1
      = (Inr (), ?s1\<lparr>db_parts := map (\<lambda>p. if p \<in> set (x # xs) then f p else p) (db_parts s)\<rparr>)"
    unfolding eq by simp
  moreover have "for_each (x # xs) (\<lambda>p. save_part (f p)) s = for_each xs (\<lambda>p. save_part (f p)) ?s1"
    by (simp add: save_part_def saved)
  ultimately show ?case by simp
qed simp

lemma save_order_found:
  assumes "distinct (map o_id (db_orders s))" and "find_order (o_id ord) s = Some old"
  shows "save_order ord s = (Inr (), s\<lparr>
    db_orders := map (\<lambda>x. if o_id x = o_id ord then ord else x) (db_orders s),
    db_events := db_events s @ afterUpdate ord (Some old)\<rparr>)"
proof -
  have "o_id ord \<in> o_id ` set (db_orders s)"
    using assms(2) by (metis find_order_def imageI tbl_find_SomeD)
  then show ?thesis by (simp add: save_order_apply assms(2) tbl_save_map [OF assms(1)])
qed

lemma enqueue_all_run:
  "for_each ps (\<lambda>i. enqueueCancelOrderPart i why) s
     = (Inr (), s\<lparr>db_jobs := db_jobs s @ map (\<lambda>i. (None, CANCEL_ORDER_PART i why)) ps\<rparr>)"
  by (induction ps arbitrary: s) (simp_all add: enqueueCancelOrderPart_def enqueue_def)

text \<open>What a cancellation writes.\<close>

definition cancelled_order :: "world \<Rightarrow> string option \<Rightarrow> order \<Rightarrow> order" where
  "cancelled_order W reason ord =
     ord\<lparr>o_status := CANCELLED, o_cancelledAt := Some (w_now W), o_cancelReason := reason\<rparr>"

definition cancelled_part :: "ident \<Rightarrow> order_part \<Rightarrow> order_part" where
  "cancelled_part k p = (if p_orderId p = k \<and> List.member RESERVING_PART_STATUSES (p_status p)
     then p\<lparr>p_status := P_CANCELLED, p_stockReserved := False\<rparr> else p)"

definition withdrawn_offer :: "world \<Rightarrow> ident \<Rightarrow> order_part_offer \<Rightarrow> order_part_offer" where
  "withdrawn_offer W k f = (if f_orderId f = k \<and> f_status f = F_OFFERED
     then f\<lparr>f_status := F_WITHDRAWN, f_respondedAt := Some (w_now W)\<rparr> else f)"

definition after_cancel :: "world \<Rightarrow> order \<Rightarrow> string option \<Rightarrow> store \<Rightarrow> store" where
  "after_cancel W ord reason s = s\<lparr>
     db_orders := map (\<lambda>x. if o_id x = o_id ord then cancelled_order W reason ord else x) (db_orders s),
     db_events := db_events s @ afterUpdate (cancelled_order W reason ord) (Some ord),
     db_parts := map (cancelled_part (o_id ord)) (db_parts s),
     db_offers := map (withdrawn_offer W (o_id ord)) (db_offers s),
     db_jobs := db_jobs s @ map (\<lambda>p. (None, CANCEL_ORDER_PART (p_id p)
        (case reason of None \<Rightarrow> ''Cancelled by the buyer'' | Some r \<Rightarrow> r))) (reserving_parts (o_id ord) s)\<rparr>"

lemma cancel_run:
  assumes "ids_ok s"
  shows "cancel W a k reason s = (case find_order k s of None \<Rightarrow> (Inl NotFound, s)
     | Some ord \<Rightarrow> if o_buyerAccountId ord \<noteq> a then (Inl NotFound, s)
         else if \<not> List.member BUYER_CANCELLABLE_STATUSES (o_status ord) then (Inl Conflict, s)
         else (Inr (length (reserving_parts k s)), after_cancel W ord reason s))"
proof (cases "find_order k s")
  case None
  then show ?thesis by (simp add: cancel_def transactional_def cancelTx_def mine_or_throw_result bind_def)
next
  case (Some ord)
  have id: "o_id ord = k" using Some by (rule find_order_id)
  show ?thesis
  proof (cases "o_buyerAccountId ord = a \<and> List.member BUYER_CANCELLABLE_STATUSES (o_status ord)")
    case False
    then show ?thesis using Some
      by (auto simp: cancel_def transactional_def cancelTx_def mine_or_throw_result bind_def refuse_if_def)
  next
    case True
    let ?new = "cancelled_order W reason ord"
    have dist: "distinct (map o_id (db_orders s))" "distinct (map p_id (db_parts s))"
      using assms by (simp_all add: ids_ok_def)
    have saved: "save_order ?new s = (Inr (), s\<lparr>
        db_orders := map (\<lambda>x. if o_id x = o_id ?new then ?new else x) (db_orders s),
        db_events := db_events s @ afterUpdate ?new (Some ord)\<rparr>)" (is "_ = (_, ?s1)")
      using dist(1) Some id by (intro save_order_found) (simp_all add: cancelled_order_def)
    have live: "reserving_parts k ?s1 = reserving_parts k s" by (simp add: reserving_parts_def parts_of_def)
    have "set (reserving_parts k s) \<subseteq> set (db_parts s)" "distinct (map p_id (reserving_parts k s))"
      using dist(2) by (auto simp: reserving_parts_def parts_of_def distinct_map_filter)
    then have "for_each (reserving_parts k s) (\<lambda>p. save_part (p\<lparr>p_status := P_CANCELLED, p_stockReserved := False\<rparr>)) ?s1
      = (Inr (), ?s1\<lparr>db_parts := map (\<lambda>p. if p \<in> set (reserving_parts k s)
          then p\<lparr>p_status := P_CANCELLED, p_stockReserved := False\<rparr> else p) (db_parts ?s1)\<rparr>)"
      using dist(2) by (intro save_parts_run) simp_all
    moreover have "map (\<lambda>p. if p \<in> set (reserving_parts k s)
          then p\<lparr>p_status := P_CANCELLED, p_stockReserved := False\<rparr> else p) (db_parts ?s1)
        = map (cancelled_part k) (db_parts s)"
      by (auto simp: cancelled_part_def reserving_parts_def parts_of_def)
    ultimately have parts: "for_each (reserving_parts k s)
        (\<lambda>p. save_part (p\<lparr>p_status := P_CANCELLED, p_stockReserved := False\<rparr>)) ?s1
      = (Inr (), ?s1\<lparr>db_parts := map (cancelled_part k) (db_parts s)\<rparr>)" by simp
    have "cancelTx W a k reason s = (Inr (map p_id (reserving_parts k s)),
        ?s1\<lparr>db_parts := map (cancelled_part k) (db_parts s), db_offers := map (withdrawn_offer W k) (db_offers s)\<rparr>)"
      using True Some saved parts live
      by (simp add: cancelTx_def mine_or_throw_result bind_def refuse_if_def cancelled_order_def
          withdraw_offers_def withdrawn_offer_def [abs_def])
    then show ?thesis
      using True Some id
      by (simp add: cancel_def transactional_def bind_def enqueue_all_run after_cancel_def cancelled_order_def comp_def)
  qed
qed

lemma find_order_mapped:
  assumes "find_order k s = Some ord" and "db_orders s' = map (\<lambda>x. if o_id x = k then ord' else x) (db_orders s)"
    and "o_id ord' = k"
  shows "find_order k s' = Some ord'"
proof -
  have "tbl_find o_id k xs \<noteq> None \<Longrightarrow>
      tbl_find o_id k (map (\<lambda>x. if o_id x = k then ord' else x) xs) = Some ord'" for xs
    using assms(3) by (induction xs) auto
  then show ?thesis using assms by (simp add: find_order_def)
qed

lemma cancelled_part_idle:
  "p_orderId (cancelled_part k p) = k \<Longrightarrow> p_status (cancelled_part k p) \<notin> set RESERVING_PART_STATUSES"
  by (cases "p_orderId p = k \<and> List.member RESERVING_PART_STATUSES (p_status p)")
    (auto simp: cancelled_part_def RESERVING_PART_STATUSES_def)

lemma withdrawn_offer_idle:
  "\<not> (f_orderId (withdrawn_offer W k f) = k \<and> f_status (withdrawn_offer W k f) = F_OFFERED)"
  by (cases "f_orderId f = k \<and> f_status f = F_OFFERED") (auto simp: withdrawn_offer_def)

lemma after_cancel_facts:
  assumes "ids_ok s" and "find_order k s = Some ord" and "s' = after_cancel W ord reason s"
  shows "find_order k s' = Some (cancelled_order W reason ord)" and "reserving_parts k s' = []"
    and "filter (\<lambda>f. f_orderId f = k \<and> f_status f = F_OFFERED) (db_offers s') = []"
    and "filter (\<lambda>x. o_id x \<noteq> k) (db_orders s') = filter (\<lambda>x. o_id x \<noteq> k) (db_orders s)"
    and "filter (\<lambda>p. p_orderId p \<noteq> k) (db_parts s') = filter (\<lambda>p. p_orderId p \<noteq> k) (db_parts s)"
    and "filter (\<lambda>f. f_orderId f \<noteq> k) (db_offers s') = filter (\<lambda>f. f_orderId f \<noteq> k) (db_offers s)"
    and "map p_status (parts_of k s') = map (\<lambda>p. if List.member RESERVING_PART_STATUSES (p_status p)
           then P_CANCELLED else p_status p) (parts_of k s)"
    and "ids_ok s'"
proof -
  have id: "o_id ord = k" using assms(2) by (rule find_order_id)
  have mapped: "filter P (map f xs) = filter P xs" if "\<And>x. P (f x) = P x" "\<And>x. P x \<Longrightarrow> f x = x"
    for P :: "'a \<Rightarrow> bool" and f xs using that by (induction xs) auto
  show "find_order k s' = Some (cancelled_order W reason ord)"
    using assms(2) by (rule find_order_mapped) (simp_all add: assms(3) after_cancel_def id cancelled_order_def)
  show "reserving_parts k s' = []"
  proof -
    have "db_parts s' = map (cancelled_part k) (db_parts s)" by (simp add: assms(3) after_cancel_def id)
    then show ?thesis
      unfolding reserving_parts_def parts_of_def filter_filter
      by (simp only:) (rule filter_map_none, use cancelled_part_idle [of k] in auto)
  qed
  show "filter (\<lambda>f. f_orderId f = k \<and> f_status f = F_OFFERED) (db_offers s') = []"
  proof -
    have "db_offers s' = map (withdrawn_offer W k) (db_offers s)" by (simp add: assms(3) after_cancel_def id)
    then show ?thesis by (simp only:) (rule filter_map_none, rule withdrawn_offer_idle)
  qed
  show "filter (\<lambda>x. o_id x \<noteq> k) (db_orders s') = filter (\<lambda>x. o_id x \<noteq> k) (db_orders s)"
    unfolding assms(3) after_cancel_def id by (simp, rule mapped) (auto simp: cancelled_order_def id)
  show "filter (\<lambda>p. p_orderId p \<noteq> k) (db_parts s') = filter (\<lambda>p. p_orderId p \<noteq> k) (db_parts s)"
    unfolding assms(3) after_cancel_def id by (simp, rule mapped) (auto simp: cancelled_part_def)
  show "filter (\<lambda>f. f_orderId f \<noteq> k) (db_offers s') = filter (\<lambda>f. f_orderId f \<noteq> k) (db_offers s)"
    unfolding assms(3) after_cancel_def id by (simp, rule mapped) (auto simp: withdrawn_offer_def)
  show "map p_status (parts_of k s') = map (\<lambda>p. if List.member RESERVING_PART_STATUSES (p_status p)
           then P_CANCELLED else p_status p) (parts_of k s)"
  proof -
    have "map p_status (filter (\<lambda>p. p_orderId p = k) (map (cancelled_part k) ps)) =
        map (\<lambda>p. if List.member RESERVING_PART_STATUSES (p_status p) then P_CANCELLED else p_status p)
          (filter (\<lambda>p. p_orderId p = k) ps)" for ps
      by (induction ps) (simp_all add: cancelled_part_def)
    then show ?thesis by (simp add: assms(3) parts_of_def after_cancel_def id)
  qed
  have ids: "map o_id (db_orders s') = map o_id (db_orders s)" "map p_id (db_parts s') = map p_id (db_parts s)"
    "map f_id (db_offers s') = map f_id (db_offers s)"
    by (simp_all add: assms(3) after_cancel_def id cancelled_order_def cancelled_part_def withdrawn_offer_def)
  show "ids_ok s'" by (rule ids_ok_same [OF assms(1)]) (simp_all add: ids, simp_all add: assms(3) after_cancel_def)
qed


text \<open>An order offered to two warehouses, the second of which has already refused.\<close>

definition ex_offered_store :: store where
  "ex_offered_store = ex_alloc_store\<lparr>db_orders := [ex_order\<lparr>o_status := AWAITING_APPROVAL\<rparr>],
     db_parts := [ex_part ''q1'' ''o1'' ''wa'' P_OFFERED, ex_part ''q2'' ''o1'' ''wb'' P_REJECTED],
     db_offers := [ex_offer ''f1'' ''q1'' ''o1'' ''wa'' 2000, ex_offer ''f2'' ''q2'' ''o1'' ''wb'' 2000]\<rparr>"

lemma ex_offered_ok: "ids_ok ex_offered_store"
  by (rule ids_ok_example)
    (simp_all add: ex_offered_store_def ex_alloc_store_def ex_map_store_def ex_store_def ex_order_def
      ex_part_def ex_offer_def store_ids_def)


end
