(* ===== verification/AllocationEffect.thy ===== *)
theory AllocationEffect
  imports AllocationOutcomes OrderFrame
begin

text \<open>
  Everything one allocation writes, in one statement: rows appended for the order it is about, that
  order's own row, and nothing else.  The services that run the allocator over many orders (the
  sweep over unanswered offers) rest on it.
\<close>

text \<open>A part made for order \<open>k\<close>, with its lines and its open question.\<close>

definition offered_for :: "world \<Rightarrow> ident \<Rightarrow> created \<Rightarrow> bool" where
  "offered_for W k c \<longleftrightarrow> p_orderId (cr_part c) = k \<and> p_status (cr_part c) = P_OFFERED
     \<and> f_partId (cr_offer c) = p_id (cr_part c) \<and> f_orderId (cr_offer c) = k
     \<and> f_status (cr_offer c) = F_OFFERED \<and> f_expiresAt (cr_offer c) = w_now W + 86400000
     \<and> (\<forall>l \<in> set (cr_lines c). l_partId l = p_id (cr_part c))"

lemma offered_for_created:
  assumes "created_ok W ord pl byKey sequence roundNo charge c" and "o_id ord = k"
  shows "offered_for W k c"
  unfolding offered_for_def using created_okD [OF assms(1)] assms(2) created_line [OF assms(1)]
  by (metis (no_types))

text \<open>The tables after an allocation: the rows of \<open>cs\<close> added, the row of order \<open>k\<close> replaced.\<close>

definition allocated :: "created list \<Rightarrow> order \<Rightarrow> store \<Rightarrow> store \<Rightarrow> bool" where
  "allocated cs ord' s s' \<longleftrightarrow> db_parts s' = db_parts s @ map cr_part cs
     \<and> db_lines s' = db_lines s @ concat (map cr_lines cs) \<and> db_offers s' = db_offers s @ map cr_offer cs
     \<and> db_jobs s' = db_jobs s @ map (\<lambda>c. (None, PUSH_ORDER_PART (p_id (cr_part c)))) cs
     \<and> db_orders s' = map (\<lambda>x. if o_id x = o_id ord' then ord' else x) (db_orders s)
     \<and> db_rates s' = db_rates s \<and> db_warehouses s' = db_warehouses s \<and> ids_ok s'"

lemma saved_orders:
  assumes "ids_ok s" and "find_order k s = Some ord" and "o_id ord' = k"
  shows "tbl_save o_id ord' (db_orders s) = map (\<lambda>x. if o_id x = o_id ord' then ord' else x) (db_orders s)"
    and "map o_id (tbl_save o_id ord' (db_orders s)) = map o_id (db_orders s)"
proof -
  have "o_id ord' \<in> o_id ` set (db_orders s)"
    using assms(2,3) by (metis find_order_def imageI tbl_find_SomeD)
  then show "tbl_save o_id ord' (db_orders s) = map (\<lambda>x. if o_id x = o_id ord' then ord' else x) (db_orders s)"
    using assms(1) by (intro tbl_save_map) (auto simp: ids_ok_def)
  then show "map o_id (tbl_save o_id ord' (db_orders s)) = map o_id (db_orders s)" by auto
qed

lemma allocated_save:
  assumes "ids_ok s" and "find_order k s = Some ord" and "o_id ord' = k"
  shows "allocated [] ord' s (snd (save_order ord' (s\<lparr>db_distances := d\<rparr>)))"
proof -
  note saved = saved_orders [OF assms]
  have "ids_ok (snd (save_order ord' (s\<lparr>db_distances := d\<rparr>)))"
    by (rule ids_ok_same [OF assms(1)]) (simp_all add: saved(2) save_order_apply del: map_map)
  then show ?thesis by (simp add: allocated_def saved(1) save_order_apply)
qed

lemma allocated_none:
  assumes "ids_ok s" and "find_order k s = Some ord"
  shows "allocated [] ord s s"
proof -
  have "x = ord" if "x \<in> set (db_orders s)" "o_id x = o_id ord" for x
    using the_row [of o_id "db_orders s" k ord x] that assms find_order_id [OF assms(2)]
    by (simp add: ids_ok_def find_order_def)
  then have "map (\<lambda>x. if o_id x = o_id ord then ord else x) (db_orders s) = db_orders s"
    by (intro map_idI) (metis (full_types))
  then show ?thesis using assms(1) by (simp add: allocated_def)
qed

lemma allocate_effect:
  assumes "ids_ok s" and "pairs_unique s" and "distinct (map wh_id (db_warehouses s))"
    and "find_order k s = Some ord" and "current_rate s \<noteq> None"
  shows "\<exists>out s' cs ord'. allocate W k req force s = (Inr out, s') \<and> allocated cs ord' s s' \<and> o_id ord' = k
    \<and> (\<forall>c \<in> set cs. offered_for W k c)
    \<and> (o_status ord' = AWAITING_APPROVAL \<longrightarrow> cs \<noteq> [] \<or> alloc_lines k req s = [])
    \<and> (s' = s \<or> o_status ord' \<in> {NEEDS_ADMIN, NEEDS_CUSTOMER_DECISION, AWAITING_SPLIT_APPROVAL, AWAITING_APPROVAL})"
proof -
  have k: "o_id ord = k" by (rule find_order_id [OF assms(4)])
  have quiet: "\<exists>s' cs ord'. (Inr out, snd (save_order ord2 (s\<lparr>db_distances := d\<rparr>))) = (Inr out, s')
      \<and> allocated cs ord' s s' \<and> o_id ord' = k \<and> (\<forall>c \<in> set cs. offered_for W k c)
      \<and> (o_status ord' = AWAITING_APPROVAL \<longrightarrow> cs \<noteq> [] \<or> alloc_lines k req s = [])
      \<and> (s' = s \<or> o_status ord' \<in> {NEEDS_ADMIN, NEEDS_CUSTOMER_DECISION, AWAITING_SPLIT_APPROVAL, AWAITING_APPROVAL})"
    if "o_id ord2 = k" "o_status ord2 \<in> {NEEDS_ADMIN, NEEDS_CUSTOMER_DECISION, AWAITING_SPLIT_APPROVAL}"
    for out :: allocation_outcome and ord2 d
    using allocated_save [OF assms(1,4) that(1), of d] that
    by (intro exI [of _ "snd (save_order ord2 (s\<lparr>db_distances := d\<rparr>))"] exI [of _ "[]"] exI [of _ ord2]) auto
  consider (rounds) "MAX_ALLOCATION_ROUNDS \<le> o_allocationRound ord"
    | (none) "o_allocationRound ord < MAX_ALLOCATION_ROUNDS" "alloc_lines k req s = []"
    | (plan) "o_allocationRound ord < MAX_ALLOCATION_ROUNDS" "alloc_lines k req s \<noteq> []" by linarith
  then show ?thesis
  proof cases
    case rounds
    then have "allocate W k req force s = (Inr EXHAUSTED, snd (save_order (ord\<lparr>o_status := NEEDS_ADMIN\<rparr>)
        (s\<lparr>db_distances := db_distances s\<rparr>)))"
      using assms(4) by (simp add: allocate_def bind_def markExhausted_apply)
    then show ?thesis using quiet [of "ord\<lparr>o_status := NEEDS_ADMIN\<rparr>" EXHAUSTED "db_distances s"] k by auto
  next
    case none
    then have "allocate W k req force s = (Inr (ALLOCATED 0), s)"
      using assms(4) by (simp add: allocate_def alloc_lines_def [symmetric])
    then show ?thesis using allocated_none [OF assms(1,4)] none(2) k
      by (intro exI [of _ "ALLOCATED 0"] exI [of _ s] exI [of _ "[]"] exI [of _ ord]) auto
  next
    case plan
    obtain sups d where
      run: "allocate W k req force s
        = with_supplies W k ord (alloc_lines k req s) force sups (s\<lparr>db_distances := d\<rparr>)"
      by (rule allocate_steps [OF assms(2,3,4) plan, where W = W and force = force])
    define lines where "lines = alloc_lines k req s"
    define pn where "pn = planAllocation (required_of lines) sups"
    define s1 where "s1 = s\<lparr>db_distances := d\<rparr>"
    define ord1 where "ord1 = ord\<lparr>o_requestedLines := None\<rparr>"
    define byBuyer where "byBuyer \<longleftrightarrow> \<not> plan_fullyCovered pn \<and> \<not> force
          \<and> \<not> (o_acceptPartialFulfilment ord \<and> shortfallRatio pn (required_of lines) \<le> PARTIAL_FULFILMENT_TOLERANCE)"
    note run = run [unfolded with_supplies_def Let_def, folded lines_def, folded pn_def, folded byBuyer_def]
    consider (stock) "sups = [] \<or> plan_parts pn = []"
      | (partial) "\<not> (sups = [] \<or> plan_parts pn = [])" "byBuyer"
      | (split) "\<not> (sups = [] \<or> plan_parts pn = [])" "\<not> byBuyer" "1 < length (plan_parts pn)"
      | (single) pl where "sups \<noteq> []" "\<not> byBuyer" "plan_parts pn = [pl]"
      using length_one by blast
    then show ?thesis
    proof cases
      case stock
      then show ?thesis using run quiet [of "ord\<lparr>o_status := NEEDS_ADMIN\<rparr>" NO_STOCK d] k
        by (auto simp: markExhausted_apply)
    next
      case partial
      then show ?thesis using run k
          quiet [of "ord\<lparr>o_status := NEEDS_CUSTOMER_DECISION, o_requestedLines := Some lines\<rparr>"
            "PARTIAL_NEEDS_BUYER (shortfallRatio pn (required_of lines))" d]
        by auto
    next
      case split
      then show ?thesis using run k
          quiet [of "ord\<lparr>o_status := AWAITING_SPLIT_APPROVAL, o_requestedLines := Some lines\<rparr>"
            "ALLOCATED (length (plan_parts pn))" d]
        by auto
    next
      case single
      have s1: "ids_ok s1" unfolding s1_def by (rule ids_ok_same [OF assms(1)]) simp_all
      have "part_charge s1 ord1 (pp_distance x) \<noteq> None" for x
        using assms(5) by (simp add: part_charge_def s1_def current_rate_def)
      then have charges: "\<forall>x \<in> set [pl]. part_charge s1 ord1 (pp_distance x) \<noteq> None" by blast
      from createParts_effect [OF s1 charges, of W "byKey_of lines" "length (parts_of k s1)" "Suc (o_allocationRound ord)"]
      obtain cs n where made: "createParts W ord1 [pl] (byKey_of lines) (length (parts_of k s1))
            (Suc (o_allocationRound ord)) s1 = (Inr (), add_created cs n s1)" and ids: "ids_ok (add_created cs n s1)"
        and "list_all2 (\<lambda>(sequence, pl). created_ok W ord1 pl (byKey_of lines) sequence (Suc (o_allocationRound ord))
           (the (part_charge s1 ord1 (pp_distance pl)))) (enumerate (length (parts_of k s1) + 1) [pl]) cs" by blast
      then obtain c where cs: "cs = [c]" and "created_ok W ord1 pl (byKey_of lines) (length (parts_of k s1) + 1)
          (Suc (o_allocationRound ord)) (the (part_charge s1 ord1 (pp_distance pl))) c"
        by (auto simp: list_all2_Cons1)
      moreover have "o_id ord1 = k" by (simp add: ord1_def k)
      ultimately have c: "offered_for W k c" by (metis offered_for_created)
      let ?ord2 = "ord1\<lparr>o_allocationRound := Suc (o_allocationRound ord), o_status := AWAITING_APPROVAL\<rparr>"
      obtain ord3 where "recalculateTotals ?ord2 (add_created cs n s1)
          = (Inr ord3, snd (save_order ord3 (add_created cs n s1)))"
        and ord3: "o_id ord3 = k" "o_status ord3 = AWAITING_APPROVAL"
        by (simp add: recalculateTotals_apply Let_def ord1_def k)
      then have "allocate W k req force s = (Inr (ALLOCATED 1), snd (save_order ord3 (add_created cs n s1)))"
        using run made single by (simp add: s1_def [symmetric] ord1_def bind_def)
      moreover have ord2: "find_order k (add_created cs n s1) = Some ord"
        using assms(4) by (simp add: s1_def find_order_def)
      have same: "x\<lparr>db_distances := db_distances x\<rparr> = x" for x :: store by simp
      from allocated_save [OF ids ord2 ord3(1), of "db_distances (add_created cs n s1)"]
      have "allocated [] ord3 (add_created cs n s1) (snd (save_order ord3 (add_created cs n s1)))"
        unfolding same .
      then have "allocated cs ord3 s (snd (save_order ord3 (add_created cs n s1)))"
        by (simp add: allocated_def) (simp add: add_created_def s1_def)
      ultimately show ?thesis using c ord3 cs
        by (intro exI [of _ "ALLOCATED 1"] exI [of _ "snd (save_order ord3 (add_created cs n s1))"]
            exI [of _ cs] exI [of _ ord3]) simp
    qed
  qed
qed

text \<open>What an allocation of order \<open>k\<close> means for \<open>k\<close> and for the other orders.\<close>

lemma allocated_this:
  assumes "allocated cs ord' s s'" and "o_id ord' = k" and "find_order k s = Some ord"
  shows "find_order k s' = Some ord'"
  using assms by (simp add: allocated_def find_order_def tbl_find_replaced)

lemma allocated_other:
  assumes "allocated cs ord' s s'" and "o_id ord' = k" and "\<forall>c \<in> set cs. offered_for W k c" and "k' \<noteq> k"
    and "ids_ok s"
  shows "find_order k' s' = find_order k' s" "parts_of k' s' = parts_of k' s" "offers_of k' s' = offers_of k' s"
    "linesFromFailedParts k' s' = linesFromFailedParts k' s"
proof -
  note a = assms(1) [unfolded allocated_def]
  show "find_order k' s' = find_order k' s" using a assms(2,4) by (simp add: find_order_def tbl_find_replaced)
  have none: "filter (\<lambda>p. p_orderId p = k') (map cr_part cs) = []" "filter (\<lambda>f. f_orderId f = k') (map cr_offer cs) = []"
    using assms(3,4) by (auto simp: offered_for_def filter_empty_conv)
  then show parts: "parts_of k' s' = parts_of k' s" using a by (simp add: parts_of_def)
  show "offers_of k' s' = offers_of k' s" using a none by (simp add: offers_of_def)
  have lines: "lines_of (p_id p) s' = lines_of (p_id p) s" if p: "p \<in> set (db_parts s)" for p
  proof -
    have "distinct (map p_id (db_parts s @ map cr_part cs))" using a by (metis ids_ok_def)
    then have "p_id (cr_part c) \<noteq> p_id p" if "c \<in> set cs" for c using p that by auto
    then have "filter (\<lambda>l. l_partId l = p_id p) (concat (map cr_lines cs)) = []"
      using assms(3) by (auto simp: offered_for_def filter_empty_conv)
    then show ?thesis using a by (simp add: lines_of_def)
  qed
  have "map (\<lambda>p. lines_of (p_id p) s') (filter P (parts_of k' s)) = map (\<lambda>p. lines_of (p_id p) s) (filter P (parts_of k' s))" for P
    by (rule map_cong [OF refl], rule lines) (simp add: parts_of_def)
  then show "linesFromFailedParts k' s' = linesFromFailedParts k' s"
    unfolding linesFromFailedParts_def requestedFromParts_def parts by (simp only:)
qed

end
