(* ===== verification/OfferExpiry.thy ===== *)
theory OfferExpiry
  imports AllocationEffect
begin

text \<open>
  \<open>order/providers/offer-expiry.service.ts\<close>: the ten-minute sweep.  It closes the offers nobody
  answered in time, runs the allocator for the orders they belonged to, and again for every order
  that waits for an approval with no question open.
\<close>

section \<open>The sweep\<close>

definition overdue_offers :: "world \<Rightarrow> store \<Rightarrow> order_part_offer list" where
  "overdue_offers W s = filter (\<lambda>f. f_status f = F_OFFERED \<and> f_expiresAt f < w_now W) (db_offers s)"

definition expiry_reason :: string where
  "expiry_reason = ''Offer expired - no answer within the allowed window''"

text \<open>One round of the loop over the overdue offers; it returns the order to try again, if any.\<close>

definition expireOffer :: "world \<Rightarrow> order_part_offer \<Rightarrow> ident option action" where
  "expireOffer W offer =
     bind (save_offer (offer\<lparr>f_status := F_EXPIRED, f_respondedAt := Some (w_now W)\<rparr>)) (\<lambda>_.
     bind (reads (find_part (f_partId offer))) (\<lambda>found. case found of None \<Rightarrow> ret None
     | Some part \<Rightarrow>
         if p_status part \<noteq> P_OFFERED then ret None
         else
           bind (save_part (part\<lparr>p_status := P_EXPIRED, p_stockReserved := False\<rparr>)) (\<lambda>_.
           bind (enqueueCancelOrderPart (p_id part) expiry_reason) (\<lambda>_.
           ret (Some (p_orderId part))))))"

text \<open>\<open>for (const orderId of ids) await this.allocation.allocate(orderId)\<close>\<close>

definition reallocate :: "world \<Rightarrow> ident list \<Rightarrow> unit action" where
  "reallocate W ks = for_each ks (\<lambda>k. bind (allocate W k None False) (\<lambda>_. ret ()))"

definition expireOverdueOffers :: "world \<Rightarrow> nat action" where
  "expireOverdueOffers W =
     bind (reads (overdue_offers W)) (\<lambda>overdue.
     if overdue = [] then ret 0
     else
       bind (collect overdue (expireOffer W)) (\<lambda>retry.
       bind (reallocate W (uniq (List.map_filter (\<lambda>x. x) retry))) (\<lambda>_.
       ret (length overdue))))"

text \<open>
  Orders waiting for an approval that have offers, none of them open.  The query groups by order; the
  groups come here in the order of their first offer.
\<close>

definition stalledOrders :: "store \<Rightarrow> ident list" where
  "stalledOrders s = uniq (map f_orderId (filter (\<lambda>f.
     (case find_order (f_orderId f) s of None \<Rightarrow> False | Some ord \<Rightarrow> o_status ord = AWAITING_APPROVAL)
     \<and> \<not> list_ex (\<lambda>g. f_status g = F_OFFERED) (offers_of (f_orderId f) s)) (db_offers s)))"

definition reallocateStalledOrders :: "world \<Rightarrow> nat action" where
  "reallocateStalledOrders W =
     bind (reads stalledOrders) (\<lambda>stalled.
     bind (reallocate W stalled) (\<lambda>_.
     ret (length stalled)))"

definition sweep :: "world \<Rightarrow> unit action" where
  "sweep W = best_effort (bind (expireOverdueOffers W) (\<lambda>_. reallocateStalledOrders W))"

section \<open>Closing the overdue offers\<close>

text \<open>The tables after the loop: the overdue offers closed, their waiting parts expired.\<close>

definition closed_offer :: "world \<Rightarrow> order_part_offer \<Rightarrow> order_part_offer" where
  "closed_offer W f = f\<lparr>f_status := F_EXPIRED, f_respondedAt := Some (w_now W)\<rparr>"

definition expired_part :: "ident list \<Rightarrow> order_part \<Rightarrow> order_part" where
  "expired_part is p = (if p_id p \<in> set is \<and> p_status p = P_OFFERED
     then p\<lparr>p_status := P_EXPIRED, p_stockReserved := False\<rparr> else p)"

lemma expired_part_simps [simp]:
  "p_id (expired_part is p) = p_id p" "p_orderId (expired_part is p) = p_orderId p"
  by (simp_all add: expired_part_def)

lemma expired_part_append: "expired_part is (expired_part js p) = expired_part (js @ is) p"
  by (auto simp: expired_part_def)

definition waiting_for :: "ident list \<Rightarrow> store \<Rightarrow> order_part list" where
  "waiting_for is s = filter (\<lambda>p. p_id p \<in> set is \<and> p_status p = P_OFFERED) (db_parts s)"

definition cancel_job :: "order_part \<Rightarrow> string option \<times> job" where
  "cancel_job p = (None, CANCEL_ORDER_PART (p_id p) expiry_reason)"

definition after_expiry :: "world \<Rightarrow> order_part_offer list \<Rightarrow> (string option \<times> job) list \<Rightarrow> store \<Rightarrow> store" where
  "after_expiry W os js s = s\<lparr>
     db_offers := map (\<lambda>f. if f_id f \<in> f_id ` set os then closed_offer W f else f) (db_offers s),
     db_parts := map (expired_part (map f_partId os)) (db_parts s), db_jobs := db_jobs s @ js\<rparr>"

lemma expireOffer_run:
  assumes "ids_ok s" and "offer \<in> set (db_offers s)"
  shows "\<exists>r js. expireOffer W offer s = (Inr r, after_expiry W [offer] js s)
    \<and> set js = cancel_job ` set (waiting_for [f_partId offer] s)
    \<and> set_option r = p_orderId ` set (waiting_for [f_partId offer] s)"
proof -
  have dist: "distinct (map f_id (db_offers s))" "distinct (map p_id (db_parts s))"
    using assms(1) by (simp_all add: ids_ok_def)
  have offers: "tbl_save f_id (closed_offer W offer) (db_offers s)
      = map (\<lambda>f. if f_id f = f_id offer then closed_offer W f else f) (db_offers s)"
    using dist(1) assms(2) by (rule save_in_place) (simp add: closed_offer_def)
  have found: "find_part (f_partId offer) s = Some p \<longleftrightarrow> p \<in> set (db_parts s) \<and> p_id p = f_partId offer" for p
    using found_row [OF dist(2)] by (simp add: find_part_def)
  show ?thesis
  proof (cases "\<exists>p. find_part (f_partId offer) s = Some p \<and> p_status p = P_OFFERED")
    case True
    then obtain p where p: "find_part (f_partId offer) s = Some p" "p_status p = P_OFFERED" by blast
    note row = p(1) [unfolded found]
    have same: "x = p" if "x \<in> set (db_parts s)" "p_id x = f_partId offer" for x
      using the_row [OF dist(2) p(1) [unfolded find_part_def] that] .
    have "set (waiting_for [f_partId offer] s) = {p}"
      using row p(2) same by (auto simp: waiting_for_def)
    moreover have "tbl_save p_id (p\<lparr>p_status := P_EXPIRED, p_stockReserved := False\<rparr>) (db_parts s)
        = map (\<lambda>y. if p_id y = p_id p then y\<lparr>p_status := P_EXPIRED, p_stockReserved := False\<rparr> else y) (db_parts s)"
      using dist(2) row by (intro save_in_place) simp_all
    moreover have "\<dots> = map (expired_part [f_partId offer]) (db_parts s)"
      using row p(2) same by (auto simp: expired_part_def)
    ultimately show ?thesis
      using p row offers
      by (intro exI [of _ "Some (p_orderId p)"] exI [of _ "[cancel_job p]"])
        (simp add: expireOffer_def save_offer_def bind_def find_part_def save_part_def enqueueCancelOrderPart_def
          enqueue_def after_expiry_def closed_offer_def cancel_job_def)
  next
    case False
    then have "waiting_for [f_partId offer] s = []"
      using found by (auto simp: waiting_for_def filter_empty_conv)
    moreover from this have "map (expired_part [f_partId offer]) (db_parts s) = db_parts s"
      by (intro map_idI) (auto simp: waiting_for_def filter_empty_conv expired_part_def)
    moreover have "expireOffer W offer s = (Inr None, s\<lparr>db_offers := tbl_save f_id (closed_offer W offer) (db_offers s)\<rparr>)"
      using False
      by (auto simp: expireOffer_def save_offer_def bind_def find_part_def closed_offer_def split: option.split)
    ultimately show ?thesis
      using offers by (intro exI [of _ None] exI [of _ "[]"]) (simp add: after_expiry_def)
  qed
qed

lemma ids_ok_expiry: "ids_ok s \<Longrightarrow> ids_ok (after_expiry W os js s)"
  by (rule ids_ok_same, assumption) (simp_all add: after_expiry_def comp_def closed_offer_def if_distrib)

lemma waiting_for_Cons:
  "set (waiting_for (i # is) s) = set (waiting_for [i] s) \<union> set (waiting_for is (after_expiry W [offer] js s))"
  if "f_partId offer = i"
proof -
  have "x \<in> expired_part [i] ` set (db_parts s) \<and> p_status x = P_OFFERED
      \<longleftrightarrow> x \<in> set (db_parts s) \<and> p_status x = P_OFFERED \<and> p_id x \<noteq> i" for x
    by (auto simp: expired_part_def image_iff split: if_splits)
  then show ?thesis using that by (auto simp: waiting_for_def after_expiry_def)
qed

lemma after_expiry_Cons:
  "after_expiry W os ks (after_expiry W [offer] js s) = after_expiry W (offer # os) (js @ ks) s"
  by (auto simp: after_expiry_def closed_offer_def expired_part_append intro!: store.equality)

lemma expireOffers_run:
  assumes "ids_ok s" and "set os \<subseteq> set (db_offers s)" and "distinct (map f_id os)"
  shows "\<exists>rs js. collect os (expireOffer W) s = (Inr rs, after_expiry W os js s)
    \<and> set js = cancel_job ` set (waiting_for (map f_partId os) s)
    \<and> set (List.map_filter (\<lambda>x. x) rs) = p_orderId ` set (waiting_for (map f_partId os) s)"
  using assms
proof (induction os arbitrary: s)
  case Nil
  have "expired_part [] = id" by (simp add: expired_part_def fun_eq_iff)
  then have "after_expiry W [] [] s = s" by (simp add: after_expiry_def)
  then show ?case by (intro exI [of _ "[]"]) (simp add: waiting_for_def)
next
  case (Cons offer os)
  from expireOffer_run [OF Cons.prems(1), of offer W] Cons.prems(2) obtain r js where
    one: "expireOffer W offer s = (Inr r, after_expiry W [offer] js s)"
    and js: "set js = cancel_job ` set (waiting_for [f_partId offer] s)"
    and r: "set_option r = p_orderId ` set (waiting_for [f_partId offer] s)" by auto
  let ?s = "after_expiry W [offer] js s"
  have sub: "set os \<subseteq> set (db_offers ?s)"
  proof
    fix f assume f: "f \<in> set os"
    then have "f_id f \<noteq> f_id offer" using Cons.prems(3) by (auto simp: image_iff)
    then show "f \<in> set (db_offers ?s)" using f Cons.prems(2) by (force simp: after_expiry_def)
  qed
  have "distinct (map f_id os)" using Cons.prems(3) by simp
  from Cons.IH [OF ids_ok_expiry [OF Cons.prems(1)] sub this] obtain rs ks where
    rest: "collect os (expireOffer W) ?s = (Inr rs, after_expiry W os ks ?s)"
    and ks: "set ks = cancel_job ` set (waiting_for (map f_partId os) ?s)"
    and rs: "set (List.map_filter (\<lambda>x. x) rs) = p_orderId ` set (waiting_for (map f_partId os) ?s)" by blast
  have waiting: "set (waiting_for (map f_partId (offer # os)) s)
      = set (waiting_for [f_partId offer] s) \<union> set (waiting_for (map f_partId os) ?s)"
    using waiting_for_Cons [OF refl] by simp
  have "set (List.map_filter (\<lambda>x. x) (r # rs)) = set_option r \<union> set (List.map_filter (\<lambda>x. x) rs)"
    by (cases r) (simp_all add: List.map_filter_def)
  moreover have "collect (offer # os) (expireOffer W) s = (Inr (r # rs), after_expiry W (offer # os) (js @ ks) s)"
    using one rest by (simp add: bind_def after_expiry_Cons)
  ultimately show ?case
    unfolding waiting using js r ks rs
    by (intro exI [of _ "r # rs"] exI [of _ "js @ ks"]) (simp add: image_Un)
qed

section \<open>Trying the orders again\<close>

text \<open>A store on which no allocation fails.\<close>

definition allocatable :: "store \<Rightarrow> bool" where
  "allocatable s \<longleftrightarrow> ids_ok s \<and> pairs_unique s \<and> distinct (map wh_id (db_warehouses s)) \<and> current_rate s \<noteq> None"

text \<open>Rows of parts, offers and jobs are only added.\<close>

definition grown :: "store \<Rightarrow> store \<Rightarrow> bool" where
  "grown s s' \<longleftrightarrow> set (db_parts s) \<subseteq> set (db_parts s') \<and> set (db_offers s) \<subseteq> set (db_offers s')
     \<and> set (db_jobs s) \<subseteq> set (db_jobs s')"

text \<open>An order nobody needs to try again: it does not wait for an approval, or a question about it is
  open, or none of its parts failed.\<close>

definition settled_order :: "store \<Rightarrow> ident \<Rightarrow> bool" where
  "settled_order s k \<longleftrightarrow> (case find_order k s of None \<Rightarrow> True | Some ord \<Rightarrow>
     o_status ord \<noteq> AWAITING_APPROVAL \<or> offers_of k s = [] \<or> list_ex (\<lambda>f. f_status f = F_OFFERED) (offers_of k s)
     \<or> linesFromFailedParts k s = [])"

lemma allocate_step:
  assumes "allocatable s"
  shows "\<exists>out s'. allocate W k None False s = (Inr out, s') \<and> allocatable s' \<and> grown s s' \<and> settled_order s' k
    \<and> (\<forall>k'. k' \<noteq> k \<longrightarrow> settled_order s' k' = settled_order s k')"
proof (cases "find_order k s")
  case None
  then have "allocate W k None False s = (Inr NO_STOCK, s)" by (simp add: allocate_def)
  then show ?thesis using assms None by (simp add: grown_def settled_order_def)
next
  case (Some ord)
  note a = assms [unfolded allocatable_def]
  have ids: "ids_ok s" using a by blast
  obtain out s' cs ord' where run: "allocate W k None False s = (Inr out, s')"
    and eff: "allocated cs ord' s s'" and k: "o_id ord' = k" and cs: "\<forall>c \<in> set cs. offered_for W k c"
    and open': "o_status ord' = AWAITING_APPROVAL \<longrightarrow> cs \<noteq> [] \<or> alloc_lines k None s = []"
    using allocate_effect [OF _ _ _ Some] a by blast
  note e = eff [unfolded allocated_def]
  have "pairs_unique s'" using keepsD [OF pairs_frame.keeps_allocate _ run] a by blast
  then have "allocatable s'" using a e by (simp add: allocatable_def current_rate_def)
  moreover have "grown s s'" using e by (auto simp: grown_def)
  moreover have "settled_order s' k"
  proof (cases cs)
    case Nil
    then have "linesFromFailedParts k s' = linesFromFailedParts k s"
      using e by (simp add: linesFromFailedParts_def requestedFromParts_def parts_of_def lines_of_def)
    then show ?thesis
      using open' Nil allocated_this [OF eff k Some] by (auto simp: settled_order_def alloc_lines_def)
  next
    case (Cons c cs')
    then have "cr_offer c \<in> set (offers_of k s')" and "f_status (cr_offer c) = F_OFFERED"
      using e cs by (auto simp: offers_of_def offered_for_def)
    then show ?thesis by (auto simp: settled_order_def list_ex_iff split: option.split)
  qed
  moreover have "settled_order s' k' = settled_order s k'" if "k' \<noteq> k" for k'
    unfolding settled_order_def using allocated_other [OF eff k cs that ids] by (simp only:)
  ultimately show ?thesis using run by blast
qed

lemma reallocate_run:
  assumes "allocatable s"
  shows "\<exists>s'. reallocate W ks s = (Inr (), s') \<and> allocatable s' \<and> grown s s'
    \<and> (\<forall>k. k \<in> set ks \<or> settled_order s k \<longrightarrow> settled_order s' k)"
  using assms
proof (induction ks arbitrary: s)
  case Nil
  then show ?case by (simp add: reallocate_def grown_def)
next
  case (Cons k ks)
  obtain out s1 where one: "allocate W k None False s = (Inr out, s1)" and s1: "allocatable s1" "grown s s1"
    "settled_order s1 k" "\<forall>k'. k' \<noteq> k \<longrightarrow> settled_order s1 k' = settled_order s k'"
    using allocate_step [OF Cons.prems] by blast
  obtain s2 where "reallocate W ks s1 = (Inr (), s2)" and s2: "allocatable s2" "grown s1 s2"
    "\<forall>k. k \<in> set ks \<or> settled_order s1 k \<longrightarrow> settled_order s2 k" using Cons.IH [OF s1(1)] by blast
  then have "reallocate W (k # ks) s = (Inr (), s2)"
    using one by (simp add: reallocate_def bind_def)
  moreover have "grown s s2" using s1(2) s2(2) by (auto simp: grown_def)
  moreover have "settled_order s2 x" if "x \<in> set (k # ks) \<or> settled_order s x" for x
    using that s1(3,4) s2(3) by (cases "x = k") auto
  ultimately show ?case using s2(1) by blast
qed

lemma keeps_none_overdue_reallocate: "keeps (none_overdue W) (reallocate W ks)"
  unfolding reallocate_def by (intro keeps_rules deadline_frame.keeps_allocate)

lemma expiry_allocatable:
  assumes "allocatable s"
  shows "allocatable (after_expiry W os js s)"
  using assms ids_ok_expiry [of s] by (simp add: allocatable_def) (simp add: after_expiry_def pairs_unique_def current_rate_def)

lemma stalled_iff: "k \<notin> set (stalledOrders s) \<Longrightarrow> settled_order s k"
  by (auto simp: stalledOrders_def settled_order_def offers_of_def list_ex_iff filter_empty_conv split: option.splits)

text \<open>C18: the sweep never fails, and after it no order waits in silence.  Every offer past its deadline is
  closed, whatever else happens; every part such an offer was still open for is expired, holds no
  stock any more, and its withdrawal from the warehouse is queued; and, while a delivery rate is
  set, every order that waits for an approval has an open question, was never offered, or has no
  refused part left to place.\<close>

theorem sweep_breaks_silence:
  assumes "ids_ok s" and "pairs_unique s" and "distinct (map wh_id (db_warehouses s))"
    and "current_rate s \<noteq> None" and "sweep W s = (r, s')"
  shows "r = Inr () \<and> overdue_offers W s' = []
    \<and> (\<forall>f \<in> set (overdue_offers W s). f\<lparr>f_status := F_EXPIRED, f_respondedAt := Some (w_now W)\<rparr> \<in> set (db_offers s'))
    \<and> (\<forall>p \<in> set (db_parts s). p_status p = P_OFFERED \<and> p_id p \<in> f_partId ` set (overdue_offers W s) \<longrightarrow>
         p\<lparr>p_status := P_EXPIRED, p_stockReserved := False\<rparr> \<in> set (db_parts s')
         \<and> (None, CANCEL_ORDER_PART (p_id p) expiry_reason) \<in> set (db_jobs s'))
    \<and> (\<forall>k ord. find_order k s' = Some ord \<and> o_status ord = AWAITING_APPROVAL \<longrightarrow>
         offers_of k s' = [] \<or> (\<exists>f \<in> set (offers_of k s'). f_status f = F_OFFERED)
         \<or> linesFromFailedParts k s' = [])"
proof -
  have base: "allocatable s" using assms(1-4) by (simp add: allocatable_def)
  define os where "os = overdue_offers W s"
  have "set os \<subseteq> set (db_offers s)" "distinct (map f_id os)"
    using assms(1) by (auto simp: os_def overdue_offers_def ids_ok_def distinct_map_filter)
  from expireOffers_run [OF assms(1) this] obtain rs js where
    closing: "collect os (expireOffer W) s = (Inr rs, after_expiry W os js s)"
    and js: "set js = cancel_job ` set (waiting_for (map f_partId os) s)" by blast
  define s1 where "s1 = after_expiry W os js s"
  have s1: "allocatable s1" unfolding s1_def using base by (rule expiry_allocatable)
  have clear: "none_overdue W s1"
    by (auto simp: none_overdue_def s1_def after_expiry_def closed_offer_def os_def overdue_offers_def image_iff
        split: if_splits) (force simp: not_less)
  obtain s2 where again: "reallocate W (uniq (List.map_filter (\<lambda>x. x) rs)) s1 = (Inr (), s2)"
    and s2: "allocatable s2" "grown s1 s2" using reallocate_run [OF s1] by blast
  obtain s3 where last: "reallocate W (stalledOrders s2) s2 = (Inr (), s3)"
    and s3: "grown s2 s3" "\<forall>k. k \<in> set (stalledOrders s2) \<or> settled_order s2 k \<longrightarrow> settled_order s3 k"
    using reallocate_run [OF s2(1)] by blast
  have "\<exists>n. expireOverdueOffers W s = (Inr n, s2)"
  proof (cases "os = []")
    case True
    then have "s1 = s" and "rs = []" using closing by (simp_all add: s1_def)
    then have "s2 = s" using again by (simp add: List.map_filter_def reallocate_def)
    then show ?thesis using True by (simp add: expireOverdueOffers_def os_def)
  next
    case False
    then show ?thesis using closing again
      by (simp add: expireOverdueOffers_def os_def [symmetric] s1_def [symmetric] bind_def)
  qed
  then have "r = Inr ()" and s': "s' = s3"
    using assms(5) last by (auto simp: sweep_def best_effort_def reallocateStalledOrders_def bind_def)
  moreover have "none_overdue W s3"
    using keepsD [OF keeps_none_overdue_reallocate _ last] keepsD [OF keeps_none_overdue_reallocate _ again] clear by blast
  then have "overdue_offers W s' = []"
    by (auto simp: s' none_overdue_def overdue_offers_def filter_empty_conv not_less)
  moreover have grown: "grown s1 s3" using s2(2) s3(1) by (auto simp: grown_def)
  have "f\<lparr>f_status := F_EXPIRED, f_respondedAt := Some (w_now W)\<rparr> \<in> set (db_offers s')" if "f \<in> set os" for f
  proof -
    have "closed_offer W f \<in> set (db_offers s1)"
      using that by (force simp: s1_def after_expiry_def os_def overdue_offers_def)
    then show ?thesis using grown by (auto simp: grown_def s' closed_offer_def)
  qed
  moreover have "p\<lparr>p_status := P_EXPIRED, p_stockReserved := False\<rparr> \<in> set (db_parts s')
      \<and> (None, CANCEL_ORDER_PART (p_id p) expiry_reason) \<in> set (db_jobs s')"
    if "p \<in> set (db_parts s)" "p_status p = P_OFFERED" "p_id p \<in> f_partId ` set os" for p
  proof -
    have "expired_part (map f_partId os) p = p\<lparr>p_status := P_EXPIRED, p_stockReserved := False\<rparr>"
      using that(2,3) by (auto simp: expired_part_def)
    then have "p\<lparr>p_status := P_EXPIRED, p_stockReserved := False\<rparr> \<in> set (db_parts s1)"
      using that(1) by (force simp: s1_def after_expiry_def)
    moreover have "cancel_job p \<in> set js" unfolding js using that by (auto simp: waiting_for_def)
    then have "cancel_job p \<in> set (db_jobs s1)" by (simp add: s1_def after_expiry_def)
    ultimately show ?thesis using grown by (auto simp: grown_def s' cancel_job_def)
  qed
  moreover have settled: "settled_order s' k" for k using s3(2) stalled_iff [of k s2] s' by blast
  have "offers_of k s' = [] \<or> (\<exists>f \<in> set (offers_of k s'). f_status f = F_OFFERED) \<or> linesFromFailedParts k s' = []"
    if "find_order k s' = Some ord" "o_status ord = AWAITING_APPROVAL" for k ord
    using that settled [of k, unfolded settled_order_def list_ex_iff] by simp
  ultimately show ?thesis unfolding os_def by blast
qed

text \<open>One order, offered to warehouse \<open>wa\<close> (no answer) and refused by \<open>wb\<close>; forty kilograms in each part.\<close>

definition ex_line :: "ident \<Rightarrow> ident \<Rightarrow> rat \<Rightarrow> order_part_line" where
  "ex_line i partId q = \<lparr>l_id = i, l_partId = partId, l_productId = ''p7'', l_odooProductId = 7, l_productName = ''steel'',
     l_conditionCode = None, l_quantity = q, l_unitType = ''KG'', l_unitPrice = 100, l_subtotal = 100 * q\<rparr>"

definition ex_silent_store :: "order_status \<Rightarrow> store" where
  "ex_silent_store st = ex_alloc_store\<lparr>db_orders := [ex_order\<lparr>o_status := st, o_allocationRound := 1\<rparr>],
     db_parts := [ex_part ''q1'' ''o1'' ''wa'' P_OFFERED], db_lines := [ex_line ''l1'' ''q1'' 10],
     db_offers := [ex_offer ''f1'' ''q1'' ''o1'' ''wa'' 900]\<rparr>"

lemma ex_silent_ok:
  "ids_ok (ex_silent_store st)" "pairs_unique (ex_silent_store st)"
  "distinct (map wh_id (db_warehouses (ex_silent_store st)))" "current_rate (ex_silent_store st) \<noteq> None"
proof -
  show "ids_ok (ex_silent_store st)"
    by (rule ids_ok_example)
      (simp_all add: ex_silent_store_def ex_alloc_store_def ex_map_store_def ex_store_def ex_order_def
        ex_part_def ex_offer_def ex_line_def store_ids_def)
  show "current_rate (ex_silent_store st) \<noteq> None"
    by (simp add: ex_silent_store_def ex_alloc_store_def current_rate_def ex_rate_def latest_first_def)
qed (simp_all add: ex_silent_store_def ex_alloc_store_def ex_map_store_def ex_store_def ex_warehouses_def pairs_unique_def)

theorem sweep_breaks_silence_witness:
  "\<exists>s'. sweep ex_map_world (ex_silent_store AWAITING_APPROVAL) = (Inr (), s')
     \<and> (ex_part ''q1'' ''o1'' ''wa'' P_EXPIRED) \<in> set (db_parts s')
     \<and> (None, CANCEL_ORDER_PART ''q1'' expiry_reason) \<in> set (db_jobs s')"
proof -
  let ?s = "ex_silent_store AWAITING_APPROVAL"
  obtain s' where run: "sweep ex_map_world ?s = (fst (sweep ex_map_world ?s), s')" by (metis prod.collapse)
  have "overdue_offers ex_map_world ?s = [ex_offer ''f1'' ''q1'' ''o1'' ''wa'' 900]"
    and "db_parts ?s = [ex_part ''q1'' ''o1'' ''wa'' P_OFFERED]"
    by (simp_all add: ex_silent_store_def overdue_offers_def ex_offer_def ex_map_world_def)
  with sweep_breaks_silence [OF ex_silent_ok run] run show ?thesis
    by (auto simp: ex_offer_def ex_part_def)
qed

text \<open>The allocator does not look at the status of the order it is given: an unanswered part of an order
  that was cancelled meanwhile brings the order back to life.\<close>

lemma sweep_reopens_cancelled:
  "map o_status (db_orders (snd (sweep ex_map_world (ex_silent_store CANCELLED)))) = [AWAITING_APPROVAL]"
  by code_simp

text \<open>Two refusals of the same ten kilograms, in two rounds, and the allocator looks for twenty.\<close>

lemma refused_twice_doubles:
  "map rq_quantity (linesFromFailedParts ''o1'' (ex_silent_store AWAITING_APPROVAL\<lparr>db_parts :=
     [ex_part ''q1'' ''o1'' ''wa'' P_REJECTED, ex_part ''q2'' ''o1'' ''wb'' P_REJECTED],
     db_lines := [ex_line ''l1'' ''q1'' 10, ex_line ''l2'' ''q2'' 10]\<rparr>)) = [20]"
  by code_simp

end
