(* ===== verification/LifeSpec.thy ===== *)
theory LifeSpec
  imports OrderStore
begin

text \<open>
  The abstract specification the order services implement: a finite set of parts and orders, each
  only a status, and the moves their life cycles allow.  \<open>statuses\<close> forgets everything else in a
  store; a service refines the specification when the statuses it leaves are reached from those it
  found by moves of the specification.
\<close>

type_synonym life = "(ident \<Rightarrow> part_status option) \<times> (ident \<Rightarrow> order_status option)"

definition statuses :: "store \<Rightarrow> life" where
  "statuses s = (\<lambda>i. map_option p_status (find_part i s), \<lambda>k. map_option o_status (find_order k s))"

inductive life_step :: "life \<Rightarrow> life \<Rightarrow> bool" where
  part_move: "P i = Some p \<Longrightarrow> canTransitionPart p q \<Longrightarrow> life_step (P, R) (P(i \<mapsto> q), R)"
| order_move: "R k = Some t \<Longrightarrow> canTransition t u \<Longrightarrow> life_step (P, R) (P, R(k \<mapsto> u))"

inductive_cases life_stepE: "life_step (P, R) (P', R')"

abbreviation life_steps :: "life \<Rightarrow> life \<Rightarrow> bool" where
  "life_steps \<equiv> life_step\<^sup>*\<^sup>*"

text \<open>What a run of the specification can do to one part and to one order.\<close>

lemma life_steps_moves:
  assumes "life_steps l l'"
  shows "fst l i = None \<longleftrightarrow> fst l' i = None" and "snd l k = None \<longleftrightarrow> snd l' k = None"
    and "fst l i = Some p \<Longrightarrow> \<exists>p'. fst l' i = Some p' \<and> moves ORDER_PART_TRANSITIONS p p'"
    and "snd l k = Some t \<Longrightarrow> \<exists>t'. snd l' k = Some t' \<and> moves ORDER_TRANSITIONS t t'"
proof -
  have "(fst l i = None \<longleftrightarrow> fst l' i = None) \<and> (snd l k = None \<longleftrightarrow> snd l' k = None)
    \<and> (\<forall>p. fst l i = Some p \<longrightarrow> (\<exists>p'. fst l' i = Some p' \<and> moves ORDER_PART_TRANSITIONS p p'))
    \<and> (\<forall>t. snd l k = Some t \<longrightarrow> (\<exists>t'. snd l' k = Some t' \<and> moves ORDER_TRANSITIONS t t'))"
    using assms
  proof (induction rule: rtranclp_induct)
    case base
    then show ?case by (auto intro: moves.stay)
  next
    case (step l1 l2)
    from step.hyps(2) show ?case
    proof (cases rule: life_step.cases)
      case (part_move P j p q R)
      then have "moves ORDER_PART_TRANSITIONS p' q" if "moves ORDER_PART_TRANSITIONS p' p" for p'
        using that by (auto simp: canTransitionPart_allowed intro: moves.move)
      then show ?thesis using step.IH part_move by (cases "j = i") auto
    next
      case (order_move R j t u P)
      then have "moves ORDER_TRANSITIONS t' u" if "moves ORDER_TRANSITIONS t' t" for t'
        using that by (auto simp: canTransition_allowed intro: moves.move)
      then show ?thesis using step.IH order_move by (cases "j = k") auto
    qed
  qed
  then show "fst l i = None \<longleftrightarrow> fst l' i = None" and "snd l k = None \<longleftrightarrow> snd l' k = None"
    and "fst l i = Some p \<Longrightarrow> \<exists>p'. fst l' i = Some p' \<and> moves ORDER_PART_TRANSITIONS p p'"
    and "snd l k = Some t \<Longrightarrow> \<exists>t'. snd l' k = Some t' \<and> moves ORDER_TRANSITIONS t t'"
    by blast+
qed

text \<open>Conversely a sequence of allowed moves of one part or order is a run of the specification.\<close>

lemma part_moves_life:
  assumes "moves ORDER_PART_TRANSITIONS p q" and "P i = Some p"
  shows "life_steps (P, R) (P(i \<mapsto> q), R)"
  using assms
proof (induction rule: moves.induct)
  case (stay s)
  then have "P(i \<mapsto> s) = P" by (simp add: fun_eq_iff)
  then show ?case by simp
next
  case (move s t u)
  have "life_step (P(i \<mapsto> t), R) ((P(i \<mapsto> t))(i \<mapsto> u), R)"
    using move.hyps(2) by (intro life_step.part_move [where p = t]) (simp_all add: canTransitionPart_allowed)
  then have "life_step (P(i \<mapsto> t), R) (P(i \<mapsto> u), R)" by (simp only: fun_upd_upd)
  with move.IH [OF move.prems] show ?case by (rule rtranclp.rtrancl_into_rtrancl)
qed

lemma order_moves_life:
  assumes "canTransition t u" and "R k = Some t"
  shows "life_steps (P, R) (P, R(k \<mapsto> u))"
  using life_step.order_move [of R k t u P] assms by blast

lemma filter_replaced:
  "key r = k \<Longrightarrow> filter (\<lambda>x. key x \<noteq> k) (map (\<lambda>x. if key x = k then r else x) rows) = filter (\<lambda>x. key x \<noteq> k) rows"
  by (induction rows) auto

end
