(* ===== verification/OdooEvents.thy ===== *)
theory OdooEvents
  imports OrderState OrderAllocation LifeSpec
begin

text \<open>
  The order jobs of \<open>odoo-sync/odoo-sync.processor.ts\<close>, where a warehouse works the parts: pushing and
  cancelling a part in Odoo, and applying what a warehouse reports back to the part, to its order
  and to the jobs that plan a trip.  The calls to Odoo are parameters.
\<close>

section \<open>Odoo\<close>

record push_line =
  ul_product :: int
  ul_quantity :: rat
  ul_condition :: "string option"
  ul_price :: rat

record part_push =
  pu_partId :: ident
  pu_orderId :: ident
  pu_sequence :: nat
  pu_count :: nat
  pu_factoryId :: ident
  pu_customerName :: string
  pu_customerEmail :: "string option"
  pu_warehouse :: int
  pu_orderType :: string
  pu_lines :: "push_line list"

text \<open>
  The calls, with no result when the call throws: the id of the order created, whether its stock was
  reserved, the cancellation, the trip, the note to a manager.  \<open>od_account\<close> is the account table as
  the worker reads it: name and e-mail.
\<close>

record odoo =
  od_pushPart :: "part_push \<Rightarrow> int option"
  od_reserve :: "int \<Rightarrow> bool option"
  od_cancelPart :: "ident \<Rightarrow> string \<Rightarrow> unit option"
  od_pushTrip :: "trip_push \<Rightarrow> unit option"
  od_notifyComplaint :: "int \<Rightarrow> complaint_kind \<Rightarrow> string \<Rightarrow> string \<Rightarrow> unit option"
  od_account :: "ident \<Rightarrow> (string \<times> string option) option"

text \<open>A JavaScript number counts as present when it is neither null nor zero.\<close>

definition present :: "int option \<Rightarrow> bool" where
  "present x \<longleftrightarrow> x \<noteq> None \<and> x \<noteq> Some 0"

definition call :: "'a option \<Rightarrow> 'a action" where
  "call answer = (case answer of None \<Rightarrow> throw Crash | Some x \<Rightarrow> ret x)"

section \<open>Pushing and cancelling a part\<close>

definition part_payload :: "odoo \<Rightarrow> order_part \<Rightarrow> order \<Rightarrow> int \<Rightarrow> store \<Rightarrow> part_push" where
  "part_payload rpc part ord warehouseOdooId s =
     \<lparr>pu_partId = p_id part, pu_orderId = p_orderId part, pu_sequence = p_sequence part,
      pu_count = length (parts_of (p_orderId part) s), pu_factoryId = o_buyerProfileId ord,
      pu_customerName = (case od_account rpc (o_buyerAccountId ord) of None \<Rightarrow> ''Buyer'' | Some (name, _) \<Rightarrow> name),
      pu_customerEmail = Option.bind (od_account rpc (o_buyerAccountId ord)) snd,
      pu_warehouse = warehouseOdooId,
      pu_orderType = (if o_buyerRole ord = FACTORY then ''factory'' else ''free_facility''),
      pu_lines = map (\<lambda>l. \<lparr>ul_product = l_odooProductId l, ul_quantity = l_quantity l,
        ul_condition = l_conditionCode l, ul_price = l_unitPrice l\<rparr>) (lines_of (p_id part) s)\<rparr>"

definition pushOrderPart :: "odoo \<Rightarrow> ident \<Rightarrow> unit action" where
  "pushOrderPart rpc partId =
     bind (reads (find_part partId)) (\<lambda>found. case found of None \<Rightarrow> ret () | Some part \<Rightarrow>
     if present (p_odooOrderId part) then ret ()
     else
       bind (reads (\<lambda>s. Option.bind (find_warehouse (p_warehouseId part) s) wh_odooWarehouseId)) (\<lambda>warehouseOdooId.
       bind (refuse_if (\<not> present warehouseOdooId) Crash) (\<lambda>_.
       bind (reads (find_order (p_orderId part))) (\<lambda>order. case order of None \<Rightarrow> throw Crash | Some ord \<Rightarrow>
       bind (reads (part_payload rpc part ord (the warehouseOdooId))) (\<lambda>payload.
       bind (call (od_pushPart rpc payload)) (\<lambda>odooId.
       let part1 = part\<lparr>p_odooOrderId := Some odooId\<rparr> in
       bind (save_part part1) (\<lambda>_.
       bind (call (od_reserve rpc odooId)) (\<lambda>reserved.
       save_part (part1\<lparr>p_stockReserved := reserved\<rparr>)))))))))"

text \<open>\<open>cancelOrderPart\<close>: the job, as opposed to the buyer's \<open>cancel\<close>.\<close>

definition cancelOrderPart :: "odoo \<Rightarrow> ident \<Rightarrow> string \<Rightarrow> unit action" where
  "cancelOrderPart rpc partId reason =
     bind (reads (find_part partId)) (\<lambda>found. case found of None \<Rightarrow> ret () | Some part \<Rightarrow>
     if \<not> present (p_odooOrderId part) then ret ()
     else
       bind (call (od_cancelPart rpc (p_id part) reason)) (\<lambda>_.
       save_part (part\<lparr>p_stockReserved := False\<rparr>)))"

definition pushDeliveryTrip :: "odoo \<Rightarrow> trip_push \<Rightarrow> unit action" where
  "pushDeliveryTrip rpc trip = call (od_pushTrip rpc trip)"

definition pushComplaint :: "odoo \<Rightarrow> int \<Rightarrow> complaint_kind \<Rightarrow> string \<Rightarrow> string \<Rightarrow> unit action" where
  "pushComplaint rpc odooWarehouseId kind description orderNumber =
     call (od_notifyComplaint rpc odooWarehouseId kind description orderNumber)"

section \<open>What a warehouse reports\<close>

definition refreshOrderStatus :: "world \<Rightarrow> ident \<Rightarrow> unit action" where
  "refreshOrderStatus W orderId =
     bind (reads (find_order orderId)) (\<lambda>found. case found of None \<Rightarrow> ret () | Some ord \<Rightarrow>
     bind (reads (parts_of orderId)) (\<lambda>parts.
     case deriveOrderStatus (o_fulfilmentMode ord) (map p_status parts) of None \<Rightarrow> ret ()
     | Some derived \<Rightarrow>
         if derived = o_status ord then ret ()
         else if \<not> canTransition (o_status ord) derived then ret ()
         else save_order ((if derived = PREPARING then ord\<lparr>o_status := derived, o_preparingAt := Some (w_now W)\<rparr>
                else if derived = DELIVERED then ord\<lparr>o_status := derived, o_deliveredAt := Some (w_now W)\<rparr>
                else ord\<lparr>o_status := derived\<rparr>))))"

definition wasSplitInLatestRound :: "ident \<Rightarrow> store \<Rightarrow> bool" where
  "wasSplitInLatestRound orderId s =
     latestRoundWasSplit (map (\<lambda>f. (f_roundNumber f, f_partId f)) (offers_of orderId s))"

definition routeSplitRejectionToBuyer :: "ident \<Rightarrow> bool action" where
  "routeSplitRejectionToBuyer orderId =
     bind (reads (wasSplitInLatestRound orderId)) (\<lambda>split. if \<not> split then ret False else
     bind (reads (find_order orderId)) (\<lambda>found. case found of None \<Rightarrow> ret False | Some ord \<Rightarrow>
     if o_status ord = REJECTED_AWAITING_BUYER then ret True
     else if List.member TERMINAL_ORDER_STATUSES (o_status ord) then ret True
     else if \<not> canTransition (o_status ord) REJECTED_AWAITING_BUYER then ret True
     else bind (save_order (ord\<lparr>o_status := REJECTED_AWAITING_BUYER\<rparr>)) (\<lambda>_. ret True)))"

definition live_parts :: "ident \<Rightarrow> store \<Rightarrow> order_part list" where
  "live_parts orderId s = filter live_part (parts_of orderId s)"

definition maybeTriggerDelivery :: "ident \<Rightarrow> unit action" where
  "maybeTriggerDelivery orderId =
     bind (reads (find_order orderId)) (\<lambda>ord.
     if map_option o_fulfilmentMode ord \<noteq> Some DELIVERY then ret ()
     else
       bind (reads (live_parts orderId)) (\<lambda>live.
       if live = [] then ret ()
       else if \<not> list_all (\<lambda>p. p_status p = P_IN_OUTPUT_ZONE) live then ret ()
       else enqueue (Some (''plan-delivery-'' @ orderId)) (PLAN_DELIVERY orderId)))"

definition maybeTriggerConsolidation :: "ident \<Rightarrow> unit action" where
  "maybeTriggerConsolidation orderId =
     bind (reads (find_order orderId)) (\<lambda>ord.
     if map_option o_consolidate ord \<noteq> Some True then ret ()
     else if map_option o_fulfilmentMode ord = Some DELIVERY then ret ()
     else
       bind (reads (live_parts orderId)) (\<lambda>live.
       if length live < 2 then ret ()
       else if \<not> list_all (\<lambda>p. p_status p = P_IN_OUTPUT_ZONE) live then ret ()
       else enqueue (Some (''plan-consolidation-'' @ orderId)) (PLAN_CONSOLIDATION orderId)))"

definition recalculateOrderTotals :: "ident \<Rightarrow> unit action" where
  "recalculateOrderTotals orderId =
     bind (reads (find_order orderId)) (\<lambda>found. case found of None \<Rightarrow> ret () | Some ord \<Rightarrow>
     bind (reads (live_parts orderId)) (\<lambda>live.
     let delivery = sum_list (map p_deliveryCost live) in
     save_order (ord\<lparr>o_deliveryTotal := round3 delivery, o_grandTotal := round3 (o_goodsTotal ord + delivery)\<rparr>)))"

definition applyReassignment :: "order_part \<Rightarrow> order \<Rightarrow> order_event \<Rightarrow> unit action" where
  "applyReassignment part ord payload =
     (if \<not> present (oe_warehouseOdooId payload) then ret ()
      else if p_status part \<noteq> P_OFFERED then ret ()
      else
        bind (reads (\<lambda>s. find (\<lambda>w. wh_odooWarehouseId w = oe_warehouseOdooId payload) (db_warehouses s))) (\<lambda>found.
        case found of None \<Rightarrow> ret () | Some warehouse \<Rightarrow>
        if wh_id warehouse = p_warehouseId part then ret ()
        else
          bind (reads (\<lambda>s. find (\<lambda>c. dc_buyerProfileId c = o_buyerProfileId ord
              \<and> dc_warehouseId c = wh_id warehouse) (db_distances s))) (\<lambda>cached.
          let part1 = (part\<lparr>p_warehouseId := wh_id warehouse\<rparr>);
              part2 = (case cached of None \<Rightarrow> part1 | Some c \<Rightarrow> part1\<lparr>p_distanceKm := dc_distanceKm c\<rparr>) in
          bind (if o_fulfilmentMode ord = DELIVERY
                then bind (quote (p_distanceKm part2)) (\<lambda>q. ret (part2\<lparr>p_deliveryCost := q_cost q\<rparr>))
                else ret part2) (\<lambda>part3.
          bind (save_part part3) (\<lambda>_.
          recalculateOrderTotals (o_id ord))))))"

text \<open>\<open>if (payload.x) part.x = payload.x\<close>: an absent or empty text leaves the field.\<close>

definition given :: "string option \<Rightarrow> string option \<Rightarrow> string option" where
  "given new old = (case new of Some (c # cs) \<Rightarrow> Some (c # cs) | _ \<Rightarrow> old)"

text \<open>The part after an event: what it carries, the status it names where the life cycle allows it, the
  step a collection takes on its own after it, and the end of the hold on the stock.\<close>

definition event_details :: "order_event \<Rightarrow> order_part \<Rightarrow> order_part" where
  "event_details payload part = part\<lparr>
     p_odooOrderId := (if present (p_odooOrderId part) then p_odooOrderId part else Some (oe_odooOrderId payload)),
     p_invoiceNumber := given (oe_invoiceNumber payload) (p_invoiceNumber part),
     p_outputZoneName := given (oe_outputZone payload) (p_outputZoneName part),
     p_rejectReason := given (oe_rejectReason payload) (p_rejectReason part)\<rparr>"

definition event_status :: "world \<Rightarrow> order_event \<Rightarrow> fulfilment_mode \<Rightarrow> bool \<Rightarrow> order_part \<Rightarrow> order_part" where
  "event_status W payload mode consolidate part =
     (case resolvePartStatus (oe_event payload) (oe_handoverType payload) of None \<Rightarrow> part
      | Some target \<Rightarrow>
          if \<not> canTransitionPart (p_status part) target then part
          else
            let moved = stampPart (part\<lparr>p_status := target\<rparr>) target (w_now W) in
            (case autoAdvanceAfterPreparation target mode consolidate of None \<Rightarrow> moved
             | Some next \<Rightarrow> if canTransitionPart target next then moved\<lparr>p_status := next\<rparr> else moved))"

definition event_part :: "world \<Rightarrow> order_event \<Rightarrow> fulfilment_mode \<Rightarrow> bool \<Rightarrow> order_part \<Rightarrow> order_part" where
  "event_part W payload mode consolidate part =
     (let moved = event_status W payload mode consolidate (event_details payload part)
      in if List.member [P_REJECTED, P_STOCK_DEDUCTED] (p_status moved)
         then moved\<lparr>p_stockReserved := False\<rparr> else moved)"

text \<open>After the part is saved: the buyer's verdict on a refused split, else the derived status and the
  trips that can start now.\<close>

definition afterPartEvent :: "world \<Rightarrow> ident \<Rightarrow> bool \<Rightarrow> unit action" where
  "afterPartEvent W orderId rejected =
     bind (if rejected then routeSplitRejectionToBuyer orderId else ret False) (\<lambda>routed.
     if routed then ret ()
     else
       bind (refreshOrderStatus W orderId) (\<lambda>_.
       bind (maybeTriggerConsolidation orderId) (\<lambda>_.
       maybeTriggerDelivery orderId)))"

text \<open>The part is loaded with its order; the foreign key makes the order there.\<close>

definition applyOrderEvent :: "world \<Rightarrow> order_event \<Rightarrow> unit action" where
  "applyOrderEvent W payload =
     (if \<not> is_uuid (oe_partId payload) then ret ()
      else
        bind (reads (find_part (oe_partId payload))) (\<lambda>found. case found of None \<Rightarrow> ret () | Some part \<Rightarrow>
        bind (reads (find_order (p_orderId part))) (\<lambda>order. case order of None \<Rightarrow> throw Crash | Some ord \<Rightarrow>
        if oe_event payload = ''reassigned'' then applyReassignment part ord payload
        else
          let part1 = event_part W payload (o_fulfilmentMode ord) (o_consolidate ord) part in
          bind (save_part part1) (\<lambda>_.
          afterPartEvent W (p_orderId part) (p_status part1 = P_REJECTED)))))"

section \<open>Facts\<close>

lemma event_details_simps [simp]:
  "p_id (event_details e p) = p_id p" "p_orderId (event_details e p) = p_orderId p"
  "p_status (event_details e p) = p_status p" "p_stockReserved (event_details e p) = p_stockReserved p"
  by (simp_all add: event_details_def)

lemma event_status_simps [simp]:
  "p_id (event_status W e m c p) = p_id p" "p_orderId (event_status W e m c p) = p_orderId p"
  "p_stockReserved (event_status W e m c p) = p_stockReserved p"
  by (simp_all add: event_status_def Let_def split: option.split)

lemma event_part_simps [simp]:
  "p_id (event_part W e m c p) = p_id p" "p_orderId (event_part W e m c p) = p_orderId p"
  "p_status (event_part W e m c p) = p_status (event_status W e m c (event_details e p))"
  by (simp_all add: event_part_def Let_def)

text \<open>The part makes at most the moves its life cycle allows.\<close>

lemma event_part_moves:
  "moves ORDER_PART_TRANSITIONS (p_status p) (p_status (event_part W e m c p))"
proof (cases "resolvePartStatus (oe_event e) (oe_handoverType e)")
  case None
  then show ?thesis by (simp add: event_status_def moves.stay)
next
  case (Some target)
  show ?thesis
  proof (cases "canTransitionPart (p_status p) target")
    case False
    then show ?thesis using Some by (simp add: event_status_def moves.stay)
  next
    case True
    then have one: "moves ORDER_PART_TRANSITIONS (p_status p) target"
      by (simp add: canTransitionPart_allowed moves_step)
    show ?thesis
      using True Some one
      by (auto simp: event_status_def Let_def canTransitionPart_allowed split: option.split
          intro: moves.move [OF one])
  qed
qed

text \<open>Applying the same event to the part again changes nothing.\<close>

lemma advance_cases:
  "autoAdvanceAfterPreparation target m c = Some next \<Longrightarrow> target = P_IN_OUTPUT_ZONE \<and> next = P_READY_FOR_PICKUP"
  by (auto simp: autoAdvanceAfterPreparation_def split: if_splits)

lemma event_details_twice [simp]: "event_details e (event_details e p) = event_details e p"
  by (auto simp: event_details_def given_def present_def split: option.splits list.splits)

lemma stampPart_details [simp]:
  "p_odooOrderId (stampPart p t now) = p_odooOrderId p" "p_invoiceNumber (stampPart p t now) = p_invoiceNumber p"
  "p_outputZoneName (stampPart p t now) = p_outputZoneName p" "p_rejectReason (stampPart p t now) = p_rejectReason p"
  by (cases t; simp add: stampPart_def)+

lemma event_details_fixed:
  "p_odooOrderId q = p_odooOrderId (event_details e p) \<Longrightarrow> p_invoiceNumber q = p_invoiceNumber (event_details e p) \<Longrightarrow>
   p_outputZoneName q = p_outputZoneName (event_details e p) \<Longrightarrow> p_rejectReason q = p_rejectReason (event_details e p) \<Longrightarrow>
   event_details e q = q"
  by (auto simp: event_details_def given_def present_def split: option.splits list.splits)

lemma event_details_part: "event_details e (event_part W e m c p) = event_part W e m c p"
proof (rule event_details_fixed [where p = p])
  have "p_odooOrderId (event_status W e m c q) = p_odooOrderId q"
    "p_invoiceNumber (event_status W e m c q) = p_invoiceNumber q"
    "p_outputZoneName (event_status W e m c q) = p_outputZoneName q"
    "p_rejectReason (event_status W e m c q) = p_rejectReason q" for q
    by (simp_all add: event_status_def Let_def split: option.split)
  then show "p_odooOrderId (event_part W e m c p) = p_odooOrderId (event_details e p)"
    "p_invoiceNumber (event_part W e m c p) = p_invoiceNumber (event_details e p)"
    "p_outputZoneName (event_part W e m c p) = p_outputZoneName (event_details e p)"
    "p_rejectReason (event_part W e m c p) = p_rejectReason (event_details e p)"
    by (simp_all add: event_part_def Let_def)
qed

lemma event_status_stops:
  assumes "resolvePartStatus (oe_event e) (oe_handoverType e) = Some target"
  shows "\<not> canTransitionPart (p_status (event_status W e m c p)) target"
proof (cases "canTransitionPart (p_status p) target")
  case True
  have "\<not> canTransitionPart target target" "\<not> canTransitionPart P_READY_FOR_PICKUP P_IN_OUTPUT_ZONE"
    by (cases target) (simp_all add: canTransitionPart_def)
  then show ?thesis using assms True
    by (auto simp: event_status_def Let_def split: option.split dest: advance_cases)
next
  case False
  then show ?thesis using assms by (simp add: event_status_def)
qed

lemma event_part_twice: "event_part W e m c (event_part W e m c p) = event_part W e m c p"
proof -
  let ?p = "event_part W e m c p"
  have "event_status W e m c ?p = ?p"
  proof (cases "resolvePartStatus (oe_event e) (oe_handoverType e)")
    case None
    then show ?thesis by (simp add: event_status_def)
  next
    case (Some target)
    then have "\<not> canTransitionPart (p_status ?p) target" using event_status_stops [OF Some] by simp
    then show ?thesis using Some by (simp add: event_status_def [of W e m c ?p])
  qed
  then have "event_part W e m c ?p = (if List.member [P_REJECTED, P_STOCK_DEDUCTED] (p_status ?p)
      then ?p\<lparr>p_stockReserved := False\<rparr> else ?p)"
    unfolding event_part_def [of W e m c ?p] event_details_part by (simp only: Let_def)
  also have "\<dots> = ?p" by (auto simp: event_part_def Let_def)
  finally show ?thesis .
qed

subsection \<open>The order after an event\<close>

text \<open>What an event may do to the order: nothing, or one move its life cycle allows, announced once.\<close>

definition order_step :: "ident \<Rightarrow> store \<Rightarrow> store \<Rightarrow> bool" where
  "order_step k s s' \<longleftrightarrow> s' = s \<or> (\<exists>ord ord'. find_order k s = Some ord \<and> o_id ord' = k
     \<and> canTransition (o_status ord) (o_status ord') \<and> o_fulfilmentMode ord' = o_fulfilmentMode ord
     \<and> o_consolidate ord' = o_consolidate ord \<and> o_goodsTotal ord' = o_goodsTotal ord
     \<and> o_buyerAccountId ord' = o_buyerAccountId ord
     \<and> s' = s\<lparr>db_orders := map (\<lambda>x. if o_id x = k then ord' else x) (db_orders s),
         db_events := db_events s @ [\<lparr>ev_buyerAccountId = o_buyerAccountId ord', ev_orderNumber = o_orderNumber ord',
           ev_status = o_status ord', ev_previousStatus = o_status ord\<rparr>]\<rparr>)"

lemma find_order_row: "find_order k s = Some ord \<Longrightarrow> o_id ord = k"
  by (auto simp: find_order_def dest: tbl_find_SomeD)

lemma ids_ok_orders:
  "ids_ok s \<Longrightarrow> map o_id rows = map o_id (db_orders s) \<Longrightarrow> ids_ok (s\<lparr>db_orders := rows, db_events := es\<rparr>)"
  by (simp add: ids_ok_def store_ids_def)

lemma save_order_step:
  assumes "ids_ok s" and "find_order k s = Some ord" and "o_id ord' = k"
    and "canTransition (o_status ord) (o_status ord')" and "o_fulfilmentMode ord' = o_fulfilmentMode ord"
    and "o_consolidate ord' = o_consolidate ord" and "o_goodsTotal ord' = o_goodsTotal ord"
    and "o_buyerAccountId ord' = o_buyerAccountId ord"
  shows "\<exists>s'. save_order ord' s = (Inr (), s') \<and> order_step k s s' \<and> find_order k s' = Some ord'"
proof -
  have "\<not> canTransition t t" for t by (cases t) (simp_all add: canTransition_def)
  then have "o_status ord' \<noteq> o_status ord" using assms(4) by metis
  then have ev: "afterUpdate ord' (find_order (o_id ord') s) = [\<lparr>ev_buyerAccountId = o_buyerAccountId ord',
      ev_orderNumber = o_orderNumber ord', ev_status = o_status ord', ev_previousStatus = o_status ord\<rparr>]"
    using assms(2,3) by (simp add: afterUpdate_def)
  have dist: "distinct (map o_id (db_orders s))" using assms(1) by (simp add: ids_ok_def)
  have "o_id ord' \<in> o_id ` set (db_orders s)"
    using assms(2,3) by (metis find_order_def imageI tbl_find_SomeD)
  then have saved: "tbl_save o_id ord' (db_orders s) = map (\<lambda>x. if o_id x = k then ord' else x) (db_orders s)"
    using dist assms(3) by (simp add: tbl_save_map)
  let ?s' = "s\<lparr>db_orders := map (\<lambda>x. if o_id x = k then ord' else x) (db_orders s),
    db_events := db_events s @ [\<lparr>ev_buyerAccountId = o_buyerAccountId ord', ev_orderNumber = o_orderNumber ord',
      ev_status = o_status ord', ev_previousStatus = o_status ord\<rparr>]\<rparr>"
  have run: "save_order ord' s = (Inr (), ?s')" unfolding save_order_def writes_apply ev saved ..
  have "order_step k s ?s'"
    unfolding order_step_def by (rule disjI2, rule exI [of _ ord], rule exI [of _ ord']) (use assms in simp)
  moreover have "find_order k ?s' = Some ord'"
    using assms(2) by (simp add: find_order_def tbl_find_replaced [of o_id, OF assms(3)])
  ultimately show ?thesis using run by blast
qed

lemma order_step_tables:
  assumes "order_step k s s'"
  shows "db_parts s' = db_parts s" "db_offers s' = db_offers s" "db_jobs s' = db_jobs s"
    "find_order k s' = None \<longleftrightarrow> find_order k s = None"
  using assms by (auto simp: order_step_def find_order_def tbl_find_replaced)

lemma order_step_ids: "ids_ok s \<Longrightarrow> order_step k s s' \<Longrightarrow> ids_ok s'"
  by (auto simp: order_step_def intro!: ids_ok_orders)

text \<open>The status says what the parts say, or may not follow them.\<close>

definition status_current :: "ident \<Rightarrow> store \<Rightarrow> bool" where
  "status_current k s \<longleftrightarrow> (case find_order k s of None \<Rightarrow> True | Some ord \<Rightarrow>
     (case deriveOrderStatus (o_fulfilmentMode ord) (map p_status (parts_of k s)) of None \<Rightarrow> True
      | Some derived \<Rightarrow> derived = o_status ord \<or> \<not> canTransition (o_status ord) derived))"

lemma refresh_current: "status_current k s \<Longrightarrow> refreshOrderStatus W k s = (Inr (), s)"
  by (auto simp: refreshOrderStatus_def status_current_def split: option.splits)

lemma refresh_run:
  assumes "ids_ok s"
  shows "\<exists>s'. refreshOrderStatus W k s = (Inr (), s') \<and> order_step k s s' \<and> status_current k s'"
proof (cases "status_current k s")
  case True
  then show ?thesis using refresh_current [OF True] by (auto simp: order_step_def)
next
  case False
  then obtain ord d where found: "find_order k s = Some ord"
    and d: "deriveOrderStatus (o_fulfilmentMode ord) (map p_status (parts_of k s)) = Some d"
    and move: "d \<noteq> o_status ord" "canTransition (o_status ord) d"
    by (auto simp: status_current_def split: option.splits)
  define ord' where "ord' = (if d = PREPARING then ord\<lparr>o_status := d, o_preparingAt := Some (w_now W)\<rparr>
      else if d = DELIVERED then ord\<lparr>o_status := d, o_deliveredAt := Some (w_now W)\<rparr> else ord\<lparr>o_status := d\<rparr>)"
  have ord': "o_id ord' = k" "o_status ord' = d" "o_fulfilmentMode ord' = o_fulfilmentMode ord"
    "o_consolidate ord' = o_consolidate ord" "o_goodsTotal ord' = o_goodsTotal ord"
    "o_buyerAccountId ord' = o_buyerAccountId ord"
    using find_order_row [OF found] by (simp_all add: ord'_def)
  obtain s' where saved: "save_order ord' s = (Inr (), s')" "order_step k s s'" "find_order k s' = Some ord'"
    using save_order_step [OF assms found ord'(1) _ ord'(3-)] move(2) ord'(2) by blast
  have "refreshOrderStatus W k s = save_order ord' s"
    using found d move by (simp add: refreshOrderStatus_def ord'_def)
  moreover have "parts_of k s' = parts_of k s" using order_step_tables(1) [OF saved(2)] by (simp add: parts_of_def)
  then have "status_current k s'" using saved(3) d ord' by (simp add: status_current_def)
  ultimately show ?thesis using saved by auto
qed

definition delivery_ready :: "ident \<Rightarrow> store \<Rightarrow> bool" where
  "delivery_ready k s \<longleftrightarrow> map_option o_fulfilmentMode (find_order k s) = Some DELIVERY
     \<and> live_parts k s \<noteq> [] \<and> list_all (\<lambda>p. p_status p = P_IN_OUTPUT_ZONE) (live_parts k s)"

definition consolidation_ready :: "ident \<Rightarrow> store \<Rightarrow> bool" where
  "consolidation_ready k s \<longleftrightarrow> map_option o_consolidate (find_order k s) = Some True
     \<and> map_option o_fulfilmentMode (find_order k s) \<noteq> Some DELIVERY
     \<and> 2 \<le> length (live_parts k s) \<and> list_all (\<lambda>p. p_status p = P_IN_OUTPUT_ZONE) (live_parts k s)"

definition delivery_job :: "ident \<Rightarrow> string option \<times> job" where
  "delivery_job k = (Some (''plan-delivery-'' @ k), PLAN_DELIVERY k)"

definition consolidation_job :: "ident \<Rightarrow> string option \<times> job" where
  "consolidation_job k = (Some (''plan-consolidation-'' @ k), PLAN_CONSOLIDATION k)"

text \<open>Queueing a keyed job: once, however often it is asked for.\<close>

definition queued :: "string option \<times> job \<Rightarrow> store \<Rightarrow> store" where
  "queued j s = (if fst j \<in> fst ` set (db_jobs s) then s else s\<lparr>db_jobs := db_jobs s @ [j]\<rparr>)"

lemma enqueue_queued: "enqueue (Some i) x s = (Inr (), queued (Some i, x) s)"
  by (simp add: enqueue_def queued_def)

lemma queued_tables [simp]:
  "db_orders (queued j s) = db_orders s" "db_parts (queued j s) = db_parts s" "db_offers (queued j s) = db_offers s"
  "db_events (queued j s) = db_events s" "db_uuid (queued j s) = db_uuid s" "db_next (queued j s) = db_next s"
  "find_order k (queued j s) = find_order k s" "find_part i (queued j s) = find_part i s"
  "parts_of k (queued j s) = parts_of k s" "live_parts k (queued j s) = live_parts k s"
  "wasSplitInLatestRound k (queued j s) = wasSplitInLatestRound k s"
  by (simp_all add: queued_def find_order_def find_part_def parts_of_def live_parts_def wasSplitInLatestRound_def
      offers_of_def)

lemma queued_jobs: "\<exists>js. queued j s = s\<lparr>db_jobs := db_jobs s @ js\<rparr> \<and> set js \<subseteq> {j}"
  by (cases "fst j \<in> fst ` set (db_jobs s)")
    (auto simp: queued_def intro: exI [of _ "[]"] exI [of _ "[j]"])

lemma queued_again [simp]: "queued j (queued j s) = queued j s" "queued j (queued i (queued j s)) = queued i (queued j s)"
  by (simp_all add: queued_def)

definition consolidated :: "ident \<Rightarrow> store \<Rightarrow> store" where
  "consolidated k s = (if consolidation_ready k s then queued (consolidation_job k) s else s)"

definition dispatched :: "ident \<Rightarrow> store \<Rightarrow> store" where
  "dispatched k s = (if delivery_ready k s then queued (delivery_job k) s else s)"

lemma maybeTriggerDelivery_run: "maybeTriggerDelivery k s = (Inr (), dispatched k s)"
  by (auto simp: maybeTriggerDelivery_def dispatched_def delivery_ready_def delivery_job_def enqueue_queued)

lemma maybeTriggerConsolidation_run: "maybeTriggerConsolidation k s = (Inr (), consolidated k s)"
  by (auto simp: maybeTriggerConsolidation_def consolidated_def consolidation_ready_def consolidation_job_def
      enqueue_queued)

lemma ready_queued [simp]:
  "consolidation_ready k (queued j s) = consolidation_ready k s" "delivery_ready k (queued j s) = delivery_ready k s"
  by (simp_all add: consolidation_ready_def delivery_ready_def)

lemma triggers_again:
  "consolidated k (dispatched k (consolidated k s)) = dispatched k (consolidated k s)"
  "dispatched k (dispatched k (consolidated k s)) = dispatched k (consolidated k s)"
  by (simp_all add: consolidated_def dispatched_def)

lemma triggered_tables [simp]:
  "db_orders (dispatched k (consolidated k s)) = db_orders s" "db_parts (dispatched k (consolidated k s)) = db_parts s"
  "db_events (dispatched k (consolidated k s)) = db_events s" "db_offers (dispatched k (consolidated k s)) = db_offers s"
  "find_order i (dispatched k (consolidated k s)) = find_order i s"
  "find_part i (dispatched k (consolidated k s)) = find_part i s"
  "parts_of i (dispatched k (consolidated k s)) = parts_of i s"
  "wasSplitInLatestRound k (dispatched k (consolidated k s)) = wasSplitInLatestRound k s"
  by (simp_all add: dispatched_def consolidated_def)

lemma triggered_jobs:
  "\<exists>js. dispatched k (consolidated k s) = s\<lparr>db_jobs := db_jobs s @ js\<rparr> \<and> set js \<subseteq> {consolidation_job k, delivery_job k}"
proof -
  have "\<exists>js. consolidated k s = s\<lparr>db_jobs := db_jobs s @ js\<rparr> \<and> set js \<subseteq> {consolidation_job k}"
    using queued_jobs [of "consolidation_job k" s] by (cases "consolidation_ready k s") (auto simp: consolidated_def intro: exI [of _ "[]"])
  then obtain js where js: "consolidated k s = s\<lparr>db_jobs := db_jobs s @ js\<rparr>" "set js \<subseteq> {consolidation_job k}" by blast
  let ?s = "consolidated k s"
  have "\<exists>js. dispatched k ?s = ?s\<lparr>db_jobs := db_jobs ?s @ js\<rparr> \<and> set js \<subseteq> {delivery_job k}"
    using queued_jobs [of "delivery_job k" ?s] by (cases "delivery_ready k ?s") (auto simp: dispatched_def intro: exI [of _ "[]"])
  then obtain ks where "dispatched k ?s = ?s\<lparr>db_jobs := db_jobs ?s @ ks\<rparr>" "set ks \<subseteq> {delivery_job k}" by blast
  then show ?thesis using js by (intro exI [of _ "js @ ks"]) auto
qed

lemma route_run:
  assumes "ids_ok s"
  shows "\<exists>b s1. routeSplitRejectionToBuyer k s = (Inr b, s1) \<and> order_step k s s1
    \<and> (if b then wasSplitInLatestRound k s \<and> routeSplitRejectionToBuyer k s1 = (Inr True, s1)
       else s1 = s \<and> (wasSplitInLatestRound k s \<longrightarrow> find_order k s = None))"
proof (cases "wasSplitInLatestRound k s")
  case False
  then show ?thesis
    by (intro exI [of _ False] exI [of _ s]) (simp add: routeSplitRejectionToBuyer_def order_step_def)
next
  case split: True
  show ?thesis
  proof (cases "find_order k s")
    case None
    then show ?thesis using split
      by (intro exI [of _ False] exI [of _ s]) (simp add: routeSplitRejectionToBuyer_def order_step_def)
  next
    case (Some ord)
    show ?thesis
    proof (cases "o_status ord = REJECTED_AWAITING_BUYER \<or> List.member TERMINAL_ORDER_STATUSES (o_status ord)
        \<or> \<not> canTransition (o_status ord) REJECTED_AWAITING_BUYER")
      case True
      then have "routeSplitRejectionToBuyer k s = (Inr True, s)"
        using split Some by (auto simp: routeSplitRejectionToBuyer_def)
      then show ?thesis using split by (auto simp: order_step_def)
    next
      case False
      let ?new = "ord\<lparr>o_status := REJECTED_AWAITING_BUYER\<rparr>"
      have "o_id ?new = k" using find_order_row [OF Some] by simp
      from save_order_step [OF assms Some this] False obtain s1 where
        s1: "save_order ?new s = (Inr (), s1)" "order_step k s s1" "find_order k s1 = Some ?new" by auto
      have "routeSplitRejectionToBuyer k s = bind (save_order ?new) (\<lambda>_. ret True) s"
        using split Some False by (simp add: routeSplitRejectionToBuyer_def)
      then have "routeSplitRejectionToBuyer k s = (Inr True, s1)" using s1(1) by (simp add: bind_def)
      moreover have "wasSplitInLatestRound k s1"
        using split order_step_tables(2) [OF s1(2)] by (simp add: wasSplitInLatestRound_def offers_of_def)
      then have "routeSplitRejectionToBuyer k s1 = (Inr True, s1)"
        using s1(3) by (simp add: routeSplitRejectionToBuyer_def)
      ultimately show ?thesis using split s1(2) by auto
    qed
  qed
qed

lemma status_current_triggered [simp]:
  "status_current k (dispatched k (consolidated k s)) = status_current k s"
  unfolding status_current_def triggered_tables ..

text \<open>What follows a part's event: at most one step of its order, at most the two planning jobs; doing it
  again on the result changes nothing.\<close>

lemma afterPartEvent_run:
  assumes "ids_ok s"
  shows "\<exists>s1 js. afterPartEvent W k rejected s = (Inr (), s1\<lparr>db_jobs := db_jobs s1 @ js\<rparr>) \<and> order_step k s s1
    \<and> set js \<subseteq> {consolidation_job k, delivery_job k}
    \<and> afterPartEvent W k rejected (s1\<lparr>db_jobs := db_jobs s1 @ js\<rparr>) = (Inr (), s1\<lparr>db_jobs := db_jobs s1 @ js\<rparr>)"
proof -
  obtain b s0 where route: "(if rejected then routeSplitRejectionToBuyer k else ret False) s = (Inr b, s0)"
    and step: "order_step k s s0"
    and b: "if b then rejected \<and> routeSplitRejectionToBuyer k s0 = (Inr True, s0)
      else s0 = s \<and> (rejected \<longrightarrow> wasSplitInLatestRound k s \<longrightarrow> find_order k s = None)"
    using route_run [OF assms, of k] by (cases rejected) (fastforce simp: order_step_def split: if_splits)+
  show ?thesis
  proof (cases b)
    case True
    then have "afterPartEvent W k rejected s = (Inr (), s0)" "afterPartEvent W k rejected s0 = (Inr (), s0)"
      using route b by (simp_all add: afterPartEvent_def bind_def)
    then show ?thesis using step by (intro exI [of _ s0] exI [of _ "[]"]) simp
  next
    case False
    then have same: "s0 = s" using b by simp
    obtain s1 where refresh: "refreshOrderStatus W k s = (Inr (), s1)" and s1: "order_step k s s1" "status_current k s1"
      using refresh_run [OF assms] by blast
    let ?s2 = "dispatched k (consolidated k s1)"
    obtain js where js: "?s2 = s1\<lparr>db_jobs := db_jobs s1 @ js\<rparr>" "set js \<subseteq> {consolidation_job k, delivery_job k}"
      using triggered_jobs by blast
    have "afterPartEvent W k rejected s = (Inr (), ?s2)"
      using route False same refresh
      by (simp add: afterPartEvent_def bind_def maybeTriggerDelivery_run maybeTriggerConsolidation_run)
    moreover have "(if rejected then routeSplitRejectionToBuyer k else ret False) ?s2 = (Inr False, ?s2)"
    proof (cases "rejected \<and> wasSplitInLatestRound k s")
      case True
      then have "find_order k s1 = None" using b False order_step_tables(4) [OF s1(1)] by simp
      then show ?thesis by (simp add: routeSplitRejectionToBuyer_def)
    next
      case nosplit: False
      have "wasSplitInLatestRound k ?s2 = wasSplitInLatestRound k s"
        using order_step_tables(2) [OF s1(1)] by (simp add: wasSplitInLatestRound_def offers_of_def)
      with nosplit show ?thesis by (simp add: routeSplitRejectionToBuyer_def)
    qed
    then have "afterPartEvent W k rejected ?s2 = (Inr (), ?s2)"
      using refresh_current [of k ?s2 W] s1(2)
      by (simp add: afterPartEvent_def bind_def maybeTriggerDelivery_run maybeTriggerConsolidation_run triggers_again)
    ultimately show ?thesis using s1(1) js by (intro exI [of _ s1] exI [of _ js]) simp
  qed
qed

section \<open>Properties\<close>

lemma save_part_found:
  assumes "ids_ok s" and "find_part i s = Some p" and "p_id p' = i"
  shows "save_part p' s = (Inr (), s\<lparr>db_parts := map (\<lambda>x. if p_id x = i then p' else x) (db_parts s)\<rparr>)"
    and "ids_ok (s\<lparr>db_parts := map (\<lambda>x. if p_id x = i then p' else x) (db_parts s)\<rparr>)"
    and "find_part i (s\<lparr>db_parts := map (\<lambda>x. if p_id x = i then p' else x) (db_parts s)\<rparr>) = Some p'"
proof -
  have dist: "distinct (map p_id (db_parts s))" using assms(1) by (simp add: ids_ok_def)
  have there: "p_id p' \<in> p_id ` set (db_parts s)"
    using assms(2,3) by (metis find_part_def imageI tbl_find_SomeD)
  show "save_part p' s = (Inr (), s\<lparr>db_parts := map (\<lambda>x. if p_id x = i then p' else x) (db_parts s)\<rparr>)"
    using tbl_save_map [OF dist there] by (simp add: save_part_def assms(3))
  have "map p_id (map (\<lambda>x. if p_id x = i then p' else x) (db_parts s)) = map p_id (db_parts s)"
    using assms(3) by simp
  then show "ids_ok (s\<lparr>db_parts := map (\<lambda>x. if p_id x = i then p' else x) (db_parts s)\<rparr>)"
    using assms(1) unfolding ids_ok_def store_ids_def by (simp del: map_map)
  show "find_part i (s\<lparr>db_parts := map (\<lambda>x. if p_id x = i then p' else x) (db_parts s)\<rparr>) = Some p'"
    using assms(2) by (simp add: find_part_def tbl_find_replaced [of p_id, OF assms(3)])
qed

lemma part_rows_same:
  assumes "ids_ok s" and "find_part i s = Some p"
  shows "map (\<lambda>x. if p_id x = i then p else x) (db_parts s) = db_parts s"
proof -
  have "distinct (map p_id (db_parts s))" using assms by (simp add: ids_ok_def)
  then show ?thesis using the_row assms(2) unfolding find_part_def by (intro map_idI) fastforce
qed

text \<open>An event that is not a reassignment, as its two writes.\<close>

lemma applyOrderEvent_status:
  assumes "is_uuid (oe_partId e)" and "find_part (oe_partId e) s = Some p" and "find_order (p_orderId p) s = Some ord"
    and "oe_event e \<noteq> ''reassigned''" and "ids_ok s"
  shows "applyOrderEvent W e s = (let p' = event_part W e (o_fulfilmentMode ord) (o_consolidate ord) p in
    afterPartEvent W (p_orderId p) (p_status p' = P_REJECTED)
      (s\<lparr>db_parts := map (\<lambda>x. if p_id x = oe_partId e then p' else x) (db_parts s)\<rparr>))"
proof -
  have "p_id p = oe_partId e" using tbl_find_SomeD [of p_id _ _ p] assms(2) unfolding find_part_def by blast
  then show ?thesis
    using assms save_part_found(1) [OF assms(5,2), of "event_part W e (o_fulfilmentMode ord) (o_consolidate ord) p"]
    by (simp add: applyOrderEvent_def Let_def bind_def)
qed

lemma order_step_mode:
  assumes "order_step k s s'" and "find_order k s = Some ord"
  obtains ord' where "find_order k s' = Some ord'" "o_fulfilmentMode ord' = o_fulfilmentMode ord"
    "o_consolidate ord' = o_consolidate ord"
  using assms unfolding order_step_def
  by (auto simp: find_order_def tbl_find_replaced)

lemma status_event_twice:
  assumes "is_uuid (oe_partId e)" and "find_part (oe_partId e) s = Some p" and "find_order (p_orderId p) s = Some ord"
    and "oe_event e \<noteq> ''reassigned''" and "ids_ok s"
  shows "\<exists>s'. applyOrderEvent W e s = (Inr (), s') \<and> applyOrderEvent W e s' = (Inr (), s')
    \<and> (\<exists>s1 js. s' = s1\<lparr>db_jobs := db_jobs s1 @ js\<rparr>
       \<and> order_step (p_orderId p) (s\<lparr>db_parts := map (\<lambda>x. if p_id x = oe_partId e
            then event_part W e (o_fulfilmentMode ord) (o_consolidate ord) p else x) (db_parts s)\<rparr>) s1
       \<and> set js \<subseteq> {consolidation_job (p_orderId p), delivery_job (p_orderId p)})"
proof -
  define k where "k = p_orderId p"
  define p' where "p' = event_part W e (o_fulfilmentMode ord) (o_consolidate ord) p"
  define s0 where "s0 = s\<lparr>db_parts := map (\<lambda>x. if p_id x = oe_partId e then p' else x) (db_parts s)\<rparr>"
  have "p_id p = oe_partId e" using tbl_find_SomeD [of p_id _ _ p] assms(2) unfolding find_part_def by blast
  then have id: "p_id p' = oe_partId e" by (simp add: p'_def)
  note found = save_part_found [OF assms(5,2) id, folded s0_def]
  have order: "find_order k s0 = Some ord" using assms(3) by (simp add: s0_def find_order_def k_def)
  obtain s1 js where run: "afterPartEvent W k (p_status p' = P_REJECTED) s0 = (Inr (), s1\<lparr>db_jobs := db_jobs s1 @ js\<rparr>)"
    and step: "order_step k s0 s1" and js: "set js \<subseteq> {consolidation_job k, delivery_job k}"
    and again: "afterPartEvent W k (p_status p' = P_REJECTED) (s1\<lparr>db_jobs := db_jobs s1 @ js\<rparr>)
      = (Inr (), s1\<lparr>db_jobs := db_jobs s1 @ js\<rparr>)"
    using afterPartEvent_run [OF found(2)] by blast
  define s2 where "s2 = s1\<lparr>db_jobs := db_jobs s1 @ js\<rparr>"
  have first: "applyOrderEvent W e s = (Inr (), s2)"
    unfolding s2_def using applyOrderEvent_status [OF assms, of W, unfolded Let_def, folded p'_def, folded k_def s0_def] run
    by (simp only:)
  have ids: "ids_ok s2" using order_step_ids [OF found(2) step] by (simp add: s2_def ids_ok_def store_ids_def)
  have part: "find_part (oe_partId e) s2 = Some p'"
    using found(3) order_step_tables(1) [OF step] by (simp add: s2_def find_part_def)
  obtain ord' where "find_order k s1 = Some ord'" and mode: "o_fulfilmentMode ord' = o_fulfilmentMode ord"
    "o_consolidate ord' = o_consolidate ord" by (rule order_step_mode [OF step order])
  then have order': "find_order (p_orderId p') s2 = Some ord'" by (simp add: s2_def find_order_def p'_def k_def)
  have same: "event_part W e (o_fulfilmentMode ord') (o_consolidate ord') p' = p'"
    unfolding mode p'_def by (rule event_part_twice)
  have rows: "map (\<lambda>x. if p_id x = oe_partId e then p' else x) (db_parts s2) = db_parts s2"
    by (rule part_rows_same [OF ids part])
  have self: "s2\<lparr>db_parts := db_parts s2\<rparr> = s2" by simp
  have "p_orderId p' = k" by (simp add: p'_def k_def)
  then have "applyOrderEvent W e s2 = afterPartEvent W k (p_status p' = P_REJECTED) s2"
    using applyOrderEvent_status [OF assms(1) part order' assms(4) ids, of W, unfolded Let_def same rows self]
    by (simp only:)
  then have "applyOrderEvent W e s2 = (Inr (), s2)" using again by (simp add: s2_def)
  then show ?thesis using first step js s2_def unfolding s0_def p'_def k_def by blast
qed

text \<open>A reassignment: ignored, refused for want of a delivery rate, or carried out.\<close>

definition reassigned :: "order_part \<Rightarrow> order_part \<Rightarrow> order \<Rightarrow> order \<Rightarrow> store \<Rightarrow> store" where
  "reassigned p p' ord ord' s = s\<lparr>db_parts := map (\<lambda>x. if p_id x = p_id p then p' else x) (db_parts s),
     db_orders := map (\<lambda>x. if o_id x = o_id ord then ord' else x) (db_orders s)\<rparr>"

lemma reassign_run:
  assumes "ids_ok s" and "find_part i s = Some p" and "find_order (p_orderId p) s = Some ord"
  shows "applyReassignment p ord e s \<in> {(Inl NotFound, s), (Inr (), s)}
    \<or> (\<exists>w p' ord'. find (\<lambda>w. wh_odooWarehouseId w = oe_warehouseOdooId e) (db_warehouses s) = Some w
        \<and> applyReassignment p ord e s = (Inr (), reassigned p p' ord ord' s)
        \<and> p_warehouseId p' = wh_id w \<and> p_id p' = p_id p \<and> p_orderId p' = p_orderId p
        \<and> p_status p = P_OFFERED \<and> p_status p' = P_OFFERED \<and> p_goodsTotal p' = p_goodsTotal p
        \<and> o_id ord' = o_id ord \<and> o_status ord' = o_status ord \<and> o_goodsTotal ord' = o_goodsTotal ord
        \<and> o_deliveryTotal ord' = round3 (sum_list (map p_deliveryCost (live_parts (o_id ord) (reassigned p p' ord ord' s)))))"
proof (cases "present (oe_warehouseOdooId e) \<and> p_status p = P_OFFERED")
  case False
  then show ?thesis by (auto simp: applyReassignment_def)
next
  case open': True
  show ?thesis
  proof (cases "find (\<lambda>w. wh_odooWarehouseId w = oe_warehouseOdooId e) (db_warehouses s)")
    case None
    then show ?thesis using open' by (simp add: applyReassignment_def)
  next
    case (Some w)
    show ?thesis
    proof (cases "wh_id w = p_warehouseId p")
      case True
      then show ?thesis using open' Some by (simp add: applyReassignment_def)
    next
      case move: False
      define part1 where "part1 = p\<lparr>p_warehouseId := wh_id w\<rparr>"
      define part2 where "part2 = (case find (\<lambda>c. dc_buyerProfileId c = o_buyerProfileId ord
          \<and> dc_warehouseId c = wh_id w) (db_distances s) of None \<Rightarrow> part1 | Some c \<Rightarrow> part1\<lparr>p_distanceKm := dc_distanceKm c\<rparr>)"
      have part2: "p_warehouseId part2 = wh_id w" "p_id part2 = p_id p" "p_orderId part2 = p_orderId p"
        "p_status part2 = p_status p" "p_goodsTotal part2 = p_goodsTotal p"
        by (simp_all add: part2_def part1_def split: option.split)
      let ?fare = "if o_fulfilmentMode ord = DELIVERY
          then bind (quote (p_distanceKm part2)) (\<lambda>q. ret (part2\<lparr>p_deliveryCost := q_cost q\<rparr>)) else ret part2"
      have run: "applyReassignment p ord e s
          = bind ?fare (\<lambda>part3. bind (save_part part3) (\<lambda>_. recalculateOrderTotals (o_id ord))) s"
        using open' Some move
        by (simp add: applyReassignment_def Let_def part1_def [symmetric] part2_def [symmetric])
      show ?thesis
      proof (cases "o_fulfilmentMode ord = DELIVERY \<and> current_rate s = None")
        case True
        then show ?thesis by (simp add: run bind_def quote_result)
      next
        case False
        then obtain part3 where fare: "?fare s = (Inr part3, s)" and part3: "p_warehouseId part3 = wh_id w"
          "p_id part3 = p_id p" "p_orderId part3 = p_orderId p" "p_status part3 = p_status p"
          "p_goodsTotal part3 = p_goodsTotal p"
          using part2 by (cases "o_fulfilmentMode ord = DELIVERY"; cases "current_rate s")
            (auto simp: bind_def quote_result)
        have pid: "p_id p = i" using tbl_find_SomeD [of p_id _ _ p] assms(2) unfolding find_part_def by blast
        note saved = save_part_found [OF assms(1,2), of part3]
        define s1 where "s1 = s\<lparr>db_parts := map (\<lambda>x. if p_id x = p_id p then part3 else x) (db_parts s)\<rparr>"
        have save: "save_part part3 s = (Inr (), s1)" using saved(1) part3(2) pid by (simp add: s1_def)
        have oid: "o_id ord = p_orderId p" by (rule find_order_row [OF assms(3)])
        have order: "find_order (o_id ord) s1 = Some ord" using assms(3) oid by (simp add: s1_def find_order_def)
        define delivery where "delivery = sum_list (map p_deliveryCost (live_parts (o_id ord) s1))"
        define ord' where "ord' = ord\<lparr>o_deliveryTotal := round3 delivery, o_grandTotal := round3 (o_goodsTotal ord + delivery)\<rparr>"
        have there: "o_id ord' \<in> o_id ` set (db_orders s1)" "distinct (map o_id (db_orders s1))"
          using order tbl_find_SomeD [of o_id "o_id ord" "db_orders s1" ord] assms(1)
          by (auto simp: find_order_def ord'_def ids_ok_def s1_def)
        have oid': "o_id ord' = o_id ord" by (simp add: ord'_def)
        have after: "afterUpdate ord' (Some ord) = []" by (simp add: afterUpdate_def ord'_def)
        have saved_row: "tbl_save o_id ord' (db_orders s1) = map (\<lambda>x. if o_id x = o_id ord then ord' else x) (db_orders s1)"
          using tbl_save_map [OF there(2,1)] unfolding oid' .
        have "applyReassignment p ord e s = save_order ord' s1"
          using fare save order
          by (simp add: run bind_def recalculateOrderTotals_def Let_def ord'_def delivery_def)
        also have "\<dots> = (Inr (), reassigned p part3 ord ord' s)"
          unfolding save_order_def writes_apply oid' order after saved_row
          by (simp add: reassigned_def s1_def)
        finally have "applyReassignment p ord e s = (Inr (), reassigned p part3 ord ord' s)" .
        moreover have "live_parts (o_id ord) (reassigned p part3 ord ord' s) = live_parts (o_id ord) s1"
          by (simp add: live_parts_def parts_of_def reassigned_def s1_def)
        ultimately show ?thesis using Some part3 open'
          by (intro disjI2 exI [of _ w] exI [of _ part3] exI [of _ ord']) (simp add: ord'_def delivery_def)
      qed
    qed
  qed
qed


lemma statuses_part:
  assumes "find_part i s = Some p" and "p_id p' = i"
  shows "statuses (s\<lparr>db_parts := map (\<lambda>x. if p_id x = i then p' else x) (db_parts s)\<rparr>)
    = ((fst (statuses s))(i \<mapsto> p_status p'), snd (statuses s))"
  using assms by (auto simp: statuses_def find_part_def find_order_def tbl_find_replaced fun_eq_iff)

lemma statuses_cong:
  "db_parts s' = db_parts s \<Longrightarrow> db_orders s' = db_orders s \<Longrightarrow> statuses s' = statuses s"
  by (simp add: statuses_def find_part_def find_order_def)

lemma order_step_life:
  assumes "order_step k s s'"
  shows "life_steps (statuses s) (statuses s')"
  using assms unfolding order_step_def
proof (elim disjE exE conjE)
  fix ord ord'
  assume found: "find_order k s = Some ord" and id: "o_id ord' = k" and move: "canTransition (o_status ord) (o_status ord')"
    and s': "s' = s\<lparr>db_orders := map (\<lambda>x. if o_id x = k then ord' else x) (db_orders s),
         db_events := db_events s @ [\<lparr>ev_buyerAccountId = o_buyerAccountId ord', ev_orderNumber = o_orderNumber ord',
           ev_status = o_status ord', ev_previousStatus = o_status ord\<rparr>]\<rparr>"
  have "statuses s' = (fst (statuses s), (snd (statuses s))(k \<mapsto> o_status ord'))"
    using found id by (auto simp: s' statuses_def find_part_def find_order_def tbl_find_replaced fun_eq_iff)
  moreover have "snd (statuses s) k = Some (o_status ord)" using found by (simp add: statuses_def)
  ultimately show ?thesis
    using order_moves_life [OF move, of "snd (statuses s)" k "fst (statuses s)"] by simp
qed simp

lemma order_step_rows:
  assumes "order_step k s s'"
  shows "filter (\<lambda>x. o_id x \<noteq> k) (db_orders s') = filter (\<lambda>x. o_id x \<noteq> k) (db_orders s)"
    and "\<exists>evs. db_events s' = db_events s @ evs \<and> length evs \<le> 1
      \<and> list_all (\<lambda>v. canTransition (ev_previousStatus v) (ev_status v)) evs"
proof -
  show "filter (\<lambda>x. o_id x \<noteq> k) (db_orders s') = filter (\<lambda>x. o_id x \<noteq> k) (db_orders s)"
    using assms unfolding order_step_def
    by (elim disjE exE conjE) (simp_all add: filter_replaced [of o_id])
  show "\<exists>evs. db_events s' = db_events s @ evs \<and> length evs \<le> 1
      \<and> list_all (\<lambda>v. canTransition (ev_previousStatus v) (ev_status v)) evs"
    using assms by (auto simp: order_step_def)
qed

text \<open>C19: what a warehouse reports refines the life cycles.  However an event is applied, the statuses it
  leaves are reached from those it found by moves of the abstract specification; only the part it
  is about and the order of that part change, no offer is answered, and at most one change of the
  order's status is announced, a change its life cycle allows.\<close>

theorem event_refines_lifecycle:
  assumes "ids_ok s" and "applyOrderEvent W e s = (r, s')"
  shows "life_steps (statuses s) (statuses s') \<and> db_offers s' = db_offers s
    \<and> filter (\<lambda>p. p_id p \<noteq> oe_partId e) (db_parts s') = filter (\<lambda>p. p_id p \<noteq> oe_partId e) (db_parts s)
    \<and> filter (\<lambda>x. Some (o_id x) \<noteq> map_option p_orderId (find_part (oe_partId e) s)) (db_orders s')
        = filter (\<lambda>x. Some (o_id x) \<noteq> map_option p_orderId (find_part (oe_partId e) s)) (db_orders s)
    \<and> (\<exists>evs. db_events s' = db_events s @ evs \<and> length evs \<le> 1
        \<and> list_all (\<lambda>v. canTransition (ev_previousStatus v) (ev_status v)) evs)"
proof (cases "is_uuid (oe_partId e) \<and> find_part (oe_partId e) s \<noteq> None")
  case False
  then have "s' = s" using assms(2) by (auto simp: applyOrderEvent_def split: if_splits)
  then show ?thesis by simp
next
  case True
  then obtain p where uuid: "is_uuid (oe_partId e)" and p: "find_part (oe_partId e) s = Some p" by blast
  have pid: "p_id p = oe_partId e" using tbl_find_SomeD [of p_id _ _ p] p unfolding find_part_def by blast
  note parts = filter_replaced [of p_id]
  show ?thesis
  proof (cases "find_order (p_orderId p) s")
    case None
    then have "s' = s" using assms(2) uuid p by (auto simp: applyOrderEvent_def)
    then show ?thesis by simp
  next
    case (Some ord)
    show ?thesis
    proof (cases "oe_event e = ''reassigned''")
      case False
      define p' where "p' = event_part W e (o_fulfilmentMode ord) (o_consolidate ord) p"
      define s0 where "s0 = s\<lparr>db_parts := map (\<lambda>x. if p_id x = oe_partId e then p' else x) (db_parts s)\<rparr>"
      from status_event_twice [OF uuid p Some False assms(1), of W, folded p'_def, folded s0_def] obtain s1 js where
        s': "s' = s1\<lparr>db_jobs := db_jobs s1 @ js\<rparr>" and step: "order_step (p_orderId p) s0 s1"
        using assms(2) by auto
      have p': "p_id p' = oe_partId e" using pid by (simp add: p'_def)
      have "life_steps (statuses s) (statuses s0)"
        using part_moves_life [OF event_part_moves [of p W e "o_fulfilmentMode ord" "o_consolidate ord"],
            of "fst (statuses s)" "oe_partId e" "snd (statuses s)"] p statuses_part [OF p p']
        by (simp add: s0_def p'_def [symmetric]) (simp add: statuses_def)
      then have "life_steps (statuses s) (statuses s')"
        using order_step_life [OF step] statuses_cong [of s' s1] by (simp add: s')
      then show ?thesis
        using order_step_rows [OF step] order_step_tables [OF step] parts [OF p'] p
        by (simp add: s') (simp add: s0_def)
    next
      case re: True
      have run: "applyOrderEvent W e s = applyReassignment p ord e s"
        using uuid p Some re by (simp add: applyOrderEvent_def)
      from reassign_run [OF assms(1) p Some, of e] show ?thesis
      proof (elim disjE exE conjE)
        assume "applyReassignment p ord e s \<in> {(Inl NotFound, s), (Inr (), s)}"
        then have "s' = s" using assms(2) run by auto
        then show ?thesis by simp
      next
        fix w p' ord'
        assume done': "applyReassignment p ord e s = (Inr (), reassigned p p' ord ord' s)"
          and p': "p_id p' = p_id p" "p_status p = P_OFFERED" "p_status p' = P_OFFERED"
          and ord': "o_id ord' = o_id ord" "o_status ord' = o_status ord"
        have s': "s' = reassigned p p' ord ord' s" using assms(2) run done' by simp
        have oid: "o_id ord = p_orderId p" by (rule find_order_row [OF Some])
        have "statuses s' = statuses s"
          using p Some p' ord' pid oid
          by (auto simp: s' reassigned_def statuses_def find_part_def find_order_def tbl_find_replaced fun_eq_iff)
        moreover have "filter (\<lambda>x. o_id x \<noteq> p_orderId p) (map (\<lambda>x. if o_id x = o_id ord then ord' else x) xs)
            = filter (\<lambda>x. o_id x \<noteq> p_orderId p) xs" for xs using ord'(1) oid by (induction xs) auto
        ultimately show ?thesis
          using parts [of p'] p p'(1) pid by (simp add: s' reassigned_def)
      qed
    qed
  qed
qed

text \<open>An order offered to one warehouse, which accepts it.\<close>

definition ex_uuid :: ident where
  "ex_uuid = ''00000000-0000-4000-8000-00000000000a''"

definition ex_event :: "string \<Rightarrow> order_event" where
  "ex_event ev = \<lparr>oe_partId = ex_uuid, oe_odooOrderId = 77, oe_event = ev, oe_invoiceNumber = None, oe_outputZone = None,
     oe_handoverType = None, oe_rejectReason = None, oe_warehouseOdooId = None\<rparr>"

definition ex_placed :: "order_status \<Rightarrow> order" where
  "ex_placed st = \<lparr>o_id = ''o1'', o_orderNumber = ''ORD-1'', o_buyerAccountId = ''acc'', o_buyerRole = FACTORY,
     o_buyerProfileId = ''buyer'', o_provinceId = Some ''dam'', o_status = st,
     o_fulfilmentMode = DELIVERY, o_consolidate = False, o_consolidationWarehouseId = None,
     o_acceptPartialFulfilment = False, o_allocationRound = 1, o_requestedLines = None,
     o_goodsTotal = 100, o_deliveryTotal = 0, o_grandTotal = 100, o_currency = ''SYP'',
     o_preparingAt = None, o_deliveredAt = None, o_completedAt = None, o_cancelledAt = None,
     o_cancelReason = None, o_createdAt = 500\<rparr>"

definition ex_work_store :: "order_status \<Rightarrow> part_status \<Rightarrow> store" where
  "ex_work_store st pst = ex_store\<lparr>db_orders := [ex_placed st], db_parts := [ex_part ex_uuid ''o1'' ''wa'' pst],
     db_offers := [ex_offer ''f1'' ex_uuid ''o1'' ''wa'' 2000],
     db_warehouses := [\<lparr>wh_id = ''wa'', wh_name = Some ''A'', wh_odooWarehouseId = Some 1, wh_provinceId = ''dam'',
       wh_state = ACTIVE, wh_latitude = Some 10, wh_longitude = Some 0\<rparr>]\<rparr>"

lemma ex_work_ok: "ids_ok (ex_work_store st pst)"
  by (rule ids_ok_example)
    (simp_all add: ex_work_store_def ex_store_def ex_placed_def ex_part_def ex_offer_def store_ids_def ex_uuid_def)

lemma ex_approved:
  "map_prod (map_sum id id) (\<lambda>s. (map o_status (db_orders s), map p_status (db_parts s)))
     (applyOrderEvent ex_world (ex_event ''manager_approved'') (ex_work_store AWAITING_APPROVAL P_OFFERED))
   = (Inr (), [PREPARING], [P_ACCEPTED])"
  by code_simp


theorem event_refines_lifecycle_witness:
  "\<exists>s' evs. applyOrderEvent ex_world (ex_event ''manager_approved'') (ex_work_store AWAITING_APPROVAL P_OFFERED) = (Inr (), s')
     \<and> life_steps (statuses (ex_work_store AWAITING_APPROVAL P_OFFERED)) (statuses s')
     \<and> map p_status (db_parts s') = [P_ACCEPTED] \<and> db_events s' = evs \<and> length evs \<le> 1"
proof -
  let ?s = "ex_work_store AWAITING_APPROVAL P_OFFERED"
  let ?run = "applyOrderEvent ex_world (ex_event ''manager_approved'') ?s"
  obtain r s' where run: "?run = (r, s')" by (cases ?run)
  then have r: "r = Inr ()" "map p_status (db_parts s') = [P_ACCEPTED]" using ex_approved by (cases r; simp)+
  have "db_events ?s = []" by (simp add: ex_work_store_def ex_store_def)
  with event_refines_lifecycle [OF ex_work_ok run] run r show ?thesis by auto
qed

section \<open>Pushing a part\<close>

text \<open>A part is pushed once: with an id from Odoo on it, the job has nothing left to do.\<close>

lemma push_again: "find_part i s = Some p \<Longrightarrow> present (p_odooOrderId p) \<Longrightarrow> pushOrderPart rpc i s = (Inr (), s)"
  by (simp add: pushOrderPart_def)

text \<open>But the id is saved before the stock is reserved: when the reservation call fails, the job fails, and
  its retry, like every later one, finds the id and never reserves.\<close>

lemma push_retry_never_reserves:
  assumes "ids_ok s" and "find_part i s = Some p" and "\<not> present (p_odooOrderId p)"
    and "find_order (p_orderId p) s = Some ord"
    and "Option.bind (find_warehouse (p_warehouseId p) s) wh_odooWarehouseId = Some w" and "w \<noteq> 0"
    and "od_pushPart rpc (part_payload rpc p ord w s) = Some n" and "n \<noteq> 0" and "od_reserve rpc n = None"
  shows "\<exists>s1. pushOrderPart rpc i s = (Inl Crash, s1) \<and> pushOrderPart rpc' i s1 = (Inr (), s1)
    \<and> find_part i s1 = Some (p\<lparr>p_odooOrderId := Some n\<rparr>)"
proof -
  have pid: "p_id p = i" using tbl_find_SomeD [of p_id _ _ p] assms(2) unfolding find_part_def by blast
  let ?p = "p\<lparr>p_odooOrderId := Some n\<rparr>"
  note saved = save_part_found [OF assms(1,2), of ?p]
  let ?s1 = "s\<lparr>db_parts := map (\<lambda>x. if p_id x = i then ?p else x) (db_parts s)\<rparr>"
  have "save_part ?p s = (Inr (), ?s1)" "find_part i ?s1 = Some ?p" using saved pid by simp_all
  moreover from this have "pushOrderPart rpc i s = (Inl Crash, ?s1)"
    using assms(2-) by (simp add: pushOrderPart_def bind_def call_def present_def Let_def)
  moreover have "present (p_odooOrderId ?p)" using assms(8) by (simp add: present_def)
  ultimately show ?thesis using push_again [of i ?s1 ?p rpc'] by blast
qed

text \<open>Nor does the push look at the part's status: a part cancelled before its push ran is still created in
  Odoo, and holds stock there.\<close>

definition ex_odoo :: odoo where
  "ex_odoo = \<lparr>od_pushPart = (\<lambda>_. Some 77), od_reserve = (\<lambda>_. Some True), od_cancelPart = (\<lambda>_ _. Some ()),
     od_pushTrip = (\<lambda>_. Some ()), od_notifyComplaint = (\<lambda>_ _ _ _. Some ()), od_account = (\<lambda>_. None)\<rparr>"

lemma cancelled_part_is_pushed:
  "map (\<lambda>p. (p_status p, p_stockReserved p)) (db_parts (snd (bind (cancelOrderPart ex_odoo ex_uuid ''late'')
     (\<lambda>_. pushOrderPart ex_odoo ex_uuid) (ex_work_store CANCELLED P_CANCELLED)))) = [(P_CANCELLED, True)]"
  by code_simp

end
