(* ===== verification/OrderReconcile.thy ===== *)
theory OrderReconcile
  imports OdooEvents
begin

text \<open>
  \<open>odoo-sync/order-state-reconcile.service.ts\<close>: the pass that reads the orders back from Odoo and
  replays what was lost.  Which rows are older than the grace period is a parameter (\<open>aged\<close>: the
  database keeps the update times), and so is what Odoo answers (\<open>fetch\<close>, no answer when the call
  fails).
\<close>

datatype odoo_progress = ODOO_PENDING | ODOO_PROCESSING | ODOO_READY | ODOO_COMPLETED | ODOO_CANCELLED

datatype odoo_approval = APPROVAL_PENDING | APPROVAL_APPROVED | APPROVAL_REJECTED

record odoo_order_state =
  os_odooOrderId :: int
  os_backendPartId :: ident
  os_state :: odoo_progress
  os_managerApproval :: odoo_approval
  os_rejectReason :: "string option"
  os_handedOver :: bool
  os_handoverType :: "string option"
  os_stockDeducted :: bool
  os_invoiceNumber :: "string option"
  os_outputZone :: "string option"

definition BATCH :: nat where
  "BATCH = 200"

definition DEAD_PART_STATUSES :: "part_status list" where
  "DEAD_PART_STATUSES = [P_CANCELLED, P_EXPIRED, P_REJECTED]"

definition OPEN_STATUSES :: "part_status list" where
  "OPEN_STATUSES = [P_OFFERED, P_ACCEPTED, P_PROCESSING, P_STOCK_DEDUCTED, P_IN_OUTPUT_ZONE,
     P_READY_FOR_PICKUP, P_DISPATCHED]"

text \<open>\<open>state.handoverType\<close> as a condition: absent and empty are the same.\<close>

definition furthestEvent :: "odoo_order_state \<Rightarrow> string option" where
  "furthestEvent st =
     (if os_managerApproval st = APPROVAL_REJECTED then Some ''manager_rejected''
      else if os_handedOver st \<and> (os_handoverType st \<noteq> None \<and> os_handoverType st \<noteq> Some []) then Some ''handed_over''
      else if os_state st = ODOO_COMPLETED then Some ''completed''
      else if os_stockDeducted st \<or> os_state st = ODOO_READY then Some ''stock_deducted''
      else if os_state st = ODOO_PROCESSING then Some ''processing''
      else if os_managerApproval st = APPROVAL_APPROVED then Some ''manager_approved''
      else None)"

definition byPart :: "odoo_order_state list \<Rightarrow> ident \<Rightarrow> odoo_order_state option" where
  "byPart states = map_of (js_map (map (\<lambda>st. (os_backendPartId st, st)) states))"

definition settled_parts :: "(order_part \<Rightarrow> bool) \<Rightarrow> store \<Rightarrow> order_part list" where
  "settled_parts aged s = take BATCH (filter (\<lambda>p. List.member DEAD_PART_STATUSES (p_status p)
     \<and> p_odooOrderId p \<noteq> None \<and> aged p) (db_parts s))"

definition recancel_reason :: string where
  "recancel_reason = ''Cancelled in the backend - reconciliation''"

definition recancelPart :: "odoo_order_state list \<Rightarrow> order_part \<Rightarrow> nat action" where
  "recancelPart states part = (case byPart states (p_id part) of None \<Rightarrow> ret 0
     | Some st \<Rightarrow> if os_state st = ODOO_CANCELLED then ret 0
         else bind (enqueueCancelOrderPart (p_id part) recancel_reason) (\<lambda>_. ret 1))"

definition recancel ::
    "(order_part \<Rightarrow> bool) \<Rightarrow> (ident list \<Rightarrow> odoo_order_state list option) \<Rightarrow> nat action" where
  "recancel aged fetch =
     bind (reads (settled_parts aged)) (\<lambda>settled.
     if settled = [] then ret 0
     else case fetch (map p_id settled) of None \<Rightarrow> ret 0
       | Some states \<Rightarrow> bind (collect settled (recancelPart states)) (\<lambda>ns. ret (sum_list ns)))"

definition open_parts :: "(order_part \<Rightarrow> bool) \<Rightarrow> store \<Rightarrow> order_part list" where
  "open_parts aged s = take BATCH (filter (\<lambda>p. List.member OPEN_STATUSES (p_status p) \<and> aged p) (db_parts s))"

definition replay_event :: "order_part \<Rightarrow> odoo_order_state \<Rightarrow> string \<Rightarrow> order_event" where
  "replay_event part st ev = \<lparr>oe_partId = p_id part, oe_odooOrderId = os_odooOrderId st, oe_event = ev,
     oe_invoiceNumber = given (os_invoiceNumber st) None, oe_outputZone = given (os_outputZone st) None,
     oe_handoverType = given (os_handoverType st) None, oe_rejectReason = given (os_rejectReason st) None,
     oe_warehouseOdooId = None\<rparr>"

definition replayPart :: "odoo_order_state list \<Rightarrow> order_part \<Rightarrow> nat action" where
  "replayPart states part = (case byPart states (p_id part) of None \<Rightarrow> ret 0
     | Some st \<Rightarrow> (case furthestEvent st of None \<Rightarrow> ret 0
     | Some ev \<Rightarrow> (case resolvePartStatus ev (os_handoverType st) of None \<Rightarrow> ret 0
     | Some target \<Rightarrow>
         if target = p_status part then ret 0
         else if \<not> canTransitionPart (p_status part) target then ret 0
         else bind (enqueueOrderEvent (replay_event part st ev)) (\<lambda>_. ret 1))))"

definition reconcile ::
    "(order_part \<Rightarrow> bool) \<Rightarrow> (ident list \<Rightarrow> odoo_order_state list option) \<Rightarrow> (nat \<times> nat) action" where
  "reconcile aged fetch =
     bind (recancel aged fetch) (\<lambda>recancelled.
     bind (reads (open_parts aged)) (\<lambda>parts.
     if parts = [] then ret (0, recancelled)
     else case fetch (map p_id parts) of None \<Rightarrow> ret (0, recancelled)
       | Some states \<Rightarrow> bind (collect parts (replayPart states)) (\<lambda>ns. ret (sum_list ns, recancelled))))"

section \<open>Facts\<close>

text \<open>An action that only queues jobs, each with the property \<open>J\<close>.\<close>

definition queues :: "(string option \<times> job \<Rightarrow> bool) \<Rightarrow> 'a action \<Rightarrow> bool" where
  "queues J m \<longleftrightarrow> (\<forall>s. \<exists>x js. m s = (Inr x, s\<lparr>db_jobs := db_jobs s @ js\<rparr>) \<and> list_all J js)"

lemma queuesD: "queues J m \<Longrightarrow> \<exists>x js. m s = (Inr x, s\<lparr>db_jobs := db_jobs s @ js\<rparr>) \<and> list_all J js"
  by (simp add: queues_def)

lemma queues_ret: "queues J (ret x)"
  unfolding queues_def by (intro allI exI [of _ x] exI [of _ "[]"]) simp

lemma queues_bind:
  assumes "queues J m" and "\<And>x. queues J (f x)"
  shows "queues J (bind m f)"
  unfolding queues_def
proof
  fix s
  obtain x js where m: "m s = (Inr x, s\<lparr>db_jobs := db_jobs s @ js\<rparr>)" "list_all J js"
    using queuesD [OF assms(1)] by blast
  obtain y ks where "f x (s\<lparr>db_jobs := db_jobs s @ js\<rparr>) = (Inr y, s\<lparr>db_jobs := db_jobs s @ js @ ks\<rparr>)" "list_all J ks"
    using queuesD [OF assms(2), of x "s\<lparr>db_jobs := db_jobs s @ js\<rparr>"] by auto
  then show "\<exists>x js. bind m f s = (Inr x, s\<lparr>db_jobs := db_jobs s @ js\<rparr>) \<and> list_all J js"
    using m by (intro exI [of _ y] exI [of _ "js @ ks"]) (simp add: bind_def)
qed

lemma queues_enqueue:
  assumes "J (i, j)"
  shows "queues J (enqueue i j)"
  unfolding queues_def
proof
  fix s
  show "\<exists>x js. enqueue i j s = (Inr x, s\<lparr>db_jobs := db_jobs s @ js\<rparr>) \<and> list_all J js"
  proof (cases "i \<noteq> None \<and> List.member (map fst (db_jobs s)) i")
    case True
    then have "enqueue i j s = (Inr (), s\<lparr>db_jobs := db_jobs s @ []\<rparr>)" by (simp add: enqueue_def)
    then show ?thesis by (intro exI [of _ "()"] exI [of _ "[]"]) simp
  next
    case False
    then have "enqueue i j s = (Inr (), s\<lparr>db_jobs := db_jobs s @ [(i, j)]\<rparr>)" unfolding enqueue_def by simp
    then show ?thesis using assms by (intro exI [of _ "()"] exI [of _ "[(i, j)]"]) simp
  qed
qed

lemma queues_collect: "(\<And>x. x \<in> set xs \<Longrightarrow> queues J (f x)) \<Longrightarrow> queues J (collect xs f)"
  by (induction xs) (auto intro!: queues_ret queues_bind)

lemma queues_reads: "(\<And>x. queues J (f x)) \<Longrightarrow> queues J (bind (reads g) f)"
  by (simp add: queues_def)

lemmas queues_rules = queues_ret queues_bind queues_enqueue queues_collect queues_reads

definition about :: "job \<Rightarrow> ident \<Rightarrow> bool" where
  "about j i \<longleftrightarrow> (case j of APPLY_ORDER_EVENT e \<Rightarrow> oe_partId e = i | _ \<Rightarrow> False)"

lemma queues_recancel: "queues (\<lambda>j. \<exists>i. j = (None, CANCEL_ORDER_PART i recancel_reason)) (recancel aged fetch)"
  unfolding recancel_def recancelPart_def enqueueCancelOrderPart_def
  by (auto intro!: queues_rules split: option.split)

lemma queues_replay: "p_id q \<noteq> i \<Longrightarrow> queues (\<lambda>j. \<not> about (snd j) i) (replayPart states q)"
  unfolding replayPart_def
  by (auto simp: enqueueOrderEvent_def about_def replay_event_def intro!: queues_rules split: option.split)

lemma replay_stays: "queues (\<lambda>_. True) (replayPart states q)"
  unfolding replayPart_def by (auto simp: enqueueOrderEvent_def intro!: queues_rules split: option.split)

definition event_key :: "ident \<Rightarrow> string \<Rightarrow> string option" where
  "event_key i ev = Some (''order-event-'' @ i @ ''-'' @ ev)"

lemma furthest_not_reassigned: "furthestEvent st = Some ev \<Longrightarrow> ev \<noteq> ''reassigned''"
  by (auto simp: furthestEvent_def split: if_splits)

lemma replay_queued:
  assumes "byPart states (p_id p) = Some st" and "furthestEvent st = Some ev"
    and "resolvePartStatus ev (os_handoverType st) = Some target" and "canTransitionPart (p_status p) target"
  shows "\<exists>s'. replayPart states p s = (Inr 1, s') \<and> event_key (p_id p) ev \<in> fst ` set (db_jobs s')"
proof -
  have "\<not> canTransitionPart target target" by (cases target) (simp_all add: canTransitionPart_def)
  then have "target \<noteq> p_status p" using assms(4) by metis
  then have run: "replayPart states p = bind (enqueue (event_key (p_id p) ev)
      (APPLY_ORDER_EVENT (replay_event p st ev))) (\<lambda>_. ret 1)"
    using assms furthest_not_reassigned [OF assms(2)]
    by (simp add: replayPart_def enqueueOrderEvent_def event_key_def replay_event_def)
  obtain i where i: "event_key (p_id p) ev = Some i" by (simp add: event_key_def)
  have "Some i \<in> fst ` set (db_jobs (queued (Some i, j) s))" for j by (auto simp: queued_def)
  then show ?thesis unfolding run i by (simp add: bind_def enqueue_queued)
qed

lemma collect_replay_stays:
  "k \<in> fst ` set (db_jobs s) \<Longrightarrow> collect ps (replayPart states) s = (r, s') \<Longrightarrow> k \<in> fst ` set (db_jobs s')"
  using queuesD [OF queues_collect [where f = "replayPart states", OF replay_stays], of ps s] by auto

lemma collect_replay_queued:
  assumes "p \<in> set ps" and "\<And>s. \<exists>s'. replayPart states p s = (Inr 1, s') \<and> k \<in> fst ` set (db_jobs s')"
  shows "\<exists>ns s'. collect ps (replayPart states) s = (Inr ns, s') \<and> k \<in> fst ` set (db_jobs s')"
  using assms(1)
proof (induction ps arbitrary: s)
  case (Cons q ps)
  obtain n js where one: "replayPart states q s = (Inr n, s\<lparr>db_jobs := db_jobs s @ js\<rparr>)"
    using queuesD [OF replay_stays] by blast
  let ?s = "s\<lparr>db_jobs := db_jobs s @ js\<rparr>"
  obtain ns ks where rest: "collect ps (replayPart states) ?s = (Inr ns, ?s\<lparr>db_jobs := db_jobs ?s @ ks\<rparr>)"
    using queuesD [OF queues_collect [where f = "replayPart states", OF replay_stays], of ps ?s] by blast
  have run: "collect (q # ps) (replayPart states) s = (Inr (n # ns), ?s\<lparr>db_jobs := db_jobs ?s @ ks\<rparr>)"
    using one rest by (simp add: bind_def)
  show ?case
  proof (cases "q = p")
    case True
    then have "k \<in> fst ` set (db_jobs ?s)" using assms(2) [of s] one by auto
    then show ?thesis using run by auto
  next
    case False
    then have "k \<in> fst ` set (db_jobs (?s\<lparr>db_jobs := db_jobs ?s @ ks\<rparr>))"
      using Cons.IH [of ?s] Cons.prems rest by auto
    then show ?thesis using run by blast
  qed
qed simp


text \<open>The part is accepted here; Odoo has it processed, deducted or handed over.\<close>

definition ex_state :: "odoo_progress \<Rightarrow> bool \<Rightarrow> odoo_order_state" where
  "ex_state progress deducted = \<lparr>os_odooOrderId = 77, os_backendPartId = ex_uuid, os_state = progress,
     os_managerApproval = APPROVAL_APPROVED, os_rejectReason = None, os_handedOver = False, os_handoverType = None,
     os_stockDeducted = deducted, os_invoiceNumber = None, os_outputZone = None\<rparr>"


text \<open>Two reports lost, and the part stays where it is: its order in Odoo is being worked and deducted, and
  no pass of the reconciliation will say so.\<close>

lemma two_lost_steps_stay_lost:
  "db_jobs (snd (reconcile (\<lambda>_. True) (\<lambda>_. Some [ex_state ODOO_PROCESSING True]) (ex_work_store PREPARING P_ACCEPTED))) = []"
  by code_simp

end
