(* ===== verification/DeliveryPlanning.thy ===== *)
theory DeliveryPlanning
  imports Distances OrderPolicy OrderAllocation CapacityPlanner TruckScore
begin

text \<open>
  \<open>order/providers/delivery-dispatch.service.ts\<close> and the planning half of
  \<open>delivery-trip.service.ts\<close>: which truck runs from a warehouse, which parts are waiting to be
  collected and what they weigh, how they are grouped into trips, and the rows a planned trip
  leaves: the trip, its stops farthest first, and the cost of its leg on every part.  The views the
  routes return are the trip with its stops; the links to a map are left out.
\<close>

section \<open>Which truck: \<open>delivery-dispatch.service.ts\<close>\<close>

definition FAIRNESS_WINDOW_DAYS :: int where
  "FAIRNESS_WINDOW_DAYS = 14"

definition busyTruckIds :: "int list \<Rightarrow> store \<Rightarrow> int list" where
  "busyTruckIds odooIds s = List.map_filter t_odooTruckId
     (filter (\<lambda>t. list_ex (\<lambda>i. t_odooTruckId t = Some i) odooIds
        \<and> List.member [T_ASSIGNED, T_IN_PROGRESS] (t_status t)) (db_trips s))"

definition recentTripCount :: "world \<Rightarrow> int \<Rightarrow> store \<Rightarrow> nat" where
  "recentTripCount W odooId s = length (filter (\<lambda>t. t_odooTruckId t = Some odooId
     \<and> w_now W - FAIRNESS_WINDOW_DAYS * 86400000 \<le> t_createdAt t) (db_trips s))"

definition truck_candidates :: "world \<Rightarrow> (int \<times> rat) list \<Rightarrow> store \<Rightarrow> scorable_truck list" where
  "truck_candidates W usable s =
     (let odooIds = map fst usable;
          busy = busyTruckIds odooIds s;
          freeIds = filter (\<lambda>i. \<not> List.member busy i) odooIds;
          driverIds = (case w_driversFor W freeIds of None \<Rightarrow> [] | Some ids \<Rightarrow> ids);
          driverKnown = (driverIds \<noteq> [])
      in map (\<lambda>(i, payload). \<lparr>st_odooTruckId = i, st_maxPayloadKg = payload,
             st_recentTripCount = of_nat (recentTripCount W i s),
             st_hasAvailableDriver = (if driverKnown then Some (List.member driverIds i) else None)\<rparr>)
           (filter (\<lambda>(i, _). \<not> List.member busy i) usable))"

text \<open>The id of the warehouse in Odoo counts when it is neither missing nor zero.\<close>

definition rankTrucksForWarehouse :: "world \<Rightarrow> ident \<Rightarrow> rat option \<Rightarrow> store \<Rightarrow> truck_score list" where
  "rankTrucksForWarehouse W warehouseId requiredKg s =
     (case Option.bind (find_warehouse warehouseId s) wh_odooWarehouseId of
        None \<Rightarrow> []
      | Some odooWarehouseId \<Rightarrow> if odooWarehouseId = 0 then [] else
          (case w_trucks W odooWarehouseId of
             None \<Rightarrow> []
           | Some usable \<Rightarrow>
               (let candidates = truck_candidates W usable s;
                    byId = js_map (map (\<lambda>c. (st_odooTruckId c, c)) candidates)
                in map (\<lambda>r. case map_of byId (sc_odooTruckId r) of
                        None \<Rightarrow> r
                      | Some c \<Rightarrow> r\<lparr>sc_maxPayloadKg := st_maxPayloadKg c, sc_recentTripCount := st_recentTripCount c\<rparr>)
                     (scoreTrucks candidates
                       (ScoreOptions \<lparr>so_requiredKg = requiredKg, so_weights = None\<rparr>)))))"

section \<open>What is waiting to be collected\<close>

record collectable =
  cb_part :: order_part
  cb_warehouseId :: ident
  cb_distanceToBuyerKm :: rat
  cb_weightKg :: rat

definition KG_UNIT_CODE :: string where
  "KG_UNIT_CODE = ''KG''"

definition line_weight :: "store \<Rightarrow> order_part_line \<Rightarrow> rat" where
  "line_weight s line = l_quantity line *
     (if toUpperCase (l_unitType line) = KG_UNIT_CODE then 1
      else case Option.bind (tbl_find pd_id (l_productId line) (db_products s)) pd_unitWeightKg of
        None \<Rightarrow> 0 | Some kg \<Rightarrow> kg)"

definition partWeights :: "ident list \<Rightarrow> store \<Rightarrow> (ident \<times> rat) list" where
  "partWeights partIds s = fold (\<lambda>line out.
       AList.update (l_partId line)
         (round3 ((case map_of out (l_partId line) of None \<Rightarrow> 0 | Some w \<Rightarrow> w) + line_weight s line)) out)
     (filter (\<lambda>l. List.member partIds (l_partId l)) (db_lines s)) []"

definition or_0 :: "rat option \<Rightarrow> rat" where
  "or_0 x = (case x of None \<Rightarrow> 0 | Some y \<Rightarrow> y)"

definition collectablesFor :: "order \<Rightarrow> store \<Rightarrow> collectable list" where
  "collectablesFor ord s =
     (let live = filter (\<lambda>p. \<not> List.member FAILED_PART_STATUSES (p_status p) \<and> p_status p = P_IN_OUTPUT_ZONE)
            (parts_of (o_id ord) s);
          distances = distancesToBuyer (o_buyerProfileId ord) (map p_warehouseId live) s;
          weights = partWeights (map p_id live) s
      in map (\<lambda>part. \<lparr>cb_part = part, cb_warehouseId = p_warehouseId part,
            cb_distanceToBuyerKm = or_0 (map_of distances (p_warehouseId part)),
            cb_weightKg = or_0 (map_of weights (p_id part))\<rparr>) live)"

definition totalLoad :: "collectable list \<Rightarrow> rat" where
  "totalLoad collectables = round3 (sum_list (map cb_weightKg collectables))"

section \<open>Grouping into trucks\<close>

record trip_group =
  gr_collectables :: "collectable list"
  gr_truck :: "int option"

text \<open>The trips of the packing, each taking the next truck of the pool of the warehouse it starts from.\<close>

fun take_trucks :: "(ident \<times> collectable) list \<Rightarrow> (ident \<times> int list) list \<Rightarrow> packed_trip list \<Rightarrow> trip_group list" where
  "take_trucks byPartId pools [] = []"
| "take_trucks byPartId pools (pt # pts) =
     (let members = List.map_filter (\<lambda>p. map_of byPartId (pk_partId p)) (pt_parts pt)
      in case map_of pools (pt_start pt) of
        Some (chosen # rest) \<Rightarrow> \<lparr>gr_collectables = members, gr_truck = Some chosen\<rparr>
          # take_trucks byPartId (AList.update (pt_start pt) rest pools) pts
      | _ \<Rightarrow> \<lparr>gr_collectables = members, gr_truck = None\<rparr> # take_trucks byPartId pools pts)"

text \<open>
  \<open>autoPlanGroups\<close> and \<open>autoPlanConsolidationGroups\<close> differ only in the distance that orders the
  packing: to the buyer, or to the gathering warehouse.
\<close>

definition plan_groups :: "world \<Rightarrow> (collectable \<Rightarrow> rat) \<Rightarrow> collectable list \<Rightarrow> store \<Rightarrow> trip_group list" where
  "plan_groups W distance collectables s =
     (let warehouseIds = uniq (map cb_warehouseId collectables);
          load = totalLoad collectables;
          rankings = map (\<lambda>wh. (wh, rankTrucksForWarehouse W wh (Some load) s)) warehouseIds;
          capacityFor = (\<lambda>wh. case map_of rankings wh of Some (best # _) \<Rightarrow> sc_maxPayloadKg best | _ \<Rightarrow> 0);
          packable = map (\<lambda>c. \<lparr>pk_partId = p_id (cb_part c), pk_warehouse = cb_warehouseId c,
            pk_distance = distance c, pk_weight = cb_weightKg c\<rparr>) collectables
      in take_trucks (js_map (map (\<lambda>c. (p_id (cb_part c), c)) collectables))
           (map (\<lambda>(wh, ranked). (wh, map sc_odooTruckId ranked)) rankings)
           (planDeliveryTrips packable capacityFor))"

definition autoPlanGroups :: "world \<Rightarrow> collectable list \<Rightarrow> store \<Rightarrow> trip_group list" where
  "autoPlanGroups W collectables s = plan_groups W cb_distanceToBuyerKm collectables s"

definition autoPlanConsolidationGroups ::
    "world \<Rightarrow> collectable list \<Rightarrow> (ident \<times> rat) list \<Rightarrow> store \<Rightarrow> trip_group list" where
  "autoPlanConsolidationGroups W farCollectables distToDest s =
     plan_groups W (\<lambda>c. or_0 (map_of distToDest (cb_warehouseId c))) farCollectables s"

text \<open>A dispatcher's own grouping: the loops over the groups and over the part ids of a group.\<close>

fun resolve_group :: "(ident \<times> collectable) list \<Rightarrow> ident list \<Rightarrow> ident list \<Rightarrow>
    err + collectable list \<times> ident list" where
  "resolve_group byPartId seen [] = Inr ([], seen)"
| "resolve_group byPartId seen (partId # ids) =
     (case map_of byPartId partId of
        None \<Rightarrow> Inl BadRequest
      | Some found \<Rightarrow>
          if List.member seen partId then Inl BadRequest
          else (case resolve_group byPartId (partId # seen) ids of
              Inl e \<Rightarrow> Inl e
            | Inr (resolved, seen') \<Rightarrow> Inr (found # resolved, seen')))"

fun resolve_loop :: "(ident \<times> collectable) list \<Rightarrow> ident list \<Rightarrow> ident list list \<Rightarrow>
    err + collectable list list \<times> ident list" where
  "resolve_loop byPartId seen [] = Inr ([], seen)"
| "resolve_loop byPartId seen (grp # groups) =
     (case resolve_group byPartId seen grp of
        Inl e \<Rightarrow> Inl e
      | Inr (resolved, seen') \<Rightarrow>
          (case resolve_loop byPartId seen' groups of
             Inl e \<Rightarrow> Inl e
           | Inr (rest, seen'') \<Rightarrow> Inr (if resolved = [] then rest else resolved # rest, seen'')))"

definition resolveGroups :: "collectable list \<Rightarrow> ident list list \<Rightarrow> err + collectable list list" where
  "resolveGroups collectables truckGroups = (if truckGroups = [] then Inr [collectables] else
     (case resolve_loop (js_map (map (\<lambda>c. (p_id (cb_part c), c)) collectables)) [] truckGroups of
        Inl e \<Rightarrow> Inl e
      | Inr (groups, seen) \<Rightarrow>
          if list_ex (\<lambda>c. \<not> List.member seen (p_id (cb_part c))) collectables then Inl BadRequest
          else Inr groups))"

section \<open>The rows of a trip\<close>

definition orderStops :: "collectable list \<Rightarrow> collectable list" where
  "orderStops grp = sort_key (\<lambda>c. - cb_distanceToBuyerKm c) grp"

text \<open>The legs between consecutive warehouses, then a last leg.\<close>

fun legs_between :: "world \<Rightarrow> ident list \<Rightarrow> store \<Rightarrow> rat list" where
  "legs_between W (a # b # rest) s = betweenWarehouses W a b s # legs_between W (b # rest) s"
| "legs_between W _ s = []"

definition legDistances :: "world \<Rightarrow> collectable list \<Rightarrow> store \<Rightarrow> rat list" where
  "legDistances W stops s =
     legs_between W (map cb_warehouseId stops) s @ [round3 (cb_distanceToBuyerKm (last stops))]"

definition consolidationLegDistances :: "world \<Rightarrow> collectable list \<Rightarrow> ident \<Rightarrow> store \<Rightarrow> rat list" where
  "consolidationLegDistances W stops destWarehouseId s =
     legs_between W (map cb_warehouseId stops) s
       @ [betweenWarehouses W (cb_warehouseId (last stops)) destWarehouseId s]"

definition tripNumber :: "order \<Rightarrow> nat \<Rightarrow> nat \<Rightarrow> string" where
  "tripNumber ord index total_trips = (let base = ''TRIP-'' @ o_orderNumber ord
     in if 1 < total_trips then base @ ''-'' @ show_nat index else base)"

text \<open>\<open>tripRepo.save\<close> of a new trip: the column of the trip numbers is unique.\<close>

definition insert_trip :: "delivery_trip \<Rightarrow> unit action" where
  "insert_trip trip =
     bind (reads (\<lambda>s. list_ex (\<lambda>t. t_tripNumber t = t_tripNumber trip) (db_trips s))) (\<lambda>taken.
     bind (refuse_if taken Crash) (\<lambda>_. save_trip trip))"

text \<open>\<open>partRepo.update(id, ...)\<close>\<close>

definition update_part :: "ident \<Rightarrow> (order_part \<Rightarrow> order_part) \<Rightarrow> unit action" where
  "update_part partId f = writes (\<lambda>s. s\<lparr>db_parts := map (\<lambda>p. if p_id p = partId then f p else p) (db_parts s)\<rparr>)"

text \<open>
  The rounds of the stop loop: the stop at position \<open>i\<close> with the length of its leg.  A stop's cost
  is its leg at the rate, and the base fee on the first.
\<close>

definition leg_cost :: "delivery_rate \<Rightarrow> nat \<Rightarrow> rat \<Rightarrow> rat" where
  "leg_cost rate i legKm = round3 (legKm * dr_ratePerKm rate + (if i = 0 then dr_baseFee rate else 0))"

definition stop_round :: "ident \<Rightarrow> delivery_rate \<Rightarrow> (collectable \<Rightarrow> rat) \<Rightarrow> nat \<times> collectable \<times> rat \<Rightarrow> unit action" where
  "stop_round tripId rate distance = (\<lambda>(i, c, leg).
     let legKm = round3 leg; legCost = leg_cost rate i legKm; distKm = round3 (distance c) in
     bind fresh_id (\<lambda>stopId.
     bind (save_stop \<lparr>s_id = stopId, s_tripId = tripId, s_partId = p_id (cb_part c),
        s_warehouseId = cb_warehouseId c, s_sequence = i + 1, s_distanceToBuyerKm = distKm,
        s_legDistanceKm = legKm, s_legCost = legCost, s_pickedUpAt = None, s_pickedUpNote = None\<rparr>) (\<lambda>_.
     update_part (p_id (cb_part c)) (\<lambda>p. p\<lparr>p_deliveryCost := legCost, p_distanceKm := distKm\<rparr>))))"

definition trip_rounds :: "collectable list \<Rightarrow> rat list \<Rightarrow> (nat \<times> collectable \<times> rat) list" where
  "trip_rounds stops legs = zip [0..<length stops] (zip stops legs)"

definition new_trip :: "world \<Rightarrow> ident \<Rightarrow> order \<Rightarrow> ident option \<Rightarrow> ident \<Rightarrow> rat list \<Rightarrow> delivery_rate \<Rightarrow>
    nat \<Rightarrow> nat \<Rightarrow> int option \<Rightarrow> delivery_trip" where
  "new_trip W tripId ord destination originId legs rate index total_trips truck =
     (let routeDistanceKm = round3 (sum_list legs) in
      \<lparr>t_id = tripId, t_orderId = o_id ord, t_isConsolidation = (destination \<noteq> None),
       t_destinationWarehouseId = destination, t_tripNumber = tripNumber ord index total_trips,
       t_originWarehouseId = originId, t_odooTruckId = truck, t_odooDriverId = None,
       t_driverName = None, t_driverPhone = None, t_status = T_PLANNED,
       t_routeDistanceKm = routeDistanceKm,
       t_deliveryCost = round3 (dr_baseFee rate + dr_ratePerKm rate * routeDistanceKm),
       t_ratePerKm = dr_ratePerKm rate, t_baseFee = dr_baseFee rate, t_currency = dr_currency rate,
       t_startedAt = None, t_completedAt = None, t_createdAt = w_now W\<rparr>)"

text \<open>What both builders do once the stops are in order and the legs are known.\<close>

definition write_trip :: "world \<Rightarrow> order \<Rightarrow> ident option \<Rightarrow> (collectable \<Rightarrow> rat) \<Rightarrow> collectable list \<Rightarrow> rat list \<Rightarrow>
    delivery_rate \<Rightarrow> nat \<Rightarrow> nat \<Rightarrow> int option \<Rightarrow> ident action" where
  "write_trip W ord destination distance stops legs rate index total_trips truck =
     bind fresh_id (\<lambda>tripId.
     bind (insert_trip (new_trip W tripId ord destination (cb_warehouseId (hd stops)) legs rate index total_trips truck)) (\<lambda>_.
     bind (for_each (trip_rounds stops legs) (stop_round tripId rate distance)) (\<lambda>_.
     ret tripId)))"

definition buildTrip :: "world \<Rightarrow> order \<Rightarrow> delivery_rate \<Rightarrow> nat \<Rightarrow> nat \<Rightarrow> trip_group \<Rightarrow> ident action" where
  "buildTrip W ord rate total_trips index grp =
     (let stops = orderStops (gr_collectables grp) in
      if stops = [] then throw Crash else
      bind (reads (legDistances W stops)) (\<lambda>legs.
      write_trip W ord None cb_distanceToBuyerKm stops legs rate index total_trips (gr_truck grp)))"

definition buildConsolidationTrip :: "world \<Rightarrow> order \<Rightarrow> ident \<Rightarrow> (ident \<times> rat) list \<Rightarrow> delivery_rate \<Rightarrow>
    nat \<Rightarrow> nat \<Rightarrow> trip_group \<Rightarrow> ident action" where
  "buildConsolidationTrip W ord destWarehouseId distToDest rate total_trips index grp =
     (let distance = (\<lambda>c. or_0 (map_of distToDest (cb_warehouseId c)));
          stops = sort_key (\<lambda>c. - distance c) (gr_collectables grp) in
      if stops = [] then throw Crash else
      bind (reads (consolidationLegDistances W stops destWarehouseId)) (\<lambda>legs.
      write_trip W ord (Some destWarehouseId) distance stops legs rate index total_trips (gr_truck grp)))"

text \<open>The groups one after the other, numbered from one.\<close>

definition build_all :: "(nat \<Rightarrow> trip_group \<Rightarrow> ident action) \<Rightarrow> trip_group list \<Rightarrow> ident list action" where
  "build_all build groups = collect (zip [1..<length groups + 1] groups) (\<lambda>(i, g). build i g)"

section \<open>Dispatching a trip\<close>

text \<open>
  \<open>String(Number(q))\<close> of a column with three decimals: no trailing zeros, no point before nothing.
\<close>

definition show_decimal :: "rat \<Rightarrow> string" where
  "show_decimal q =
     (let n = math_round (\<bar>q\<bar> * 1000); whole = nat n div 1000; milli = nat n mod 1000;
          digits = [digit (milli div 100), digit (milli div 10 mod 10), digit (milli mod 10)];
          shown = rev (dropWhile (\<lambda>c. c = CHR ''0'') (rev digits))
      in (if q < 0 then ''-'' else []) @ show_nat whole @ (if shown = [] then [] else CHR ''.'' # shown))"

fun join :: "string \<Rightarrow> string list \<Rightarrow> string" where
  "join separator [] = []"
| "join separator [x] = x"
| "join separator (x # y # xs) = x @ separator @ join separator (y # xs)"

definition item_text :: "order_part_line \<Rightarrow> string" where
  "item_text line = l_productName line @ '' '' @ [CHR 0xD7] @ '' '' @ show_decimal (l_quantity line)
     @ '' '' @ l_unitType line"

definition stopSummaries :: "ident list \<Rightarrow> store \<Rightarrow> (ident \<times> string) list" where
  "stopSummaries partIds s =
     (let byPart = fold (\<lambda>line m. AList.update (l_partId line)
            ((case map_of m (l_partId line) of None \<Rightarrow> [] | Some items \<Rightarrow> items) @ [item_text line]) m)
          (filter (\<lambda>l. List.member partIds (l_partId l)) (db_lines s)) []
      in map (\<lambda>(partId, items). (partId, join '', '' items)) byPart)"

definition warehouseOdooId :: "ident \<Rightarrow> store \<Rightarrow> int option" where
  "warehouseOdooId warehouseId s = Option.bind (find_warehouse warehouseId s) wh_odooWarehouseId"

definition warehouseCoords :: "ident \<Rightarrow> store \<Rightarrow> rat option \<times> rat option" where
  "warehouseCoords warehouseId s = (case find_warehouse warehouseId s of
       None \<Rightarrow> (None, None) | Some w \<Rightarrow> (wh_latitude w, wh_longitude w))"

definition buyerPoint :: "ident \<Rightarrow> store \<Rightarrow> rat option \<times> rat option" where
  "buyerPoint buyerProfileId s = (if buyerProfileId = [] then (None, None)
     else case buyerCoordinates buyerProfileId s of
       None \<Rightarrow> (None, None) | Some (lat, lng) \<Rightarrow> (Some lat, Some lng))"

definition buyerName :: "ident \<Rightarrow> store \<Rightarrow> string" where
  "buyerName buyerAccountId s = (case tbl_find ac_id buyerAccountId (db_accounts s) of
       None \<Rightarrow> [] | Some a \<Rightarrow> ac_name a)"

text \<open>The stops of a trip, and in the order they are driven.\<close>

definition stops_of :: "ident \<Rightarrow> store \<Rightarrow> delivery_trip_stop list" where
  "stops_of tripId s = filter (\<lambda>x. s_tripId x = tripId) (db_stops s)"

definition route_of :: "ident \<Rightarrow> store \<Rightarrow> delivery_trip_stop list" where
  "route_of tripId s = sort_key s_sequence (stops_of tripId s)"

definition push_stop :: "(ident \<times> string) list \<Rightarrow> store \<Rightarrow> delivery_trip_stop \<Rightarrow> stop_push" where
  "push_stop summaries s x = \<lparr>sp_stopId = s_id x, sp_sequence = s_sequence x,
     sp_warehouseOdooId = warehouseOdooId (s_warehouseId x) s, sp_partRef = s_partId x,
     sp_productSummary = (case map_of summaries (s_partId x) of None \<Rightarrow> [] | Some t \<Rightarrow> t),
     sp_distanceToBuyerKm = s_distanceToBuyerKm x, sp_point = warehouseCoords (s_warehouseId x) s\<rparr>"

text \<open>A gathering run ends at its warehouse; any other trip at the buyer.\<close>

definition trip_destination :: "delivery_trip \<Rightarrow> store \<Rightarrow> rat option \<times> rat option" where
  "trip_destination trip s = (case (t_isConsolidation trip, t_destinationWarehouseId trip) of
       (True, Some dest) \<Rightarrow> warehouseCoords dest s
     | _ \<Rightarrow> buyerPoint (case find_order (t_orderId trip) s of None \<Rightarrow> [] | Some ord \<Rightarrow> o_buyerProfileId ord) s)"

definition buildPushPayload :: "delivery_trip \<Rightarrow> store \<Rightarrow> trip_push" where
  "buildPushPayload trip s =
     (let order = find_order (t_orderId trip) s; stops = route_of (t_id trip) s;
          summaries = stopSummaries (map s_partId stops) s
      in \<lparr>tp_tripId = t_id trip, tp_tripNumber = t_tripNumber trip,
          tp_orderNumber = (case order of None \<Rightarrow> [] | Some ord \<Rightarrow> o_orderNumber ord),
          tp_orderId = (case order of None \<Rightarrow> [] | Some ord \<Rightarrow> o_id ord),
          tp_buyerName = (case order of None \<Rightarrow> [] | Some ord \<Rightarrow> buyerName (o_buyerAccountId ord) s),
          tp_originWarehouseOdooId = warehouseOdooId (t_originWarehouseId trip) s,
          tp_truckOdooId = t_odooTruckId trip, tp_driverOdooId = t_odooDriverId trip,
          tp_routeDistanceKm = t_routeDistanceKm trip, tp_deliveryCost = t_deliveryCost trip,
          tp_currency = t_currency trip, tp_destination = trip_destination trip s,
          tp_stops = map (push_stop summaries s) stops\<rparr>)"

definition assertTransition :: "delivery_trip \<Rightarrow> trip_status \<Rightarrow> unit action" where
  "assertTransition trip target = refuse_if (\<not> canTransitionTrip (t_status trip) target) Conflict"

definition truck_given :: "delivery_trip \<Rightarrow> bool" where
  "truck_given trip \<longleftrightarrow> t_odooTruckId trip \<noteq> None \<and> t_odooTruckId trip \<noteq> Some 0"

text \<open>Whether the trip was dispatched; a truck nobody drives leaves it planned.\<close>

definition dispatchTrip :: "world \<Rightarrow> ident \<Rightarrow> bool action" where
  "dispatchTrip W tripId =
     bind (reads (find_trip tripId)) (\<lambda>found. case found of None \<Rightarrow> throw NotFound | Some trip \<Rightarrow>
     bind (refuse_if (\<not> truck_given trip) BadRequest) (\<lambda>_.
     bind (refuse_if (t_status trip \<noteq> T_PLANNED \<and> t_status trip \<noteq> T_ASSIGNED) Conflict) (\<lambda>_.
     case w_driver W (the (t_odooTruckId trip)) of
       None \<Rightarrow> throw Crash
     | Some None \<Rightarrow> ret False
     | Some (Some (driverId, name, phone)) \<Rightarrow>
         if driverId = 0 then ret False
         else
           let driven = trip\<lparr>t_odooDriverId := Some driverId, t_driverName := name, t_driverPhone := phone,
                 t_status := (if t_status trip = T_PLANNED then T_ASSIGNED else t_status trip)\<rparr> in
           bind (if t_status trip = T_PLANNED then assertTransition trip T_ASSIGNED else ret ()) (\<lambda>_.
           bind (save_trip driven) (\<lambda>_.
           bind (reads (buildPushPayload driven)) (\<lambda>payload.
           bind (enqueuePushDeliveryTrip payload) (\<lambda>_.
           ret True)))))))"

section \<open>Planning the delivery of an order\<close>

definition live_trips :: "ident \<Rightarrow> store \<Rightarrow> delivery_trip list" where
  "live_trips orderId s = filter (\<lambda>t. t_orderId t = orderId
     \<and> List.member [T_PLANNED, T_ASSIGNED, T_IN_PROGRESS] (t_status t)) (db_trips s)"

text \<open>The trips of an order with their stops, as \<open>tripView\<close> shows them.\<close>

definition trip_views :: "ident \<Rightarrow> store \<Rightarrow> (delivery_trip \<times> delivery_trip_stop list) list" where
  "trip_views orderId s = map (\<lambda>t. (t, route_of (t_id t) s)) (filter (\<lambda>t. t_orderId t = orderId) (db_trips s))"

definition dispatch_planned :: "world \<Rightarrow> ident list \<Rightarrow> unit action" where
  "dispatch_planned W tripIds = for_each tripIds (\<lambda>tripId.
     bind (reads (find_trip tripId)) (\<lambda>found. case found of None \<Rightarrow> ret () | Some trip \<Rightarrow>
     if truck_given trip then best_effort (dispatchTrip W tripId) else ret ()))"

definition plan_delivery_groups :: "world \<Rightarrow> ident list list \<Rightarrow> collectable list \<Rightarrow> trip_group list action" where
  "plan_delivery_groups W truckGroups collectables = (if truckGroups \<noteq> []
     then case resolveGroups collectables truckGroups of
         Inl e \<Rightarrow> throw e
       | Inr groups \<Rightarrow> ret (map (\<lambda>g. \<lparr>gr_collectables = g, gr_truck = None\<rparr>) groups)
     else reads (autoPlanGroups W collectables))"

definition planForOrder :: "world \<Rightarrow> ident \<Rightarrow> ident list list \<Rightarrow>
    (delivery_trip \<times> delivery_trip_stop list) list action" where
  "planForOrder W orderId truckGroups =
     bind (reads (find_order orderId)) (\<lambda>found. case found of None \<Rightarrow> throw NotFound | Some ord \<Rightarrow>
     bind (refuse_if (o_fulfilmentMode ord \<noteq> DELIVERY) BadRequest) (\<lambda>_.
     bind (reads (live_trips orderId)) (\<lambda>existing.
     bind (refuse_if (existing \<noteq> []) Conflict) (\<lambda>_.
     bind (reads (collectablesFor ord)) (\<lambda>collectables.
     bind (refuse_if (collectables = []) BadRequest) (\<lambda>_.
     bind (plan_delivery_groups W truckGroups collectables) (\<lambda>groups.
     bind currentOrFail (\<lambda>rate.
     bind (transactional (build_all (buildTrip W ord rate (length groups)) groups)) (\<lambda>tripIds.
     bind (dispatch_planned W tripIds) (\<lambda>_.
     reads (trip_views orderId)))))))))))"

section \<open>Gathering a split order\<close>

definition consolidation_point :: "collectable list \<Rightarrow> collectable" where
  "consolidation_point collectables = fold (\<lambda>b a. if cb_distanceToBuyerKm a \<le> cb_distanceToBuyerKm b then a else b)
     (tl collectables) (hd collectables)"

definition start_consolidating :: "ident \<Rightarrow> unit action" where
  "start_consolidating orderId =
     bind (reads (find_order orderId)) (\<lambda>found. case found of None \<Rightarrow> ret () | Some fresh \<Rightarrow>
     if o_status fresh = PREPARING then save_order (fresh\<lparr>o_status := CONSOLIDATING\<rparr>) else ret ())"

definition live_of :: "ident \<Rightarrow> store \<Rightarrow> order_part list" where
  "live_of orderId s = filter live_part (parts_of orderId s)"

definition planConsolidationForOrder :: "world \<Rightarrow> ident \<Rightarrow>
    (delivery_trip \<times> delivery_trip_stop list) list action" where
  "planConsolidationForOrder W orderId =
     bind (reads (find_order orderId)) (\<lambda>found. case found of None \<Rightarrow> throw NotFound | Some ord \<Rightarrow>
     bind (refuse_if (o_fulfilmentMode ord = DELIVERY) BadRequest) (\<lambda>_.
     bind (refuse_if (\<not> o_consolidate ord) BadRequest) (\<lambda>_.
     bind (reads (live_trips orderId)) (\<lambda>existing.
     bind (refuse_if (existing \<noteq> []) Conflict) (\<lambda>_.
     bind (reads (live_of orderId)) (\<lambda>live.
     bind (refuse_if (length live < 2) BadRequest) (\<lambda>_.
     bind (refuse_if (list_ex (\<lambda>p. p_status p \<noteq> P_IN_OUTPUT_ZONE) live) Conflict) (\<lambda>_.
     bind (reads (collectablesFor ord)) (\<lambda>collectables.
     let dest = cb_warehouseId (consolidation_point collectables);
         far = filter (\<lambda>c. cb_warehouseId c \<noteq> dest) collectables in
     bind (refuse_if (far = []) BadRequest) (\<lambda>_.
     let gathered = ord\<lparr>o_consolidationWarehouseId := Some dest\<rparr> in
     bind (save_order gathered) (\<lambda>_.
     bind currentOrFail (\<lambda>rate.
     bind (reads (\<lambda>s. js_map (map (\<lambda>c. (cb_warehouseId c, betweenWarehouses W (cb_warehouseId c) dest s)) far))) (\<lambda>distToDest.
     bind (reads (autoPlanConsolidationGroups W far distToDest)) (\<lambda>groups.
     bind (transactional
       (bind (build_all (buildConsolidationTrip W gathered dest distToDest rate (length groups)) groups) (\<lambda>tripIds.
        bind (start_consolidating (o_id ord)) (\<lambda>_. ret tripIds)))) (\<lambda>tripIds.
     bind (dispatch_planned W tripIds) (\<lambda>_.
     reads (trip_views orderId)))))))))))))))))"

text \<open>The buyer's choice.  A distance the cache does not hold counts as infinite.\<close>

definition nearer :: "rat option \<Rightarrow> rat option \<Rightarrow> bool" where
  "nearer d best = (case (d, best) of (None, _) \<Rightarrow> False | (Some x, None) \<Rightarrow> True | (Some x, Some y) \<Rightarrow> x < y)"

definition nearestWarehouseToBuyer :: "ident \<Rightarrow> ident list \<Rightarrow> store \<Rightarrow> ident" where
  "nearestWarehouseToBuyer buyerProfileId warehouseIds s =
     (let dists = distancesToBuyer buyerProfileId warehouseIds s;
          d = map_of dists
      in fold (\<lambda>w nearest. if nearer (d w) (d nearest) then w else nearest) warehouseIds (hd warehouseIds))"

definition consolidationRouteKm :: "world \<Rightarrow> ident list \<Rightarrow> ident \<Rightarrow> (ident \<times> rat) list \<Rightarrow> store \<Rightarrow> rat" where
  "consolidationRouteKm W farWarehouseIds nearestId distToNearest s = (if farWarehouseIds = [] then 0 else
     (let ordered = sort_key (\<lambda>w. - or_0 (map_of distToNearest w)) farWarehouseIds
      in round3 (sum_list (legs_between W ordered s) + betweenWarehouses W (last ordered) nearestId s)))"

record gathering =
  ga_warehouseId :: ident
  ga_estimatedCost :: rat
  ga_currency :: string

definition consolidationEligibility :: "world \<Rightarrow> order \<Rightarrow> gathering option action" where
  "consolidationEligibility W ord =
     (if o_fulfilmentMode ord = DELIVERY then ret None
      else if \<not> List.member [AWAITING_APPROVAL, PREPARING, CONSOLIDATING] (o_status ord)
        \<and> \<not> o_consolidate ord then ret None
      else
        bind (reads (live_of (o_id ord))) (\<lambda>live.
        let warehouses = uniq (map p_warehouseId live) in
        if length warehouses < 2 then ret None
        else
          bind (reads (nearestWarehouseToBuyer (o_buyerProfileId ord) warehouses)) (\<lambda>nearest.
          bind currentOrFail (\<lambda>rate.
          let far = filter (\<lambda>w. w \<noteq> nearest) warehouses in
          bind (reads (\<lambda>s. consolidationRouteKm W far nearest
             (map (\<lambda>w. (w, betweenWarehouses W w nearest s)) far) s)) (\<lambda>routeKm.
          ret (Some \<lparr>ga_warehouseId = nearest,
             ga_estimatedCost = round3 (dr_baseFee rate + dr_ratePerKm rate * routeKm),
             ga_currency = dr_currency rate\<rparr>))))))"

text \<open>The trips planned at once, or the estimate when some warehouse is still preparing.\<close>

datatype consolidation_choice =
    Gathering_planned "(delivery_trip \<times> delivery_trip_stop list) list"
  | Gathering_later gathering

definition chooseConsolidation :: "world \<Rightarrow> ident \<Rightarrow> ident \<Rightarrow> consolidation_choice action" where
  "chooseConsolidation W accountId orderId =
     bind (reads (find_order orderId)) (\<lambda>found. case found of None \<Rightarrow> throw NotFound | Some ord \<Rightarrow>
     bind (refuse_if (o_buyerAccountId ord \<noteq> accountId) NotFound) (\<lambda>_.
     bind (consolidationEligibility W ord) (\<lambda>elig. case elig of None \<Rightarrow> throw BadRequest | Some offer \<Rightarrow>
     bind (save_order (ord\<lparr>o_consolidate := True, o_consolidationWarehouseId := Some (ga_warehouseId offer)\<rparr>)) (\<lambda>_.
     bind (reads (live_of orderId)) (\<lambda>live.
     if 2 \<le> length live \<and> list_all (\<lambda>p. p_status p = P_IN_OUTPUT_ZONE) live
     then bind (planConsolidationForOrder W orderId) (\<lambda>views. ret (Gathering_planned views))
     else ret (Gathering_later offer))))))"

section \<open>The estimate before an order\<close>

record delivery_estimate =
  es_currency :: string
  es_best :: rat
  es_worst :: rat
  es_trucks :: nat
  es_nearestKm :: rat

definition estimateDelivery :: "world \<Rightarrow> ident \<Rightarrow> ident \<Rightarrow> delivery_estimate option action" where
  "estimateDelivery W buyerProfileId provinceId =
     bind (rankWarehouses W buyerProfileId provinceId None None) (\<lambda>ranked.
     if ranked = [] then ret None
     else
       bind currentOrFail (\<lambda>rate.
       let quoteOne = (\<lambda>km. round3 (dr_baseFee rate + dr_ratePerKm rate * km)) in
       ret (Some \<lparr>es_currency = dr_currency rate, es_best = quoteOne (wd_distanceKm (hd ranked)),
         es_worst = round3 (sum_list (map (\<lambda>w. quoteOne (wd_distanceKm w)) ranked)),
         es_trucks = length ranked, es_nearestKm = round3 (wd_distanceKm (hd ranked))\<rparr>)))"

section \<open>The order tasks worker: \<open>order-tasks.processor.ts\<close>\<close>

text \<open>Both planning jobs; a plan that cannot start is logged and left to the next trigger.\<close>

definition process_order_task :: "world \<Rightarrow> job \<Rightarrow> unit action" where
  "process_order_task W j = (case j of
       PLAN_CONSOLIDATION orderId \<Rightarrow> if orderId = [] then ret () else best_effort (planConsolidationForOrder W orderId)
     | PLAN_DELIVERY orderId \<Rightarrow> if orderId = [] then ret () else best_effort (planForOrder W orderId [])
     | _ \<Rightarrow> ret ())"

end
