(* ===== verification/DeliveryRun.thy ===== *)
theory DeliveryRun
  imports DeliveryPlanning LifeSpec
begin

text \<open>
  The running half of \<open>order/providers/delivery-trip.service.ts\<close>: a truck and driver are put on a trip,
  the driver confirms the stops one after the other and closes the trip, and what the driver and the
  administrator see of it.  The calls made by Odoo (\<open>applyOdooPickup\<close>, \<open>applyOdooComplete\<close>) are the same
  two operations.
\<close>

section \<open>Operations\<close>

record assignment =
  as_odooTruckId :: int
  as_odooDriverId :: int
  as_driverName :: "string option"
  as_driverPhone :: "string option"

definition tripOrThrow :: "ident \<Rightarrow> delivery_trip action" where
  "tripOrThrow tripId = bind (reads (find_trip tripId)) (\<lambda>found. case found of
       None \<Rightarrow> throw NotFound | Some trip \<Rightarrow> ret trip)"

definition assign :: "ident \<Rightarrow> assignment \<Rightarrow> unit action" where
  "assign tripId input =
     bind (tripOrThrow tripId) (\<lambda>trip.
     bind (assertTransition trip T_ASSIGNED) (\<lambda>_.
     save_trip (trip\<lparr>t_odooTruckId := Some (as_odooTruckId input), t_odooDriverId := Some (as_odooDriverId input),
       t_driverName := as_driverName input, t_driverPhone := as_driverPhone input, t_status := T_ASSIGNED\<rparr>)))"

definition collected :: "delivery_trip_stop \<Rightarrow> bool" where
  "collected x \<longleftrightarrow> s_pickedUpAt x \<noteq> None"

text \<open>The part of a stop leaves with the driver; a part that cannot is refused.\<close>

definition hand_over :: "world \<Rightarrow> ident \<Rightarrow> unit action" where
  "hand_over W partId =
     bind (reads (find_part partId)) (\<lambda>found. case found of None \<Rightarrow> ret () | Some part \<Rightarrow>
     bind (refuse_if (\<not> canTransitionPart (p_status part) P_DISPATCHED) Conflict) (\<lambda>_.
     save_part (part\<lparr>p_status := P_DISPATCHED, p_dispatchedAt := Some (w_now W)\<rparr>)))"

text \<open>The number of stops still outstanding.\<close>

definition confirmPickup :: "world \<Rightarrow> ident \<Rightarrow> ident \<Rightarrow> string option \<Rightarrow> nat action" where
  "confirmPickup W tripId stopId note = transactional (
     bind (tripOrThrow tripId) (\<lambda>trip.
     bind (refuse_if (t_status trip \<noteq> T_ASSIGNED \<and> t_status trip \<noteq> T_IN_PROGRESS) Conflict) (\<lambda>_.
     bind (reads (route_of tripId)) (\<lambda>stops. case find (\<lambda>x. s_id x = stopId) stops of
       None \<Rightarrow> throw NotFound
     | Some stop \<Rightarrow>
         bind (refuse_if (collected stop) Conflict) (\<lambda>_.
         bind (refuse_if (list_ex (\<lambda>x. s_sequence x < s_sequence stop \<and> \<not> collected x) stops) Conflict) (\<lambda>_.
         bind (save_stop (stop\<lparr>s_pickedUpAt := Some (w_now W), s_pickedUpNote := note\<rparr>)) (\<lambda>_.
         bind (hand_over W (s_partId stop)) (\<lambda>_.
         bind (if t_status trip = T_ASSIGNED
               then save_trip (trip\<lparr>t_status := T_IN_PROGRESS, t_startedAt := Some (w_now W)\<rparr>) else ret ()) (\<lambda>_.
         ret (length (filter (\<lambda>x. s_id x \<noteq> stopId \<and> \<not> collected x) stops)))))))))))"

text \<open>A part of a finished trip arrives where the life cycle lets it.\<close>

definition arrive :: "world \<Rightarrow> part_status \<Rightarrow> ident \<Rightarrow> unit action" where
  "arrive W arrived partId =
     bind (reads (find_part partId)) (\<lambda>found. case found of None \<Rightarrow> ret () | Some part \<Rightarrow>
     if canTransitionPart (p_status part) arrived
     then save_part (part\<lparr>p_status := arrived,
       p_deliveredAt := (if arrived = P_DELIVERED then Some (w_now W) else p_deliveredAt part)\<rparr>)
     else ret ())"

definition unfailed_parts :: "ident \<Rightarrow> store \<Rightarrow> order_part list" where
  "unfailed_parts orderId s = filter (\<lambda>p. \<not> List.member FAILED_PART_STATUSES (p_status p)) (parts_of orderId s)"

text \<open>The end of a gathering run: the parts of the gathering warehouse join when the others are there.\<close>

definition finish_gathering :: "world \<Rightarrow> ident \<Rightarrow> bool action" where
  "finish_gathering W orderId =
     bind (reads (unfailed_parts orderId)) (\<lambda>live.
     bind (reads (find_order orderId)) (\<lambda>found.
     let point = Option.bind found o_consolidationWarehouseId;
         far = filter (\<lambda>p. Some (p_warehouseId p) \<noteq> point) live;
         farGathered = (live \<noteq> [] \<and> list_all (\<lambda>p. p_status p = P_READY_FOR_PICKUP) far) in
     if \<not> farGathered then ret False
     else
       bind (for_each (filter (\<lambda>p. Some (p_warehouseId p) = point) live) (\<lambda>p.
         if canTransitionPart (p_status p) P_READY_FOR_PICKUP
         then save_part (p\<lparr>p_status := P_READY_FOR_PICKUP\<rparr>) else ret ())) (\<lambda>_.
       bind (case found of
           Some ord \<Rightarrow> if o_status ord = CONSOLIDATING then save_order (ord\<lparr>o_status := READY_FOR_PICKUP\<rparr>) else ret ()
         | None \<Rightarrow> ret ()) (\<lambda>_. ret True))))"

text \<open>The end of a delivery: the order is delivered once every part is.\<close>

definition finish_delivery :: "ident \<Rightarrow> bool action" where
  "finish_delivery orderId =
     bind (reads (unfailed_parts orderId)) (\<lambda>live.
     bind (reads (find_order orderId)) (\<lambda>found.
     let allDelivered = (live \<noteq> [] \<and> list_all (\<lambda>p. p_status p = P_DELIVERED) live) in
     bind (case found of
         Some ord \<Rightarrow> if allDelivered \<and> o_status ord \<noteq> DELIVERED
           then save_order (ord\<lparr>o_status := DELIVERED\<rparr>) else ret ()
       | None \<Rightarrow> ret ()) (\<lambda>_. ret allDelivered)))"

definition completeTrip :: "world \<Rightarrow> ident \<Rightarrow> bool action" where
  "completeTrip W tripId = transactional (
     bind (tripOrThrow tripId) (\<lambda>trip.
     bind (refuse_if (\<not> canTransitionTrip (t_status trip) T_COMPLETED) Conflict) (\<lambda>_.
     bind (reads (stops_of tripId)) (\<lambda>stops.
     bind (refuse_if (list_ex (\<lambda>x. \<not> collected x) stops) Conflict) (\<lambda>_.
     bind (for_each (map s_partId stops)
       (arrive W (if t_isConsolidation trip then P_READY_FOR_PICKUP else P_DELIVERED))) (\<lambda>_.
     bind (save_trip (trip\<lparr>t_status := T_COMPLETED, t_completedAt := Some (w_now W)\<rparr>)) (\<lambda>_.
     if t_isConsolidation trip then finish_gathering W (t_orderId trip)
     else finish_delivery (t_orderId trip))))))))"

definition applyOdooPickup :: "world \<Rightarrow> ident \<Rightarrow> ident \<Rightarrow> nat action" where
  "applyOdooPickup W backendTripId backendStopId = confirmPickup W backendTripId backendStopId None"

definition applyOdooComplete :: "world \<Rightarrow> ident \<Rightarrow> bool action" where
  "applyOdooComplete W backendTripId = completeTrip W backendTripId"

section \<open>What is shown\<close>

datatype stop_state = PICKED_UP | CURRENT | PENDING

record stop_view =
  sv_stop :: delivery_trip_stop
  sv_state :: stop_state
  sv_location :: "rat option \<times> rat option"

record trip_view =
  tv_trip :: delivery_trip
  tv_destination :: "rat option \<times> rat option"
  tv_totalStops :: nat
  tv_remainingStops :: nat
  tv_nextStop :: "stop_view option"
  tv_stops :: "stop_view list"

definition next_stop :: "delivery_trip_stop list \<Rightarrow> delivery_trip_stop option" where
  "next_stop stops = find (\<lambda>x. \<not> collected x) stops"

definition stopView :: "delivery_trip_stop option \<Rightarrow> store \<Rightarrow> delivery_trip_stop \<Rightarrow> stop_view" where
  "stopView nextStop s x = \<lparr>sv_stop = x,
     sv_state = (if collected x then PICKED_UP
       else if map_option s_id nextStop = Some (s_id x) then CURRENT else PENDING),
     sv_location = warehouseCoords (s_warehouseId x) s\<rparr>"

definition enrichedTripView :: "delivery_trip \<Rightarrow> ident \<Rightarrow> bool \<Rightarrow> store \<Rightarrow> trip_view" where
  "enrichedTripView trip buyerProfileId driverView s =
     (let stops = route_of (t_id trip) s; nextStop = next_stop stops
      in \<lparr>tv_trip = trip, tv_destination = buyerPoint buyerProfileId s, tv_totalStops = length stops,
          tv_remainingStops = length (filter (\<lambda>x. \<not> collected x) stops),
          tv_nextStop = map_option (stopView nextStop s) nextStop,
          tv_stops = (if driverView then (case nextStop of None \<Rightarrow> [] | Some x \<Rightarrow> [stopView nextStop s x])
            else map (stopView nextStop s) stops)\<rparr>)"

definition forOrder :: "ident \<Rightarrow> store \<Rightarrow> trip_view list" where
  "forOrder orderId s = map (\<lambda>t. enrichedTripView t
       (case find_order orderId s of None \<Rightarrow> [] | Some ord \<Rightarrow> o_buyerProfileId ord) False s)
     (filter (\<lambda>t. t_orderId t = orderId) (db_trips s))"

definition forDriver :: "int \<Rightarrow> store \<Rightarrow> trip_view list" where
  "forDriver odooDriverId s = map (\<lambda>t. enrichedTripView t
       (case find_order (t_orderId t) s of None \<Rightarrow> [] | Some ord \<Rightarrow> o_buyerProfileId ord) True s)
     (filter (\<lambda>t. t_odooDriverId t = Some odooDriverId
        \<and> List.member [T_ASSIGNED, T_IN_PROGRESS] (t_status t)) (db_trips s))"

end
