(* ===== verification/DeliveryFacts.thy ===== *)
theory DeliveryFacts
  imports DeliveryPlanning AllocationFacts
begin

text \<open>
  What a plan of \<open>DeliveryPlanning\<close> amounts to: the groups share out the parts that are ready, the rows a
  trip writes, and the cost of a trip against the costs of its stops.
\<close>

section \<open>The groups share out the collectable parts\<close>

abbreviation part_of :: "collectable \<Rightarrow> ident" where
  "part_of c \<equiv> p_id (cb_part c)"

definition shares :: "collectable list \<Rightarrow> collectable list list \<Rightarrow> bool" where
  "shares cs gss \<longleftrightarrow> mset (concat gss) = mset cs \<and> list_all (\<lambda>gs. gs \<noteq> []) gss"

lemma mset_map_filter: "mset xs = mset ys \<Longrightarrow> mset (List.map_filter f xs) = mset (List.map_filter f ys)"
  by (simp add: map_filter_def del: mset_map add: mset_map [of "the \<circ> f"] mset_filter)

lemma concat_map_filter: "concat (map (List.map_filter f) xss) = List.map_filter f (concat xss)"
  by (induction xss) (simp_all add: map_filter_def)

lemma take_trucks_members:
  "map gr_collectables (take_trucks byPartId pools pts) =
     map (List.map_filter (\<lambda>p. map_of byPartId (pk_partId p))) (map pt_parts pts)"
  by (induction byPartId pools pts rule: take_trucks.induct) (auto simp: Let_def split: option.split list.split)

lemma by_part_id:
  assumes "distinct (map part_of cs)" and "c \<in> set cs"
  shows "map_of (js_map (map (\<lambda>c. (part_of c, c)) cs)) (part_of c) = Some c"
proof -
  have "map fst (map (\<lambda>c. (part_of c, c)) cs) = map part_of cs" by simp
  then have "js_map (map (\<lambda>c. (part_of c, c)) cs) = map (\<lambda>c. (part_of c, c)) cs"
    using assms(1) by (intro js_map_distinct) (simp only: \<open>map fst _ = _\<close>)
  then show ?thesis using assms by (auto intro!: map_of_is_SomeI simp: comp_def)
qed

lemma by_part_id_found:
  assumes "distinct (map part_of cs)" and "map_of (js_map (map (\<lambda>c. (part_of c, c)) cs)) i = Some c"
  shows "c \<in> set cs \<and> part_of c = i"
proof -
  have "js_map (map (\<lambda>c. (part_of c, c)) cs) = map (\<lambda>c. (part_of c, c)) cs"
    using assms(1) by (intro js_map_distinct) (simp add: comp_def)
  then show ?thesis using assms(2) by (auto dest!: map_of_SomeD)
qed

lemma plan_groups_share:
  assumes "distinct (map part_of cs)"
  shows "shares cs (map gr_collectables (plan_groups W distance cs s))"
proof -
  define pack where "pack = (\<lambda>c. \<lparr>pk_partId = part_of c, pk_warehouse = cb_warehouseId c,
    pk_distance = distance c, pk_weight = cb_weightKg c\<rparr>)"
  define found where "found = (\<lambda>p :: packable_part. map_of (js_map (map (\<lambda>c. (part_of c, c)) cs)) (pk_partId p))"
  have found: "found (pack c) = Some c" if "c \<in> set cs" for c
    using by_part_id [OF assms that] by (simp add: found_def pack_def)
  then have all: "List.map_filter found (map pack cs) = cs"
    by (simp add: map_filter_def comp_def map_idI)
  obtain cap pools where groups: "map gr_collectables (plan_groups W distance cs s) =
      map (List.map_filter found) (map pt_parts (planDeliveryTrips (map pack cs) cap))"
    unfolding plan_groups_def Let_def take_trucks_members found_def pack_def by blast
  let ?pts = "planDeliveryTrips (map pack cs) cap"
  have part: "mset (concat (map pt_parts ?pts)) = mset (map pack cs)"
    and full: "list_all (\<lambda>t. pt_parts t \<noteq> []) ?pts"
    using planDeliveryTrips_partition [of "map pack cs" cap] by (auto simp: list_all_iff)
  have "mset (concat (map gr_collectables (plan_groups W distance cs s))) = mset cs"
    using mset_map_filter [OF part, of found] by (simp only: groups concat_map_filter all)
  moreover have "List.map_filter found (pt_parts t) \<noteq> []" if t: "t \<in> set ?pts" for t
  proof -
    from full t have "pt_parts t \<noteq> []" by (auto simp: list_all_iff)
    then have "hd (pt_parts t) \<in> set (concat (map pt_parts ?pts))" using t hd_in_set by fastforce
    then have "hd (pt_parts t) \<in> set (map pack cs)" using part by (metis set_mset_mset)
    then have "found (hd (pt_parts t)) \<noteq> None" using found by auto
    with \<open>pt_parts t \<noteq> []\<close> show ?thesis
      by (auto simp: map_filter_def filter_empty_conv intro: hd_in_set)
  qed
  ultimately show ?thesis by (simp add: shares_def groups list_all_iff)
qed

lemma resolve_group_run:
  "resolve_group m seen ids = Inr (resolved, seen') \<Longrightarrow> distinct seen \<Longrightarrow>
   map (map_of m) ids = map Some resolved \<and> seen' = rev ids @ seen \<and> distinct seen'"
proof (induction m seen ids arbitrary: resolved rule: resolve_group.induct)
  case (2 m seen i ids)
  then show ?case by (fastforce split: option.splits if_splits sum.splits)
qed simp

lemma resolve_loop_run:
  "resolve_loop m seen groups = Inr (gss, seen') \<Longrightarrow> distinct seen \<Longrightarrow>
   map (map_of m) (concat groups) = map Some (concat gss) \<and> seen' = rev (concat groups) @ seen
     \<and> distinct seen' \<and> list_all (\<lambda>gs. gs \<noteq> []) gss"
proof (induction m seen groups arbitrary: gss rule: resolve_loop.induct)
  case (2 m seen g groups)
  then obtain resolved seen1 where g: "resolve_group m seen g = Inr (resolved, seen1)"
    by (auto split: sum.splits)
  from resolve_group_run [OF this "2.prems"(2)]
  have r: "map (map_of m) g = map Some resolved" "seen1 = rev g @ seen" "distinct seen1" by blast+
  from "2.prems" g obtain rest where rest: "resolve_loop m seen1 groups = Inr (rest, seen')"
    and gss: "gss = (if resolved = [] then rest else resolved # rest)"
    by (auto split: sum.splits)
  from "2.IH" [OF g refl rest r(3)] have ih: "map (map_of m) (concat groups) = map Some (concat rest)"
    "seen' = rev (concat groups) @ seen1" "distinct seen'" "list_all (\<lambda>gs. gs \<noteq> []) rest" by blast+
  have "concat gss = resolved @ concat rest" using gss by simp
  then show ?case using ih r(1,2) gss by (simp del: set_concat)
qed simp

lemma resolveGroups_share:
  assumes "distinct (map part_of cs)" and "cs \<noteq> []" and "resolveGroups cs groups = Inr gss"
  shows "shares cs gss"
proof (cases "groups = []")
  case True
  then show ?thesis using assms(2,3) by (auto simp: resolveGroups_def shares_def)
next
  case False
  define m where "m = js_map (map (\<lambda>c. (part_of c, c)) cs)"
  from False assms(3) obtain seen where loop: "resolve_loop m [] groups = Inr (gss, seen)"
    and all: "\<forall>c \<in> set cs. part_of c \<in> set seen"
    by (auto simp: resolveGroups_def m_def list_ex_iff split: sum.splits if_splits)
  from resolve_loop_run [OF loop] have run: "map (map_of m) (concat groups) = map Some (concat gss)"
    "seen = rev (concat groups)" "distinct seen" "list_all (\<lambda>gs. gs \<noteq> []) gss" by auto
  have each: "c \<in> set cs \<and> part_of c = i" if "map_of m i = Some c" for i c
    using by_part_id_found [OF assms(1), of i c] that unfolding m_def by blast
  have len: "length (concat groups) = length (concat gss)" using run(1) by (metis length_map)
  have nth: "map_of m (concat groups ! k) = Some (concat gss ! k)" if "k < length (concat gss)" for k
    using run(1) that len by (metis nth_map)
  have ids: "map part_of (concat gss) = concat groups"
    
  proof (rule nth_equalityI)
    show "length (map part_of (concat gss)) = length (concat groups)" using len by (simp only: length_map)
    fix k assume "k < length (map part_of (concat gss))"
    then have k: "k < length (concat gss)" by (simp only: length_map)
    have "map part_of (concat gss) ! k = part_of (concat gss ! k)" using k by (rule nth_map)
    then show "map part_of (concat gss) ! k = concat groups ! k" using each [OF nth [OF k]] by (simp only:)
  qed
  then have "distinct (map part_of (concat gss))" using run(2,3) by simp
  then have dist: "distinct (concat gss)" by (simp add: distinct_map)
  have "set (concat gss) \<subseteq> set cs" using each [OF nth] by (metis in_set_conv_nth subsetI)
  moreover have "set cs \<subseteq> set (concat gss)"
  proof
    fix c assume c: "c \<in> set cs"
    then have "part_of c \<in> set (map part_of (concat gss))" using all run(2) ids by auto
    then obtain d where "d \<in> set (concat gss)" "part_of d = part_of c"
      unfolding set_map by (metis imageE)
    with \<open>set (concat gss) \<subseteq> set cs\<close> c assms(1) have "d = c" by (auto simp: distinct_map inj_on_def)
    with \<open>d \<in> set (concat gss)\<close> show "c \<in> set (concat gss)" by simp
  qed
  ultimately have "set (concat gss) = set cs" by blast
  moreover have "distinct cs" using assms(1) by (simp add: distinct_map)
  ultimately have "mset (concat gss) = mset cs"
    using set_eq_iff_mset_eq_distinct [OF dist] by blast
  with run(4) show ?thesis by (simp add: shares_def)
qed

section \<open>The rows of one trip\<close>

definition uncosted :: "order_part \<Rightarrow> order_part" where
  "uncosted p = p\<lparr>p_deliveryCost := 0, p_distanceKm := 0\<rparr>"

lemma uncosted_update: "uncosted (p\<lparr>p_deliveryCost := c, p_distanceKm := d\<rparr>) = uncosted p"
  by (simp add: uncosted_def)

lemma uncosted_simps [simp]: "p_id (uncosted p) = p_id p" "p_orderId (uncosted p) = p_orderId p"
  "p_status (uncosted p) = p_status p"
  by (simp_all add: uncosted_def)

lemma map_uncosted:
  assumes "map uncosted ps = map uncosted qs" and "\<And>p. f (uncosted p) = f p"
  shows "map f ps = map f qs"
proof -
  have "map f xs = map f (map uncosted xs)" for xs by (simp add: assms(2))
  then show ?thesis using assms(1) by metis
qed

definition costed :: "delivery_trip_stop list \<Rightarrow> order_part list \<Rightarrow> bool" where
  "costed rows ps \<longleftrightarrow> (\<forall>x \<in> set rows. \<forall>p \<in> set ps. p_id p = s_partId x \<longrightarrow>
     p_deliveryCost p = s_legCost x \<and> p_distanceKm p = s_distanceToBuyerKm x)"

definition stop_row :: "ident \<Rightarrow> ident \<Rightarrow> delivery_rate \<Rightarrow> (collectable \<Rightarrow> rat) \<Rightarrow>
    nat \<times> collectable \<times> rat \<Rightarrow> delivery_trip_stop" where
  "stop_row stopId tripId rate distance = (\<lambda>(i, c, leg). \<lparr>s_id = stopId, s_tripId = tripId, s_partId = part_of c,
     s_warehouseId = cb_warehouseId c, s_sequence = i + 1, s_distanceToBuyerKm = round3 (distance c),
     s_legDistanceKm = round3 leg, s_legCost = leg_cost rate i (round3 leg), s_pickedUpAt = None,
     s_pickedUpNote = None\<rparr>)"

definition pay_leg :: "delivery_trip_stop \<Rightarrow> order_part \<Rightarrow> order_part" where
  "pay_leg x p = (if p_id p = s_partId x
     then p\<lparr>p_deliveryCost := s_legCost x, p_distanceKm := s_distanceToBuyerKm x\<rparr> else p)"

lemma pay_leg_simps [simp]: "p_id (pay_leg x p) = p_id p" "uncosted (pay_leg x p) = uncosted p"
  by (simp_all add: pay_leg_def uncosted_def)

lemma stop_round_run:
  assumes "ids_ok s"
  shows "stop_round tripId rate distance r s =
    (Inr (), let x = stop_row (db_uuid s (db_next s)) tripId rate distance r in
       s\<lparr>db_next := db_next s + 1, db_stops := db_stops s @ [x], db_parts := map (pay_leg x) (db_parts s)\<rparr>)"
  using ids_fresh(6) [OF assms]
  by (cases r) (simp add: stop_round_def stop_row_def Let_def fresh_id_def save_stop_def update_part_def
      bind_def tbl_save_fresh pay_leg_def [abs_def] writes_def)

lemma ids_ok_add_stop:
  assumes "ids_ok s" and "s_id x = db_uuid s (db_next s)" and "map p_id ps = map p_id (db_parts s)"
  shows "ids_ok (s\<lparr>db_next := db_next s + 1, db_stops := db_stops s @ [x], db_parts := ps\<rparr>)"
  using assms ids_fresh(6) [OF assms(1)]
  by (intro ids_ok_step [OF assms(1)]) (auto simp: ids_ok_def store_ids_def)

lemma costed_pay:
  "costed rows ps \<Longrightarrow> s_partId x \<notin> s_partId ` set rows \<Longrightarrow> costed (rows @ [x]) (map (pay_leg x) ps)"
  by (auto simp: costed_def pay_leg_def image_iff)

text \<open>The stop loop appends one row per round and writes each leg's cost on its part.\<close>

lemma stop_rounds_run:
  assumes "ids_ok s" and "distinct (map s_partId before @ map (\<lambda>r. part_of (fst (snd r))) rs)"
    and "costed before (db_parts s)"
  shows "\<exists>rows ps. for_each rs (stop_round tripId rate distance) s
      = (Inr (), s\<lparr>db_next := db_next s + length rs, db_stops := db_stops s @ rows, db_parts := ps\<rparr>)
    \<and> ids_ok (s\<lparr>db_next := db_next s + length rs, db_stops := db_stops s @ rows, db_parts := ps\<rparr>)
    \<and> list_all2 (\<lambda>r x. \<exists>i. x = stop_row i tripId rate distance r) rs rows
    \<and> map uncosted ps = map uncosted (db_parts s) \<and> costed (before @ rows) ps"
  using assms
proof (induction rs arbitrary: s before)
  case Nil
  then show ?case by (intro exI [of _ "[]"] exI [of _ "db_parts s"]) simp
next
  case (Cons r rs)
  define x where "x = stop_row (db_uuid s (db_next s)) tripId rate distance r"
  define s1 where "s1 = s\<lparr>db_next := db_next s + 1, db_stops := db_stops s @ [x],
    db_parts := map (pay_leg x) (db_parts s)\<rparr>"
  have x: "s_id x = db_uuid s (db_next s)" "s_partId x = part_of (fst (snd r))"
    by (simp_all add: x_def stop_row_def split: prod.split)
  have first: "stop_round tripId rate distance r s = (Inr (), s1)"
    using stop_round_run [OF Cons.prems(1)] by (simp add: s1_def x_def Let_def)
  have ok: "ids_ok s1" unfolding s1_def
    by (rule ids_ok_add_stop [OF Cons.prems(1) x(1)]) (simp add: comp_def)
  have c1: "costed (before @ [x]) (db_parts s1)"
    using costed_pay [OF Cons.prems(3), of x] Cons.prems(2) x(2) by (simp add: s1_def)
  have d1: "distinct (map s_partId (before @ [x]) @ map (\<lambda>r. part_of (fst (snd r))) rs)"
    using Cons.prems(2) x(2) by auto
  from Cons.IH [OF ok d1 c1] obtain rows ps where ih:
    "for_each rs (stop_round tripId rate distance) s1
      = (Inr (), s1\<lparr>db_next := db_next s1 + length rs, db_stops := db_stops s1 @ rows, db_parts := ps\<rparr>)"
    "ids_ok (s1\<lparr>db_next := db_next s1 + length rs, db_stops := db_stops s1 @ rows, db_parts := ps\<rparr>)"
    "list_all2 (\<lambda>r x. \<exists>i. x = stop_row i tripId rate distance r) rs rows"
    "map uncosted ps = map uncosted (db_parts s1)" "costed ((before @ [x]) @ rows) ps" by blast
  have "s1\<lparr>db_next := db_next s1 + length rs, db_stops := db_stops s1 @ rows, db_parts := ps\<rparr>
      = s\<lparr>db_next := db_next s + length (r # rs), db_stops := db_stops s @ (x # rows), db_parts := ps\<rparr>"
    by (simp add: s1_def)
  with ih first show ?case
    by (intro exI [of _ "x # rows"] exI [of _ ps])
      (auto simp: bind_Inr [where m = "stop_round tripId rate distance r", OF first] s1_def x_def comp_def)
qed

text \<open>
  What a planned trip looks like: numbered stops, farthest first, not yet collected; the route is the
  legs together, the cost is the route at the rate with the base fee, each stop carries its own leg.
\<close>

definition trip_ok :: "delivery_rate \<Rightarrow> delivery_trip \<Rightarrow> delivery_trip_stop list \<Rightarrow> bool" where
  "trip_ok rate t rows \<longleftrightarrow> rows \<noteq> []
     \<and> list_all (\<lambda>x. s_tripId x = t_id t \<and> s_pickedUpAt x = None) rows
     \<and> map s_sequence rows = [1..<length rows + 1]
     \<and> sorted_wrt (\<lambda>x y. s_distanceToBuyerKm y \<le> s_distanceToBuyerKm x) rows
     \<and> t_originWarehouseId t = s_warehouseId (hd rows) \<and> t_status t = T_PLANNED
     \<and> t_startedAt t = None \<and> t_completedAt t = None
     \<and> t_routeDistanceKm t = sum_list (map s_legDistanceKm rows)
     \<and> t_deliveryCost t = round3 (dr_baseFee rate + dr_ratePerKm rate * t_routeDistanceKm t)
     \<and> map s_legCost rows = map (\<lambda>(i, x). leg_cost rate i (s_legDistanceKm x)) (List.enumerate 0 rows)"

lemma legs_between_facts:
  "length (legs_between W ws s) = length ws - 1" "list_all milli (legs_between W ws s)"
  by (induction W ws s rule: legs_between.induct) (auto simp: betweenWarehouses_def split: option.split)

lemma milli_between: "milli (betweenWarehouses W a b s)"
  by (simp add: betweenWarehouses_def split: option.split)

lemma trip_rounds_nth:
  "length legs = length stops \<Longrightarrow> i < length stops \<Longrightarrow> trip_rounds stops legs ! i = (i, stops ! i, legs ! i)"
  by (simp add: trip_rounds_def)

lemma trip_ok_rows:
  assumes "stops \<noteq> []" and "length legs = length stops" and "list_all milli legs"
    and "sorted_wrt (\<lambda>a b. distance b \<le> distance a) stops"
    and rows: "list_all2 (\<lambda>r x. \<exists>i. x = stop_row i tripId rate distance r) (trip_rounds stops legs) rows"
  shows "trip_ok rate (new_trip W tripId ord dest (cb_warehouseId (hd stops)) legs rate index n truck) rows"
    and "map s_partId rows = map part_of stops"
proof -
  have len: "length rows = length stops"
    using list_all2_lengthD [OF rows] assms(2) by (simp add: trip_rounds_def)
  have row: "\<exists>j. rows ! i = stop_row j tripId rate distance (i, stops ! i, legs ! i)" if "i < length stops" for i
    using list_all2_nthD2 [OF rows, of i] that len trip_rounds_nth [OF assms(2) that] by simp
  have leg: "round3 (legs ! i) = legs ! i" if "i < length stops" for i
    using assms(2,3) that by (simp add: list_all_length)
  have cells: "s_tripId (rows ! i) = tripId" "s_partId (rows ! i) = part_of (stops ! i)"
    "s_warehouseId (rows ! i) = cb_warehouseId (stops ! i)" "s_sequence (rows ! i) = i + 1"
    "s_distanceToBuyerKm (rows ! i) = round3 (distance (stops ! i))" "s_legDistanceKm (rows ! i) = legs ! i"
    "s_legCost (rows ! i) = leg_cost rate i (legs ! i)" "s_pickedUpAt (rows ! i) = None"
    if "i < length stops" for i
    using row [OF that] leg [OF that] by (auto simp: stop_row_def)
  show parts: "map s_partId rows = map part_of stops"
    using len cells(2) by (intro nth_equalityI) simp_all
  have legs: "map s_legDistanceKm rows = legs"
    using len assms(2) cells(6) by (intro nth_equalityI) simp_all
  have "milli (sum_list legs)"
    using milli_sum_list [of legs "\<lambda>x. x"] assms(3) by (simp add: list_all_iff)
  moreover have "map s_sequence rows = [1..<length rows + 1]"
    using len cells(4) by (intro nth_equalityI) (simp_all del: upt_Suc)
  moreover have "sorted_wrt (\<lambda>x y. s_distanceToBuyerKm y \<le> s_distanceToBuyerKm x) rows"
    using assms(4) len cells(5) by (auto simp: sorted_wrt_iff_nth_less intro: round3_mono)
  moreover have "list_all (\<lambda>x. s_tripId x = tripId \<and> s_pickedUpAt x = None) rows"
    using len cells(1,8) by (simp add: list_all_length)
  moreover have "map s_legCost rows = map (\<lambda>(i, x). leg_cost rate i (s_legDistanceKm x)) (List.enumerate 0 rows)"
    using len cells(6,7) by (intro nth_equalityI) (simp_all add: nth_enumerate_eq)
  moreover have ne: "rows \<noteq> []" using len assms(1) by auto
  moreover have "s_warehouseId (hd rows) = cb_warehouseId (hd stops)"
    using cells(3) [of 0] assms(1) by (simp add: hd_conv_nth [OF ne] hd_conv_nth [OF assms(1)])
  ultimately show "trip_ok rate (new_trip W tripId ord dest (cb_warehouseId (hd stops)) legs rate index n truck) rows"
    using legs by (simp add: trip_ok_def new_trip_def Let_def)
qed

text \<open>The costs of the stops add up to the cost of the trip up to half a thousandth per rounding.\<close>

lemma sum_enumerate:
  "sum_list (map (\<lambda>(i, x). f x * r + (if i = 0 then b else 0)) (List.enumerate 0 xs))
     = (sum_list (map f xs) * r + (if xs = [] then 0 else b) :: rat)"
proof -
  have "sum_list (map (\<lambda>(i, x). f x * r + (if i = 0 then b else 0)) (List.enumerate (Suc n) ys))
      = sum_list (map f ys) * r" for n ys
    by (induction ys arbitrary: n) (simp_all add: algebra_simps)
  then show ?thesis by (cases xs) (simp_all add: algebra_simps)
qed

lemma sum_list_round3:
  "\<bar>sum_list (map (\<lambda>x. round3 (f x)) xs) - sum_list (map f xs)\<bar> \<le> of_nat (length xs) * (1/2000)"
proof -
  have "sum_list (map (\<lambda>x. round3 (f x)) xs) - sum_list (map f xs) = sum_list (map (\<lambda>x. round3 (f x) - f x) xs)"
    by (simp add: sum_list_subtractf)
  then show ?thesis using sum_list_abs_le [of xs "\<lambda>x. round3 (f x) - f x" "1/2000"] round3_error by simp
qed

lemma within_roundings:
  assumes "\<bar>a - b\<bar> \<le> n * (1/2000)" and "\<bar>c - b\<bar> \<le> (1/2000 :: rat)"
  shows "\<bar>a - c\<bar> \<le> (n + 1) / 2000"
proof -
  have "\<bar>a - c\<bar> \<le> \<bar>a - b\<bar> + \<bar>c - b\<bar>" by linarith
  then show ?thesis using assms by (simp add: add_divide_distrib)
qed

lemma trip_ok_costs:
  assumes "trip_ok rate t rows"
  shows "\<bar>sum_list (map s_legCost rows) - t_deliveryCost t\<bar> \<le> (of_nat (length rows) + 1) / 2000"
    and "length rows = 1 \<Longrightarrow> sum_list (map s_legCost rows) = t_deliveryCost t"
proof -
  define f where "f = (\<lambda>(i :: nat, x :: delivery_trip_stop). s_legDistanceKm x * dr_ratePerKm rate + (if i = 0 then dr_baseFee rate else 0))"
  let ?total = "dr_baseFee rate + dr_ratePerKm rate * t_routeDistanceKm t"
  have costs: "map s_legCost rows = map (\<lambda>p. round3 (f p)) (List.enumerate 0 rows)"
    using assms by (simp add: trip_ok_def f_def leg_cost_def case_prod_unfold)
  have all: "sum_list (map f (List.enumerate 0 rows)) = ?total"
    using assms sum_enumerate [of s_legDistanceKm "dr_ratePerKm rate" "dr_baseFee rate" rows]
    by (simp add: trip_ok_def f_def algebra_simps)
  have cost: "t_deliveryCost t = round3 ?total" using assms by (simp add: trip_ok_def)
  have "\<bar>sum_list (map s_legCost rows) - ?total\<bar> \<le> of_nat (length rows) * (1/2000)"
    using sum_list_round3 [of f "List.enumerate 0 rows"] by (simp only: costs all length_enumerate)
  moreover have "\<bar>round3 ?total - ?total\<bar> \<le> 1/2000" by (rule round3_error)
  ultimately show "\<bar>sum_list (map s_legCost rows) - t_deliveryCost t\<bar> \<le> (of_nat (length rows) + 1) / 2000"
    unfolding cost by (rule within_roundings)
  assume "length rows = 1"
  then obtain x where "rows = [x]" by (cases rows) auto
  then show "sum_list (map s_legCost rows) = t_deliveryCost t"
    using all costs cost by simp
qed

lemma write_trip_run:
  fixes rate :: delivery_rate and index n :: nat and W :: world and ord :: order and dest :: "ident option"
    and truck :: "int option"
  assumes "ids_ok s" and "length legs = length stops"
    and "distinct (map s_partId before @ map part_of stops)" and "costed before (db_parts s)"
  defines "t \<equiv> new_trip W (db_uuid s (db_next s)) ord dest (cb_warehouseId (hd stops)) legs rate index n truck"
  shows "if t_tripNumber t \<in> t_tripNumber ` set (db_trips s)
    then \<exists>s'. write_trip W ord dest distance stops legs rate index n truck s = (Inl Crash, s')
      \<and> db_events s' = db_events s
    else \<exists>rows ps s'. write_trip W ord dest distance stops legs rate index n truck s = (Inr (t_id t), s')
      \<and> s' = s\<lparr>db_next := db_next s + 1 + length stops, db_trips := db_trips s @ [t],
               db_stops := db_stops s @ rows, db_parts := ps\<rparr> \<and> ids_ok s'
      \<and> list_all2 (\<lambda>r x. \<exists>i. x = stop_row i (t_id t) rate distance r) (trip_rounds stops legs) rows
      \<and> map uncosted ps = map uncosted (db_parts s) \<and> costed (before @ rows) ps"
proof (cases "t_tripNumber t \<in> t_tripNumber ` set (db_trips s)")
  case True
  then have "write_trip W ord dest distance stops legs rate index n truck s = (Inl Crash, s\<lparr>db_next := db_next s + 1\<rparr>)"
    by (auto simp: write_trip_def fresh_id_def insert_trip_def bind_def list_ex_iff t_def)
  with True show ?thesis by simp
next
  case False
  have id: "t_id t = db_uuid s (db_next s)" by (simp add: t_def new_trip_def Let_def)
  define s1 where "s1 = s\<lparr>db_next := db_next s + 1, db_trips := db_trips s @ [t]\<rparr>"
  have ok: "ids_ok s1"
    using assms(1) ids_fresh(5) [OF assms(1)] id unfolding s1_def
    by (intro ids_ok_step [OF assms(1)]) (auto simp: ids_ok_def store_ids_def)
  have rs: "map (\<lambda>r. part_of (fst (snd r))) (trip_rounds stops legs) = map part_of stops" "length (trip_rounds stops legs) = length stops"
    using assms(2) by (auto simp: trip_rounds_def intro: nth_equalityI)
  have "insert_trip t (s\<lparr>db_next := db_next s + 1\<rparr>) = (Inr (), s1)"
    using False ids_fresh(5) [OF assms(1)] id
    by (auto simp: insert_trip_def list_ex_iff image_iff save_trip_def writes_def s1_def tbl_save_fresh)
  then have step: "write_trip W ord dest distance stops legs rate index n truck s
      = bind (for_each (trip_rounds stops legs) (stop_round (t_id t) rate distance)) (\<lambda>_. ret (t_id t)) s1"
    unfolding write_trip_def id by (simp add: bind_def fresh_id_def flip: t_def)
  have d: "distinct (map s_partId before @ map (\<lambda>r. part_of (fst (snd r))) (trip_rounds stops legs))"
    and c: "costed before (db_parts s1)"
    using assms(3,4) by (simp_all add: rs s1_def)
  from stop_rounds_run [OF ok d c, of "t_id t" rate distance] obtain rows ps where run:
    "for_each (trip_rounds stops legs) (stop_round (t_id t) rate distance) s1
      = (Inr (), s1\<lparr>db_next := db_next s1 + length stops, db_stops := db_stops s1 @ rows, db_parts := ps\<rparr>)"
    "ids_ok (s1\<lparr>db_next := db_next s1 + length stops, db_stops := db_stops s1 @ rows, db_parts := ps\<rparr>)"
    "list_all2 (\<lambda>r x. \<exists>i. x = stop_row i (t_id t) rate distance r) (trip_rounds stops legs) rows"
    "map uncosted ps = map uncosted (db_parts s1)" "costed (before @ rows) ps" by (auto simp: rs)
  have "s1\<lparr>db_next := db_next s1 + length stops, db_stops := db_stops s1 @ rows, db_parts := ps\<rparr>
      = s\<lparr>db_next := db_next s + 1 + length stops, db_trips := db_trips s @ [t], db_stops := db_stops s @ rows, db_parts := ps\<rparr>"
    by (simp add: s1_def)
  moreover have "bind (for_each (trip_rounds stops legs) (stop_round (t_id t) rate distance)) (\<lambda>_. ret (t_id t)) s1
      = (Inr (t_id t), s1\<lparr>db_next := db_next s1 + length stops, db_stops := db_stops s1 @ rows, db_parts := ps\<rparr>)"
    by (simp add: bind_Inr [where m = "for_each (trip_rounds stops legs) (stop_round (t_id t) rate distance)", OF run(1)])
  ultimately show ?thesis
    using False run(2-) step
    by (simp only: if_False, intro exI [of _ rows] exI [of _ ps]) (simp add: s1_def)
qed

section \<open>All trips of a plan\<close>

text \<open>
  The contract of a builder of trips: it fails without a trace of its own, or appends one well-formed
  trip with a stop for each part of the group.  Both builders keep it.
\<close>

definition built :: "delivery_rate \<Rightarrow> store \<Rightarrow> store \<Rightarrow> delivery_trip \<Rightarrow> delivery_trip_stop list \<Rightarrow> bool" where
  "built rate s s' t rows \<longleftrightarrow> (\<exists>n ps. s' = s\<lparr>db_next := n, db_trips := db_trips s @ [t], db_stops := db_stops s @ rows,
       db_parts := ps\<rparr> \<and> map uncosted ps = map uncosted (db_parts s)) \<and> ids_ok s' \<and> trip_ok rate t rows"

locale trip_builder =
  fixes build :: "nat \<Rightarrow> trip_group \<Rightarrow> ident action" and rate :: delivery_rate
  assumes builds: "ids_ok s \<Longrightarrow> gr_collectables g \<noteq> [] \<Longrightarrow> costed before (db_parts s) \<Longrightarrow>
      distinct (map s_partId before @ map part_of (gr_collectables g)) \<Longrightarrow>
      (\<exists>s'. build i g s = (Inl Crash, s') \<and> db_events s' = db_events s) \<or>
      (\<exists>t rows s'. build i g s = (Inr (t_id t), s') \<and> built rate s s' t rows
         \<and> t_odooTruckId t = gr_truck g
         \<and> mset (map s_partId rows) = mset (map part_of (gr_collectables g))
         \<and> costed (before @ rows) (db_parts s'))"
begin

lemma builds_all:
  assumes "ids_ok s" and "list_all (\<lambda>g. gr_collectables g \<noteq> []) groups" and "costed before (db_parts s)"
    and "distinct (map s_partId before @ map part_of (concat (map gr_collectables groups)))"
  shows "(\<exists>s'. collect (zip (map f [0..<length groups]) groups) (\<lambda>(i, g). build i g) s = (Inl Crash, s')
       \<and> db_events s' = db_events s) \<or>
    (\<exists>ts rowss n ps s'. collect (zip (map f [0..<length groups]) groups) (\<lambda>(i, g). build i g) s = (Inr (map t_id ts), s')
       \<and> s' = s\<lparr>db_next := n, db_trips := db_trips s @ ts, db_stops := db_stops s @ concat rowss, db_parts := ps\<rparr>
       \<and> ids_ok s' \<and> map uncosted ps = map uncosted (db_parts s) \<and> list_all2 (trip_ok rate) ts rowss
       \<and> map t_odooTruckId ts = map gr_truck groups
       \<and> mset (map s_partId (concat rowss)) = mset (map part_of (concat (map gr_collectables groups)))
       \<and> costed (before @ concat rowss) ps)"
  using assms
proof (induction groups arbitrary: s before f)
  case Nil
  show ?case
    by (rule disjI2, rule exI [of _ "[]"], rule exI [of _ "[]"], rule exI [of _ "db_next s"],
        rule exI [of _ "db_parts s"]) (use Nil in simp)
next
  case (Cons g gs)
  have zip: "zip (map f [0..<length (g # gs)]) (g # gs)
      = (f 0, g) # zip (map (\<lambda>i. f (Suc i)) [0..<length gs]) gs"
    by (simp add: map_upt_Suc del: upt_Suc)
  let ?rest = "collect (zip (map (\<lambda>i. f (Suc i)) [0..<length gs]) gs) (\<lambda>(i, g). build i g)"
  have d: "distinct (map s_partId before @ map part_of (gr_collectables g))" using Cons.prems(4) by auto
  have ne: "gr_collectables g \<noteq> []" using Cons.prems(2) by simp
  from builds [OF Cons.prems(1) ne Cons.prems(3) d, of "f 0"] show ?case
  proof (elim disjE exE conjE)
    fix s' assume "build (f 0) g s = (Inl Crash, s')" "db_events s' = db_events s"
    then show ?thesis unfolding zip by (simp add: bind_def)
  next
    fix t rows s1
    assume b: "build (f 0) g s = (Inr (t_id t), s1)" and built: "built rate s s1 t rows"
      and truck: "t_odooTruckId t = gr_truck g"
      and ms: "mset (map s_partId rows) = mset (map part_of (gr_collectables g))"
      and c: "costed (before @ rows) (db_parts s1)"
    from built obtain n1 ps1 where s1: "s1 = s\<lparr>db_next := n1, db_trips := db_trips s @ [t],
        db_stops := db_stops s @ rows, db_parts := ps1\<rparr>" "map uncosted ps1 = map uncosted (db_parts s)"
      and ok: "ids_ok s1" "trip_ok rate t rows" unfolding built_def by blast
    have "mset (map s_partId (before @ rows) @ map part_of (concat (map gr_collectables gs)))
        = mset (map s_partId before @ map part_of (concat (map gr_collectables (g # gs))))"
      using ms by simp
    then have d1: "distinct (map s_partId (before @ rows) @ map part_of (concat (map gr_collectables gs)))"
      using Cons.prems(4) mset_eq_imp_distinct_iff by blast
    have l1: "list_all (\<lambda>g. gr_collectables g \<noteq> []) gs" using Cons.prems(2) by simp
    have step: "collect (zip (map f [0..<length (g # gs)]) (g # gs)) (\<lambda>(i, g). build i g) s
        = bind ?rest (\<lambda>ys. ret (t_id t # ys)) s1"
      unfolding zip by (simp add: bind_def b)
    from Cons.IH [OF ok(1) l1 c d1, of "\<lambda>i. f (Suc i)"] show ?thesis
    proof (elim disjE exE conjE)
      fix s' assume "?rest s1 = (Inl Crash, s')" "db_events s' = db_events s1"
      then have "collect (zip (map f [0..<length (g # gs)]) (g # gs)) (\<lambda>(i, g). build i g) s = (Inl Crash, s')"
        unfolding step by (simp add: bind_def)
      then show ?thesis using \<open>db_events s' = db_events s1\<close> s1(1) by simp
    next
      fix ts rowss n ps s'
      assume r: "?rest s1 = (Inr (map t_id ts), s')"
        and s': "s' = s1\<lparr>db_next := n, db_trips := db_trips s1 @ ts, db_stops := db_stops s1 @ concat rowss, db_parts := ps\<rparr>"
        and ih: "ids_ok s'" "map uncosted ps = map uncosted (db_parts s1)" "list_all2 (trip_ok rate) ts rowss"
          "map t_odooTruckId ts = map gr_truck gs"
          "mset (map s_partId (concat rowss)) = mset (map part_of (concat (map gr_collectables gs)))"
          "costed ((before @ rows) @ concat rowss) ps"
      have "collect (zip (map f [0..<length (g # gs)]) (g # gs)) (\<lambda>(i, g). build i g) s
          = (Inr (map t_id (t # ts)), s')"
        unfolding step by (simp add: bind_def r)
      moreover have "s' = s\<lparr>db_next := n, db_trips := db_trips s @ (t # ts),
          db_stops := db_stops s @ concat (rows # rowss), db_parts := ps\<rparr>"
        by (simp add: s' s1(1))
      moreover have "map uncosted ps = map uncosted (db_parts s)" using ih(2) s1 by simp
      moreover have "list_all2 (trip_ok rate) (t # ts) (rows # rowss)" using ih(3) ok(2) by simp
      ultimately show ?thesis
        using ih(1,4-) ms truck
        by - (rule disjI2, rule exI [of _ "t # ts"], rule exI [of _ "rows # rowss"], rule exI [of _ n],
              rule exI [of _ ps], rule exI [of _ s'], simp)
    qed
  qed
qed

end

lemma built_by_write:
  fixes W :: world and ord :: order and dest :: "ident option"
  assumes ids: "ids_ok s" and cs: "mset stops = mset (gr_collectables g)" and ne: "gr_collectables g \<noteq> []"
    and cost: "costed before (db_parts s)" and d: "distinct (map s_partId before @ map part_of (gr_collectables g))"
    and legs: "length legs = length stops" "list_all milli legs"
    and sorted: "sorted_wrt (\<lambda>a b. distance b \<le> distance a) stops"
  shows "(\<exists>s'. write_trip W ord dest distance stops legs rate i n (gr_truck g) s = (Inl Crash, s')
       \<and> db_events s' = db_events s) \<or>
    (\<exists>t rows s'. write_trip W ord dest distance stops legs rate i n (gr_truck g) s = (Inr (t_id t), s')
       \<and> built rate s s' t rows \<and> t_odooTruckId t = gr_truck g
       \<and> mset (map s_partId rows) = mset (map part_of (gr_collectables g)) \<and> costed (before @ rows) (db_parts s'))"
proof -
  define t where "t = new_trip W (db_uuid s (db_next s)) ord dest (cb_warehouseId (hd stops)) legs rate i n (gr_truck g)"
  have stops: "stops \<noteq> []" using cs ne by auto
  have ms: "mset (map part_of stops) = mset (map part_of (gr_collectables g))" using cs by simp
  have "mset (map s_partId before @ map part_of stops) = mset (map s_partId before @ map part_of (gr_collectables g))"
    using ms by simp
  then have d': "distinct (map s_partId before @ map part_of stops)"
    using d mset_eq_imp_distinct_iff by blast
  note run = write_trip_run [OF ids legs(1) d' cost, of W ord dest rate i n "gr_truck g" distance, folded t_def]
  show ?thesis
  proof (cases "t_tripNumber t \<in> t_tripNumber ` set (db_trips s)")
    case True
    then show ?thesis using run by (intro disjI1) simp
  next
    case False
    from run [unfolded if_not_P [OF False]] obtain rows ps s' where
      w: "write_trip W ord dest distance stops legs rate i n (gr_truck g) s = (Inr (t_id t), s')"
        "s' = s\<lparr>db_next := db_next s + 1 + length stops, db_trips := db_trips s @ [t],
               db_stops := db_stops s @ rows, db_parts := ps\<rparr>" "ids_ok s'"
      and rows: "list_all2 (\<lambda>r x. \<exists>i. x = stop_row i (t_id t) rate distance r) (trip_rounds stops legs) rows"
      and ps: "map uncosted ps = map uncosted (db_parts s)" "costed (before @ rows) ps" by blast
    have id: "t_id t = db_uuid s (db_next s)" by (simp add: t_def new_trip_def Let_def)
    note ok = trip_ok_rows [OF stops legs sorted rows [unfolded id]]
    have "built rate s s' t rows"
      unfolding built_def using w(2,3) ps(1) ok(1) [of W ord dest i n "gr_truck g", folded t_def] by blast
    moreover have "t_odooTruckId t = gr_truck g" by (simp add: t_def new_trip_def Let_def)
    moreover have "mset (map s_partId rows) = mset (map part_of (gr_collectables g))" using ok(2) ms by simp
    moreover have "costed (before @ rows) (db_parts s')" using ps(2) w(2) by simp
    ultimately show ?thesis using w(1) by blast
  qed
qed

lemma sort_key_Nil_iff [simp]: "sort_key f xs = [] \<longleftrightarrow> xs = []"
  by (metis length_0_conv length_sort)

lemma sorted_desc: "sorted_wrt (\<lambda>a b. f b \<le> (f a :: rat)) (sort_key (\<lambda>x. - f x) xs)"
  using sorted_sort_key [of "\<lambda>x. - f x" xs] by (simp add: sorted_map)

interpretation delivery_builder: trip_builder "buildTrip W ord rate n" rate for W ord rate n
proof (unfold_locales, goal_cases)
  case (1 s g before i)
  let ?stops = "orderStops (gr_collectables g)"
  have ne: "?stops \<noteq> []" using 1(2) by (simp add: orderStops_def)
  have legs: "length (legDistances W ?stops s) = length ?stops" "list_all milli (legDistances W ?stops s)"
    using ne legs_between_facts [of W "map cb_warehouseId ?stops" s] by (simp_all add: legDistances_def)
  have "buildTrip W ord rate n i g s
      = write_trip W ord None cb_distanceToBuyerKm ?stops (legDistances W ?stops s) rate i n (gr_truck g) s"
    using ne by (simp add: buildTrip_def Let_def)
  then show ?case
    using built_by_write [OF 1(1) _ 1(2-4) legs, of cb_distanceToBuyerKm W ord None rate i n]
    by (simp add: orderStops_def sorted_desc)
qed

interpretation gathering_builder: trip_builder "buildConsolidationTrip W ord dest dists rate n" rate
  for W ord dest dists rate n
proof (unfold_locales, goal_cases)
  case (1 s g before i)
  let ?distance = "\<lambda>c. or_0 (map_of dists (cb_warehouseId c))"
  let ?stops = "sort_key (\<lambda>c. - ?distance c) (gr_collectables g)"
  have ne: "?stops \<noteq> []" using 1(2) by simp
  have legs: "length (consolidationLegDistances W ?stops dest s) = length ?stops"
    "list_all milli (consolidationLegDistances W ?stops dest s)"
    using ne legs_between_facts [of W "map cb_warehouseId ?stops" s]
    by (simp_all add: consolidationLegDistances_def milli_between)
  have "buildConsolidationTrip W ord dest dists rate n i g s
      = write_trip W ord (Some dest) ?distance ?stops (consolidationLegDistances W ?stops dest s) rate i n (gr_truck g) s"
    using ne by (simp add: buildConsolidationTrip_def Let_def)
  then show ?case
    using built_by_write [OF 1(1) _ 1(2-4) legs sorted_desc, of W ord "Some dest" rate i n] by simp
qed

section \<open>Dispatch changes nothing of a plan\<close>

text \<open>What planning decides about a trip, as opposed to who drives it.\<close>

definition trip_plan :: "delivery_trip \<Rightarrow> delivery_trip" where
  "trip_plan t = t\<lparr>t_odooDriverId := None, t_driverName := None, t_driverPhone := None, t_status := T_PLANNED\<rparr>"

definition same_plan :: "store \<Rightarrow> store \<Rightarrow> bool" where
  "same_plan s s' \<longleftrightarrow> map trip_plan (db_trips s') = map trip_plan (db_trips s) \<and> db_stops s' = db_stops s
     \<and> db_parts s' = db_parts s \<and> db_orders s' = db_orders s \<and> db_lines s' = db_lines s
     \<and> db_offers s' = db_offers s \<and> db_events s' = db_events s"

lemma trip_plan_id [simp]: "t_id (trip_plan t) = t_id t"
  by (simp add: trip_plan_def)

lemma save_same_plan:
  assumes "trip_plan t' = trip_plan t" and "find_trip k s = Some t"
  shows "map trip_plan (tbl_save t_id t' (db_trips s)) = map trip_plan (db_trips s)"
proof -
  have id: "t_id t' = t_id t" using assms(1) by (metis trip_plan_id)
  have "t_id t = k" using assms(2) tbl_find_SomeD by (fastforce simp: find_trip_def)
  then have "tbl_find t_id (t_id t) ts = Some t \<Longrightarrow> map trip_plan (tbl_save t_id t' ts) = map trip_plan ts" for ts
    using assms(1) id by (induction ts) (auto split: if_splits)
  then show ?thesis using assms(2) \<open>t_id t = k\<close> by (simp add: find_trip_def)
qed

lemma dispatchTrip_plan: "same_plan s (snd (dispatchTrip W k s))"
proof (cases "find_trip k s")
  case None
  then show ?thesis by (simp add: dispatchTrip_def same_plan_def)
next
  case (Some t)
  have queue: "\<exists>js. snd (bind (enqueuePushDeliveryTrip p) (\<lambda>_. ret True) x) = x\<lparr>db_jobs := js\<rparr>" for p x
    by (auto simp: enqueuePushDeliveryTrip_def enqueue_def intro: exI [of _ "db_jobs x"])
  have keep: "same_plan s (snd (bind (enqueuePushDeliveryTrip p) (\<lambda>_. ret True)
      (s\<lparr>db_trips := tbl_save t_id t' (db_trips s)\<rparr>)))" if "trip_plan t' = trip_plan t" for p t'
    using queue [of p "s\<lparr>db_trips := tbl_save t_id t' (db_trips s)\<rparr>"] save_same_plan [OF that Some]
    by (auto simp: same_plan_def)
  have same: "same_plan s s" by (simp add: same_plan_def)
  show ?thesis
    using Some by (auto simp: dispatchTrip_def Let_def save_trip_def assertTransition_def same trip_plan_def
        split: option.split intro!: keep)
qed

lemma same_plan_trans: "same_plan a b \<Longrightarrow> same_plan b c \<Longrightarrow> same_plan a c"
  by (simp add: same_plan_def)

lemma dispatch_planned_run:
  "\<exists>s'. dispatch_planned W ids s = (Inr (), s') \<and> same_plan s s'"
proof (induction ids arbitrary: s)
  case Nil
  then show ?case by (simp add: dispatch_planned_def same_plan_def)
next
  case (Cons k ids)
  define m where "m = (\<lambda>tripId. bind (reads (find_trip tripId)) (\<lambda>found. case found of None \<Rightarrow> ret () | Some trip \<Rightarrow>
     if truck_given trip then best_effort (dispatchTrip W tripId) else ret ()))"
  have "\<exists>s1. m k s = (Inr (), s1) \<and> same_plan s s1"
    using dispatchTrip_plan [of s W k] by (auto simp: m_def best_effort_def same_plan_def split: option.split)
  then obtain s1 where s1: "m k s = (Inr (), s1)" "same_plan s s1" by blast
  obtain s2 where s2: "for_each ids m s1 = (Inr (), s2)" "same_plan s1 s2"
    using Cons.IH [of s1] by (auto simp: dispatch_planned_def m_def)
  have "for_each (k # ids) m s = (Inr (), s2)" using s1(1) s2(1) by (simp add: bind_def)
  then show ?case
    using same_plan_trans [OF s1(2) s2(2)] unfolding dispatch_planned_def by (auto simp flip: m_def)
qed

section \<open>A delivery plan\<close>

definition ready_parts :: "ident \<Rightarrow> store \<Rightarrow> order_part list" where
  "ready_parts orderId s = filter (\<lambda>p. p_status p = P_IN_OUTPUT_ZONE) (parts_of orderId s)"

lemma collectables_ready:
  "map cb_part (collectablesFor ord s) = ready_parts (o_id ord) s"
  by (auto simp: collectablesFor_def Let_def ready_parts_def comp_def FAILED_PART_STATUSES_def intro: filter_cong)

lemma collectables_distinct: "ids_ok s \<Longrightarrow> distinct (map part_of (collectablesFor ord s))"
proof -
  assume "ids_ok s"
  then have "distinct (map p_id (ready_parts (o_id ord) s))"
    by (simp add: ids_ok_def ready_parts_def parts_of_def distinct_map_filter)
  moreover have "map part_of (collectablesFor ord s) = map p_id (map cb_part (collectablesFor ord s))" by simp
  ultimately show ?thesis by (simp only: collectables_ready)
qed

lemma delivery_groups:
  assumes "distinct (map part_of cs)" and "cs \<noteq> []"
  shows "(\<exists>e. plan_delivery_groups W gs cs s = (Inl e, s)) \<or>
    (\<exists>groups. plan_delivery_groups W gs cs s = (Inr groups, s) \<and> shares cs (map gr_collectables groups))"
  using resolveGroups_share [OF assms, of gs] plan_groups_share [OF assms(1), of W cb_distanceToBuyerKm s]
  by (auto simp: plan_delivery_groups_def autoPlanGroups_def comp_def split: sum.split)

lemma trips_of_groups:
  assumes "ids_ok s" and "shares cs (map gr_collectables groups)" and "distinct (map part_of cs)"
    and builder: "trip_builder build rate"
  shows "(\<exists>s'. build_all build groups s = (Inl Crash, s') \<and> db_events s' = db_events s) \<or>
    (\<exists>ts rowss n ps s'. build_all build groups s = (Inr (map t_id ts), s')
       \<and> s' = s\<lparr>db_next := n, db_trips := db_trips s @ ts, db_stops := db_stops s @ concat rowss, db_parts := ps\<rparr>
       \<and> ids_ok s' \<and> map uncosted ps = map uncosted (db_parts s) \<and> list_all2 (trip_ok rate) ts rowss
       \<and> map t_odooTruckId ts = map gr_truck groups
       \<and> mset (map s_partId (concat rowss)) = mset (map part_of cs) \<and> costed (concat rowss) ps)"
proof -
  have ms: "mset (map part_of (concat (map gr_collectables groups))) = mset (map part_of cs)"
    using assms(2) by (simp add: shares_def)
  then have d: "distinct (map s_partId [] @ map part_of (concat (map gr_collectables groups)))"
    using assms(3) mset_eq_imp_distinct_iff by fastforce
  have l: "list_all (\<lambda>g. gr_collectables g \<noteq> []) groups"
    using assms(2) by (auto simp: shares_def list_all_iff)
  have c: "costed [] (db_parts s)" by (simp add: costed_def)
  have "map Suc [0..<length groups] = [1..<length groups + 1]" by (simp add: map_Suc_upt)
  with trip_builder.builds_all [OF builder assms(1) l c d, of Suc] ms show ?thesis
    by (simp only: build_all_def append_Nil)
qed

lemma delivery_plan_stages:
  assumes "ids_ok s" and "find_order k s = Some ord" and "planForOrder W k gs s = (r, s')"
  shows "case r of Inl e \<Rightarrow> s' = s
    | Inr views \<Rightarrow> \<exists>rate ts rowss n ps s1. current_rate s = Some rate \<and> views = trip_views k s'
        \<and> s1 = s\<lparr>db_next := n, db_trips := db_trips s @ ts, db_stops := db_stops s @ concat rowss, db_parts := ps\<rparr>
        \<and> ids_ok s1 \<and> dispatch_planned W (map t_id ts) s1 = (Inr (), s') \<and> list_all2 (trip_ok rate) ts rowss
        \<and> ready_parts k s \<noteq> [] \<and> mset (map s_partId (concat rowss)) = mset (map p_id (ready_parts k s))
        \<and> map uncosted ps = map uncosted (db_parts s) \<and> costed (concat rowss) ps"
proof -
  define cs where "cs = collectablesFor ord s"
  have k: "o_id ord = k" using assms(2) tbl_find_SomeD by (fastforce simp: find_order_def)
  have parts: "map part_of cs = map p_id (ready_parts k s)"
    using arg_cong [OF collectables_ready [of ord s], of "map p_id"] by (simp add: cs_def k comp_def)
  have dist: "distinct (map part_of cs)" unfolding cs_def by (rule collectables_distinct [OF assms(1)])
  show ?thesis
  proof (cases "o_fulfilmentMode ord \<noteq> DELIVERY \<or> live_trips k s \<noteq> [] \<or> cs = []")
    case True
    then have "\<exists>e. planForOrder W k gs s = (Inl e, s)"
      using assms(2) by (cases "o_fulfilmentMode ord = DELIVERY"; cases "live_trips k s = []")
        (simp_all add: planForOrder_def cs_def)
    then show ?thesis using assms(3) by auto
  next
    case False
    then have cs: "cs \<noteq> []" by simp
    let ?go = "bind (plan_delivery_groups W gs cs) (\<lambda>groups. bind currentOrFail (\<lambda>rate.
      bind (transactional (build_all (buildTrip W ord rate (length groups)) groups)) (\<lambda>tripIds.
      bind (dispatch_planned W tripIds) (\<lambda>_. reads (trip_views k)))))"
    have go: "?go s = (r, s')" using assms(2,3) False by (simp add: planForOrder_def cs_def)
    from delivery_groups [OF dist cs, of W gs s] show ?thesis
    proof (elim disjE exE conjE)
      fix e assume "plan_delivery_groups W gs cs s = (Inl e, s)"
      then show ?thesis using go by (auto simp: bind_def)
    next
      fix groups assume g: "plan_delivery_groups W gs cs s = (Inr groups, s)"
        and sh: "shares cs (map gr_collectables groups)"
      show ?thesis
      proof (cases "current_rate s")
        case None
        then show ?thesis using go g by (auto simp: bind_def currentOrFail_def)
      next
        case (Some rate)
        let ?build = "build_all (buildTrip W ord rate (length groups)) groups"
        have rest: "bind (transactional ?build) (\<lambda>tripIds. bind (dispatch_planned W tripIds) (\<lambda>_. reads (trip_views k))) s = (r, s')"
          using go g Some by (simp add: bind_def currentOrFail_def)
        from trips_of_groups [OF assms(1) sh dist delivery_builder.trip_builder_axioms, of W ord rate "length groups"]
        show ?thesis
        proof (elim disjE exE conjE)
          fix s1 assume "?build s = (Inl Crash, s1)" "db_events s1 = db_events s"
          then show ?thesis using rest by (auto simp: bind_def transactional_def)
        next
          fix ts rowss n ps s1
          assume b: "?build s = (Inr (map t_id ts), s1)"
            and s1: "s1 = s\<lparr>db_next := n, db_trips := db_trips s @ ts, db_stops := db_stops s @ concat rowss, db_parts := ps\<rparr>"
            and facts: "ids_ok s1" "map uncosted ps = map uncosted (db_parts s)" "list_all2 (trip_ok rate) ts rowss"
              "mset (map s_partId (concat rowss)) = mset (map part_of cs)" "costed (concat rowss) ps"
          obtain s2 where s2: "dispatch_planned W (map t_id ts) s1 = (Inr (), s2)"
            using dispatch_planned_run by blast
          have r: "r = Inr (trip_views k s')" "s' = s2"
            using rest s2 by (auto simp: bind_def transactional_def b)
          have ready: "ready_parts k s \<noteq> []" using cs parts by auto
          show ?thesis
            unfolding r(1) sum.case
            by (rule exI [of _ rate], rule exI [of _ ts], rule exI [of _ rowss], rule exI [of _ n],
                rule exI [of _ ps], rule exI [of _ s1])
              (use Some facts parts s1 s2 r(2) ready in simp)
        qed
      qed
    qed
  qed
qed

lemma delivery_plan_run:
  assumes "ids_ok s" and "find_order k s = Some ord" and "planForOrder W k gs s = (r, s')"
  shows "case r of Inl e \<Rightarrow> s' = s
    | Inr views \<Rightarrow> \<exists>rate ts rowss. current_rate s = Some rate \<and> views = trip_views k s'
        \<and> map trip_plan (db_trips s') = map trip_plan (db_trips s @ ts)
        \<and> db_stops s' = db_stops s @ concat rowss \<and> list_all2 (trip_ok rate) ts rowss
        \<and> ready_parts k s \<noteq> [] \<and> mset (map s_partId (concat rowss)) = mset (map p_id (ready_parts k s))
        \<and> map uncosted (db_parts s') = map uncosted (db_parts s) \<and> costed (concat rowss) (db_parts s')
        \<and> db_orders s' = db_orders s"
proof (cases r)
  case (Inl e)
  then show ?thesis using delivery_plan_stages [OF assms] by simp
next
  case (Inr views)
  from delivery_plan_stages [OF assms, unfolded Inr sum.case]
  obtain rate ts rowss n ps s1 where st: "current_rate s = Some rate" "views = trip_views k s'"
    "s1 = s\<lparr>db_next := n, db_trips := db_trips s @ ts, db_stops := db_stops s @ concat rowss, db_parts := ps\<rparr>"
    "dispatch_planned W (map t_id ts) s1 = (Inr (), s')" "list_all2 (trip_ok rate) ts rowss"
    "ready_parts k s \<noteq> []" "mset (map s_partId (concat rowss)) = mset (map p_id (ready_parts k s))"
    "map uncosted ps = map uncosted (db_parts s)" "costed (concat rowss) ps"
    by (elim exE conjE) (rule that)
  obtain s2 where s2: "dispatch_planned W (map t_id ts) s1 = (Inr (), s2)" "same_plan s1 s2"
    using dispatch_planned_run by blast
  then have "same_plan s1 s'" using st(4) by simp
  then show ?thesis
    unfolding Inr sum.case
    by - (rule exI [of _ rate], rule exI [of _ ts], rule exI [of _ rowss], use st in \<open>simp add: same_plan_def\<close>)
qed

section \<open>Properties\<close>

text \<open>C25: A delivery plan that is refused leaves the database as it was; one that succeeds puts every part
  that waits in an output zone on exactly one stop of one new trip, numbers the stops of a trip from one
  with the farthest warehouse first, prices the trip at the rate in force over its route with one base fee,
  writes on every part the cost of the leg that fetches it, and changes no order and nothing else of a part.\<close>

theorem delivery_plan:
  assumes "ids_ok s" and "find_order k s = Some ord" and "planForOrder W k truckGroups s = (r, s')"
  shows "case r of Inl e \<Rightarrow> s' = s
    | Inr views \<Rightarrow> \<exists>rate ts rowss. current_rate s = Some rate \<and> views = trip_views k s'
        \<and> map trip_plan (db_trips s') = map trip_plan (db_trips s @ ts)
        \<and> db_stops s' = db_stops s @ concat rowss \<and> list_all2 (trip_ok rate) ts rowss
        \<and> ready_parts k s \<noteq> [] \<and> mset (map s_partId (concat rowss)) = mset (map p_id (ready_parts k s))
        \<and> map uncosted (db_parts s') = map uncosted (db_parts s) \<and> costed (concat rowss) (db_parts s')
        \<and> db_orders s' = db_orders s"
  by (rule delivery_plan_run [OF assms])

definition ex_split_order :: order where
  "ex_split_order = \<lparr>o_id = ''o1'', o_orderNumber = ''ORD-1'', o_buyerAccountId = ''acc'', o_buyerRole = FACTORY,
     o_buyerProfileId = ''b1'', o_provinceId = Some ''dam'', o_status = PREPARING, o_fulfilmentMode = DELIVERY,
     o_consolidate = False, o_consolidationWarehouseId = None, o_acceptPartialFulfilment = False,
     o_allocationRound = 1, o_requestedLines = None, o_goodsTotal = 0, o_deliveryTotal = 0, o_grandTotal = 0,
     o_currency = ''SYP'', o_preparingAt = None, o_deliveredAt = None, o_completedAt = None,
     o_cancelledAt = None, o_cancelReason = None, o_createdAt = 0\<rparr>"

definition ex_yard :: "ident \<Rightarrow> int \<Rightarrow> rat \<Rightarrow> warehouse" where
  "ex_yard i odoo lat = \<lparr>wh_id = i, wh_name = None, wh_odooWarehouseId = Some odoo, wh_provinceId = ''dam'',
     wh_state = ACTIVE, wh_latitude = Some lat, wh_longitude = Some 0\<rparr>"

text \<open>Two parts in two yards, 0.77 apart (1.001 by road), the nearer one 1.001 from the buyer.\<close>

definition ex_delivery_store :: store where
  "ex_delivery_store = ex_store\<lparr>db_orders := [ex_split_order],
     db_parts := [ex_part ''p1'' ''o1'' ''w1'' P_IN_OUTPUT_ZONE, ex_part ''p2'' ''o1'' ''w2'' P_IN_OUTPUT_ZONE],
     db_warehouses := [ex_yard ''w1'' 1 0, ex_yard ''w2'' 2 (77/100)],
     db_distances := [\<lparr>dc_buyerProfileId = ''b1'', dc_warehouseId = ''w1'', dc_distanceKm = 1001/1000, dc_source = GOOGLE\<rparr>,
       \<lparr>dc_buyerProfileId = ''b1'', dc_warehouseId = ''w2'', dc_distanceKm = 2, dc_source = GOOGLE\<rparr>],
     db_rates := [ex_rate\<lparr>dr_ratePerKm := 1001/2\<rparr>]\<rparr>"

lemma ex_delivery_ok: "ids_ok ex_delivery_store"
  by (rule ids_ok_example) (simp_all add: ex_delivery_store_def ex_store_def ex_split_order_def ex_part_def store_ids_def)

lemma ex_delivery_order: "find_order ''o1'' ex_delivery_store = Some ex_split_order"
  by (simp add: find_order_def ex_delivery_store_def ex_split_order_def)

definition ex_ready :: "collectable list" where
  "ex_ready = [\<lparr>cb_part = ex_part ''p1'' ''o1'' ''w1'' P_IN_OUTPUT_ZONE, cb_warehouseId = ''w1'', cb_distanceToBuyerKm = 1001/1000, cb_weightKg = 0\<rparr>,
   \<lparr>cb_part = ex_part ''p2'' ''o1'' ''w2'' P_IN_OUTPUT_ZONE, cb_warehouseId = ''w2'', cb_distanceToBuyerKm = 2, cb_weightKg = 0\<rparr>]"
lemma ex_ready: "collectablesFor ex_split_order ex_delivery_store = ex_ready"
  by (simp add: collectablesFor_def ex_delivery_store_def ex_store_def ex_split_order_def parts_of_def ex_part_def distancesToBuyer_def js_map_def
   FAILED_PART_STATUSES_def partWeights_def or_0_def Let_def ex_ready_def)
lemma ex_groups: "plan_delivery_groups ex_world [[''p1'', ''p2'']] ex_ready s = (Inr [\<lparr>gr_collectables = ex_ready, gr_truck = None\<rparr>], s)"
  by (simp add: plan_delivery_groups_def resolveGroups_def ex_ready_def ex_part_def js_map_def)
lemma ex_stops: "orderStops ex_ready = rev ex_ready"
  by (simp add: orderStops_def ex_ready_def)
lemma ex_legs: "legDistances ex_world (rev ex_ready) ex_delivery_store = [1001/1000,1001/1000]"
  by (simp add: legDistances_def ex_ready_def betweenWarehouses_def ex_delivery_store_def ex_yard_def find_warehouse_def warehouse_point_def ex_world_def
   ROAD_WINDING_FACTOR_def round3_def math_round_def)
lemma ex_rate: "current_rate ex_delivery_store = Some (ex_rate\<lparr>dr_ratePerKm := 1001/2\<rparr>)"
  by (simp add: current_rate_def latest_first_def ex_delivery_store_def ex_rate_def)
lemma ex_live: "live_trips ''o1'' ex_delivery_store = []"
  by (simp add: live_trips_def ex_delivery_store_def ex_store_def)

abbreviation "ex_km_rate \<equiv> ex_rate\<lparr>dr_ratePerKm := 1001/2\<rparr>"
abbreviation "ex_group \<equiv> \<lparr>gr_collectables = ex_ready, gr_truck = None\<rparr>"

definition ex_stop :: "ident \<Rightarrow> ident \<Rightarrow> ident \<Rightarrow> nat \<Rightarrow> rat \<Rightarrow> rat \<Rightarrow> delivery_trip_stop" where
  "ex_stop i p w n km cost = \<lparr>s_id = i, s_tripId = ''u'', s_partId = p, s_warehouseId = w, s_sequence = n,
     s_distanceToBuyerKm = km, s_legDistanceKm = 1001/1000, s_legCost = cost, s_pickedUpAt = None,
     s_pickedUpNote = None\<rparr>"

definition ex_route :: "delivery_trip_stop list" where
  "ex_route = [ex_stop ''uu'' ''p2'' ''w2'' 1 2 (10501001/1000), ex_stop ''uuu'' ''p1'' ''w1'' 2 (1001/1000) (501001/1000)]"


lemma ex_leg_cost: "leg_cost ex_km_rate 0 (1001/1000) = 10501001/1000" "leg_cost ex_km_rate (Suc 0) (1001/1000) = 501001/1000"
  by (simp_all add: leg_cost_def ex_rate_def round3_def math_round_def)

lemma ex_round: "round3 (1001/1000) = 1001/1000" "round3 2 = 2"
  by (simp_all add: round3_def math_round_def)

lemma ex_build:
  "\<exists>s'. buildTrip ex_world ex_split_order ex_km_rate 1 1 ex_group ex_delivery_store = (Inr ''u'', s')
     \<and> map (\<lambda>t. (t_id t, t_odooTruckId t, t_deliveryCost t)) (db_trips s') = [(''u'', None, 11002001/1000)]
     \<and> db_stops s' = ex_route"
proof -
  let ?U = "\<lambda>n. replicate n CHR ''u''"
  have t: "db_trips ex_delivery_store = []" "db_stops ex_delivery_store = []" "db_next ex_delivery_store = 1" "db_uuid ex_delivery_store = ?U"
    by (simp_all add: ex_delivery_store_def ex_store_def)
  have p: "p_id (ex_part i j k l) = i" for i j k l by (simp add: ex_part_def)
  have cost: "t_deliveryCost (new_trip W i ord d k [1001/1000, 1001/1000] ex_km_rate a b c) = 11002001/1000" for W i ord d k a b c
    by (simp add: new_trip_def ex_rate_def round3_def math_round_def)
  have new: "t_id (new_trip W i ord d k ls r a b c) = i" "t_odooTruckId (new_trip W i ord d k ls r a b c) = c" for W i ord d k ls r a b c
    by (simp_all add: new_trip_def Let_def)
  show ?thesis
    by (simp add: buildTrip_def ex_stops ex_legs write_trip_def fresh_id_def bind_def Let_def insert_trip_def t save_trip_def cost new)
      (simp add: ex_ready_def trip_rounds_def upt_rec stop_round_def Let_def bind_def fresh_id_def t save_stop_def update_part_def
         p ex_leg_cost ex_round ex_route_def ex_stop_def cost new)
qed

lemma ex_planned: "\<exists>views s'. planForOrder ex_world ''o1'' [[''p1'',''p2'']] ex_delivery_store = (Inr views, s')
  \<and> db_stops s' = ex_route"
proof -
  obtain s1 where b: "buildTrip ex_world ex_split_order ex_km_rate 1 1 ex_group ex_delivery_store = (Inr ''u'', s1)"
    "map (\<lambda>t. (t_id t, t_odooTruckId t, t_deliveryCost t)) (db_trips s1) = [(''u'', None, 11002001/1000)]"
    "db_stops s1 = ex_route" using ex_build by (elim exE conjE) (rule that)
  obtain t where t: "db_trips s1 = [t]" "t_id t = ''u''" "t_odooTruckId t = None"
    using b(2) unfolding map_eq_Cons_conv by auto
  have all: "build_all (buildTrip ex_world ex_split_order ex_km_rate (length [ex_group])) [ex_group] ex_delivery_store = (Inr [''u''], s1)"
    using b(1) by (simp add: build_all_def bind_def)
  have d: "dispatch_planned ex_world [''u''] s1 = (Inr (), s1)"
    by (simp add: dispatch_planned_def find_trip_def t truck_given_def bind_assoc)
  have "planForOrder ex_world ''o1'' [[''p1'',''p2'']] ex_delivery_store = (Inr (trip_views ''o1'' s1), s1)"
  proof -
    have "o_fulfilmentMode ex_split_order = DELIVERY" "ex_ready \<noteq> []"
      by (simp_all add: ex_split_order_def ex_ready_def)
    then have "planForOrder ex_world ''o1'' [[''p1'',''p2'']] ex_delivery_store =
        bind (plan_delivery_groups ex_world [[''p1'', ''p2'']] ex_ready) (\<lambda>groups. bind currentOrFail (\<lambda>rate.
        bind (transactional (build_all (buildTrip ex_world ex_split_order rate (length groups)) groups)) (\<lambda>tripIds.
        bind (dispatch_planned ex_world tripIds) (\<lambda>_. reads (trip_views ''o1''))))) ex_delivery_store"
      by (simp add: planForOrder_def ex_delivery_order ex_live ex_ready)
    then show ?thesis using all d by (simp only: bind_def ex_groups currentOrFail_def ex_rate transactional_def
      reads_apply ret_apply option.case sum.case prod.case)
  qed
  then show ?thesis using b(3) by blast
qed

theorem delivery_plan_witness:
  "\<exists>views s' ts rowss. planForOrder ex_world ''o1'' [[''p1'', ''p2'']] ex_delivery_store = (Inr views, s')
     \<and> concat rowss = ex_route \<and> list_all2 (trip_ok ex_km_rate) ts rowss
     \<and> costed ex_route (db_parts s') \<and> db_orders s' = [ex_split_order]"
proof -
  obtain views s' where run: "planForOrder ex_world ''o1'' [[''p1'', ''p2'']] ex_delivery_store = (Inr views, s')"
    "db_stops s' = ex_route" using ex_planned by (elim exE conjE) (rule that)
  from delivery_plan [OF ex_delivery_ok ex_delivery_order run(1)] obtain rate ts rowss where plan:
    "current_rate ex_delivery_store = Some rate" "list_all2 (trip_ok rate) ts rowss"
    "db_stops s' = db_stops ex_delivery_store @ concat rowss" "costed (concat rowss) (db_parts s')"
    "db_orders s' = db_orders ex_delivery_store"
    unfolding sum.case by (elim exE conjE) (rule that)
  have "concat rowss = ex_route" using plan(3) run(2) by (simp add: ex_delivery_store_def ex_store_def)
  moreover have "rate = ex_km_rate" using plan(1) ex_rate by simp
  moreover have "db_orders s' = [ex_split_order]" using plan(5) by (simp add: ex_delivery_store_def)
  ultimately show ?thesis using run(1) plan(2,4)
    by - (rule exI [of _ views], rule exI [of _ s'], rule exI [of _ ts], rule exI [of _ rowss], simp)
qed

text \<open>The costs written on the stops of a planned trip, delivery or gathering, reconcile with the cost of
  the trip up to half a thousandth per figure that is rounded, and exactly when the trip has one stop.\<close>

theorem trip_cost_reconciles:
  assumes "ids_ok s" and "gr_collectables grp \<noteq> []"
    and "distinct (map (\<lambda>c. p_id (cb_part c)) (gr_collectables grp))"
    and "buildTrip W ord rate n i grp s = (Inr tripId, s')
      \<or> buildConsolidationTrip W ord dest dists rate n i grp s = (Inr tripId, s')"
  shows "\<exists>t rows. db_trips s' = db_trips s @ [t] \<and> t_id t = tripId \<and> db_stops s' = db_stops s @ rows
    \<and> \<bar>sum_list (map s_legCost rows) - t_deliveryCost t\<bar> \<le> (of_nat (length rows) + 1) / 2000
    \<and> (length rows = 1 \<longrightarrow> sum_list (map s_legCost rows) = t_deliveryCost t)"
proof -
  have none: "costed [] (db_parts s)" by (simp add: costed_def)
  have d: "distinct (map s_partId [] @ map part_of (gr_collectables grp))" using assms(3) by simp
  obtain t rows where "built rate s s' t rows" "t_id t = tripId"
    using assms(4) delivery_builder.builds [OF assms(1,2) none d, of W ord rate n i]
      gathering_builder.builds [OF assms(1,2) none d, of W ord dest dists rate n i] by auto
  then show ?thesis using trip_ok_costs [of rate t rows] by (auto simp: built_def)
qed

lemma ex_group_distinct: "distinct (map (\<lambda>c. p_id (cb_part c)) (gr_collectables ex_group))"
  by (simp add: ex_ready_def ex_part_def)

theorem trip_cost_reconciles_witness:
  "\<exists>s' t rows. buildTrip ex_world ex_split_order ex_km_rate 1 1 ex_group ex_delivery_store = (Inr ''u'', s')
     \<and> db_trips s' = [t] \<and> db_stops s' = rows \<and> length rows = 2
     \<and> \<bar>sum_list (map s_legCost rows) - t_deliveryCost t\<bar> \<le> 3 / 2000"
proof -
  obtain s' where b: "buildTrip ex_world ex_split_order ex_km_rate 1 1 ex_group ex_delivery_store = (Inr ''u'', s')"
    "db_stops s' = ex_route" using ex_build by (elim exE conjE) (rule that)
  have "gr_collectables ex_group \<noteq> []" by (simp add: ex_ready_def)
  from trip_cost_reconciles [OF ex_delivery_ok this ex_group_distinct disjI1 [OF b(1)]]
  obtain t rows where t: "db_trips s' = db_trips ex_delivery_store @ [t]" "db_stops s' = db_stops ex_delivery_store @ rows"
    "\<bar>sum_list (map s_legCost rows) - t_deliveryCost t\<bar> \<le> (of_nat (length rows) + 1) / 2000"
    by (elim exE conjE) (rule that)
  have "db_trips ex_delivery_store = []" "db_stops ex_delivery_store = []"
    by (simp_all add: ex_delivery_store_def ex_store_def)
  with t b have "db_trips s' = [t]" "rows = ex_route" "db_stops s' = rows" by simp_all
  moreover have "length ex_route = 2" by (simp add: ex_route_def)
  ultimately show ?thesis using b(1) t(3) by (intro exI [of _ s'] exI [of _ t] exI [of _ rows]) simp
qed

text \<open>The stops do not always add up: here 10501.001 and 501.001 against a trip of 11002.001.\<close>

lemma leg_costs_not_exact:
  "\<exists>s' t. buildTrip ex_world ex_split_order ex_km_rate 1 1 ex_group ex_delivery_store = (Inr ''u'', s')
     \<and> db_trips s' = [t] \<and> sum_list (map s_legCost (db_stops s')) \<noteq> t_deliveryCost t"
proof -
  obtain s' where b: "buildTrip ex_world ex_split_order ex_km_rate 1 1 ex_group ex_delivery_store = (Inr ''u'', s')"
    "map (\<lambda>t. (t_id t, t_odooTruckId t, t_deliveryCost t)) (db_trips s') = [(''u'', None, 11002001/1000)]"
    "db_stops s' = ex_route" using ex_build by (elim exE conjE) (rule that)
  obtain t where "db_trips s' = [t]" "t_deliveryCost t = 11002001/1000"
    using b(2) unfolding map_eq_Cons_conv by auto
  then show ?thesis using b(1,3) by (simp add: ex_route_def ex_stop_def)
qed

text \<open>A second plan of an order with one trip takes the number of the first, which is unique.\<close>

lemma replan_collides:
  assumes "ids_ok s" and "gr_collectables grp \<noteq> []" and "t \<in> set (db_trips s)"
    and "t_tripNumber t = tripNumber ord 1 1"
  shows "fst (buildTrip W ord rate 1 1 grp s) = Inl Crash"
proof -
  have "orderStops (gr_collectables grp) \<noteq> []" using assms(2) by (simp add: orderStops_def)
  moreover have "\<exists>u \<in> set (db_trips s). t_tripNumber u = tripNumber ord 1 1" using assms(3,4) by blast
  ultimately show ?thesis
    by (simp add: buildTrip_def Let_def write_trip_def fresh_id_def bind_def insert_trip_def list_ex_iff new_trip_def)
qed

end
