(* ===== verification/DeliveryCustody.thy ===== *)
theory DeliveryCustody
  imports DeliveryRun DeliveryFacts
begin

text \<open>
  What the operations of \<open>DeliveryRun\<close> do to a store with unique ids, and the invariant every sequence of
  planning, dispatch, pickup and completion requests keeps: goods are collected in the order of the route
  and a trip is closed with everything on board.
\<close>

section \<open>Effects\<close>

definition arrival :: "world \<Rightarrow> part_status \<Rightarrow> ident list \<Rightarrow> order_part \<Rightarrow> order_part" where
  "arrival W arrived partIds p = (if p_id p \<in> set partIds \<and> canTransitionPart (p_status p) arrived
     then p\<lparr>p_status := arrived, p_deliveredAt := (if arrived = P_DELIVERED then Some (w_now W) else p_deliveredAt p)\<rparr>
     else p)"

lemma arrival_simps [simp]: "p_id (arrival W a is p) = p_id p" "p_orderId (arrival W a is p) = p_orderId p"
  "p_warehouseId (arrival W a is p) = p_warehouseId p"
  by (simp_all add: arrival_def)

lemma no_self_move [simp]: "\<not> canTransitionPart a a"
  by (cases a) (simp_all add: canTransitionPart_def)

lemma arrive_run:
  assumes "distinct (map p_id (db_parts s))"
  shows "arrive W a i s = (Inr (), s\<lparr>db_parts := map (arrival W a [i]) (db_parts s)\<rparr>)"
proof (cases "find_part i s")
  case None
  then have "map (arrival W a [i]) (db_parts s) = db_parts s"
    by (auto simp: find_part_def tbl_find_None_iff arrival_def intro!: map_idI)
  with None show ?thesis by (simp add: arrive_def)
next
  case (Some p)
  then have p: "p \<in> set (db_parts s)" "p_id p = i" using tbl_find_SomeD by (fastforce simp: find_part_def)+
  have only: "q = p" if "q \<in> set (db_parts s)" "p_id q = i" for q
    using the_row [OF assms, of i p q] Some that by (simp add: find_part_def)
  show ?thesis
  proof (cases "canTransitionPart (p_status p) a")
    case True
    define f where "f = (\<lambda>q :: order_part. q\<lparr>p_status := a, p_deliveredAt := (if a = P_DELIVERED then Some (w_now W) else p_deliveredAt q)\<rparr>)"
    have "tbl_save p_id (f p) (db_parts s) = map (\<lambda>q. if p_id q = p_id p then f q else q) (db_parts s)"
      by (rule save_in_place [OF assms p(1)]) (simp add: f_def)
    also have "\<dots> = map (arrival W a [i]) (db_parts s)"
      using only True p(2) by (auto simp: arrival_def f_def)
    finally show ?thesis using Some True by (simp add: arrive_def save_part_def f_def)
  next
    case False
    then have "map (arrival W a [i]) (db_parts s) = db_parts s"
      using only by (auto simp: arrival_def intro!: map_idI)
    with Some False show ?thesis by (simp add: arrive_def)
  qed
qed

lemma arrive_all_run:
  "distinct (map p_id (db_parts s)) \<Longrightarrow>
   for_each is (arrive W a) s = (Inr (), s\<lparr>db_parts := map (arrival W a is) (db_parts s)\<rparr>)"
proof (induction "is" arbitrary: s)
  case Nil
  have "map (arrival W a []) (db_parts s) = db_parts s" by (simp add: arrival_def map_idI)
  then show ?case by simp
next
  case (Cons i ids)
  let ?s1 = "s\<lparr>db_parts := map (arrival W a [i]) (db_parts s)\<rparr>"
  have "map (arrival W a ids) (map (arrival W a [i]) (db_parts s)) = map (arrival W a (i # ids)) (db_parts s)"
    by (auto simp: arrival_def)
  moreover have "for_each ids (arrive W a) ?s1
      = (Inr (), ?s1\<lparr>db_parts := map (arrival W a ids) (db_parts ?s1)\<rparr>)"
    by (rule Cons.IH) (use Cons.prems in \<open>simp add: comp_def\<close>)
  ultimately show ?case using arrive_run [OF Cons.prems, of W a i] by (simp add: bind_def)
qed

text \<open>Trips of a store with unique ids: one row is replaced.\<close>

definition replace_trip :: "delivery_trip \<Rightarrow> store \<Rightarrow> store" where
  "replace_trip t s = s\<lparr>db_trips := tbl_save t_id t (db_trips s)\<rparr>"

definition closed_trip :: "world \<Rightarrow> delivery_trip \<Rightarrow> delivery_trip" where
  "closed_trip W t = t\<lparr>t_status := T_COMPLETED, t_completedAt := Some (w_now W)\<rparr>"

definition unloaded :: "world \<Rightarrow> delivery_trip \<Rightarrow> store \<Rightarrow> store" where
  "unloaded W t s = replace_trip (closed_trip W t) (s\<lparr>db_parts :=
     map (arrival W (if t_isConsolidation t then P_READY_FOR_PICKUP else P_DELIVERED) (map s_partId (stops_of (t_id t) s)))
       (db_parts s)\<rparr>)"

definition may_close :: "delivery_trip \<Rightarrow> store \<Rightarrow> bool" where
  "may_close t s \<longleftrightarrow> t_status t = T_IN_PROGRESS \<and> list_all collected (stops_of (t_id t) s)"

lemma finish_delivery_run:
  "finish_delivery k s =
     (let all_there = (unfailed_parts k s \<noteq> [] \<and> list_all (\<lambda>p. p_status p = P_DELIVERED) (unfailed_parts k s))
      in (Inr all_there, case find_order k s of None \<Rightarrow> s
          | Some ord \<Rightarrow> if all_there \<and> o_status ord \<noteq> DELIVERED
              then snd (save_order (ord\<lparr>o_status := DELIVERED\<rparr>) s) else s))"
  by (auto simp: finish_delivery_def Let_def save_order_def bind_def split: option.split)

lemma ready_loop_run:
  "p_id ` set ps \<subseteq> p_id ` set (db_parts s) \<Longrightarrow> \<exists>qs. map p_id qs = map p_id (db_parts s) \<and> for_each ps (\<lambda>p. if canTransitionPart (p_status p) P_READY_FOR_PICKUP
      then save_part (p\<lparr>p_status := P_READY_FOR_PICKUP\<rparr>) else ret ()) s = (Inr (), s\<lparr>db_parts := qs\<rparr>)"
proof (induction ps arbitrary: s)
  case Nil
  then show ?case by (auto intro: exI [of _ "db_parts s"])
next
  case (Cons p ps)
  let ?p = "p\<lparr>p_status := P_READY_FOR_PICKUP\<rparr>"
  have keys: "map p_id (tbl_save p_id ?p (db_parts s)) = map p_id (db_parts s)"
    using Cons.prems by (simp add: keys_tbl_save)
  then have "p_id ` set (tbl_save p_id ?p (db_parts s)) = p_id ` set (db_parts s)" by (metis set_map)
  with Cons.IH [of s] Cons.IH [of "s\<lparr>db_parts := tbl_save p_id ?p (db_parts s)\<rparr>"] Cons.prems keys
  show ?case by (auto simp: save_part_def)
qed

lemma finish_gathering_run:
  "\<exists>b qs os es. finish_gathering W k s = (Inr b, s\<lparr>db_parts := qs, db_orders := os, db_events := es\<rparr>)
     \<and> map p_id qs = map p_id (db_parts s) \<and> map o_id os = map o_id (db_orders s)"
proof -
  define point where "point = Option.bind (find_order k s) o_consolidationWarehouseId"
  define live where "live = unfailed_parts k s"
  define far where "far = filter (\<lambda>p. Some (p_warehouseId p) \<noteq> point) live"
  define near where "near = filter (\<lambda>p. Some (p_warehouseId p) = point) live"
  let ?loop = "for_each near (\<lambda>p. if canTransitionPart (p_status p) P_READY_FOR_PICKUP
      then save_part (p\<lparr>p_status := P_READY_FOR_PICKUP\<rparr>) else ret ())"
  have "p_id ` set near \<subseteq> p_id ` set (db_parts s)"
    by (auto simp: near_def live_def unfailed_parts_def parts_of_def)
  from ready_loop_run [OF this] obtain qs where loop: "?loop s = (Inr (), s\<lparr>db_parts := qs\<rparr>)"
    and qs: "map p_id qs = map p_id (db_parts s)" by blast
  have step: "finish_gathering W k s = (if \<not> (live \<noteq> [] \<and> list_all (\<lambda>p. p_status p = P_READY_FOR_PICKUP) far)
      then (Inr False, s)
      else bind ?loop (\<lambda>_. bind (case find_order k s of
          Some ord \<Rightarrow> if o_status ord = CONSOLIDATING then save_order (ord\<lparr>o_status := READY_FOR_PICKUP\<rparr>) else ret ()
        | None \<Rightarrow> ret ()) (\<lambda>_. ret True)) s)"
    by (simp add: finish_gathering_def Let_def point_def live_def far_def near_def)
  show ?thesis
  proof (cases "live \<noteq> [] \<and> list_all (\<lambda>p. p_status p = P_READY_FOR_PICKUP) far")
    case False
    then have "finish_gathering W k s = (Inr False, s)" unfolding step by (simp only: not_False_eq_True if_True)
    then show ?thesis
      by - (rule exI [of _ False], rule exI [of _ "db_parts s"], rule exI [of _ "db_orders s"],
          rule exI [of _ "db_events s"], simp)
  next
    case True
    define out where "out = (\<lambda>s'. \<exists>b qs' os es. (Inr True, s') = (Inr b :: err + bool,
      s\<lparr>db_parts := qs', db_orders := os, db_events := es\<rparr>) \<and> map p_id qs' = map p_id (db_parts s) \<and> map o_id os = map o_id (db_orders s))"
    have keep: "out (s\<lparr>db_parts := qs\<rparr>)" unfolding out_def
      by (rule exI [of _ True], rule exI [of _ qs], rule exI [of _ "db_orders s"], rule exI [of _ "db_events s"])
        (simp add: qs)
    have move: "out (snd (save_order (ord\<lparr>o_status := READY_FOR_PICKUP\<rparr>) (s\<lparr>db_parts := qs\<rparr>)))"
      if "find_order k s = Some ord" for ord
    proof -
      have "o_id ord \<in> o_id ` set (db_orders s)" using that by (auto simp: find_order_def dest: tbl_find_SomeD)
      then show ?thesis unfolding save_order_def writes_apply snd_conv out_def
        by - (rule exI [of _ True], rule exI [of _ qs], rule exI, rule exI, rule conjI, simp, simp add: qs keys_tbl_save)
    qed
    have "finish_gathering W k s = (Inr True, case find_order k s of None \<Rightarrow> s\<lparr>db_parts := qs\<rparr>
       | Some ord \<Rightarrow> if o_status ord = CONSOLIDATING
           then snd (save_order (ord\<lparr>o_status := READY_FOR_PICKUP\<rparr>) (s\<lparr>db_parts := qs\<rparr>)) else s\<lparr>db_parts := qs\<rparr>)"
      unfolding step using True by (auto simp: bind_def loop save_order_def split: option.split)
    then show ?thesis using keep move unfolding out_def by (cases "find_order k s") auto
  qed
qed

lemma completeTrip_run:
  assumes "ids_ok s" and "find_trip k s = Some t"
  shows "completeTrip W k s = (if may_close t s
    then (if t_isConsolidation t then finish_gathering W (t_orderId t) else finish_delivery (t_orderId t)) (unloaded W t s)
    else (Inl Conflict, s))"
proof -
  have k: "t_id t = k" using assms(2) tbl_find_SomeD by (fastforce simp: find_trip_def)
  have close: "canTransitionTrip st T_COMPLETED \<longleftrightarrow> st = T_IN_PROGRESS" for st
    by (cases st) (simp_all add: canTransitionTrip_def)
  have d: "distinct (map p_id (db_parts s))" using assms(1) by (simp add: ids_ok_def)
  have roll: "transactional m x = m x" if "\<exists>b. fst (m x) = Inr b" for m :: "bool action" and x
    using that by (cases "m x") (auto simp: transactional_def)
  let ?a = "if t_isConsolidation t then P_READY_FOR_PICKUP else P_DELIVERED"
  let ?fin = "if t_isConsolidation t then finish_gathering W (t_orderId t) else finish_delivery (t_orderId t)"
  let ?body = "bind (tripOrThrow k) (\<lambda>trip.
     bind (refuse_if (\<not> canTransitionTrip (t_status trip) T_COMPLETED) Conflict) (\<lambda>_.
     bind (reads (stops_of k)) (\<lambda>stops.
     bind (refuse_if (list_ex (\<lambda>x. \<not> collected x) stops) Conflict) (\<lambda>_.
     bind (for_each (map s_partId stops)
       (arrive W (if t_isConsolidation trip then P_READY_FOR_PICKUP else P_DELIVERED))) (\<lambda>_.
     bind (save_trip (trip\<lparr>t_status := T_COMPLETED, t_completedAt := Some (w_now W)\<rparr>)) (\<lambda>_.
     if t_isConsolidation trip then finish_gathering W (t_orderId trip)
     else finish_delivery (t_orderId trip)))))))"
  have trip: "tripOrThrow k s = (Inr t, s)" using assms(2) by (simp add: tripOrThrow_def)
  show ?thesis
  proof (cases "may_close t s")
    case True
    then have "?body s = ?fin (unloaded W t s)"
      using trip k by (simp add: bind_def may_close_def close list_ex_iff list_all_iff arrive_all_run [OF d]
          save_trip_def unloaded_def replace_trip_def closed_trip_def)
    moreover have "\<exists>b. fst (?fin (unloaded W t s)) = Inr b"
      using finish_gathering_run [of W "t_orderId t" "unloaded W t s"] by (auto simp: finish_delivery_run Let_def)
    ultimately show ?thesis using True roll [of ?body s] by (simp add: completeTrip_def)
  next
    case False
    then have "?body s = (Inl Conflict, s)"
      using trip k by (auto simp: bind_def may_close_def close list_ex_iff list_all_iff)
    with False show ?thesis by (simp add: completeTrip_def transactional_def)
  qed
qed

section \<open>A pickup\<close>

definition picked :: "world \<Rightarrow> string option \<Rightarrow> delivery_trip_stop \<Rightarrow> delivery_trip_stop" where
  "picked W note x = x\<lparr>s_pickedUpAt := Some (w_now W), s_pickedUpNote := note\<rparr>"

definition started_trip :: "world \<Rightarrow> delivery_trip \<Rightarrow> delivery_trip" where
  "started_trip W t = (if t_status t = T_ASSIGNED then t\<lparr>t_status := T_IN_PROGRESS, t_startedAt := Some (w_now W)\<rparr> else t)"

text \<open>Whether a stop is the one to be collected now.\<close>

definition may_pick :: "delivery_trip \<Rightarrow> delivery_trip_stop \<Rightarrow> store \<Rightarrow> bool" where
  "may_pick t x s \<longleftrightarrow> (t_status t = T_ASSIGNED \<or> t_status t = T_IN_PROGRESS) \<and> \<not> collected x
     \<and> list_all (\<lambda>y. s_sequence y < s_sequence x \<longrightarrow> collected y) (stops_of (t_id t) s)
     \<and> (case find_part (s_partId x) s of None \<Rightarrow> True | Some p \<Rightarrow> canTransitionPart (p_status p) P_DISPATCHED)"

definition loaded :: "world \<Rightarrow> delivery_trip_stop \<Rightarrow> store \<Rightarrow> order_part list" where
  "loaded W x s = (case find_part (s_partId x) s of None \<Rightarrow> db_parts s
     | Some p \<Rightarrow> tbl_save p_id (p\<lparr>p_status := P_DISPATCHED, p_dispatchedAt := Some (w_now W)\<rparr>) (db_parts s))"

definition after_pickup :: "world \<Rightarrow> string option \<Rightarrow> delivery_trip \<Rightarrow> delivery_trip_stop \<Rightarrow> store \<Rightarrow> store" where
  "after_pickup W note t x s = s\<lparr>db_stops := tbl_save s_id (picked W note x) (db_stops s), db_parts := loaded W x s,
     db_trips := (if t_status t = T_ASSIGNED then tbl_save t_id (started_trip W t) (db_trips s) else db_trips s)\<rparr>"

lemma find_route:
  assumes "distinct (map s_id (db_stops s))"
  shows "find (\<lambda>x. s_id x = i) (route_of k s) = Some x \<longleftrightarrow> x \<in> set (stops_of k s) \<and> s_id x = i"
proof -
  have "distinct (map s_id (stops_of k s))"
    using assms by (simp add: stops_of_def distinct_map_filter)
  then have "distinct (map s_id (route_of k s))"
    unfolding route_of_def by (metis distinct_map distinct_sort set_sort)
  from found_row [OF this, of i x] show ?thesis
    by (simp add: tbl_find_def route_of_def)
qed

lemma confirmPickup_run:
  assumes "ids_ok s" and "find_trip k s = Some t" and x: "x \<in> set (stops_of k s)" "s_id x = i"
  shows "if may_pick t x s
    then \<exists>n. confirmPickup W k i note s = (Inr n, after_pickup W note t x s)
    else confirmPickup W k i note s = (Inl Conflict, s)"
proof -
  have k: "t_id t = k" using assms(2) tbl_find_SomeD by (fastforce simp: find_trip_def)
  have trip: "tripOrThrow k s = (Inr t, s)" using assms(2) by (simp add: tripOrThrow_def)
  have found: "find (\<lambda>y. s_id y = i) (route_of k s) = Some x"
    using find_route [of s i k x] assms(1) x by (simp add: ids_ok_def)
  have route: "set (route_of k s) = set (stops_of k s)" by (simp add: route_of_def)
  have part: "find_part j (s\<lparr>db_stops := ss\<rparr>) = find_part j s" for j ss by (simp add: find_part_def)
  show ?thesis
  proof (cases "may_pick t x s")
    case True
    have earlier: "\<not> list_ex (\<lambda>y. s_sequence y < s_sequence x \<and> \<not> collected y) (stops_of k s)"
      using True k by (auto simp: may_pick_def list_ex_iff list_all_iff)
    show ?thesis
      using True trip found x(2) earlier
      by (auto simp: confirmPickup_def transactional_def bind_def route list_ex_iff may_pick_def save_stop_def hand_over_def part
          save_part_def save_trip_def after_pickup_def picked_def loaded_def started_trip_def split: option.split)
  next
    case False
    then show ?thesis
      using trip found x(2) k
      by (auto simp: confirmPickup_def transactional_def bind_def route may_pick_def save_stop_def hand_over_def part
          list_ex_iff list_all_iff split: option.splits)
  qed
qed

lemma confirmPickup_unknown:
  assumes "ids_ok s" and "\<And>t x. find_trip k s = Some t \<Longrightarrow> x \<in> set (stops_of k s) \<Longrightarrow> s_id x \<noteq> i"
  shows "\<exists>e. confirmPickup W k i note s = (Inl e, s)"
proof (cases "find_trip k s")
  case None
  then show ?thesis by (simp add: confirmPickup_def transactional_def tripOrThrow_def bind_def)
next
  case (Some t)
  then have "find (\<lambda>x. s_id x = i) (route_of k s) \<noteq> Some x" for x
    using find_route [of s i k x] assms by (auto simp: ids_ok_def)
  then have "find (\<lambda>x. s_id x = i) (route_of k s) = None" by (cases "find (\<lambda>x. s_id x = i) (route_of k s)") auto
  with Some show ?thesis by (simp add: confirmPickup_def transactional_def tripOrThrow_def bind_def)
qed

section \<open>Custody\<close>

text \<open>
  The stops of a trip are collected in the order of the route; nothing is collected before the trip has
  started and everything is before it is closed.  Every stop belongs to a trip.
\<close>

definition trip_fine :: "delivery_trip_stop list \<Rightarrow> delivery_trip \<Rightarrow> bool" where
  "trip_fine rows t \<longleftrightarrow> (let stops = filter (\<lambda>x. s_tripId x = t_id t) rows in
     (\<forall>x \<in> set stops. \<forall>y \<in> set stops. s_sequence x < s_sequence y \<longrightarrow> collected y \<longrightarrow> collected x)
     \<and> (t_status t = T_PLANNED \<or> t_status t = T_ASSIGNED \<longrightarrow> \<not> list_ex collected stops)
     \<and> (t_status t = T_IN_PROGRESS \<longrightarrow> list_ex collected stops)
     \<and> (t_status t = T_COMPLETED \<longrightarrow> list_all collected stops)
     \<and> (t_startedAt t \<noteq> None \<longleftrightarrow> list_ex collected stops)
     \<and> (t_completedAt t \<noteq> None \<longleftrightarrow> t_status t = T_COMPLETED))"

definition custody_ok :: "store \<Rightarrow> bool" where
  "custody_ok s \<longleftrightarrow> list_all (trip_fine (db_stops s)) (db_trips s)
     \<and> list_all (\<lambda>x. s_tripId x \<in> t_id ` set (db_trips s)) (db_stops s)"

lemma custody_cong: "db_trips s' = db_trips s \<Longrightarrow> db_stops s' = db_stops s \<Longrightarrow> custody_ok s \<Longrightarrow> custody_ok s'"
  by (simp add: custody_ok_def)

lemma save_trip_rows:
  assumes "ids_ok s" and "find_trip k s = Some t" and "t_id t' = k"
  shows "tbl_save t_id t' (db_trips s) = map (\<lambda>y. if t_id y = k then t' else y) (db_trips s)"
    and "map t_id (tbl_save t_id t' (db_trips s)) = map t_id (db_trips s)"
proof -
  have t: "t \<in> set (db_trips s)" "t_id t = k" using assms(2) tbl_find_SomeD by (fastforce simp: find_trip_def)+
  have d: "distinct (map t_id (db_trips s))" using assms(1) by (simp add: ids_ok_def)
  then show "tbl_save t_id t' (db_trips s) = map (\<lambda>y. if t_id y = k then t' else y) (db_trips s)"
    using tbl_save_map [OF d, of t'] t assms(3) by force
  then show "map t_id (tbl_save t_id t' (db_trips s)) = map t_id (db_trips s)"
    using assms(3) by simp
qed

lemma custody_replace:
  assumes "ids_ok s" and "custody_ok s" and "find_trip k s = Some t" and "t_id t' = k"
    and "trip_fine (db_stops s) t'"
  shows "custody_ok (s\<lparr>db_trips := tbl_save t_id t' (db_trips s)\<rparr>)"
proof -
  note rows = save_trip_rows [OF assms(1,3,4)]
  have "t_id ` set (tbl_save t_id t' (db_trips s)) = t_id ` set (db_trips s)"
    using arg_cong [OF rows(2), of set] by simp
  moreover have "list_all (trip_fine (db_stops s)) (tbl_save t_id t' (db_trips s))"
    using assms(2,5) by (auto simp: rows(1) custody_ok_def list_all_iff)
  ultimately show ?thesis using assms(2) by (simp add: custody_ok_def)
qed

lemma custody_trip: "custody_ok s \<Longrightarrow> find_trip k s = Some t \<Longrightarrow> trip_fine (db_stops s) t \<and> t_id t = k"
  using tbl_find_SomeD by (fastforce simp: custody_ok_def find_trip_def list_all_iff)

text \<open>A pickup in route order keeps the prefix collected.\<close>

lemma custody_pickup:
  assumes "ids_ok s" and "custody_ok s" and "find_trip k s = Some t" and "x \<in> set (stops_of k s)"
    and may: "may_pick t x s"
  shows "custody_ok (after_pickup W note t x s)"
proof -
  note t = custody_trip [OF assms(2,3)]
  have d: "distinct (map s_id (db_stops s))" using assms(1) by (simp add: ids_ok_def)
  have x: "x \<in> set (db_stops s)" "s_tripId x = k" using assms(4) by (simp_all add: stops_of_def)
  define f where "f = (\<lambda>y. if s_id y = s_id x then picked W note y else y)"
  have rows: "tbl_save s_id (picked W note x) (db_stops s) = map f (db_stops s)"
    unfolding f_def by (rule save_in_place [OF d x(1)]) (simp add: picked_def)
  have f: "s_tripId (f y) = s_tripId y" "s_sequence (f y) = s_sequence y" for y by (simp_all add: f_def picked_def)
  have only: "y = x" if "y \<in> set (db_stops s)" "s_id y = s_id x" for y
    using d that x(1) by (auto simp: distinct_map inj_on_def)
  have cf: "collected (f y) \<longleftrightarrow> collected y \<or> y = x" if "y \<in> set (db_stops s)" for y
    using only [OF that] by (auto simp: f_def picked_def collected_def)
  have stops: "filter (\<lambda>y. s_tripId y = j) (map f (db_stops s)) = map f (filter (\<lambda>y. s_tripId y = j) (db_stops s))" for j
    by (simp add: filter_map comp_def f(1))
  have other: "trip_fine (map f (db_stops s)) u" if u: "u \<in> set (db_trips s)" "t_id u \<noteq> k" for u
  proof -
    have "map f (filter (\<lambda>y. s_tripId y = t_id u) (db_stops s)) = filter (\<lambda>y. s_tripId y = t_id u) (db_stops s)"
      using only x(2) u(2) by (intro map_idI) (auto simp: f_def dest!: only)
    then show ?thesis using assms(2) u(1) by (simp add: trip_fine_def Let_def stops custody_ok_def list_all_iff)
  qed
  have mine: "trip_fine (map f (db_stops s)) (started_trip W t)"
  proof -
    have e: "t_id (started_trip W t) = k" using t by (simp add: started_trip_def)
    have live: "t_status t = T_ASSIGNED \<or> t_status t = T_IN_PROGRESS" using may by (simp add: may_pick_def)
    have some: "list_ex collected (map f (stops_of k s))"
      using assms(4) cf [OF x(1)] by (auto simp: list_ex_iff)
    have order: "collected (f a)" if "a \<in> set (stops_of k s)" "b \<in> set (stops_of k s)" "s_sequence a < s_sequence b"
        "collected (f b)" for a b
    proof -
      have ab: "a \<in> set (db_stops s)" "b \<in> set (db_stops s)" using that by (simp_all add: stops_of_def)
      have "collected b \<or> b = x" using cf [OF ab(2)] that(4) by simp
      then have "collected a"
        using that t may by (auto simp: trip_fine_def Let_def stops_of_def may_pick_def list_all_iff)
      then show ?thesis using cf [OF ab(1)] by simp
    qed
    show ?thesis
      using live some order t
      by (auto simp: trip_fine_def Let_def e stops f started_trip_def simp flip: stops_of_def)
  qed
  note trips = save_trip_rows [OF assms(1,3), of "started_trip W t"]
  have e: "t_id (started_trip W t) = k" using t by (simp add: started_trip_def)
  have same: "db_trips (after_pickup W note t x s) = map (\<lambda>y. if t_id y = k then started_trip W t else y) (db_trips s)"
  proof (cases "t_status t = T_ASSIGNED")
    case False
    have dt: "distinct (map t_id (db_trips s))" using assms(1) by (simp add: ids_ok_def)
    have "(if t_id y = k then started_trip W t else y) = y" if "y \<in> set (db_trips s)" for y
      using the_row [OF dt, of k t y] assms(3) that False by (auto simp: find_trip_def started_trip_def)
    then have "map (\<lambda>y. if t_id y = k then started_trip W t else y) (db_trips s) = db_trips s"
      by (intro map_idI)
    then show ?thesis using False by (simp add: after_pickup_def)
  qed (simp add: after_pickup_def trips(1) [OF e])
  have "map t_id (db_trips (after_pickup W note t x s)) = map t_id (db_trips s)" by (simp add: same e)
  then have "t_id ` set (db_trips (after_pickup W note t x s)) = t_id ` set (db_trips s)" by (metis set_map)
  moreover have "db_stops (after_pickup W note t x s) = map f (db_stops s)" by (simp add: after_pickup_def rows)
  ultimately show ?thesis
    using assms(2) mine other by (auto simp: custody_ok_def same list_all_iff f(1))
qed

section \<open>Every request keeps custody\<close>

definition custody :: "store \<Rightarrow> bool" where
  "custody s \<longleftrightarrow> ids_ok s \<and> custody_ok s"

lemma custody_ids [simp]: "custody s \<Longrightarrow> ids_ok s"
  by (simp add: custody_def)

lemma custody_frame:
  assumes "custody s" and "db_trips s' = db_trips s" and "db_stops s' = db_stops s" and "ids_ok s'"
  shows "custody s'"
  using assms custody_cong [of s' s] by (simp add: custody_def)

lemma custody_save_trip:
  assumes "custody s" and "find_trip k s = Some t" and "t_id t' = k" and "trip_fine (db_stops s) t'"
  shows "custody (s\<lparr>db_trips := tbl_save t_id t' (db_trips s)\<rparr>)"
proof -
  have ids: "ids_ok s" and ok: "custody_ok s" using assms(1) by (simp_all add: custody_def)
  have "ids_ok (s\<lparr>db_trips := tbl_save t_id t' (db_trips s)\<rparr>)"
    using save_trip_rows(2) [OF ids assms(2,3)] by (intro ids_ok_same [OF ids]) simp_all
  then show ?thesis using custody_replace [OF ids ok assms(2-4)] by (simp add: custody_def)
qed

lemma custody_jobs:
  assumes "custody s"
  shows "custody (s\<lparr>db_jobs := js\<rparr>)"
  by (rule custody_frame [OF assms]) (simp_all add: ids_ok_same [OF custody_ids [OF assms]])

lemma custody_save_order:
  assumes "custody s" and "find_order k s = Some ord" and "o_id ord' = o_id ord"
  shows "custody (snd (save_order ord' s))"
proof -
  have "o_id ord' \<in> o_id ` set (db_orders s)"
    using assms(2,3) by (auto simp: find_order_def dest: tbl_find_SomeD)
  then have "map o_id (tbl_save o_id ord' (db_orders s)) = map o_id (db_orders s)"
    by (simp add: keys_tbl_save)
  then have "ids_ok (snd (save_order ord' s))"
    unfolding save_order_def writes_apply snd_conv
    by (intro ids_ok_same [OF custody_ids [OF assms(1)]]) simp_all
  then show ?thesis
    by (intro custody_frame [OF assms(1)]) (simp_all add: save_order_def)
qed

text \<open>A trip that has not started may be given a driver.\<close>

lemma assigned_fine:
  assumes "trip_fine rows t" and "t_status t = T_PLANNED \<or> t_status t = T_ASSIGNED"
    and "t_id t' = t_id t" "t_status t' = T_ASSIGNED" "t_startedAt t' = t_startedAt t" "t_completedAt t' = t_completedAt t"
  shows "trip_fine rows t'"
  using assms by (auto simp: trip_fine_def Let_def)

lemma keeps_assign: "keeps custody (assign k a)"
proof -
  have "custody (snd (assign k a s))" if s: "custody s" for s
  proof (cases "find_trip k s")
    case None
    then show ?thesis using s by (simp add: assign_def tripOrThrow_def bind_def)
  next
    case (Some t)
    then have t: "trip_fine (db_stops s) t" "t_id t = k"
      using custody_trip s by (auto simp: custody_def)
    define t' where "t' = t\<lparr>t_odooTruckId := Some (as_odooTruckId a), t_odooDriverId := Some (as_odooDriverId a),
       t_driverName := as_driverName a, t_driverPhone := as_driverPhone a, t_status := T_ASSIGNED\<rparr>"
    have run: "assign k a s = (if canTransitionTrip (t_status t) T_ASSIGNED
        then (Inr (), s\<lparr>db_trips := tbl_save t_id t' (db_trips s)\<rparr>) else (Inl Conflict, s))"
      using Some by (simp add: assign_def tripOrThrow_def bind_def assertTransition_def save_trip_def t'_def)
    have "custody (s\<lparr>db_trips := tbl_save t_id t' (db_trips s)\<rparr>)" if "canTransitionTrip (t_status t) T_ASSIGNED"
    proof (rule custody_save_trip [OF s Some])
      show "t_id t' = k" by (simp add: t'_def t(2))
      have "t_status t = T_PLANNED" using that by (cases "t_status t") (simp_all add: canTransitionTrip_def)
      then show "trip_fine (db_stops s) t'" by (intro assigned_fine [OF t(1)]) (simp_all add: t'_def)
    qed
    then show ?thesis using s by (simp add: run)
  qed
  then show ?thesis by (simp add: keeps_def)
qed

lemma keeps_dispatch: "keeps custody (dispatchTrip W k)"
proof -
  have "custody (snd (dispatchTrip W k s))" if s: "custody s" for s
  proof (cases "find_trip k s")
    case None
    then show ?thesis using s by (simp add: dispatchTrip_def)
  next
    case (Some t)
    then have t: "trip_fine (db_stops s) t" "t_id t = k"
      using custody_trip s by (auto simp: custody_def)
    have queue: "\<exists>js. snd (bind (enqueuePushDeliveryTrip p) (\<lambda>_. ret True) x) = x\<lparr>db_jobs := js\<rparr>" for p x
      by (auto simp: enqueuePushDeliveryTrip_def enqueue_def intro: exI [of _ "db_jobs x"])
    have keep: "custody (snd (bind (enqueuePushDeliveryTrip p) (\<lambda>_. ret True) (s\<lparr>db_trips := tbl_save t_id t' (db_trips s)\<rparr>)))"
      if "t_id t' = k" "trip_fine (db_stops s) t'" for p t'
      using queue [of p "s\<lparr>db_trips := tbl_save t_id t' (db_trips s)\<rparr>"]
        custody_jobs [OF custody_save_trip [OF s Some that]] by auto
    show ?thesis
      using Some s t by (auto simp: dispatchTrip_def Let_def save_trip_def assertTransition_def
          split: option.split intro!: keep intro: assigned_fine [OF t(1)])
  qed
  then show ?thesis by (simp add: keeps_def)
qed

lemma keeps_dispatch_planned: "keeps custody (dispatch_planned W ids)"
  unfolding dispatch_planned_def by (intro keeps_rules keeps_dispatch)

lemma keeps_pickup: "keeps custody (confirmPickup W k i nt)"
proof -
  have "custody (snd (confirmPickup W k i nt s))" if s: "custody s" for s
  proof (cases "\<exists>t x. find_trip k s = Some t \<and> x \<in> set (stops_of k s) \<and> s_id x = i")
    case False
    then have "\<exists>e. confirmPickup W k i nt s = (Inl e, s)"
      by (intro confirmPickup_unknown) (use s in auto)
    then show ?thesis using s by auto
  next
    case True
    then obtain t x where tx: "find_trip k s = Some t" "x \<in> set (stops_of k s)" "s_id x = i" by blast
    note run = confirmPickup_run [OF custody_ids [OF s] tx, of W nt]
    show ?thesis
    proof (cases "may_pick t x s")
      case False
      then show ?thesis using run s by simp
    next
      case may: True
      have ok: "custody_ok (after_pickup W nt t x s)"
        using custody_pickup [OF _ _ tx(1,2) may] s by (simp add: custody_def)
      have t: "t_id (started_trip W t) = k"
        using tx(1) tbl_find_SomeD by (fastforce simp: find_trip_def started_trip_def)
      have x: "s_id x \<in> s_id ` set (db_stops s)" using tx(2) by (auto simp: stops_of_def)
      have "map p_id (loaded W x s) = map p_id (db_parts s)"
        by (auto simp: loaded_def find_part_def keys_tbl_save dest: tbl_find_SomeD split: option.split)
      then have "ids_ok (after_pickup W nt t x s)"
        using save_trip_rows(2) [OF custody_ids [OF s] tx(1) t] x unfolding after_pickup_def
        by (intro ids_ok_same [OF custody_ids [OF s]]) (simp_all add: keys_tbl_save picked_def)
      then show ?thesis using ok run may by (auto simp: custody_def)
    qed
  qed
  then show ?thesis by (simp add: keeps_def)
qed

lemma custody_unloaded:
  assumes "custody s" and "find_trip k s = Some t" and "may_close t s"
  shows "custody (unloaded W t s)"
proof -
  have t: "trip_fine (db_stops s) t" "t_id t = k"
    using custody_trip assms(1,2) by (auto simp: custody_def)
  have fine: "trip_fine (db_stops s) (closed_trip W t)"
    using t(1) assms(3) unfolding trip_fine_def Let_def may_close_def closed_trip_def stops_of_def by simp
  have first: "custody (s\<lparr>db_trips := tbl_save t_id (closed_trip W t) (db_trips s)\<rparr>)"
    by (rule custody_save_trip [OF assms(1,2) _ fine]) (simp add: closed_trip_def t(2))
  have "ids_ok (unloaded W t s)"
    using first by (intro ids_ok_same [OF custody_ids [OF first]]) (simp_all add: unloaded_def replace_trip_def comp_def)
  then show ?thesis
    by (intro custody_frame [OF first]) (simp_all add: unloaded_def replace_trip_def)
qed

lemma keeps_complete: "keeps custody (completeTrip W k)"
proof -
  have "custody (snd (completeTrip W k s))" if s: "custody s" for s
  proof (cases "find_trip k s")
    case None
    then have "completeTrip W k s = (Inl NotFound, s)"
      by (simp add: completeTrip_def transactional_def tripOrThrow_def bind_def)
    then show ?thesis using s by simp
  next
    case (Some t)
    note run = completeTrip_run [OF custody_ids [OF s] Some, of W]
    show ?thesis
    proof (cases "may_close t s")
      case False
      then show ?thesis using run s by simp
    next
      case True
      let ?s1 = "unloaded W t s" and ?k = "t_orderId t"
      have s1: "custody ?s1" by (rule custody_unloaded [OF s Some True])
      have d: "custody (snd (finish_delivery ?k ?s1))"
        using s1 custody_save_order [OF s1] by (auto simp: finish_delivery_run Let_def split: option.split)
      obtain b qs os es where g: "finish_gathering W ?k ?s1 = (Inr b, ?s1\<lparr>db_parts := qs, db_orders := os, db_events := es\<rparr>)"
        "map p_id qs = map p_id (db_parts ?s1)" "map o_id os = map o_id (db_orders ?s1)"
        using finish_gathering_run [of W ?k ?s1] by (elim exE conjE) (rule that)
      have "custody (?s1\<lparr>db_parts := qs, db_orders := os, db_events := es\<rparr>)"
        by (rule custody_frame [OF s1]) (use g(2,3) in \<open>auto intro: ids_ok_same [OF custody_ids [OF s1]]\<close>)
      with d g(1) True show ?thesis by (simp add: run)
    qed
  qed
  then show ?thesis by (simp add: keeps_def)
qed

section \<open>Planning keeps custody\<close>

lemma custody_grown:
  assumes s: "custody s" and ok: "list_all2 (trip_ok rate) ts rowss"
    and s1: "s1 = s\<lparr>db_next := n, db_trips := db_trips s @ ts, db_stops := db_stops s @ concat rowss, db_parts := ps\<rparr>"
    and ids: "ids_ok s1"
  shows "custody s1"
proof -
  have d: "distinct (map t_id (db_trips s @ ts))" using ids by (simp add: s1 ids_ok_def)
  have row: "\<exists>t \<in> set ts. s_tripId x = t_id t" "\<not> collected x" if x: "x \<in> set (concat rowss)" for x
  proof -
    from x obtain rows where "rows \<in> set rowss" "x \<in> set rows" by auto
    then obtain i where i: "i < length rowss" "x \<in> set (rowss ! i)" unfolding in_set_conv_nth [of rows] by blast
    then have "trip_ok rate (ts ! i) (rowss ! i)" "i < length ts"
      using ok by (auto simp: list_all2_conv_all_nth)
    then show "\<exists>t \<in> set ts. s_tripId x = t_id t" "\<not> collected x"
      using i(2) by (auto simp: trip_ok_def list_all_iff collected_def intro: nth_mem)
  qed
  have old: "s_tripId x \<in> t_id ` set (db_trips s)" if "x \<in> set (db_stops s)" for x
    using s that by (auto simp: custody_def custody_ok_def list_all_iff)
  have "trip_fine (db_stops s @ concat rowss) t" if t: "t \<in> set (db_trips s)" for t
  proof -
    have "s_tripId x \<noteq> t_id t" if "x \<in> set (concat rowss)" for x
      using row(1) [OF that] d t by (auto simp: image_iff)
    then have "filter (\<lambda>x. s_tripId x = t_id t) (concat rowss) = []" by (auto simp: filter_empty_conv)
    then show ?thesis using s t by (simp add: trip_fine_def custody_def custody_ok_def list_all_iff)
  qed
  moreover have "trip_fine (db_stops s @ concat rowss) t" if t: "t \<in> set ts" for t
  proof -
    have "s_tripId x \<noteq> t_id t" if "x \<in> set (db_stops s)" for x
      using old [OF that] d t by (auto simp: image_iff)
    then have "filter (\<lambda>x. s_tripId x = t_id t) (db_stops s) = []" by (auto simp: filter_empty_conv)
    moreover have "t_status t = T_PLANNED \<and> t_startedAt t = None \<and> t_completedAt t = None"
      using ok t by (auto simp: list_all2_conv_all_nth in_set_conv_nth trip_ok_def)
    ultimately show ?thesis using row(2) by (auto simp: trip_fine_def Let_def list_ex_iff)
  qed
  moreover have "s_tripId x \<in> t_id ` set (db_trips s @ ts)" if "x \<in> set (db_stops s @ concat rowss)" for x
    using that old [of x] row(1) [of x] by (auto simp: image_Un)
  ultimately show ?thesis using ids by (auto simp: custody_def custody_ok_def s1 list_all_iff)
qed

lemma keeps_plan: "keeps custody (planForOrder W k gs)"
proof -
  have "custody (snd (planForOrder W k gs s))" if s: "custody s" for s
  proof (cases "find_order k s")
    case None
    then show ?thesis using s by (simp add: planForOrder_def)
  next
    case (Some ord)
    obtain r s' where run: "planForOrder W k gs s = (r, s')" by (cases "planForOrder W k gs s")
    note st = delivery_plan_stages [OF custody_ids [OF s] Some run]
    show ?thesis
    proof (cases r)
      case (Inl e)
      then show ?thesis using st s run by simp
    next
      case (Inr views)
      from st [unfolded Inr sum.case] obtain rate ts rowss n ps s1 where
        s1: "s1 = s\<lparr>db_next := n, db_trips := db_trips s @ ts, db_stops := db_stops s @ concat rowss, db_parts := ps\<rparr>"
        "ids_ok s1" and d: "dispatch_planned W (map t_id ts) s1 = (Inr (), s')" and ok: "list_all2 (trip_ok rate) ts rowss"
        by (elim exE conjE) (rule that)
      have "custody s1" by (rule custody_grown [OF s ok s1])
      then show ?thesis using keeps_dispatch_planned d run by (auto dest: keepsD)
    qed
  qed
  then show ?thesis by (simp add: keeps_def)
qed

lemma keeps_start_consolidating: "keeps custody (start_consolidating k)"
proof -
  have "custody (snd (start_consolidating k s))" if s: "custody s" for s
    using s custody_save_order [OF s, of k] by (auto simp: start_consolidating_def split: option.split)
  then show ?thesis by (simp add: keeps_def)
qed

text \<open>The transaction of a gathering: the trips of the far parts and the status of the order.\<close>

lemma gathering_built:
  assumes s: "custody s" and sh: "shares cs (map gr_collectables groups)" and d: "distinct (map part_of cs)"
  shows "custody (snd (transactional (bind (build_all (buildConsolidationTrip W ord dest dists rate n) groups)
      (\<lambda>ids. bind (start_consolidating k) (\<lambda>_. ret ids))) s))"
proof -
  let ?build = "build_all (buildConsolidationTrip W ord dest dists rate n) groups"
  from trips_of_groups [OF custody_ids [OF s] sh d gathering_builder.trip_builder_axioms, of W ord dest dists rate n]
  show ?thesis
  proof (elim disjE exE conjE)
    fix s1 assume "?build s = (Inl Crash, s1)" "db_events s1 = db_events s"
    then show ?thesis using s by (simp add: transactional_def bind_def)
  next
    fix ts rowss m ps s1
    assume b: "?build s = (Inr (map t_id ts), s1)"
      and s1: "s1 = s\<lparr>db_next := m, db_trips := db_trips s @ ts, db_stops := db_stops s @ concat rowss, db_parts := ps\<rparr>" "ids_ok s1"
      and ok: "list_all2 (trip_ok rate) ts rowss"
    have "\<exists>s2. start_consolidating k s1 = (Inr (), s2)"
      by (cases "find_order k s1") (simp_all add: start_consolidating_def save_order_def)
    then obtain s2 where s2: "start_consolidating k s1 = (Inr (), s2)" by blast
    have "custody s2"
      using keepsD [OF keeps_start_consolidating custody_grown [OF s ok s1] s2] .
    then show ?thesis by (simp add: transactional_def bind_def b s2)
  qed
qed

lemma bind_saved_order: "bind (save_order ord) f s = f () (snd (save_order ord s))"
  by (simp add: save_order_def)

lemma collectables_far_distinct:
  "ids_ok s \<Longrightarrow> distinct (map part_of (filter P (collectablesFor ord s)))"
  by (simp add: collectables_distinct distinct_map_filter)

lemma keeps_gather: "keeps custody (planConsolidationForOrder W k)"
proof -
  have "custody (snd (planConsolidationForOrder W k s))" if s: "custody s" for s
  proof (cases "find_order k s")
    case None
    then show ?thesis using s by (simp add: planConsolidationForOrder_def)
  next
    case (Some ord)
    define cs where "cs = collectablesFor ord s"
    define dest where "dest = cb_warehouseId (consolidation_point cs)"
    define far where "far = filter (\<lambda>c. cb_warehouseId c \<noteq> dest) cs"
    define ord' where "ord' = ord\<lparr>o_consolidationWarehouseId := Some dest\<rparr>"
    have far: "distinct (map part_of far)"
      unfolding far_def cs_def using s by (intro collectables_far_distinct) simp
    define rest where "rest = bind currentOrFail (\<lambda>rate.
       bind (reads (\<lambda>s. js_map (map (\<lambda>c. (cb_warehouseId c, betweenWarehouses W (cb_warehouseId c) dest s)) far))) (\<lambda>dists.
       bind (reads (autoPlanConsolidationGroups W far dists)) (\<lambda>groups.
       bind (transactional (bind (build_all (buildConsolidationTrip W ord' dest dists rate (length groups)) groups) (\<lambda>ids.
          bind (start_consolidating (o_id ord)) (\<lambda>_. ret ids)))) (\<lambda>ids.
       bind (dispatch_planned W ids) (\<lambda>_. reads (trip_views k))))))"
    have rest: "custody (snd (rest s1))" if s1: "custody s1" for s1
    proof (cases "current_rate s1")
      case None
      then show ?thesis using s1 by (simp add: rest_def currentOrFail_def bind_def)
    next
      case (Some rate)
      define dists where "dists = js_map (map (\<lambda>c. (cb_warehouseId c, betweenWarehouses W (cb_warehouseId c) dest s1)) far)"
      define groups where "groups = autoPlanConsolidationGroups W far dists s1"
      define build where "build = transactional (bind (build_all (buildConsolidationTrip W ord' dest dists rate (length groups)) groups) (\<lambda>ids.
          bind (start_consolidating (o_id ord)) (\<lambda>_. ret ids)))"
      have "shares far (map gr_collectables groups)"
        unfolding groups_def autoPlanConsolidationGroups_def by (rule plan_groups_share [OF far])
      then have b: "custody (snd (build s1))" unfolding build_def by (rule gathering_built [OF s1 _ far])
      have "rest s1 = bind build (\<lambda>ids. bind (dispatch_planned W ids) (\<lambda>_. reads (trip_views k))) s1"
        using Some by (simp add: rest_def currentOrFail_def bind_def dists_def groups_def build_def)
      moreover have "keeps custody (bind (dispatch_planned W ids) (\<lambda>_. reads (trip_views k)))" for ids
        by (intro keeps_rules keeps_dispatch_planned)
      ultimately show ?thesis
        using b by (cases "build s1") (auto simp: bind_def keeps_def split: sum.split)
    qed
    have saved: "custody (snd (save_order ord' s))"
      by (rule custody_save_order [OF s Some]) (simp add: ord'_def)
    have "snd (planConsolidationForOrder W k s) = s \<or>
        snd (planConsolidationForOrder W k s) = snd (rest (snd (save_order ord' s)))"
      using Some
      by (auto simp: planConsolidationForOrder_def Let_def bind_saved_order cs_def [symmetric] dest_def [symmetric]
          far_def [symmetric] ord'_def [symmetric] rest_def)
    then show ?thesis using s rest [OF saved] by auto
  qed
  then show ?thesis by (simp add: keeps_def)
qed

section \<open>Properties\<close>

text \<open>What the outside can ask of the delivery of the orders, one request at a time.\<close>

datatype trip_request =
    PLAN ident "ident list list"
  | GATHER ident
  | ASSIGN ident assignment
  | DISPATCH ident
  | PICKUP ident ident "string option"
  | COMPLETE ident

definition serve :: "world \<times> trip_request \<Rightarrow> store \<Rightarrow> store" where
  "serve = (\<lambda>(W, r) s. case r of
       PLAN k groups \<Rightarrow> snd (planForOrder W k groups s)
     | GATHER k \<Rightarrow> snd (planConsolidationForOrder W k s)
     | ASSIGN k a \<Rightarrow> snd (assign k a s)
     | DISPATCH k \<Rightarrow> snd (dispatchTrip W k s)
     | PICKUP k i remark \<Rightarrow> snd (confirmPickup W k i remark s)
     | COMPLETE k \<Rightarrow> snd (completeTrip W k s))"

lemma serve_keeps: "custody s \<Longrightarrow> custody (serve wr s)"
  using keeps_plan keeps_gather keeps_assign keeps_dispatch keeps_pickup keeps_complete
  by (auto simp: serve_def keeps_def split: prod.split trip_request.split)

text \<open>C24: Whatever planning, gathering, assignment, dispatch, pickup and completion requests arrive, at
  whatever times and in whatever order, every trip stays in custody: its stops are collected in the order
  of the route, none before the trip has started, it has started exactly when one is collected, and it is
  closed only with every stop collected.\<close>

theorem route_order_is_kept:
  assumes "ids_ok s" and "custody_ok s"
  shows "custody_ok (fold serve requests s)"
proof -
  have "custody s \<Longrightarrow> custody (fold serve requests s)" for s
    by (induction requests arbitrary: s) (simp_all add: serve_keeps)
  then show ?thesis using assms by (simp add: custody_def)
qed

text \<open>The two-stop delivery planned, given a driver and carried out: the nearer stop first is refused.\<close>

definition ex_requests :: "(world \<times> trip_request) list" where
  "ex_requests = [(ex_world, PLAN ''o1'' [[''p1'', ''p2'']]),
     (ex_world, ASSIGN ''u'' \<lparr>as_odooTruckId = 1, as_odooDriverId = 7, as_driverName = None, as_driverPhone = None\<rparr>),
     (ex_world, PICKUP ''u'' ''uuu'' None), (ex_world, PICKUP ''u'' ''uu'' None),
     (ex_world, PICKUP ''u'' ''uuu'' None), (ex_world, COMPLETE ''u'')]"

theorem route_order_is_kept_witness: "custody_ok (fold serve ex_requests ex_delivery_store)"
proof -
  have "custody_ok ex_delivery_store" by (simp add: custody_ok_def ex_delivery_store_def ex_store_def)
  with ex_delivery_ok show ?thesis by (rule route_order_is_kept)
qed

lemma delivery_closed_run:
  assumes "ids_ok s" and "find_trip k s = Some t" and "\<not> t_isConsolidation t"
    and "find_order (t_orderId t) s = Some ord" and "completeTrip W k s = (r, s')"
  shows "if t_status t = T_IN_PROGRESS \<and> list_all collected (stops_of k s)
    then db_parts s' = map (arrival W P_DELIVERED (map s_partId (stops_of k s))) (db_parts s)
      \<and> find_trip k s' = Some (closed_trip W t) \<and> db_stops s' = db_stops s
      \<and> (let live = unfailed_parts (t_orderId t) s';
             there = (live \<noteq> [] \<and> list_all (\<lambda>p. p_status p = P_DELIVERED) live)
         in r = Inr there
           \<and> find_order (t_orderId t) s' = Some (if there then ord\<lparr>o_status := DELIVERED\<rparr> else ord))
    else r = Inl Conflict \<and> s' = s"
proof -
  have k: "t_id t = k" using assms(2) tbl_find_SomeD by (fastforce simp: find_trip_def)
  have o': "o_id ord = t_orderId t" using assms(4) tbl_find_SomeD by (fastforce simp: find_order_def)
  note run = completeTrip_run [OF assms(1,2), of W]
  show ?thesis
  proof (cases "may_close t s")
    case False
    then show ?thesis using run assms(5) k by (auto simp: may_close_def)
  next
    case True
    let ?s1 = "unloaded W t s"
    define live where "live = unfailed_parts (t_orderId t) ?s1"
    define there where "there = (live \<noteq> [] \<and> list_all (\<lambda>p. p_status p = P_DELIVERED) live)"
    have ord: "find_order (t_orderId t) ?s1 = Some ord"
      using assms(4) by (simp add: unloaded_def replace_trip_def find_order_def)
    have res: "r = Inr there" "s' = (if there \<and> o_status ord \<noteq> DELIVERED
        then snd (save_order (ord\<lparr>o_status := DELIVERED\<rparr>) ?s1) else ?s1)"
      using run True assms(3,5) ord by (auto simp: finish_delivery_run Let_def there_def live_def)
    have tables: "db_parts s' = db_parts ?s1" "db_trips s' = db_trips ?s1" "db_stops s' = db_stops ?s1"
      by (simp_all add: res(2) save_order_def)
    have parts: "db_parts s' = map (arrival W P_DELIVERED (map s_partId (stops_of k s))) (db_parts s)"
      using assms(3) by (simp add: tables unloaded_def replace_trip_def k)
    have "unfailed_parts (t_orderId t) s' = live"
      using tables(1) by (simp add: live_def unfailed_parts_def parts_of_def)
    moreover have "find_order (t_orderId t) s' = Some (if there then ord\<lparr>o_status := DELIVERED\<rparr> else ord)"
      using ord o' by (auto simp: res(2) save_order_def find_order_def tbl_find_save)
    moreover have "find_trip k s' = Some (closed_trip W t)" "db_stops s' = db_stops s"
      by (simp_all add: find_trip_def tables unloaded_def replace_trip_def tbl_find_save k closed_trip_def)
    ultimately show ?thesis
      using True parts res(1) k by (simp add: may_close_def there_def Let_def)
  qed
qed

text \<open>C26: A delivery is closed exactly when its trip is under way and every stop is collected, otherwise it is
  refused and nothing changes.  Closing it delivers the parts of its stops whose life cycle allows it and
  touches no other part, and it makes the order delivered exactly when every part of the order that has not
  failed is delivered.\<close>

theorem delivery_completes:
  assumes "ids_ok s" and "find_trip k s = Some t" and "\<not> t_isConsolidation t"
    and "find_order (t_orderId t) s = Some ord" and "completeTrip W k s = (r, s')"
  shows "if t_status t = T_IN_PROGRESS \<and> list_all collected (stops_of k s)
    then db_parts s' = map (arrival W P_DELIVERED (map s_partId (stops_of k s))) (db_parts s)
      \<and> find_trip k s' = Some (closed_trip W t) \<and> db_stops s' = db_stops s
      \<and> (let live = unfailed_parts (t_orderId t) s';
             there = (live \<noteq> [] \<and> list_all (\<lambda>p. p_status p = P_DELIVERED) live)
         in r = Inr there
           \<and> find_order (t_orderId t) s' = Some (if there then ord\<lparr>o_status := DELIVERED\<rparr> else ord))
    else r = Inl Conflict \<and> s' = s"
  by (rule delivery_closed_run [OF assms])

text \<open>A cancelled part of the order counts as not delivered for ever: such an order is never delivered.\<close>

lemma cancelled_part_blocks:
  assumes "ids_ok s" and "find_trip k s = Some t" and "\<not> t_isConsolidation t"
    and "find_order (t_orderId t) s = Some ord" and "completeTrip W k s = (r, s')"
    and "p \<in> set (db_parts s)" and "p_orderId p = t_orderId t" and "p_status p = P_CANCELLED"
  shows "r \<noteq> Inr True"
proof (cases "t_status t = T_IN_PROGRESS \<and> list_all collected (stops_of k s)")
  case True
  note run = delivery_closed_run [OF assms(1-5), unfolded if_P [OF True]]
  have "arrival W P_DELIVERED (map s_partId (stops_of k s)) p = p"
    using assms(8) by (simp add: arrival_def canTransitionPart_def)
  then have "p \<in> set (db_parts s')" using run assms(6) by (metis (no_types, lifting) image_eqI set_map)
  then have "p \<in> set (unfailed_parts (t_orderId t) s')"
    using assms(7,8) by (simp add: unfailed_parts_def parts_of_def FAILED_PART_STATUSES_def)
  then have "\<not> list_all (\<lambda>p. p_status p = P_DELIVERED) (unfailed_parts (t_orderId t) s')"
    using assms(8) by (auto simp: list_all_iff intro!: bexI [of _ p])
  then show ?thesis using run by (auto simp: Let_def)
next
  case False
  then show ?thesis using delivery_closed_run [OF assms(1-5)] by auto
qed

definition ex_trip :: "trip_status \<Rightarrow> delivery_trip" where
  "ex_trip st = \<lparr>t_id = ''t1'', t_orderId = ''o1'', t_isConsolidation = False, t_destinationWarehouseId = None,
     t_tripNumber = ''TRIP-ORD-1'', t_originWarehouseId = ''w1'', t_odooTruckId = Some 1, t_odooDriverId = Some 7,
     t_driverName = None, t_driverPhone = None, t_status = st, t_routeDistanceKm = 5, t_deliveryCost = 12500,
     t_ratePerKm = 500, t_baseFee = 10000, t_currency = ''SYP'', t_startedAt = Some 1, t_completedAt = None,
     t_createdAt = 0\<rparr>"

definition ex_run_store :: "part_status \<Rightarrow> store" where
  "ex_run_store other = ex_store\<lparr>db_orders := [ex_split_order\<lparr>o_status := IN_TRANSIT\<rparr>],
     db_parts := [ex_part ''p1'' ''o1'' ''w1'' P_DISPATCHED, ex_part ''p2'' ''o1'' ''w2'' other],
     db_trips := [ex_trip T_IN_PROGRESS],
     db_stops := [\<lparr>s_id = ''s1'', s_tripId = ''t1'', s_partId = ''p1'', s_warehouseId = ''w1'', s_sequence = 1,
       s_distanceToBuyerKm = 5, s_legDistanceKm = 5, s_legCost = 12500, s_pickedUpAt = Some 2, s_pickedUpNote = None\<rparr>]\<rparr>"

lemma ex_run_ok: "ids_ok (ex_run_store st)"
  by (rule ids_ok_example)
    (simp_all add: ex_run_store_def ex_store_def ex_split_order_def ex_part_def ex_trip_def store_ids_def)

theorem delivery_completes_witness:
  "\<exists>s'. completeTrip ex_world ''t1'' (ex_run_store P_REJECTED) = (Inr True, s')
     \<and> find_order ''o1'' s' = Some (ex_split_order\<lparr>o_status := DELIVERED\<rparr>)"
proof -
  let ?s = "ex_run_store P_REJECTED"
  obtain r s' where run: "completeTrip ex_world ''t1'' ?s = (r, s')" by (cases "completeTrip ex_world ''t1'' ?s")
  have t: "find_trip ''t1'' ?s = Some (ex_trip T_IN_PROGRESS)"
    "find_order ''o1'' ?s = Some (ex_split_order\<lparr>o_status := IN_TRANSIT\<rparr>)"
    by (simp_all add: find_trip_def find_order_def ex_run_store_def ex_trip_def ex_split_order_def)
  have k: "\<not> t_isConsolidation (ex_trip T_IN_PROGRESS)" "t_orderId (ex_trip T_IN_PROGRESS) = ''o1''"
    "t_status (ex_trip T_IN_PROGRESS) = T_IN_PROGRESS" "list_all collected (stops_of ''t1'' ?s)"
    by (simp_all add: ex_trip_def ex_run_store_def stops_of_def collected_def)
  have o': "find_order (t_orderId (ex_trip T_IN_PROGRESS)) ?s = Some (ex_split_order\<lparr>o_status := IN_TRANSIT\<rparr>)"
    using t(2) k(2) by simp
  from delivery_completes [OF ex_run_ok t(1) k(1) o' run] k
  have res: "db_parts s' = map (arrival ex_world P_DELIVERED (map s_partId (stops_of ''t1'' ?s))) (db_parts ?s)"
    and fin: "let live = unfailed_parts ''o1'' s'; there = (live \<noteq> [] \<and> list_all (\<lambda>p. p_status p = P_DELIVERED) live)
         in r = Inr there \<and> find_order ''o1'' s' = Some (if there
           then ex_split_order\<lparr>o_status := IN_TRANSIT, o_status := DELIVERED\<rparr> else ex_split_order\<lparr>o_status := IN_TRANSIT\<rparr>)"
    by simp_all
  have "map p_status (unfailed_parts ''o1'' s') = [P_DELIVERED]"
    by (simp add: unfailed_parts_def parts_of_def res ex_run_store_def stops_of_def ex_part_def arrival_def
        canTransitionPart_def FAILED_PART_STATUSES_def)
  then have "unfailed_parts ''o1'' s' \<noteq> [] \<and> list_all (\<lambda>p. p_status p = P_DELIVERED) (unfailed_parts ''o1'' s')"
    by (auto simp: map_eq_Cons_conv)
  with fin run show ?thesis by (simp add: Let_def)
qed

end
