(* ===== verification/Stages.thy ===== *)
theory Stages
  imports OrderStore
begin

text \<open>
  \<open>stages/stages.service.ts\<close>: the bands of points an account is classified by.  The store holds the
  stages and the wallets; the deletion of an image at the image host is left out.  Stage bounds are
  integers, a balance has two decimals.
\<close>

section \<open>Names and ranges\<close>

definition lower_char :: "char \<Rightarrow> char" where
  "lower_char c = (if 65 \<le> (of_char c :: nat) \<and> (of_char c :: nat) \<le> 90
     then char_of ((of_char c :: nat) + 32) else c)"

text \<open>
  \<open>ILike(pattern)\<close>: a percent sign stands for any text, an underscore for one character, a backslash
  takes the next character literally; letters match in either case.  A pattern that ends in a lone
  backslash, which PostgreSQL refuses, matches nothing here.
\<close>

fun ilike :: "string \<Rightarrow> string \<Rightarrow> bool" where
  "ilike [] t = (t = [])"
| "ilike (p # ps) t =
     (if p = CHR ''%'' then ilike ps t \<or> (case t of [] \<Rightarrow> False | c # cs \<Rightarrow> ilike (p # ps) cs)
      else if p = CHR 0x5C then (case ps of [] \<Rightarrow> False
        | q # qs \<Rightarrow> (case t of [] \<Rightarrow> False | c # cs \<Rightarrow> lower_char c = lower_char q \<and> ilike qs cs))
      else (case t of [] \<Rightarrow> False | c # cs \<Rightarrow> (p = CHR ''_'' \<or> lower_char c = lower_char p) \<and> ilike ps cs))"

definition assertNameFree :: "string \<Rightarrow> ident option \<Rightarrow> unit action" where
  "assertNameFree name excludeId =
     bind (reads (\<lambda>s. list_ex (\<lambda>x. ilike name (sg_name x) \<and> Some (sg_id x) \<noteq> excludeId) (db_stages s))) (\<lambda>clash.
     refuse_if clash BadRequest)"

definition assertRange :: "int \<Rightarrow> int \<Rightarrow> ident option \<Rightarrow> unit action" where
  "assertRange minPoints maxPoints excludeId =
     bind (refuse_if (maxPoints < minPoints) BadRequest) (\<lambda>_.
     bind (reads (\<lambda>s. list_ex (\<lambda>x. sg_minPoints x \<le> maxPoints \<and> minPoints \<le> sg_maxPoints x
       \<and> Some (sg_id x) \<noteq> excludeId) (db_stages s))) (\<lambda>clash.
     refuse_if clash BadRequest))"

section \<open>Changing the ladder\<close>

definition find_stage :: "ident \<Rightarrow> store \<Rightarrow> stage option" where
  "find_stage i s = tbl_find sg_id i (db_stages s)"

definition save_stage :: "stage \<Rightarrow> unit action" where
  "save_stage x = writes (\<lambda>s. s\<lparr>db_stages := tbl_save sg_id x (db_stages s)\<rparr>)"

record create_stage =
  cs_name :: string
  cs_minPoints :: int
  cs_maxPoints :: int
  cs_isActive :: "bool option"

definition present_text :: "string option \<Rightarrow> bool" where
  "present_text t \<longleftrightarrow> t \<noteq> None \<and> t \<noteq> Some []"

definition stage_create :: "create_stage \<Rightarrow> string option \<Rightarrow> stage action" where
  "stage_create dto imageUrl =
     bind (refuse_if (\<not> present_text imageUrl) BadRequest) (\<lambda>_.
     bind (assertNameFree (cs_name dto) None) (\<lambda>_.
     bind (assertRange (cs_minPoints dto) (cs_maxPoints dto) None) (\<lambda>_.
     transactional (
       bind (reads (\<lambda>s. length (db_stages s))) (\<lambda>count.
       bind fresh_id (\<lambda>i.
       let saved = \<lparr>sg_id = i, sg_name = cs_name dto, sg_imageUrl = imageUrl, sg_sortOrder = int count + 1,
         sg_minPoints = cs_minPoints dto, sg_maxPoints = cs_maxPoints dto,
         sg_isActive = (case cs_isActive dto of None \<Rightarrow> True | Some b \<Rightarrow> b)\<rparr> in
       bind (save_stage saved) (\<lambda>_. ret saved)))))))"

text \<open>An \<open>UPDATE\<close> of the order of the stages a condition selects.\<close>

definition shift_orders :: "(stage \<Rightarrow> bool) \<Rightarrow> int \<Rightarrow> unit action" where
  "shift_orders P d = writes (\<lambda>s. s\<lparr>db_stages :=
     map (\<lambda>x. if P x then x\<lparr>sg_sortOrder := sg_sortOrder x + d\<rparr> else x) (db_stages s)\<rparr>)"

definition set_order :: "ident \<Rightarrow> int \<Rightarrow> unit action" where
  "set_order i n = writes (\<lambda>s. s\<lparr>db_stages :=
     map (\<lambda>x. if sg_id x = i then x\<lparr>sg_sortOrder := n\<rparr> else x) (db_stages s)\<rparr>)"

definition moveWithin :: "ident \<Rightarrow> int \<Rightarrow> unit action" where
  "moveWithin i requested =
     bind (reads (find_stage i)) (\<lambda>found. case found of None \<Rightarrow> throw NotFound | Some stage \<Rightarrow>
     bind (reads (\<lambda>s. int (length (db_stages s)))) (\<lambda>count.
     let to = min (max requested 1) count; start = sg_sortOrder stage in
     if to = start then ret ()
     else
       bind (if to < start
         then shift_orders (\<lambda>x. to \<le> sg_sortOrder x \<and> sg_sortOrder x < start \<and> sg_id x \<noteq> i) 1
         else shift_orders (\<lambda>x. start < sg_sortOrder x \<and> sg_sortOrder x \<le> to \<and> sg_id x \<noteq> i) (- 1)) (\<lambda>_.
       set_order i to)))"

record update_stage =
  us_name :: "string option"
  us_minPoints :: "int option"
  us_maxPoints :: "int option"
  us_isActive :: "bool option"
  us_order :: "int option"

definition or_else :: "'a option \<Rightarrow> 'a \<Rightarrow> 'a" where
  "or_else x d = (case x of None \<Rightarrow> d | Some y \<Rightarrow> y)"

text \<open>An image that is not given stays; a given one, even empty, replaces it.\<close>

definition stage_update :: "ident \<Rightarrow> update_stage \<Rightarrow> string option option \<Rightarrow> stage option action" where
  "stage_update i dto imageUrl =
     bind (reads (find_stage i)) (\<lambda>found. case found of None \<Rightarrow> throw NotFound | Some stage \<Rightarrow>
     bind (case us_name dto of Some name \<Rightarrow> if name \<noteq> sg_name stage then assertNameFree name (Some i) else ret ()
           | None \<Rightarrow> ret ()) (\<lambda>_.
     let lo = or_else (us_minPoints dto) (sg_minPoints stage); hi = or_else (us_maxPoints dto) (sg_maxPoints stage) in
     bind (if us_minPoints dto \<noteq> None \<or> us_maxPoints dto \<noteq> None then assertRange lo hi (Some i) else ret ()) (\<lambda>_.
     transactional (
       bind (save_stage (stage\<lparr>sg_name := or_else (us_name dto) (sg_name stage),
         sg_imageUrl := or_else imageUrl (sg_imageUrl stage), sg_isActive := or_else (us_isActive dto) (sg_isActive stage),
         sg_minPoints := lo, sg_maxPoints := hi\<rparr>)) (\<lambda>_.
       bind (case us_order dto of Some n \<Rightarrow> if n \<noteq> sg_sortOrder stage then moveWithin i n else ret ()
             | None \<Rightarrow> ret ()) (\<lambda>_.
       reads (find_stage i)))))))"

definition reorder :: "ident \<Rightarrow> int \<Rightarrow> stage option action" where
  "reorder i newOrder =
     bind (reads (find_stage i)) (\<lambda>found. bind (refuse_if (found = None) NotFound) (\<lambda>_.
     bind (transactional (moveWithin i newOrder)) (\<lambda>_.
     reads (find_stage i))))"

definition stage_remove :: "ident \<Rightarrow> unit action" where
  "stage_remove i =
     bind (reads (find_stage i)) (\<lambda>found. case found of None \<Rightarrow> throw NotFound | Some stage \<Rightarrow>
     transactional (
       bind (writes (\<lambda>s. s\<lparr>db_stages := filter (\<lambda>x. sg_id x \<noteq> i) (db_stages s)\<rparr>)) (\<lambda>_.
       shift_orders (\<lambda>x. sg_sortOrder stage < sg_sortOrder x) (- 1))))"

section \<open>Reading\<close>

definition in_band :: "rat \<Rightarrow> stage \<Rightarrow> bool" where
  "in_band pts x \<longleftrightarrow> of_int (sg_minPoints x) \<le> pts \<and> pts \<le> of_int (sg_maxPoints x)"

definition wallet_points :: "ident \<Rightarrow> store \<Rightarrow> rat" where
  "wallet_points accountId s = (case find (\<lambda>w. pw_accountId w = accountId) (db_wallets s) of
     None \<Rightarrow> 0 | Some w \<Rightarrow> pw_points w)"

definition active_stages :: "store \<Rightarrow> stage list" where
  "active_stages s = sort_key sg_sortOrder (filter sg_isActive (db_stages s))"

text \<open>The stage a balance is in.\<close>

definition stage_of :: "rat \<Rightarrow> store \<Rightarrow> stage option" where
  "stage_of pts s = find (in_band pts) (active_stages s)"

definition listForUser :: "ident \<Rightarrow> store \<Rightarrow> rat \<times> ident option \<times> (stage \<times> bool) list" where
  "listForUser accountId s =
     (let points = wallet_points accountId s; currentId = map_option sg_id (stage_of points s)
      in (points, currentId, map (\<lambda>x. (x, Some (sg_id x) = currentId)) (active_stages s)))"

datatype stage_filter = OnlyActive | OnlyInactive | AnyStage

definition user_count :: "store \<Rightarrow> stage \<Rightarrow> nat" where
  "user_count s x = length (filter (\<lambda>w. in_band (pw_points w) x) (db_wallets s))"

text \<open>The page and the limit of a list request: nothing below 1, at most 100 rows, 20 by default.\<close>

definition page_no :: "int \<Rightarrow> nat" where
  "page_no page = nat (max 1 (if page = 0 then 1 else page))"

definition page_limit :: "int \<Rightarrow> nat" where
  "page_limit limit = nat (min (max 1 (if limit = 0 then 20 else limit)) 100)"

definition page_rows :: "nat \<Rightarrow> nat \<Rightarrow> 'a list \<Rightarrow> 'a list" where
  "page_rows page limit rows = take limit (drop ((page - 1) * limit) rows)"

definition list_stages :: "int \<Rightarrow> int \<Rightarrow> stage_filter \<Rightarrow> store \<Rightarrow> (stage \<times> nat) list \<times> nat" where
  "list_stages page limit status s =
     (let matching = filter (\<lambda>x. case status of OnlyActive \<Rightarrow> sg_isActive x | OnlyInactive \<Rightarrow> \<not> sg_isActive x
            | AnyStage \<Rightarrow> True) (db_stages s)
      in (map (\<lambda>x. (x, user_count s x)) (page_rows (page_no page) (page_limit limit) (sort_key sg_sortOrder matching)),
          length matching))"

record my_stage =
  my_points :: rat
  my_current :: "stage option"
  my_rank :: "nat option"
  my_users :: nat

definition citizen :: "store \<Rightarrow> points_wallet \<Rightarrow> bool" where
  "citizen s w \<longleftrightarrow> map_option ac_role (tbl_find ac_id (pw_accountId w) (db_accounts s)) = Some CITIZEN"

definition myStage :: "ident \<Rightarrow> role option \<Rightarrow> store \<Rightarrow> my_stage" where
  "myStage accountId r s =
     (let points = wallet_points accountId s; current = stage_of points s;
          peers = (case current of None \<Rightarrow> [] | Some x \<Rightarrow> filter (\<lambda>w. in_band (pw_points w) x \<and> citizen s w) (db_wallets s));
          ranked = (current \<noteq> None \<and> r = Some CITIZEN)
      in \<lparr>my_points = points, my_current = current,
          my_rank = (if ranked then Some (length (filter (\<lambda>w. points < pw_points w) peers) + 1) else None),
          my_users = (if ranked then length peers else 0)\<rparr>)"

section \<open>The two invariants of the ladder\<close>

definition ladder_keys :: "store \<Rightarrow> ident set" where
  "ladder_keys s = sg_id ` set (db_stages s)"

definition numbered :: "stage list \<Rightarrow> bool" where
  "numbered xs \<longleftrightarrow> distinct (map sg_sortOrder xs) \<and> sg_sortOrder ` set xs = {1..int (length xs)}"

definition apart :: "stage \<Rightarrow> stage \<Rightarrow> bool" where
  "apart x y \<longleftrightarrow> sg_maxPoints x < sg_minPoints y \<or> sg_maxPoints y < sg_minPoints x"

definition ladder_ok :: "store \<Rightarrow> bool" where
  "ladder_ok s \<longleftrightarrow> fresh_for ladder_keys s \<and> distinct (map sg_id (db_stages s)) \<and> numbered (db_stages s)
     \<and> (\<forall>x \<in> set (db_stages s). sg_minPoints x \<le> sg_maxPoints x
        \<and> (\<forall>y \<in> set (db_stages s). sg_id y \<noteq> sg_id x \<longrightarrow> apart x y))"

text \<open>A renumbering that permutes the numbers keeps them contiguous.\<close>

lemma numbered_map:
  assumes "numbered xs" and "\<And>x. x \<in> set xs \<Longrightarrow> sg_sortOrder (f x) = g (sg_sortOrder x)"
    and "inj_on g {1..int (length xs)}" and "g ` {1..int (length xs)} \<subseteq> {1..int (length xs)}"
  shows "numbered (map f xs)"
proof -
  let ?S = "{1..int (length xs)}"
  have orders: "map sg_sortOrder (map f xs) = map g (map sg_sortOrder xs)" using assms(2) by simp
  have old: "sg_sortOrder ` set xs = ?S" "distinct (map sg_sortOrder xs)"
    using assms(1) by (simp_all add: numbered_def)
  have new: "g ` ?S = ?S" by (rule endo_inj_surj) (use assms(3,4) in auto)
  have "set (map sg_sortOrder (map f xs)) = g ` (sg_sortOrder ` set xs)"
    unfolding orders by (simp only: set_map)
  then have "sg_sortOrder ` set (map f xs) = ?S" unfolding old(1) new by (simp only: set_map)
  moreover have "distinct (map sg_sortOrder (map f xs))"
    unfolding orders distinct_map [of g] set_map old(1) using old(2) assms(3) by blast
  ultimately show ?thesis by (simp add: numbered_def)
qed

lemma fresh_same_keys:
  assumes "fresh_for ladder_keys s" and "map sg_id rows = map sg_id (db_stages s)"
  shows "fresh_for ladder_keys (s\<lparr>db_stages := rows\<rparr>)"
proof -
  have "sg_id ` set rows = sg_id ` set (db_stages s)" using assms(2) by (metis set_map)
  then show ?thesis using assms(1) by (simp add: fresh_for_def ladder_keys_def)
qed

lemma ladder_renumber:
  assumes "ladder_ok s" and "numbered (map f (db_stages s))"
    and "\<And>x. x \<in> set (db_stages s) \<Longrightarrow> sg_id (f x) = sg_id x \<and> sg_minPoints (f x) = sg_minPoints x \<and> sg_maxPoints (f x) = sg_maxPoints x"
  shows "ladder_ok (s\<lparr>db_stages := map f (db_stages s)\<rparr>)"
proof -
  have ids: "map sg_id (map f (db_stages s)) = map sg_id (db_stages s)" using assms(3) by simp
  then have "fresh_for ladder_keys (s\<lparr>db_stages := map f (db_stages s)\<rparr>)"
    using assms(1) by (intro fresh_same_keys) (simp_all add: ladder_ok_def)
  moreover have "distinct (map sg_id (map f (db_stages s)))" unfolding ids using assms(1) by (simp add: ladder_ok_def)
  ultimately show ?thesis
    using assms by (simp add: ladder_ok_def apart_def)
qed

lemma ladder_okI:
  assumes "fresh_for ladder_keys (s\<lparr>db_stages := rows\<rparr>)" and "distinct (map sg_id rows)" and "numbered rows"
    and "\<forall>a \<in> set rows. sg_minPoints a \<le> sg_maxPoints a \<and> (\<forall>b \<in> set rows. sg_id b \<noteq> sg_id a \<longrightarrow> apart a b)"
  shows "ladder_ok (s\<lparr>db_stages := rows\<rparr>)"
  using assms by (simp add: ladder_ok_def)

lemma find_stage_row: "find_stage i s = Some x \<Longrightarrow> x \<in> set (db_stages s) \<and> sg_id x = i"
  unfolding find_stage_def by (rule tbl_find_SomeD)

definition moved_to :: "ident \<Rightarrow> int \<Rightarrow> int \<Rightarrow> stage \<Rightarrow> stage" where
  "moved_to i start to x = (if sg_id x = i then x\<lparr>sg_sortOrder := to\<rparr>
     else if to \<le> sg_sortOrder x \<and> sg_sortOrder x < start then x\<lparr>sg_sortOrder := sg_sortOrder x + 1\<rparr>
     else if start < sg_sortOrder x \<and> sg_sortOrder x \<le> to then x\<lparr>sg_sortOrder := sg_sortOrder x - 1\<rparr>
     else x)"

lemma moveWithin_run:
  assumes "find_stage i s = Some x"
  shows "moveWithin i n s =
    (let to = min (max n 1) (int (length (db_stages s))) in
     (Inr (), if to = sg_sortOrder x then s
       else s\<lparr>db_stages := map (moved_to i (sg_sortOrder x) to) (db_stages s)\<rparr>))"
proof -
  define to where "to = min (max n 1) (int (length (db_stages s)))"
  let ?start = "sg_sortOrder x"
  let ?set = "\<lambda>y. if sg_id y = i then y\<lparr>sg_sortOrder := to\<rparr> else y"
  let ?up = "\<lambda>y. if to \<le> sg_sortOrder y \<and> sg_sortOrder y < ?start \<and> sg_id y \<noteq> i then y\<lparr>sg_sortOrder := sg_sortOrder y + 1\<rparr> else y"
  let ?down = "\<lambda>y. if ?start < sg_sortOrder y \<and> sg_sortOrder y \<le> to \<and> sg_id y \<noteq> i then y\<lparr>sg_sortOrder := sg_sortOrder y + - 1\<rparr> else y"
  have step: "moveWithin i n s = (if to = ?start then (Inr (), s) else if to < ?start
      then (Inr (), s\<lparr>db_stages := map ?set (map ?up (db_stages s))\<rparr>)
      else (Inr (), s\<lparr>db_stages := map ?set (map ?down (db_stages s))\<rparr>))"
    by (simp add: moveWithin_def assms Let_def shift_orders_def set_order_def flip: to_def)
  have "map ?set (map ?up ys) = map (moved_to i ?start to) ys" if "to < ?start" for ys
    using that by (auto simp: moved_to_def)
  moreover have "map ?set (map ?down ys) = map (moved_to i ?start to) ys" if "\<not> to < ?start" for ys
    using that by (auto simp: moved_to_def)
  ultimately show ?thesis by (simp only: step Let_def flip: to_def) simp
qed

lemma ladder_moved:
  assumes ok: "ladder_ok s" and x: "x \<in> set (db_stages s)" and to: "1 \<le> to" "to \<le> int (length (db_stages s))"
  shows "ladder_ok (s\<lparr>db_stages := map (moved_to (sg_id x) (sg_sortOrder x) to) (db_stages s)\<rparr>)"
proof (rule ladder_renumber [OF ok])
  let ?start = "sg_sortOrder x"
  define g where "g = (\<lambda>k. if k = ?start then to else if to \<le> k \<and> k < ?start then k + 1
    else if ?start < k \<and> k \<le> to then k - 1 else k)"
  have num: "numbered (db_stages s)" and ids: "distinct (map sg_id (db_stages s))"
    using ok by (simp_all add: ladder_ok_def)
  then have start: "1 \<le> ?start" "?start \<le> int (length (db_stages s))" using x by (auto simp: numbered_def)
  have same: "sg_sortOrder y = ?start \<longleftrightarrow> sg_id y = sg_id x" if "y \<in> set (db_stages s)" for y
    using num ids x that by (auto simp: numbered_def distinct_map inj_on_def)
  show "numbered (map (moved_to (sg_id x) ?start to) (db_stages s))"
  proof (rule numbered_map [OF num])
    show "sg_sortOrder (moved_to (sg_id x) ?start to y) = g (sg_sortOrder y)" if "y \<in> set (db_stages s)" for y
      using same [OF that] by (auto simp: moved_to_def g_def)
    show "inj_on g {1..int (length (db_stages s))}" by (auto simp: inj_on_def g_def)
    show "g ` {1..int (length (db_stages s))} \<subseteq> {1..int (length (db_stages s))}" using to start by (auto simp: g_def)
  qed
qed (simp add: moved_to_def)

lemma ladder_move:
  assumes "ladder_ok s" and "find_stage i s = Some x"
  shows "ladder_ok (snd (moveWithin i n s))"
proof -
  note x = find_stage_row [OF assms(2)]
  then have "1 \<le> length (db_stages s)" by (cases "db_stages s") auto
  then have "1 \<le> min (max n 1) (int (length (db_stages s)))" by simp
  then show ?thesis
    using ladder_moved [OF assms(1), of x "min (max n 1) (int (length (db_stages s)))"] assms(1) x
    by (auto simp: moveWithin_run [OF assms(2)] Let_def)
qed

text \<open>A stage that is saved with a free range keeps the bands apart.\<close>

definition range_free :: "int \<Rightarrow> int \<Rightarrow> ident option \<Rightarrow> store \<Rightarrow> bool" where
  "range_free lo hi excludeId s \<longleftrightarrow> lo \<le> hi
     \<and> (\<forall>y \<in> set (db_stages s). Some (sg_id y) \<noteq> excludeId \<longrightarrow> hi < sg_minPoints y \<or> sg_maxPoints y < lo)"

lemma assertRange_run:
  "assertRange lo hi e s = (if range_free lo hi e s then (Inr (), s) else (Inl BadRequest, s))"
  by (auto simp: assertRange_def range_free_def list_ex_iff)

lemma assertNameFree_run: "\<exists>r. assertNameFree name e s = (r, s)"
  by (simp add: assertNameFree_def)

lemma ladder_created:
  assumes "ladder_ok s" and "range_free (sg_minPoints x) (sg_maxPoints x) None s"
    and "sg_id x = db_uuid s (db_next s)" and "sg_sortOrder x = int (length (db_stages s)) + 1"
  shows "ladder_ok (s\<lparr>db_next := Suc (db_next s), db_stages := db_stages s @ [x]\<rparr>)"
proof -
  let ?n = "int (length (db_stages s))"
  have fresh: "fresh_for ladder_keys s" and num: "numbered (db_stages s)"
    using assms(1) by (simp_all add: ladder_ok_def)
  have new: "sg_id x \<notin> sg_id ` set (db_stages s)"
    using fresh_next [OF fresh] assms(3) by (simp add: ladder_keys_def)
  have "fresh_for ladder_keys (s\<lparr>db_next := Suc (db_next s), db_stages := db_stages s @ [x]\<rparr>)"
    by (rule fresh_after [OF fresh]) (auto simp: ladder_keys_def assms(3))
  moreover have "numbered (db_stages s @ [x])"
    using num assms(4) by (auto simp: numbered_def)
  ultimately show ?thesis
    using assms(1,2) new by (auto simp: ladder_ok_def range_free_def apart_def)
qed

lemma ladder_saved:
  assumes ok: "ladder_ok s" and x: "find_stage i s = Some x"
    and x': "sg_id x' = i" "sg_sortOrder x' = sg_sortOrder x"
    and range: "sg_minPoints x' = sg_minPoints x \<and> sg_maxPoints x' = sg_maxPoints x
      \<or> range_free (sg_minPoints x') (sg_maxPoints x') (Some i) s"
  shows "ladder_ok (s\<lparr>db_stages := tbl_save sg_id x' (db_stages s)\<rparr>)"
proof -
  note row = find_stage_row [OF x]
  have d: "distinct (map sg_id (db_stages s))" and num: "numbered (db_stages s)"
    and bands: "\<forall>y \<in> set (db_stages s). sg_minPoints y \<le> sg_maxPoints y
      \<and> (\<forall>z \<in> set (db_stages s). sg_id z \<noteq> sg_id y \<longrightarrow> apart y z)"
    using ok by (simp_all add: ladder_ok_def)
  let ?f = "\<lambda>y. if sg_id y = i then x' else y"
  have rows: "tbl_save sg_id x' (db_stages s) = map ?f (db_stages s)"
    using tbl_save_map [OF d, of x'] row unfolding x'(1) by blast
  have ids: "map sg_id (map ?f (db_stages s)) = map sg_id (db_stages s)" using x'(1) by simp
  have only: "y = x" if "y \<in> set (db_stages s)" "sg_id y = i" for y
    using the_row [OF d, of i x y] x that by (simp add: find_stage_def)
  have num': "numbered (map ?f (db_stages s))"
    by (rule numbered_map [OF num, where g = "\<lambda>k. k"]) (use only x' in auto)
  have fresh: "fresh_for ladder_keys (s\<lparr>db_stages := map ?f (db_stages s)\<rparr>)"
    using ok by (intro fresh_same_keys [OF _ ids]) (simp add: ladder_ok_def)
  have band: "sg_minPoints (?f y) \<le> sg_maxPoints (?f y)
      \<and> (\<forall>z \<in> set (db_stages s). sg_id (?f z) \<noteq> sg_id (?f y) \<longrightarrow> apart (?f y) (?f z))" if y: "y \<in> set (db_stages s)" for y
  proof -
    have mine: "apart x' z" if z: "z \<in> set (db_stages s)" "sg_id z \<noteq> i" for z
    proof (rule disjE [OF range])
      assume same: "sg_minPoints x' = sg_minPoints x \<and> sg_maxPoints x' = sg_maxPoints x"
      have "apart x z" using bands row z by metis
      then show ?thesis using same by (simp add: apart_def)
    next
      assume "range_free (sg_minPoints x') (sg_maxPoints x') (Some i) s"
      then show ?thesis using z by (auto simp: range_free_def apart_def)
    qed
    have le: "sg_minPoints x' \<le> sg_maxPoints x'" using range bands row by (auto simp: range_free_def)
    have sym: "apart a b \<Longrightarrow> apart b a" for a b by (auto simp: apart_def)
    show ?thesis
    proof (cases "sg_id y = i")
      case True
      then show ?thesis using mine le x'(1) by simp
    next
      case False
      then show ?thesis using bands y mine [OF y False] sym x'(1) by simp
    qed
  qed
  have all: "\<forall>a \<in> set (map ?f (db_stages s)). sg_minPoints a \<le> sg_maxPoints a
      \<and> (\<forall>b \<in> set (map ?f (db_stages s)). sg_id b \<noteq> sg_id a \<longrightarrow> apart a b)"
    unfolding set_map ball_simps(9) using band by blast
  have d': "distinct (map sg_id (map ?f (db_stages s)))" unfolding ids by (rule d)
  show ?thesis unfolding rows by (rule ladder_okI [OF fresh d' num' all])
qed

lemma bands_image:
  assumes "\<forall>x \<in> A. sg_minPoints x \<le> sg_maxPoints x \<and> (\<forall>y \<in> A. sg_id y \<noteq> sg_id x \<longrightarrow> apart x y)" and "B \<subseteq> A"
    and "\<And>y. sg_id (f y) = sg_id y" "\<And>y. sg_minPoints (f y) = sg_minPoints y" "\<And>y. sg_maxPoints (f y) = sg_maxPoints y"
  shows "\<forall>x \<in> f ` B. sg_minPoints x \<le> sg_maxPoints x \<and> (\<forall>y \<in> f ` B. sg_id y \<noteq> sg_id x \<longrightarrow> apart x y)"
  using assms(1,2) by (auto simp: apart_def assms(3-5))

text \<open>Removing a stage closes the gap it leaves.\<close>

lemma ladder_removed:
  assumes ok: "ladder_ok s" and x: "x \<in> set (db_stages s)"
  shows "ladder_ok (s\<lparr>db_stages := map (\<lambda>y. if sg_sortOrder x < sg_sortOrder y
      then y\<lparr>sg_sortOrder := sg_sortOrder y + - 1\<rparr> else y) (filter (\<lambda>y. sg_id y \<noteq> sg_id x) (db_stages s))\<rparr>)"
proof -
  let ?rows = "db_stages s" let ?k = "sg_sortOrder x" let ?n = "int (length (db_stages s))"
  let ?f = "\<lambda>y. if ?k < sg_sortOrder y then y\<lparr>sg_sortOrder := sg_sortOrder y + - 1\<rparr> else y"
  let ?g = "\<lambda>k. if ?k < k then k + - 1 else k :: int"
  let ?rest = "filter (\<lambda>y. sg_id y \<noteq> sg_id x) ?rows"
  have fresh: "fresh_for ladder_keys s" and d: "distinct (map sg_id ?rows)" and num: "numbered ?rows"
    using ok by (simp_all add: ladder_ok_def)
  have k: "1 \<le> ?k" "?k \<le> ?n" using num x by (auto simp: numbered_def)
  have id_order: "sg_id y = sg_id x \<longleftrightarrow> sg_sortOrder y = ?k" if "y \<in> set ?rows" for y
    using num d x that by (auto simp: numbered_def distinct_map inj_on_def)
  have rest: "?rest = filter (\<lambda>y. sg_sortOrder y \<noteq> ?k) ?rows" by (rule filter_cong) (simp_all add: id_order)
  have "distinct (map sg_sortOrder ?rows)" "sg_sortOrder ` set ?rows = {1..?n}"
    using num by (simp_all add: numbered_def)
  moreover have "sg_sortOrder ` set ?rest = sg_sortOrder ` set ?rows - {?k}" unfolding rest by auto
  ultimately have rest_orders: "distinct (map sg_sortOrder ?rest)" "sg_sortOrder ` set ?rest = {1..?n} - {?k}"
    by (simp_all add: distinct_map_filter)
  have "card (sg_sortOrder ` set ?rest) = length ?rest"
    using rest_orders(1) by (metis distinct_card length_map set_map)
  then have len: "int (length ?rest) = ?n - 1" using rest_orders(2) k by (simp add: card_Diff_singleton_if)
  have orders: "map sg_sortOrder (map ?f ?rest) = map ?g (map sg_sortOrder ?rest)" by simp
  have "inj_on ?g ({1..?n} - {?k})" by (auto simp: inj_on_def)
  then have num': "distinct (map sg_sortOrder (map ?f ?rest))"
    unfolding orders using rest_orders by (simp only: distinct_map set_map)
  have "?g ` ({1..?n} - {?k}) = {1..?n - 1}"
  proof (intro equalityI subsetI)
    fix m assume m: "m \<in> {1..?n - 1}"
    show "m \<in> ?g ` ({1..?n} - {?k})"
      by (rule image_eqI [of _ _ "if m < ?k then m else m + 1"]) (use m k in auto)
  qed (use k in auto)
  then have img: "sg_sortOrder ` set (map ?f ?rest) = {1..int (length (map ?f ?rest))}"
    using orders rest_orders(2) len by (metis (no_types, lifting) length_map set_map)
  show ?thesis
  proof (rule ladder_okI)
    show "fresh_for ladder_keys (s\<lparr>db_stages := map ?f ?rest\<rparr>)"
      using fresh by (auto simp: fresh_for_def ladder_keys_def)
    show "distinct (map sg_id (map ?f ?rest))" using d by (auto simp: distinct_map inj_on_def)
    show "numbered (map ?f ?rest)" unfolding numbered_def using num' img by blast
    show "\<forall>a \<in> set (map ?f ?rest). sg_minPoints a \<le> sg_maxPoints a
        \<and> (\<forall>b \<in> set (map ?f ?rest). sg_id b \<noteq> sg_id a \<longrightarrow> apart a b)"
      unfolding set_map by (rule bands_image [where A = "set ?rows"]) (use ok in \<open>auto simp: ladder_ok_def\<close>)
  qed
qed

section \<open>Every request keeps the ladder\<close>

datatype request =
  CREATE create_stage "string option"
| UPDATE ident update_stage "string option option"
| REORDER ident int
| REMOVE ident

fun serve :: "request \<Rightarrow> unit action" where
  "serve (CREATE dto img) = bind (stage_create dto img) (\<lambda>_. ret ())"
| "serve (UPDATE i dto img) = bind (stage_update i dto img) (\<lambda>_. ret ())"
| "serve (REORDER i n) = bind (reorder i n) (\<lambda>_. ret ())"
| "serve (REMOVE i) = stage_remove i"

lemma keeps_transaction: "keeps ladder_ok m \<Longrightarrow> keeps ladder_ok (transactional m)"
  by (erule keeps_transactional) (simp add: ladder_ok_def fresh_for_def ladder_keys_def)

lemma keeps_create: "keeps ladder_ok (stage_create dto img)"
proof -
  have "ladder_ok (snd (stage_create dto img s))" if ok: "ladder_ok s" for s
  proof (cases "present_text img \<and> range_free (cs_minPoints dto) (cs_maxPoints dto) None s")
    case True
    let ?x = "\<lparr>sg_id = db_uuid s (db_next s), sg_name = cs_name dto, sg_imageUrl = img,
      sg_sortOrder = int (length (db_stages s)) + 1, sg_minPoints = cs_minPoints dto, sg_maxPoints = cs_maxPoints dto,
      sg_isActive = (case cs_isActive dto of None \<Rightarrow> True | Some b \<Rightarrow> b)\<rparr>"
    have "sg_id ?x \<notin> sg_id ` set (db_stages s)"
      using ok fresh_next [of ladder_keys s] by (simp add: ladder_ok_def ladder_keys_def)
    then have "tbl_save sg_id ?x (db_stages s) = db_stages s @ [?x]" by (intro tbl_save_fresh) simp
    moreover have "ladder_ok (s\<lparr>db_next := Suc (db_next s), db_stages := db_stages s @ [?x]\<rparr>)"
      by (rule ladder_created [OF ok]) (use True in simp_all)
    ultimately show ?thesis
      using True ok by (simp add: stage_create_def assertNameFree_def bind_assoc assertRange_run transactional_def Let_def
        bind_def refuse_if_def ret_def throw_def reads_def writes_def fresh_id_def save_stage_def)
  next
    case False
    then show ?thesis
      using ok by (auto simp: stage_create_def assertNameFree_def bind_assoc assertRange_run bind_def refuse_if_def reads_def
        ret_def throw_def)
  qed
  then show ?thesis by (simp add: keeps_def split_def)
qed

lemma keeps_moveWithin: "keeps ladder_ok (moveWithin i n)"
proof -
  have "ladder_ok (snd (moveWithin i n s))" if "ladder_ok s" for s
    using that ladder_move [OF that, of i _ n] by (cases "find_stage i s") (simp_all add: moveWithin_def throw_def)
  then show ?thesis by (simp add: keeps_def)
qed

lemma keeps_reorder: "keeps ladder_ok (reorder i n)"
  unfolding reorder_def by (intro keeps_bind keeps_reads keeps_refuse_if keeps_transaction keeps_moveWithin)

text \<open>What a checked change of a stage saves.\<close>

lemma keeps_saving:
  assumes "ladder_ok s" and "find_stage i s = Some x" and "sg_id x' = i" "sg_sortOrder x' = sg_sortOrder x"
    and "sg_minPoints x' = sg_minPoints x \<and> sg_maxPoints x' = sg_maxPoints x
      \<or> range_free (sg_minPoints x') (sg_maxPoints x') (Some i) s"
    and "\<And>u. keeps ladder_ok (f u)"
  shows "ladder_ok (snd (transactional (bind (save_stage x') f) s))"
proof -
  have "ladder_ok (snd (f () (s\<lparr>db_stages := tbl_save sg_id x' (db_stages s)\<rparr>)))"
    using assms(6) ladder_saved [OF assms(1-5)] by (simp add: keeps_def)
  then have "ladder_ok (snd (bind (save_stage x') f s))" by (simp add: save_stage_def)
  moreover have "ladder_ok (s\<lparr>db_events := es\<rparr>)" for es
    using assms(1) by (simp add: ladder_ok_def fresh_for_def ladder_keys_def)
  ultimately show ?thesis by (auto simp: transactional_def split: prod.split_asm prod.split sum.split)
qed

lemma keeps_update: "keeps ladder_ok (stage_update i dto img)"
proof -
  have "ladder_ok (snd (stage_update i dto img s))" if ok: "ladder_ok s" for s
  proof (cases "find_stage i s")
    case None
    then show ?thesis using ok by (simp add: stage_update_def throw_def)
  next
    case (Some x)
    let ?lo = "or_else (us_minPoints dto) (sg_minPoints x)" let ?hi = "or_else (us_maxPoints dto) (sg_maxPoints x)"
    let ?ranged = "us_minPoints dto \<noteq> None \<or> us_maxPoints dto \<noteq> None"
    let ?x' = "x\<lparr>sg_name := or_else (us_name dto) (sg_name x), sg_imageUrl := or_else img (sg_imageUrl x),
      sg_isActive := or_else (us_isActive dto) (sg_isActive x), sg_minPoints := ?lo, sg_maxPoints := ?hi\<rparr>"
    let ?rest = "\<lambda>_. bind (case us_order dto of Some n \<Rightarrow> if n \<noteq> sg_sortOrder x then moveWithin i n else ret ()
      | None \<Rightarrow> ret ()) (\<lambda>_. reads (find_stage i))"
    let ?named = "case us_name dto of Some name \<Rightarrow> if name \<noteq> sg_name x then assertNameFree name (Some i) else ret ()
      | None \<Rightarrow> ret ()"
    have rest: "keeps ladder_ok (?rest u)" for u
      by (intro keeps_bind keeps_reads) (auto intro: keeps_moveWithin keeps_ret split: option.split)
    have run: "stage_update i dto img s = bind ?named (\<lambda>_. bind (if ?ranged then assertRange ?lo ?hi (Some i) else ret ())
      (\<lambda>_. transactional (bind (save_stage ?x') ?rest))) s"
      by (simp add: stage_update_def Some Let_def)
    have "\<exists>r. ?named s = (r, s)"
      using assertNameFree_run by (auto simp: ret_def split: option.split)
    then obtain r where named: "?named s = (r, s)" ..
    have saved: "ladder_ok (snd (transactional (bind (save_stage ?x') ?rest) s))"
      if "\<not> ?ranged \<or> range_free ?lo ?hi (Some i) s"
      by (rule keeps_saving [OF ok Some]) (use that find_stage_row [OF Some] rest in \<open>auto simp: or_else_def\<close>)
    show ?thesis
    proof (cases r)
      case (Inl e)
      then show ?thesis using ok unfolding run by (simp add: bind_Inl [where m = ?named, OF named [unfolded Inl]])
    next
      case (Inr u)
      show ?thesis
      proof (cases "\<not> ?ranged \<or> range_free ?lo ?hi (Some i) s")
        case True
        then show ?thesis using saved
          unfolding run bind_Inr [where m = ?named, OF named [unfolded Inr]]
          by (auto simp: bind_Inr [where m = "assertRange _ _ _"] assertRange_run split: if_split)
      next
        case False
        then show ?thesis using ok
          unfolding run bind_Inr [where m = ?named, OF named [unfolded Inr]]
          by (auto simp: bind_Inl [where m = "assertRange _ _ _"] assertRange_run split: if_split)
      qed
    qed
  qed
  then show ?thesis by (simp add: keeps_def)
qed

lemma keeps_remove: "keeps ladder_ok (stage_remove i)"
proof -
  have "ladder_ok (snd (stage_remove i s))" if ok: "ladder_ok s" for s
  proof (cases "find_stage i s")
    case None
    then show ?thesis using ok by (simp add: stage_remove_def throw_def)
  next
    case (Some x)
    then show ?thesis
      using ladder_removed [OF ok, of x] find_stage_row [OF Some]
      by (simp add: stage_remove_def transactional_def shift_orders_def writes_def bind_def)
  qed
  then show ?thesis by (simp add: keeps_def)
qed

text \<open>C27: whatever requests the administrator makes, accepted or refused, the stages stay numbered
  1, 2, ... without a gap or a repetition, and their bands of points never overlap.
\<close>

theorem ladder_is_kept:
  assumes "ladder_ok s"
  shows "ladder_ok (foldl (\<lambda>s r. snd (serve r s)) s requests)"
  using assms
proof (induction requests arbitrary: s)
  case (Cons r rs)
  have "keeps ladder_ok (serve r)"
    by (cases r) (auto intro!: keeps_bind keeps_ret keeps_create keeps_update keeps_reorder keeps_remove)
  then show ?case using Cons by (simp add: keeps_def)
qed simp

definition ex_stage :: "ident \<Rightarrow> int \<Rightarrow> int \<Rightarrow> int \<Rightarrow> stage" where
  "ex_stage i n lo hi = \<lparr>sg_id = i, sg_name = i, sg_imageUrl = None, sg_sortOrder = n, sg_minPoints = lo,
     sg_maxPoints = hi, sg_isActive = True\<rparr>"

definition ex_ladder :: store where
  "ex_ladder = ex_store\<lparr>db_stages := [ex_stage ''Bronze'' 1 0 100, ex_stage ''Silver'' 2 101 200, ex_stage ''Gold'' 3 201 300]\<rparr>"

lemma ex_ladder_ok: "ladder_ok ex_ladder"
proof -
  have num: "{1..3} = {1, 2, 3 :: int}" by auto
  have name: "replicate n CHR ''u'' \<noteq> ''Bronze''" "replicate n CHR ''u'' \<noteq> ''Silver''" "replicate n CHR ''u'' \<noteq> ''Gold''" for n
    by (cases n; simp)+
  have uuid: "db_uuid ex_store = (\<lambda>n. replicate n CHR ''u'')" by (simp add: ex_store_def)
  show ?thesis unfolding ladder_ok_def fresh_for_def
    by (auto simp: ex_ladder_def ex_stage_def ladder_keys_def numbered_def num apart_def name uuid
        ex_uuid_inj [unfolded uuid])
qed

definition ex_requests :: "request list" where
  "ex_requests = [REORDER ''Gold'' 1, REMOVE ''Silver'',
     CREATE \<lparr>cs_name = ''Gold'', cs_minPoints = 150, cs_maxPoints = 250, cs_isActive = None\<rparr> (Some ''png'')]"

theorem ladder_is_kept_witness:
  "ladder_ok (foldl (\<lambda>s r. snd (serve r s)) ex_ladder ex_requests)
   \<and> map sg_name (db_stages (snd (serve (REMOVE ''Silver'') ex_ladder))) = [''Bronze'', ''Gold'']
   \<and> map sg_sortOrder (db_stages (snd (serve (REMOVE ''Silver'') ex_ladder))) = [1, 2]"
  using ladder_is_kept [OF ex_ladder_ok, of ex_requests]
  by (simp add: ex_ladder_def ex_stage_def ex_store_def stage_remove_def find_stage_def transactional_def shift_orders_def
      writes_def bind_def)

text \<open>
  The bounds are whole numbers and a balance is not: a balance between the last point of a stage and
  the first of the next is in no stage.
\<close>

lemma between_two_stages: "stage_of (201 / 2) ex_ladder = None"
  by (simp add: stage_of_def active_stages_def in_band_def ex_ladder_def ex_stage_def ex_store_def)

end
