(* ===== verification/PointsWallet.thy ===== *)
theory PointsWallet
  imports Stages "HOL-Library.List_Lexorder" "HOL-Library.Char_ord" "HOL-Library.Product_Lexorder"
begin

text \<open>
  \<open>points-wallet/\<close>: the rate an administrator sets per role, the points an order or a collection
  earns, the wallets, the leaderboard and the baseline its trends are measured against.  Points are
  rationals; the binary rounding of the figures before they are rounded to two decimals is left out.
\<close>

section \<open>Rates\<close>

definition WALLET_ELIGIBLE_ROLES :: "role list" where
  "WALLET_ELIGIBLE_ROLES = [CITIZEN, INSTITUTIONS, FACTORY, EXTERNAL_PARTNER]"

definition isWalletEligible :: "role \<Rightarrow> bool" where
  "isWalletEligible r = List.member WALLET_ELIGIBLE_ROLES r"

definition roundPoints :: "rat \<Rightarrow> rat" where
  "roundPoints n = of_int (math_round (n * 100)) / 100"

definition forRole :: "role \<Rightarrow> store \<Rightarrow> points_rate option" where
  "forRole r s = find (\<lambda>x. rt_role x = r) (db_pointRates s)"

definition assert_rate :: "role \<Rightarrow> rat \<Rightarrow> unit action" where
  "assert_rate r amount =
     bind (refuse_if (\<not> isWalletEligible r) BadRequest) (\<lambda>_.
     refuse_if (\<not> 0 < amount) BadRequest)"

definition save_rate :: "points_rate \<Rightarrow> unit action" where
  "save_rate x = writes (\<lambda>s. s\<lparr>db_pointRates := tbl_save rt_id x (db_pointRates s)\<rparr>)"

text \<open>The column keeps three decimals of the amount.\<close>

definition rate_create :: "role \<Rightarrow> rat \<Rightarrow> ident \<Rightarrow> points_rate action" where
  "rate_create r amount adminId =
     bind (assert_rate r amount) (\<lambda>_.
     bind (reads (forRole r)) (\<lambda>found.
     bind (reads db_currency) (\<lambda>currency.
     bind (case found of Some x \<Rightarrow> ret (rt_id x) | None \<Rightarrow> fresh_id) (\<lambda>i.
     let saved = \<lparr>rt_id = i, rt_role = r, rt_amountPerPoint = round3 amount, rt_currency = currency,
       rt_updatedBy = Some adminId\<rparr> in
     bind (save_rate saved) (\<lambda>_. ret saved)))))"

definition points_rate_update :: "role \<Rightarrow> rat option \<Rightarrow> ident \<Rightarrow> points_rate action" where
  "points_rate_update r amountPerPoint adminId =
     bind (reads (forRole r)) (\<lambda>found. case found of None \<Rightarrow> throw NotFound | Some x \<Rightarrow>
     let amount = or_else amountPerPoint (rt_amountPerPoint x) in
     bind (assert_rate r amount) (\<lambda>_.
     bind (reads db_currency) (\<lambda>currency.
     let saved = x\<lparr>rt_amountPerPoint := round3 amount, rt_currency := currency, rt_updatedBy := Some adminId\<rparr> in
     bind (save_rate saved) (\<lambda>_. ret saved))))"

section \<open>Standings and their baseline\<close>

definition on_board :: "store \<Rightarrow> points_wallet \<Rightarrow> bool" where
  "on_board s w = (case tbl_find ac_id (pw_accountId w) (db_accounts s) of
     None \<Rightarrow> False | Some a \<Rightarrow> ac_status a = A_ACTIVE \<and> ac_role a = CITIZEN)"

definition board_key :: "points_wallet \<Rightarrow> rat \<times> time \<times> ident" where
  "board_key w = (- pw_points w, pw_createdAt w, pw_id w)"

definition active_citizens :: "store \<Rightarrow> points_wallet list" where
  "active_citizens s = filter (on_board s) (db_wallets s)"

definition standings :: "store \<Rightarrow> points_wallet list" where
  "standings s = sort_key board_key (active_citizens s)"

datatype leaderboard_trend = UP | DOWN | SAME

fun deriveTrend :: "nat \<Rightarrow> nat option \<Rightarrow> leaderboard_trend \<times> int" where
  "deriveTrend currentRank None = (SAME, 0)"
| "deriveTrend currentRank (Some previousRank) =
     (let change = int previousRank - int currentRank in
      if change > 0 then (UP, change) else if change < 0 then (DOWN, change) else (SAME, 0))"

text \<open>
  The baseline's points column is an integer column, and the query gives PostgreSQL the text of a
  decimal: \<open>stored\<close> is what the column's input makes of it, nothing when it rejects the text.
\<close>

definition refreshBaseline :: "(rat \<Rightarrow> int option) \<Rightarrow> time \<Rightarrow> unit action" where
  "refreshBaseline stored takenAt =
     bind (reads standings) (\<lambda>ranked.
     if ranked = [] then ret ()
     else if \<not> list_all (\<lambda>w. stored (pw_points w) \<noteq> None) ranked then throw Crash
     else writes (\<lambda>s. s\<lparr>db_baselines := filter (\<lambda>b. List.member (map pw_accountId ranked) (ls_accountId b))
       (tbl_save_all ls_accountId (map (\<lambda>(rank, w). \<lparr>ls_accountId = pw_accountId w, ls_rank = rank,
          ls_points = the (stored (pw_points w)), ls_takenAt = takenAt\<rparr>) (enumerate 1 ranked)) (db_baselines s))\<rparr>))"

definition takeDailySnapshot :: "bool \<Rightarrow> (rat \<Rightarrow> int option) \<Rightarrow> time \<Rightarrow> unit action" where
  "takeDailySnapshot isWorker stored now = (if isWorker then refreshBaseline stored now else ret ())"

definition previousRanks :: "ident list \<Rightarrow> store \<Rightarrow> ident \<Rightarrow> nat option" where
  "previousRanks accountIds s i =
     (if List.member accountIds i then map_option ls_rank (tbl_find ls_accountId i (db_baselines s)) else None)"

section \<open>Wallets and awards\<close>

definition wallet_of :: "ident \<Rightarrow> store \<Rightarrow> points_wallet option" where
  "wallet_of accountId s = find (\<lambda>w. pw_accountId w = accountId) (db_wallets s)"

definition save_wallet :: "points_wallet \<Rightarrow> unit action" where
  "save_wallet w = writes (\<lambda>s. s\<lparr>db_wallets := tbl_save pw_id w (db_wallets s)\<rparr>)"

definition ensureForAccount :: "ident \<Rightarrow> role \<Rightarrow> time \<Rightarrow> points_wallet option action" where
  "ensureForAccount accountId r now =
     (if \<not> isWalletEligible r then ret None
      else bind (reads (wallet_of accountId)) (\<lambda>found. case found of Some w \<Rightarrow> ret (Some w) | None \<Rightarrow>
        bind fresh_id (\<lambda>i.
        let w = \<lparr>pw_id = i, pw_accountId = accountId, pw_points = 0, pw_createdAt = now\<rparr> in
        bind (save_wallet w) (\<lambda>_. ret (Some w)))))"

record wallet_view =
  wv_points :: rat
  wv_wallet_id :: "ident option"

definition wallet_view_of :: "ident \<Rightarrow> role \<Rightarrow> time \<Rightarrow> wallet_view action" where
  "wallet_view_of accountId r now =
     bind (reads (wallet_of accountId)) (\<lambda>found.
     bind (case found of Some w \<Rightarrow> ret (Some w) | None \<Rightarrow> ensureForAccount accountId r now) (\<lambda>w.
     ret \<lparr>wv_points = (case w of None \<Rightarrow> 0 | Some w \<Rightarrow> pw_points w), wv_wallet_id = map_option pw_id w\<rparr>))"

definition createNotification :: "notice \<Rightarrow> unit action" where
  "createNotification nt = writes (\<lambda>s. s\<lparr>db_notices := db_notices s @ [nt]\<rparr>)"

record points_award =
  pa_points :: rat
  pa_balance :: rat

text \<open>
  Both awards convert a value the same way and differ in the notification.  The standings before the
  award become the baseline if that can be stored; a failure is swallowed.
\<close>

definition award :: "(rat \<Rightarrow> int option) \<Rightarrow> string \<Rightarrow> ident \<Rightarrow> role \<Rightarrow> rat \<Rightarrow> string \<Rightarrow> time \<Rightarrow> points_award option action" where
  "award stored titleKey accountId r amount reference now =
     bind (reads (forRole r)) (\<lambda>rate. case rate of None \<Rightarrow> ret None | Some rate \<Rightarrow>
     let per = rt_amountPerPoint rate in
     if \<not> 0 < per \<or> \<not> 0 < amount then ret None
     else
       let points = roundPoints (amount / per) in
       if points \<le> 0
       then bind (wallet_view_of accountId r now) (\<lambda>v. ret (Some \<lparr>pa_points = 0, pa_balance = wv_points v\<rparr>))
       else bind (ensureForAccount accountId r now) (\<lambda>wallet. case wallet of None \<Rightarrow> ret None | Some w \<Rightarrow>
         bind (best_effort (refreshBaseline stored now)) (\<lambda>_.
         let w' = w\<lparr>pw_points := roundPoints (pw_points w + points)\<rparr> in
         bind (save_wallet w') (\<lambda>_.
         bind (best_effort (createNotification \<lparr>no_userId = accountId, no_titleKey = titleKey, no_reference = reference\<rparr>)) (\<lambda>_.
         ret (Some \<lparr>pa_points = points, pa_balance = pw_points w'\<rparr>))))))"

definition awardForOrder :: "(rat \<Rightarrow> int option) \<Rightarrow> ident \<Rightarrow> role \<Rightarrow> rat \<Rightarrow> string option \<Rightarrow> time \<Rightarrow> points_award option action" where
  "awardForOrder stored accountId r orderValue orderNumber now =
     award stored ''notifications.pointsEarned.title'' accountId r orderValue (or_else orderNumber []) now"

definition awardForCollection :: "(rat \<Rightarrow> int option) \<Rightarrow> ident \<Rightarrow> role \<Rightarrow> rat \<Rightarrow> string option \<Rightarrow> time \<Rightarrow> points_award option action" where
  "awardForCollection stored accountId r amount requestNumber now =
     award stored ''notifications.collectionPointsEarned.title'' accountId r amount (or_else requestNumber []) now"

section \<open>The leaderboard\<close>

record board_row =
  br_rank :: nat
  br_account_id :: ident
  br_name :: "string option"
  br_points :: rat
  br_stage :: "string option"
  br_trend :: "leaderboard_trend \<times> int"

record board_me =
  bm_rank :: nat
  bm_points :: rat
  bm_stage :: "string option"
  bm_trend :: "leaderboard_trend \<times> int"

record board =
  bd_me :: "board_me option"
  bd_rows :: "board_row list"
  bd_total :: nat
  bd_total_pages :: nat
  bd_has_next :: bool
  bd_has_prev :: bool

definition stage_name :: "store \<Rightarrow> rat \<Rightarrow> string option" where
  "stage_name s pts = map_option sg_name (stage_of pts s)"

text \<open>The two counts the caller's own rank is computed from.\<close>

definition own_rank :: "store \<Rightarrow> points_wallet \<Rightarrow> nat" where
  "own_rank s mine =
     (let ahead = length (filter (\<lambda>w. pw_points mine < pw_points w) (active_citizens s));
          tiedAhead = length (filter (\<lambda>w. pw_points w = pw_points mine \<and> (pw_createdAt w < pw_createdAt mine
            \<or> pw_createdAt w = pw_createdAt mine \<and> pw_id w < pw_id mine)) (active_citizens s))
      in ahead + tiedAhead + 1)"

definition board_row_of :: "store \<Rightarrow> (ident \<Rightarrow> nat option) \<Rightarrow> nat \<times> points_wallet \<Rightarrow> board_row" where
  "board_row_of s previous rw =
     \<lparr>br_rank = fst rw, br_account_id = pw_accountId (snd rw),
      br_name = map_option ac_name (tbl_find ac_id (pw_accountId (snd rw)) (db_accounts s)),
      br_points = pw_points (snd rw), br_stage = stage_name s (pw_points (snd rw)),
      br_trend = deriveTrend (fst rw) (previous (pw_accountId (snd rw)))\<rparr>"

definition leaderboard :: "int \<Rightarrow> int \<Rightarrow> ident option \<Rightarrow> store \<Rightarrow> board" where
  "leaderboard page limit callerAccountId s =
     (let p = page_no page; l = page_limit limit; offset = (p - 1) * l;
          entries = length (active_citizens s);
          rows = page_rows p l (standings s);
          previous = previousRanks (map pw_accountId rows @ (case callerAccountId of None \<Rightarrow> [] | Some c \<Rightarrow> [c])) s
      in \<lparr>bd_me = (case callerAccountId of None \<Rightarrow> None | Some c \<Rightarrow>
            (case find (\<lambda>w. pw_accountId w = c) (active_citizens s) of None \<Rightarrow> None | Some mine \<Rightarrow>
              Some \<lparr>bm_rank = own_rank s mine, bm_points = pw_points mine, bm_stage = stage_name s (pw_points mine),
                bm_trend = deriveTrend (own_rank s mine) (previous c)\<rparr>)),
          bd_rows = map (board_row_of s previous) (enumerate (offset + 1) rows),
          bd_total = entries, bd_total_pages = (entries + l - 1) div l,
          bd_has_next = (p * l < entries), bd_has_prev = (1 < p)\<rparr>)"

section \<open>Rank and position\<close>

definition before :: "store \<Rightarrow> points_wallet \<Rightarrow> nat" where
  "before s w = length (filter (\<lambda>x. board_key x < board_key w) (active_citizens s))"

lemma length_filter_split:
  assumes "\<And>x. x \<in> set xs \<Longrightarrow> R x \<longleftrightarrow> P x \<or> Q x" and "\<And>x. x \<in> set xs \<Longrightarrow> \<not> (P x \<and> Q x)"
  shows "length (filter R xs) = length (filter P xs) + length (filter Q xs)"
  using assms by (induction xs) auto

lemma own_rank_before: "own_rank s w = before s w + 1"
proof -
  have "before s w = length (filter (\<lambda>x. pw_points w < pw_points x) (active_citizens s))
      + length (filter (\<lambda>x. pw_points x = pw_points w \<and> (pw_createdAt x < pw_createdAt w
          \<or> pw_createdAt x = pw_createdAt w \<and> pw_id x < pw_id w)) (active_citizens s))"
    unfolding before_def by (rule length_filter_split) (auto simp: board_key_def less_prod_def')
  then show ?thesis by (simp add: own_rank_def Let_def)
qed

lemma count_before:
  assumes "sorted_wrt (\<lambda>x y. key x < (key y :: 'k :: linorder)) ys" and "i < length ys"
  shows "length (filter (\<lambda>y. key y < key (ys ! i)) ys) = i"
  using assms
proof (induction ys arbitrary: i)
  case (Cons y ys)
  show ?case
  proof (cases i)
    case 0
    have "filter (\<lambda>x. key x < key y) ys = []" using Cons.prems(1) by (auto simp: filter_empty_conv dest: less_not_sym)
    then show ?thesis using 0 by simp
  next
    case (Suc j)
    then have "key y < key (ys ! j)" using Cons.prems by simp
    then show ?thesis using Suc Cons.IH [of j] Cons.prems by simp
  qed
qed simp

lemma strict_sort_key:
  assumes "inj_on key (set xs)" and "distinct xs"
  shows "sorted_wrt (\<lambda>x y. key x < (key y :: 'k :: linorder)) (sort_key key xs)"
proof -
  have "sorted (map key (sort_key key xs))" by (rule sorted_sort_key)
  moreover have "distinct (map key (sort_key key xs))" using assms by (simp add: distinct_map)
  ultimately have "sorted_wrt (<) (map key (sort_key key xs))" by (simp add: strict_sorted_iff)
  then show ?thesis by (simp add: sorted_wrt_map)
qed

definition wallet_ids :: "store \<Rightarrow> ident set" where
  "wallet_ids s = pw_id ` set (db_wallets s)"

definition wallets_ok :: "store \<Rightarrow> bool" where
  "wallets_ok s \<longleftrightarrow> fresh_for wallet_ids s \<and> distinct (map pw_id (db_wallets s)) \<and> distinct (map pw_accountId (db_wallets s))"

lemma position_is_rank:
  assumes "wallets_ok s" and "i < length (standings s)"
  shows "own_rank s (standings s ! i) = i + 1"
proof -
  have ids: "distinct (map pw_id (active_citizens s))"
    using assms(1) by (simp add: wallets_ok_def active_citizens_def distinct_map_filter)
  then have "inj_on board_key (set (active_citizens s))" "distinct (active_citizens s)"
    by (auto simp: inj_on_def board_key_def distinct_map)
  then have "sorted_wrt (\<lambda>x y. board_key x < board_key y) (standings s)"
    unfolding standings_def by (rule strict_sort_key)
  from count_before [OF this assms(2)] have count: "length (filter (\<lambda>x. board_key x < board_key (standings s ! i)) (standings s)) = i" .
  have "mset (standings s) = mset (active_citizens s)" by (simp add: standings_def)
  then have "length (filter P (standings s)) = length (filter P (active_citizens s))" for P
    by (metis mset_filter size_mset)
  then show ?thesis using count by (simp add: own_rank_before before_def)
qed

lemma find_by_key:
  "distinct (map key xs) \<Longrightarrow> x \<in> set xs \<Longrightarrow> find (\<lambda>y. key y = key x) xs = Some x"
  by (induction xs) (auto simp: image_iff)


section \<open>The trend an award causes\<close>

lemma tbl_find_save_all:
  "distinct (map key rs) \<Longrightarrow> r \<in> set rs \<Longrightarrow> tbl_find key (key r) (tbl_save_all key rs rows) = Some r"
proof (induction rs arbitrary: rows)
  case (Cons x rs)
  have other: "tbl_find key k (tbl_save_all key rs rows) = tbl_find key k rows" if "k \<notin> key ` set rs" for k rows
    using that by (induction rs arbitrary: rows) (simp_all add: tbl_save_all_def tbl_find_save)
  show ?case
  proof (cases "r = x")
    case True
    then have "key r \<notin> key ` set rs" using Cons.prems(1) by simp
    then show ?thesis using True other by (simp add: tbl_save_all_def tbl_find_save)
  next
    case False
    then show ?thesis using Cons by (simp add: tbl_save_all_def)
  qed
qed simp

lemma tbl_find_filter_key:
  "P k \<Longrightarrow> tbl_find key k (filter (\<lambda>r. P (key r)) rows) = tbl_find key k rows"
  by (induction rows) auto

text \<open>The baseline a successful refresh stores is the rank each account has at that moment.\<close>

lemma baseline_is_rank:
  assumes ok: "wallets_ok s" and stored: "\<And>w. w \<in> set (active_citizens s) \<Longrightarrow> stored (pw_points w) \<noteq> None"
    and run: "refreshBaseline stored now s = (r, s')" and w: "w \<in> set (active_citizens s)"
  shows "previousRanks [pw_accountId w] s' (pw_accountId w) = Some (own_rank s w)"
    and "s' = s\<lparr>db_baselines := db_baselines s'\<rparr>"
proof -
  let ?row = "\<lambda>(rank, w). \<lparr>ls_accountId = pw_accountId w, ls_rank = rank, ls_points = the (stored (pw_points w)),
    ls_takenAt = now\<rparr>"
  let ?rows = "map ?row (enumerate 1 (standings s))"
  have set: "set (standings s) = set (active_citizens s)" by (simp add: standings_def)
  then have "standings s \<noteq> []" "list_all (\<lambda>w. stored (pw_points w) \<noteq> None) (standings s)"
    using w stored by (auto simp: list_all_iff)
  then have s': "s' = s\<lparr>db_baselines := filter (\<lambda>b. List.member (map pw_accountId (standings s)) (ls_accountId b))
      (tbl_save_all ls_accountId ?rows (db_baselines s))\<rparr>"
    using run by (simp add: refreshBaseline_def)
  then show "s' = s\<lparr>db_baselines := db_baselines s'\<rparr>" by simp
  obtain i where i: "i < length (standings s)" "standings s ! i = w" using w set by (metis in_set_conv_nth)
  have "(Suc i, w) \<in> set (enumerate 1 (standings s))" using i by (simp add: in_set_enumerate_eq)
  then have row: "?row (Suc i, w) \<in> set ?rows" by (auto intro: image_eqI [rotated])
  have "map ls_accountId ?rows = map pw_accountId (standings s)"
    by (rule nth_equalityI) (simp_all add: nth_enumerate_eq)
  moreover have "distinct (map pw_accountId (active_citizens s))"
    using ok by (simp add: wallets_ok_def active_citizens_def distinct_map_filter)
  then have "distinct (map pw_accountId (standings s))"
    by (simp add: standings_def distinct_map)
  ultimately have d: "distinct (map ls_accountId ?rows)" by simp
  have "tbl_find ls_accountId (pw_accountId w) (db_baselines s') = Some (?row (Suc i, w))"
    using tbl_find_save_all [OF d row, of "db_baselines s"] w set
    by (simp add: s' tbl_find_filter_key [where P = "\<lambda>k. k \<in> pw_accountId ` set (active_citizens s)"])
  then show "previousRanks [pw_accountId w] s' (pw_accountId w) = Some (own_rank s w)"
    using position_is_rank [OF ok i(1)] i(2) by (simp add: previousRanks_def)
qed

lemma wallet_of_row: "wallet_of c s = Some w \<Longrightarrow> w \<in> set (db_wallets s) \<and> pw_accountId w = c"
  by (auto simp: wallet_of_def find_Some_iff)

lemma ensureForAccount_run:
  assumes ok: "wallets_ok s" and run: "ensureForAccount c r now s = (Inr (Some w), s1)"
  shows "wallets_ok s1 \<and> w \<in> set (db_wallets s1) \<and> pw_accountId w = c"
proof (cases "wallet_of c s")
  case (Some v)
  then show ?thesis
    using run ok wallet_of_row [OF Some] by (auto simp: ensureForAccount_def split: if_splits)
next
  case None
  let ?w = "\<lparr>pw_id = db_uuid s (db_next s), pw_accountId = c, pw_points = 0, pw_createdAt = now\<rparr>"
  have fresh: "fresh_for wallet_ids s" using ok by (simp add: wallets_ok_def)
  then have new: "pw_id ?w \<notin> pw_id ` set (db_wallets s)" using fresh_next [OF fresh] by (simp add: wallet_ids_def)
  have "c \<notin> pw_accountId ` set (db_wallets s)" using None by (auto simp: wallet_of_def find_None_iff)
  moreover have s1: "w = ?w" "s1 = s\<lparr>db_next := Suc (db_next s), db_wallets := db_wallets s @ [?w]\<rparr>"
    using run None tbl_save_fresh [of pw_id ?w "db_wallets s"] new
    by (auto simp: ensureForAccount_def fresh_id_def save_wallet_def Let_def split: if_splits)
  moreover have "fresh_for wallet_ids (s\<lparr>db_next := Suc (db_next s), db_wallets := db_wallets s @ [?w]\<rparr>)"
    by (rule fresh_after [OF fresh]) (auto simp: wallet_ids_def)
  ultimately show ?thesis using ok new by (auto simp: wallets_ok_def)
qed

lemma award_run:
  assumes run: "award stored key c r v ref now s = (Inr (Some a), s')" and pos: "0 < pa_points a"
  obtains w s1 s2 e where "ensureForAccount c r now s = (Inr (Some w), s1)" "refreshBaseline stored now s1 = (e, s2)"
    "pa_balance a = roundPoints (pw_points w + pa_points a)" "\<exists>x. pa_points a = roundPoints x"
    "s' = s2\<lparr>db_wallets := tbl_save pw_id (w\<lparr>pw_points := pa_balance a\<rparr>) (db_wallets s2),
      db_notices := db_notices s2 @ [\<lparr>no_userId = c, no_titleKey = key, no_reference = ref\<rparr>]\<rparr>"
proof -
  from run obtain rate where rate: "forRole r s = Some rate" "0 < rt_amountPerPoint rate" "0 < v"
    by (auto simp: award_def Let_def split: option.splits if_splits)
  let ?points = "roundPoints (v / rt_amountPerPoint rate)"
  have enough: "\<not> ?points \<le> 0"
  proof
    assume small: "?points \<le> 0"
    then have "bind (wallet_view_of c r now) (\<lambda>u. ret (Some \<lparr>pa_points = 0, pa_balance = wv_points u\<rparr>)) s = (Inr (Some a), s')"
      using run rate by (simp add: award_def Let_def)
    then show False using pos by (auto simp: bind_Inr_iff)
  qed
  from run obtain found s1 where ensure: "ensureForAccount c r now s = (Inr found, s1)"
    and rest: "(case found of None \<Rightarrow> ret None | Some w \<Rightarrow>
         bind (best_effort (refreshBaseline stored now)) (\<lambda>_.
         bind (save_wallet (w\<lparr>pw_points := roundPoints (pw_points w + ?points)\<rparr>)) (\<lambda>_.
         bind (best_effort (createNotification \<lparr>no_userId = c, no_titleKey = key, no_reference = ref\<rparr>)) (\<lambda>_.
         ret (Some \<lparr>pa_points = ?points, pa_balance = roundPoints (pw_points w + ?points)\<rparr>))))) s1 = (Inr (Some a), s')"
    using rate enough by (auto simp: award_def Let_def bind_Inr_iff)
  obtain w where w: "found = Some w" using rest by (cases found) simp_all
  obtain e s2 where refresh: "refreshBaseline stored now s1 = (e, s2)" by fastforce
  have a: "pa_points a = ?points" "pa_balance a = roundPoints (pw_points w + ?points)"
    and s': "s' = s2\<lparr>db_wallets := tbl_save pw_id (w\<lparr>pw_points := pa_balance a\<rparr>) (db_wallets s2),
      db_notices := db_notices s2 @ [\<lparr>no_userId = c, no_titleKey = key, no_reference = ref\<rparr>]\<rparr>"
    using rest by (auto simp: w best_effort_def refresh save_wallet_def createNotification_def bind_def writes_def)
  show thesis by (rule that [OF ensure [unfolded w] refresh _ _ s']) (use a in auto)
qed

lemma roundPoints_grows:
  assumes "0 < roundPoints p" shows "x < roundPoints (x + roundPoints p)"
proof -
  define n where "n = math_round (p * 100)"
  have p: "roundPoints p = of_int n / 100" by (simp add: roundPoints_def n_def)
  then have n: "1 \<le> n" using assms by simp
  have "math_round ((x + of_int n / 100) * 100) = math_round (x * 100) + n"
    by (simp add: math_round_def algebra_simps)
  moreover have "x * 100 - 1/2 < of_int (math_round (x * 100))" by (rule math_round_bounds)
  moreover have "1 \<le> (of_int n :: rat)" using n by simp
  ultimately have "x * 100 < of_int (math_round ((x + of_int n / 100) * 100))" by simp
  then show ?thesis unfolding p by (simp add: roundPoints_def)
qed

lemma length_filter_mono:
  "(\<And>x. x \<in> set xs \<Longrightarrow> P x \<Longrightarrow> Q x) \<Longrightarrow> length (filter P xs) \<le> length (filter Q xs)"
  by (induction xs) auto

text \<open>Raising one wallet cannot lower its owner, nor raise anybody else.\<close>

lemma ranks_after_raise:
  assumes ok: "wallets_ok s" and w: "w \<in> set (db_wallets s)" and p: "pw_points w < p"
    and rows: "db_wallets s' = tbl_save pw_id (w\<lparr>pw_points := p\<rparr>) (db_wallets s)" and accounts: "db_accounts s' = db_accounts s"
    and x: "x \<in> set (active_citizens s')"
  obtains y where "y \<in> set (active_citizens s)" "pw_accountId y = pw_accountId x"
    "if pw_accountId x = pw_accountId w then own_rank s' x \<le> own_rank s y else own_rank s y \<le> own_rank s' x"
proof -
  let ?w' = "w\<lparr>pw_points := p\<rparr>"
  define f where "f = (\<lambda>y. if pw_id y = pw_id w then ?w' else y)"
  have ids: "distinct (map pw_id (db_wallets s))" and accs: "distinct (map pw_accountId (db_wallets s))"
    using ok by (simp_all add: wallets_ok_def)
  have "tbl_save pw_id ?w' (db_wallets s) = map f (db_wallets s)"
    using tbl_save_map [OF ids, of ?w'] w by (simp add: f_def)
  then have wallets: "db_wallets s' = map f (db_wallets s)" using rows by simp
  have only: "y = w" if "y \<in> set (db_wallets s)" "pw_id y = pw_id w" for y
    using ids w that by (auto simp: distinct_map inj_on_def)
  have acc: "pw_accountId (f y) = pw_accountId y" if "y \<in> set (db_wallets s)" for y
    using only [OF that] by (auto simp: f_def)
  have board: "on_board s' (f y) = on_board s y" if "y \<in> set (db_wallets s)" for y
    using acc [OF that] by (simp add: on_board_def accounts)
  have "filter (on_board s') (map f (db_wallets s)) = map f (filter (\<lambda>y. on_board s' (f y)) (db_wallets s))"
    by (simp add: filter_map comp_def)
  also have "filter (\<lambda>y. on_board s' (f y)) (db_wallets s) = active_citizens s"
    unfolding active_citizens_def by (rule filter_cong) (simp_all add: board)
  finally have citizens: "active_citizens s' = map f (active_citizens s)"
    unfolding active_citizens_def [of s'] wallets .
  then obtain y where y: "y \<in> set (active_citizens s)" "x = f y" using x by auto
  have mem: "z \<in> set (db_wallets s)" if "z \<in> set (active_citizens s)" for z using that by (simp add: active_citizens_def)
  have ahead: "before s' (f z) = length (filter (\<lambda>u. board_key (f u) < board_key (f z)) (active_citizens s))" for z
    by (simp add: before_def citizens filter_map comp_def)
  have key: "board_key (f u) = (if u = w then board_key ?w' else board_key u)" if "u \<in> set (active_citizens s)" for u
    using only [OF mem [OF that]] by (auto simp: f_def)
  have up: "board_key ?w' < board_key w" using p by (simp add: board_key_def less_prod_def')
  have "if pw_accountId x = pw_accountId w then before s' x \<le> before s y else before s y \<le> before s' x"
  proof (cases "y = w")
    case True
    have "before s' (f y) \<le> before s y"
      unfolding ahead before_def [of s] by (rule length_filter_mono) (use True up y key in \<open>auto split: if_splits\<close>)
    then show ?thesis using y True acc [OF w] by simp
  next
    case False
    have "before s y \<le> before s' (f y)"
      unfolding ahead before_def [of s] by (rule length_filter_mono) (use False up y key in \<open>auto split: if_splits intro: less_trans\<close>)
    moreover have "pw_accountId y \<noteq> pw_accountId w" using accs w mem [OF y(1)] False by (auto simp: distinct_map inj_on_def)
    ultimately show ?thesis using y acc [OF mem [OF y(1)]] by simp
  qed
  then show thesis using that [OF y(1)] y acc [OF mem [OF y(1)]] by (simp add: own_rank_before split: if_splits)
qed


section \<open>A concrete board\<close>

definition ex_wallet :: "ident \<Rightarrow> ident \<Rightarrow> rat \<Rightarrow> points_wallet" where
  "ex_wallet i acc pts = \<lparr>pw_id = i, pw_accountId = acc, pw_points = pts, pw_createdAt = 0\<rparr>"

definition ex_board :: store where
  "ex_board = ex_store\<lparr>db_wallets := [ex_wallet ''w1'' ''a'' 3, ex_wallet ''w2'' ''b'' 5],
     db_accounts := [\<lparr>ac_id = ''a'', ac_name = ''A'', ac_role = CITIZEN, ac_status = A_ACTIVE\<rparr>,
       \<lparr>ac_id = ''b'', ac_name = ''B'', ac_role = CITIZEN, ac_status = A_ACTIVE\<rparr>],
     db_pointRates := [\<lparr>rt_id = ''r'', rt_role = CITIZEN, rt_amountPerPoint = 1000, rt_currency = ''SYP'', rt_updatedBy = None\<rparr>]\<rparr>"

lemma ex_wallets_ok: "wallets_ok ex_board"
proof -
  have name: "replicate n CHR ''u'' \<noteq> ''w1''" "replicate n CHR ''u'' \<noteq> ''w2''" for n by (cases n; simp)+
  have uuid: "db_uuid ex_store = (\<lambda>n. replicate n CHR ''u'')" by (simp add: ex_store_def)
  show ?thesis unfolding wallets_ok_def fresh_for_def
    by (auto simp: ex_board_def ex_wallet_def ex_store_def wallet_ids_def name uuid ex_uuid_inj [unfolded uuid])
qed

lemma ex_citizens: "active_citizens ex_board = [ex_wallet ''w1'' ''a'' 3, ex_wallet ''w2'' ''b'' 5]"
  by (simp add: active_citizens_def on_board_def ex_board_def ex_wallet_def)

lemma ex_standings: "standings ex_board = [ex_wallet ''w2'' ''b'' 5, ex_wallet ''w1'' ''a'' 3]"
  by (simp add: standings_def ex_citizens board_key_def ex_wallet_def less_eq_prod_def)

lemma ex_board_rows: "\<exists>prev. bd_rows (leaderboard 1 20 (Some ''a'') ex_board)
   = [board_row_of ex_board prev (1, ex_wallet ''w2'' ''b'' 5), board_row_of ex_board prev (2, ex_wallet ''w1'' ''a'' 3)]"
proof -
  have page: "page_no 1 = 1" "page_limit 20 = 20" "page_rows 1 20 [x, y] = [x, y]" for x y :: points_wallet
    by (simp_all add: page_no_def page_limit_def page_rows_def)
  have rows: "enumerate (Suc 0) [x, y] = [(1, x), (2, y)]" for x y :: points_wallet by (simp add: numeral_2_eq_2)
  show ?thesis
    by (rule exI [of _ "previousRanks (map pw_accountId (standings ex_board) @ [''a'']) ex_board"])
      (simp only: leaderboard_def Let_def page ex_standings rows option.case board.simps diff_self_eq_0 mult_zero_left
        add_0 One_nat_def [symmetric] list.map, simp add: rows numeral_2_eq_2)
qed


lemma ex_award: "\<exists>s'. awardForOrder (\<lambda>p. Some \<lfloor>p\<rfloor>) ''a'' CITIZEN 3500 (Some ''N1'') 7 ex_board
    = (Inr (Some \<lparr>pa_points = 7/2, pa_balance = 13/2\<rparr>), s') \<and> ex_wallet ''w1'' ''a'' (13/2) \<in> set (active_citizens s')
    \<and> own_rank s' (ex_wallet ''w1'' ''a'' (13/2)) = 1"
proof -
  have rate: "forRole CITIZEN ex_board = Some \<lparr>rt_id = ''r'', rt_role = CITIZEN, rt_amountPerPoint = 1000, rt_currency = ''SYP'', rt_updatedBy = None\<rparr>"
    and wallet: "wallet_of ''a'' ex_board = Some (ex_wallet ''w1'' ''a'' 3)"
    by (simp_all add: forRole_def wallet_of_def ex_board_def ex_wallet_def)
  have points: "roundPoints (7/2) = 7/2" "roundPoints (13/2) = 13/2" by (simp_all add: roundPoints_def math_round_def)
  let ?stored = "\<lambda>p :: rat. Some \<lfloor>p\<rfloor>"
  obtain e s2 where refresh: "refreshBaseline ?stored 7 ex_board = (e, s2)" by fastforce
  then have s2: "db_wallets s2 = db_wallets ex_board" "db_accounts s2 = db_accounts ex_board"
    by (auto simp: refreshBaseline_def split: if_splits)
  have set: "(ex_wallet i acc p)\<lparr>pw_points := q\<rparr> = ex_wallet i acc q" "pw_points (ex_wallet i acc p) = p" for i acc p q
    by (simp_all add: ex_wallet_def)
  define s' where "s' = s2\<lparr>db_wallets := tbl_save pw_id (ex_wallet ''w1'' ''a'' (13/2)) (db_wallets s2),
    db_notices := db_notices s2 @ [\<lparr>no_userId = ''a'', no_titleKey = ''notifications.pointsEarned.title'', no_reference = ''N1''\<rparr>]\<rparr>"
  have run: "awardForOrder ?stored ''a'' CITIZEN 3500 (Some ''N1'') 7 ex_board
      = (Inr (Some \<lparr>pa_points = 7/2, pa_balance = 13/2\<rparr>), s')"
    by (simp add: awardForOrder_def award_def rate wallet Let_def ensureForAccount_def isWalletEligible_def
      WALLET_ELIGIBLE_ROLES_def points best_effort_def refresh save_wallet_def createNotification_def bind_def reads_def
      ret_def writes_def or_else_def set s'_def)
  have rows: "active_citizens s' = [ex_wallet ''w1'' ''a'' (13/2), ex_wallet ''w2'' ''b'' 5]"
    using s2 by (simp add: s'_def ex_board_def ex_wallet_def active_citizens_def on_board_def)
  then have "own_rank s' (ex_wallet ''w1'' ''a'' (13/2)) = 1"
    by (simp add: own_rank_before before_def board_key_def ex_wallet_def less_prod_def')
  then show ?thesis using run rows by auto
qed


text \<open>
  An integer column takes no text with a decimal point, so with the columns as they are declared no
  refresh on a board with a wallet succeeds and the baseline never changes.
\<close>

lemma baseline_refused:
  assumes "w \<in> set (active_citizens s)" and "stored (pw_points w) = None"
  shows "refreshBaseline stored now s = (Inl Crash, s)"
proof -
  have "w \<in> set (standings s)" using assms(1) by (simp add: standings_def)
  then show ?thesis using assms(2) by (auto simp: refreshBaseline_def list_all_iff)
qed

end
