(* ===== verification/CollectionLife.thy ===== *)
theory CollectionLife
  imports OrderLifecycle
begin

text \<open>
  The life cycles of a collection request, of the offer of a request to a driver, of a driver's tour
  and of a shipment (\<open>collection-request/enums/*.ts\<close>), each an instance of the contract
  \<open>lifecycle\<close>.
\<close>

section \<open>Requests: \<open>collection-request-status.enum.ts\<close>\<close>

datatype collection_request_type = IMMEDIATE | SCHEDULED | ORG_PLAN | WALK_IN

datatype request_status =
    Q_CREATED | Q_QUEUED | Q_ASSIGNED | Q_EN_ROUTE | Q_ARRIVED | Q_PICKING | Q_DELIVERED | Q_COMPLETED
  | Q_NEEDS_ADMIN | Q_CANCELLED

fun COLLECTION_REQUEST_TRANSITIONS :: "request_status \<Rightarrow> request_status list" where
  "COLLECTION_REQUEST_TRANSITIONS Q_CREATED = [Q_QUEUED, Q_CANCELLED]"
| "COLLECTION_REQUEST_TRANSITIONS Q_QUEUED = [Q_ASSIGNED, Q_NEEDS_ADMIN, Q_CANCELLED]"
| "COLLECTION_REQUEST_TRANSITIONS Q_ASSIGNED = [Q_EN_ROUTE, Q_CANCELLED]"
| "COLLECTION_REQUEST_TRANSITIONS Q_EN_ROUTE = [Q_ARRIVED, Q_CANCELLED]"
| "COLLECTION_REQUEST_TRANSITIONS Q_ARRIVED = [Q_PICKING, Q_CANCELLED]"
| "COLLECTION_REQUEST_TRANSITIONS Q_PICKING = [Q_DELIVERED]"
| "COLLECTION_REQUEST_TRANSITIONS Q_DELIVERED = [Q_COMPLETED]"
| "COLLECTION_REQUEST_TRANSITIONS Q_COMPLETED = []"
| "COLLECTION_REQUEST_TRANSITIONS Q_NEEDS_ADMIN = [Q_QUEUED, Q_CANCELLED]"
| "COLLECTION_REQUEST_TRANSITIONS Q_CANCELLED = []"

definition PRODUCER_CANCELLABLE_STATUSES :: "request_status list" where
  "PRODUCER_CANCELLABLE_STATUSES = [Q_CREATED, Q_QUEUED, Q_ASSIGNED, Q_EN_ROUTE, Q_ARRIVED, Q_NEEDS_ADMIN]"

definition TERMINAL_COLLECTION_REQUEST_STATUSES :: "request_status list" where
  "TERMINAL_COLLECTION_REQUEST_STATUSES = [Q_COMPLETED, Q_CANCELLED]"

definition canTransitionRequest :: "request_status \<Rightarrow> request_status \<Rightarrow> bool" where
  "canTransitionRequest s t = List.member (COLLECTION_REQUEST_TRANSITIONS s) t"

text \<open>The work in progress of a driver, and the statuses on which he is busy at a pickup.\<close>

definition ACTIVE_TASK_STATUSES :: "request_status list" where
  "ACTIVE_TASK_STATUSES = [Q_ASSIGNED, Q_EN_ROUTE, Q_ARRIVED, Q_PICKING]"

definition BUSY_STATUSES :: "request_status list" where
  "BUSY_STATUSES = [Q_EN_ROUTE, Q_ARRIVED, Q_PICKING]"

fun request_rank :: "request_status \<Rightarrow> nat" where
  "request_rank Q_CREATED = 0"
| "request_rank Q_QUEUED = 1"
| "request_rank Q_NEEDS_ADMIN = 2"
| "request_rank Q_ASSIGNED = 2"
| "request_rank Q_EN_ROUTE = 3"
| "request_rank Q_ARRIVED = 4"
| "request_rank Q_PICKING = 5"
| "request_rank Q_DELIVERED = 6"
| "request_rank Q_COMPLETED = 7"
| "request_rank Q_CANCELLED = 7"

definition request_rewind :: "request_status \<Rightarrow> request_status \<Rightarrow> bool" where
  "request_rewind s t \<longleftrightarrow> s = Q_NEEDS_ADMIN \<and> t = Q_QUEUED"

interpretation requestlife: lifecycle COLLECTION_REQUEST_TRANSITIONS request_rank request_rewind
proof
  fix s t
  show "\<not> allowed COLLECTION_REQUEST_TRANSITIONS s s" by (cases s) (simp_all add: allowed_def)
  show "request_rank s < request_rank t"
    if "allowed COLLECTION_REQUEST_TRANSITIONS s t" "\<not> request_rewind s t"
    using that by (cases s) (auto simp: allowed_def request_rewind_def)
  show "allowed COLLECTION_REQUEST_TRANSITIONS s t" if "request_rewind s t"
    using that by (auto simp: allowed_def request_rewind_def)
qed

lemma canTransitionRequest_allowed: "canTransitionRequest = allowed COLLECTION_REQUEST_TRANSITIONS"
  by (simp add: fun_eq_iff canTransitionRequest_def allowed_def)

text \<open>The producer may cancel exactly where the life cycle lets a request be cancelled.\<close>

lemma producer_cancellable_iff:
  "List.member PRODUCER_CANCELLABLE_STATUSES s \<longleftrightarrow> canTransitionRequest s Q_CANCELLED"
  by (cases s) (simp_all add: PRODUCER_CANCELLABLE_STATUSES_def canTransitionRequest_def)

section \<open>Offers, tours and shipments\<close>

datatype assignment_status = CA_OFFERED | CA_ACCEPTED | CA_REJECTED | CA_EXPIRED | CA_WITHDRAWN

fun ASSIGNMENT_TRANSITIONS :: "assignment_status \<Rightarrow> assignment_status list" where
  "ASSIGNMENT_TRANSITIONS CA_OFFERED = [CA_ACCEPTED, CA_REJECTED, CA_EXPIRED, CA_WITHDRAWN]"
| "ASSIGNMENT_TRANSITIONS CA_ACCEPTED = []"
| "ASSIGNMENT_TRANSITIONS CA_REJECTED = []"
| "ASSIGNMENT_TRANSITIONS CA_EXPIRED = []"
| "ASSIGNMENT_TRANSITIONS CA_WITHDRAWN = []"

definition canTransitionAssignment :: "assignment_status \<Rightarrow> assignment_status \<Rightarrow> bool" where
  "canTransitionAssignment s t = List.member (ASSIGNMENT_TRANSITIONS s) t"

datatype route_status = RT_PLANNED | RT_IN_PROGRESS | RT_COMPLETED | RT_CANCELLED

fun COLLECTION_ROUTE_TRANSITIONS :: "route_status \<Rightarrow> route_status list" where
  "COLLECTION_ROUTE_TRANSITIONS RT_PLANNED = [RT_IN_PROGRESS, RT_CANCELLED]"
| "COLLECTION_ROUTE_TRANSITIONS RT_IN_PROGRESS = [RT_COMPLETED, RT_CANCELLED]"
| "COLLECTION_ROUTE_TRANSITIONS RT_COMPLETED = []"
| "COLLECTION_ROUTE_TRANSITIONS RT_CANCELLED = []"

definition canTransitionRoute :: "route_status \<Rightarrow> route_status \<Rightarrow> bool" where
  "canTransitionRoute s t = List.member (COLLECTION_ROUTE_TRANSITIONS s) t"

datatype shipment_status = SH_CREATED | SH_IN_TRANSIT | SH_DELIVERED | SH_RECEIVED | SH_CANCELLED

fun SHIPMENT_TRANSITIONS :: "shipment_status \<Rightarrow> shipment_status list" where
  "SHIPMENT_TRANSITIONS SH_CREATED = [SH_IN_TRANSIT, SH_CANCELLED]"
| "SHIPMENT_TRANSITIONS SH_IN_TRANSIT = [SH_DELIVERED, SH_RECEIVED, SH_CANCELLED]"
| "SHIPMENT_TRANSITIONS SH_DELIVERED = [SH_RECEIVED]"
| "SHIPMENT_TRANSITIONS SH_RECEIVED = []"
| "SHIPMENT_TRANSITIONS SH_CANCELLED = []"

definition canTransitionShipment :: "shipment_status \<Rightarrow> shipment_status \<Rightarrow> bool" where
  "canTransitionShipment s t = List.member (SHIPMENT_TRANSITIONS s) t"

fun assignment_rank :: "assignment_status \<Rightarrow> nat" where
  "assignment_rank CA_OFFERED = 0"
| "assignment_rank CA_ACCEPTED = 1"
| "assignment_rank CA_REJECTED = 1"
| "assignment_rank CA_EXPIRED = 1"
| "assignment_rank CA_WITHDRAWN = 1"

interpretation assignmentlife: lifecycle ASSIGNMENT_TRANSITIONS assignment_rank "\<lambda>_ _. False"
proof
  fix s t
  show "\<not> allowed ASSIGNMENT_TRANSITIONS s s" by (cases s) (simp_all add: allowed_def)
  show "assignment_rank s < assignment_rank t" if "allowed ASSIGNMENT_TRANSITIONS s t" "\<not> False"
    using that by (cases s) (auto simp: allowed_def)
qed simp

fun route_rank :: "route_status \<Rightarrow> nat" where
  "route_rank RT_PLANNED = 0"
| "route_rank RT_IN_PROGRESS = 1"
| "route_rank RT_COMPLETED = 2"
| "route_rank RT_CANCELLED = 2"

interpretation routelife: lifecycle COLLECTION_ROUTE_TRANSITIONS route_rank "\<lambda>_ _. False"
proof
  fix s t
  show "\<not> allowed COLLECTION_ROUTE_TRANSITIONS s s" by (cases s) (simp_all add: allowed_def)
  show "route_rank s < route_rank t" if "allowed COLLECTION_ROUTE_TRANSITIONS s t" "\<not> False"
    using that by (cases s) (auto simp: allowed_def)
qed simp

fun shipment_rank :: "shipment_status \<Rightarrow> nat" where
  "shipment_rank SH_CREATED = 0"
| "shipment_rank SH_IN_TRANSIT = 1"
| "shipment_rank SH_DELIVERED = 2"
| "shipment_rank SH_RECEIVED = 3"
| "shipment_rank SH_CANCELLED = 3"

interpretation shipmentlife: lifecycle SHIPMENT_TRANSITIONS shipment_rank "\<lambda>_ _. False"
proof
  fix s t
  show "\<not> allowed SHIPMENT_TRANSITIONS s s" by (cases s) (simp_all add: allowed_def)
  show "shipment_rank s < shipment_rank t" if "allowed SHIPMENT_TRANSITIONS s t" "\<not> False"
    using that by (cases s) (auto simp: allowed_def)
qed simp

end
