(* ===== verification/RoutePlanner.thy ===== *)
theory RoutePlanner
  imports Prelude
begin

text \<open>
  \<open>collection-request/providers/route-planner.ts\<close>: the order of a driver's stops, and whether a new
  stop may join a tour that is under way.  \<open>km\<close> is the great-circle distance of \<open>geo.util.ts\<close>
  (trigonometry, a parameter).  The services build every stop with \<open>Number\<close>, so a stop always has a
  pair of numbers and the check for missing coordinates never fires.
\<close>

type_synonym point = "rat \<times> rat"

record route_stop =
  rs_requestId :: ident
  rs_at :: point
  rs_scheduledAt :: "time option"

record route_constraints =
  rc_mergeMaxMinutes :: rat
  rc_mergeMaxKm :: rat
  rc_institutionToleranceMin :: rat
  rc_avgSpeedKmh :: rat

definition DEFAULT_ROUTE_CONSTRAINTS :: route_constraints where
  "DEFAULT_ROUTE_CONSTRAINTS = \<lparr>rc_mergeMaxMinutes = 15, rc_mergeMaxKm = 5, rc_institutionToleranceMin = 20,
     rc_avgSpeedKmh = 25\<rparr>"

definition travelMinutes :: "rat \<Rightarrow> rat \<Rightarrow> rat" where
  "travelMinutes d speedKmh = (d / speedKmh) * 60"

text \<open>A stop is late when the driver, \<open>d\<close> kilometres away, cannot be there inside its tolerance.\<close>

definition late :: "route_constraints \<Rightarrow> time \<Rightarrow> rat \<Rightarrow> route_stop \<Rightarrow> bool" where
  "late C now d x = (case rs_scheduledAt x of None \<Rightarrow> False
     | Some due \<Rightarrow> of_int due + rc_institutionToleranceMin C * 60000
         < of_int now + travelMinutes d (rc_avgSpeedKmh C) * 60000)"

section \<open>The order of a tour\<close>

datatype plan_reason = Missed_deadline ident | Unreachable ident

record ordered_plan =
  op_stopIds :: "ident list"
  op_distanceKm :: rat
  op_feasible :: bool
  op_reason :: "plan_reason option"

definition dist_to :: "(point \<Rightarrow> point \<Rightarrow> rat) \<Rightarrow> point option \<Rightarrow> route_stop \<Rightarrow> rat" where
  "dist_to km current x = (case current of None \<Rightarrow> 0 | Some p \<Rightarrow> km p (rs_at x))"

text \<open>
  The next stop: the nearest, unless going there first makes a scheduled stop late; then the first
  such stop by distance.
\<close>

definition vetoed :: "route_constraints \<Rightarrow> time \<Rightarrow> (point \<Rightarrow> point \<Rightarrow> rat) \<Rightarrow> point option \<Rightarrow> rat \<Rightarrow> route_stop list \<Rightarrow> route_stop option" where
  "vetoed C now km current cumKm byDistance =
     (if current = None then None
      else let nearest = hd byDistance; afterPickKm = cumKm + dist_to km current nearest
        in find (\<lambda>x. rs_requestId x \<noteq> rs_requestId nearest \<and> rs_scheduledAt x \<noteq> None
             \<and> late C now (afterPickKm + km (rs_at nearest) (rs_at x)) x) byDistance)"

definition pick_stop :: "route_constraints \<Rightarrow> time \<Rightarrow> (point \<Rightarrow> point \<Rightarrow> rat) \<Rightarrow> point option \<Rightarrow> rat \<Rightarrow> route_stop list \<Rightarrow> route_stop \<times> plan_reason option" where
  "pick_stop C now km current cumKm remaining =
     (let byDistance = sort_key (dist_to km current) remaining;
          veto = vetoed C now km current cumKm byDistance;
          picked = (case veto of None \<Rightarrow> hd byDistance | Some x \<Rightarrow> x);
          unreachable = (current \<noteq> None \<and> late C now (cumKm + dist_to km current picked) picked)
      in (picked, if unreachable then Some (Unreachable (rs_requestId picked))
                  else map_option (\<lambda>x. Missed_deadline (rs_requestId x)) veto))"

lemma pick_in: "remaining \<noteq> [] \<Longrightarrow> fst (pick_stop C now km current cumKm remaining) \<in> set remaining"
proof -
  assume "remaining \<noteq> []"
  then have ne: "sort_key f remaining \<noteq> []" for f :: "route_stop \<Rightarrow> rat"
    by (metis set_empty set_sort)
  then have "hd (sort_key f remaining) \<in> set remaining" for f :: "route_stop \<Rightarrow> rat"
    using hd_in_set set_sort by metis
  moreover have "x \<in> set remaining" if "vetoed C now km current cumKm (sort_key (dist_to km current) remaining) = Some x" for x
    using that by (auto simp: vetoed_def Let_def split: if_splits dest!: find_in_set)
  ultimately show ?thesis by (auto simp: pick_stop_def Let_def split: option.splits)
qed

function plan_loop :: "route_constraints \<Rightarrow> time \<Rightarrow> (point \<Rightarrow> point \<Rightarrow> rat) \<Rightarrow> point option \<Rightarrow> rat \<Rightarrow> plan_reason option
    \<Rightarrow> route_stop list \<Rightarrow> route_stop list \<times> rat \<times> plan_reason option" where
  "plan_loop C now km current cumKm reason remaining =
     (if remaining = [] then ([], cumKm, reason)
      else case pick_stop C now km current cumKm remaining of (picked, problem) \<Rightarrow>
        (case plan_loop C now km (Some (rs_at picked)) (cumKm + dist_to km current picked)
                (case problem of None \<Rightarrow> reason | Some r \<Rightarrow> Some r) (remove1 picked remaining) of
           (rest, total_km, reason') \<Rightarrow> (picked # rest, total_km, reason')))"
  by pat_completeness auto
termination
proof (relation "measure (\<lambda>(C, now, km, current, cumKm, reason, remaining). length remaining)", goal_cases)
  case (2 C now km current cumKm reason remaining picked problem)
  then have "picked \<in> set remaining" using pick_in [OF 2(1), of C now km current cumKm] by (metis fst_conv)
  then show ?case using 2(1) by (simp add: length_remove1)
qed simp

text \<open>The tour is flagged infeasible exactly when some round left a reason.\<close>

definition planRoute :: "route_constraints \<Rightarrow> time \<Rightarrow> (point \<Rightarrow> point \<Rightarrow> rat) \<Rightarrow> point option \<Rightarrow> route_stop list \<Rightarrow> ordered_plan" where
  "planRoute C now km origin stops =
     (case plan_loop C now km origin 0 None stops of (ordered, cumKm, reason) \<Rightarrow>
        \<lparr>op_stopIds = map rs_requestId ordered, op_distanceKm = round3 cumKm, op_feasible = (reason = None),
         op_reason = reason\<rparr>)"

section \<open>Joining a tour under way\<close>

datatype merge_refusal = Already_on_route | No_served_stop | No_insertion

type_synonym merge_verdict = "merge_refusal + nat"

fun on_time :: "route_constraints \<Rightarrow> time \<Rightarrow> (point \<Rightarrow> point \<Rightarrow> rat) \<Rightarrow> rat \<Rightarrow> point \<Rightarrow> route_stop list \<Rightarrow> bool" where
  "on_time C now km cumKm prev [] \<longleftrightarrow> True"
| "on_time C now km cumKm prev (x # xs) \<longleftrightarrow>
     (let d = cumKm + km prev (rs_at x) in \<not> late C now d x \<and> on_time C now km d (rs_at x) xs)"

definition added_km :: "(point \<Rightarrow> point \<Rightarrow> rat) \<Rightarrow> point \<Rightarrow> route_stop list \<Rightarrow> route_stop \<Rightarrow> nat \<Rightarrow> rat" where
  "added_km km lastServed stops incoming p =
     (let before = (if p = 0 then lastServed else rs_at (stops ! (p - 1))); mid = rs_at incoming
      in if p = length stops then km before mid
         else km before mid + km mid (rs_at (stops ! p)) - km before (rs_at (stops ! p)))"

definition insert_stop :: "nat \<Rightarrow> 'a \<Rightarrow> 'a list \<Rightarrow> 'a list" where
  "insert_stop p x xs = take p xs @ x # drop p xs"

definition can_insert :: "route_constraints \<Rightarrow> time \<Rightarrow> (point \<Rightarrow> point \<Rightarrow> rat) \<Rightarrow> point \<Rightarrow> route_stop list \<Rightarrow> route_stop \<Rightarrow> nat \<Rightarrow> bool" where
  "can_insert C now km lastServed stops incoming p =
     (let added = added_km km lastServed stops incoming p;
          tooFar = (rc_mergeMaxKm C < added);
          tooLong = (rc_mergeMaxMinutes C < travelMinutes added (rc_avgSpeedKmh C))
      in \<not> (tooFar \<and> tooLong) \<and> on_time C now km 0 lastServed (insert_stop p incoming stops))"

definition canMergeInto :: "route_constraints \<Rightarrow> time \<Rightarrow> (point \<Rightarrow> point \<Rightarrow> rat) \<Rightarrow> route_stop list \<Rightarrow> route_stop option \<Rightarrow> route_stop \<Rightarrow> merge_verdict" where
  "canMergeInto C now km stops lastServed incoming =
     (if List.member (map rs_requestId stops) (rs_requestId incoming) then Inl Already_on_route
      else case lastServed of
        None \<Rightarrow> if stops = [] then Inr 0 else Inl No_served_stop
      | Some done_stop \<Rightarrow>
          (case find (can_insert C now km (rs_at done_stop) stops incoming) [0 ..< length stops + 1] of
             None \<Rightarrow> Inl No_insertion | Some p \<Rightarrow> Inr p))"

section \<open>What a plan is\<close>

fun tour_km :: "(point \<Rightarrow> point \<Rightarrow> rat) \<Rightarrow> point option \<Rightarrow> route_stop list \<Rightarrow> rat" where
  "tour_km km current [] = 0"
| "tour_km km current (x # xs) = dist_to km current x + tour_km km (Some (rs_at x)) xs"

fun nearest_first :: "(point \<Rightarrow> point \<Rightarrow> rat) \<Rightarrow> point option \<Rightarrow> route_stop list \<Rightarrow> bool" where
  "nearest_first km current [] \<longleftrightarrow> True"
| "nearest_first km current (x # xs) \<longleftrightarrow>
     list_all (\<lambda>y. dist_to km current x \<le> dist_to km current y) xs \<and> nearest_first km (Some (rs_at x)) xs"

definition tour_on_time :: "route_constraints \<Rightarrow> time \<Rightarrow> (point \<Rightarrow> point \<Rightarrow> rat) \<Rightarrow> point option \<Rightarrow> rat \<Rightarrow> route_stop list \<Rightarrow> bool" where
  "tour_on_time C now km current d order = (case current of
     Some p \<Rightarrow> on_time C now km d p order
   | None \<Rightarrow> (case order of [] \<Rightarrow> True | x # xs \<Rightarrow> on_time C now km d (rs_at x) xs))"

declare plan_loop.simps [simp del]

lemma plan_loop_Nil [simp]: "plan_loop C now km current cumKm reason [] = ([], cumKm, reason)"
  by (simp add: plan_loop.simps)

lemma plan_loop_keeps_reason:
  "plan_loop C now km current cumKm reason remaining = (order, d, None) \<Longrightarrow> reason = None"
proof (induction C now km current cumKm reason remaining arbitrary: order d rule: plan_loop.induct)
  case (1 C now km current cumKm reason remaining)
  show ?case
  proof (cases "remaining = []")
    case False
    obtain picked problem where p: "pick_stop C now km current cumKm remaining = (picked, problem)" by fastforce
    obtain rest d' r' where rest: "plan_loop C now km (Some (rs_at picked)) (cumKm + dist_to km current picked)
        (case problem of None \<Rightarrow> reason | Some r \<Rightarrow> Some r) (remove1 picked remaining) = (rest, d', r')"
      by (metis prod_cases3)
    then have "r' = None" using 1(2) False p by (simp add: plan_loop.simps [of _ _ _ _ _ _ remaining])
    then show ?thesis using 1(1) [OF False p [symmetric]] rest by (auto split: option.splits)
  qed (use 1(2) in simp)
qed

text \<open>A round that leaves no reason goes to the nearest stop and is in time there.\<close>

lemma pick_unflagged:
  assumes "pick_stop C now km current cumKm remaining = (picked, None)" and "remaining \<noteq> []"
  shows "list_all (\<lambda>y. dist_to km current picked \<le> dist_to km current y) remaining"
    and "current \<noteq> None \<Longrightarrow> \<not> late C now (cumKm + dist_to km current picked) picked"
proof -
  let ?sorted = "sort_key (dist_to km current) remaining"
  have veto: "vetoed C now km current cumKm ?sorted = None" and picked: "picked = hd ?sorted"
    and "\<not> (current \<noteq> None \<and> late C now (cumKm + dist_to km current picked) picked)"
    using assms(1) by (auto simp: pick_stop_def Let_def split: if_splits option.splits)
  then show "current \<noteq> None \<Longrightarrow> \<not> late C now (cumKm + dist_to km current picked) picked" by blast
  obtain y ys where "?sorted = y # ys" using assms(2) by (metis list.exhaust set_empty set_sort)
  moreover have "sorted (map (dist_to km current) ?sorted)" by (rule sorted_sort_key)
  ultimately have "\<forall>z \<in> set ?sorted. dist_to km current picked \<le> dist_to km current z" using picked by auto
  then show "list_all (\<lambda>y. dist_to km current picked \<le> dist_to km current y) remaining" by (simp add: list_all_iff)
qed

lemma plan_loop_tour:
  assumes "plan_loop C now km current cumKm reason remaining = (order, d, reason')"
  shows "mset order = mset remaining \<and> d = cumKm + tour_km km current order
    \<and> (reason' = None \<longrightarrow> nearest_first km current order \<and> tour_on_time C now km current cumKm order)"
  using assms
proof (induction C now km current cumKm reason remaining arbitrary: order d reason' rule: plan_loop.induct)
  case (1 C now km current cumKm reason remaining)
  show ?case
  proof (cases "remaining = []")
    case True
    then show ?thesis using 1(2) by (auto simp: tour_on_time_def split: option.split)
  next
    case False
    obtain picked problem where p: "pick_stop C now km current cumKm remaining = (picked, problem)" by fastforce
    have mem: "picked \<in> set remaining" using pick_in [OF False, of C now km current cumKm] p by simp
    obtain rest d' r' where rest: "plan_loop C now km (Some (rs_at picked)) (cumKm + dist_to km current picked)
        (case problem of None \<Rightarrow> reason | Some r \<Rightarrow> Some r) (remove1 picked remaining) = (rest, d', r')"
      by (metis prod_cases3)
    then have order: "order = picked # rest" "d = d'" "reason' = r'"
      using 1(2) False p by (simp_all add: plan_loop.simps [of _ _ _ _ _ _ remaining])
    note ih = 1(1) [OF False p [symmetric] rest]
    have set: "set rest \<subseteq> set remaining" using ih mem by (metis mset_remove1 in_diffD set_mset_mset subsetI)
    have "nearest_first km current order \<and> tour_on_time C now km current cumKm order" if none: "reason' = None"
    proof -
      have "problem = None" using plan_loop_keeps_reason [of C now km] rest none order(3) by (cases problem) fastforce+
      note unflagged = pick_unflagged [OF p [unfolded this] False]
      show ?thesis
        using unflagged ih none order set
        by (auto simp: list_all_iff tour_on_time_def dist_to_def Let_def split: option.splits)
    qed
    then show ?thesis using ih order mem by (auto simp: mset_remove1)
  qed
qed


fun reached_at :: "(point \<Rightarrow> point \<Rightarrow> rat) \<Rightarrow> point \<Rightarrow> route_stop list \<Rightarrow> nat \<Rightarrow> rat" where
  "reached_at km prev [] i = 0"
| "reached_at km prev (x # xs) 0 = km prev (rs_at x)"
| "reached_at km prev (x # xs) (Suc i) = km prev (rs_at x) + reached_at km (rs_at x) xs i"

lemma on_time_all:
  "on_time C now km d prev xs \<longleftrightarrow> (\<forall>i < length xs. \<not> late C now (d + reached_at km prev xs i) (xs ! i))"
proof (induction xs arbitrary: d prev)
  case (Cons x xs)
  have "(\<forall>i < length (x # xs). P i) \<longleftrightarrow> P 0 \<and> (\<forall>i < length xs. P (Suc i))" for P
    by (auto simp: less_Suc_eq_0_disj)
  then show ?case by (simp add: Cons Let_def add.assoc)
qed simp

text \<open>What a place in a tour must offer, stop by stop.\<close>

definition fits_tour :: "route_constraints \<Rightarrow> time \<Rightarrow> (point \<Rightarrow> point \<Rightarrow> rat) \<Rightarrow> point \<Rightarrow> route_stop list \<Rightarrow> route_stop \<Rightarrow> nat \<Rightarrow> bool" where
  "fits_tour C now km served stops incoming p \<longleftrightarrow>
     (added_km km served stops incoming p \<le> rc_mergeMaxKm C
      \<or> travelMinutes (added_km km served stops incoming p) (rc_avgSpeedKmh C) \<le> rc_mergeMaxMinutes C)
    \<and> (\<forall>i < length (insert_stop p incoming stops).
         \<not> late C now (reached_at km served (insert_stop p incoming stops) i) (insert_stop p incoming stops ! i))"

lemma can_insert_fits: "can_insert C now km served stops incoming = fits_tour C now km served stops incoming"
  by (rule ext) (auto simp: fits_tour_def can_insert_def Let_def on_time_all)

text \<open>C31: a stop joins a tour at the first place where the detour is short enough, in kilometres or in
  minutes, and every scheduled stop of the extended tour is still reached inside its tolerance; it
  is refused for want of such a place only when there is none.\<close>

theorem merge_keeps_appointments:
  assumes "rs_requestId incoming \<notin> rs_requestId ` set stops"
  shows "canMergeInto C now km stops (Some served) incoming =
    (if \<exists>p \<le> length stops. fits_tour C now km (rs_at served) stops incoming p
     then Inr (LEAST p. fits_tour C now km (rs_at served) stops incoming p) else Inl No_insertion)"
proof -
  let ?fits = "fits_tour C now km (rs_at served) stops incoming"
  show ?thesis
  proof (cases "find ?fits [0 ..< length stops + 1]")
    case None
    then have "\<not> (\<exists>p \<le> length stops. ?fits p)" by (fastforce simp: find_None_iff le_less)
    then show ?thesis using assms(1) None by (auto simp: canMergeInto_def can_insert_fits)
  next
    case (Some p)
    then have p: "p \<le> length stops" "?fits p" "\<forall>q < p. \<not> ?fits q" unfolding find_upt_Some by auto
    then have "(LEAST p. ?fits p) = p" by (intro Least_equality) (use not_less in blast)+
    then show ?thesis using assms(1) p Some by (auto simp: canMergeInto_def can_insert_fits)
  qed
qed

section \<open>A straight road\<close>

definition ex_km :: "point \<Rightarrow> point \<Rightarrow> rat" where
  "ex_km p q = \<bar>fst p - fst q\<bar>"

definition ex_stop :: "ident \<Rightarrow> rat \<Rightarrow> time option \<Rightarrow> route_stop" where
  "ex_stop i x due = \<lparr>rs_requestId = i, rs_at = (x, 0), rs_scheduledAt = due\<rparr>"

lemma ex_merge: "canMergeInto DEFAULT_ROUTE_CONSTRAINTS 0 ex_km [ex_stop ''a'' 4 (Some 0)] (Some (ex_stop ''z'' 0 None))
    (ex_stop ''b'' 2 None) = Inr 0"
  by (simp add: canMergeInto_def can_insert_def added_km_def insert_stop_def late_def travelMinutes_def ex_km_def
      ex_stop_def DEFAULT_ROUTE_CONSTRAINTS_def)

theorem merge_keeps_appointments_witness:
  "(LEAST p. fits_tour DEFAULT_ROUTE_CONSTRAINTS 0 ex_km (0, 0) [ex_stop ''a'' 4 (Some 0)] (ex_stop ''b'' 2 None) p) = 0"
  using merge_keeps_appointments [of "ex_stop ''b'' 2 None" "[ex_stop ''a'' 4 (Some 0)]" DEFAULT_ROUTE_CONSTRAINTS 0 ex_km
      "ex_stop ''z'' 0 None"] ex_merge
  by (simp add: ex_stop_def split: if_splits)

text \<open>
  Driving to the appointment first is in time, and the planner finds that order; it still reports the
  tour infeasible, and the service then keeps the old order.
\<close>

lemma veto_is_flagged:
  defines "near \<equiv> ex_stop ''a'' 1 None" and "due \<equiv> ex_stop ''b'' (- 2) (Some (- 780000))"
  shows "planRoute DEFAULT_ROUTE_CONSTRAINTS 0 ex_km (Some (0, 0)) [near, due]
      = \<lparr>op_stopIds = [''b'', ''a''], op_distanceKm = 5, op_feasible = False, op_reason = Some (Missed_deadline ''b'')\<rparr>"
    and "tour_on_time DEFAULT_ROUTE_CONSTRAINTS 0 ex_km (Some (0, 0)) 0 [due, near]"
proof -
  show "tour_on_time DEFAULT_ROUTE_CONSTRAINTS 0 ex_km (Some (0, 0)) 0 [due, near]"
    by (simp add: near_def due_def tour_on_time_def late_def travelMinutes_def ex_km_def ex_stop_def DEFAULT_ROUTE_CONSTRAINTS_def)
  show "planRoute DEFAULT_ROUTE_CONSTRAINTS 0 ex_km (Some (0, 0)) [near, due]
      = \<lparr>op_stopIds = [''b'', ''a''], op_distanceKm = 5, op_feasible = False, op_reason = Some (Missed_deadline ''b'')\<rparr>"
    by (simp add: planRoute_def plan_loop.simps pick_stop_def vetoed_def dist_to_def late_def travelMinutes_def ex_km_def
        ex_stop_def DEFAULT_ROUTE_CONSTRAINTS_def near_def due_def round3_def math_round_def Let_def)
qed

lemma ex_nearest: "planRoute DEFAULT_ROUTE_CONSTRAINTS 0 ex_km (Some (0, 0)) [ex_stop ''b'' 3 (Some 0), ex_stop ''a'' 1 None]
    = \<lparr>op_stopIds = [''a'', ''b''], op_distanceKm = 3, op_feasible = True, op_reason = None\<rparr>"
  by (simp add: planRoute_def plan_loop.simps pick_stop_def vetoed_def dist_to_def late_def travelMinutes_def ex_km_def
      ex_stop_def DEFAULT_ROUTE_CONSTRAINTS_def round3_def math_round_def Let_def)


end
