(* ===== verification/SequenceNumbers.thy ===== *)
theory SequenceNumbers
  imports Prelude
begin

text \<open>
  \<open>collection-request/utils/sequence.util.ts\<close>: the next business number after a prefix.  The table
  enters as the numbers it holds.  \<open>Number(text)\<close> is modelled for texts of decimal digits; any other
  suffix counts as not finite and is skipped.  The three attempts of the source read the same table,
  so one is enough: \<open>number_is_new\<close> shows that the first candidate is never taken.
\<close>

fun parse_digits :: "nat \<Rightarrow> string \<Rightarrow> nat option" where
  "parse_digits acc [] = Some acc"
| "parse_digits acc (c # cs) = (let k = (of_char c :: nat) in
     if 48 \<le> k \<and> k \<le> 57 then parse_digits (10 * acc + (k - 48)) cs else None)"

definition last_segment :: "string \<Rightarrow> string" where
  "last_segment t = rev (takeWhile (\<lambda>c. c \<noteq> CHR ''-'') (rev t))"

definition suffix_number :: "string \<Rightarrow> nat option" where
  "suffix_number t = parse_digits 0 (last_segment t)"

definition has_prefix :: "string \<Rightarrow> string \<Rightarrow> bool" where
  "has_prefix p t \<longleftrightarrow> take (length p) t = p"

definition max_suffix :: "string \<Rightarrow> string list \<Rightarrow> nat" where
  "max_suffix prefix numbers = foldl (\<lambda>m t. case suffix_number t of None \<Rightarrow> m | Some n \<Rightarrow> max m n) 0
     (filter (has_prefix (prefix @ ''-'')) numbers)"

definition nextSequentialNumber :: "string list \<Rightarrow> string \<Rightarrow> nat \<Rightarrow> string" where
  "nextSequentialNumber numbers prefix padding =
     prefix @ ''-'' @ padStart padding (show_nat (max_suffix prefix numbers + 1))"

section \<open>The number is new\<close>

lemma digit_code [simp]: "n < 10 \<Longrightarrow> (of_char (digit n) :: nat) = 48 + n"
  by (simp add: digit_def)

lemma digit_not_dash [simp]: "n < 10 \<Longrightarrow> digit n \<noteq> CHR ''-''"
proof
  assume "n < 10" and "digit n = CHR ''-''"
  then have "(of_char (digit n) :: nat) = of_char CHR ''-''" by simp
  then show False using \<open>n < 10\<close> by simp
qed

lemma parse_append: "parse_digits acc (xs @ ys) = Option.bind (parse_digits acc xs) (\<lambda>a. parse_digits a ys)"
  by (induction acc xs rule: parse_digits.induct) (simp_all add: Let_def)

lemma parse_zeros: "parse_digits 0 (replicate k CHR ''0'' @ xs) = parse_digits 0 xs"
  by (induction k) simp_all

declare show_nat.simps [simp del]

lemma parse_show: "parse_digits 0 (show_nat n) = Some n"
proof (induction n rule: show_nat.induct)
  case (1 n)
  show ?case
  proof (cases "n < 10")
    case True
    then show ?thesis by (simp add: show_nat.simps [of n])
  next
    case False
    then show ?thesis using 1 by (subst show_nat.simps) (simp add: parse_append)
  qed
qed

lemma show_no_dash: "CHR ''-'' \<notin> set (show_nat n)"
proof (induction n rule: show_nat.induct)
  case (1 n)
  have "CHR ''-'' \<noteq> digit k" if "k < 10" for k using digit_not_dash [OF that] by (rule not_sym)
  then show ?case using 1 by (subst show_nat.simps) auto
qed

lemma last_segment_after: "CHR ''-'' \<notin> set t \<Longrightarrow> last_segment (p @ ''-'' @ t) = t"
  by (simp add: last_segment_def takeWhile_append)

lemma suffix_of_number: "suffix_number (prefix @ ''-'' @ padStart w (show_nat n)) = Some n"
proof -
  have "CHR ''-'' \<notin> set (padStart w (show_nat n))" using show_no_dash by (auto simp: padStart_def)
  then have "last_segment (prefix @ ''-'' @ padStart w (show_nat n)) = padStart w (show_nat n)" by (rule last_segment_after)
  then show ?thesis unfolding suffix_number_def by (simp only: padStart_def parse_zeros parse_show)
qed

lemma foldl_max_ge: "(m :: nat) \<le> foldl (\<lambda>m t. case f t of None \<Rightarrow> m | Some n \<Rightarrow> max m n) m xs"
  by (induction xs arbitrary: m) (auto split: option.split intro: order_trans [OF max.cobounded1])

lemma foldl_max_member:
  "t \<in> set xs \<Longrightarrow> f t = Some (n :: nat) \<Longrightarrow> n \<le> foldl (\<lambda>m t. case f t of None \<Rightarrow> m | Some n \<Rightarrow> max m n) m xs"
proof (induction xs arbitrary: m)
  case (Cons x xs)
  show ?case
  proof (cases "t = x")
    case True
    then show ?thesis using Cons.prems foldl_max_ge [of "max m n" f xs] by simp
  next
    case False
    then show ?thesis using Cons by simp
  qed
qed simp

lemma number_is_new: "nextSequentialNumber numbers prefix w \<notin> set numbers"
proof
  let ?t = "nextSequentialNumber numbers prefix w"
  assume "?t \<in> set numbers"
  moreover have "has_prefix (prefix @ ''-'') ?t" by (simp add: has_prefix_def nextSequentialNumber_def)
  ultimately have "?t \<in> set (filter (has_prefix (prefix @ ''-'')) numbers)" by simp
  moreover have "suffix_number ?t = Some (max_suffix prefix numbers + 1)"
    unfolding nextSequentialNumber_def by (rule suffix_of_number)
  ultimately have "max_suffix prefix numbers + 1 \<le> max_suffix prefix numbers"
    unfolding max_suffix_def by (rule foldl_max_member)
  then show False by simp
qed

end
