(* ===== verification/OperationTime.thy ===== *)
theory OperationTime
  imports Prelude
begin

text \<open>
  \<open>common/time/operation-time.util.ts\<close> and \<open>truck/shift-window.util.ts\<close>: wall-clock values of the
  operation's time zone.  The time zone database is a parameter: \<open>zone t\<close> is the offset in force at
  the instant \<open>t\<close> in milliseconds.  A calendar date is the number of days since 1970-01-01, so that
  the next day is the next number, as \<open>Date.UTC\<close> has it.
\<close>

type_synonym zone = "time \<Rightarrow> int"

abbreviation day_ms :: int where "day_ms \<equiv> 86400000"

record zoned_parts =
  zp_day :: int
  zp_second :: int

definition partsInZone :: "zone \<Rightarrow> time \<Rightarrow> zoned_parts" where
  "partsInZone zone t = (let local = t + zone t in
     \<lparr>zp_day = local div day_ms, zp_second = local mod day_ms div 1000\<rparr>)"

definition utc_of_parts :: "zoned_parts \<Rightarrow> time" where
  "utc_of_parts p = zp_day p * day_ms + zp_second p * 1000"

definition zoneOffsetMs :: "zone \<Rightarrow> time \<Rightarrow> int" where
  "zoneOffsetMs zone t = utc_of_parts (partsInZone zone t) - t"

definition zonedWallClockToInstant :: "zone \<Rightarrow> zoned_parts \<Rightarrow> time" where
  "zonedWallClockToInstant zone p =
     (let guess = utc_of_parts p; offset1 = zoneOffsetMs zone guess; instant = guess - offset1;
          offset2 = zoneOffsetMs zone instant
      in if offset2 \<noteq> offset1 then guess - offset2 else instant)"

definition minutesOfDayInZone :: "zone \<Rightarrow> time \<Rightarrow> rat" where
  "minutesOfDayInZone zone t = of_int (zp_second (partsInZone zone t)) / 60"

definition startOfDayInZone :: "zone \<Rightarrow> time \<Rightarrow> time" where
  "startOfDayInZone zone t = zonedWallClockToInstant zone (partsInZone zone t\<lparr>zp_second := 0\<rparr>)"

section \<open>Shifts\<close>

text \<open>The times of a shift are seconds of the day.\<close>

record shift =
  sf_id :: ident
  sf_odooShiftId :: "int option"
  sf_name :: string
  sf_isDriver :: bool
  sf_isGlobal :: bool
  sf_odooWarehouseIds :: "int list"
  sf_isActive :: bool
  sf_startTime :: int
  sf_endTime :: int
  sf_tolerance :: int

record shift_window =
  sw_start :: time
  sw_end :: time
  sw_toleranceMs :: int
  sw_workDate :: int

definition resolveShiftWindow :: "zone \<Rightarrow> shift \<Rightarrow> time \<Rightarrow> shift_window" where
  "resolveShiftWindow zone sf now =
     (let today = zp_day (partsInZone zone now);
          start = zonedWallClockToInstant zone \<lparr>zp_day = today, zp_second = sf_startTime sf\<rparr>;
          end0 = zonedWallClockToInstant zone \<lparr>zp_day = today, zp_second = sf_endTime sf\<rparr>
      in \<lparr>sw_start = start,
          sw_end = (if end0 \<le> start then zonedWallClockToInstant zone \<lparr>zp_day = today + 1, zp_second = sf_endTime sf\<rparr> else end0),
          sw_toleranceMs = max 0 (sf_tolerance sf) * 60 * 1000, sw_workDate = today\<rparr>)"

text \<open>Whether a shift covers an instant, midnight included (the dispatch and the coverage use this test).\<close>

definition shiftCovers :: "zone \<Rightarrow> shift \<Rightarrow> time \<Rightarrow> bool" where
  "shiftCovers zone sf now =
     (let start = of_int (sf_startTime sf) / 60; stop = of_int (sf_endTime sf) / 60; current = minutesOfDayInZone zone now
      in if start = stop then True
         else if start < stop then start \<le> current \<and> current < stop
         else start \<le> current \<or> current < stop)"

definition shiftRemainingMinutes :: "zone \<Rightarrow> shift \<Rightarrow> time \<Rightarrow> rat" where
  "shiftRemainingMinutes zone sf now =
     (let start = of_int (sf_startTime sf) / 60; stop = of_int (sf_endTime sf) / 60; current = minutesOfDayInZone zone now
      in if start = stop then 24 * 60
         else if start < stop then max 0 (stop - current)
         else let tonight = 24 * 60 - start in max 0 (tonight + stop - current))"

section \<open>A zone without clock changes\<close>

text \<open>Whole seconds of offset, the same all year: the wall clock and the instants translate exactly.\<close>

definition steady :: "int \<Rightarrow> zone" where
  "steady c = (\<lambda>_. c * 1000)"

lemma div_thousand: "(1000 * n) div day_ms = n div 86400" "(1000 * n) mod day_ms div 1000 = n mod 86400" for n :: int
proof -
  have day: "day_ms = 1000 * 86400" by simp
  show "(1000 * n) div day_ms = n div 86400" unfolding day by (rule div_mult_mult1) simp
  show "(1000 * n) mod day_ms div 1000 = n mod 86400" unfolding day mod_mult_mult1 by simp
qed

lemma parts_steady: "utc_of_parts (partsInZone (steady c) (1000 * k)) = 1000 * (k + c)"
proof -
  define n where "n = k + c"
  have "1000 * k + steady c (1000 * k) = 1000 * n" by (simp add: steady_def n_def)
  then have "utc_of_parts (partsInZone (steady c) (1000 * k)) = (1000 * n) div day_ms * day_ms + (1000 * n) mod day_ms div 1000 * 1000"
    by (simp add: utc_of_parts_def partsInZone_def Let_def)
  also have "\<dots> = 1000 * (86400 * (n div 86400) + n mod 86400)"
    unfolding div_thousand by (simp only: distrib_left)
  also have "\<dots> = 1000 * n" by (simp only: mult_div_mod_eq)
  finally show ?thesis by (simp add: n_def)
qed

lemma wall_clock_steady: "zonedWallClockToInstant (steady c) \<lparr>zp_day = d, zp_second = sec\<rparr> = d * day_ms + sec * 1000 - c * 1000"
proof -
  have guess: "utc_of_parts \<lparr>zp_day = d, zp_second = sec\<rparr> = 1000 * (d * 86400 + sec)" by (simp add: utc_of_parts_def)
  have off: "zoneOffsetMs (steady c) (1000 * k) = 1000 * c" for k by (simp add: zoneOffsetMs_def parts_steady)
  have shifted: "1000 * (d * 86400 + sec) - 1000 * c = 1000 * (d * 86400 + sec - c)" by simp
  show ?thesis unfolding zonedWallClockToInstant_def guess Let_def off shifted by simp
qed

definition clock_ok :: "shift \<Rightarrow> bool" where
  "clock_ok sf \<longleftrightarrow> 0 \<le> sf_startTime sf \<and> sf_startTime sf < 86400 \<and> 0 \<le> sf_endTime sf \<and> sf_endTime sf < 86400"

lemma window_steady:
  "resolveShiftWindow (steady c) sf now =
    (let midnight = (now + c * 1000) div day_ms * day_ms - c * 1000 in
     \<lparr>sw_start = midnight + sf_startTime sf * 1000,
      sw_end = midnight + sf_endTime sf * 1000 + (if sf_endTime sf \<le> sf_startTime sf then day_ms else 0),
      sw_toleranceMs = max 0 (sf_tolerance sf) * 60 * 1000, sw_workDate = (now + c * 1000) div day_ms\<rparr>)"
proof -
  have "zp_day (partsInZone (steady c) now) = (now + c * 1000) div day_ms" by (simp add: partsInZone_def steady_def Let_def)
  then show ?thesis by (simp add: resolveShiftWindow_def wall_clock_steady Let_def algebra_simps)
qed

text \<open>
  A day shift: inside the window exactly when the test of the dispatch says so.  A night shift: the
  window is always that of the coming night, so its end is never reached.
\<close>

lemma day_window:
  assumes "clock_ok sf" and "sf_startTime sf < sf_endTime sf" and "now mod 1000 = 0"
  shows "sw_start (resolveShiftWindow (steady c) sf now) \<le> now \<and> now < sw_end (resolveShiftWindow (steady c) sf now)
    \<longleftrightarrow> shiftCovers (steady c) sf now"
proof -
  obtain k where k: "now = 1000 * k" using assms(3) by auto
  define d where "d = (k + c) div 86400"
  define r where "r = (k + c) mod 86400"
  have split: "k + c = 86400 * d + r" "0 \<le> r" "r < 86400" by (simp_all add: d_def r_def)
  have local: "now + c * 1000 = 1000 * (k + c)" by (simp add: k)
  have div: "(now + c * 1000) div day_ms = d" unfolding local d_def by (rule div_thousand)
  have "(now + c * 1000) mod day_ms div 1000 = r" unfolding local r_def by (rule div_thousand)
  then have minutes: "minutesOfDayInZone (steady c) now = of_int r / 60"
    by (simp add: minutesOfDayInZone_def partsInZone_def steady_def Let_def)
  have "sw_start (resolveShiftWindow (steady c) sf now) \<le> now \<longleftrightarrow> sf_startTime sf \<le> r"
    "now < sw_end (resolveShiftWindow (steady c) sf now) \<longleftrightarrow> r < sf_endTime sf"
    unfolding window_steady Let_def div using assms(2) split by (auto simp: k)
  then show ?thesis using assms(2) by (auto simp: shiftCovers_def Let_def minutes divide_less_cancel divide_le_cancel)
qed

lemma night_window_never_ends:
  assumes "clock_ok sf" and "sf_endTime sf \<le> sf_startTime sf"
  shows "now < sw_end (resolveShiftWindow (steady c) sf now)"
proof -
  define t where "t = now + c * 1000"
  have "t mod day_ms < day_ms" by simp
  moreover have "t = t div day_ms * day_ms + t mod day_ms" by (rule div_mult_mod_eq [symmetric])
  ultimately have "now + c * 1000 < (now + c * 1000) div day_ms * day_ms + day_ms" unfolding t_def by linarith
  then show ?thesis using assms by (simp add: window_steady Let_def clock_ok_def)
qed

end
