(* ===== verification/CollectionStore.thy ===== *)
theory CollectionStore
  imports CollectionLife RoutePlanner SequenceNumbers OperationTime Pricing PointsWallet
begin

text \<open>
  The tables of the collection service (\<open>collection-request/entities\<close>, \<open>truck/entities\<close>,
  \<open>collector-profile.entity.ts\<close>), its queue and its events, beside the store of the shop
  (accounts, warehouses, products, wallets).  A handler is an action over \<open>ops\<close>; \<open>on_shop\<close> lifts an
  action of the shop's services.  The location of a truck and the zone of the operation are read from
  outside.
\<close>

section \<open>Rows\<close>

record collection_request =
  cr_id :: ident
  cr_requestNumber :: string
  cr_type :: collection_request_type
  cr_status :: request_status
  cr_accountId :: ident
  cr_contactName :: "string option"
  cr_contactPhone :: "string option"
  cr_addressText :: "string option"
  cr_lat :: "rat option"
  cr_lng :: "rat option"
  cr_scheduledAt :: "time option"
  cr_estimatedWeightKg :: rat
  cr_estimatedGrandTotal :: rat
  cr_actualWeightKg :: "rat option"
  cr_actualGrandTotal :: "rat option"
  cr_routeId :: "ident option"
  cr_routeSequence :: "nat option"
  cr_shipmentId :: "ident option"
  cr_sourcePlanId :: "ident option"
  cr_sourcePlanDate :: "int option"
  cr_cancellationReason :: "string option"
  cr_assignedAt :: "time option"
  cr_enRouteAt :: "time option"
  cr_arrivedAt :: "time option"
  cr_pickedAt :: "time option"
  cr_deliveredAt :: "time option"
  cr_completedAt :: "time option"
  cr_cancelledAt :: "time option"
  cr_createdAt :: time

record request_line =
  rl_id :: ident
  rl_requestId :: ident
  rl_productId :: ident
  rl_productName :: string
  rl_unitType :: string
  rl_quantity :: rat
  rl_unitPrice :: rat
  rl_total :: rat
  rl_actualQuantity :: "rat option"
  rl_note :: "string option"

record request_assignment =
  ca_id :: ident
  ca_requestId :: ident
  ca_driverId :: ident
  ca_status :: assignment_status
  ca_score :: "rat option"
  ca_offerExpiresAt :: "time option"
  ca_respondedAt :: "time option"

record collection_route =
  ro_id :: ident
  ro_routeNumber :: string
  ro_driverId :: ident
  ro_status :: route_status
  ro_startedAt :: "time option"
  ro_completedAt :: "time option"
  ro_cancelledAt :: "time option"
  ro_createdAt :: time

record shipment =
  sh_id :: ident
  sh_shipmentNumber :: string
  sh_status :: shipment_status
  sh_driverId :: ident
  sh_truckId :: ident
  sh_warehouseId :: "ident option"
  sh_totalWeightKg :: rat
  sh_totalRequests :: nat
  sh_notes :: "string option"
  sh_collectedAt :: "time option"
  sh_departedAt :: "time option"
  sh_deliveredAt :: "time option"
  sh_createdAt :: time

datatype truck_status = TK_ACTIVE | TK_DISABLED | TK_BUSY_ONE_DRIVER | TK_FULLY_BUSY

record truck =
  tk_id :: ident
  tk_odooTruckId :: "int option"
  tk_warehouseId :: "ident option"
  tk_plateNumber :: string
  tk_maxPayloadKg :: "rat option"
  tk_status :: truck_status

record truck_assignment =
  ta_id :: ident
  ta_truckId :: ident
  ta_driverId :: ident
  ta_shiftId :: ident
  ta_assignedAt :: time

record collector_profile =
  dp_id :: ident
  dp_accountId :: ident
  dp_shiftId :: ident
  dp_warehouseId :: "ident option"

datatype handover_status = HO_OPEN | HO_CLOSED | HO_MISSED_PICKUP

record truck_handover =
  ho_id :: ident
  ho_driverId :: ident
  ho_truckId :: ident
  ho_shiftId :: ident
  ho_warehouseId :: "ident option"
  ho_workDate :: int
  ho_pickedUpAt :: "time option"
  ho_pickupAt :: "point option"
  ho_droppedOffAt :: "time option"
  ho_dropoffAt :: "point option"
  ho_dropoffReason :: "string option"
  ho_lateDropoffMinutes :: "int option"
  ho_status :: handover_status
  ho_missedPickupNotifiedAt :: "time option"
  ho_lateDropoffNotifiedAt :: "time option"
  ho_createdAt :: time

record coverage_point =
  cp_id :: ident
  cp_name :: string
  cp_pointType :: string
  cp_at :: point
  cp_radiusM :: int
  cp_priority :: int
  cp_isActive :: bool
  cp_warehouseId :: "ident option"
  cp_createdAt :: time

record driver_coverage =
  dc_id :: ident
  dc_driverId :: ident
  dc_coveragePointId :: ident
  dc_assignedFrom :: "time option"
  dc_isActive :: bool

datatype plan_frequency = DAILY_PLAN | WEEKLY_PLAN | MONTHLY_PLAN

record collection_plan =
  pl_id :: ident
  pl_accountId :: ident
  pl_name :: string
  pl_frequency :: plan_frequency
  pl_weekdays :: "int list option"
  pl_monthDays :: "int list option"
  pl_collectionTime :: int
  pl_startDate :: "int option"
  pl_endDate :: "int option"
  pl_isActive :: bool
  pl_itemNote :: "string option"
  pl_lat :: "rat option"
  pl_lng :: "rat option"
  pl_addressText :: "string option"
  pl_contactName :: "string option"
  pl_contactPhone :: "string option"
  pl_lastGeneratedDate :: "int option"

record plan_line =
  pn_id :: ident
  pn_planId :: ident
  pn_productId :: ident
  pn_productName :: string
  pn_unitType :: string
  pn_quantity :: rat

record dispatch_weights =
  dw_proximity :: rat
  dw_direction :: rat
  dw_load :: rat
  dw_vehicle :: rat
  dw_deadline :: rat
  dw_fairness :: rat

record dispatch_config =
  cf_weights :: dispatch_weights
  cf_acceptWindowSec :: int
  cf_scheduledLeadMin :: int
  cf_routeMergeMaxMin :: rat
  cf_routeMergeMaxKm :: rat
  cf_institutionToleranceMin :: rat
  cf_isEnabled :: bool

section \<open>Jobs, events, tables\<close>

datatype dispatch_job = ELECT ident | OPEN_WINDOW ident time | ELECT_NEXT_FOR_DRIVER ident

datatype collection_event =
  Request_queued ident
| Request_cancelled ident
| Request_assigned ident ident
| Driver_freed ident

record intake_line =
  il_odooProductId :: int
  il_quantity :: rat

datatype odoo_job =
  REGISTER_INTAKE ident "int option" "string option" "time option" "intake_line list"
| PUSH_HANDOVER_PICKUP ident
| PUSH_HANDOVER_DROPOFF ident

record ops =
  op_shop :: store
  op_requests :: "collection_request list"
  op_lines :: "request_line list"
  op_assignments :: "request_assignment list"
  op_routes :: "collection_route list"
  op_shipments :: "shipment list"
  op_trucks :: "truck list"
  op_truckAssignments :: "truck_assignment list"
  op_drivers :: "collector_profile list"
  op_shifts :: "shift list"
  op_handovers :: "truck_handover list"
  op_points :: "coverage_point list"
  op_coverage :: "driver_coverage list"
  op_plans :: "collection_plan list"
  op_planLines :: "plan_line list"
  op_config :: "dispatch_config option"
  op_tracked :: "(ident \<times> ident) list"
  op_queue :: "dispatch_job list"
  op_odoo :: "odoo_job list"
  op_events :: "collection_event list"

type_synonym 'a fleet_action = "(ops, 'a) act"

record live_fix =
  lf_at :: point
  lf_heading :: "rat option"

text \<open>
  Outside the tables: the shop's world, the great-circle distance and the bearing of
  \<open>geo.util.ts\<close>, the last position Redis holds of a truck, the operation's zone and the server's own, and the texts of the month and
  of the day the business numbers start with.
\<close>

record fleet_world =
  fw_shop :: world
  fw_km :: "point \<Rightarrow> point \<Rightarrow> rat"
  fw_bearing :: "point \<Rightarrow> point \<Rightarrow> rat option"
  fw_fix :: "ident \<Rightarrow> live_fix option"
  fw_zone :: zone
  fw_local :: zone
  fw_monthText :: "time \<Rightarrow> string"
  fw_dayText :: "time \<Rightarrow> string"
  fw_stored :: "rat \<Rightarrow> int option"

abbreviation fw_now :: "fleet_world \<Rightarrow> time" where
  "fw_now F \<equiv> w_now (fw_shop F)"

definition on_shop :: "'a action \<Rightarrow> 'a fleet_action" where
  "on_shop m = (\<lambda>s. case m (op_shop s) of (r, shop) \<Rightarrow> (r, s\<lparr>op_shop := shop\<rparr>))"

definition new_id :: "ident fleet_action" where
  "new_id = on_shop fresh_id"

text \<open>\<open>+x.toFixed(2)\<close>\<close>

definition round2 :: "rat \<Rightarrow> rat" where
  "round2 x = of_int (math_round (x * 100)) / 100"

definition find_request :: "ident \<Rightarrow> ops \<Rightarrow> collection_request option" where
  "find_request i s = tbl_find cr_id i (op_requests s)"

definition save_request :: "collection_request \<Rightarrow> unit fleet_action" where
  "save_request q = writes (\<lambda>s. s\<lparr>op_requests := tbl_save cr_id q (op_requests s)\<rparr>)"

definition save_requests :: "collection_request list \<Rightarrow> unit fleet_action" where
  "save_requests qs = for_each qs save_request"

definition requests_of_route :: "ident \<Rightarrow> ops \<Rightarrow> collection_request list" where
  "requests_of_route routeId s = filter (\<lambda>q. cr_routeId q = Some routeId) (op_requests s)"

definition requests_of_shipment :: "ident \<Rightarrow> ops \<Rightarrow> collection_request list" where
  "requests_of_shipment shipmentId s = filter (\<lambda>q. cr_shipmentId q = Some shipmentId) (op_requests s)"

definition lines_of :: "ident \<Rightarrow> ops \<Rightarrow> request_line list" where
  "lines_of requestId s = filter (\<lambda>l. rl_requestId l = requestId) (op_lines s)"

definition save_line_row :: "request_line \<Rightarrow> unit fleet_action" where
  "save_line_row l = writes (\<lambda>s. s\<lparr>op_lines := tbl_save rl_id l (op_lines s)\<rparr>)"

definition find_route :: "ident \<Rightarrow> ops \<Rightarrow> collection_route option" where
  "find_route i s = tbl_find ro_id i (op_routes s)"

definition save_route :: "collection_route \<Rightarrow> unit fleet_action" where
  "save_route r = writes (\<lambda>s. s\<lparr>op_routes := tbl_save ro_id r (op_routes s)\<rparr>)"

definition save_shipment :: "shipment \<Rightarrow> unit fleet_action" where
  "save_shipment x = writes (\<lambda>s. s\<lparr>op_shipments := tbl_save sh_id x (op_shipments s)\<rparr>)"

text \<open>The ledger has one row per request and driver; a second insert is refused by the database.\<close>

definition insert_assignment :: "request_assignment \<Rightarrow> unit fleet_action" where
  "insert_assignment a =
     bind (reads (\<lambda>s. list_ex (\<lambda>b. ca_requestId b = ca_requestId a \<and> ca_driverId b = ca_driverId a) (op_assignments s))) (\<lambda>taken.
     bind (refuse_if taken Crash) (\<lambda>_.
     writes (\<lambda>s. s\<lparr>op_assignments := op_assignments s @ [a]\<rparr>)))"

definition save_assignment :: "request_assignment \<Rightarrow> unit fleet_action" where
  "save_assignment a = writes (\<lambda>s. s\<lparr>op_assignments := tbl_save ca_id a (op_assignments s)\<rparr>)"

definition find_driver :: "ident \<Rightarrow> ops \<Rightarrow> collector_profile option" where
  "find_driver i s = tbl_find dp_id i (op_drivers s)"

definition driver_of_account :: "ident \<Rightarrow> ops \<Rightarrow> collector_profile option" where
  "driver_of_account accountId s = find (\<lambda>d. dp_accountId d = accountId) (op_drivers s)"

definition truck_of_driver :: "ident \<Rightarrow> ops \<Rightarrow> truck option" where
  "truck_of_driver driverId s = Option.bind (find (\<lambda>a. ta_driverId a = driverId) (op_truckAssignments s))
     (\<lambda>a. tbl_find tk_id (ta_truckId a) (op_trucks s))"

definition open_handover :: "ident \<Rightarrow> ops \<Rightarrow> truck_handover option" where
  "open_handover driverId s = find (\<lambda>h. ho_driverId h = driverId \<and> ho_status h = HO_OPEN) (op_handovers s)"

definition enqueue_dispatch :: "dispatch_job \<Rightarrow> unit fleet_action" where
  "enqueue_dispatch j = writes (\<lambda>s. s\<lparr>op_queue := op_queue s @ [j]\<rparr>)"

definition enqueue_odoo :: "odoo_job \<Rightarrow> unit fleet_action" where
  "enqueue_odoo j = writes (\<lambda>s. s\<lparr>op_odoo := op_odoo s @ [j]\<rparr>)"

definition emit :: "collection_event \<Rightarrow> unit fleet_action" where
  "emit e = writes (\<lambda>s. s\<lparr>op_events := op_events s @ [e]\<rparr>)"

text \<open>The configuration is one row; without it every election throws.\<close>

definition get_config :: "dispatch_config fleet_action" where
  "get_config = bind (reads op_config) (\<lambda>c. case c of None \<Rightarrow> throw Crash | Some c \<Rightarrow> ret c)"

definition load_kg :: "collection_request \<Rightarrow> rat" where
  "load_kg q = (case cr_actualWeightKg q of None \<Rightarrow> cr_estimatedWeightKg q | Some w \<Rightarrow> w)"

definition is_active_task :: "collection_request \<Rightarrow> bool" where
  "is_active_task q = List.member ACTIVE_TASK_STATUSES (cr_status q)"

text \<open>\<open>ORDER BY\<close> or \<open>sort\<close> by the sequence, the stops without one last.\<close>

definition seq_key :: "collection_request \<Rightarrow> nat \<times> nat" where
  "seq_key q = (case cr_routeSequence q of None \<Rightarrow> (1, 0) | Some n \<Rightarrow> (0, n))"

definition in_sequence :: "collection_request list \<Rightarrow> collection_request list" where
  "in_sequence qs = sort_key seq_key qs"

section \<open>Guarded status changes: \<open>collection-state.service.ts\<close>\<close>

definition stampRequest :: "collection_request \<Rightarrow> request_status \<Rightarrow> time \<Rightarrow> collection_request" where
  "stampRequest q to now = (case to of
       Q_ASSIGNED \<Rightarrow> q\<lparr>cr_assignedAt := Some now\<rparr>
     | Q_EN_ROUTE \<Rightarrow> q\<lparr>cr_enRouteAt := Some now\<rparr>
     | Q_ARRIVED \<Rightarrow> q\<lparr>cr_arrivedAt := Some now\<rparr>
     | Q_PICKING \<Rightarrow> q\<lparr>cr_pickedAt := Some now\<rparr>
     | Q_DELIVERED \<Rightarrow> q\<lparr>cr_deliveredAt := Some now\<rparr>
     | Q_COMPLETED \<Rightarrow> q\<lparr>cr_completedAt := Some now\<rparr>
     | Q_CANCELLED \<Rightarrow> q\<lparr>cr_cancelledAt := Some now\<rparr>
     | _ \<Rightarrow> q)"

definition applyRequestStatus :: "collection_request \<Rightarrow> request_status \<Rightarrow> time \<Rightarrow> collection_request fleet_action" where
  "applyRequestStatus q to now =
     (if cr_status q = to then ret q
      else if \<not> canTransitionRequest (cr_status q) to then throw Conflict
      else ret (stampRequest (q\<lparr>cr_status := to\<rparr>) to now))"

definition stampRoute :: "collection_route \<Rightarrow> route_status \<Rightarrow> time \<Rightarrow> collection_route" where
  "stampRoute r to now = (case to of
       RT_IN_PROGRESS \<Rightarrow> r\<lparr>ro_startedAt := Some now\<rparr>
     | RT_COMPLETED \<Rightarrow> r\<lparr>ro_completedAt := Some now\<rparr>
     | RT_CANCELLED \<Rightarrow> r\<lparr>ro_cancelledAt := Some now\<rparr>
     | _ \<Rightarrow> r)"

definition applyRouteStatus :: "collection_route \<Rightarrow> route_status \<Rightarrow> time \<Rightarrow> collection_route fleet_action" where
  "applyRouteStatus r to now =
     (if ro_status r = to then ret r
      else if \<not> canTransitionRoute (ro_status r) to then throw Conflict
      else ret (stampRoute (r\<lparr>ro_status := to\<rparr>) to now))"

definition applyAssignmentStatus :: "request_assignment \<Rightarrow> assignment_status \<Rightarrow> time \<Rightarrow> request_assignment fleet_action" where
  "applyAssignmentStatus a to now =
     (if ca_status a = to then ret a
      else if \<not> canTransitionAssignment (ca_status a) to then throw Conflict
      else ret (a\<lparr>ca_status := to, ca_respondedAt := (if to = CA_OFFERED then ca_respondedAt a else Some now)\<rparr>))"

end
