(* ===== verification/Shipments.thy ===== *)
theory Shipments
  imports CollectionStore
begin

text \<open>
  \<open>collection-request/services/shipment.service.ts\<close>: the shipment that gathers the requests a driver
  collected, from its creation with his first accepted request to its receipt at the warehouse.  The
  in-memory request a method is given and saves is its argument and its result.
\<close>

section \<open>The shipment of a driver\<close>

text \<open>\<open>ORDER BY createdAt DESC\<close>, one row.\<close>

definition activeShipment :: "ident \<Rightarrow> ops \<Rightarrow> shipment option" where
  "activeShipment driverId s = find (\<lambda>_. True) (sort_key (\<lambda>x. - sh_createdAt x)
     (filter (\<lambda>x. sh_driverId x = driverId \<and> List.member [SH_CREATED, SH_IN_TRANSIT] (sh_status x)) (op_shipments s)))"

definition resolveWarehouseId :: "ident \<Rightarrow> ops \<Rightarrow> ident option" where
  "resolveWarehouseId driverId s = Option.bind (open_handover driverId s) ho_warehouseId"

definition total_kg :: "collection_request list \<Rightarrow> rat" where
  "total_kg qs = sum_list (map load_kg qs)"

definition with_totals :: "collection_request list \<Rightarrow> shipment \<Rightarrow> shipment" where
  "with_totals qs x = x\<lparr>sh_totalRequests := length qs, sh_totalWeightKg := total_kg qs\<rparr>"

definition shipment_number :: "fleet_world \<Rightarrow> nat \<Rightarrow> string" where
  "shipment_number F n = ''SHP-'' @ fw_dayText F (fw_now F) @ ''-'' @ padStart 3 (show_nat n)"

text \<open>Twenty-five candidates from the number of rows on; the first that no shipment has.\<close>

definition free_shipment_number :: "fleet_world \<Rightarrow> ops \<Rightarrow> string option" where
  "free_shipment_number F s = find (\<lambda>t. \<not> List.member (map sh_shipmentNumber (op_shipments s)) t)
     (map (\<lambda>i. shipment_number F (length (op_shipments s) + i)) [1 ..< 26])"

definition createShipment :: "fleet_world \<Rightarrow> ident \<Rightarrow> shipment fleet_action" where
  "createShipment F driverId =
     bind (reads (truck_of_driver driverId)) (\<lambda>found. case found of None \<Rightarrow> throw BadRequest | Some tk \<Rightarrow>
     bind (reads (resolveWarehouseId driverId)) (\<lambda>warehouseId.
     bind (reads (free_shipment_number F)) (\<lambda>number. case number of None \<Rightarrow> throw Conflict | Some shipmentNumber \<Rightarrow>
     bind new_id (\<lambda>i.
     let x = \<lparr>sh_id = i, sh_shipmentNumber = shipmentNumber, sh_status = SH_CREATED, sh_driverId = driverId,
       sh_truckId = tk_id tk, sh_warehouseId = warehouseId, sh_totalWeightKg = 0, sh_totalRequests = 0, sh_notes = None,
       sh_collectedAt = Some (fw_now F), sh_departedAt = None, sh_deliveredAt = None, sh_createdAt = fw_now F\<rparr> in
     bind (save_shipment x) (\<lambda>_. ret x)))))"

definition addToShipment :: "shipment \<Rightarrow> collection_request \<Rightarrow> collection_request fleet_action" where
  "addToShipment x q =
     (let q' = q\<lparr>cr_shipmentId := Some (sh_id x)\<rparr> in
      bind (save_request q') (\<lambda>_.
      bind (reads (requests_of_shipment (sh_id x))) (\<lambda>qs.
      bind (save_shipment (with_totals qs x)) (\<lambda>_. ret q'))))"

definition autoCreateOrAddToShipment :: "fleet_world \<Rightarrow> ident \<Rightarrow> collection_request \<Rightarrow> collection_request fleet_action" where
  "autoCreateOrAddToShipment F driverId q =
     bind (reads (activeShipment driverId)) (\<lambda>active. case active of
       Some x \<Rightarrow> addToShipment x q
     | None \<Rightarrow> bind (createShipment F driverId) (\<lambda>x. addToShipment x q))"

definition autoDepartOnArrival :: "fleet_world \<Rightarrow> ident \<Rightarrow> unit fleet_action" where
  "autoDepartOnArrival F driverId =
     bind (reads (activeShipment driverId)) (\<lambda>active. case active of None \<Rightarrow> ret () | Some x \<Rightarrow>
     if sh_status x \<noteq> SH_CREATED then ret ()
     else save_shipment (x\<lparr>sh_status := SH_IN_TRANSIT, sh_departedAt := Some (fw_now F)\<rparr>))"

text \<open>The requests of a closed shipment are completed, whatever their status was.\<close>

definition completed_request :: "time \<Rightarrow> collection_request \<Rightarrow> collection_request" where
  "completed_request now q = q\<lparr>cr_status := Q_COMPLETED, cr_completedAt := Some now,
     cr_deliveredAt := Some (or_else (cr_deliveredAt q) now)\<rparr>"

definition autoDeliverOnRouteComplete :: "fleet_world \<Rightarrow> ident \<Rightarrow> unit fleet_action" where
  "autoDeliverOnRouteComplete F driverId =
     bind (reads (activeShipment driverId)) (\<lambda>active. case active of None \<Rightarrow> ret () | Some x \<Rightarrow>
     if List.member [SH_DELIVERED, SH_CANCELLED] (sh_status x) then ret ()
     else
       bind (reads (resolveWarehouseId driverId)) (\<lambda>warehouseId.
       bind (reads (requests_of_shipment (sh_id x))) (\<lambda>qs.
       bind (save_shipment (with_totals qs (x\<lparr>sh_warehouseId := (case sh_warehouseId x of None \<Rightarrow> warehouseId | w \<Rightarrow> w),
         sh_status := SH_DELIVERED, sh_deliveredAt := Some (fw_now F)\<rparr>))) (\<lambda>_.
       save_requests (map (completed_request (fw_now F)) qs)))))"

section \<open>Reception at the warehouse\<close>

definition is_space :: "char \<Rightarrow> bool" where
  "is_space c = List.member [9, 10, 11, 12, 13, 32, 160] (of_char c :: nat)"

definition trim :: "string \<Rightarrow> string" where
  "trim t = rev (dropWhile is_space (rev (dropWhile is_space t)))"

definition hex_digit :: "char \<Rightarrow> bool" where
  "hex_digit c = (let k = (of_char (lower_char c) :: nat) in 48 \<le> k \<and> k \<le> 57 \<or> 97 \<le> k \<and> k \<le> 102)"

definition is_uuid :: "string \<Rightarrow> bool" where
  "is_uuid t \<longleftrightarrow> length t = 36 \<and> list_all (\<lambda>(i, c). if List.member [8, 13, 18, 23] i then c = CHR ''-'' else hex_digit c)
     (enumerate 0 t)"

definition DRIVER_QR_PREFIX :: string where
  "DRIVER_QR_PREFIX = ''dawrha-driver:''"

definition strip_driver_prefix :: "string \<Rightarrow> string" where
  "strip_driver_prefix t = (if map lower_char (take (length DRIVER_QR_PREFIX) t) = DRIVER_QR_PREFIX
     then drop (length DRIVER_QR_PREFIX) t else t)"

text \<open>\<open>ORDER BY departedAt DESC\<close>: rows without a departure come first.\<close>

definition in_flight :: "ident \<Rightarrow> ops \<Rightarrow> shipment option" where
  "in_flight driverId s = find (\<lambda>_. True)
     (sort_key (\<lambda>x. case sh_departedAt x of None \<Rightarrow> (0 :: nat, 0 :: int) | Some t \<Rightarrow> (1, - t))
       (filter (\<lambda>x. sh_driverId x = driverId \<and> List.member [SH_IN_TRANSIT, SH_DELIVERED] (sh_status x)) (op_shipments s)))"

definition scanned_shipment :: "string option \<Rightarrow> ops \<Rightarrow> shipment option" where
  "scanned_shipment code s =
     (let ref = strip_driver_prefix (trim (or_else code [])); i = map lower_char ref
      in if \<not> is_uuid ref then None
         else case tbl_find sh_id i (op_shipments s) of Some x \<Rightarrow> Some x
           | None \<Rightarrow> (case find_driver i s of None \<Rightarrow> None | Some d \<Rightarrow> in_flight (dp_id d) s))"

definition loadShipmentForReception :: "string option \<Rightarrow> ident \<Rightarrow> (shipment \<times> collection_request list) fleet_action" where
  "loadShipmentForReception code warehouseBackendId =
     bind (reads (scanned_shipment code)) (\<lambda>found. case found of None \<Rightarrow> throw NotFound | Some x0 \<Rightarrow>
     bind (reads (resolveWarehouseId (sh_driverId x0))) (\<lambda>wid.
     let x = x0\<lparr>sh_warehouseId := (case sh_warehouseId x0 of None \<Rightarrow> wid | w \<Rightarrow> w)\<rparr> in
     bind (refuse_if (sh_warehouseId x \<noteq> Some warehouseBackendId) Forbidden) (\<lambda>_.
     bind (reads (requests_of_shipment (sh_id x))) (\<lambda>qs.
     ret (x, in_sequence qs)))))"

record expected_line =
  el_productId :: ident
  el_odooProductId :: "int option"
  el_productName :: string
  el_unit :: string
  el_quantity :: rat

definition line_kg :: "request_line \<Rightarrow> rat" where
  "line_kg l = (case rl_actualQuantity l of None \<Rightarrow> rl_quantity l | Some q \<Rightarrow> q)"

text \<open>One entry per material, in the order the materials first appear.\<close>

definition aggregate_line :: "store \<Rightarrow> expected_line list \<Rightarrow> request_line \<Rightarrow> expected_line list" where
  "aggregate_line shop acc l =
     (if list_ex (\<lambda>e. el_productId e = rl_productId l) acc
      then map (\<lambda>e. if el_productId e = rl_productId l then e\<lparr>el_quantity := el_quantity e + line_kg l\<rparr> else e) acc
      else acc @ [\<lparr>el_productId = rl_productId l,
        el_odooProductId = Option.bind (tbl_find pd_id (rl_productId l) (db_products shop)) pd_odooProductId,
        el_productName = rl_productName l, el_unit = rl_unitType l, el_quantity = line_kg l\<rparr>])"

record reception_payload =
  rp_shipmentId :: ident
  rp_warehouseId :: ident
  rp_shipmentNumber :: string
  rp_status :: shipment_status
  rp_dispatchDate :: "time option"
  rp_totalWeightKg :: rat
  rp_expected :: "expected_line list"
  rp_requests :: "(string \<times> request_line list) list"

definition buildReceptionPayload :: "shipment \<Rightarrow> collection_request list \<Rightarrow> ident \<Rightarrow> ops \<Rightarrow> reception_payload" where
  "buildReceptionPayload x qs warehouseBackendId s =
     \<lparr>rp_shipmentId = sh_id x, rp_warehouseId = warehouseBackendId, rp_shipmentNumber = sh_shipmentNumber x,
      rp_status = sh_status x, rp_dispatchDate = sh_departedAt x, rp_totalWeightKg = round3 (total_kg qs),
      rp_expected = map (\<lambda>e. e\<lparr>el_quantity := round3 (el_quantity e)\<rparr>)
        (foldl (aggregate_line (op_shop s)) [] (concat (map (\<lambda>q. lines_of (cr_id q) s) qs))),
      rp_requests = map (\<lambda>q. (cr_requestNumber q, lines_of (cr_id q) s)) qs\<rparr>"

definition getShipmentForReception :: "string option \<Rightarrow> ident \<Rightarrow> reception_payload fleet_action" where
  "getShipmentForReception code warehouseBackendId =
     bind (loadShipmentForReception code warehouseBackendId) (\<lambda>(x, qs).
     reads (buildReceptionPayload x qs warehouseBackendId))"

definition guardTransition :: "shipment_status \<Rightarrow> shipment_status \<Rightarrow> unit fleet_action" where
  "guardTransition s t = refuse_if (\<not> canTransitionShipment s t) Conflict"

definition confirmShipmentReceipt :: "fleet_world \<Rightarrow> string option \<Rightarrow> ident \<Rightarrow> reception_payload fleet_action" where
  "confirmShipmentReceipt F code warehouseBackendId =
     bind (loadShipmentForReception code warehouseBackendId) (\<lambda>(x, qs).
     if sh_status x = SH_RECEIVED then reads (buildReceptionPayload x qs warehouseBackendId)
     else
       bind (guardTransition (sh_status x) SH_RECEIVED) (\<lambda>_.
       let x' = with_totals qs (x\<lparr>sh_status := SH_RECEIVED,
             sh_deliveredAt := Some (or_else (sh_deliveredAt x) (fw_now F))\<rparr>);
           qs' = map (\<lambda>q. if cr_status q \<noteq> Q_COMPLETED then completed_request (fw_now F) q else q) qs in
       bind (save_shipment x') (\<lambda>_.
       bind (save_requests qs') (\<lambda>_.
       reads (buildReceptionPayload x' qs' warehouseBackendId)))))"

section \<open>The driver's and the public requests\<close>

definition getDriver :: "ident \<Rightarrow> collector_profile fleet_action" where
  "getDriver accountId = bind (reads (driver_of_account accountId)) (\<lambda>found. case found of None \<Rightarrow> throw NotFound | Some d \<Rightarrow> ret d)"

definition getOwned :: "ident \<Rightarrow> ident \<Rightarrow> shipment fleet_action" where
  "getOwned i driverId = bind (reads (\<lambda>s. find (\<lambda>x. sh_id x = i \<and> sh_driverId x = driverId) (op_shipments s)))
     (\<lambda>found. case found of None \<Rightarrow> throw NotFound | Some x \<Rightarrow> ret x)"

definition myShipments :: "ident \<Rightarrow> shipment list fleet_action" where
  "myShipments accountId = bind (getDriver accountId) (\<lambda>d.
     reads (\<lambda>s. sort_key (\<lambda>x. - sh_createdAt x) (filter (\<lambda>x. sh_driverId x = dp_id d) (op_shipments s))))"

definition shipment_detail :: "shipment \<Rightarrow> ops \<Rightarrow> shipment \<times> (collection_request \<times> request_line list) list" where
  "shipment_detail x s = (x, map (\<lambda>q. (q, lines_of (cr_id q) s)) (in_sequence (requests_of_shipment (sh_id x) s)))"

definition my_shipment :: "ident \<Rightarrow> ident \<Rightarrow> (shipment \<times> (collection_request \<times> request_line list) list) fleet_action" where
  "my_shipment accountId i = bind (getDriver accountId) (\<lambda>d. bind (getOwned i (dp_id d)) (\<lambda>x. reads (shipment_detail x)))"

definition publicDetail :: "ident \<Rightarrow> (shipment \<times> (collection_request \<times> request_line list) list) fleet_action" where
  "publicDetail i = bind (reads (\<lambda>s. tbl_find sh_id i (op_shipments s)))
     (\<lambda>found. case found of None \<Rightarrow> throw NotFound | Some x \<Rightarrow> reads (shipment_detail x))"

definition shipment_cancel :: "ident \<Rightarrow> ident \<Rightarrow> shipment fleet_action" where
  "shipment_cancel accountId i =
     bind (getDriver accountId) (\<lambda>d. bind (getOwned i (dp_id d)) (\<lambda>x.
     bind (guardTransition (sh_status x) SH_CANCELLED) (\<lambda>_.
     let x' = x\<lparr>sh_status := SH_CANCELLED\<rparr> in
     bind (save_shipment x') (\<lambda>_.
     bind (reads (requests_of_shipment i)) (\<lambda>qs.
     bind (save_requests (map (\<lambda>q. q\<lparr>cr_status := Q_PICKING, cr_shipmentId := None\<rparr>) qs)) (\<lambda>_.
     ret x'))))))"

definition performDeliver :: "fleet_world \<Rightarrow> shipment \<Rightarrow> ident option \<Rightarrow> string option \<Rightarrow> shipment fleet_action" where
  "performDeliver F x warehouseId notes =
     bind (guardTransition (sh_status x) SH_DELIVERED) (\<lambda>_.
     bind (reads (requests_of_shipment (sh_id x))) (\<lambda>qs.
     let x' = with_totals qs (x\<lparr>sh_warehouseId := (case sh_warehouseId x of None \<Rightarrow> warehouseId | w \<Rightarrow> w),
       sh_status := SH_DELIVERED, sh_deliveredAt := Some (fw_now F),
       sh_notes := (if present_text notes then notes else sh_notes x)\<rparr>) in
     bind (save_shipment x') (\<lambda>_.
     bind (save_requests (map (completed_request (fw_now F)) qs)) (\<lambda>_.
     ret x'))))"

definition shipment_deliver :: "fleet_world \<Rightarrow> ident \<Rightarrow> ident \<Rightarrow> ident option \<Rightarrow> string option \<Rightarrow> shipment fleet_action" where
  "shipment_deliver F accountId i warehouseId notes =
     bind (getDriver accountId) (\<lambda>d. bind (getOwned i (dp_id d)) (\<lambda>x. performDeliver F x warehouseId notes))"

text \<open>The administrator's list: a missing or zero page is the first, a missing or zero limit is 20.\<close>

definition shipments_listed :: "shipment_status option \<Rightarrow> ident option \<Rightarrow> ident option \<Rightarrow> ops \<Rightarrow> shipment list" where
  "shipments_listed st driverId warehouseId s = sort_key (\<lambda>x. - sh_createdAt x) (filter (\<lambda>x.
     (st = None \<or> st = Some (sh_status x)) \<and> (driverId = None \<or> driverId = Some (sh_driverId x))
     \<and> (warehouseId = None \<or> warehouseId = sh_warehouseId x)) (op_shipments s))"

definition shipments_page :: "nat \<Rightarrow> nat \<Rightarrow> shipment list \<Rightarrow> shipment list \<times> nat" where
  "shipments_page page limit rows =
     (let p = (if page = 0 then 1 else page); l = min (if limit = 0 then 20 else limit) 100
      in (page_rows p l rows, length rows))"

end
