(* ===== verification/Dispatch.thy ===== *)
theory Dispatch
  imports Shipments "HOL-Library.AList"
begin

text \<open>
  The dispatch engine (\<open>dispatch-candidates.service.ts\<close>, \<open>dispatch-engine.service.ts\<close>,
  \<open>driver-offer.service.ts\<close>, \<open>offer-acceptance-sweeper.cron.ts\<close>, \<open>dispatch.processor.ts\<close>): who may
  serve a request, how candidates are scored, the one offer that is out at a time, the merge into a
  tour under way, and what starts an election.  Socket messages and pushes are best-effort and left
  out, as are the Redis keys of an offer, which nothing reads.
\<close>

section \<open>Candidates\<close>

record driver_candidate =
  cd_driverId :: ident
  cd_accountId :: ident
  cd_truckId :: ident
  cd_maxPayloadKg :: "rat option"
  cd_activeTasks :: nat
  cd_activeWeightKg :: rat
  cd_completedToday :: nat
  cd_fallback :: "point option"

definition requests_of_driver :: "ident \<Rightarrow> ops \<Rightarrow> collection_request list" where
  "requests_of_driver driverId s = filter (\<lambda>q. case cr_routeId q of None \<Rightarrow> False
     | Some k \<Rightarrow> map_option ro_driverId (find_route k s) = Some driverId) (op_requests s)"

definition tasks_of :: "ident \<Rightarrow> ops \<Rightarrow> collection_request list" where
  "tasks_of driverId s = filter is_active_task (requests_of_driver driverId s)"

definition busy :: "ident \<Rightarrow> ops \<Rightarrow> bool" where
  "busy driverId s \<longleftrightarrow> list_ex (\<lambda>q. List.member BUSY_STATUSES (cr_status q)) (requests_of_driver driverId s)"

definition completedTodayByDriver :: "fleet_world \<Rightarrow> ident \<Rightarrow> ops \<Rightarrow> nat" where
  "completedTodayByDriver F driverId s = length (filter (\<lambda>q. cr_status q = Q_COMPLETED
     \<and> (case cr_completedAt q of None \<Rightarrow> False | Some t \<Rightarrow> startOfDayInZone (fw_zone F) (fw_now F) \<le> t))
     (requests_of_driver driverId s))"

definition coverageFallback :: "ident \<Rightarrow> ops \<Rightarrow> point option" where
  "coverageFallback driverId s = find (\<lambda>_. True) (rev (List.map_filter (\<lambda>c.
     if dc_driverId c = driverId \<and> dc_isActive c
     then (case tbl_find cp_id (dc_coveragePointId c) (op_points s) of None \<Rightarrow> None
           | Some p \<Rightarrow> if cp_isActive p then Some (cp_at p) else None)
     else None) (op_coverage s)))"

text \<open>The query: an active account, an active shift, a truck that is not out of service; then the shift covers now.\<close>

definition on_duty :: "fleet_world \<Rightarrow> ops \<Rightarrow> collector_profile \<Rightarrow> bool" where
  "on_duty F s d \<longleftrightarrow>
     map_option ac_status (tbl_find ac_id (dp_accountId d) (db_accounts (op_shop s))) = Some A_ACTIVE
     \<and> (case tbl_find sf_id (dp_shiftId d) (op_shifts s) of None \<Rightarrow> False
        | Some sf \<Rightarrow> sf_isActive sf \<and> shiftCovers (fw_zone F) sf (fw_now F))
     \<and> (case truck_of_driver (dp_id d) s of None \<Rightarrow> False | Some tk \<Rightarrow> tk_status tk \<noteq> TK_DISABLED)"

definition candidate_of :: "fleet_world \<Rightarrow> ops \<Rightarrow> collector_profile \<Rightarrow> driver_candidate" where
  "candidate_of F s d = (let tasks = tasks_of (dp_id d) s in
     \<lparr>cd_driverId = dp_id d, cd_accountId = dp_accountId d,
      cd_truckId = (case truck_of_driver (dp_id d) s of None \<Rightarrow> [] | Some tk \<Rightarrow> tk_id tk),
      cd_maxPayloadKg = Option.bind (truck_of_driver (dp_id d) s) tk_maxPayloadKg,
      cd_activeTasks = length tasks, cd_activeWeightKg = total_kg tasks,
      cd_completedToday = completedTodayByDriver F (dp_id d) s, cd_fallback = coverageFallback (dp_id d) s\<rparr>)"

definition passesCapacity :: "collection_request \<Rightarrow> driver_candidate \<Rightarrow> bool" where
  "passesCapacity q c = (case cd_maxPayloadKg c of None \<Rightarrow> True
     | Some maxKg \<Rightarrow> cr_estimatedWeightKg q \<le> maxKg - cd_activeWeightKg c)"

text \<open>An empty list of drivers asks for all of them.\<close>

definition findEligible :: "fleet_world \<Rightarrow> collection_request \<Rightarrow> ident list \<Rightarrow> bool \<Rightarrow> ops \<Rightarrow> driver_candidate list" where
  "findEligible F q driverIds allowBusy s =
     filter (passesCapacity q) (map (candidate_of F s) (filter (\<lambda>d. allowBusy \<or> \<not> busy (dp_id d) s)
       (filter (\<lambda>d. (driverIds = [] \<or> List.member driverIds (dp_id d)) \<and> on_duty F s d) (op_drivers s))))"

section \<open>Scores\<close>

definition clamp :: "rat \<Rightarrow> rat \<Rightarrow> rat \<Rightarrow> rat" where
  "clamp v lo hi = min hi (max lo v)"

text \<open>The remainder of JavaScript has the sign of the dividend.\<close>

definition js_rem :: "rat \<Rightarrow> rat \<Rightarrow> rat" where
  "js_rem x m = (let k = x / m in x - m * of_int (if 0 \<le> k then \<lfloor>k\<rfloor> else \<lceil>k\<rceil>))"

definition headingDiffDeg :: "rat \<Rightarrow> rat \<Rightarrow> rat" where
  "headingDiffDeg h1 h2 = (let d = \<bar>js_rem (h1 - h2 + 360) 360\<bar> in if d \<le> 180 then d else 360 - d)"

definition request_point :: "collection_request \<Rightarrow> point option" where
  "request_point q = (case cr_lat q of None \<Rightarrow> None | Some la \<Rightarrow> map_option (\<lambda>ln. (la, ln)) (cr_lng q))"

definition scoreProximity :: "fleet_world \<Rightarrow> driver_candidate \<Rightarrow> collection_request \<Rightarrow> live_fix option \<Rightarrow> rat" where
  "scoreProximity F c q fix =
     (case (case fix of None \<Rightarrow> cd_fallback c | Some x \<Rightarrow> Some (lf_at x)) of None \<Rightarrow> 50 | Some from \<Rightarrow>
      (case request_point q of None \<Rightarrow> 50 | Some to \<Rightarrow> clamp (100 - fw_km F from to * 10) 0 100))"

text \<open>A heading of zero degrees is as good as none (\<open>!location?.heading\<close>).\<close>

definition scoreDirection :: "fleet_world \<Rightarrow> collection_request \<Rightarrow> live_fix option \<Rightarrow> rat" where
  "scoreDirection F q fix =
     (case fix of None \<Rightarrow> 50 | Some x \<Rightarrow> (case lf_heading x of None \<Rightarrow> 50 | Some heading \<Rightarrow>
      if heading = 0 then 50
      else case request_point q of None \<Rightarrow> 50 | Some to \<Rightarrow>
        (case fw_bearing F (lf_at x) to of None \<Rightarrow> 50
         | Some bearing \<Rightarrow> (1 - headingDiffDeg heading bearing / 180) * 100)))"

definition scoreDeadline :: "time \<Rightarrow> time \<Rightarrow> rat" where
  "scoreDeadline now scheduledAt = clamp (of_int (scheduledAt - now) / 60000 * (5/2)) 0 100"

definition driver_score :: "fleet_world \<Rightarrow> driver_candidate \<Rightarrow> collection_request \<Rightarrow> dispatch_config \<Rightarrow> live_fix option \<Rightarrow> rat" where
  "driver_score F c q config fix =
     (let w = cf_weights config;
          load = clamp (100 - of_nat (cd_activeTasks c) * 22) 0 100;
          vehicle = (case cd_maxPayloadKg c of None \<Rightarrow> 100
            | Some maxKg \<Rightarrow> if 0 < maxKg then clamp ((maxKg - cd_activeWeightKg c) / maxKg * 100) 0 100 else 100);
          deadline = (case cr_scheduledAt q of None \<Rightarrow> 100
            | Some t \<Rightarrow> if cr_type q = IMMEDIATE then 100 else scoreDeadline (fw_now F) t);
          fairness = clamp (100 - (of_nat (cd_completedToday c) - 1) * 12) 0 100
      in (scoreProximity F c q fix * dw_proximity w + scoreDirection F q fix * dw_direction w + load * dw_load w
          + vehicle * dw_vehicle w + deadline * dw_deadline w + fairness * dw_fairness w) / 100)"

text \<open>Highest score first; candidates of equal score keep their order.\<close>

definition ranked :: "fleet_world \<Rightarrow> collection_request \<Rightarrow> dispatch_config \<Rightarrow> driver_candidate list \<Rightarrow> (driver_candidate \<times> rat) list" where
  "ranked F q config pool = sort_key (\<lambda>x. - snd x)
     (map (\<lambda>c. (c, driver_score F c q config (fw_fix F (cd_truckId c)))) pool)"

section \<open>Binding a request to a tour\<close>

definition enqueueElect :: "ident \<Rightarrow> unit fleet_action" where
  "enqueueElect requestId = enqueue_dispatch (ELECT requestId)"

definition trackRequestForDriver :: "ident \<Rightarrow> ident \<Rightarrow> unit fleet_action" where
  "trackRequestForDriver requestId driverId = writes (\<lambda>s.
     case find (\<lambda>a. ta_driverId a = driverId) (op_truckAssignments s) of None \<Rightarrow> s
     | Some a \<Rightarrow> s\<lparr>op_tracked := AList.update requestId (ta_truckId a) (op_tracked s)\<rparr>)"

definition untrackRequest :: "ident \<Rightarrow> unit fleet_action" where
  "untrackRequest requestId = writes (\<lambda>s. s\<lparr>op_tracked := filter (\<lambda>x. fst x \<noteq> requestId) (op_tracked s)\<rparr>)"

text \<open>The driver's current tour: the oldest planned or running one.\<close>

definition current_route :: "ident \<Rightarrow> ops \<Rightarrow> collection_route option" where
  "current_route driverId s = find (\<lambda>_. True) (sort_key ro_createdAt
     (filter (\<lambda>r. ro_driverId r = driverId \<and> List.member [RT_PLANNED, RT_IN_PROGRESS] (ro_status r)) (op_routes s)))"

definition new_route :: "fleet_world \<Rightarrow> string \<Rightarrow> ident \<Rightarrow> route_status \<Rightarrow> time option \<Rightarrow> collection_route fleet_action" where
  "new_route F prefix driverId st startedAt =
     bind (reads (\<lambda>s. nextSequentialNumber (map ro_routeNumber (op_routes s)) prefix 3)) (\<lambda>number.
     bind new_id (\<lambda>i.
     let r = \<lparr>ro_id = i, ro_routeNumber = number, ro_driverId = driverId, ro_status = st, ro_startedAt = startedAt,
       ro_completedAt = None, ro_cancelledAt = None, ro_createdAt = fw_now F\<rparr> in
     bind (save_route r) (\<lambda>_. ret r)))"

definition max_sequence :: "ident \<Rightarrow> ops \<Rightarrow> nat" where
  "max_sequence routeId s = foldl max 0 (List.map_filter cr_routeSequence (requests_of_route routeId s))"

definition bindToRoute :: "fleet_world \<Rightarrow> collection_request \<Rightarrow> ident \<Rightarrow> collection_request fleet_action" where
  "bindToRoute F q driverId =
     bind (reads (current_route driverId)) (\<lambda>found.
     bind (case found of Some r \<Rightarrow> ret r
           | None \<Rightarrow> new_route F (''RTE-'' @ fw_dayText F (fw_now F)) driverId RT_PLANNED None) (\<lambda>r.
     bind (reads (max_sequence (ro_id r))) (\<lambda>maxSeq.
     bind (applyRequestStatus (q\<lparr>cr_routeId := Some (ro_id r), cr_routeSequence := Some (maxSeq + 1)\<rparr>) Q_ASSIGNED (fw_now F)) (\<lambda>q'.
     bind (save_request q') (\<lambda>_.
     bind (emit (Request_assigned driverId (cr_id q'))) (\<lambda>_. ret q'))))))"

text \<open>The place among the open stops becomes a place in the whole tour; the stops that move are saved
  with their new numbers, the new one among them, before it is bound.\<close>

definition full_index :: "collection_request list \<Rightarrow> collection_request list \<Rightarrow> nat \<Rightarrow> nat" where
  "full_index stops opened position =
     (case find (\<lambda>i. List.member (map cr_id opened) (cr_id (stops ! i))) [0 ..< length stops] of
        None \<Rightarrow> length stops | Some i \<Rightarrow> i + position)"

definition renumbered :: "collection_request list \<Rightarrow> collection_request list" where
  "renumbered tour = map (\<lambda>(i, q). q\<lparr>cr_routeSequence := Some i\<rparr>)
     (filter (\<lambda>(i, q). cr_routeSequence q \<noteq> Some i) (enumerate 1 tour))"

definition bindMerged :: "fleet_world \<Rightarrow> collection_route \<Rightarrow> collection_request list \<Rightarrow> collection_request list \<Rightarrow> collection_request \<Rightarrow> nat
    \<Rightarrow> collection_request fleet_action" where
  "bindMerged F r stops opened q position =
     (let fullIndex = full_index stops opened position in
      bind (save_requests (renumbered (insert_stop fullIndex q stops))) (\<lambda>_.
      bind (applyRequestStatus (q\<lparr>cr_routeId := Some (ro_id r), cr_routeSequence := Some (fullIndex + 1)\<rparr>) Q_ASSIGNED (fw_now F)) (\<lambda>q'.
      bind (save_request q') (\<lambda>_.
      bind (emit (Request_assigned (ro_driverId r) (cr_id q'))) (\<lambda>_.
      bind (autoCreateOrAddToShipment F (ro_driverId r) q') (\<lambda>q''.
      bind (trackRequestForDriver (cr_id q'') (ro_driverId r)) (\<lambda>_. ret q''))))))) "

definition wrapStop :: "collection_request \<Rightarrow> route_stop" where
  "wrapStop q = \<lparr>rs_requestId = cr_id q, rs_at = (or_else (cr_lat q) 0, or_else (cr_lng q) 0), rs_scheduledAt = cr_scheduledAt q\<rparr>"

definition liveAnchor :: "fleet_world \<Rightarrow> ident \<Rightarrow> ops \<Rightarrow> route_stop option" where
  "liveAnchor F driverId s = Option.bind (find (\<lambda>a. ta_driverId a = driverId) (op_truckAssignments s)) (\<lambda>a.
     map_option (\<lambda>fix. \<lparr>rs_requestId = ''__live_anchor__'', rs_at = lf_at fix, rs_scheduledAt = None\<rparr>) (fw_fix F (ta_truckId a)))"

definition merge_constraints :: "dispatch_config \<Rightarrow> route_constraints" where
  "merge_constraints config = \<lparr>rc_mergeMaxMinutes = cf_routeMergeMaxMin config,
     rc_mergeMaxKm = (if cf_routeMergeMaxKm config = 0 then 5 else cf_routeMergeMaxKm config),
     rc_institutionToleranceMin = cf_institutionToleranceMin config,
     rc_avgSpeedKmh = rc_avgSpeedKmh DEFAULT_ROUTE_CONSTRAINTS\<rparr>"

definition served_statuses :: "request_status list" where
  "served_statuses = [Q_DELIVERED, Q_COMPLETED, Q_CANCELLED]"

text \<open>What a tour under way would do with the request: the stops, the open ones and the place, if it takes it.\<close>

definition merge_target :: "fleet_world \<Rightarrow> dispatch_config \<Rightarrow> collection_request \<Rightarrow> collection_route \<Rightarrow> ops
    \<Rightarrow> (collection_request list \<times> collection_request list \<times> nat) option" where
  "merge_target F config q r s =
     (let stops = in_sequence (requests_of_route (ro_id r) s);
          opened = filter is_active_task stops
      in if opened = [] then None
         else if list_ex (\<lambda>x. cr_lat x = None \<or> cr_lng x = None) opened then None
         else
           (let anchor = (case find (\<lambda>x. List.member served_statuses (cr_status x)) (rev stops) of
                  Some x \<Rightarrow> Some (wrapStop x) | None \<Rightarrow> liveAnchor F (ro_driverId r) s)
            in case canMergeInto (merge_constraints config) (fw_now F) (fw_km F) (map wrapStop opened) anchor (wrapStop q) of
                 Inl _ \<Rightarrow> None
               | Inr position \<Rightarrow> if findEligible F q [ro_driverId r] True s = [] then None
                   else Some (stops, opened, position)))"

fun try_routes :: "fleet_world \<Rightarrow> dispatch_config \<Rightarrow> collection_request \<Rightarrow> collection_route list \<Rightarrow> collection_request option fleet_action" where
  "try_routes F config q [] = ret None"
| "try_routes F config q (r # rs) =
     bind (reads (merge_target F config q r)) (\<lambda>target. case target of
       None \<Rightarrow> try_routes F config q rs
     | Some (stops, opened, position) \<Rightarrow> bind (bindMerged F r stops opened q position) (\<lambda>q'. ret (Some q')))"

definition tryMergeRequest :: "fleet_world \<Rightarrow> dispatch_config \<Rightarrow> collection_request \<Rightarrow> collection_request option fleet_action" where
  "tryMergeRequest F config q =
     (if cr_lat q = None \<or> cr_lng q = None then ret None
      else bind (reads (\<lambda>s. filter (\<lambda>r. ro_status r = RT_IN_PROGRESS) (op_routes s))) (\<lambda>routes.
        try_routes F config q routes))"

end
