(* ===== verification/Elections.thy ===== *)
theory Elections
  imports Dispatch
begin

text \<open>
  The rest of \<open>dispatch-engine.service.ts\<close>, with \<open>driver-offer.service.ts\<close>,
  \<open>offer-acceptance-sweeper.cron.ts\<close> and \<open>dispatch.processor.ts\<close>: an election, the one offer that is
  out, its settlement by the driver, the clock or the administrator, and the triggers.  A method
  that changes the request it was given returns it.
\<close>

section \<open>Offers\<close>

definition outstanding :: "ident \<Rightarrow> ops \<Rightarrow> request_assignment list" where
  "outstanding requestId s = filter (\<lambda>a. ca_requestId a = requestId \<and> ca_status a = CA_OFFERED) (op_assignments s)"

definition new_offer :: "ident \<Rightarrow> ident \<Rightarrow> rat option \<Rightarrow> time option \<Rightarrow> request_assignment fleet_action" where
  "new_offer requestId driverId score expiresAt =
     bind new_id (\<lambda>i.
     let a = \<lparr>ca_id = i, ca_requestId = requestId, ca_driverId = driverId, ca_status = CA_OFFERED,
       ca_score = score, ca_offerExpiresAt = expiresAt, ca_respondedAt = None\<rparr> in
     bind (insert_assignment a) (\<lambda>_. ret a))"

definition offer :: "fleet_world \<Rightarrow> dispatch_config \<Rightarrow> collection_request \<Rightarrow> driver_candidate \<Rightarrow> rat \<Rightarrow> unit fleet_action" where
  "offer F config q c score =
     bind (new_offer (cr_id q) (cd_driverId c) (Some (round2 score)) (Some (fw_now F + cf_acceptWindowSec config * 1000)))
       (\<lambda>_. ret ())"

definition needsAdmin :: "fleet_world \<Rightarrow> collection_request \<Rightarrow> unit fleet_action" where
  "needsAdmin F q =
     (if cr_status q \<noteq> Q_QUEUED then ret ()
      else bind (applyRequestStatus q Q_NEEDS_ADMIN (fw_now F)) save_request)"

section \<open>The election\<close>

text \<open>A request that waits for its slot is left alone until the lead time before it.\<close>

definition too_early :: "fleet_world \<Rightarrow> dispatch_config \<Rightarrow> collection_request \<Rightarrow> bool" where
  "too_early F config q \<longleftrightarrow> cr_type q \<noteq> IMMEDIATE
     \<and> (case cr_scheduledAt q of None \<Rightarrow> False | Some t \<Rightarrow> t - fw_now F > cf_scheduledLeadMin config * 60000)"

definition elect :: "fleet_world \<Rightarrow> ident \<Rightarrow> unit fleet_action" where
  "elect F requestId =
     bind (reads (find_request requestId)) (\<lambda>found. case found of None \<Rightarrow> ret () | Some q \<Rightarrow>
     if cr_status q \<noteq> Q_QUEUED then ret ()
     else
       bind get_config (\<lambda>config.
       if \<not> cf_isEnabled config then ret ()
       else if too_early F config q then ret ()
       else
         bind (reads (outstanding requestId)) (\<lambda>already.
         if already \<noteq> [] then ret ()
         else
           bind (tryMergeRequest F config q) (\<lambda>merged.
           if merged \<noteq> None then ret ()
           else
             bind (reads (findEligible F q [] False)) (\<lambda>pool.
             case ranked F q config pool of
               [] \<Rightarrow> needsAdmin F q
             | (best, score) # _ \<Rightarrow> offer F config q best score)))))"

definition oldest_queued :: "ops \<Rightarrow> collection_request option" where
  "oldest_queued s = find (\<lambda>_. True) (sort_key cr_createdAt (filter (\<lambda>q. cr_status q = Q_QUEUED) (op_requests s)))"

definition electNextForDriver :: "fleet_world \<Rightarrow> unit fleet_action" where
  "electNextForDriver F = bind (reads oldest_queued) (\<lambda>found. case found of None \<Rightarrow> ret () | Some q \<Rightarrow> elect F (cr_id q))"

datatype election = Nobody | Merged ident | Elected driver_candidate rat

definition electSynchronous :: "fleet_world \<Rightarrow> collection_request \<Rightarrow> (election \<times> collection_request) fleet_action" where
  "electSynchronous F q =
     bind get_config (\<lambda>config.
     if \<not> cf_isEnabled config then ret (Nobody, q)
     else
       bind (tryMergeRequest F config q) (\<lambda>merged. case merged of
         Some q' \<Rightarrow> bind (reads (\<lambda>s. Option.bind (cr_routeId q') (\<lambda>k. find_route k s))) (\<lambda>found.
           ret (case found of None \<Rightarrow> Nobody | Some r \<Rightarrow> Merged (ro_driverId r), q'))
       | None \<Rightarrow>
           bind (reads (findEligible F q [] False)) (\<lambda>pool.
           ret (case ranked F q config pool of [] \<Rightarrow> Nobody | (best, score) # _ \<Rightarrow> Elected best score, q))))"

section \<open>Settlement\<close>

definition after_settlement :: "fleet_world \<Rightarrow> ident \<Rightarrow> collection_request option \<Rightarrow> assignment_status
    \<Rightarrow> collection_request option fleet_action" where
  "after_settlement F driverId loaded to =
     (case loaded of None \<Rightarrow> ret None | Some q \<Rightarrow>
      if cr_status q \<noteq> Q_QUEUED then ret loaded
      else if to = CA_ACCEPTED then
        bind (bindToRoute F q driverId) (\<lambda>q1.
        bind (autoCreateOrAddToShipment F driverId q1) (\<lambda>q2.
        bind (trackRequestForDriver (cr_id q2) driverId) (\<lambda>_. ret (Some q2))))
      else bind (enqueueElect (cr_id q)) (\<lambda>_. ret loaded))"

definition settleOffer :: "fleet_world \<Rightarrow> request_assignment \<Rightarrow> collection_request option \<Rightarrow> assignment_status
    \<Rightarrow> collection_request option fleet_action" where
  "settleOffer F a loaded to =
     (if ca_status a \<noteq> CA_OFFERED then ret loaded
      else
        bind (applyAssignmentStatus a to (fw_now F)) (\<lambda>a'.
        bind (save_assignment a') (\<lambda>_. after_settlement F (ca_driverId a') loaded to)))"

definition openWindow :: "fleet_world \<Rightarrow> ident \<Rightarrow> unit fleet_action" where
  "openWindow F requestId =
     bind (reads (find_request requestId)) (\<lambda>found. case found of None \<Rightarrow> ret () | Some q \<Rightarrow>
     if cr_status q \<noteq> Q_CREATED then ret ()
     else
       bind (applyRequestStatus q Q_QUEUED (fw_now F)) (\<lambda>q'.
       bind (save_request q') (\<lambda>_. enqueueElect (cr_id q'))))"

text \<open>The job carries the request's id as its own: a second one is not added.\<close>

definition add_window_job :: "ident \<Rightarrow> time \<Rightarrow> unit fleet_action" where
  "add_window_job requestId due = writes (\<lambda>s.
     if list_ex (\<lambda>j. case j of OPEN_WINDOW r _ \<Rightarrow> r = requestId | _ \<Rightarrow> False) (op_queue s) then s
     else s\<lparr>op_queue := op_queue s @ [OPEN_WINDOW requestId due]\<rparr>)"

definition scheduleWindow :: "fleet_world \<Rightarrow> collection_request \<Rightarrow> unit fleet_action" where
  "scheduleWindow F q =
     (case cr_scheduledAt q of None \<Rightarrow> ret () | Some t \<Rightarrow>
      if cr_status q \<noteq> Q_CREATED then ret ()
      else
        bind get_config (\<lambda>config.
        let delay = t - fw_now F - cf_scheduledLeadMin config * 60000 in
        if delay \<le> 0 then openWindow F (cr_id q) else add_window_job (cr_id q) (fw_now F + delay)))"

definition assignManually :: "fleet_world \<Rightarrow> ident \<Rightarrow> ident \<Rightarrow> collection_request option fleet_action" where
  "assignManually F requestId driverId =
     bind (reads (find_request requestId)) (\<lambda>found. case found of None \<Rightarrow> throw NotFound | Some q \<Rightarrow>
     if \<not> List.member [Q_QUEUED, Q_NEEDS_ADMIN] (cr_status q) then throw Conflict
     else
       bind get_config (\<lambda>_.
       bind (reads (findEligible F q [driverId] True)) (\<lambda>pool.
       if pool = [] then throw Conflict
       else
         bind (if cr_status q = Q_NEEDS_ADMIN
               then bind (applyRequestStatus q Q_QUEUED (fw_now F)) (\<lambda>q1. bind (save_request q1) (\<lambda>_. ret q1))
               else ret q) (\<lambda>q1.
         bind (new_offer requestId driverId None None) (\<lambda>a.
         settleOffer F a (Some q1) CA_ACCEPTED)))))"

section \<open>Triggers\<close>

definition handleQueued :: "fleet_world \<Rightarrow> ident \<Rightarrow> unit fleet_action" where
  "handleQueued F requestId = best_effort
     (bind (reads (find_request requestId)) (\<lambda>found. case found of None \<Rightarrow> ret () | Some q \<Rightarrow>
      if cr_type q = IMMEDIATE then (if cr_status q \<noteq> Q_QUEUED then ret () else enqueueElect (cr_id q))
      else scheduleWindow F q))"

definition handleCancelled :: "ident \<Rightarrow> unit fleet_action" where
  "handleCancelled requestId = best_effort
     (bind (reads (find_request requestId)) (\<lambda>found. case found of None \<Rightarrow> ret () | Some q \<Rightarrow> untrackRequest (cr_id q)))"

definition handleDriverFreed :: "fleet_world \<Rightarrow> unit fleet_action" where
  "handleDriverFreed F = best_effort (electNextForDriver F)"

text \<open>\<open>first\<close>: the throttle key of the driver was not set in the last minute.\<close>

definition handleLocationUpdated :: "ident option \<Rightarrow> bool \<Rightarrow> unit fleet_action" where
  "handleLocationUpdated driver first =
     (case driver of None \<Rightarrow> ret () | Some d \<Rightarrow> if first then enqueue_dispatch (ELECT_NEXT_FOR_DRIVER d) else ret ())"

definition handleEvent :: "fleet_world \<Rightarrow> collection_event \<Rightarrow> unit fleet_action" where
  "handleEvent F e = (case e of Request_queued r \<Rightarrow> handleQueued F r | Request_cancelled r \<Rightarrow> handleCancelled r
     | Driver_freed _ \<Rightarrow> handleDriverFreed F | Request_assigned _ _ \<Rightarrow> ret ())"

definition dispatch_process :: "fleet_world \<Rightarrow> dispatch_job \<Rightarrow> unit fleet_action" where
  "dispatch_process F j = best_effort (case j of ELECT r \<Rightarrow> elect F r | OPEN_WINDOW r _ \<Rightarrow> openWindow F r
     | ELECT_NEXT_FOR_DRIVER _ \<Rightarrow> electNextForDriver F)"

text \<open>The hundred offers that lapse first (\<open>ORDER BY offerExpiresAt ASC\<close>, rows without a deadline last).\<close>

definition lapsing :: "ops \<Rightarrow> request_assignment list" where
  "lapsing s = take 100 (sort_key (\<lambda>a. case ca_offerExpiresAt a of None \<Rightarrow> (1 :: nat, 0) | Some t \<Rightarrow> (0, t))
     (filter (\<lambda>a. ca_status a = CA_OFFERED) (op_assignments s)))"

definition lapsed :: "time \<Rightarrow> request_assignment \<Rightarrow> bool" where
  "lapsed now a = (case ca_offerExpiresAt a of None \<Rightarrow> False | Some t \<Rightarrow> t \<le> now)"

definition expireOffers :: "fleet_world \<Rightarrow> unit fleet_action" where
  "expireOffers F =
     bind (reads (\<lambda>s. map (\<lambda>a. (a, find_request (ca_requestId a) s)) (lapsing s))) (\<lambda>rows.
     for_each rows (\<lambda>(a, q). if lapsed (fw_now F) a then best_effort (settleOffer F a q CA_EXPIRED) else ret ()))"

section \<open>The driver's answer\<close>

record truck_capacity =
  tc_maxKg :: rat
  tc_usedKg :: rat
  tc_remainingKg :: rat
  tc_isFull :: bool

definition capacity_view :: "rat \<Rightarrow> rat \<Rightarrow> truck_capacity" where
  "capacity_view maxKg usedKg = (let remaining = max 0 (maxKg - usedKg) in
     \<lparr>tc_maxKg = maxKg, tc_usedKg = round2 usedKg, tc_remainingKg = round2 remaining, tc_isFull = remaining \<le> 0\<rparr>)"

definition tour_capacity :: "ident \<Rightarrow> ident \<Rightarrow> ops \<Rightarrow> truck_capacity option" where
  "tour_capacity driverId routeId s =
     (case Option.bind (truck_of_driver driverId s) tk_maxPayloadKg of None \<Rightarrow> None | Some maxKg \<Rightarrow>
      (case find_route routeId s of None \<Rightarrow> None
       | Some r \<Rightarrow> Some (capacity_view maxKg (total_kg (requests_of_route routeId s)))))"

definition getTruckCapacity :: "collection_request \<Rightarrow> ops \<Rightarrow> truck_capacity option" where
  "getTruckCapacity q s = (case cr_routeId q of None \<Rightarrow> None | Some k \<Rightarrow>
     (case find_route k s of None \<Rightarrow> None | Some r \<Rightarrow> tour_capacity (ro_driverId r) k s))"

type_synonym offer_view = "(collection_request \<times> request_line list \<times> truck_capacity option) option"

definition buildView :: "collection_request option \<Rightarrow> ops \<Rightarrow> offer_view" where
  "buildView found s = map_option (\<lambda>q. (q, lines_of (cr_id q) s, getTruckCapacity q s)) found"

definition loadPendingOffer :: "ident \<Rightarrow> ident \<Rightarrow> ops \<Rightarrow> request_assignment option" where
  "loadPendingOffer accountId requestId s = (case driver_of_account accountId s of None \<Rightarrow> None | Some d \<Rightarrow>
     find (\<lambda>a. ca_requestId a = requestId \<and> ca_driverId a = dp_id d \<and> ca_status a = CA_OFFERED) (op_assignments s))"

definition buildViewIfAlreadyBound :: "ident \<Rightarrow> ident \<Rightarrow> offer_view fleet_action" where
  "buildViewIfAlreadyBound accountId requestId =
     bind (reads (driver_of_account accountId)) (\<lambda>driver. case driver of None \<Rightarrow> throw NotFound | Some d \<Rightarrow>
     bind (reads (\<lambda>s. find (\<lambda>q. cr_id q = requestId) (requests_of_driver (dp_id d) s))) (\<lambda>found. case found of
       None \<Rightarrow> throw NotFound
     | Some q \<Rightarrow> if List.member [Q_QUEUED, Q_CREATED] (cr_status q) then throw NotFound
         else reads (buildView (Some q))))"

definition offer_accept :: "fleet_world \<Rightarrow> ident \<Rightarrow> ident \<Rightarrow> offer_view fleet_action" where
  "offer_accept F accountId requestId =
     bind (reads (loadPendingOffer accountId requestId)) (\<lambda>pending. case pending of
       None \<Rightarrow> buildViewIfAlreadyBound accountId requestId
     | Some a \<Rightarrow>
         bind (reads (find_request requestId)) (\<lambda>q.
         if lapsed (fw_now F) a then bind (settleOffer F a q CA_EXPIRED) (\<lambda>_. throw Conflict)
         else bind (settleOffer F a q CA_ACCEPTED) (\<lambda>q'. reads (buildView q'))))"

definition offer_reject :: "fleet_world \<Rightarrow> ident \<Rightarrow> ident \<Rightarrow> unit fleet_action" where
  "offer_reject F accountId requestId =
     bind (reads (loadPendingOffer accountId requestId)) (\<lambda>pending. case pending of
       None \<Rightarrow> throw NotFound
     | Some a \<Rightarrow> bind (reads (find_request requestId)) (\<lambda>q. bind (settleOffer F a q CA_REJECTED) (\<lambda>_. ret ())))"

end
