(* ===== verification/Tours.thy ===== *)
theory Tours
  imports Elections
begin

text \<open>
  \<open>collection-request/services/route-execution.service.ts\<close>: the driver works off his tour.  The
  tour's requests are loaded once per call; the stop the call is about is one of them, so a change to
  the stop is seen by the rest of the call through that list.
\<close>

section \<open>The tour\<close>

definition driver_of :: "ident \<Rightarrow> collector_profile fleet_action" where
  "driver_of accountId = bind (reads (driver_of_account accountId)) (\<lambda>found. case found of
     None \<Rightarrow> throw NotFound | Some d \<Rightarrow> ret d)"

definition tour_next :: "collection_request list \<Rightarrow> collection_request option" where
  "tour_next stops = (case find is_active_task stops of Some q \<Rightarrow> Some q
     | None \<Rightarrow> find (\<lambda>q. cr_status q = Q_DELIVERED) stops)"

record tour_view =
  tv_route :: "collection_route option"
  tv_stops :: "(collection_request \<times> bool) list"
  tv_next :: "ident option"

definition myTour :: "ident \<Rightarrow> tour_view fleet_action" where
  "myTour accountId =
     bind (driver_of accountId) (\<lambda>d. reads (\<lambda>s. case current_route (dp_id d) s of
       None \<Rightarrow> \<lparr>tv_route = None, tv_stops = [], tv_next = None\<rparr>
     | Some r \<Rightarrow> (let stops = in_sequence (requests_of_route (ro_id r) s); next = map_option cr_id (tour_next stops)
         in \<lparr>tv_route = Some r, tv_stops = map (\<lambda>q. (q, next = Some (cr_id q))) stops, tv_next = next\<rparr>)))"

record loaded_stop =
  ls_driver :: collector_profile
  ls_route :: collection_route
  ls_requests :: "collection_request list"
  ls_stop :: collection_request

definition loadStop :: "ident \<Rightarrow> ident \<Rightarrow> loaded_stop fleet_action" where
  "loadStop accountId requestId =
     bind (driver_of accountId) (\<lambda>d.
     bind (reads (current_route (dp_id d))) (\<lambda>found. case found of None \<Rightarrow> throw NotFound | Some r \<Rightarrow>
     bind (reads (requests_of_route (ro_id r))) (\<lambda>qs. case find (\<lambda>q. cr_id q = requestId) qs of
       None \<Rightarrow> throw NotFound
     | Some q \<Rightarrow> ret \<lparr>ls_driver = d, ls_route = r, ls_requests = qs, ls_stop = q\<rparr>)))"

section \<open>Arrival\<close>

definition originOf :: "ident \<Rightarrow> ops \<Rightarrow> point option" where
  "originOf driverId s =
     (case Option.bind (open_handover driverId s) ho_warehouseId of None \<Rightarrow> None | Some w \<Rightarrow>
      (case find_warehouse w (op_shop s) of None \<Rightarrow> None | Some wh \<Rightarrow>
       (case (wh_latitude wh, wh_longitude wh) of (Some la, Some lg) \<Rightarrow> Some (la, lg) | _ \<Rightarrow> None)))"

text \<open>The open stops are numbered from one in the planned order; those whose number changes are saved.\<close>

definition applyOrder :: "ident list \<Rightarrow> collection_request list \<Rightarrow> collection_request list" where
  "applyOrder orderedIds opened = concat (map (\<lambda>(i, k). case find (\<lambda>q. cr_id q = k) opened of
       None \<Rightarrow> [] | Some q \<Rightarrow> if cr_routeSequence q \<noteq> Some i then [q\<lparr>cr_routeSequence := Some i\<rparr>] else [])
     (enumerate 1 orderedIds))"

definition reorderTour :: "fleet_world \<Rightarrow> ident \<Rightarrow> collection_request list \<Rightarrow> collection_request list fleet_action" where
  "reorderTour F driverId qs =
     (let opened = filter is_active_task (in_sequence qs) in
      if length opened < 2 then ret qs
      else
        bind (reads (originOf driverId)) (\<lambda>origin.
        bind get_config (\<lambda>config.
        let plan = planRoute (merge_constraints config) (fw_now F) (fw_km F) origin (map wrapStop opened) in
        if \<not> op_feasible plan \<or> length (op_stopIds plan) \<noteq> length opened then ret qs
        else
          let changed = applyOrder (op_stopIds plan) opened in
          bind (save_requests changed) (\<lambda>_. ret (tbl_save_all cr_id changed qs)))))"

definition start_tour :: "fleet_world \<Rightarrow> loaded_stop \<Rightarrow> collection_request \<Rightarrow> collection_request fleet_action" where
  "start_tour F x q =
     bind (applyRouteStatus (ls_route x) RT_IN_PROGRESS (fw_now F)) (\<lambda>r.
     bind (save_route r) (\<lambda>_.
     bind (reorderTour F (dp_id (ls_driver x)) (tbl_save cr_id q (ls_requests x))) (\<lambda>qs.
     bind (autoDepartOnArrival F (dp_id (ls_driver x))) (\<lambda>_.
     ret (case tbl_find cr_id (cr_id q) qs of None \<Rightarrow> q | Some q' \<Rightarrow> q')))))"

definition tour_arrived :: "fleet_world \<Rightarrow> ident \<Rightarrow> ident \<Rightarrow> unit fleet_action" where
  "tour_arrived F accountId requestId =
     bind (loadStop accountId requestId) (\<lambda>x.
     if cr_status (ls_stop x) = Q_ARRIVED then ret ()
     else
       bind (if cr_status (ls_stop x) = Q_ASSIGNED
             then bind (applyRequestStatus (ls_stop x) Q_EN_ROUTE (fw_now F)) (\<lambda>q.
               if ro_status (ls_route x) = RT_PLANNED then start_tour F x q else ret q)
             else ret (ls_stop x)) (\<lambda>q.
       bind (applyRequestStatus q Q_ARRIVED (fw_now F)) save_request))"

section \<open>Weighing\<close>

definition weighed :: "rat \<Rightarrow> collection_request \<Rightarrow> collection_request" where
  "weighed actual q = q\<lparr>cr_actualWeightKg := Some actual,
     cr_actualGrandTotal := (if 0 < cr_estimatedWeightKg q
       then Some (round2 (cr_estimatedGrandTotal q * (actual / cr_estimatedWeightKg q))) else cr_actualGrandTotal q)\<rparr>"

definition receive_line :: "ident \<Rightarrow> string option \<times> rat \<Rightarrow> unit fleet_action" where
  "receive_line requestId rl = (case rl of (product, quantity) \<Rightarrow>
     if \<not> present_text product then ret ()
     else bind (reads (\<lambda>s. find (\<lambda>l. Some (rl_productId l) = product) (lines_of requestId s))) (\<lambda>found. case found of
       None \<Rightarrow> ret () | Some l \<Rightarrow> save_line_row (l\<lparr>rl_actualQuantity := Some quantity\<rparr>)))"

definition tour_collected :: "fleet_world \<Rightarrow> ident \<Rightarrow> ident \<Rightarrow> rat \<Rightarrow> (string option \<times> rat) list
    \<Rightarrow> (truck_capacity option \<times> ident option) fleet_action" where
  "tour_collected F accountId requestId actual received =
     bind (loadStop accountId requestId) (\<lambda>x.
     if cr_status (ls_stop x) = Q_PICKING then ret (None, cr_shipmentId (ls_stop x))
     else
       bind (refuse_if (actual \<le> 0) BadRequest) (\<lambda>_.
       bind (applyRequestStatus (weighed actual (ls_stop x)) Q_PICKING (fw_now F)) (\<lambda>q.
       bind (save_request q) (\<lambda>_.
       bind (for_each received (receive_line (cr_id q))) (\<lambda>_.
       bind (reads (tour_capacity (dp_id (ls_driver x)) (ro_id (ls_route x)))) (\<lambda>capacity.
       ret (capacity, cr_shipmentId q)))))))"

section \<open>Delivery\<close>

definition intake_ratio :: "collection_request \<Rightarrow> rat" where
  "intake_ratio q = (if 0 < cr_estimatedWeightKg q then or_else (cr_actualWeightKg q) 0 / cr_estimatedWeightKg q else 1)"

definition intake_lines :: "store \<Rightarrow> rat \<Rightarrow> request_line list \<Rightarrow> intake_line list" where
  "intake_lines shop ratio ls = List.map_filter (\<lambda>l.
     case Option.bind (tbl_find pd_id (rl_productId l) (db_products shop)) pd_odooProductId of None \<Rightarrow> None
     | Some pid \<Rightarrow> (let quantity = round3 (rl_quantity l * ratio) in
         if 0 < quantity then Some \<lparr>il_odooProductId = pid, il_quantity = quantity\<rparr> else None)) ls"

definition registerIntake :: "collection_request \<Rightarrow> int option \<Rightarrow> unit fleet_action" where
  "registerIntake q warehouseOdooId =
     bind (reads (\<lambda>s. intake_lines (op_shop s) (intake_ratio q) (lines_of (cr_id q) s))) (\<lambda>ls.
     enqueue_odoo (REGISTER_INTAKE (cr_id q) warehouseOdooId (cr_contactName q) (cr_deliveredAt q) ls))"

definition awardPoints :: "fleet_world \<Rightarrow> collection_request \<Rightarrow> unit fleet_action" where
  "awardPoints F stop =
     bind (reads (find_request (cr_id stop))) (\<lambda>found. case found of None \<Rightarrow> ret () | Some q \<Rightarrow>
     bind (reads (\<lambda>s. tbl_find ac_id (cr_accountId q) (db_accounts (op_shop s)))) (\<lambda>owner. case owner of None \<Rightarrow> ret () | Some acc \<Rightarrow>
     bind (on_shop (awardForCollection (fw_stored F) (cr_accountId q) (ac_role acc)
       (or_else (cr_actualGrandTotal q) (cr_estimatedGrandTotal q)) (Some (cr_requestNumber q)) (fw_now F))) (\<lambda>_. ret ())))"

definition close_stop :: "fleet_world \<Rightarrow> collection_request \<Rightarrow> unit fleet_action" where
  "close_stop F stop =
     bind (applyRequestStatus stop Q_COMPLETED (fw_now F)) (\<lambda>q.
     bind (save_request q) (\<lambda>_. awardPoints F q))"

definition advanceRoute :: "fleet_world \<Rightarrow> collection_route \<Rightarrow> collection_request list \<Rightarrow> ident \<Rightarrow> unit fleet_action" where
  "advanceRoute F r qs driverId =
     bind (if list_ex is_active_task qs then ret ()
           else
             bind (applyRouteStatus r RT_COMPLETED (fw_now F)) (\<lambda>r'.
             bind (save_route r') (\<lambda>_.
             bind (autoDeliverOnRouteComplete F driverId) (\<lambda>_.
             for_each (filter (\<lambda>q. cr_status q = Q_DELIVERED) (in_sequence qs)) (close_stop F))))) (\<lambda>_.
     emit (Driver_freed driverId))"

definition tour_delivered :: "fleet_world \<Rightarrow> ident \<Rightarrow> ident \<Rightarrow> string option \<Rightarrow> ident option fleet_action" where
  "tour_delivered F accountId requestId warehouseId =
     bind (loadStop accountId requestId) (\<lambda>x.
     if cr_status (ls_stop x) = Q_DELIVERED then ret (cr_shipmentId (ls_stop x))
     else
       bind (if present_text warehouseId
             then bind (reads (\<lambda>s. find_warehouse (or_else warehouseId []) (op_shop s))) (\<lambda>found. case found of
               None \<Rightarrow> throw NotFound | Some w \<Rightarrow> ret (wh_odooWarehouseId w))
             else ret None) (\<lambda>odooId.
       bind (applyRequestStatus (ls_stop x) Q_DELIVERED (fw_now F)) (\<lambda>q.
       bind (save_request q) (\<lambda>_.
       bind (registerIntake q odooId) (\<lambda>_.
       bind (untrackRequest (cr_id q)) (\<lambda>_.
       bind (advanceRoute F (ls_route x) (tbl_save cr_id q (ls_requests x)) (dp_id (ls_driver x))) (\<lambda>_.
       ret (cr_shipmentId q))))))))"

end
