(* ===== verification/CollectionRequests.thy ===== *)
theory CollectionRequests
  imports Tours
begin

text \<open>
  How requests come to be and are called off: \<open>collection-request.service.ts\<close>,
  \<open>drop-off.service.ts\<close>, \<open>weight.util.ts\<close> and the administrator's overrides of
  \<open>admin-collection.service.ts\<close>.
\<close>

section \<open>Lines\<close>

definition weight_codes :: "store \<Rightarrow> string list" where
  "weight_codes shop = map u_code (filter u_isWeight (db_units shop))"

definition estimateWeightKg :: "product \<Rightarrow> rat \<Rightarrow> string list \<Rightarrow> rat" where
  "estimateWeightKg p quantity codes =
     (case pd_unitWeightKg p of Some unit_kg \<Rightarrow> round3 (quantity * unit_kg)
      | None \<Rightarrow> if List.member codes (pd_unitType p) then round3 quantity else 0)"

record buildable_line =
  bl_productId :: ident
  bl_productName :: string
  bl_unitType :: string
  bl_quantity :: rat
  bl_unitPrice :: rat
  bl_total :: rat
  bl_note :: "string option"
  bl_weightKg :: rat

record line_input =
  li_productId :: ident
  li_quantity :: rat
  li_note :: "string option"

definition active_product :: "ident \<Rightarrow> store \<Rightarrow> product option" where
  "active_product i shop = find (\<lambda>p. pd_id p = i \<and> pd_isActive p) (db_products shop)"

definition build_line :: "fleet_world \<Rightarrow> role \<Rightarrow> line_input \<Rightarrow> buildable_line fleet_action" where
  "build_line F r l =
     bind (reads (\<lambda>s. active_product (li_productId l) (op_shop s))) (\<lambda>found. case found of None \<Rightarrow> throw NotFound | Some p \<Rightarrow>
     bind (reads (\<lambda>s. effectivePrice (fw_shop F) (pd_id p) r None (op_shop s))) (\<lambda>price. case price of None \<Rightarrow> throw BadRequest | Some e \<Rightarrow>
     reads (\<lambda>s. \<lparr>bl_productId = pd_id p, bl_productName = pd_name p, bl_unitType = pd_unitType p, bl_quantity = li_quantity l,
       bl_unitPrice = ep_price e, bl_total = round3 (ep_price e * li_quantity l), bl_note = li_note l,
       bl_weightKg = estimateWeightKg p (li_quantity l) (weight_codes (op_shop s))\<rparr>)))"

definition build_lines :: "fleet_world \<Rightarrow> role \<Rightarrow> line_input list \<Rightarrow> buildable_line list fleet_action" where
  "build_lines F r ls =
     bind (refuse_if (ls = []) BadRequest) (\<lambda>_.
     bind (refuse_if (\<not> distinct (map li_productId ls)) BadRequest) (\<lambda>_.
     collect ls (build_line F r)))"

definition insert_line :: "ident \<Rightarrow> (buildable_line \<Rightarrow> rat option) \<Rightarrow> buildable_line \<Rightarrow> unit fleet_action" where
  "insert_line requestId actual l = bind new_id (\<lambda>i. save_line_row
     \<lparr>rl_id = i, rl_requestId = requestId, rl_productId = bl_productId l, rl_productName = bl_productName l,
      rl_unitType = bl_unitType l, rl_quantity = bl_quantity l, rl_unitPrice = bl_unitPrice l, rl_total = bl_total l,
      rl_actualQuantity = actual l, rl_note = bl_note l\<rparr>)"

section \<open>A new request\<close>

definition request_number :: "fleet_world \<Rightarrow> ops \<Rightarrow> string" where
  "request_number F s = nextSequentialNumber (map cr_requestNumber (op_requests s)) (''CR-'' @ fw_monthText F (fw_now F)) 5"

definition blank_request :: "ident \<Rightarrow> string \<Rightarrow> ident \<Rightarrow> collection_request_type \<Rightarrow> request_status \<Rightarrow> time \<Rightarrow> collection_request" where
  "blank_request i number accountId t st now =
     \<lparr>cr_id = i, cr_requestNumber = number, cr_type = t, cr_status = st, cr_accountId = accountId, cr_contactName = None,
      cr_contactPhone = None, cr_addressText = None, cr_lat = None, cr_lng = None, cr_scheduledAt = None,
      cr_estimatedWeightKg = 0, cr_estimatedGrandTotal = 0, cr_actualWeightKg = None, cr_actualGrandTotal = None,
      cr_routeId = None, cr_routeSequence = None, cr_shipmentId = None, cr_sourcePlanId = None, cr_sourcePlanDate = None,
      cr_cancellationReason = None, cr_assignedAt = None, cr_enRouteAt = None, cr_arrivedAt = None, cr_pickedAt = None,
      cr_deliveredAt = None, cr_completedAt = None, cr_cancelledAt = None, cr_createdAt = now\<rparr>"

record request_input =
  in_contactName :: "string option"
  in_contactPhone :: "string option"
  in_addressText :: "string option"
  in_lat :: "rat option"
  in_lng :: "rat option"
  in_scheduledAt :: "time option"
  in_lines :: "line_input list"

definition total_weight :: "buildable_line list \<Rightarrow> rat" where
  "total_weight ls = round3 (sum_list (map bl_weightKg ls))"

definition grand_total :: "buildable_line list \<Rightarrow> rat" where
  "grand_total ls = round3 (sum_list (map bl_total ls))"

definition insert_request :: "fleet_world \<Rightarrow> ident \<Rightarrow> request_input \<Rightarrow> buildable_line list \<Rightarrow> collection_request fleet_action" where
  "insert_request F accountId dto ls =
     bind (reads (request_number F)) (\<lambda>number.
     bind new_id (\<lambda>i.
     let q = blank_request i number accountId (if in_scheduledAt dto = None then IMMEDIATE else SCHEDULED) Q_CREATED (fw_now F)
           \<lparr>cr_contactName := in_contactName dto, cr_contactPhone := in_contactPhone dto, cr_addressText := in_addressText dto,
            cr_lat := in_lat dto, cr_lng := in_lng dto, cr_scheduledAt := in_scheduledAt dto,
            cr_estimatedWeightKg := total_weight ls, cr_estimatedGrandTotal := grand_total ls\<rparr> in
     bind (save_request q) (\<lambda>_.
     bind (for_each ls (insert_line i (\<lambda>_. None))) (\<lambda>_. ret q))))"

text \<open>The lines and the offers of a removed request go with it (\<open>onDelete: 'CASCADE'\<close>).\<close>

definition remove_request :: "collection_request \<Rightarrow> unit fleet_action" where
  "remove_request q = writes (\<lambda>s. s\<lparr>op_requests := filter (\<lambda>x. cr_id x \<noteq> cr_id q) (op_requests s),
     op_lines := filter (\<lambda>l. rl_requestId l \<noteq> cr_id q) (op_lines s),
     op_assignments := filter (\<lambda>a. ca_requestId a \<noteq> cr_id q) (op_assignments s)\<rparr>)"

definition dispatch_now :: "fleet_world \<Rightarrow> collection_request \<Rightarrow> (collection_request \<times> ident option) fleet_action" where
  "dispatch_now F saved =
     bind (electSynchronous F saved) (\<lambda>(outcome, q). case outcome of
       Nobody \<Rightarrow> bind (remove_request q) (\<lambda>_. throw Conflict)
     | Merged driverId \<Rightarrow> ret (q, Some driverId)
     | Elected c score \<Rightarrow>
         bind (new_offer (cr_id q) (cd_driverId c) None None) (\<lambda>a.
         bind (settleOffer F a (Some q) CA_ACCEPTED) (\<lambda>q'. ret (or_else q' q, Some (cd_driverId c)))))"

definition request_create :: "fleet_world \<Rightarrow> ident \<Rightarrow> role \<Rightarrow> request_input \<Rightarrow> (collection_request \<times> ident option) fleet_action" where
  "request_create F accountId r dto =
     bind (build_lines F r (in_lines dto)) (\<lambda>ls.
     bind (refuse_if (case in_scheduledAt dto of None \<Rightarrow> False | Some t \<Rightarrow> t \<le> fw_now F) BadRequest) (\<lambda>_.
     bind (insert_request F accountId dto ls) (\<lambda>q.
     bind (applyRequestStatus q Q_QUEUED (fw_now F)) (\<lambda>saved.
     bind (save_request saved) (\<lambda>_.
     if cr_type saved = IMMEDIATE then dispatch_now F saved
     else bind (emit (Request_queued (cr_id saved))) (\<lambda>_. ret (saved, None)))))))"

section \<open>Reading and cancelling\<close>

definition requests_listed :: "ident \<Rightarrow> request_status option \<Rightarrow> collection_request_type option \<Rightarrow> nat \<Rightarrow> nat \<Rightarrow> ops
    \<Rightarrow> collection_request list \<times> nat" where
  "requests_listed accountId st t page limit s =
     (let rows = sort_key (\<lambda>q. - cr_createdAt q) (filter (\<lambda>q. cr_accountId q = accountId
        \<and> (st = None \<or> st = Some (cr_status q)) \<and> (t = None \<or> t = Some (cr_type q))) (op_requests s))
      in (page_rows page limit rows, length rows))"

definition request_owned :: "ident \<Rightarrow> ident \<Rightarrow> collection_request fleet_action" where
  "request_owned accountId i =
     bind (reads (find_request i)) (\<lambda>found. case found of None \<Rightarrow> throw NotFound | Some q \<Rightarrow>
     if cr_accountId q \<noteq> accountId then throw Forbidden else ret q)"

definition request_detail :: "ident \<Rightarrow> ident \<Rightarrow> (collection_request \<times> request_line list) fleet_action" where
  "request_detail accountId i = bind (request_owned accountId i) (\<lambda>q. reads (\<lambda>s. (q, lines_of (cr_id q) s)))"

definition withdraw :: "fleet_world \<Rightarrow> request_assignment \<Rightarrow> unit fleet_action" where
  "withdraw F a = bind (applyAssignmentStatus a CA_WITHDRAWN (fw_now F)) save_assignment"

definition performCancel :: "fleet_world \<Rightarrow> collection_request \<Rightarrow> string option \<Rightarrow> collection_request fleet_action" where
  "performCancel F q reason =
     bind (refuse_if (\<not> List.member PRODUCER_CANCELLABLE_STATUSES (cr_status q)) Conflict) (\<lambda>_.
     bind (reads (outstanding (cr_id q))) (\<lambda>offers.
     bind (for_each offers (withdraw F)) (\<lambda>_.
     bind (applyRequestStatus (q\<lparr>cr_cancellationReason := reason\<rparr>) Q_CANCELLED (fw_now F)) (\<lambda>saved.
     bind (save_request saved) (\<lambda>_.
     bind (emit (Request_cancelled (cr_id saved))) (\<lambda>_. ret saved))))))"

definition request_cancel :: "fleet_world \<Rightarrow> ident \<Rightarrow> ident \<Rightarrow> string option \<Rightarrow> collection_request fleet_action" where
  "request_cancel F accountId i reason = bind (request_owned accountId i) (\<lambda>q. performCancel F q reason)"

definition adminCancel :: "fleet_world \<Rightarrow> ident \<Rightarrow> string option \<Rightarrow> collection_request fleet_action" where
  "adminCancel F i reason =
     bind (reads (find_request i)) (\<lambda>found. case found of None \<Rightarrow> throw NotFound | Some q \<Rightarrow> performCancel F q reason)"

section \<open>Walk-in: the producer brings the material to a parked truck\<close>

definition driverCurrentWeight :: "ident \<Rightarrow> ops \<Rightarrow> rat" where
  "driverCurrentWeight driverId s = total_kg (tasks_of driverId s)"

definition driver_capacity :: "ident \<Rightarrow> ops \<Rightarrow> truck_capacity option" where
  "driver_capacity driverId s = map_option (\<lambda>maxKg. capacity_view maxKg (driverCurrentWeight driverId s))
     (Option.bind (truck_of_driver driverId s) tk_maxPayloadKg)"

definition stationed :: "ident \<Rightarrow> ident \<Rightarrow> ops \<Rightarrow> bool" where
  "stationed driverId pointId s = list_ex (\<lambda>c. dc_driverId c = driverId \<and> dc_coveragePointId c = pointId \<and> dc_isActive c) (op_coverage s)"

definition no_room :: "truck \<Rightarrow> rat \<Rightarrow> rat \<Rightarrow> bool" where
  "no_room tk used needed = (let maxKg = or_else (tk_maxPayloadKg tk) 0 in 0 < maxKg \<and> maxKg - used < needed)"

definition walk_in_request :: "fleet_world \<Rightarrow> ident \<Rightarrow> ident \<Rightarrow> string \<Rightarrow> collection_route \<Rightarrow> nat \<Rightarrow> coverage_point option
    \<Rightarrow> buildable_line list \<Rightarrow> collection_request" where
  "walk_in_request F accountId i number r stops point ls =
     blank_request i number accountId WALK_IN Q_PICKING (fw_now F)
       \<lparr>cr_estimatedWeightKg := total_weight ls, cr_estimatedGrandTotal := grand_total ls,
        cr_actualWeightKg := Some (total_weight ls), cr_actualGrandTotal := Some (grand_total ls),
        cr_routeId := Some (ro_id r), cr_routeSequence := Some (stops + 1), cr_pickedAt := Some (fw_now F),
        cr_lat := map_option (\<lambda>p. fst (cp_at p)) point, cr_lng := map_option (\<lambda>p. snd (cp_at p)) point,
        cr_addressText := map_option cp_name point\<rparr>"

text \<open>What is checked before anything is written; the material is priced for the driver's role.\<close>

definition walk_in_checks :: "fleet_world \<Rightarrow> ident \<Rightarrow> ident \<Rightarrow> line_input list \<Rightarrow> buildable_line list fleet_action" where
  "walk_in_checks F driverId pointId inputs =
     bind (refuse_if (inputs = []) BadRequest) (\<lambda>_.
     bind (reads (stationed driverId pointId)) (\<lambda>there.
     bind (refuse_if (\<not> there) BadRequest) (\<lambda>_.
     bind (reads (truck_of_driver driverId)) (\<lambda>driving. case driving of None \<Rightarrow> throw BadRequest | Some tk \<Rightarrow>
     bind (reads (\<lambda>s. map_option ac_role (Option.bind (find_driver driverId s) (\<lambda>d. tbl_find ac_id (dp_accountId d) (db_accounts (op_shop s))))))
       (\<lambda>dr. case dr of None \<Rightarrow> throw Crash | Some driverRole \<Rightarrow>
     bind (build_lines F driverRole (map (\<lambda>l. l\<lparr>li_note := None\<rparr>) inputs)) (\<lambda>ls.
     bind (reads (driverCurrentWeight driverId)) (\<lambda>used.
     bind (refuse_if (no_room tk used (sum_list (map bl_weightKg ls))) BadRequest) (\<lambda>_. ret ls))))))))"

definition walk_in_save :: "fleet_world \<Rightarrow> ident \<Rightarrow> ident \<Rightarrow> ident \<Rightarrow> buildable_line list \<Rightarrow> collection_request fleet_action" where
  "walk_in_save F accountId driverId pointId ls =
     bind (reads (current_route driverId)) (\<lambda>found.
     bind (case found of Some r \<Rightarrow> ret r | None \<Rightarrow> new_route F ''RT'' driverId RT_IN_PROGRESS (Some (fw_now F))) (\<lambda>r.
     bind (reads (request_number F)) (\<lambda>number.
     bind new_id (\<lambda>i.
     bind (reads (\<lambda>s. (length (requests_of_route (ro_id r) s), tbl_find cp_id pointId (op_points s)))) (\<lambda>(stops, point).
     let q = walk_in_request F accountId i number r stops point ls in
     bind (save_request q) (\<lambda>_.
     bind (for_each ls (insert_line i (\<lambda>l. Some (bl_quantity l)))) (\<lambda>_.
     autoCreateOrAddToShipment F driverId q)))))))"

definition createDropOff :: "fleet_world \<Rightarrow> ident \<Rightarrow> ident \<Rightarrow> ident \<Rightarrow> line_input list
    \<Rightarrow> (collection_request \<times> truck_capacity option) fleet_action" where
  "createDropOff F accountId driverId pointId inputs =
     bind (walk_in_checks F driverId pointId inputs) (\<lambda>ls.
     bind (walk_in_save F accountId driverId pointId ls) (\<lambda>q.
     bind (reads (driver_capacity driverId)) (\<lambda>capacity. ret (q, capacity))))"

definition driver_qr :: "ident \<Rightarrow> string fleet_action" where
  "driver_qr driverId = bind (reads (find_driver driverId)) (\<lambda>found. case found of None \<Rightarrow> throw NotFound
     | Some d \<Rightarrow> ret (''DAWRHA-DRIVER:'' @ dp_id d))"

end
