(* ===== verification/CollectionPlans.thy ===== *)
theory CollectionPlans
  imports CollectionRequests
begin

text \<open>
  Standing plans of institutions: \<open>collection-plan.service.ts\<close> and the nightly
  \<open>plan-request-generator.cron.ts\<close>.  Dates are day numbers, times of day seconds; in an update the
  outer option says whether the field was sent.
\<close>

section \<open>The calendar\<close>

text \<open>\<open>getDay() || 7\<close>: day 0, 1970-01-01, was a Thursday.  \<open>getDate()\<close> by the civil calendar.\<close>

definition isoWeekday :: "int \<Rightarrow> int" where
  "isoWeekday day = (day + 3) mod 7 + 1"

definition dayOfMonth :: "int \<Rightarrow> int" where
  "dayOfMonth day =
     (let doe = (day + 719468) mod 146097;
          yoe = (doe - doe div 1460 + doe div 36524 - doe div 146096) div 365;
          doy = doe - (365 * yoe + yoe div 4 - yoe div 100);
          mp = (5 * doy + 2) div 153
      in doy - (153 * mp + 2) div 5 + 1)"

definition localDay :: "fleet_world \<Rightarrow> int" where
  "localDay F = zp_day (partsInZone (fw_local F) (fw_now F))"

section \<open>The plan of an institution\<close>

definition plan_lines :: "ident \<Rightarrow> ops \<Rightarrow> plan_line list" where
  "plan_lines planId s = filter (\<lambda>l. pn_planId l = planId) (op_planLines s)"

definition save_plan :: "collection_plan \<Rightarrow> unit fleet_action" where
  "save_plan p = writes (\<lambda>s. s\<lparr>op_plans := tbl_save pl_id p (op_plans s)\<rparr>)"

definition assertFrequencyFields :: "plan_frequency \<Rightarrow> int list \<Rightarrow> int list \<Rightarrow> unit fleet_action" where
  "assertFrequencyFields f weekdays monthDays =
     refuse_if (f = WEEKLY_PLAN \<and> weekdays = [] \<or> f = MONTHLY_PLAN \<and> monthDays = []) BadRequest"

definition plan_line_of :: "ident \<times> rat \<Rightarrow> plan_line fleet_action" where
  "plan_line_of l = (case l of (productId, quantity) \<Rightarrow>
     bind (reads (\<lambda>s. active_product productId (op_shop s))) (\<lambda>found. case found of None \<Rightarrow> throw NotFound | Some p \<Rightarrow>
     ret \<lparr>pn_id = [], pn_planId = [], pn_productId = pd_id p, pn_productName = pd_name p, pn_unitType = pd_unitType p,
       pn_quantity = quantity\<rparr>))"

definition buildLines :: "(ident \<times> rat) list \<Rightarrow> plan_line list fleet_action" where
  "buildLines ls =
     bind (refuse_if (ls = []) BadRequest) (\<lambda>_.
     bind (refuse_if (\<not> distinct (map fst ls)) BadRequest) (\<lambda>_. collect ls plan_line_of))"

definition insert_plan_line :: "ident \<Rightarrow> plan_line \<Rightarrow> unit fleet_action" where
  "insert_plan_line planId l = bind new_id (\<lambda>i.
     writes (\<lambda>s. s\<lparr>op_planLines := op_planLines s @ [l\<lparr>pn_id := i, pn_planId := planId\<rparr>]\<rparr>))"

record plan_input =
  pi_name :: string
  pi_frequency :: plan_frequency
  pi_weekdays :: "int list option"
  pi_monthDays :: "int list option"
  pi_collectionTime :: int
  pi_startDate :: "int option"
  pi_endDate :: "int option"
  pi_isActive :: "bool option"
  pi_itemNote :: "string option"
  pi_lat :: "rat option"
  pi_lng :: "rat option"
  pi_addressText :: "string option"
  pi_contactName :: "string option"
  pi_contactPhone :: "string option"
  pi_lines :: "(ident \<times> rat) list"

definition plan_create :: "ident \<Rightarrow> plan_input \<Rightarrow> collection_plan fleet_action" where
  "plan_create accountId dto =
     bind (reads (\<lambda>s. list_ex (\<lambda>p. pl_accountId p = accountId) (op_plans s))) (\<lambda>exists.
     bind (refuse_if exists Conflict) (\<lambda>_.
     bind (assertFrequencyFields (pi_frequency dto) (or_else (pi_weekdays dto) []) (or_else (pi_monthDays dto) [])) (\<lambda>_.
     bind (buildLines (pi_lines dto)) (\<lambda>ls.
     bind new_id (\<lambda>i.
     let p = \<lparr>pl_id = i, pl_accountId = accountId, pl_name = pi_name dto, pl_frequency = pi_frequency dto,
       pl_weekdays = pi_weekdays dto, pl_monthDays = pi_monthDays dto, pl_collectionTime = pi_collectionTime dto,
       pl_startDate = pi_startDate dto, pl_endDate = pi_endDate dto, pl_isActive = or_else (pi_isActive dto) True,
       pl_itemNote = pi_itemNote dto, pl_lat = pi_lat dto, pl_lng = pi_lng dto, pl_addressText = pi_addressText dto,
       pl_contactName = pi_contactName dto, pl_contactPhone = pi_contactPhone dto, pl_lastGeneratedDate = None\<rparr> in
     bind (save_plan p) (\<lambda>_. bind (for_each ls (insert_plan_line i)) (\<lambda>_. ret p)))))))"

definition plan_getOwn :: "ident \<Rightarrow> (collection_plan \<times> plan_line list) fleet_action" where
  "plan_getOwn accountId =
     bind (reads (\<lambda>s. find (\<lambda>p. pl_accountId p = accountId) (op_plans s))) (\<lambda>found. case found of None \<Rightarrow> throw NotFound
     | Some p \<Rightarrow> reads (\<lambda>s. (p, plan_lines (pl_id p) s)))"

definition plan_owned :: "ident \<Rightarrow> ident \<Rightarrow> collection_plan fleet_action" where
  "plan_owned accountId i =
     bind (reads (\<lambda>s. tbl_find pl_id i (op_plans s))) (\<lambda>found. case found of None \<Rightarrow> throw NotFound
     | Some p \<Rightarrow> if pl_accountId p \<noteq> accountId then throw Forbidden else ret p)"

definition plan_detail :: "ident \<Rightarrow> ident \<Rightarrow> (collection_plan \<times> plan_line list) fleet_action" where
  "plan_detail accountId i = bind (plan_owned accountId i) (\<lambda>p. reads (\<lambda>s. (p, plan_lines (pl_id p) s)))"

record plan_patch =
  pp_name :: "string option"
  pp_frequency :: "plan_frequency option"
  pp_weekdays :: "int list option option"
  pp_monthDays :: "int list option option"
  pp_collectionTime :: "int option"
  pp_startDate :: "int option option"
  pp_endDate :: "int option option"
  pp_isActive :: "bool option"
  pp_itemNote :: "string option option"
  pp_lat :: "rat option option"
  pp_lng :: "rat option option"
  pp_addressText :: "string option option"
  pp_contactName :: "string option option"
  pp_contactPhone :: "string option option"
  pp_lines :: "(ident \<times> rat) list option"

definition patched :: "plan_patch \<Rightarrow> collection_plan \<Rightarrow> collection_plan" where
  "patched dto p =
     p\<lparr>pl_name := or_else (pp_name dto) (pl_name p), pl_frequency := or_else (pp_frequency dto) (pl_frequency p),
       pl_weekdays := or_else (pp_weekdays dto) (pl_weekdays p), pl_monthDays := or_else (pp_monthDays dto) (pl_monthDays p),
       pl_collectionTime := or_else (pp_collectionTime dto) (pl_collectionTime p),
       pl_startDate := or_else (pp_startDate dto) (pl_startDate p), pl_endDate := or_else (pp_endDate dto) (pl_endDate p),
       pl_isActive := or_else (pp_isActive dto) (pl_isActive p), pl_itemNote := or_else (pp_itemNote dto) (pl_itemNote p),
       pl_lat := or_else (pp_lat dto) (pl_lat p), pl_lng := or_else (pp_lng dto) (pl_lng p),
       pl_addressText := or_else (pp_addressText dto) (pl_addressText p),
       pl_contactName := or_else (pp_contactName dto) (pl_contactName p),
       pl_contactPhone := or_else (pp_contactPhone dto) (pl_contactPhone p)\<rparr>"

text \<open>The days are checked when the frequency changes, against the days that were sent; the old lines go first.\<close>

definition plan_update :: "ident \<Rightarrow> ident \<Rightarrow> plan_patch \<Rightarrow> collection_plan fleet_action" where
  "plan_update accountId i dto =
     bind (plan_owned accountId i) (\<lambda>p.
     bind (case pp_frequency dto of None \<Rightarrow> ret () | Some f \<Rightarrow> if f = pl_frequency p then ret ()
           else assertFrequencyFields f (or_else (or_else (pp_weekdays dto) None) []) (or_else (or_else (pp_monthDays dto) None) [])) (\<lambda>_.
     bind (case pp_lines dto of None \<Rightarrow> ret None | Some ls \<Rightarrow>
       bind (writes (\<lambda>s. s\<lparr>op_planLines := filter (\<lambda>l. pn_planId l \<noteq> i) (op_planLines s)\<rparr>)) (\<lambda>_.
       bind (buildLines ls) (\<lambda>built. ret (Some built)))) (\<lambda>built.
     let p' = patched dto p in
     bind (save_plan p') (\<lambda>_.
     bind (for_each (or_else built []) (insert_plan_line i)) (\<lambda>_. ret p')))))"

section \<open>The nightly generator\<close>

definition isDue :: "collection_plan \<Rightarrow> int \<Rightarrow> bool" where
  "isDue p today \<longleftrightarrow>
     \<not> (case pl_startDate p of None \<Rightarrow> False | Some d \<Rightarrow> today < d)
     \<and> \<not> (case pl_endDate p of None \<Rightarrow> False | Some d \<Rightarrow> d < today)
     \<and> pl_lastGeneratedDate p \<noteq> Some today
     \<and> (case pl_frequency p of DAILY_PLAN \<Rightarrow> True
        | WEEKLY_PLAN \<Rightarrow> List.member (or_else (pl_weekdays p) []) (isoWeekday today)
        | MONTHLY_PLAN \<Rightarrow> List.member (or_else (pl_monthDays p) []) (dayOfMonth today))"

text \<open>A line without an active material or without a price is left out.\<close>

definition plan_request_line :: "fleet_world \<Rightarrow> ops \<Rightarrow> collection_plan \<Rightarrow> plan_line \<Rightarrow> buildable_line option" where
  "plan_request_line F s p l =
     (case active_product (pn_productId l) (op_shop s) of None \<Rightarrow> None | Some m \<Rightarrow>
      (case effectivePrice (fw_shop F) (pd_id m) INSTITUTIONS None (op_shop s) of None \<Rightarrow> None | Some e \<Rightarrow>
       Some \<lparr>bl_productId = pd_id m, bl_productName = pn_productName l, bl_unitType = pn_unitType l, bl_quantity = pn_quantity l,
         bl_unitPrice = ep_price e, bl_total = round3 (ep_price e * pn_quantity l), bl_note = pl_itemNote p,
         bl_weightKg = estimateWeightKg m (pn_quantity l) (weight_codes (op_shop s))\<rparr>))"

definition plan_request :: "fleet_world \<Rightarrow> ident \<Rightarrow> string \<Rightarrow> collection_plan \<Rightarrow> int \<Rightarrow> buildable_line list \<Rightarrow> collection_request" where
  "plan_request F i number p today ls =
     blank_request i number (pl_accountId p) ORG_PLAN Q_CREATED (fw_now F)
       \<lparr>cr_scheduledAt := Some (zonedWallClockToInstant (fw_local F) \<lparr>zp_day = today, zp_second = pl_collectionTime p\<rparr>),
        cr_estimatedWeightKg := total_weight ls, cr_estimatedGrandTotal := grand_total ls,
        cr_sourcePlanId := Some (pl_id p), cr_sourcePlanDate := Some today, cr_lat := pl_lat p, cr_lng := pl_lng p,
        cr_addressText := pl_addressText p, cr_contactName := pl_contactName p, cr_contactPhone := pl_contactPhone p\<rparr>"

text \<open>The pair of plan and day is unique: a second insert is refused by the database.\<close>

definition served_on :: "collection_plan \<Rightarrow> int \<Rightarrow> ops \<Rightarrow> bool" where
  "served_on p today s = list_ex (\<lambda>q. cr_sourcePlanId q = Some (pl_id p) \<and> cr_sourcePlanDate q = Some today) (op_requests s)"

definition generateForPlan :: "fleet_world \<Rightarrow> collection_plan \<Rightarrow> int \<Rightarrow> bool fleet_action" where
  "generateForPlan F p today =
     bind (reads (\<lambda>s. List.map_filter (plan_request_line F s p) (plan_lines (pl_id p) s))) (\<lambda>ls.
     if ls = [] then ret False
     else
       bind (reads (request_number F)) (\<lambda>number.
       bind (reads (served_on p today)) (\<lambda>twice.
       bind (refuse_if twice Crash) (\<lambda>_.
       bind new_id (\<lambda>i.
       bind (save_request (plan_request F i number p today ls)) (\<lambda>_.
       bind (for_each ls (insert_line i (\<lambda>_. None))) (\<lambda>_.
       bind (save_plan (p\<lparr>pl_lastGeneratedDate := Some today\<rparr>)) (\<lambda>_. ret True))))))))"

definition generateDueRequests :: "fleet_world \<Rightarrow> unit fleet_action" where
  "generateDueRequests F =
     bind (reads (\<lambda>s. filter pl_isActive (op_plans s))) (\<lambda>plans.
     for_each plans (\<lambda>p. if isDue p (localDay F) then best_effort (generateForPlan F p (localDay F)) else ret ()))"

end
