(* ===== verification/Coverage.thy ===== *)
theory Coverage
  imports CollectionRequests
begin

text \<open>
  Coverage points, where idle drivers wait: \<open>coverage-points.service.ts\<close> and \<open>coverage.service.ts\<close>
  with its rebalancing timer.  The two-second cache of the nearby zones is left out.
\<close>

section \<open>The points\<close>

definition points_by_priority :: "ops \<Rightarrow> coverage_point list" where
  "points_by_priority s = sort_key (\<lambda>p. (- cp_priority p, cp_createdAt p)) (op_points s)"

definition parked :: "ident \<Rightarrow> driver_coverage list \<Rightarrow> nat" where
  "parked pointId rows = length (filter (\<lambda>c. dc_coveragePointId c = pointId) rows)"

definition points_list :: "ops \<Rightarrow> (coverage_point \<times> nat) list" where
  "points_list s = map (\<lambda>p. (p, parked (cp_id p) (filter dc_isActive (op_coverage s)))) (points_by_priority s)"

definition save_point :: "coverage_point \<Rightarrow> unit fleet_action" where
  "save_point p = writes (\<lambda>s. s\<lparr>op_points := tbl_save cp_id p (op_points s)\<rparr>)"

record point_input =
  po_name :: "string option"
  po_pointType :: "string option"
  po_lat :: "rat option"
  po_lng :: "rat option"
  po_radiusM :: "int option"
  po_priority :: "int option"
  po_isActive :: "bool option"
  po_warehouseId :: "ident option"

definition point_create :: "fleet_world \<Rightarrow> string \<Rightarrow> rat \<Rightarrow> rat \<Rightarrow> point_input \<Rightarrow> coverage_point fleet_action" where
  "point_create F name la lg dto = bind new_id (\<lambda>i.
     let p = \<lparr>cp_id = i, cp_name = name, cp_pointType = or_else (po_pointType dto) ''GENERAL'', cp_at = (la, lg),
       cp_radiusM = or_else (po_radiusM dto) 1000, cp_priority = or_else (po_priority dto) 0, cp_isActive = True,
       cp_warehouseId = po_warehouseId dto, cp_createdAt = fw_now F\<rparr> in
     bind (save_point p) (\<lambda>_. ret p))"

definition load_point :: "ident \<Rightarrow> coverage_point fleet_action" where
  "load_point i = bind (reads (\<lambda>s. tbl_find cp_id i (op_points s))) (\<lambda>found. case found of None \<Rightarrow> throw NotFound | Some p \<Rightarrow> ret p)"

definition point_update :: "ident \<Rightarrow> point_input \<Rightarrow> coverage_point fleet_action" where
  "point_update i dto = bind (load_point i) (\<lambda>p.
     let p' = p\<lparr>cp_name := or_else (po_name dto) (cp_name p), cp_pointType := or_else (po_pointType dto) (cp_pointType p),
       cp_at := (or_else (po_lat dto) (fst (cp_at p)), or_else (po_lng dto) (snd (cp_at p))),
       cp_radiusM := or_else (po_radiusM dto) (cp_radiusM p), cp_priority := or_else (po_priority dto) (cp_priority p),
       cp_isActive := or_else (po_isActive dto) (cp_isActive p),
       cp_warehouseId := (case po_warehouseId dto of None \<Rightarrow> cp_warehouseId p | w \<Rightarrow> w)\<rparr> in
     bind (save_point p') (\<lambda>_. ret p'))"

definition point_remove :: "ident \<Rightarrow> unit fleet_action" where
  "point_remove i = bind (load_point i) (\<lambda>p. save_point (p\<lparr>cp_isActive := False\<rparr>))"

section \<open>Idle drivers\<close>

text \<open>An active account, a truck in hand and in service, a live shift, no pickup under way.\<close>

definition idle :: "fleet_world \<Rightarrow> ops \<Rightarrow> ident \<Rightarrow> bool" where
  "idle F s driverId = (case find_driver driverId s of None \<Rightarrow> False | Some d \<Rightarrow> on_duty F s d \<and> \<not> busy driverId s)"

definition eligibleIdleDriverIds :: "fleet_world \<Rightarrow> ops \<Rightarrow> ident list" where
  "eligibleIdleDriverIds F s = filter (idle F s)
     (remdups (map ho_driverId (filter (\<lambda>h. ho_status h = HO_OPEN) (op_handovers s))))"

definition active_points :: "ops \<Rightarrow> coverage_point list" where
  "active_points s = sort_key (\<lambda>p. - cp_priority p) (filter cp_isActive (op_points s))"

text \<open>The least loaded point, of several the one of highest priority; \<open>rows\<close> counts every row, moved or not.\<close>

definition best_point :: "(ident \<Rightarrow> nat) \<Rightarrow> coverage_point list \<Rightarrow> coverage_point option" where
  "best_point load points = find (\<lambda>_. True) (sort_key (\<lambda>p. (load (cp_id p), - cp_priority p)) points)"

definition park_row :: "fleet_world \<Rightarrow> ident \<Rightarrow> ident \<Rightarrow> ident \<Rightarrow> driver_coverage" where
  "park_row F i driverId pointId = \<lparr>dc_id = i, dc_driverId = driverId, dc_coveragePointId = pointId,
     dc_assignedFrom = Some (fw_now F), dc_isActive = True\<rparr>"

text \<open>A driver has one row (\<open>@Unique(['driverId'])\<close>); a second insert is refused by the database.\<close>

definition insert_row :: "fleet_world \<Rightarrow> ident \<Rightarrow> ident \<Rightarrow> unit fleet_action" where
  "insert_row F driverId pointId =
     bind (reads (\<lambda>s. list_ex (\<lambda>c. dc_driverId c = driverId) (op_coverage s))) (\<lambda>taken.
     bind (refuse_if taken Crash) (\<lambda>_.
     bind new_id (\<lambda>i. writes (\<lambda>s. s\<lparr>op_coverage := op_coverage s @ [park_row F i driverId pointId]\<rparr>))))"

definition park :: "fleet_world \<Rightarrow> driver_coverage option \<Rightarrow> ident \<Rightarrow> ident \<Rightarrow> unit fleet_action" where
  "park F existing driverId pointId = (case existing of
     Some c \<Rightarrow> writes (\<lambda>s. s\<lparr>op_coverage := tbl_save dc_id (park_row F (dc_id c) driverId pointId) (op_coverage s)\<rparr>)
   | None \<Rightarrow> insert_row F driverId pointId)"

fun distribute :: "fleet_world \<Rightarrow> coverage_point list \<Rightarrow> driver_coverage list \<Rightarrow> (ident \<Rightarrow> nat) \<Rightarrow> ident list \<Rightarrow> nat fleet_action" where
  "distribute F points current load [] = ret 0"
| "distribute F points current load (d # ds) =
     (case best_point load points of None \<Rightarrow> ret 0 | Some best \<Rightarrow>
      let load' = load(cp_id best := load (cp_id best) + 1);
          existing = find (\<lambda>c. dc_driverId c = d \<and> dc_isActive c) current
      in if map_option dc_coveragePointId existing = Some (cp_id best) then distribute F points current load' ds
         else bind (park F existing d (cp_id best)) (\<lambda>_.
           bind (distribute F points current load' ds) (\<lambda>moved. ret (moved + 1))))"

definition distributeIdleDrivers :: "fleet_world \<Rightarrow> nat fleet_action" where
  "distributeIdleDrivers F =
     bind (reads active_points) (\<lambda>points.
     if points = [] then ret 0
     else
       bind (reads (eligibleIdleDriverIds F)) (\<lambda>ds.
       if ds = [] then ret 0
       else
         bind (reads op_coverage) (\<lambda>current.
         distribute F points current (\<lambda>p. parked p current) ds)))"

definition coverage_rebalance :: "fleet_world \<Rightarrow> unit fleet_action" where
  "coverage_rebalance F = best_effort (distributeIdleDrivers F)"

definition relocate :: "fleet_world \<Rightarrow> ident \<Rightarrow> unit fleet_action" where
  "relocate F driverId =
     bind (reads active_points) (\<lambda>points.
     bind (reads op_coverage) (\<lambda>current.
     case best_point (\<lambda>p. parked p current) points of None \<Rightarrow> ret () | Some best \<Rightarrow> insert_row F driverId (cp_id best)))"

section \<open>Nearby zones\<close>

datatype driver_source = Source_assigned | Source_gps

record zone_driver =
  zd_driverId :: ident
  zd_truckId :: ident
  zd_maxPayloadKg :: rat
  zd_remainingKg :: rat
  zd_remainingShift :: rat
  zd_parkedSince :: "time option"
  zd_source :: driver_source

record zone_view =
  zv_point :: coverage_point
  zv_distanceKm :: rat
  zv_availableDrivers :: nat
  zv_driversWithCapacity :: nat
  zv_remainingCapacityKg :: rat
  zv_drivers :: "zone_driver list"

definition activeRouteWeights :: "ident list \<Rightarrow> ops \<Rightarrow> ident \<Rightarrow> rat" where
  "activeRouteWeights driverIds s driverId = (if List.member driverIds driverId then total_kg (tasks_of driverId s) else 0)"

definition enrichDriver :: "fleet_world \<Rightarrow> ops \<Rightarrow> (ident \<Rightarrow> rat) \<Rightarrow> collector_profile \<Rightarrow> truck \<Rightarrow> time option \<Rightarrow> driver_source \<Rightarrow> zone_driver" where
  "enrichDriver F s weights d tk since source =
     (let maxKg = or_else (tk_maxPayloadKg tk) 0
      in \<lparr>zd_driverId = dp_id d, zd_truckId = tk_id tk, zd_maxPayloadKg = maxKg,
          zd_remainingKg = round2 (max 0 (maxKg - weights (dp_id d))),
          zd_remainingShift = (case tbl_find sf_id (dp_shiftId d) (op_shifts s) of None \<Rightarrow> 0
            | Some sf \<Rightarrow> shiftRemainingMinutes (fw_zone F) sf (fw_now F)),
          zd_parkedSince = since, zd_source = source\<rparr>)"

definition parked_drivers :: "fleet_world \<Rightarrow> ops \<Rightarrow> (ident \<Rightarrow> rat) \<Rightarrow> coverage_point \<Rightarrow> zone_driver list" where
  "parked_drivers F s weights p = List.map_filter (\<lambda>c.
     case find_driver (dc_driverId c) s of None \<Rightarrow> None | Some d \<Rightarrow>
     (case truck_of_driver (dp_id d) s of None \<Rightarrow> None | Some tk \<Rightarrow>
      if tk_status tk = TK_DISABLED then None else Some (enrichDriver F s weights d tk (dc_assignedFrom c) Source_assigned)))
     (filter (\<lambda>c. dc_coveragePointId c = cp_id p \<and> dc_isActive c) (op_coverage s))"

text \<open>One driver per truck: of those who share a truck the last one counts.\<close>

definition profilesByTruck :: "ident list \<Rightarrow> ops \<Rightarrow> (ident \<times> collector_profile) list" where
  "profilesByTruck driverIds s = js_map (List.map_filter (\<lambda>d. map_option (\<lambda>tk. (tk_id tk, d)) (truck_of_driver (dp_id d) s))
     (filter (\<lambda>d. List.member driverIds (dp_id d)) (op_drivers s)))"

definition passing_drivers :: "fleet_world \<Rightarrow> ops \<Rightarrow> (ident \<Rightarrow> rat) \<Rightarrow> (ident \<times> collector_profile) list \<Rightarrow> ident list \<Rightarrow> coverage_point
    \<Rightarrow> zone_driver list" where
  "passing_drivers F s weights byTruck added p = List.map_filter (\<lambda>(tid, d).
     if List.member added (dp_id d) then None
     else case fw_fix F tid of None \<Rightarrow> None | Some fix \<Rightarrow>
       if fw_km F (cp_at p) (lf_at fix) * 1000 > max (of_int (cp_radiusM p)) 5000 then None
       else case truck_of_driver (dp_id d) s of None \<Rightarrow> None | Some tk \<Rightarrow>
         if tk_status tk = TK_DISABLED then None else Some (enrichDriver F s weights d tk None Source_gps)) byTruck"

definition zone_of :: "fleet_world \<Rightarrow> ops \<Rightarrow> ident list \<Rightarrow> point \<Rightarrow> coverage_point \<Rightarrow> zone_view" where
  "zone_of F s ids from p =
     (let weights = activeRouteWeights ids s; here = parked_drivers F s weights p;
          drivers = here @ passing_drivers F s weights (profilesByTruck ids s) (map zd_driverId here) p
      in \<lparr>zv_point = p, zv_distanceKm = round2 (fw_km F from (cp_at p)), zv_availableDrivers = length drivers,
          zv_driversWithCapacity = length (filter (\<lambda>d. 0 < zd_remainingKg d) drivers),
          zv_remainingCapacityKg = sum_list (map zd_remainingKg drivers), zv_drivers = drivers\<rparr>)"

definition findNearbyZones :: "fleet_world \<Rightarrow> point \<Rightarrow> rat \<Rightarrow> ops \<Rightarrow> zone_view list" where
  "findNearbyZones F from radiusKm s =
     map (zone_of F s (eligibleIdleDriverIds F s) from)
       (sort_key (\<lambda>p. (fw_km F from (cp_at p), - cp_priority p))
         (filter (\<lambda>p. fw_km F from (cp_at p) \<le> radiusKm) (filter cp_isActive (op_points s))))"

end
