(* ===== verification/FleetExample.thy ===== *)
theory FleetExample
  imports CollectionPlans Coverage
begin

text \<open>
  A small fleet the concrete runs start from: one driver on duty with a truck of a tonne, parked at
  one coverage point, one producer with a queued request, and copper at five a kilogram.
\<close>

definition ex_world :: fleet_world where
  "ex_world = \<lparr>fw_shop = ex_clock, fw_km = (\<lambda>_ _. 0), fw_bearing = (\<lambda>_ _. None), fw_fix = (\<lambda>_. None),
     fw_zone = steady 0, fw_local = steady 0, fw_monthText = (\<lambda>_. ''2026-07''), fw_dayText = (\<lambda>_. ''20260701''),
     fw_stored = (\<lambda>_. None)\<rparr>"

definition ex_config :: dispatch_config where
  "ex_config = \<lparr>cf_weights = \<lparr>dw_proximity = 0, dw_direction = 0, dw_load = 100, dw_vehicle = 0, dw_deadline = 0, dw_fairness = 0\<rparr>,
     cf_acceptWindowSec = 300, cf_scheduledLeadMin = 120, cf_routeMergeMaxMin = 15, cf_routeMergeMaxKm = 5,
     cf_institutionToleranceMin = 20, cf_isEnabled = True\<rparr>"

definition ex_request :: "ident \<Rightarrow> request_status \<Rightarrow> collection_request" where
  "ex_request i st = blank_request i (''CR-2026-06-'' @ i) ''acc'' IMMEDIATE st 0"

definition ex_driver :: collector_profile where
  "ex_driver = \<lparr>dp_id = ''d1'', dp_accountId = ''drv'', dp_shiftId = ''s1'', dp_warehouseId = None\<rparr>"

definition ex_goods :: store where
  "ex_goods = ex_store\<lparr>
     db_products := [\<lparr>pd_id = ''copper'', pd_name = ''Copper'', pd_unitType = ''KG'', pd_unitWeightKg = Some 1,
       pd_isActive = True, pd_odooProductId = Some 7\<rparr>],
     db_pricing := map (\<lambda>tier. \<lparr>pr_id = ''pr'', pr_productId = ''copper'', pr_tier = tier, pr_conditionId = None,
       pr_conditionCode = None, pr_price = 5, pr_currency = ''SYP'', pr_effectiveFrom = 0, pr_effectiveUntil = None\<rparr>)
       [INDIVIDUAL, COMPANY],
     db_accounts := [\<lparr>ac_id = ''acc'', ac_name = ''A'', ac_role = CITIZEN, ac_status = A_ACTIVE\<rparr>,
       \<lparr>ac_id = ''drv'', ac_name = ''D'', ac_role = COLLECTOR, ac_status = A_ACTIVE\<rparr>]\<rparr>"

definition ex_fleet :: ops where
  "ex_fleet = \<lparr>op_shop = ex_goods, op_requests = [ex_request ''r1'' Q_QUEUED], op_lines = [], op_assignments = [],
     op_routes = [], op_shipments = [],
     op_trucks = [\<lparr>tk_id = ''t1'', tk_odooTruckId = Some 5, tk_warehouseId = None, tk_plateNumber = ''P'', tk_maxPayloadKg = Some 1000, tk_status = TK_ACTIVE\<rparr>],
     op_truckAssignments = [\<lparr>ta_id = ''ta1'', ta_truckId = ''t1'', ta_driverId = ''d1'', ta_shiftId = ''s1'', ta_assignedAt = 0\<rparr>],
     op_drivers = [ex_driver],
     op_shifts = [\<lparr>sf_id = ''s1'', sf_odooShiftId = Some 6, sf_name = ''day'', sf_isDriver = True, sf_isGlobal = True, sf_odooWarehouseIds = [],
       sf_isActive = True, sf_startTime = 0, sf_endTime = 0, sf_tolerance = 0\<rparr>],
     op_handovers = [],
     op_points = [\<lparr>cp_id = ''p1'', cp_name = ''School'', cp_pointType = ''GENERAL'', cp_at = (0, 0), cp_radiusM = 1000,
       cp_priority = 0, cp_isActive = True, cp_warehouseId = None, cp_createdAt = 0\<rparr>],
     op_coverage = [\<lparr>dc_id = ''dc1'', dc_driverId = ''d1'', dc_coveragePointId = ''p1'', dc_assignedFrom = None, dc_isActive = True\<rparr>],
     op_plans = [], op_planLines = [], op_config = Some ex_config, op_tracked = [], op_queue = [], op_odoo = [], op_events = []\<rparr>"

lemma ex_duty: "on_duty ex_world ex_fleet ex_driver"
  by (simp add: on_duty_def ex_fleet_def ex_goods_def ex_driver_def truck_of_driver_def shiftCovers_def Let_def)

lemma ex_idle: "\<not> busy ''d1'' ex_fleet" "tasks_of ''d1'' ex_fleet = []"
  by (simp_all add: busy_def tasks_of_def requests_of_driver_def ex_fleet_def ex_request_def blank_request_def)

lemma ex_room: "passesCapacity (ex_request i st) (candidate_of ex_world ex_fleet ex_driver)"
  using ex_idle(2)
  by (simp add: passesCapacity_def candidate_of_def Let_def truck_of_driver_def ex_fleet_def ex_request_def blank_request_def
    ex_driver_def total_kg_def)

lemma ex_eligible: "findEligible ex_world (ex_request i st) [] False ex_fleet = [candidate_of ex_world ex_fleet ex_driver]"
proof -
  have "op_drivers ex_fleet = [ex_driver]" "dp_id ex_driver = ''d1''" by (simp_all add: ex_fleet_def ex_driver_def)
  then show ?thesis by (simp add: findEligible_def ex_duty ex_idle ex_room)
qed

end
