(* ===== verification/FleetLedger.thy ===== *)
theory FleetLedger
  imports FleetExample
begin

text \<open>
  The ledger of offers under every request the collection service answers.  The handlers that leave
  the ledger alone are dealt with once, in a locale for invariants that look only at the ledger and
  at the ids handed out; then the offers themselves; then every sequence of requests.
\<close>

section \<open>Ids only grow\<close>

definition ids_grow :: "'a action \<Rightarrow> bool" where
  "ids_grow m \<longleftrightarrow> (\<forall>u n. keeps (\<lambda>s. db_uuid s = u \<and> n \<le> db_next s) m)"

lemma ids_growD: "ids_grow m \<Longrightarrow> m s = (r, s') \<Longrightarrow> db_uuid s' = db_uuid s \<and> db_next s \<le> db_next s'"
  unfolding ids_grow_def keeps_def by (metis order_refl snd_conv)

lemma keeps_writes_if: "(\<And>s. I s \<Longrightarrow> I (f s)) \<Longrightarrow> keeps I (writes f)"
  by (simp add: keeps_def)

lemma grow_fresh_id: "ids_grow fresh_id"
  by (simp add: ids_grow_def keeps_def fresh_id_def)

lemma grow_award: "ids_grow (awardForCollection stored accountId r amount number now)"
proof -
  have fresh: "keeps (\<lambda>s. db_uuid s = u \<and> n \<le> db_next s) fresh_id" for u n
    using grow_fresh_id by (simp add: ids_grow_def)
  have ensure: "keeps (\<lambda>s. db_uuid s = u \<and> n \<le> db_next s) (ensureForAccount accountId r now)" for u n
    unfolding ensureForAccount_def save_wallet_def by (intro keeps_rules fresh keeps_writes_if) simp
  show ?thesis
    unfolding ids_grow_def awardForCollection_def award_def wallet_view_of_def refreshBaseline_def createNotification_def
      save_wallet_def
    by (intro allI keeps_rules ensure keeps_writes_if) simp_all
qed

section \<open>What leaves the ledger alone\<close>

locale ledger_view =
  fixes I :: "ops \<Rightarrow> bool"
  assumes requests: "I s \<Longrightarrow> I (s\<lparr>op_requests := qs\<rparr>)" and request_lines: "I s \<Longrightarrow> I (s\<lparr>op_lines := ls\<rparr>)"
    and routes: "I s \<Longrightarrow> I (s\<lparr>op_routes := rs\<rparr>)" and shipments: "I s \<Longrightarrow> I (s\<lparr>op_shipments := xs\<rparr>)"
    and points: "I s \<Longrightarrow> I (s\<lparr>op_points := ps\<rparr>)" and coverage: "I s \<Longrightarrow> I (s\<lparr>op_coverage := cs\<rparr>)"
    and plans: "I s \<Longrightarrow> I (s\<lparr>op_plans := pls\<rparr>)" and plan_rows: "I s \<Longrightarrow> I (s\<lparr>op_planLines := pns\<rparr>)"
    and tracked: "I s \<Longrightarrow> I (s\<lparr>op_tracked := ts\<rparr>)" and queue: "I s \<Longrightarrow> I (s\<lparr>op_queue := js\<rparr>)"
    and odoo: "I s \<Longrightarrow> I (s\<lparr>op_odoo := os\<rparr>)" and events: "I s \<Longrightarrow> I (s\<lparr>op_events := es\<rparr>)"
    and shop: "I s \<Longrightarrow> db_uuid shop' = db_uuid (op_shop s) \<Longrightarrow> db_next (op_shop s) \<le> db_next shop' \<Longrightarrow> I (s\<lparr>op_shop := shop'\<rparr>)"
begin

lemmas rows = requests request_lines routes shipments points coverage plans plan_rows tracked queue odoo events

lemma keeps_rows: "(\<And>s. I s \<Longrightarrow> I (f s)) \<Longrightarrow> keeps I (writes f)"
  by (rule keeps_writes_if)

lemma keeps_on_shop: "ids_grow m \<Longrightarrow> keeps I (on_shop m)"
  unfolding keeps_def on_shop_def by (auto split: prod.splits dest!: ids_growD intro: shop)

lemma keeps_new_id: "keeps I new_id"
  unfolding new_id_def by (rule keeps_on_shop [OF grow_fresh_id])

lemma keeps_apply: "keeps I (applyRequestStatus q st now)" "keeps I (applyRouteStatus r rt now)"
  "keeps I (applyAssignmentStatus a ast now)"
  unfolding applyRequestStatus_def applyRouteStatus_def applyAssignmentStatus_def by (intro keeps_rules)+

lemma keeps_saves:
  "keeps I (save_request q)" "keeps I (save_route r)" "keeps I (save_shipment x)" "keeps I (save_line_row l)"
  "keeps I (emit e)" "keeps I (enqueue_dispatch j)" "keeps I (enqueue_odoo oj)" "keeps I (save_point p)"
  "keeps I (untrackRequest k)" "keeps I (save_plan pl)" "keeps I (add_window_job k t)"
  unfolding save_request_def save_route_def save_shipment_def save_line_row_def emit_def enqueue_dispatch_def
    enqueue_odoo_def save_point_def untrackRequest_def save_plan_def add_window_job_def
  by (rule keeps_rows, simp add: rows)+

lemma keeps_save_requests: "keeps I (save_requests qs)"
  unfolding save_requests_def by (intro keeps_rules keeps_saves)

lemma keeps_get_config: "keeps I get_config"
  unfolding get_config_def by (intro keeps_rules)

lemma keeps_track: "keeps I (trackRequestForDriver k d)"
proof -
  have "I s \<Longrightarrow> I (case a of None \<Rightarrow> s | Some x \<Rightarrow> s\<lparr>op_tracked := f x\<rparr>)" for s f and a :: "truck_assignment option"
    by (cases a) (simp_all add: rows)
  then show ?thesis unfolding trackRequestForDriver_def by (rule keeps_rows) blast
qed

lemmas steps = keeps_rules keeps_new_id keeps_apply keeps_saves keeps_save_requests keeps_get_config keeps_track

lemma keeps_route: "keeps I (new_route F p d st t)"
  unfolding new_route_def by (intro steps)

lemma keeps_shipment: "keeps I (autoCreateOrAddToShipment F d q)"
  unfolding autoCreateOrAddToShipment_def createShipment_def addToShipment_def by (intro steps)

lemma keeps_bind_route: "keeps I (bindToRoute F q d)"
  unfolding bindToRoute_def by (intro steps keeps_route)

lemma keeps_merge: "keeps I (tryMergeRequest F config q)"
proof -
  have bound: "keeps I (bindMerged F r stops opened q k)" for r stops opened k
    unfolding bindMerged_def by (intro steps keeps_shipment)
  have "keeps I (try_routes F config q rs)" for rs
  proof (induction rs)
    case (Cons r rs)
    then show ?case unfolding try_routes.simps by (intro steps bound)
  qed (unfold try_routes.simps, rule keeps_ret)
  then show ?thesis unfolding tryMergeRequest_def by (intro steps)
qed

lemma keeps_enqueueElect: "keeps I (enqueueElect k)"
  unfolding enqueueElect_def by (intro steps)

lemma keeps_after: "keeps I (after_settlement F d q st)"
  unfolding after_settlement_def by (intro steps keeps_bind_route keeps_shipment keeps_enqueueElect)

lemma keeps_window: "keeps I (openWindow F k)" "keeps I (scheduleWindow F q)"
  unfolding openWindow_def scheduleWindow_def by (intro steps keeps_enqueueElect)+

lemma keeps_triggers: "keeps I (handleQueued F k)" "keeps I (handleCancelled k)" "keeps I (handleLocationUpdated d b)"
  unfolding handleQueued_def handleCancelled_def handleLocationUpdated_def
  by (intro steps keeps_enqueueElect keeps_window)+

lemma keeps_tours: "keeps I (tour_arrived F c k)" "keeps I (tour_collected F c k w rl)" "keeps I (tour_delivered F c k wh)"
  unfolding tour_arrived_def tour_collected_def tour_delivered_def loadStop_def driver_of_def start_tour_def
    reorderTour_def autoDepartOnArrival_def receive_line_def registerIntake_def advanceRoute_def
    autoDeliverOnRouteComplete_def close_stop_def awardPoints_def
  by (intro steps keeps_on_shop grow_award)+

lemma keeps_shipments: "keeps I (confirmShipmentReceipt F code w)" "keeps I (shipment_cancel c k)" "keeps I (shipment_deliver F c k wo n)"
  unfolding confirmShipmentReceipt_def loadShipmentForReception_def shipment_cancel_def shipment_deliver_def performDeliver_def
    getDriver_def getOwned_def guardTransition_def
  by (intro steps)+

lemma keeps_build: "keeps I (build_lines F r ls)"
  unfolding build_lines_def build_line_def by (intro steps)

lemma keeps_insert_line: "keeps I (insert_line k f l)"
  unfolding insert_line_def by (intro steps)

lemma keeps_insert: "keeps I (insert_request F c dto ls)"
  unfolding insert_request_def by (intro steps keeps_insert_line)

lemma keeps_dropoff: "keeps I (createDropOff F c d p ls)"
  unfolding createDropOff_def walk_in_checks_def walk_in_save_def by (intro steps keeps_build keeps_insert_line keeps_route keeps_shipment)

lemma keeps_plans: "keeps I (plan_create c dto)" "keeps I (plan_update c k patch)" "keeps I (generateDueRequests F)"
  unfolding plan_create_def plan_update_def generateDueRequests_def generateForPlan_def buildLines_def plan_line_of_def
    assertFrequencyFields_def insert_plan_line_def plan_owned_def
  by (intro steps keeps_insert_line keeps_rows plan_rows; assumption?)+

lemma keeps_distribute: "keeps I (distribute F ps rs load ds)"
proof (induction ds arbitrary: load)
  case (Cons d ds)
  have "keeps I (park F e d k)" for e k
    unfolding park_def insert_row_def by (intro steps keeps_rows coverage)
  then show ?case unfolding distribute.simps by (intro steps Cons.IH)
qed (unfold distribute.simps, rule keeps_ret)

lemma keeps_coverage: "keeps I (coverage_rebalance F)" "keeps I (relocate F d)"
  "keeps I (point_create F nm la lg pin)" "keeps I (point_update k pin)" "keeps I (point_remove k)"
  unfolding coverage_rebalance_def distributeIdleDrivers_def relocate_def insert_row_def point_create_def point_update_def
    point_remove_def load_point_def
  by (intro steps keeps_distribute keeps_rows coverage; assumption?)+

end

section \<open>The ledger\<close>

definition offer_pair :: "request_assignment \<Rightarrow> ident \<times> ident" where
  "offer_pair a = (ca_requestId a, ca_driverId a)"

definition ledger_keys :: "ops \<Rightarrow> bool" where
  "ledger_keys s \<longleftrightarrow> inj (db_uuid (op_shop s))
    \<and> (\<forall>i. db_uuid (op_shop s) i \<in> ca_id ` set (op_assignments s) \<longrightarrow> i < db_next (op_shop s))
    \<and> distinct (map ca_id (op_assignments s)) \<and> distinct (map offer_pair (op_assignments s))"

definition one_offer :: "ops \<Rightarrow> bool" where
  "one_offer s \<longleftrightarrow> (\<forall>r. length (outstanding r s) \<le> 1)"

definition ledger_ok :: "ops \<Rightarrow> bool" where
  "ledger_ok s \<longleftrightarrow> ledger_keys s \<and> one_offer s"

text \<open>A row the caller holds is still in the ledger, perhaps with another status.\<close>

definition on_ledger :: "request_assignment \<Rightarrow> ops \<Rightarrow> bool" where
  "on_ledger a s \<longleftrightarrow> (\<exists>b \<in> set (op_assignments s). ca_id b = ca_id a \<and> offer_pair b = offer_pair a)"

lemma ledger_ok_view:
  assumes "op_assignments s' = op_assignments s" and "db_uuid (op_shop s') = db_uuid (op_shop s)"
    and "db_next (op_shop s) \<le> db_next (op_shop s')"
  shows "ledger_ok s \<Longrightarrow> ledger_ok s'" and "on_ledger a s \<Longrightarrow> on_ledger a s'"
  using assms by (auto simp: ledger_ok_def ledger_keys_def one_offer_def outstanding_def on_ledger_def intro: less_le_trans)

interpretation ledger: ledger_view ledger_ok
  by unfold_locales (erule ledger_ok_view(1) [rotated -1]; simp)+

interpretation held: ledger_view "\<lambda>s. ledger_ok s \<and> (\<forall>a \<in> A. on_ledger a s)" for A
  by unfold_locales (erule conjE, intro conjI ballI; (drule (1) bspec)?;
    erule ledger_ok_view(1) [rotated -1] ledger_ok_view(2) [rotated -1]; simp)+

subsection \<open>Closing an offer\<close>

lemma count_saved:
  assumes "distinct (map key xs)" and "\<not> P r"
  shows "length (filter P (tbl_save key r xs)) \<le> length (filter P xs)"
  using assms(2) by (induction xs) auto

lemma pairs_saved:
  assumes "distinct (map ca_id xs)" and "b \<in> set xs" and "ca_id b = ca_id a" and "offer_pair b = offer_pair a"
  shows "map offer_pair (tbl_save ca_id a xs) = map offer_pair xs"
  using assms by (induction xs) (auto simp: image_iff)

lemma close_offer:
  assumes ok: "ledger_ok s" and a: "on_ledger a s" and closed: "ca_status a \<noteq> CA_OFFERED"
  shows "ledger_ok (s\<lparr>op_assignments := tbl_save ca_id a (op_assignments s)\<rparr>)"
proof -
  let ?xs = "op_assignments s"
  obtain b where b: "b \<in> set ?xs" "ca_id b = ca_id a" "offer_pair b = offer_pair a" using a unfolding on_ledger_def by blast
  have d: "distinct (map ca_id ?xs)" using ok by (simp add: ledger_ok_def ledger_keys_def)
  have "map offer_pair (tbl_save ca_id a ?xs) = map offer_pair ?xs" by (rule pairs_saved [OF d b])
  moreover have "map ca_id (tbl_save ca_id a ?xs) = map ca_id ?xs" using b by (metis imageI keys_tbl_save)
  moreover from this have "ca_id ` set (tbl_save ca_id a ?xs) = ca_id ` set ?xs" by (metis set_map)
  moreover have "length (filter (\<lambda>a. ca_requestId a = r \<and> ca_status a = CA_OFFERED) (tbl_save ca_id a ?xs))
      \<le> length (filter (\<lambda>a. ca_requestId a = r \<and> ca_status a = CA_OFFERED) ?xs)" for r
    by (rule count_saved [OF d]) (simp add: closed)
  then have "one_offer (s\<lparr>op_assignments := tbl_save ca_id a ?xs\<rparr>)"
    using ok by (auto simp: ledger_ok_def one_offer_def outstanding_def intro: le_trans)
  ultimately show ?thesis
    using ok by (simp add: ledger_ok_def ledger_keys_def)
qed

lemma on_ledger_saved:
  assumes ok: "ledger_ok s" and c: "on_ledger c s" and a: "on_ledger a s"
  shows "on_ledger c (s\<lparr>op_assignments := tbl_save ca_id a (op_assignments s)\<rparr>)"
proof -
  let ?xs = "op_assignments s"
  have d: "distinct (map ca_id ?xs)" using ok by (simp add: ledger_ok_def ledger_keys_def)
  obtain b where b: "b \<in> set ?xs" "ca_id b = ca_id c" "offer_pair b = offer_pair c" using c unfolding on_ledger_def by blast
  obtain e where e: "e \<in> set ?xs" "ca_id e = ca_id a" "offer_pair e = offer_pair a" using a unfolding on_ledger_def by blast
  show ?thesis
  proof (cases "ca_id c = ca_id a")
    case True
    then have "b = e" using d b e by (metis distinct_map inj_onD)
    then have "ca_id a = ca_id c" "offer_pair a = offer_pair c" using True b e by simp_all
    then show ?thesis unfolding on_ledger_def by (auto intro: bexI [OF _ in_tbl_save])
  next
    case False
    then have "b \<in> set (tbl_save ca_id a ?xs)" using b by (simp add: set_tbl_save [OF d])
    then show ?thesis unfolding on_ledger_def using b by auto
  qed
qed

lemma keeps_bind_result:
  "keeps I m \<Longrightarrow> (\<And>x s s'. m s = (Inr x, s') \<Longrightarrow> keeps I (f x)) \<Longrightarrow> keeps I (bind m f)"
  unfolding keeps_def bind_def by (fastforce split: prod.splits sum.splits)

lemma applied_offer:
  "applyAssignmentStatus a st now s = (Inr a', s') \<Longrightarrow>
     s' = s \<and> ca_id a' = ca_id a \<and> offer_pair a' = offer_pair a \<and> ca_status a' = st"
  by (auto simp: applyAssignmentStatus_def offer_pair_def split: if_splits)

lemma keeps_close:
  assumes "a \<in> A" and "ca_id a' = ca_id a" and "offer_pair a' = offer_pair a" and "ca_status a' \<noteq> CA_OFFERED"
  shows "keeps (\<lambda>s. ledger_ok s \<and> (\<forall>c \<in> A. on_ledger c s)) (save_assignment a')"
  unfolding save_assignment_def
proof (rule keeps_writes_if)
  fix s assume s: "ledger_ok s \<and> (\<forall>c \<in> A. on_ledger c s)"
  then have "on_ledger a' s" using assms by (simp add: on_ledger_def)
  then show "ledger_ok (s\<lparr>op_assignments := tbl_save ca_id a' (op_assignments s)\<rparr>)
      \<and> (\<forall>c \<in> A. on_ledger c (s\<lparr>op_assignments := tbl_save ca_id a' (op_assignments s)\<rparr>))"
    using s assms(4) by (auto intro: close_offer on_ledger_saved)
qed

lemma keeps_settle:
  assumes a: "a \<in> A" and st: "st \<noteq> CA_OFFERED"
  shows "keeps (\<lambda>s. ledger_ok s \<and> (\<forall>c \<in> A. on_ledger c s)) (settleOffer F a q st)"
  unfolding settleOffer_def
proof (intro keeps_if keeps_ret keeps_bind_result [OF held.keeps_apply(3)])
  fix a' s s'
  assume "applyAssignmentStatus a st (fw_now F) s = (Inr a', s')"
  then have "ca_id a' = ca_id a" "offer_pair a' = offer_pair a" "ca_status a' = st" by (auto dest: applied_offer)
  then show "keeps (\<lambda>s. ledger_ok s \<and> (\<forall>c \<in> A. on_ledger c s))
      (bind (save_assignment a') (\<lambda>_. after_settlement F (ca_driverId a') q st))"
    using st by (intro keeps_bind keeps_close [OF a] held.keeps_after) simp_all
qed

lemma withdraw_keeps_ledger:
  assumes "a \<in> A"
  shows "keeps (\<lambda>s. ledger_ok s \<and> (\<forall>c \<in> A. on_ledger c s)) (withdraw F a)"
  unfolding withdraw_def
  by (rule keeps_bind_result [OF held.keeps_apply(3)], drule applied_offer, rule keeps_close [OF assms]) simp_all

text \<open>What a handler does with the rows it has just read.\<close>

lemma keeps_held:
  assumes rows: "\<And>s. set (h (g s)) \<subseteq> set (op_assignments s)"
    and body: "\<And>x. keeps (\<lambda>s. ledger_ok s \<and> (\<forall>c \<in> set (h x). on_ledger c s)) (f x)"
  shows "keeps ledger_ok (bind (reads g) f)"
  unfolding keeps_def
proof (intro allI impI)
  fix s assume ok: "ledger_ok s"
  then have "\<forall>c \<in> set (h (g s)). on_ledger c s" using rows [of s] by (auto simp: on_ledger_def)
  then show "ledger_ok (snd (bind (reads g) f s))" using body [of "g s"] ok by (simp add: keeps_def)
qed

subsection \<open>A new offer\<close>

lemma new_offer_run:
  assumes "new_offer r d sc t s = (res, s')"
  obtains (taken) "res = Inl Crash" "op_assignments s' = op_assignments s" "op_shop s' = (op_shop s)\<lparr>db_next := db_next (op_shop s) + 1\<rparr>"
    | (added) a where "res = Inr a" "a = \<lparr>ca_id = db_uuid (op_shop s) (db_next (op_shop s)), ca_requestId = r, ca_driverId = d,
        ca_status = CA_OFFERED, ca_score = sc, ca_offerExpiresAt = t, ca_respondedAt = None\<rparr>"
      "(r, d) \<notin> offer_pair ` set (op_assignments s)"
      "s' = s\<lparr>op_shop := (op_shop s)\<lparr>db_next := db_next (op_shop s) + 1\<rparr>, op_assignments := op_assignments s @ [a]\<rparr>"
proof -
  have fresh: "new_id s = (Inr (db_uuid (op_shop s) (db_next (op_shop s))), s\<lparr>op_shop := (op_shop s)\<lparr>db_next := db_next (op_shop s) + 1\<rparr>\<rparr>)"
    by (simp add: new_id_def on_shop_def fresh_id_def)
  show thesis
    using assms taken added
    by (auto simp: new_offer_def bind_Inr [where m = new_id, OF fresh] insert_assignment_def bind_assoc Let_def list_ex_iff
      offer_pair_def image_iff split: if_splits)
qed

lemma added_keys:
  assumes "ledger_keys s" and "(r, d) \<notin> offer_pair ` set (op_assignments s)" and "offer_pair a = (r, d)"
    and "ca_id a = db_uuid (op_shop s) (db_next (op_shop s))"
  shows "ledger_keys (s\<lparr>op_shop := (op_shop s)\<lparr>db_next := db_next (op_shop s) + 1\<rparr>, op_assignments := op_assignments s @ [a]\<rparr>)"
proof -
  have "ca_id a \<notin> ca_id ` set (op_assignments s)" using assms(1,4) by (auto simp: ledger_keys_def)
  then show ?thesis using assms by (auto simp: ledger_keys_def image_iff dest: injD intro: less_SucI)
qed

lemma offer_when_none_out:
  assumes ok: "ledger_ok s" and none: "outstanding r s = []" and run: "new_offer r d sc t s = (res, s')"
  shows "ledger_ok s'"
  using run
proof (cases rule: new_offer_run)
  case taken
  then show ?thesis using ok by (auto intro: ledger_ok_view(1) [rotated -1])
next
  case (added a)
  have "ledger_keys s'"
    unfolding added(4) by (rule added_keys) (use ok added in \<open>simp_all add: ledger_ok_def offer_pair_def\<close>)
  moreover have "outstanding k s' = outstanding k s @ (if k = r then [a] else [])" for k
    using added by (simp add: outstanding_def)
  ultimately show ?thesis using ok none by (auto simp: ledger_ok_def one_offer_def)
qed

text \<open>An offer made and settled at once.\<close>

lemma offered_and_settled:
  assumes ok: "ledger_ok s" and run: "new_offer r d sc t s = (res, s1)" and st: "st \<noteq> CA_OFFERED" "canTransitionAssignment CA_OFFERED st"
  shows "ledger_ok (snd (case res of Inl e \<Rightarrow> (Inl e, s1) | Inr a \<Rightarrow> settleOffer F a q st s1))"
  using run
proof (cases rule: new_offer_run)
  case taken
  then show ?thesis using ok by (auto intro: ledger_ok_view(1) [rotated -1])
next
  case (added a)
  let ?a = "a\<lparr>ca_status := st, ca_respondedAt := Some (fw_now F)\<rparr>"
  let ?s = "s1\<lparr>op_assignments := tbl_save ca_id ?a (op_assignments s1)\<rparr>"
  have new: "ca_id a \<notin> ca_id ` set (op_assignments s)" using ok added by (auto simp: ledger_ok_def ledger_keys_def)
  have rows: "tbl_save ca_id ?a (op_assignments s1) = op_assignments s @ [?a]"
  proof -
    have "tbl_save ca_id ?a (xs @ [a]) = xs @ [?a]" if "ca_id a \<notin> ca_id ` set xs" for xs
      using that by (induction xs) auto
    then show ?thesis using new added by simp
  qed
  have s: "?s = s\<lparr>op_shop := (op_shop s)\<lparr>db_next := db_next (op_shop s) + 1\<rparr>, op_assignments := op_assignments s @ [?a]\<rparr>"
    using rows added by simp
  have "ledger_keys ?s"
    unfolding s by (rule added_keys) (use ok added in \<open>simp_all add: ledger_ok_def offer_pair_def\<close>)
  moreover have "outstanding k ?s = outstanding k s" for k using st(1) by (simp add: s outstanding_def)
  ultimately have ok': "ledger_ok ?s" using ok by (simp add: ledger_ok_def one_offer_def)
  have "applyAssignmentStatus a st (fw_now F) s1 = (Inr ?a, s1)"
    using st added by (simp add: applyAssignmentStatus_def)
  moreover have "save_assignment ?a s1 = (Inr (), ?s)" by (simp add: save_assignment_def)
  ultimately have "settleOffer F a q st s1 = after_settlement F d q st ?s"
    using added by (simp add: settleOffer_def bind_Inr)
  then show ?thesis using ok' added ledger.keeps_after [of F d q st] by (simp add: keeps_def)
qed

section \<open>The handlers\<close>

interpretation free: ledger_view "\<lambda>s. ledger_ok s \<and> outstanding r s = []" for r
proof -
  have out: "op_assignments s' = op_assignments s \<Longrightarrow> outstanding r s' = outstanding r s" for s s'
    by (simp add: outstanding_def)
  show "ledger_view (\<lambda>s. ledger_ok s \<and> outstanding r s = [])"
    by unfold_locales (erule conjE, intro conjI; (erule ledger_ok_view(1) [rotated -1] | subst out); simp)+
qed

lemma triple_offer: "triple (\<lambda>s. ledger_ok s \<and> outstanding (cr_id q) s = []) (offer F config q c sc) (\<lambda>_. ledger_ok) ledger_ok"
  unfolding offer_def
  by (rule triple_bind [where R = "\<lambda>_. ledger_ok"], rule tripleI) (auto intro: offer_when_none_out triple_ret)

lemma triple_none: "keeps I m \<Longrightarrow> (\<And>s. P s \<Longrightarrow> I s) \<Longrightarrow> (\<And>s. I s \<Longrightarrow> Q s) \<Longrightarrow> triple P m (\<lambda>_. Q) Q"
  unfolding keeps_triple by (erule triple_conseq) auto

lemma keeps_needsAdmin: "keeps ledger_ok (needsAdmin F q)"
  unfolding needsAdmin_def by (intro ledger.steps)

lemma elect_found:
  assumes "cr_id q = r"
  shows "triple (\<lambda>s. ledger_ok s \<and> outstanding r s = [])
    (bind (tryMergeRequest F config q) (\<lambda>merged. if merged \<noteq> None then ret ()
      else bind (reads (findEligible F q [] False)) (\<lambda>pool. case ranked F q config pool of
        [] \<Rightarrow> needsAdmin F q | (best, sc) # _ \<Rightarrow> offer F config q best sc)))
    (\<lambda>_. ledger_ok) ledger_ok"
proof -
  let ?free = "\<lambda>s. ledger_ok s \<and> outstanding r s = []"
  have choice: "triple ?free (case best of [] \<Rightarrow> needsAdmin F q | (best, sc) # _ \<Rightarrow> offer F config q best sc) (\<lambda>_. ledger_ok) ledger_ok"
    for best
    using triple_offer [of q] assms by (auto split: list.split intro: triple_none [OF keeps_needsAdmin])
  have "triple ?free (tryMergeRequest F config q) (\<lambda>_. ?free) ?free"
    using free.keeps_merge unfolding keeps_triple .
  then have "triple ?free (tryMergeRequest F config q) (\<lambda>_. ?free) ledger_ok" by (rule triple_conseq) auto
  then show ?thesis
    by (rule triple_bind, intro triple_if triple_ret triple_bind_reads) (auto intro: triple_pre [OF choice])
qed

lemma keeps_elect: "keeps ledger_ok (elect F r)"
proof -
  have found: "triple (\<lambda>s. ledger_ok s \<and> x = outstanding r s)
      (if x \<noteq> [] then ret () else bind (tryMergeRequest F config q) (\<lambda>merged. if merged \<noteq> None then ret ()
        else bind (reads (findEligible F q [] False)) (\<lambda>pool. case ranked F q config pool of
          [] \<Rightarrow> needsAdmin F q | (best, sc) # _ \<Rightarrow> offer F config q best sc))) (\<lambda>_. ledger_ok) ledger_ok"
    if "cr_id q = r" for x config q
    by (intro triple_if triple_ret triple_pre [OF elect_found [OF that]]) auto
  have body: "keeps ledger_ok (if cr_status q \<noteq> Q_QUEUED then ret () else bind get_config (\<lambda>config.
       if \<not> cf_isEnabled config then ret () else if too_early F config q then ret ()
       else bind (reads (outstanding r)) (\<lambda>already. if already \<noteq> [] then ret ()
         else bind (tryMergeRequest F config q) (\<lambda>merged. if merged \<noteq> None then ret ()
           else bind (reads (findEligible F q [] False)) (\<lambda>pool. case ranked F q config pool of
             [] \<Rightarrow> needsAdmin F q | (best, sc) # _ \<Rightarrow> offer F config q best sc)))))"
    if "cr_id q = r" for q
    by (rule keeps_if, rule keeps_ret, rule keeps_bind [OF ledger.keeps_get_config], rule keeps_if, rule keeps_ret, rule keeps_if,
      rule keeps_ret, unfold keeps_triple, rule triple_bind_reads, rule found [OF that])
  show ?thesis
    unfolding keeps_def elect_def
  proof (intro allI impI)
    fix s assume ok: "ledger_ok s"
    show "ledger_ok (snd (bind (reads (find_request r)) (\<lambda>found. case found of None \<Rightarrow> ret () | Some q \<Rightarrow>
       if cr_status q \<noteq> Q_QUEUED then ret () else bind get_config (\<lambda>config.
       if \<not> cf_isEnabled config then ret () else if too_early F config q then ret ()
       else bind (reads (outstanding r)) (\<lambda>already. if already \<noteq> [] then ret ()
         else bind (tryMergeRequest F config q) (\<lambda>merged. if merged \<noteq> None then ret ()
           else bind (reads (findEligible F q [] False)) (\<lambda>pool. case ranked F q config pool of
             [] \<Rightarrow> needsAdmin F q | (best, score) # _ \<Rightarrow> offer F config q best score)))))  s))"
    proof (cases "find_request r s")
      case (Some q)
      then have "cr_id q = r" by (auto simp: find_request_def dest: tbl_find_SomeD)
      from body [OF this] ok Some show ?thesis by (simp add: keeps_def)
    qed (simp add: ok)
  qed
qed

lemma keeps_next: "keeps ledger_ok (electNextForDriver F)"
  unfolding electNextForDriver_def by (intro ledger.steps keeps_elect)

lemma keeps_process: "keeps ledger_ok (dispatch_process F j)"
  unfolding dispatch_process_def by (cases j) (auto intro!: keeps_best_effort keeps_elect keeps_next ledger.keeps_window)

lemma keeps_event: "keeps ledger_ok (handleEvent F e)"
  unfolding handleEvent_def handleDriverFreed_def
  by (cases e) (auto intro!: keeps_best_effort keeps_next ledger.keeps_triggers simp del: fun_eq_iff intro: keeps_ret)

lemma keeps_offer_settle: "keeps ledger_ok (bind (new_offer r d sc t) (\<lambda>a. settleOffer F a q CA_ACCEPTED))"
  unfolding keeps_def
proof (intro allI impI)
  fix s assume ok: "ledger_ok s"
  obtain res s1 where run: "new_offer r d sc t s = (res, s1)" by (cases "new_offer r d sc t s")
  show "ledger_ok (snd (bind (new_offer r d sc t) (\<lambda>a. settleOffer F a q CA_ACCEPTED) s))"
    using offered_and_settled [OF ok run, of CA_ACCEPTED F q]
    by (simp add: bind_def run canTransitionAssignment_def split: sum.splits)
qed

lemma keeps_manual: "keeps ledger_ok (assignManually F r d)"
  unfolding assignManually_def by (intro ledger.steps keeps_offer_settle)

lemma remove_request_keeps: "keeps ledger_ok (remove_request q)"
  unfolding remove_request_def
proof (rule keeps_writes_if)
  fix s assume ok: "ledger_ok s"
  let ?s = "s\<lparr>op_requests := filter (\<lambda>x. cr_id x \<noteq> cr_id q) (op_requests s),
     op_lines := filter (\<lambda>l. rl_requestId l \<noteq> cr_id q) (op_lines s),
     op_assignments := filter (\<lambda>a. ca_requestId a \<noteq> cr_id q) (op_assignments s)\<rparr>"
  have "length (filter P (filter Q xs)) \<le> length (filter P xs)" for P Q and xs :: "request_assignment list"
    by (induction xs) auto
  then have "length (outstanding k ?s) \<le> length (outstanding k s)" for k by (simp add: outstanding_def)
  then have "one_offer ?s" using ok unfolding ledger_ok_def one_offer_def by (meson le_trans)
  then show "ledger_ok ?s" using ok by (auto simp: ledger_ok_def ledger_keys_def distinct_map_filter)
qed

lemma keeps_dispatch_now: "keeps ledger_ok (dispatch_now F q)"
proof -
  have "keeps ledger_ok (bind (new_offer r d sc t) (\<lambda>a. bind (settleOffer F a q CA_ACCEPTED) g))"
    if "\<And>x. keeps ledger_ok (g x)" for r d sc t q g
    unfolding bind_assoc [symmetric] by (intro keeps_bind keeps_offer_settle that)
  note pair = this
  have "keeps ledger_ok (case x of (outcome, q) \<Rightarrow> case outcome of
       Nobody \<Rightarrow> bind (remove_request q) (\<lambda>_. throw Conflict)
     | Merged driverId \<Rightarrow> ret (q, Some driverId)
     | Elected c score \<Rightarrow> bind (new_offer (cr_id q) (cd_driverId c) None None) (\<lambda>a.
         bind (settleOffer F a (Some q) CA_ACCEPTED) (\<lambda>q'. ret (or_else q' q, Some (cd_driverId c)))))" for x
  proof (cases x)
    case (Pair outcome q')
    show ?thesis
    proof (cases outcome)
      case Nobody
      then show ?thesis by (simp only: Pair prod.case election.case) (intro keeps_rules remove_request_keeps)
    next
      case (Merged d)
      then show ?thesis by (simp only: Pair prod.case election.case) (rule keeps_ret)
    next
      case (Elected cand sc)
      then show ?thesis by (simp only: Pair prod.case election.case) (rule pair, rule keeps_ret)
    qed
  qed
  moreover have "keeps ledger_ok (electSynchronous F q)"
    unfolding electSynchronous_def by (intro ledger.steps ledger.keeps_merge)
  ultimately show ?thesis unfolding dispatch_now_def by (intro keeps_bind)
qed

lemma request_create_keeps: "keeps ledger_ok (request_create F c r dto)"
  unfolding request_create_def by (intro ledger.steps ledger.keeps_build ledger.keeps_insert keeps_dispatch_now)

lemma keeps_performCancel: "keeps ledger_ok (performCancel F q reason)"
proof -
  have "keeps ledger_ok (bind (reads (outstanding (cr_id q))) (\<lambda>offers. bind (for_each offers (withdraw F)) m))"
    if m: "\<And>x. keeps ledger_ok (m x)" for m :: "unit \<Rightarrow> collection_request fleet_action"
  proof -
    have "keeps ledger_ok (bind (bind (reads (outstanding (cr_id q))) (\<lambda>offers. for_each offers (withdraw F))) m)"
    proof (rule keeps_bind [OF keeps_held [where h = "\<lambda>xs. xs"] m])
      show "keeps (\<lambda>s. ledger_ok s \<and> (\<forall>c \<in> set xs. on_ledger c s)) (for_each xs (withdraw F))" for xs
        by (intro keeps_for_each withdraw_keeps_ledger)
    qed (auto simp: outstanding_def)
    then show ?thesis by (simp only: bind_assoc)
  qed
  note offers = this
  show ?thesis unfolding performCancel_def by (intro ledger.steps offers)
qed

lemma keeps_cancels: "keeps ledger_ok (request_cancel F c k reason)" "keeps ledger_ok (adminCancel F k reason)"
  unfolding request_cancel_def adminCancel_def request_owned_def by (intro ledger.steps keeps_performCancel)+

lemma keeps_expire: "keeps ledger_ok (expireOffers F)"
  unfolding expireOffers_def
proof (rule keeps_held [where h = "map fst"])
  show "set (map fst (map (\<lambda>a. (a, find_request (ca_requestId a) s)) (lapsing s))) \<subseteq> set (op_assignments s)" for s
    by (auto simp: lapsing_def dest!: in_set_takeD)
  show "keeps (\<lambda>s. ledger_ok s \<and> (\<forall>c \<in> set (map fst x). on_ledger c s))
      (for_each x (\<lambda>(a, q). if lapsed (fw_now F) a then best_effort (settleOffer F a q CA_EXPIRED) else ret ()))" for x
    by (intro keeps_for_each keeps_prod keeps_if keeps_ret keeps_best_effort keeps_settle) (auto intro: image_eqI [rotated])
qed

lemma pending_on_ledger: "loadPendingOffer c k s = Some a \<Longrightarrow> a \<in> set (op_assignments s)"
  by (auto simp: loadPendingOffer_def find_Some_iff split: option.splits)

lemma keeps_answers: "keeps ledger_ok (offer_accept F c k)" "keeps ledger_ok (offer_reject F c k)"
proof -
  let ?h = "\<lambda>p :: request_assignment option. case p of None \<Rightarrow> [] | Some a \<Rightarrow> [a]"
  have rows: "set (?h (loadPendingOffer c k s)) \<subseteq> set (op_assignments s)" for s
    by (auto split: option.splits dest: pending_on_ledger [OF sym])
  have bound: "keeps I (buildViewIfAlreadyBound c k)" for I unfolding buildViewIfAlreadyBound_def by (intro keeps_rules)
  show "keeps ledger_ok (offer_accept F c k)"
    unfolding offer_accept_def
    by (rule keeps_held [where h = ?h, OF rows]) (intro keeps_rules bound keeps_settle; simp)
  show "keeps ledger_ok (offer_reject F c k)"
    unfolding offer_reject_def
    by (rule keeps_held [where h = ?h, OF rows]) (intro keeps_rules keeps_settle; simp)
qed

section \<open>Every sequence of requests\<close>

datatype fleet_call =
  Create_request ident role request_input
| Cancel_request ident ident "string option"
| Admin_cancel ident "string option"
| Assign_manually ident ident
| Accept_offer ident ident
| Reject_offer ident ident
| Sweep_offers
| Run_job dispatch_job
| Handle_event collection_event
| Truck_moved "ident option" bool
| Arrive ident ident
| Collect ident ident rat "(string option \<times> rat) list"
| Deliver ident ident "string option"
| Drop_off ident ident ident "line_input list"
| Receive_shipment "string option" ident
| Cancel_shipment ident ident
| Deliver_shipment ident ident "ident option" "string option"
| Create_plan ident plan_input
| Update_plan ident ident plan_patch
| Generate_plans
| Rebalance
| Create_point string rat rat point_input
| Update_point ident point_input
| Remove_point ident

text \<open>The state a call leaves, whether it returns or throws.\<close>

fun after_call :: "fleet_world \<Rightarrow> fleet_call \<Rightarrow> ops \<Rightarrow> ops" where
  "after_call F (Create_request c r dto) s = snd (request_create F c r dto s)"
| "after_call F (Cancel_request c k reason) s = snd (request_cancel F c k reason s)"
| "after_call F (Admin_cancel k reason) s = snd (adminCancel F k reason s)"
| "after_call F (Assign_manually k d) s = snd (assignManually F k d s)"
| "after_call F (Accept_offer c k) s = snd (offer_accept F c k s)"
| "after_call F (Reject_offer c k) s = snd (offer_reject F c k s)"
| "after_call F Sweep_offers s = snd (expireOffers F s)"
| "after_call F (Run_job j) s = snd (dispatch_process F j s)"
| "after_call F (Handle_event e) s = snd (handleEvent F e s)"
| "after_call F (Truck_moved d b) s = snd (handleLocationUpdated d b s)"
| "after_call F (Arrive c k) s = snd (tour_arrived F c k s)"
| "after_call F (Collect c k w ls) s = snd (tour_collected F c k w ls s)"
| "after_call F (Deliver c k w) s = snd (tour_delivered F c k w s)"
| "after_call F (Drop_off c d p ls) s = snd (createDropOff F c d p ls s)"
| "after_call F (Receive_shipment code w) s = snd (confirmShipmentReceipt F code w s)"
| "after_call F (Cancel_shipment c k) s = snd (shipment_cancel c k s)"
| "after_call F (Deliver_shipment c k w n) s = snd (shipment_deliver F c k w n s)"
| "after_call F (Create_plan c dto) s = snd (plan_create c dto s)"
| "after_call F (Update_plan c k dto) s = snd (plan_update c k dto s)"
| "after_call F Generate_plans s = snd (generateDueRequests F s)"
| "after_call F Rebalance s = snd (coverage_rebalance F s)"
| "after_call F (Create_point n la lg dto) s = snd (point_create F n la lg dto s)"
| "after_call F (Update_point k dto) s = snd (point_update k dto s)"
| "after_call F (Remove_point k) s = snd (point_remove k s)"

text \<open>One call after the other, each in the world of its moment.\<close>

inductive fleet_reach :: "ops \<Rightarrow> ops \<Rightarrow> bool" for s0 where
  start: "fleet_reach s0 s0"
| call: "fleet_reach s0 s \<Longrightarrow> fleet_reach s0 (after_call F c s)"

lemma kept: "keeps I m \<Longrightarrow> I s \<Longrightarrow> I (snd (m s))"
  by (simp add: keeps_def)

lemmas ledger_handlers = request_create_keeps keeps_cancels keeps_manual keeps_answers keeps_expire keeps_process keeps_event
  ledger.keeps_triggers ledger.keeps_tours ledger.keeps_dropoff ledger.keeps_shipments ledger.keeps_plans ledger.keeps_coverage

lemma ledger_call: "ledger_ok s \<Longrightarrow> ledger_ok (after_call F c s)"
  by (cases c; simp only: after_call.simps; rule kept [where I = ledger_ok], rule ledger_handlers, assumption)

text \<open>C32: whatever requests, jobs, events, sweeps and timers come in whatever order, at most one offer is
  out for a request at any time, and the ledger never holds two rows of one request and driver.\<close>

theorem one_offer_at_a_time:
  assumes "ledger_ok s0" and "fleet_reach s0 s"
  shows "length (outstanding r s) \<le> 1 \<and> distinct (map offer_pair (op_assignments s))"
proof -
  from assms(2) have "ledger_ok s" by induction (use assms(1) in \<open>auto intro: ledger_call\<close>)
  then show ?thesis by (simp add: ledger_ok_def one_offer_def ledger_keys_def)
qed

definition ex_reach_state :: ops where
  "ex_reach_state = after_call ex_world Sweep_offers (after_call ex_world (Run_job (ELECT ''r1'')) ex_fleet)"

lemma ex_ledger: "ledger_ok ex_fleet"
  using ex_uuid_inj by (simp add: ledger_ok_def ledger_keys_def one_offer_def outstanding_def ex_fleet_def ex_goods_def)

theorem one_offer_at_a_time_witness:
  "length (outstanding ''r1'' ex_reach_state) \<le> 1 \<and> distinct (map offer_pair (op_assignments ex_reach_state))"
  unfolding ex_reach_state_def
  by (rule one_offer_at_a_time [OF ex_ledger]) (intro fleet_reach.intros)

end
