(* ===== verification/ElectionFacts.thy ===== *)
theory ElectionFacts
  imports FleetLedger FleetExample
begin

text \<open>
  What an election does, what a cancellation withdraws, and what stays of a refused driver.
\<close>

section \<open>The election\<close>

text \<open>No tour under way takes the request.\<close>

definition no_merge :: "fleet_world \<Rightarrow> dispatch_config \<Rightarrow> collection_request \<Rightarrow> ops \<Rightarrow> bool" where
  "no_merge F config q s \<longleftrightarrow> cr_lat q = None \<or> cr_lng q = None
     \<or> (\<forall>r \<in> set (op_routes s). ro_status r = RT_IN_PROGRESS \<longrightarrow> merge_target F config q r s = None)"

lemma no_merge_run: "no_merge F config q s \<Longrightarrow> tryMergeRequest F config q s = (Inr None, s)"
proof -
  have "try_routes F config q rs s = (Inr None, s)" if "\<forall>r \<in> set rs. merge_target F config q r s = None" for rs
    using that by (induction rs) auto
  then show "no_merge F config q s \<Longrightarrow> tryMergeRequest F config q s = (Inr None, s)"
    by (auto simp: no_merge_def tryMergeRequest_def)
qed

definition score_of :: "fleet_world \<Rightarrow> dispatch_config \<Rightarrow> collection_request \<Rightarrow> driver_candidate \<Rightarrow> rat" where
  "score_of F config q c = driver_score F c q config (fw_fix F (cd_truckId c))"

lemma ranked_Nil: "ranked F q config pool = [] \<longleftrightarrow> pool = []"
  by (simp add: ranked_def flip: length_0_conv)

lemma ranked_best:
  assumes "ranked F q config pool = (best, sc) # rest"
  shows "best \<in> set pool" and "sc = score_of F config q best" and "\<forall>c \<in> set pool. score_of F config q c \<le> sc"
proof -
  let ?f = "\<lambda>c. (c, score_of F config q c)"
  have r: "sort_key (\<lambda>x. - snd x) (map ?f pool) = (best, sc) # rest" using assms by (simp add: ranked_def score_of_def)
  then have "(best, sc) \<in> set (sort_key (\<lambda>x. - snd x) (map ?f pool))" by simp
  then show "best \<in> set pool" "sc = score_of F config q best" by auto
  have "sorted (map (\<lambda>x. - snd x) ((best, sc) # rest))" using r by (metis sorted_sort_key)
  then have least: "\<forall>x \<in> set ((best, sc) # rest). snd x \<le> sc" by auto
  moreover have "set ((best, sc) # rest) = ?f ` set pool" using r by (metis set_map set_sort)
  ultimately show "\<forall>c \<in> set pool. score_of F config q c \<le> sc" by (metis image_eqI snd_conv)
qed

lemma eligible_iff:
  "c \<in> set (findEligible F q ds allowBusy s) \<longleftrightarrow> (\<exists>d \<in> set (op_drivers s). c = candidate_of F s d \<and> on_duty F s d
     \<and> (ds = [] \<or> dp_id d \<in> set ds) \<and> (allowBusy \<or> \<not> busy (dp_id d) s) \<and> passesCapacity q c)"
  by (auto simp: findEligible_def)

definition offered_row :: "fleet_world \<Rightarrow> dispatch_config \<Rightarrow> collection_request \<Rightarrow> driver_candidate \<Rightarrow> ident \<Rightarrow> request_assignment" where
  "offered_row F config q c i = \<lparr>ca_id = i, ca_requestId = cr_id q, ca_driverId = cd_driverId c, ca_status = CA_OFFERED,
     ca_score = Some (round2 (score_of F config q c)), ca_offerExpiresAt = Some (fw_now F + cf_acceptWindowSec config * 1000),
     ca_respondedAt = None\<rparr>"

definition next_id :: "ops \<Rightarrow> ident" where
  "next_id s = db_uuid (op_shop s) (db_next (op_shop s))"

definition id_taken :: "ops \<Rightarrow> ops" where
  "id_taken s = s\<lparr>op_shop := (op_shop s)\<lparr>db_next := db_next (op_shop s) + 1\<rparr>\<rparr>"

text \<open>The ids of the requests were all handed out before.\<close>

definition request_ids_ok :: "ops \<Rightarrow> bool" where
  "request_ids_ok s \<longleftrightarrow> inj (db_uuid (op_shop s)) \<and> (\<forall>i. db_uuid (op_shop s) i \<in> cr_id ` set (op_requests s) \<longrightarrow> i < db_next (op_shop s))"

lemma new_id_run [simp]: "new_id s = (Inr (next_id s), id_taken s)"
  by (simp add: new_id_def on_shop_def fresh_id_def next_id_def id_taken_def)

lemma bind_new_id [simp]: "bind new_id f s = f (next_id s) (id_taken s)"
  by (rule bind_Inr) simp

lemma id_taken_simps [simp]:
  "op_requests (id_taken s) = op_requests s" "op_assignments (id_taken s) = op_assignments s" "op_routes (id_taken s) = op_routes s"
  "op_shipments (id_taken s) = op_shipments s" "op_drivers (id_taken s) = op_drivers s" "op_lines (id_taken s) = op_lines s"
  "op_trucks (id_taken s) = op_trucks s" "op_truckAssignments (id_taken s) = op_truckAssignments s"
  "op_handovers (id_taken s) = op_handovers s" "op_plans (id_taken s) = op_plans s" "op_planLines (id_taken s) = op_planLines s"
  "op_coverage (id_taken s) = op_coverage s" "op_points (id_taken s) = op_points s" "op_config (id_taken s) = op_config s"
  by (simp_all add: id_taken_def)

lemma pair_taken: "list_ex (\<lambda>b. ca_requestId b = r \<and> ca_driverId b = d) xs \<longleftrightarrow> (r, d) \<in> offer_pair ` set xs"
  by (force simp: list_ex_iff offer_pair_def)

lemma offer_run:
  "offer F config q c (score_of F config q c) s =
     (if (cr_id q, cd_driverId c) \<in> offer_pair ` set (op_assignments s) then (Inl Crash, id_taken s)
      else (Inr (), id_taken s\<lparr>op_assignments := op_assignments s @ [offered_row F config q c (next_id s)]\<rparr>))"
  by (auto simp: offer_def new_offer_def insert_assignment_def bind_assoc Let_def offered_row_def pair_taken)

text \<open>C33: an election for a request that is due, with no offer out and no tour to join, offers it to one of
  the best-scored drivers among those on duty, not in the middle of a pickup and with room for the
  load, until the acceptance window is over; when there is none the request is handed to the
  administrator.  If the best driver already answered an earlier offer of this request the insert
  violates the uniqueness of the ledger: nothing is offered and the request stays queued.\<close>

theorem elect_offers_best:
  assumes q: "find_request r s = Some q" "cr_status q = Q_QUEUED"
    and config: "op_config s = Some config" "cf_isEnabled config" "\<not> too_early F config q"
    and none: "outstanding r s = []" and merge: "no_merge F config q s"
  shows "if findEligible F q [] False s = []
    then elect F r s = (Inr (), s\<lparr>op_requests := tbl_save cr_id (q\<lparr>cr_status := Q_NEEDS_ADMIN\<rparr>) (op_requests s)\<rparr>)
    else \<exists>d \<in> set (op_drivers s). let c = candidate_of F s d in
        on_duty F s d \<and> \<not> busy (dp_id d) s \<and> passesCapacity q c
      \<and> (\<forall>c' \<in> set (findEligible F q [] False s). score_of F config q c' \<le> score_of F config q c)
      \<and> elect F r s = (if (r, dp_id d) \<in> offer_pair ` set (op_assignments s) then (Inl Crash, id_taken s)
          else (Inr (), id_taken s\<lparr>op_assignments := op_assignments s @ [offered_row F config q c (next_id s)]\<rparr>))"
proof -
  let ?pool = "findEligible F q [] False s"
  have r: "cr_id q = r" using q(1) by (auto simp: find_request_def dest: tbl_find_SomeD)
  have run: "elect F r s = (case ranked F q config ?pool of [] \<Rightarrow> needsAdmin F q | (best, sc) # _ \<Rightarrow> offer F config q best sc) s"
    using q config none
    by (simp add: elect_def get_config_def bind_assoc bind_Inr [where m = "tryMergeRequest F config q", OF no_merge_run [OF merge]])
  show ?thesis
  proof (cases "?pool = []")
    case True
    then show ?thesis
      using q run by (simp add: ranked_Nil [THEN iffD2] needsAdmin_def applyRequestStatus_def canTransitionRequest_def
        stampRequest_def save_request_def)
  next
    case False
    then obtain best sc rest where top: "ranked F q config ?pool = (best, sc) # rest"
      by (metis ranked_Nil list.exhaust surj_pair)
    note best = ranked_best [OF top]
    obtain d where d: "d \<in> set (op_drivers s)" "best = candidate_of F s d" "on_duty F s d" "\<not> busy (dp_id d) s" "passesCapacity q best"
      using best(1) unfolding eligible_iff by auto
    have "cd_driverId best = dp_id d" by (simp add: d(2) candidate_of_def Let_def)
    then have "elect F r s = (if (r, dp_id d) \<in> offer_pair ` set (op_assignments s) then (Inl Crash, id_taken s)
        else (Inr (), id_taken s\<lparr>op_assignments := op_assignments s @ [offered_row F config q best (next_id s)]\<rparr>))"
      using offer_run [of F config q best s] by (simp add: run top best(2) r)
    then show ?thesis using False best(2,3) d by (auto simp: Let_def)
  qed
qed

theorem elect_offers_best_witness:
  "elect ex_world ''r1'' ex_fleet = (Inr (), id_taken ex_fleet\<lparr>op_assignments :=
     [offered_row ex_world ex_config (ex_request ''r1'' Q_QUEUED) (candidate_of ex_world ex_fleet ex_driver) (next_id ex_fleet)]\<rparr>)"
proof -
  have found: "find_request ''r1'' ex_fleet = Some (ex_request ''r1'' Q_QUEUED)" "cr_status (ex_request ''r1'' Q_QUEUED) = Q_QUEUED"
    "op_config ex_fleet = Some ex_config" "cf_isEnabled ex_config" "\<not> too_early ex_world ex_config (ex_request ''r1'' Q_QUEUED)"
    "outstanding ''r1'' ex_fleet = []" "no_merge ex_world ex_config (ex_request ''r1'' Q_QUEUED) ex_fleet"
    by (simp_all add: find_request_def ex_fleet_def ex_request_def blank_request_def ex_config_def too_early_def outstanding_def no_merge_def)
  have "op_drivers ex_fleet = [ex_driver]" "op_assignments ex_fleet = []" by (simp_all add: ex_fleet_def)
  then show ?thesis using elect_offers_best [OF found] by (simp add: ex_eligible Let_def)
qed

lemma find_any: "find (\<lambda>_. True) xs = Some x \<Longrightarrow> x \<in> set xs"
  by (cases xs) auto

lemma insert_lines_run:
  "\<exists>n L. db_next (op_shop s) \<le> n
     \<and> for_each ls (insert_line i f) s = (Inr (), s\<lparr>op_shop := (op_shop s)\<lparr>db_next := n\<rparr>, op_lines := L\<rparr>)"
proof (induction ls arbitrary: s)
  case Nil
  show ?case by (intro exI [of _ "db_next (op_shop s)"] exI [of _ "op_lines s"]) simp
next
  case (Cons l ls)
  obtain L1 where one: "insert_line i f l s = (Inr (), s\<lparr>op_shop := (op_shop s)\<lparr>db_next := db_next (op_shop s) + 1\<rparr>, op_lines := L1\<rparr>)"
    by (simp add: insert_line_def save_line_row_def id_taken_def)
  obtain n L where "db_next (op_shop s) + 1 \<le> n" "for_each ls (insert_line i f) (s\<lparr>op_shop := (op_shop s)\<lparr>db_next := db_next (op_shop s) + 1\<rparr>, op_lines := L1\<rparr>)
      = (Inr (), s\<lparr>op_shop := (op_shop s)\<lparr>db_next := n\<rparr>, op_lines := L\<rparr>)"
    using Cons.IH [of "s\<lparr>op_shop := (op_shop s)\<lparr>db_next := db_next (op_shop s) + 1\<rparr>, op_lines := L1\<rparr>"] by auto
  then show ?case
    by (intro exI [of _ n] exI [of _ L]) (simp add: bind_Inr [where m = "insert_line i f l", OF one])
qed

section \<open>Cancelling\<close>

lemma filter_save_other:
  "\<not> P r \<Longrightarrow> (\<And>x. x \<in> set xs \<Longrightarrow> key x = key r \<Longrightarrow> \<not> P x) \<Longrightarrow> filter P (tbl_save key r xs) = filter P xs"
  by (induction xs) auto

lemma withdraw_run:
  assumes "ca_status a = CA_OFFERED"
  shows "withdraw F a s = (Inr (), s\<lparr>op_assignments := tbl_save ca_id
    (a\<lparr>ca_status := CA_WITHDRAWN, ca_respondedAt := Some (fw_now F)\<rparr>) (op_assignments s)\<rparr>)"
  using assms by (simp add: withdraw_def applyAssignmentStatus_def canTransitionAssignment_def save_assignment_def)

definition cancelled_request :: "fleet_world \<Rightarrow> string option \<Rightarrow> collection_request \<Rightarrow> collection_request" where
  "cancelled_request F reason q = q\<lparr>cr_cancellationReason := reason, cr_status := Q_CANCELLED, cr_cancelledAt := Some (fw_now F)\<rparr>"

definition offers_withdrawn :: "fleet_world \<Rightarrow> ident \<Rightarrow> ops \<Rightarrow> ops" where
  "offers_withdrawn F r s = s\<lparr>op_assignments := fold (\<lambda>a. tbl_save ca_id
    (a\<lparr>ca_status := CA_WITHDRAWN, ca_respondedAt := Some (fw_now F)\<rparr>)) (outstanding r s) (op_assignments s)\<rparr>"

lemma withdraw_all:
  "list_all (\<lambda>a. ca_status a = CA_OFFERED) offers \<Longrightarrow> for_each offers (withdraw F) s = (Inr (), s\<lparr>op_assignments :=
     fold (\<lambda>a. tbl_save ca_id (a\<lparr>ca_status := CA_WITHDRAWN, ca_respondedAt := Some (fw_now F)\<rparr>)) offers (op_assignments s)\<rparr>)"
  by (induction offers arbitrary: s) (simp_all add: bind_Inr [OF withdraw_run])

lemma performCancel_run:
  assumes "cr_status q \<in> set PRODUCER_CANCELLABLE_STATUSES"
  shows "performCancel F q reason s = (let q' = cancelled_request F reason q; s1 = offers_withdrawn F (cr_id q) s in
    (Inr q', s1\<lparr>op_requests := tbl_save cr_id q' (op_requests s), op_events := op_events s @ [Request_cancelled (cr_id q)]\<rparr>))"
proof -
  have move: "canTransitionRequest (cr_status q) Q_CANCELLED" "cr_status q \<noteq> Q_CANCELLED"
    using assms by (auto simp: canTransitionRequest_def PRODUCER_CANCELLABLE_STATUSES_def)
  have offers: "for_each (outstanding (cr_id q) s) (withdraw F) s = (Inr (), offers_withdrawn F (cr_id q) s)"
    unfolding offers_withdrawn_def by (rule withdraw_all) (simp add: outstanding_def list_all_iff)
  show ?thesis
    using assms move
    by (simp add: performCancel_def bind_Inr [where m = "for_each (outstanding (cr_id q) s) (withdraw F)", OF offers] applyRequestStatus_def stampRequest_def save_request_def emit_def
      cancelled_request_def Let_def) (simp add: offers_withdrawn_def)
qed

lemma none_left:
  assumes ok: "ledger_ok s"
  shows "outstanding r (offers_withdrawn F r s) = []" and "r' \<noteq> r \<Longrightarrow> outstanding r' (offers_withdrawn F r s) = outstanding r' s"
proof -
  have d: "distinct (map ca_id (op_assignments s))" using ok by (simp add: ledger_ok_def ledger_keys_def)
  have "outstanding r (offers_withdrawn F r s) = [] \<and> (r' \<noteq> r \<longrightarrow> outstanding r' (offers_withdrawn F r s) = outstanding r' s)"
  proof (cases "outstanding r s")
    case Nil
    then show ?thesis by (simp add: offers_withdrawn_def)
  next
    case (Cons a as)
    moreover have "length (outstanding r s) \<le> 1" using ok by (simp add: ledger_ok_def one_offer_def)
    ultimately have one: "outstanding r s = [a]" by simp
    let ?a = "a\<lparr>ca_status := CA_WITHDRAWN, ca_respondedAt := Some (fw_now F)\<rparr>"
    have s1: "op_assignments (offers_withdrawn F r s) = tbl_save ca_id ?a (op_assignments s)" by (simp add: offers_withdrawn_def one)
    have mine: "b = a" if "b \<in> set (op_assignments s)" "ca_requestId b = r" "ca_status b = CA_OFFERED" for b
    proof -
      have "b \<in> set (outstanding r s)" using that by (simp add: outstanding_def)
      then show ?thesis by (simp add: one)
    qed
    have a: "a \<in> set (op_assignments s)" "ca_requestId a = r"
      using one by (auto simp: outstanding_def filter_eq_Cons_iff)
    then have same: "b = a" if "b \<in> set (op_assignments s)" "ca_id b = ca_id ?a" for b
      using that d by (auto simp: distinct_map inj_on_def)
    have "outstanding r (offers_withdrawn F r s) = []"
      unfolding outstanding_def s1 filter_empty_conv using mine by (auto simp: set_tbl_save [OF d])
    moreover have "outstanding r' (offers_withdrawn F r s) = outstanding r' s" if "r' \<noteq> r"
      unfolding outstanding_def s1 by (rule filter_save_other) (use same a that in auto)
    ultimately show ?thesis by blast
  qed
  then show "outstanding r (offers_withdrawn F r s) = []" "r' \<noteq> r \<Longrightarrow> outstanding r' (offers_withdrawn F r s) = outstanding r' s" by auto
qed



end
