(* ===== verification/PlanFacts.thy ===== *)
theory PlanFacts
  imports ElectionFacts
begin

text \<open>
  The nightly generator: a due plan is served once a day however often the job runs, and what an
  update of a plan can lose.
\<close>

section \<open>One plan\<close>

definition lines_for :: "fleet_world \<Rightarrow> collection_plan \<Rightarrow> ops \<Rightarrow> buildable_line list" where
  "lines_for F p s = List.map_filter (plan_request_line F s p) (plan_lines (pl_id p) s)"

text \<open>Another id handed out changes no price.\<close>

lemma plan_request_line_next: "op_shop s' = (op_shop s)\<lparr>db_next := n\<rparr> \<Longrightarrow> plan_request_line F s' p l = plan_request_line F s p l"
  by (simp add: plan_request_line_def active_product_def weight_codes_def effectivePrice_def priceFor_def forProduct_def
    forProducts_def live_rows_def liveOfferFor_def cong: option.case_cong)

lemma lines_for_cong:
  assumes "op_shop s' = (op_shop s)\<lparr>db_next := n\<rparr>" and "op_planLines s' = op_planLines s" and "pl_id p' = pl_id p"
    and "pl_itemNote p' = pl_itemNote p"
  shows "lines_for F p' s' = lines_for F p s"
proof -
  have "plan_request_line F s' p' = plan_request_line F s p"
  proof
    fix l
    show "plan_request_line F s' p' l = plan_request_line F s p l"
      using plan_request_line_next [OF assms(1), of F p' l] assms(4) by (simp add: plan_request_line_def cong: option.case_cong)
  qed
  then show ?thesis using assms(2,3) by (simp add: lines_for_def plan_lines_def)
qed

lemma generate_run:
  assumes ids: "request_ids_ok s" and ls: "lines_for F p s \<noteq> []" and once: "\<not> served_on p d s"
  obtains n L where "generateForPlan F p d s = (Inr True, s\<lparr>op_shop := (op_shop s)\<lparr>db_next := n\<rparr>, op_lines := L,
    op_requests := op_requests s @ [plan_request F (next_id s) (request_number F s) p d (lines_for F p s)],
    op_plans := tbl_save pl_id (p\<lparr>pl_lastGeneratedDate := Some d\<rparr>) (op_plans s)\<rparr>)" and "db_next (op_shop s) < n"
proof -
  let ?q = "plan_request F (next_id s) (request_number F s) p d (lines_for F p s)"
  let ?s = "id_taken s\<lparr>op_requests := op_requests s @ [?q]\<rparr>"
  have new: "next_id s \<notin> cr_id ` set (op_requests s)" using ids by (auto simp: request_ids_ok_def next_id_def)
  have "cr_id ?q = next_id s" by (simp add: plan_request_def blank_request_def)
  then have save: "tbl_save cr_id ?q (op_requests s) = op_requests s @ [?q]" using new by (intro tbl_save_fresh) simp
  obtain n L where "db_next (op_shop ?s) \<le> n" and lines: "for_each (lines_for F p s) (insert_line (next_id s) (\<lambda>_. None)) ?s
      = (Inr (), ?s\<lparr>op_shop := (op_shop ?s)\<lparr>db_next := n\<rparr>, op_lines := L\<rparr>)" using insert_lines_run by blast
  then have n: "db_next (op_shop s) < n" by (simp add: id_taken_def)
  show thesis
  proof (rule that [OF _ n])
    show "generateForPlan F p d s = (Inr True, s\<lparr>op_shop := (op_shop s)\<lparr>db_next := n\<rparr>, op_lines := L, op_requests := op_requests s @ [?q],
      op_plans := tbl_save pl_id (p\<lparr>pl_lastGeneratedDate := Some d\<rparr>) (op_plans s)\<rparr>)"
      using ls once save
      by (simp add: generateForPlan_def lines_for_def [symmetric] save_request_def save_plan_def
        bind_Inr [where m = "for_each (lines_for F p s) (insert_line (next_id s) (\<lambda>_. None))", OF lines]) (simp add: id_taken_def)
  qed
qed

section \<open>A night\<close>

text \<open>What the loop does with one plan, as a function of the state.\<close>

definition plan_night :: "fleet_world \<Rightarrow> collection_plan \<Rightarrow> unit fleet_action" where
  "plan_night F p = (if isDue p (localDay F) then best_effort (generateForPlan F p (localDay F)) else ret ())"

definition stuck :: "fleet_world \<Rightarrow> collection_plan \<Rightarrow> ops \<Rightarrow> bool" where
  "stuck F p s \<longleftrightarrow> \<not> isDue p (localDay F) \<or> lines_for F p s = [] \<or> served_on p (localDay F) s"

lemma stuck_run: "stuck F p s \<Longrightarrow> plan_night F p s = (Inr (), s)"
  by (auto simp: stuck_def plan_night_def best_effort_def generateForPlan_def lines_for_def)

definition night_ok :: "ops \<Rightarrow> bool" where
  "night_ok s \<longleftrightarrow> request_ids_ok s \<and> distinct (map pl_id (op_plans s))"

definition night_request :: "fleet_world \<Rightarrow> collection_plan \<Rightarrow> ops \<Rightarrow> collection_request" where
  "night_request F p s = plan_request F (next_id s) (request_number F s) p (localDay F) (lines_for F p s)"

text \<open>The requests made of a plan on a day.\<close>

definition made_of :: "ident \<Rightarrow> int \<Rightarrow> ops \<Rightarrow> collection_request list" where
  "made_of i d s = filter (\<lambda>q. cr_sourcePlanId q = Some i \<and> cr_sourcePlanDate q = Some d) (op_requests s)"

lemma served_made: "served_on p d s \<longleftrightarrow> made_of (pl_id p) d s \<noteq> []"
  by (auto simp: served_on_def made_of_def list_ex_iff filter_empty_conv)

text \<open>The shop is the same but for the ids handed out, and nothing a plan needs is touched.\<close>

definition same_prices :: "ops \<Rightarrow> ops \<Rightarrow> bool" where
  "same_prices s s' \<longleftrightarrow> (\<exists>n. op_shop s' = (op_shop s)\<lparr>db_next := n\<rparr>) \<and> op_planLines s' = op_planLines s"

lemma same_lines: "same_prices s s' \<Longrightarrow> pl_id p' = pl_id p \<Longrightarrow> pl_itemNote p' = pl_itemNote p \<Longrightarrow> lines_for F p' s' = lines_for F p s"
  unfolding same_prices_def by (blast intro: lines_for_cong)

lemma same_prices_refl: "same_prices s s"
  unfolding same_prices_def by (intro conjI exI [of _ "db_next (op_shop s)"]) simp_all

lemma same_prices_trans: "same_prices s s' \<Longrightarrow> same_prices s' s'' \<Longrightarrow> same_prices s s''"
  by (auto simp: same_prices_def)

lemma night_run:
  assumes ok: "night_ok s" and p: "p \<in> set (op_plans s)" and go: "\<not> stuck F p s"
  obtains s' where "plan_night F p s = (Inr (), s')" "night_ok s'" "same_prices s s'"
    "op_requests s' = op_requests s @ [night_request F p s]"
    "op_plans s' = tbl_save pl_id (p\<lparr>pl_lastGeneratedDate := Some (localDay F)\<rparr>) (op_plans s)"
proof -
  let ?d = "localDay F" let ?q = "night_request F p s"
  have ids: "request_ids_ok s" using ok by (simp add: night_ok_def)
  have ls: "lines_for F p s \<noteq> []" "\<not> served_on p ?d s" "isDue p ?d" using go by (simp_all add: stuck_def)
  obtain n L where run: "generateForPlan F p ?d s = (Inr True, s\<lparr>op_shop := (op_shop s)\<lparr>db_next := n\<rparr>, op_lines := L,
      op_requests := op_requests s @ [?q], op_plans := tbl_save pl_id (p\<lparr>pl_lastGeneratedDate := Some ?d\<rparr>) (op_plans s)\<rparr>)"
    and n: "db_next (op_shop s) < n" unfolding night_request_def using generate_run [OF ids ls(1,2)] by metis
  let ?s = "s\<lparr>op_shop := (op_shop s)\<lparr>db_next := n\<rparr>, op_lines := L,
      op_requests := op_requests s @ [?q], op_plans := tbl_save pl_id (p\<lparr>pl_lastGeneratedDate := Some ?d\<rparr>) (op_plans s)\<rparr>"
  have "plan_night F p s = (Inr (), ?s)" using ls(3) run by (simp add: plan_night_def best_effort_def)
  moreover have "cr_id ?q = db_uuid (op_shop s) (db_next (op_shop s))"
    by (simp add: night_request_def plan_request_def blank_request_def next_id_def)
  then have "request_ids_ok ?s" using ids n by (auto simp: request_ids_ok_def dest: injD)
  then have "night_ok ?s" using ok by (simp add: night_ok_def distinct_tbl_save)
  moreover have "same_prices s ?s" unfolding same_prices_def by (intro conjI exI [of _ n]) simp_all
  ultimately show thesis by (rule that) simp_all
qed

lemma made_of_append: "op_requests s' = op_requests s @ [q] \<Longrightarrow> made_of i d s' = made_of i d s
    @ (if cr_sourcePlanId q = Some i \<and> cr_sourcePlanDate q = Some d then [q] else [])"
  by (simp add: made_of_def)

lemma night_request_source: "cr_sourcePlanId (night_request F p s) = Some (pl_id p)" "cr_sourcePlanDate (night_request F p s) = Some (localDay F)"
  by (simp_all add: night_request_def plan_request_def)

text \<open>The whole night: every plan ends up stuck, and one that was not has got its request.\<close>

definition same_plan :: "collection_plan \<Rightarrow> collection_plan \<Rightarrow> bool" where
  "same_plan p p' \<longleftrightarrow> (\<exists>g. p' = p\<lparr>pl_lastGeneratedDate := g\<rparr>)"

lemma whole_night:
  assumes "night_ok s" and "set ps \<subseteq> set (op_plans s)" and "distinct (map pl_id ps)"
  shows "\<exists>s'. for_each ps (plan_night F) s = (Inr (), s') \<and> night_ok s' \<and> same_prices s s'
    \<and> map pl_id (op_plans s') = map pl_id (op_plans s)
    \<and> (\<forall>p' \<in> set (op_plans s'). \<exists>p \<in> set (op_plans s). pl_isActive p' = pl_isActive p \<and> pl_id p' = pl_id p
        \<and> (p' = p \<or> p \<in> set ps \<and> \<not> isDue p' (localDay F)))
    \<and> (\<forall>i. i \<notin> pl_id ` set ps \<longrightarrow> made_of i (localDay F) s' = made_of i (localDay F) s)
    \<and> (\<forall>p \<in> set ps. if stuck F p s then made_of (pl_id p) (localDay F) s' = made_of (pl_id p) (localDay F) s
         else \<exists>s1. same_prices s s1 \<and> made_of (pl_id p) (localDay F) s' = [night_request F p s1])"
  using assms
proof (induction ps arbitrary: s)
  case Nil
  then show ?case by (auto intro: same_prices_refl)
next
  case (Cons p ps)
  let ?d = "localDay F"
  have p: "p \<in> set (op_plans s)" and ps: "set ps \<subseteq> set (op_plans s)" "distinct (map pl_id ps)" "pl_id p \<notin> pl_id ` set ps"
    using Cons.prems by auto
  obtain s1 where one: "plan_night F p s = (Inr (), s1)" "night_ok s1" "same_prices s s1"
      "map pl_id (op_plans s1) = map pl_id (op_plans s)"
      "\<forall>x \<in> set (op_plans s1). x \<in> set (op_plans s) \<or> x = p\<lparr>pl_lastGeneratedDate := Some ?d\<rparr>"
      "set ps \<subseteq> set (op_plans s1)" "\<forall>i. i \<noteq> pl_id p \<longrightarrow> made_of i ?d s1 = made_of i ?d s"
      "if stuck F p s then made_of (pl_id p) ?d s1 = made_of (pl_id p) ?d s else made_of (pl_id p) ?d s1 = [night_request F p s]"
  proof (cases "stuck F p s")
    case True
    then show thesis using that [of s] stuck_run [OF True] Cons.prems by (simp add: same_prices_refl)
  next
    case False
    obtain s' where s': "plan_night F p s = (Inr (), s')" "night_ok s'" "same_prices s s'"
      "op_requests s' = op_requests s @ [night_request F p s]"
      "op_plans s' = tbl_save pl_id (p\<lparr>pl_lastGeneratedDate := Some ?d\<rparr>) (op_plans s)"
      by (rule night_run [OF Cons.prems(1) p False])
    have d: "distinct (map pl_id (op_plans s))" using Cons.prems(1) by (simp add: night_ok_def)
    have "pl_id x \<noteq> pl_id p" if "x \<in> set ps" for x using ps(3) that by (metis imageI)
    then have "set ps \<subseteq> set (op_plans s')" using ps(1) by (auto simp: s'(5) set_tbl_save [OF d])
    moreover have "map pl_id (op_plans s') = map pl_id (op_plans s)" using p by (simp add: s'(5) keys_tbl_save)
    moreover have "made_of (pl_id p) ?d s = []" using False by (simp add: stuck_def served_made)
    ultimately show thesis
      using that [OF s'(1-3)] made_of_append [OF s'(4)] False
      by (auto simp: night_request_source s'(5) dest: subsetD [OF set_tbl_save_subset])
  qed
  obtain s' where rest: "for_each ps (plan_night F) s1 = (Inr (), s')" "night_ok s'" "same_prices s1 s'"
      "map pl_id (op_plans s') = map pl_id (op_plans s1)"
      "\<forall>p' \<in> set (op_plans s'). \<exists>p \<in> set (op_plans s1). pl_isActive p' = pl_isActive p \<and> pl_id p' = pl_id p
        \<and> (p' = p \<or> p \<in> set ps \<and> \<not> isDue p' ?d)"
      "\<forall>i. i \<notin> pl_id ` set ps \<longrightarrow> made_of i ?d s' = made_of i ?d s1"
      "\<forall>p \<in> set ps. if stuck F p s1 then made_of (pl_id p) ?d s' = made_of (pl_id p) ?d s1
         else \<exists>s2. same_prices s1 s2 \<and> made_of (pl_id p) ?d s' = [night_request F p s2]"
    using Cons.IH [OF one(2,6) ps(2)] by (elim exE conjE) (rule that)
  have run: "for_each (p # ps) (plan_night F) s = (Inr (), s')" using one(1) rest(1) by (simp add: bind_Inr)
  have prices: "same_prices s s'" by (rule same_prices_trans [OF one(3) rest(3)])
  have keys: "map pl_id (op_plans s') = map pl_id (op_plans s)" using rest(4) one(4) by simp
  have others: "\<forall>i. i \<notin> pl_id ` set (p # ps) \<longrightarrow> made_of i ?d s' = made_of i ?d s" using rest(6) one(7) by simp
  have rows: "\<exists>x \<in> set (op_plans s). pl_isActive p' = pl_isActive x \<and> pl_id p' = pl_id x
      \<and> (p' = x \<or> x \<in> set (p # ps) \<and> \<not> isDue p' ?d)" if "p' \<in> set (op_plans s')" for p'
  proof -
    note mem = that
    obtain x where x: "x \<in> set (op_plans s1)" "pl_isActive p' = pl_isActive x" "pl_id p' = pl_id x"
        "p' = x \<or> x \<in> set ps \<and> \<not> isDue p' ?d" using bspec [OF rest(5) mem] by (elim bexE conjE) (rule that)
    show ?thesis
    proof (cases "x \<in> set (op_plans s)")
      case True
      then show ?thesis using x by auto
    next
      case False
      then have "x = p\<lparr>pl_lastGeneratedDate := Some ?d\<rparr>" using one(5) x(1) by blast
      then have "pl_isActive x = pl_isActive p" "pl_id x = pl_id p" "\<not> isDue x ?d" by (simp_all add: isDue_def)
      then show ?thesis using x(2-4) by (intro bexI [OF _ p]) auto
    qed
  qed
  have made: "if stuck F x s then made_of (pl_id x) ?d s' = made_of (pl_id x) ?d s
      else \<exists>s2. same_prices s s2 \<and> made_of (pl_id x) ?d s' = [night_request F x s2]" if "x \<in> set (p # ps)" for x
  proof (cases "x = p")
    case True
    then have "made_of (pl_id x) ?d s' = made_of (pl_id p) ?d s1" using rest(6) ps(3) by simp
    then show ?thesis using one(8) True same_prices_refl [of s] by auto
  next
    case False
    then have x: "x \<in> set ps" using that by simp
    then have "pl_id x \<in> pl_id ` set ps" by (rule imageI)
    then have other: "pl_id x \<noteq> pl_id p" using ps(3) by auto
    then have same: "made_of (pl_id x) ?d s1 = made_of (pl_id x) ?d s" using one(7) other by blast
    have "stuck F x s1 = stuck F x s"
      by (simp add: stuck_def served_made same same_lines [OF one(3), of x x])
    then show ?thesis using rest(7) x same same_prices_trans [OF one(3)] by (auto split: if_splits)
  qed
  show ?case using run rest(2) prices keys others rows made by blast
qed

lemma nothing_to_do: "\<forall>p \<in> set ps. stuck F p s \<Longrightarrow> for_each ps (plan_night F) s = (Inr (), s)"
  by (induction ps) (simp_all add: bind_Inr [where m = "plan_night F _", OF stuck_run])

text \<open>C35: the nightly job makes, for every active plan that is due and has a material with a price, the one
  request of the day, priced as of that night; a plan that already has its request gets no second one,
  and running the job again the same day changes nothing.\<close>

theorem generator_once_a_day:
  assumes ok: "night_ok s"
  shows "\<exists>s'. generateDueRequests F s = (Inr (), s') \<and> generateDueRequests F s' = (Inr (), s')
    \<and> (\<forall>p \<in> set (op_plans s). if made_of (pl_id p) (localDay F) s \<noteq> []
         then made_of (pl_id p) (localDay F) s' = made_of (pl_id p) (localDay F) s
         else if pl_isActive p \<and> isDue p (localDay F) \<and> lines_for F p s \<noteq> []
         then \<exists>i n. made_of (pl_id p) (localDay F) s' = [plan_request F i n p (localDay F) (lines_for F p s)]
         else made_of (pl_id p) (localDay F) s' = [])"
proof -
  let ?d = "localDay F" let ?ps = "filter pl_isActive (op_plans s)"
  have job: "generateDueRequests F t = for_each (filter pl_isActive (op_plans t)) (plan_night F) t" for t
    by (simp add: generateDueRequests_def plan_night_def [abs_def])
  have d: "distinct (map pl_id (op_plans s))" "distinct (map pl_id ?ps)"
    using ok by (simp_all add: night_ok_def distinct_map_filter)
  obtain s' where s': "for_each ?ps (plan_night F) s = (Inr (), s')" "same_prices s s'"
      "\<forall>p' \<in> set (op_plans s'). \<exists>p \<in> set (op_plans s). pl_isActive p' = pl_isActive p \<and> pl_id p' = pl_id p
        \<and> (p' = p \<or> p \<in> set ?ps \<and> \<not> isDue p' ?d)"
      "\<forall>i. i \<notin> pl_id ` set ?ps \<longrightarrow> made_of i ?d s' = made_of i ?d s"
      "\<forall>p \<in> set ?ps. if stuck F p s then made_of (pl_id p) ?d s' = made_of (pl_id p) ?d s
         else \<exists>s1. same_prices s s1 \<and> made_of (pl_id p) ?d s' = [night_request F p s1]"
    using whole_night [OF ok filter_is_subset d(2), of F] by (elim exE conjE) (rule that)
  have "stuck F p' s'" if "p' \<in> set (op_plans s')" "pl_isActive p'" for p'
  proof -
    note mem = that
    obtain p where p: "p \<in> set (op_plans s)" "pl_isActive p" "p' = p \<or> \<not> isDue p' ?d"
      using bspec [OF s'(3) mem(1)] mem(2) by auto
    show ?thesis
    proof (cases "isDue p' ?d")
      case True
      then have "p' = p" "p \<in> set ?ps" using p by auto
      then show ?thesis
        using s'(5) by (cases "stuck F p s") (auto simp: stuck_def served_made same_lines [OF s'(2), of p p])
    qed (simp add: stuck_def)
  qed
  then have again: "generateDueRequests F s' = (Inr (), s')" unfolding job by (intro nothing_to_do) simp
  have made: "if made_of (pl_id p) ?d s \<noteq> [] then made_of (pl_id p) ?d s' = made_of (pl_id p) ?d s
      else if pl_isActive p \<and> isDue p ?d \<and> lines_for F p s \<noteq> []
      then \<exists>i n. made_of (pl_id p) ?d s' = [plan_request F i n p ?d (lines_for F p s)]
      else made_of (pl_id p) ?d s' = []" if p: "p \<in> set (op_plans s)" for p
  proof (cases "pl_isActive p")
    case True
    then have "p \<in> set ?ps" using p by simp
    with s'(5) have "if stuck F p s then made_of (pl_id p) ?d s' = made_of (pl_id p) ?d s
         else \<exists>s1. same_prices s s1 \<and> made_of (pl_id p) ?d s' = [night_request F p s1]" by blast
    then have made: "if stuck F p s then made_of (pl_id p) ?d s' = made_of (pl_id p) ?d s
         else \<exists>i n. made_of (pl_id p) ?d s' = [plan_request F i n p ?d (lines_for F p s)]"
      unfolding night_request_def by (metis same_lines)
    show ?thesis
    proof (cases "stuck F p s")
      case True
      then show ?thesis using made by (auto simp: stuck_def served_made)
    next
      case False
      then show ?thesis using made True by (auto simp: stuck_def served_made)
    qed
  next
    case False
    have "pl_id p \<notin> pl_id ` set ?ps" using p False d(1) by (auto simp: distinct_map inj_on_def)
    then show ?thesis using s'(4) False by simp
  qed
  show ?thesis using s'(1) again made unfolding job by blast
qed

definition ex_plan :: collection_plan where
  "ex_plan = \<lparr>pl_id = ''pl1'', pl_accountId = ''acc'', pl_name = ''P'', pl_frequency = DAILY_PLAN, pl_weekdays = None,
     pl_monthDays = None, pl_collectionTime = 36000, pl_startDate = None, pl_endDate = None, pl_isActive = True,
     pl_itemNote = None, pl_lat = None, pl_lng = None, pl_addressText = None, pl_contactName = None,
     pl_contactPhone = None, pl_lastGeneratedDate = None\<rparr>"

definition ex_planned :: ops where
  "ex_planned = ex_fleet\<lparr>op_plans := [ex_plan], op_planLines := [\<lparr>pn_id = ''n1'', pn_planId = ''pl1'',
     pn_productId = ''copper'', pn_productName = ''Copper'', pn_unitType = ''KG'', pn_quantity = 3\<rparr>]\<rparr>"

lemma ex_planned_ok: "night_ok ex_planned"
proof -
  have "db_uuid ex_store i \<noteq> ''r1''" for i by (cases i) (simp_all add: ex_store_def)
  then show ?thesis
    using ex_uuid_inj by (simp add: night_ok_def request_ids_ok_def ex_planned_def ex_fleet_def ex_goods_def ex_request_def blank_request_def)
qed

lemma ex_plan_lines: "lines_for ex_world ex_plan ex_planned \<noteq> []"
proof -
  have "plan_lines ''pl1'' ex_planned = op_planLines ex_planned" by (simp add: plan_lines_def ex_planned_def)
  moreover have "active_product ''copper'' (op_shop ex_planned) = Some (hd (db_products ex_goods))"
    by (simp add: active_product_def ex_planned_def ex_fleet_def ex_goods_def)
  moreover have "effectivePrice (fw_shop ex_world) ''copper'' INSTITUTIONS None (op_shop ex_planned) \<noteq> None"
  proof -
    have "op_shop ex_planned = ex_goods" "fw_shop ex_world = ex_clock" by (simp_all add: ex_planned_def ex_fleet_def ex_world_def)
    moreover have "priceFor ex_clock ''copper'' COMPANY None ex_goods = Some 5" by code_simp
    ultimately show ?thesis by (simp add: effectivePrice_def Let_def)
  qed
  ultimately show ?thesis
    by (auto simp: lines_for_def ex_plan_def ex_planned_def plan_request_line_def ex_goods_def List.map_filter_def split: option.splits)
qed

theorem generator_once_a_day_witness:
  "\<exists>i n. made_of ''pl1'' (localDay ex_world) (snd (generateDueRequests ex_world ex_planned))
     = [plan_request ex_world i n ex_plan (localDay ex_world) (lines_for ex_world ex_plan ex_planned)]"
proof -
  have p: "ex_plan \<in> set (op_plans ex_planned)" "pl_id ex_plan = ''pl1''" "pl_isActive ex_plan" "isDue ex_plan (localDay ex_world)"
    "made_of ''pl1'' (localDay ex_world) ex_planned = []"
    by (simp_all add: ex_planned_def ex_plan_def isDue_def made_of_def ex_fleet_def ex_request_def blank_request_def)
  obtain s' where s': "generateDueRequests ex_world ex_planned = (Inr (), s')"
    "if made_of (pl_id ex_plan) (localDay ex_world) ex_planned \<noteq> []
         then made_of (pl_id ex_plan) (localDay ex_world) s' = made_of (pl_id ex_plan) (localDay ex_world) ex_planned
         else if pl_isActive ex_plan \<and> isDue ex_plan (localDay ex_world) \<and> lines_for ex_world ex_plan ex_planned \<noteq> []
         then \<exists>i n. made_of (pl_id ex_plan) (localDay ex_world) s'
           = [plan_request ex_world i n ex_plan (localDay ex_world) (lines_for ex_world ex_plan ex_planned)]
         else made_of (pl_id ex_plan) (localDay ex_world) s' = []"
    using generator_once_a_day [OF ex_planned_ok, of ex_world] p(1) by blast
  then show ?thesis using p ex_plan_lines by simp
qed

section \<open>What a plan can lose\<close>

text \<open>The requests of the night are created and nothing tells the dispatch about them.\<close>

lemma generator_queues_nothing:
  "op_queue (snd (generateDueRequests F s)) = op_queue s \<and> op_events (snd (generateDueRequests F s)) = op_events s"
proof -
  let ?I = "\<lambda>t. op_queue t = op_queue s \<and> op_events t = op_events s"
  have new: "keeps ?I new_id" by (simp add: keeps_def id_taken_def)
  have saves: "keeps ?I (save_request q)" "keeps ?I (save_line_row l)" "keeps ?I (save_plan p)" for q l p
    unfolding save_request_def save_line_row_def save_plan_def by (rule keeps_writes_if, simp)+
  have line: "keeps ?I (insert_line i f l)" for i f l unfolding insert_line_def by (intro keeps_rules new saves)
  have "keeps ?I (generateDueRequests F)"
    unfolding generateDueRequests_def generateForPlan_def by (intro keeps_rules new saves line)
  then show ?thesis by (simp add: keeps_def)
qed

text \<open>A scheduled request is queued before its event is handled, so its window is never set.\<close>

lemma queued_request_gets_no_window:
  assumes "find_request r s = Some q" and "cr_type q \<noteq> IMMEDIATE" and "cr_status q = Q_QUEUED"
  shows "handleQueued F r s = (Inr (), s)"
  using assms by (auto simp: handleQueued_def best_effort_def scheduleWindow_def split: option.splits)

text \<open>An update with a material that is not for sale fails after the old lines are gone.\<close>

lemma failed_update_drops_lines:
  assumes p: "tbl_find pl_id i (op_plans s) = Some p" "pl_accountId p = c" and f: "pp_frequency dto = None"
    and ls: "pp_lines dto = Some [(product, quantity)]" "active_product product (op_shop s) = None"
  shows "plan_update c i dto s = (Inl NotFound, s\<lparr>op_planLines := filter (\<lambda>l. pn_planId l \<noteq> i) (op_planLines s)\<rparr>)"
  using p ls by (simp add: plan_update_def plan_owned_def f bind_assoc buildLines_def plan_line_of_def bind_def)

text \<open>A weekly plan may be left without a weekday, and then is never due.\<close>

lemma weekly_plan_without_days:
  assumes p: "tbl_find pl_id i (op_plans s) = Some p" "pl_accountId p = c" "pl_frequency p = WEEKLY_PLAN"
    and dto: "pp_frequency dto = None" "pp_weekdays dto = Some (Some [])" "pp_lines dto = None"
  shows "fst (plan_update c i dto s) = Inr (patched dto p)" and "\<not> isDue (patched dto p) day"
  using p dto
  by (simp_all add: plan_update_def plan_owned_def bind_assoc save_plan_def or_else_def Let_def)
    (simp add: patched_def isDue_def or_else_def)

end
