(* ===== verification/TourFacts.thy ===== *)
theory TourFacts
  imports ElectionFacts
begin

text \<open>
  What a truck is asked to carry, what closing a shipment does to its requests, and how idle drivers
  are spread over the coverage points.
\<close>

section \<open>Walk-ins stay within the payload\<close>

lemma build_line_same: "build_line F r l s = (res, s') \<Longrightarrow> s' = s"
  by (auto simp: build_line_def split: option.splits)

lemma build_line_weight: "build_line F r l s = (Inr b, s') \<Longrightarrow> milli (bl_weightKg b)"
  by (auto simp: build_line_def estimateWeightKg_def split: option.splits if_splits)

lemma build_lines_run:
  assumes "build_lines F r ls s = (Inr bs, s')"
  shows "s' = s" and "\<forall>b \<in> set bs. milli (bl_weightKg b)"
proof -
  have "s' = s \<and> (\<forall>b \<in> set bs. milli (bl_weightKg b))" if "collect ls (build_line F r) s = (Inr bs, s')" for ls bs s'
    using that
  proof (induction ls arbitrary: bs s')
    case (Cons l ls)
    then obtain b bs' s1 s2 where "build_line F r l s = (Inr b, s1)" "collect ls (build_line F r) s1 = (Inr bs', s2)"
      "bs = b # bs'" "s' = s2" by (auto simp: bind_Inr_iff)
    then show ?case using Cons.IH build_line_same build_line_weight by fastforce
  qed simp
  then show "s' = s" "\<forall>b \<in> set bs. milli (bl_weightKg b)"
    using assms by (auto simp: build_lines_def split: if_splits)
qed

lemma total_weight_sum: "\<forall>b \<in> set bs. milli (bl_weightKg b) \<Longrightarrow> total_weight bs = sum_list (map bl_weightKg bs)"
  unfolding total_weight_def by (intro round3_milli milli_sum_list) simp

lemma walk_in_checks_run:
  assumes "walk_in_checks F d p ls s = (Inr bs, s')" and "truck_of_driver d s = Some tk" and "tk_maxPayloadKg tk = Some maxKg"
    and "0 < maxKg"
  shows "s' = s" and "driverCurrentWeight d s + total_weight bs \<le> maxKg"
proof -
  obtain dr where "build_lines F dr (map (\<lambda>l. l\<lparr>li_note := None\<rparr>) ls) s = (Inr bs, s')"
    and room: "\<not> no_room tk (driverCurrentWeight d s') (sum_list (map bl_weightKg bs))"
    using assms(1,2) by (auto simp: walk_in_checks_def bind_Inr_iff split: option.splits if_splits)
  note built = build_lines_run [OF this(1)]
  then show "s' = s" by simp
  show "driverCurrentWeight d s + total_weight bs \<le> maxKg"
    using room built(1) assms(3,4) by (simp add: total_weight_sum [OF built(2)] no_room_def or_else_def)
qed

text \<open>The references are sound: ids are fresh and a request's tour exists.\<close>

definition tours_ok :: "ops \<Rightarrow> bool" where
  "tours_ok s \<longleftrightarrow> request_ids_ok s \<and> distinct (map ro_id (op_routes s))
    \<and> (\<forall>i. db_uuid (op_shop s) i \<in> ro_id ` set (op_routes s) \<longrightarrow> i < db_next (op_shop s))
    \<and> (\<forall>q \<in> set (op_requests s). \<forall>k. cr_routeId q = Some k \<longrightarrow> k \<in> ro_id ` set (op_routes s))"

lemma shipment_run:
  assumes "autoCreateOrAddToShipment F d q s = (Inr q', s')"
  shows "op_routes s' = op_routes s" and "op_requests s' = tbl_save cr_id q' (op_requests s)"
    and "\<exists>x. q' = q\<lparr>cr_shipmentId := Some x\<rparr>"
  using assms
  by (auto simp: autoCreateOrAddToShipment_def createShipment_def addToShipment_def save_shipment_def save_request_def
    bind_Inr_iff Let_def split: option.splits)

lemma current_route_found: "current_route d s = Some r \<Longrightarrow> r \<in> set (op_routes s) \<and> ro_driverId r = d"
  by (auto simp: current_route_def dest!: find_any)

lemma save_last: "key r \<notin> key ` set xs \<Longrightarrow> key r' = key r \<Longrightarrow> tbl_save key r (xs @ [r']) = xs @ [r]"
  by (induction xs) auto

lemma tour_for_walk_in:
  assumes ok: "tours_ok s"
    and run: "(case current_route d s of Some r \<Rightarrow> ret r | None \<Rightarrow> new_route F pre d st t) s = (Inr r, s1)"
  shows "find_route (ro_id r) s1 = Some r" and "ro_driverId r = d"
    and "k \<in> ro_id ` set (op_routes s) \<Longrightarrow> find_route k s1 = find_route k s" and "op_requests s1 = op_requests s"
    and "request_ids_ok s1"
proof -
  have "find_route (ro_id r) s1 = Some r \<and> ro_driverId r = d \<and> (k \<in> ro_id ` set (op_routes s) \<longrightarrow> find_route k s1 = find_route k s)
      \<and> op_requests s1 = op_requests s \<and> request_ids_ok s1"
  proof (cases "current_route d s")
    case None
    let ?i = "next_id s"
    have new: "?i \<notin> ro_id ` set (op_routes s)" using ok by (auto simp: tours_ok_def next_id_def)
    have r: "ro_id r = ?i" "ro_driverId r = d" "s1 = id_taken s\<lparr>op_routes := tbl_save ro_id r (op_routes s)\<rparr>"
      using run None by (auto simp: new_route_def save_route_def Let_def)
    moreover have "request_ids_ok s1" using ok by (auto simp: r(3) request_ids_ok_def tours_ok_def id_taken_def intro: less_SucI)
    ultimately show ?thesis using new by (auto simp: find_route_def tbl_find_save)
  next
    case (Some x)
    then have "r = x" "s1 = s" using run by simp_all
    then show ?thesis
      using ok Some current_route_found [OF Some] by (auto simp: tours_ok_def find_route_def found_row)
  qed
  then show "find_route (ro_id r) s1 = Some r" "ro_driverId r = d"
    "k \<in> ro_id ` set (op_routes s) \<Longrightarrow> find_route k s1 = find_route k s" "op_requests s1 = op_requests s" "request_ids_ok s1"
    by blast+
qed

lemma walk_in_save_run:
  assumes ok: "tours_ok s" and run: "walk_in_save F c d p ls s = (Inr q, s')"
  obtains r where "cr_routeId q = Some (ro_id r)" "find_route (ro_id r) s' = Some r" "ro_driverId r = d"
    "op_requests s' = op_requests s @ [q]" "\<And>k. k \<in> ro_id ` set (op_routes s) \<Longrightarrow> find_route k s' = find_route k s"
    "cr_status q = Q_PICKING" "load_kg q = total_weight ls" "cr_accountId q = c" "cr_type q = WALK_IN"
proof -
  obtain r s1 where tour: "(case current_route d s of Some r \<Rightarrow> ret r | None \<Rightarrow> new_route F ''RT'' d RT_IN_PROGRESS (Some (fw_now F))) s = (Inr r, s1)"
    and rest: "bind (reads (request_number F)) (\<lambda>number. bind new_id (\<lambda>i.
     bind (reads (\<lambda>s. (length (requests_of_route (ro_id r) s), tbl_find cp_id p (op_points s)))) (\<lambda>(stops, point).
     let q = walk_in_request F c i number r stops point ls in
     bind (save_request q) (\<lambda>_.
     bind (for_each ls (insert_line i (\<lambda>l. Some (bl_quantity l)))) (\<lambda>_. autoCreateOrAddToShipment F d q))))) s1 = (Inr q, s')"
    using run by (auto simp: walk_in_save_def bind_Inr_iff)
  note tour = tour_for_walk_in [OF ok tour]
  let ?q = "walk_in_request F c (next_id s1) (request_number F s1) r (length (requests_of_route (ro_id r) s1)) (tbl_find cp_id p (op_points s1)) ls"
  let ?s = "id_taken s1\<lparr>op_requests := tbl_save cr_id ?q (op_requests s1)\<rparr>"
  obtain n L where lines: "for_each ls (insert_line (next_id s1) (\<lambda>l. Some (bl_quantity l))) ?s
      = (Inr (), ?s\<lparr>op_shop := (op_shop ?s)\<lparr>db_next := n\<rparr>, op_lines := L\<rparr>)" using insert_lines_run by blast
  have same: "requests_of_route k (id_taken s1) = requests_of_route k s1" for k by (simp add: requests_of_route_def)
  have ship: "autoCreateOrAddToShipment F d ?q (?s\<lparr>op_shop := (op_shop ?s)\<lparr>db_next := n\<rparr>, op_lines := L\<rparr>) = (Inr q, s')"
    using rest by (simp add: same save_request_def Let_def bind_Inr [where m = "for_each ls (insert_line (next_id s1) (\<lambda>l. Some (bl_quantity l)))", OF lines])
  note shipped = shipment_run [OF ship]
  have id: "cr_id ?q = next_id s1" "cr_id q = next_id s1" using shipped(3) by (auto simp: walk_in_request_def blank_request_def)
  moreover have "next_id s1 \<notin> cr_id ` set (op_requests s1)" using tour(5) by (auto simp: request_ids_ok_def next_id_def)
  ultimately have "op_requests s' = op_requests s @ [q]"
    using shipped(2) tour(4) by (simp add: tbl_save_fresh save_last)
  then show thesis
    using that [of r] tour(1-3) shipped(1,3)
    by (auto simp: walk_in_request_def blank_request_def load_kg_def find_route_def)
qed


definition ex_copper :: "line_input list" where
  "ex_copper = [\<lparr>li_productId = ''copper'', li_quantity = 20, li_note = None\<rparr>]"

lemma ex_no_id: "db_uuid ex_store n \<noteq> ''r1''"
  by (cases n) (simp_all add: ex_store_def)

lemma ex_walk_in: "\<exists>q capacity s'. createDropOff ex_world ''acc'' ''d1'' ''p1'' ex_copper ex_fleet = (Inr (q, capacity), s') \<and> load_kg q = 20"
proof -
  have "case createDropOff ex_world ''acc'' ''d1'' ''p1'' ex_copper ex_fleet of (Inr (q, _), _) \<Rightarrow> load_kg q = 20 | _ \<Rightarrow> False"
    by code_simp
  then show ?thesis by (auto split: sum.splits prod.splits)
qed


section \<open>Where idle drivers are sent\<close>

text \<open>A driver alone between two equal points is sent to the other one by every run of the job.\<close>

definition ex_two_points :: ops where
  "ex_two_points = ex_fleet\<lparr>
     op_handovers := [\<lparr>ho_id = ''h1'', ho_driverId = ''d1'', ho_truckId = ''t1'', ho_shiftId = ''s1'', ho_warehouseId = None,
       ho_workDate = 0, ho_pickedUpAt = Some 0, ho_pickupAt = None, ho_droppedOffAt = None, ho_dropoffAt = None,
       ho_dropoffReason = None, ho_lateDropoffMinutes = None, ho_status = HO_OPEN, ho_missedPickupNotifiedAt = None,
       ho_lateDropoffNotifiedAt = None, ho_createdAt = 0\<rparr>],
     op_points := op_points ex_fleet @ [(hd (op_points ex_fleet))\<lparr>cp_id := ''p2''\<rparr>]\<rparr>"

definition ex_parked_at :: "ident \<Rightarrow> time option \<Rightarrow> ops" where
  "ex_parked_at p since = ex_two_points\<lparr>op_coverage := [\<lparr>dc_id = ''dc1'', dc_driverId = ''d1'', dc_coveragePointId = p,
     dc_assignedFrom = since, dc_isActive = True\<rparr>]\<rparr>"

lemma ex_idle_driver: "eligibleIdleDriverIds ex_world (ex_parked_at p since) = [''d1'']"
proof -
  have d: "find_driver ''d1'' (ex_parked_at p since) = Some ex_driver" "\<not> busy ''d1'' (ex_parked_at p since)"
    by (simp_all add: find_driver_def ex_driver_def busy_def tasks_of_def requests_of_driver_def ex_parked_at_def ex_two_points_def
      ex_fleet_def ex_request_def blank_request_def)
  have "on_duty ex_world (ex_parked_at p since) ex_driver"
    by (simp add: on_duty_def ex_parked_at_def ex_two_points_def ex_fleet_def ex_goods_def ex_driver_def truck_of_driver_def
      shiftCovers_def Let_def)
  then have "idle ex_world (ex_parked_at p since) ''d1''" using d by (simp add: idle_def)
  then show ?thesis by (simp add: eligibleIdleDriverIds_def ex_parked_at_def ex_two_points_def)
qed

lemma rebalance_moves:
  assumes "active_points s = ps" and "ps \<noteq> []" and "eligibleIdleDriverIds F s = [d]" and "op_coverage s = [c]"
    and "dc_driverId c = d" and "dc_isActive c" and "best_point (\<lambda>k. parked k [c]) ps = Some b" and "dc_coveragePointId c \<noteq> cp_id b"
  shows "coverage_rebalance F s = (Inr (), s\<lparr>op_coverage := [park_row F (dc_id c) d (cp_id b)]\<rparr>)"
  using assms by (simp add: coverage_rebalance_def best_effort_def distributeIdleDrivers_def Let_def park_def park_row_def bind_assoc)

lemma rebalance_swings:
  "coverage_rebalance ex_world (ex_parked_at ''p1'' since) = (Inr (), ex_parked_at ''p2'' (Some (fw_now ex_world)))"
  "coverage_rebalance ex_world (ex_parked_at ''p2'' since) = (Inr (), ex_parked_at ''p1'' (Some (fw_now ex_world)))"
proof -
  obtain a b where ps: "op_points ex_two_points = [a, b]" "cp_id a = ''p1''" "cp_id b = ''p2''" "cp_priority a = 0" "cp_priority b = 0"
    "cp_isActive a" "cp_isActive b" by (simp add: ex_two_points_def ex_fleet_def)
  have points: "active_points (ex_parked_at p since) = [a, b]" for p since
    using ps by (simp add: active_points_def ex_parked_at_def)
  have row: "\<exists>c. op_coverage (ex_parked_at p since) = [c] \<and> dc_id c = ''dc1'' \<and> dc_driverId c = ''d1'' \<and> dc_isActive c
    \<and> dc_coveragePointId c = p" for p since
    by (simp add: ex_parked_at_def)
  have moved: "(ex_parked_at p since)\<lparr>op_coverage := [park_row ex_world ''dc1'' ''d1'' k]\<rparr> = ex_parked_at k (Some (fw_now ex_world))" for p k
    by (simp add: ex_parked_at_def park_row_def)
  obtain c where c: "op_coverage (ex_parked_at ''p1'' since) = [c]" "dc_id c = ''dc1''" "dc_driverId c = ''d1''" "dc_isActive c"
    "dc_coveragePointId c = ''p1''" using row by blast
  have "best_point (\<lambda>k. parked k [c]) [a, b] = Some b" using ps c by (simp add: best_point_def parked_def less_eq_prod_def)
  from rebalance_moves [OF points _ ex_idle_driver c(1,3,4) this] show
    "coverage_rebalance ex_world (ex_parked_at ''p1'' since) = (Inr (), ex_parked_at ''p2'' (Some (fw_now ex_world)))"
    by (simp add: c ps moved)
  obtain c where c: "op_coverage (ex_parked_at ''p2'' since) = [c]" "dc_id c = ''dc1''" "dc_driverId c = ''d1''" "dc_isActive c"
    "dc_coveragePointId c = ''p2''" using row by blast
  have "best_point (\<lambda>k. parked k [c]) [a, b] = Some a" using ps c by (simp add: best_point_def parked_def less_eq_prod_def)
  from rebalance_moves [OF points _ ex_idle_driver c(1,3,4) this] show
    "coverage_rebalance ex_world (ex_parked_at ''p2'' since) = (Inr (), ex_parked_at ''p1'' (Some (fw_now ex_world)))"
    by (simp add: c ps moved)
qed

lemma relocate_fails_when_parked:
  assumes "active_points s \<noteq> []" and "list_ex (\<lambda>c. dc_driverId c = d) (op_coverage s)"
  shows "relocate F d s = (Inl Crash, s)"
proof -
  have some: "find (\<lambda>_. True) xs \<noteq> None" if "xs \<noteq> []" for xs :: "coverage_point list" using that by (cases xs) auto
  obtain p ps where "active_points s = p # ps" using assms(1) by (cases "active_points s") auto
  then have "best_point load (active_points s) \<noteq> None" for load
    unfolding best_point_def by (intro some) (simp add: insort_not_Nil)
  then show ?thesis using assms(2) by (auto simp: relocate_def insert_row_def bind_def split: option.splits)
qed

text \<open>An hour into a shift from ten in the evening to six in the morning nothing is left of it.\<close>

lemma night_shift_has_no_time_left:
  assumes "sf_startTime sf = 22 * 3600" and "sf_endTime sf = 6 * 3600"
  shows "shiftRemainingMinutes (steady 0) sf (23 * 3600 * 1000) = 0" and "shiftCovers (steady 0) sf (23 * 3600 * 1000)"
  using assms by (simp_all add: shiftRemainingMinutes_def shiftCovers_def minutesOfDayInZone_def partsInZone_def steady_def Let_def)

section \<open>What a shipment does to its requests\<close>

lemma cancelled_request_completed:
  "cr_status (completed_request now q) = Q_COMPLETED" "\<not> canTransitionRequest Q_CANCELLED Q_COMPLETED"
  by (simp_all add: completed_request_def canTransitionRequest_def)

end
