(* ===== verification/Handovers.thy ===== *)
theory Handovers
  imports Shipments OperationTime
begin

text \<open>
  The trucks of the drivers: who is assigned to which truck on which shift
  (\<open>truck/assignment.service.ts\<close>), the two buttons with which a driver takes his truck and hands it
  back (\<open>truck/handover.service.ts\<close>), and the watch over both (\<open>maintenance/handover-cron.service.ts\<close>).
  The positions of the live tracking, which \<open>dropoff\<close> ends in a best-effort step, are not kept here.
\<close>

section \<open>State\<close>

datatype change_status = CH_PENDING | CH_PROCESSING | CH_ACCEPTED | CH_REJECTED

record shift_change =
  sc_id :: ident
  sc_odooRequestId :: "int option"
  sc_driverId :: ident
  sc_truckId :: "ident option"
  sc_shiftId :: ident
  sc_reason :: "string option"
  sc_status :: change_status
  sc_rejectionReason :: "string option"
  sc_createdAt :: time
  sc_updatedAt :: time

record truck_problem =
  tp_id :: ident
  tp_odooProblemId :: "int option"
  tp_driverId :: ident
  tp_reason :: string
  tp_images :: "string list"
  tp_createdAt :: time

datatype decision = D_PROCESSING | D_ACCEPTED | D_REJECTED

record change_decision =
  de_requestId :: ident
  de_status :: decision
  de_truckOdooId :: "int option"
  de_rejectionReason :: "string option"

datatype yard_job = PUSH_HANDOVER_PICKUP ident | PUSH_HANDOVER_DROPOFF ident | PUSH_SHIFT_CHANGE ident
  | CANCEL_SHIFT_CHANGE ident | PUSH_TRUCK_PROBLEM ident | APPLY_SHIFT_CHANGE_DECISION change_decision

text \<open>The tables of the fleet, the two tables only these services use, and the jobs for Odoo.\<close>

record yard =
  yd_fleet :: ops
  yd_changes :: "shift_change list"
  yd_problems :: "truck_problem list"
  yd_jobs :: "yard_job list"

type_synonym 'a yard_action = "(yard, 'a) act"

definition on_fleet :: "'a fleet_action \<Rightarrow> 'a yard_action" where
  "on_fleet m = (\<lambda>y. case m (yd_fleet y) of (r, s) \<Rightarrow> (r, y\<lparr>yd_fleet := s\<rparr>))"

definition reads_fleet :: "(ops \<Rightarrow> 'a) \<Rightarrow> 'a yard_action" where
  "reads_fleet f = reads (\<lambda>y. f (yd_fleet y))"

definition enqueue_yard :: "yard_job \<Rightarrow> unit yard_action" where
  "enqueue_yard j = writes (\<lambda>y. y\<lparr>yd_jobs := yd_jobs y @ [j]\<rparr>)"

definition save_handover :: "truck_handover \<Rightarrow> unit fleet_action" where
  "save_handover h = writes (\<lambda>s. s\<lparr>op_handovers := tbl_save ho_id h (op_handovers s)\<rparr>)"

definition find_shift :: "ident \<Rightarrow> ops \<Rightarrow> shift option" where
  "find_shift i s = tbl_find sf_id i (op_shifts s)"

definition assignment_of :: "ident \<Rightarrow> ops \<Rightarrow> truck_assignment option" where
  "assignment_of driverId s = find (\<lambda>a. ta_driverId a = driverId) (op_truckAssignments s)"

definition account_active :: "ident \<Rightarrow> ops \<Rightarrow> bool" where
  "account_active accountId s = (map_option ac_status (tbl_find ac_id accountId (db_accounts (op_shop s))) = Some A_ACTIVE)"

section \<open>Assignments\<close>

text \<open>The status of a truck follows from the number of its drivers, unless somebody disabled it.\<close>

definition derived_status :: "nat \<Rightarrow> nat \<Rightarrow> truck_status" where
  "derived_status drivers capacity =
     (if drivers = 0 then TK_ACTIVE else if capacity \<le> drivers then TK_FULLY_BUSY else TK_BUSY_ONE_DRIVER)"

definition drivers_on :: "ident \<Rightarrow> ops \<Rightarrow> nat" where
  "drivers_on truckId s = length (filter (\<lambda>a. ta_truckId a = truckId) (op_truckAssignments s))"

definition recomputeStatus :: "ident \<Rightarrow> unit fleet_action" where
  "recomputeStatus truckId =
     bind (reads (\<lambda>s. tbl_find tk_id truckId (op_trucks s))) (\<lambda>found. case found of None \<Rightarrow> ret () | Some tk \<Rightarrow>
     if tk_status tk = TK_DISABLED then ret ()
     else writes (\<lambda>s. s\<lparr>op_trucks := tbl_save tk_id
       (tk\<lparr>tk_status := derived_status (drivers_on truckId s) (length (op_shifts s))\<rparr>) (op_trucks s)\<rparr>))"

definition slot_taken :: "ident \<Rightarrow> ident \<Rightarrow> ops \<Rightarrow> bool" where
  "slot_taken truckId shiftId s = list_ex (\<lambda>a. ta_truckId a = truckId \<and> ta_shiftId a = shiftId) (op_truckAssignments s)"

definition truck_assign :: "fleet_world \<Rightarrow> ident \<Rightarrow> ident \<Rightarrow> truck_assignment fleet_action" where
  "truck_assign F truckId driverId =
     bind (reads (\<lambda>s. tbl_find tk_id truckId (op_trucks s))) (\<lambda>truck. case truck of None \<Rightarrow> throw NotFound | Some tk \<Rightarrow>
     bind (refuse_if (tk_status tk = TK_DISABLED) BadRequest) (\<lambda>_.
     bind (refuse_if (tk_status tk = TK_FULLY_BUSY) BadRequest) (\<lambda>_.
     bind (reads (find_driver driverId)) (\<lambda>driver. case driver of None \<Rightarrow> throw NotFound | Some d \<Rightarrow>
     bind (reads (assignment_of driverId)) (\<lambda>mine.
     bind (refuse_if (mine \<noteq> None) Conflict) (\<lambda>_.
     bind (reads (find_shift (dp_shiftId d))) (\<lambda>shift. case shift of None \<Rightarrow> throw BadRequest | Some sf \<Rightarrow>
     bind (reads (slot_taken truckId (sf_id sf))) (\<lambda>taken.
     bind (refuse_if taken Conflict) (\<lambda>_.
     bind new_id (\<lambda>i.
     let a = \<lparr>ta_id = i, ta_truckId = truckId, ta_driverId = driverId, ta_shiftId = sf_id sf, ta_assignedAt = fw_now F\<rparr> in
     bind (writes (\<lambda>s. s\<lparr>op_truckAssignments := op_truckAssignments s @ [a]\<rparr>)) (\<lambda>_.
     bind (recomputeStatus truckId) (\<lambda>_. ret a))))))))))))"

definition truck_unassign :: "ident \<Rightarrow> unit fleet_action" where
  "truck_unassign driverId =
     bind (reads (find_driver driverId)) (\<lambda>driver. case driver of None \<Rightarrow> throw NotFound | Some d \<Rightarrow>
     bind (reads (assignment_of driverId)) (\<lambda>mine. case mine of None \<Rightarrow> throw NotFound | Some a \<Rightarrow>
     bind (writes (\<lambda>s. s\<lparr>op_truckAssignments := filter (\<lambda>x. ta_id x \<noteq> ta_id a) (op_truckAssignments s)\<rparr>)) (\<lambda>_.
     recomputeStatus (ta_truckId a))))"

text \<open>The driver's own view: his truck with its payload, and his shift.\<close>

definition getMyAssignment :: "ident \<Rightarrow> (truck_assignment \<times> truck option \<times> shift option) option fleet_action" where
  "getMyAssignment accountId =
     bind (reads (driver_of_account accountId)) (\<lambda>driver. case driver of None \<Rightarrow> throw NotFound | Some d \<Rightarrow>
     bind (reads (\<lambda>s. map_option (\<lambda>a. (a, tbl_find tk_id (ta_truckId a) (op_trucks s), find_shift (ta_shiftId a) s))
       (assignment_of (dp_id d) s))) ret)"

section \<open>Taking the truck and handing it back\<close>

definition active_driver :: "ident \<Rightarrow> collector_profile fleet_action" where
  "active_driver accountId =
     bind (reads (driver_of_account accountId)) (\<lambda>driver. case driver of None \<Rightarrow> throw NotFound | Some d \<Rightarrow>
     bind (reads (account_active accountId)) (\<lambda>active.
     bind (refuse_if (\<not> active) Forbidden) (\<lambda>_. ret d)))"

text \<open>A lone half of a coordinate is dropped.\<close>

definition normalizeCoords :: "rat option \<Rightarrow> rat option \<Rightarrow> point option" where
  "normalizeCoords lat lng = (case (lat, lng) of (Some la, Some lo) \<Rightarrow> Some (la, lo) | _ \<Rightarrow> None)"

text \<open>The newest open session of a driver.\<close>

definition newest_open :: "ident \<Rightarrow> ops \<Rightarrow> truck_handover option" where
  "newest_open driverId s = find (\<lambda>_. True) (sort_key (\<lambda>h. - ho_createdAt h)
     (filter (\<lambda>h. ho_driverId h = driverId \<and> ho_status h = HO_OPEN) (op_handovers s)))"

definition handover_status :: "ident \<Rightarrow> (truck_handover option \<times> truck option) fleet_action" where
  "handover_status accountId =
     bind (active_driver accountId) (\<lambda>d. reads (\<lambda>s. (newest_open (dp_id d) s, truck_of_driver (dp_id d) s)))"

definition listForTruck :: "ident \<Rightarrow> nat \<Rightarrow> nat \<Rightarrow> ops \<Rightarrow> truck_handover list \<times> nat" where
  "listForTruck truckId page limit s =
     (let rows = sort_key (\<lambda>h. - ho_createdAt h) (filter (\<lambda>h. ho_truckId h = truckId) (op_handovers s))
      in (take limit (drop ((page - 1) * limit) rows), length rows))"

definition session_of :: "ident \<Rightarrow> ident \<Rightarrow> int \<Rightarrow> ops \<Rightarrow> truck_handover option" where
  "session_of driverId shiftId day s = find (\<lambda>h. ho_driverId h = driverId \<and> ho_shiftId h = shiftId \<and> ho_workDate h = day) (op_handovers s)"

definition held_by_other :: "ident \<Rightarrow> ident \<Rightarrow> ops \<Rightarrow> bool" where
  "held_by_other truckId driverId s =
     list_ex (\<lambda>h. ho_truckId h = truckId \<and> ho_status h = HO_OPEN \<and> ho_driverId h \<noteq> driverId) (op_handovers s)"

text \<open>The session of the day: a marker of a missed pickup is turned into an open session.\<close>

definition opened_session :: "time \<Rightarrow> point option \<Rightarrow> collector_profile \<Rightarrow> truck \<Rightarrow> truck_handover \<Rightarrow> truck_handover" where
  "opened_session now at_point d tk h = h\<lparr>ho_status := HO_OPEN, ho_pickedUpAt := Some now, ho_pickupAt := at_point,
     ho_truckId := tk_id tk, ho_warehouseId := (case tk_warehouseId tk of None \<Rightarrow> dp_warehouseId d | w \<Rightarrow> w)\<rparr>"

definition blank_session :: "ident \<Rightarrow> ident \<Rightarrow> ident \<Rightarrow> ident \<Rightarrow> int \<Rightarrow> time \<Rightarrow> truck_handover" where
  "blank_session i driverId truckId shiftId day now = \<lparr>ho_id = i, ho_driverId = driverId, ho_truckId = truckId, ho_shiftId = shiftId,
     ho_warehouseId = None, ho_workDate = day, ho_pickedUpAt = None, ho_pickupAt = None, ho_droppedOffAt = None,
     ho_dropoffAt = None, ho_dropoffReason = None, ho_lateDropoffMinutes = None, ho_status = HO_OPEN,
     ho_missedPickupNotifiedAt = None, ho_lateDropoffNotifiedAt = None, ho_createdAt = now\<rparr>"

definition pickup_shift :: "collector_profile \<Rightarrow> truck_assignment \<Rightarrow> ops \<Rightarrow> shift option" where
  "pickup_shift d a s = (case find_shift (ta_shiftId a) s of None \<Rightarrow> find_shift (dp_shiftId d) s | sf \<Rightarrow> sf)"

definition pickup_checked :: "fleet_world \<Rightarrow> ident \<Rightarrow> (collector_profile \<times> truck \<times> shift \<times> int) fleet_action" where
  "pickup_checked F accountId =
     bind (active_driver accountId) (\<lambda>d.
     bind (reads (assignment_of (dp_id d))) (\<lambda>mine. case mine of None \<Rightarrow> throw BadRequest | Some a \<Rightarrow>
     bind (reads (\<lambda>s. tbl_find tk_id (ta_truckId a) (op_trucks s))) (\<lambda>truck. case truck of None \<Rightarrow> throw BadRequest | Some tk \<Rightarrow>
     bind (refuse_if (tk_status tk = TK_DISABLED) BadRequest) (\<lambda>_.
     bind (reads (pickup_shift d a)) (\<lambda>shift. case shift of None \<Rightarrow> throw Crash | Some sf \<Rightarrow>
     let win = resolveShiftWindow (fw_zone F) sf (fw_now F) in
     bind (refuse_if (fw_now F < sw_start win) BadRequest) (\<lambda>_.
     bind (refuse_if (sw_end win + sw_toleranceMs win < fw_now F) BadRequest) (\<lambda>_.
     bind (reads (held_by_other (tk_id tk) (dp_id d))) (\<lambda>held.
     bind (refuse_if held Conflict) (\<lambda>_. ret (d, tk, sf, sw_workDate win))))))))))"

text \<open>The session a pickup opens, given the session of the day if there is one.\<close>

definition pickup_session :: "fleet_world \<Rightarrow> point option \<Rightarrow> collector_profile \<Rightarrow> truck \<Rightarrow> shift \<Rightarrow> int \<Rightarrow> truck_handover fleet_action" where
  "pickup_session F at_point d tk sf day =
     bind (reads (session_of (dp_id d) (sf_id sf) day)) (\<lambda>found.
     bind (refuse_if (map_option ho_status found = Some HO_CLOSED) Conflict) (\<lambda>_.
     bind (case found of Some h \<Rightarrow> ret h
           | None \<Rightarrow> bind new_id (\<lambda>i. ret (blank_session i (dp_id d) (tk_id tk) (sf_id sf) day (fw_now F)))) (\<lambda>h.
     let h' = opened_session (fw_now F) at_point d tk h in
     bind (save_handover h') (\<lambda>_. ret h'))))"

definition pickup :: "fleet_world \<Rightarrow> ident \<Rightarrow> rat option \<Rightarrow> rat option \<Rightarrow> truck_handover yard_action" where
  "pickup F accountId lat lng =
     bind (on_fleet (bind (pickup_checked F accountId) (\<lambda>(d, tk, sf, day).
       pickup_session F (normalizeCoords lat lng) d tk sf day))) (\<lambda>h.
     bind (enqueue_yard (PUSH_HANDOVER_PICKUP (ho_id h))) (\<lambda>_. ret h))"

definition late_minutes :: "shift_window \<Rightarrow> time \<Rightarrow> int" where
  "late_minutes win now =
     (let overdue = now - (sw_end win + sw_toleranceMs win) in if 0 < overdue then math_round (of_int overdue / 60000) else 0)"

definition closed_session :: "time \<Rightarrow> point option \<Rightarrow> string \<Rightarrow> int \<Rightarrow> truck_handover \<Rightarrow> truck_handover" where
  "closed_session now at_point remark delay h = h\<lparr>ho_droppedOffAt := Some now, ho_dropoffAt := at_point, ho_dropoffReason := Some remark,
     ho_lateDropoffMinutes := Some delay, ho_status := HO_CLOSED\<rparr>"

text \<open>The window is that of the present day, not that of the session.\<close>

definition dropoff :: "fleet_world \<Rightarrow> ident \<Rightarrow> string \<Rightarrow> rat option \<Rightarrow> rat option \<Rightarrow> truck_handover yard_action" where
  "dropoff F accountId reason lat lng =
     bind (on_fleet (
       bind (active_driver accountId) (\<lambda>d.
       let remark = trim reason in
       bind (refuse_if (remark = []) BadRequest) (\<lambda>_.
       bind (reads (newest_open (dp_id d))) (\<lambda>open_one. case open_one of None \<Rightarrow> throw NotFound | Some h \<Rightarrow>
       bind (reads (find_shift (ho_shiftId h))) (\<lambda>shift. case shift of None \<Rightarrow> throw Crash | Some sf \<Rightarrow>
       let win = resolveShiftWindow (fw_zone F) sf (fw_now F) in
       bind (reads (\<lambda>s. map_option tk_status (tbl_find tk_id (ho_truckId h) (op_trucks s)) = Some TK_DISABLED)) (\<lambda>disabled.
       bind (refuse_if (\<not> disabled \<and> fw_now F < sw_end win) BadRequest) (\<lambda>_.
       let h' = closed_session (fw_now F) (normalizeCoords lat lng) remark (late_minutes win (fw_now F)) h in
       bind (save_handover h') (\<lambda>_. ret h'))))))))) (\<lambda>h.
     bind (enqueue_yard (PUSH_HANDOVER_DROPOFF (ho_id h))) (\<lambda>_. ret h))"

section \<open>The watch\<close>

datatype handover_alert = Missed_pickup ident ident | Late_dropoff ident ident int

definition missed :: "fleet_world \<Rightarrow> shift_window \<Rightarrow> truck_handover option \<Rightarrow> bool" where
  "missed F win row \<longleftrightarrow> sw_start win + sw_toleranceMs win \<le> fw_now F \<and> fw_now F \<le> sw_end win
     \<and> (case row of None \<Rightarrow> True
        | Some h \<Rightarrow> ho_pickedUpAt h = None \<and> ho_status h \<noteq> HO_OPEN \<and> ho_missedPickupNotifiedAt h = None)"

definition overdue :: "fleet_world \<Rightarrow> shift_window \<Rightarrow> truck_handover \<Rightarrow> bool" where
  "overdue F win h \<longleftrightarrow> ho_status h = HO_OPEN \<and> sw_end win + sw_toleranceMs win < fw_now F \<and> ho_lateDropoffNotifiedAt h = None"

definition markMissedPickup :: "fleet_world \<Rightarrow> collector_profile \<Rightarrow> ident \<Rightarrow> int \<Rightarrow> ident \<Rightarrow> handover_alert list fleet_action" where
  "markMissedPickup F d shiftId day truckId =
     bind (reads (session_of (dp_id d) shiftId day)) (\<lambda>found.
     bind (case found of Some h \<Rightarrow> ret h
           | None \<Rightarrow> bind new_id (\<lambda>i. ret ((blank_session i (dp_id d) truckId shiftId day (fw_now F))
               \<lparr>ho_warehouseId := dp_warehouseId d, ho_status := HO_MISSED_PICKUP\<rparr>))) (\<lambda>h.
     bind (save_handover (h\<lparr>ho_missedPickupNotifiedAt := Some (fw_now F)\<rparr>)) (\<lambda>_.
     ret [Missed_pickup (dp_id d) shiftId])))"

definition markLateDropoff :: "fleet_world \<Rightarrow> truck_handover \<Rightarrow> int \<Rightarrow> handover_alert list fleet_action" where
  "markLateDropoff F h delay =
     bind (save_handover (h\<lparr>ho_lateDropoffNotifiedAt := Some (fw_now F)\<rparr>)) (\<lambda>_.
     ret [Late_dropoff (ho_driverId h) (ho_shiftId h) delay])"

definition watch_one :: "fleet_world \<Rightarrow> truck_assignment \<Rightarrow> handover_alert list fleet_action" where
  "watch_one F a =
     bind (reads (\<lambda>s. (find_driver (ta_driverId a) s, find_shift (ta_shiftId a) s))) (\<lambda>found. case found of
       (Some d, Some sf) \<Rightarrow>
         if \<not> sf_isDriver sf \<or> \<not> sf_isActive sf then ret []
         else
           let win = resolveShiftWindow (fw_zone F) sf (fw_now F) in
           bind (reads (session_of (dp_id d) (sf_id sf) (sw_workDate win))) (\<lambda>row.
           if missed F win row then markMissedPickup F d (sf_id sf) (sw_workDate win) (ta_truckId a)
           else (case row of Some h \<Rightarrow> if overdue F win h
                   then markLateDropoff F h (math_round (of_int (fw_now F - (sw_end win + sw_toleranceMs win)) / 60000))
                   else ret []
                 | None \<Rightarrow> ret []))
     | _ \<Rightarrow> ret [])"

text \<open>What is sent out, to the driver and to his manager: one alert per assignment at most.\<close>

definition checkHandovers :: "fleet_world \<Rightarrow> handover_alert list fleet_action" where
  "checkHandovers F = bind (reads op_truckAssignments) (\<lambda>rows. bind (collect rows (watch_one F)) (\<lambda>alerts. ret (concat alerts)))"

end
