(* ===== verification/HandoverFacts.thy ===== *)
theory HandoverFacts
  imports Handovers ElectionFacts
begin

text \<open>
  Who holds a truck: never two drivers at once.  When a truck comes back: after the end of a day
  shift; never during one that runs over midnight.  And what the watch sends out: each alert once.
\<close>

section \<open>Runs\<close>

lemma on_fleet_run: "on_fleet m y = (fst (m (yd_fleet y)), y\<lparr>yd_fleet := snd (m (yd_fleet y))\<rparr>)"
  by (simp add: on_fleet_def split: prod.splits)

lemma active_driver_run: "active_driver c s = (Inr d, s') \<longleftrightarrow> s' = s \<and> driver_of_account c s = Some d \<and> account_active c s"
  by (auto simp: active_driver_def split: option.splits)

lemma active_driver_same: "snd (active_driver c s) = s"
  by (simp add: active_driver_def bind_def split: option.splits)

lemma pickup_checked_same: "snd (pickup_checked F c s) = s"
proof -
  obtain r where "active_driver c s = (r, s)" using active_driver_same [of c s] by (metis prod.collapse)
  then show ?thesis by (auto simp: pickup_checked_def bind_def Let_def split: option.splits sum.splits)
qed

lemma pickup_checked_run:
  "pickup_checked F c s = (Inr (d, tk, sf, day), s') \<Longrightarrow> s' = s \<and> \<not> held_by_other (tk_id tk) (dp_id d) s"
  by (auto simp: pickup_checked_def bind_Inr_iff active_driver_run Let_def split: option.splits if_splits)

definition session_key :: "truck_handover \<Rightarrow> ident \<times> ident \<times> int" where
  "session_key h = (ho_driverId h, ho_shiftId h, ho_workDate h)"

lemma session_of_Some: "session_of d k day s = Some h \<Longrightarrow> h \<in> set (op_handovers s) \<and> session_key h = (d, k, day)"
  by (auto simp: session_of_def session_key_def find_Some_iff)

lemma session_of_None: "session_of d k day s = None \<longleftrightarrow> (d, k, day) \<notin> session_key ` set (op_handovers s)"
  by (auto simp: session_of_def session_key_def find_None_iff)

lemma newest_open_Some: "newest_open d s = Some h \<Longrightarrow> h \<in> set (op_handovers s) \<and> ho_driverId h = d \<and> ho_status h = HO_OPEN"
  unfolding newest_open_def by (drule find_any) auto

section \<open>One holder\<close>

definition one_holder :: "truck_handover list \<Rightarrow> bool" where
  "one_holder hs \<longleftrightarrow> (\<forall>h \<in> set hs. \<forall>h' \<in> set hs. ho_status h = HO_OPEN \<and> ho_status h' = HO_OPEN \<and> ho_truckId h = ho_truckId h'
     \<longrightarrow> ho_driverId h = ho_driverId h')"

definition handovers_ok :: "ops \<Rightarrow> bool" where
  "handovers_ok s \<longleftrightarrow> one_holder (op_handovers s) \<and> distinct (map ho_id (op_handovers s))
     \<and> distinct (map session_key (op_handovers s))
     \<and> inj (db_uuid (op_shop s)) \<and> (\<forall>i. db_uuid (op_shop s) i \<in> ho_id ` set (op_handovers s) \<longrightarrow> i < db_next (op_shop s))"

lemma one_holderD: "one_holder hs \<Longrightarrow> h \<in> set hs \<Longrightarrow> h' \<in> set hs \<Longrightarrow> ho_status h = HO_OPEN \<Longrightarrow> ho_status h' = HO_OPEN
  \<Longrightarrow> ho_truckId h = ho_truckId h' \<Longrightarrow> ho_driverId h = ho_driverId h'"
  unfolding one_holder_def by blast

lemma same_key: "distinct (map key xs) \<Longrightarrow> x \<in> set xs \<Longrightarrow> y \<in> set xs \<Longrightarrow> key x = key y \<Longrightarrow> x = y"
  by (metis distinct_map inj_onD)

lemma fresh_handover: "handovers_ok s \<Longrightarrow> next_id s \<notin> ho_id ` set (op_handovers s)"
  by (auto simp: handovers_ok_def next_id_def)

lemma taken_shifts [simp]: "op_shifts (id_taken s) = op_shifts s"
  by (simp add: id_taken_def)

lemma taken_ok: "handovers_ok s \<Longrightarrow> handovers_ok (id_taken s)"
  by (auto simp: handovers_ok_def id_taken_def intro: less_SucI)

lemma session_saved:
  assumes ok: "handovers_ok s"
    and id: "(\<exists>g \<in> set (op_handovers s). ho_id g = ho_id h \<and> session_key g = session_key h)
      \<or> ho_id h \<notin> ho_id ` set (op_handovers s) \<and> session_key h \<notin> session_key ` set (op_handovers s)
        \<and> (\<exists>i. ho_id h = db_uuid (op_shop s) i \<and> i < db_next (op_shop s))"
    and alone: "ho_status h = HO_OPEN \<Longrightarrow> \<forall>g \<in> set (op_handovers s). ho_status g = HO_OPEN \<and> ho_truckId g = ho_truckId h
      \<longrightarrow> ho_driverId g = ho_driverId h"
  shows "handovers_ok (s\<lparr>op_handovers := tbl_save ho_id h (op_handovers s)\<rparr>)"
proof -
  have d: "distinct (map ho_id (op_handovers s))" "distinct (map session_key (op_handovers s))" "one_holder (op_handovers s)"
    using ok by (simp_all add: handovers_ok_def)
  note new = set_tbl_save [OF d(1), of h]
  have "one_holder (tbl_save ho_id h (op_handovers s))"
  proof -
    have others: "ho_driverId x = ho_driverId y" if "x \<in> set (op_handovers s)" "y \<in> set (op_handovers s)" "ho_status x = HO_OPEN"
      "ho_status y = HO_OPEN" "ho_truckId x = ho_truckId y" for x y using d(3) that unfolding one_holder_def by blast
    have mine: "ho_driverId x = ho_driverId h" if "x \<in> set (op_handovers s)" "ho_status x = HO_OPEN" "ho_status h = HO_OPEN"
      "ho_truckId x = ho_truckId h" for x using alone that by blast
    have "ho_driverId x = ho_driverId y" if xy: "x \<in> insert h (set (op_handovers s))" "y \<in> insert h (set (op_handovers s))"
      "ho_status x = HO_OPEN" "ho_status y = HO_OPEN" "ho_truckId x = ho_truckId y" for x y
    proof (cases "x = h")
      case True
      then show ?thesis using xy mine [of y] by (cases "y = h") simp_all
    next
      case False
      then show ?thesis using xy mine [of x] others [of x y] by (cases "y = h") simp_all
    qed
    then show ?thesis unfolding one_holder_def new by blast
  qed
  moreover have "distinct (map session_key (tbl_save ho_id h (op_handovers s)))"
  proof (cases "ho_id h \<in> ho_id ` set (op_handovers s)")
    case True
    then obtain g where g: "g \<in> set (op_handovers s)" "ho_id g = ho_id h" "session_key g = session_key h" using id by auto
    have same: "session_key (if ho_id x = ho_id h then h else x) = session_key x" if "x \<in> set (op_handovers s)" for x
    proof (cases "ho_id x = ho_id h")
      case True
      then have "x = g" using that g d(1) by (metis distinct_map inj_onD)
      then show ?thesis using g by simp
    qed simp
    have "map session_key (tbl_save ho_id h (op_handovers s)) = map session_key (op_handovers s)"
      unfolding tbl_save_map [OF d(1) True] using same by simp
    then show ?thesis using d(2) by simp
  next
    case False
    have "session_key h \<notin> session_key ` set (op_handovers s)"
      using id
    proof
      assume "\<exists>g \<in> set (op_handovers s). ho_id g = ho_id h \<and> session_key g = session_key h"
      then show ?thesis using False by (metis image_eqI)
    qed simp
    then show ?thesis using d(2) False by (simp add: tbl_save_fresh)
  qed
  moreover have "\<forall>i. db_uuid (op_shop s) i \<in> ho_id ` set (tbl_save ho_id h (op_handovers s)) \<longrightarrow> i < db_next (op_shop s)"
    unfolding new
  proof (intro allI impI)
    fix i assume i: "db_uuid (op_shop s) i \<in> ho_id ` insert h {x \<in> set (op_handovers s). ho_id x \<noteq> ho_id h}"
    have used: "j < db_next (op_shop s)" if "db_uuid (op_shop s) j \<in> ho_id ` set (op_handovers s)" for j
      using ok that by (simp add: handovers_ok_def)
    have inj: "inj (db_uuid (op_shop s))" using ok by (simp add: handovers_ok_def)
    show "i < db_next (op_shop s)"
    proof (cases "db_uuid (op_shop s) i = ho_id h")
      case True
      show ?thesis
        using id
      proof
        assume "\<exists>g \<in> set (op_handovers s). ho_id g = ho_id h \<and> session_key g = session_key h"
        then show ?thesis using True by (intro used) (metis image_eqI)
      next
        assume "ho_id h \<notin> ho_id ` set (op_handovers s) \<and> session_key h \<notin> session_key ` set (op_handovers s)
          \<and> (\<exists>i. ho_id h = db_uuid (op_shop s) i \<and> i < db_next (op_shop s))"
        then show ?thesis using True inj by (metis injD)
      qed
    qed (use i in \<open>intro used, auto\<close>)
  qed
  ultimately show ?thesis using ok d(1) by (simp add: handovers_ok_def distinct_tbl_save)
qed

subsection \<open>Every operation keeps it\<close>

lemma keeps_on_fleet: "keeps I m \<Longrightarrow> keeps (\<lambda>y. I (yd_fleet y)) (on_fleet m)"
  by (simp add: keeps_def on_fleet_run)

lemma keeps_enqueue_yard: "keeps (\<lambda>y. I (yd_fleet y)) (enqueue_yard j)"
  by (simp add: keeps_def enqueue_yard_def)

lemma blank_keys [simp]: "session_key (blank_session i d k t day now) = (d, t, day)" "ho_id (blank_session i d k t day now) = i"
  "ho_driverId (blank_session i d k t day now) = d"
  by (simp_all add: session_key_def blank_session_def)

lemma opened_keys [simp]:
  "ho_id (opened_session t q d tk h) = ho_id h" "session_key (opened_session t q d tk h) = session_key h"
  "ho_driverId (opened_session t q d tk h) = ho_driverId h" "ho_truckId (opened_session t q d tk h) = tk_id tk"
  "ho_status (opened_session t q d tk h) = HO_OPEN"
  by (simp_all add: opened_session_def session_key_def)

lemma closed_keys [simp]:
  "ho_id (closed_session t q r l h) = ho_id h" "session_key (closed_session t q r l h) = session_key h"
  "ho_status (closed_session t q r l h) = HO_CLOSED"
  by (simp_all add: closed_session_def session_key_def)

lemma pickup_session_ok:
  assumes ok: "handovers_ok s" and free: "\<not> held_by_other (tk_id tk) (dp_id d) s"
  shows "handovers_ok (snd (pickup_session F at_point d tk sf day s))"
proof -
  have alone: "\<forall>g \<in> set (op_handovers s). ho_status g = HO_OPEN \<and> ho_truckId g = tk_id tk \<longrightarrow> ho_driverId g = dp_id d"
    using free by (auto simp: held_by_other_def list_ex_iff)
  show ?thesis
  proof (cases "session_of (dp_id d) (sf_id sf) day s")
    case None
    let ?h = "opened_session (fw_now F) at_point d tk (blank_session (next_id s) (dp_id d) (tk_id tk) (sf_id sf) day (fw_now F))"
    have key: "session_key ?h = (dp_id d, sf_id sf, day)" "ho_driverId ?h = dp_id d" "ho_id ?h = next_id s"
      by simp_all
    have "handovers_ok ((id_taken s)\<lparr>op_handovers := tbl_save ho_id ?h (op_handovers (id_taken s))\<rparr>)"
    proof (rule session_saved [OF taken_ok [OF ok]])
      have "\<exists>i. ho_id ?h = db_uuid (op_shop (id_taken s)) i \<and> i < db_next (op_shop (id_taken s))"
        unfolding key next_id_def by (intro exI [of _ "db_next (op_shop s)"]) (simp add: id_taken_def)
      then show "(\<exists>g \<in> set (op_handovers (id_taken s)). ho_id g = ho_id ?h \<and> session_key g = session_key ?h)
        \<or> ho_id ?h \<notin> ho_id ` set (op_handovers (id_taken s)) \<and> session_key ?h \<notin> session_key ` set (op_handovers (id_taken s))
          \<and> (\<exists>i. ho_id ?h = db_uuid (op_shop (id_taken s)) i \<and> i < db_next (op_shop (id_taken s)))"
        using fresh_handover [OF ok] None unfolding key session_of_None by simp
      show "\<forall>g \<in> set (op_handovers (id_taken s)). ho_status g = HO_OPEN \<and> ho_truckId g = ho_truckId ?h
        \<longrightarrow> ho_driverId g = ho_driverId ?h" using alone by (simp add: key)
    qed
    then show ?thesis using None by (simp add: pickup_session_def save_handover_def Let_def bind_assoc)
  next
    case (Some h)
    note h = session_of_Some [OF Some]
    show ?thesis
    proof (cases "ho_status h = HO_CLOSED")
      case False
      have "handovers_ok (s\<lparr>op_handovers := tbl_save ho_id (opened_session (fw_now F) at_point d tk h) (op_handovers s)\<rparr>)"
      proof (rule session_saved [OF ok])
        show "(\<exists>g \<in> set (op_handovers s). ho_id g = ho_id (opened_session (fw_now F) at_point d tk h)
            \<and> session_key g = session_key (opened_session (fw_now F) at_point d tk h))
          \<or> ho_id (opened_session (fw_now F) at_point d tk h) \<notin> ho_id ` set (op_handovers s)
            \<and> session_key (opened_session (fw_now F) at_point d tk h) \<notin> session_key ` set (op_handovers s)
            \<and> (\<exists>i. ho_id (opened_session (fw_now F) at_point d tk h) = db_uuid (op_shop s) i \<and> i < db_next (op_shop s))"
          using h by auto
        have "ho_driverId h = dp_id d" using h by (simp add: session_key_def)
        then show "\<forall>g \<in> set (op_handovers s). ho_status g = HO_OPEN
            \<and> ho_truckId g = ho_truckId (opened_session (fw_now F) at_point d tk h)
          \<longrightarrow> ho_driverId g = ho_driverId (opened_session (fw_now F) at_point d tk h)"
          using alone by simp
      qed
      then show ?thesis using Some False by (simp add: pickup_session_def save_handover_def Let_def)
    qed (use Some ok in \<open>simp add: pickup_session_def\<close>)
  qed
qed

lemma truck_pickup_keeps: "keeps (\<lambda>y. handovers_ok (yd_fleet y)) (pickup F c lat lng)"
proof -
  have "keeps handovers_ok (bind (pickup_checked F c) (\<lambda>(d, tk, sf, day). pickup_session F q d tk sf day))" for q
    unfolding keeps_def
  proof (intro allI impI)
    fix s assume ok: "handovers_ok s"
    obtain r where r: "pickup_checked F c s = (r, s)" using pickup_checked_same [of F c s] by (metis prod.collapse)
    show "handovers_ok (snd (bind (pickup_checked F c) (\<lambda>(d, tk, sf, day). pickup_session F q d tk sf day) s))"
    proof (cases r)
      case (Inr p)
      obtain d tk sf day where p: "p = (d, tk, sf, day)" by (cases p)
      then show ?thesis
        using pickup_session_ok [OF ok] pickup_checked_run [of F c s d tk sf day s] r Inr by (simp add: bind_def)
    qed (use ok r in \<open>simp add: bind_def\<close>)
  qed
  then have "keeps (\<lambda>y. handovers_ok (yd_fleet y)) (on_fleet (bind (pickup_checked F c)
      (\<lambda>(d, tk, sf, day). pickup_session F (normalizeCoords lat lng) d tk sf day)))" by (rule keeps_on_fleet)
  then show ?thesis unfolding pickup_def by (intro keeps_bind keeps_enqueue_yard keeps_ret)
qed

lemma truck_dropoff_keeps: "keeps (\<lambda>y. handovers_ok (yd_fleet y)) (dropoff F c reason lat lng)"
proof -
  have close: "handovers_ok (s\<lparr>op_handovers := tbl_save ho_id (closed_session t q r l h) (op_handovers s)\<rparr>)"
    if "handovers_ok s" "newest_open d s = Some h" for s t q r l d h
    using newest_open_Some [OF that(2)] by (intro session_saved [OF that(1)]) auto
  show ?thesis
    unfolding dropoff_def
    by (intro keeps_bind keeps_on_fleet keeps_enqueue_yard keeps_ret)
      (auto simp: keeps_def active_driver_def save_handover_def bind_def Let_def close split: option.splits)
qed

lemma marked_keys [simp]: "session_key (h\<lparr>ho_missedPickupNotifiedAt := x\<rparr>) = session_key h"
  "session_key (h\<lparr>ho_lateDropoffNotifiedAt := x\<rparr>) = session_key h"
  "session_key (h\<lparr>ho_warehouseId := w, ho_status := st, ho_missedPickupNotifiedAt := x\<rparr>) = session_key h"
  by (simp_all add: session_key_def)

lemma same_holder: "handovers_ok s \<Longrightarrow> h \<in> set (op_handovers s) \<Longrightarrow> ho_status h = HO_OPEN
  \<Longrightarrow> \<forall>g \<in> set (op_handovers s). ho_status g = HO_OPEN \<and> ho_truckId g = ho_truckId h \<longrightarrow> ho_driverId g = ho_driverId h"
  unfolding handovers_ok_def one_holder_def by blast

lemma marked_ok:
  assumes ok: "handovers_ok s" and h: "h \<in> set (op_handovers s)"
  shows "handovers_ok (s\<lparr>op_handovers := tbl_save ho_id (h\<lparr>ho_missedPickupNotifiedAt := x\<rparr>) (op_handovers s)\<rparr>)"
    and "handovers_ok (s\<lparr>op_handovers := tbl_save ho_id (h\<lparr>ho_lateDropoffNotifiedAt := x\<rparr>) (op_handovers s)\<rparr>)"
proof -
  have row: "\<exists>g \<in> set (op_handovers s). ho_id g = ho_id h \<and> session_key g = session_key h" using h by blast
  show "handovers_ok (s\<lparr>op_handovers := tbl_save ho_id (h\<lparr>ho_missedPickupNotifiedAt := x\<rparr>) (op_handovers s)\<rparr>)"
    by (rule session_saved [OF ok]) (use row same_holder [OF ok h] in simp_all)
  show "handovers_ok (s\<lparr>op_handovers := tbl_save ho_id (h\<lparr>ho_lateDropoffNotifiedAt := x\<rparr>) (op_handovers s)\<rparr>)"
    by (rule session_saved [OF ok]) (use row same_holder [OF ok h] in simp_all)
qed

definition missed_row :: "fleet_world \<Rightarrow> collector_profile \<Rightarrow> ident \<Rightarrow> int \<Rightarrow> ident \<Rightarrow> ident \<Rightarrow> truck_handover" where
  "missed_row F d shiftId day truckId i = (blank_session i (dp_id d) truckId shiftId day (fw_now F))
     \<lparr>ho_warehouseId := dp_warehouseId d, ho_status := HO_MISSED_PICKUP, ho_missedPickupNotifiedAt := Some (fw_now F)\<rparr>"

lemma markMissedPickup_run:
  "markMissedPickup F d k day tr s = (Inr [Missed_pickup (dp_id d) k],
     case session_of (dp_id d) k day s of
       Some h \<Rightarrow> s\<lparr>op_handovers := tbl_save ho_id (h\<lparr>ho_missedPickupNotifiedAt := Some (fw_now F)\<rparr>) (op_handovers s)\<rparr>
     | None \<Rightarrow> id_taken s\<lparr>op_handovers := tbl_save ho_id (missed_row F d k day tr (next_id s)) (op_handovers s)\<rparr>)"
  by (simp add: markMissedPickup_def save_handover_def missed_row_def bind_assoc split: option.splits)

lemma missed_row_ok:
  assumes ok: "handovers_ok s" and none: "session_of (dp_id d) k day s = None"
  shows "handovers_ok (id_taken s\<lparr>op_handovers := tbl_save ho_id (missed_row F d k day tr (next_id s)) (op_handovers s)\<rparr>)"
proof -
  have row: "ho_id (missed_row F d k day tr (next_id s)) = next_id s" "session_key (missed_row F d k day tr (next_id s)) = (dp_id d, k, day)"
    "ho_status (missed_row F d k day tr (next_id s)) = HO_MISSED_PICKUP"
    by (simp_all add: missed_row_def session_key_def blank_session_def)
  have "\<exists>i. next_id s = db_uuid (op_shop (id_taken s)) i \<and> i < db_next (op_shop (id_taken s))"
    by (intro exI [of _ "db_next (op_shop s)"]) (simp add: next_id_def id_taken_def)
  then show ?thesis
    using session_saved [OF taken_ok [OF ok], of "missed_row F d k day tr (next_id s)"] fresh_handover [OF ok] none
    by (simp add: row session_of_None)
qed

lemma keeps_watch_one: "keeps handovers_ok (watch_one F a)"
proof -
  have missed: "keeps handovers_ok (markMissedPickup F d k day tr)" for d k day tr
    using marked_ok(1) missed_row_ok session_of_Some
    by (auto simp: keeps_def markMissedPickup_run split: option.splits)
  have late: "handovers_ok (snd (markLateDropoff F h l s))" if "handovers_ok s" "h \<in> set (op_handovers s)" for s h l
    using marked_ok(2) [OF that] by (simp add: markLateDropoff_def save_handover_def)
  show ?thesis
    using missed late session_of_Some
    by (fastforce simp: keeps_def watch_one_def Let_def split: option.splits)
qed

lemma keeps_checkHandovers: "keeps handovers_ok (checkHandovers F)"
  unfolding checkHandovers_def by (intro keeps_bind keeps_collect keeps_watch_one keeps_reads keeps_ret)

lemma keeps_recompute: "keeps handovers_ok (recomputeStatus k)"
  by (auto simp: keeps_def recomputeStatus_def handovers_ok_def split: option.splits)

lemma truck_assign_keeps: "keeps handovers_ok (truck_assign F tk d)"
proof -
  have new: "keeps handovers_ok new_id" by (simp add: keeps_def taken_ok)
  have insert: "keeps handovers_ok (writes (\<lambda>s. s\<lparr>op_truckAssignments := f s\<rparr>))" for f by (simp add: keeps_def handovers_ok_def)
  show ?thesis
    unfolding truck_assign_def
    by (intro keeps_rules keeps_option keeps_let keeps_recompute insert new)
qed

lemma keeps_unassign: "keeps handovers_ok (truck_unassign d)"
proof -
  have remove: "keeps handovers_ok (writes (\<lambda>s. s\<lparr>op_truckAssignments := f s\<rparr>))" for f by (simp add: keeps_def handovers_ok_def)
  show ?thesis unfolding truck_unassign_def by (intro keeps_rules keeps_option keeps_recompute remove)
qed

text \<open>The calls of drivers and administrators and the runs of the watch, each in the world of its moment.\<close>

datatype yard_call = Take_truck ident "rat option" "rat option" | Hand_back ident string "rat option" "rat option"
  | Watch_handovers | Assign_truck ident ident | Unassign_truck ident

fun after_yard :: "fleet_world \<Rightarrow> yard_call \<Rightarrow> yard \<Rightarrow> yard" where
  "after_yard F (Take_truck c lat lng) y = snd (pickup F c lat lng y)"
| "after_yard F (Hand_back c reason lat lng) y = snd (dropoff F c reason lat lng y)"
| "after_yard F Watch_handovers y = snd (on_fleet (checkHandovers F) y)"
| "after_yard F (Assign_truck tk d) y = snd (on_fleet (truck_assign F tk d) y)"
| "after_yard F (Unassign_truck d) y = snd (on_fleet (truck_unassign d) y)"

inductive yard_reach :: "yard \<Rightarrow> yard \<Rightarrow> bool" for y0 where
  start: "yard_reach y0 y0"
| call: "yard_reach y0 y \<Longrightarrow> yard_reach y0 (after_yard F c y)"

lemma handovers_call: "handovers_ok (yd_fleet y) \<Longrightarrow> handovers_ok (yd_fleet (after_yard F c y))"
  using truck_pickup_keeps truck_dropoff_keeps keeps_on_fleet [OF keeps_checkHandovers] keeps_on_fleet [OF truck_assign_keeps]
    keeps_on_fleet [OF keeps_unassign]
  by (cases c) (auto simp: keeps_def)

definition holders :: "ident \<Rightarrow> yard \<Rightarrow> ident list" where
  "holders truckId y = remdups (map ho_driverId (filter (\<lambda>h. ho_status h = HO_OPEN \<and> ho_truckId h = truckId)
     (op_handovers (yd_fleet y))))"

text \<open>C37: whoever presses which button when, and however assignments change meanwhile, a truck is never in the
  hands of two drivers, and a driver has at most one session for a shift and day.\<close>

theorem one_holder_per_truck:
  assumes "handovers_ok (yd_fleet y0)" and "yard_reach y0 y"
  shows "length (holders truckId y) \<le> 1 \<and> distinct (map session_key (op_handovers (yd_fleet y)))"
proof -
  from assms(2) have ok: "handovers_ok (yd_fleet y)" by induction (use assms(1) in \<open>auto intro: handovers_call\<close>)
  have "x = x'" if "x \<in> set (holders truckId y)" "x' \<in> set (holders truckId y)" for x x'
  proof -
    from that obtain h h' where "h \<in> set (op_handovers (yd_fleet y))" "ho_status h = HO_OPEN" "ho_truckId h = truckId" "x = ho_driverId h"
      "h' \<in> set (op_handovers (yd_fleet y))" "ho_status h' = HO_OPEN" "ho_truckId h' = truckId" "x' = ho_driverId h'"
      unfolding holders_def by auto
    moreover have "one_holder (op_handovers (yd_fleet y))" using ok by (simp add: handovers_ok_def)
    ultimately show ?thesis using one_holderD by metis
  qed
  then have "card (set (holders truckId y)) \<le> 1" by (simp add: card_le_Suc0_iff_eq)
  moreover have "distinct (holders truckId y)" by (simp add: holders_def)
  ultimately show ?thesis using ok by (simp add: distinct_card handovers_ok_def)
qed

section \<open>The way back\<close>

definition closing :: "fleet_world \<Rightarrow> shift \<Rightarrow> string \<Rightarrow> rat option \<Rightarrow> rat option \<Rightarrow> truck_handover \<Rightarrow> truck_handover" where
  "closing F sf reason lat lng h = closed_session (fw_now F) (normalizeCoords lat lng) (trim reason)
     (late_minutes (resolveShiftWindow (fw_zone F) sf (fw_now F)) (fw_now F)) h"

definition disabled_truck :: "ident \<Rightarrow> ops \<Rightarrow> bool" where
  "disabled_truck k s \<longleftrightarrow> map_option tk_status (tbl_find tk_id k (op_trucks s)) = Some TK_DISABLED"

lemma dropoff_run:
  assumes "driver_of_account a s = Some d" "account_active a s" "newest_open (dp_id d) s = Some h"
    "find_shift (ho_shiftId h) s = Some sf" "trim reason \<noteq> []" "yd_fleet y = s"
  shows "dropoff F a reason lat lng y =
    (if \<not> disabled_truck (ho_truckId h) s \<and> fw_now F < sw_end (resolveShiftWindow (fw_zone F) sf (fw_now F)) then (Inl BadRequest, y)
     else (Inr (closing F sf reason lat lng h), y\<lparr>yd_fleet := s\<lparr>op_handovers := tbl_save ho_id (closing F sf reason lat lng h) (op_handovers s)\<rparr>,
       yd_jobs := yd_jobs y @ [PUSH_HANDOVER_DROPOFF (ho_id h)]\<rparr>))"
proof -
  have driver: "active_driver a s = (Inr d, s)" using assms(1,2) by (simp add: active_driver_run)
  show ?thesis
    using assms(3-6)
    by (auto simp: dropoff_def bind_def on_fleet_run Let_def save_handover_def enqueue_yard_def disabled_truck_def
      closing_def driver)
qed

lemma end_of_day_shift:
  assumes "clock_ok sf"
  shows "sw_end (resolveShiftWindow (steady c) sf now) \<le> now
    \<longleftrightarrow> sf_startTime sf < sf_endTime sf \<and> sf_endTime sf * 1000 \<le> (now + c * 1000) mod day_ms"
proof (cases "sf_startTime sf < sf_endTime sf")
  case True
  define t where "t = now + c * 1000"
  have t: "t = t div day_ms * day_ms + t mod day_ms" by (rule div_mult_mod_eq [symmetric])
  have "sw_end (resolveShiftWindow (steady c) sf now) = t div day_ms * day_ms - c * 1000 + sf_endTime sf * 1000"
    using True by (simp add: window_steady Let_def t_def)
  then have "sw_end (resolveShiftWindow (steady c) sf now) \<le> now \<longleftrightarrow> t div day_ms * day_ms + sf_endTime sf * 1000 \<le> t"
    unfolding t_def by linarith
  also have "\<dots> \<longleftrightarrow> sf_endTime sf * 1000 \<le> t mod day_ms" using t by linarith
  finally show ?thesis using True by (simp add: t_def)
next
  case False
  then show ?thesis using night_window_never_ends [of sf now c] assms by auto
qed

text \<open>C38: a driver with a truck in hand, an active account and something to say about the truck can give it
  back exactly when the truck is out of service or the end of his day shift has passed; the driver of
  a shift that ends at or after midnight of its day never can.  Giving it back closes the session with
  the delay, asks for the push to Odoo, and frees the truck unless another session holds it; a refusal
  changes nothing.\<close>

theorem truck_comes_back:
  assumes zone: "fw_zone F = steady c" and sf: "find_shift (ho_shiftId h) s = Some sf" "clock_ok sf"
    and d: "driver_of_account a s = Some d" "account_active a s" "newest_open (dp_id d) s = Some h"
    and reason: "trim reason \<noteq> []" and y: "yd_fleet y = s" and ok: "handovers_ok s"
  shows "if disabled_truck (ho_truckId h) s
        \<or> sf_startTime sf < sf_endTime sf \<and> sf_endTime sf * 1000 \<le> (fw_now F + c * 1000) mod day_ms
    then \<exists>h' y'. dropoff F a reason lat lng y = (Inr h', y') \<and> h' = closing F sf reason lat lng h \<and> ho_status h' = HO_CLOSED
      \<and> yd_jobs y' = yd_jobs y @ [PUSH_HANDOVER_DROPOFF (ho_id h)]
      \<and> set (op_handovers (yd_fleet y')) = insert h' (set (op_handovers s) - {h})
      \<and> (\<forall>e. held_by_other (ho_truckId h) e (yd_fleet y')
          \<longleftrightarrow> (\<exists>g \<in> set (op_handovers s). g \<noteq> h \<and> ho_status g = HO_OPEN \<and> ho_truckId g = ho_truckId h \<and> ho_driverId g \<noteq> e))
    else dropoff F a reason lat lng y = (Inl BadRequest, y)"
proof -
  let ?h = "closing F sf reason lat lng h"
  have ids: "distinct (map ho_id (op_handovers s))" using ok by (simp add: handovers_ok_def)
  have h: "h \<in> set (op_handovers s)" "ho_id ?h = ho_id h" "ho_status ?h = HO_CLOSED"
    using newest_open_Some [OF d(3)] by (simp_all add: closing_def)
  have "{x \<in> set (op_handovers s). ho_id x \<noteq> ho_id h} = set (op_handovers s) - {h}"
    using ids h(1) by (auto simp: distinct_map inj_on_def)
  then have rows: "set (tbl_save ho_id ?h (op_handovers s)) = insert ?h (set (op_handovers s) - {h})"
    using set_tbl_save [OF ids, of ?h] h(2) by simp
  have open_again: "fw_now F < sw_end (resolveShiftWindow (fw_zone F) sf (fw_now F))
    \<longleftrightarrow> \<not> (sf_startTime sf < sf_endTime sf \<and> sf_endTime sf * 1000 \<le> (fw_now F + c * 1000) mod day_ms)"
    unfolding zone using end_of_day_shift [OF sf(2), of c "fw_now F"] by linarith
  have "held_by_other (ho_truckId h) e (s\<lparr>op_handovers := tbl_save ho_id ?h (op_handovers s)\<rparr>)
      \<longleftrightarrow> (\<exists>g \<in> set (op_handovers s). g \<noteq> h \<and> ho_status g = HO_OPEN \<and> ho_truckId g = ho_truckId h \<and> ho_driverId g \<noteq> e)" for e
    using h(3) by (auto simp: held_by_other_def list_ex_iff rows)
  then show ?thesis
    using dropoff_run [OF d sf(1) reason y, of F lat lng] h rows by (auto simp: open_again)
qed

section \<open>Alerts\<close>

definition watched :: "fleet_world \<Rightarrow> truck_assignment \<Rightarrow> ops \<Rightarrow> (collector_profile \<times> shift) option" where
  "watched F a s = (case (find_driver (ta_driverId a) s, find_shift (ta_shiftId a) s) of
     (Some d, Some sf) \<Rightarrow> if sf_isDriver sf \<and> sf_isActive sf then Some (d, sf) else None | _ \<Rightarrow> None)"

definition alertable :: "fleet_world \<Rightarrow> collector_profile \<Rightarrow> shift \<Rightarrow> ops \<Rightarrow> bool" where
  "alertable F d sf s = (let win = resolveShiftWindow (fw_zone F) sf (fw_now F); row = session_of (dp_id d) (sf_id sf) (sw_workDate win) s
     in missed F win row \<or> (case row of None \<Rightarrow> False | Some h \<Rightarrow> overdue F win h))"

lemma watch_none: "watched F a s = None \<Longrightarrow> watch_one F a s = (Inr [], s)"
  by (auto simp: watched_def watch_one_def split: option.splits if_splits)

lemma watch_quiet: "watched F a s = Some (d, sf) \<Longrightarrow> \<not> alertable F d sf s \<Longrightarrow> watch_one F a s = (Inr [], s)"
  by (auto simp: watched_def watch_one_def alertable_def Let_def split: option.splits if_splits)

text \<open>A session of another key is found as before, that of the saved row is the row.\<close>

lemma session_after:
  assumes ok: "handovers_ok s" and ok': "handovers_ok s'" and hs: "op_handovers s' = tbl_save ho_id h (op_handovers s)"
    and id: "(\<exists>g \<in> set (op_handovers s). ho_id g = ho_id h \<and> session_key g = session_key h) \<or> ho_id h \<notin> ho_id ` set (op_handovers s)"
  shows "session_of d k day s' = (if session_key h = (d, k, day) then Some h else session_of d k day s)"
proof -
  have found: "session_of d k day t = Some g \<longleftrightarrow> g \<in> set (op_handovers t) \<and> session_key g = (d, k, day)" if "handovers_ok t" for t g
  proof
    assume g: "g \<in> set (op_handovers t) \<and> session_key g = (d, k, day)"
    then obtain g' where g': "session_of d k day t = Some g'" by (metis (no_types) session_of_None image_eqI option.exhaust)
    have "distinct (map session_key (op_handovers t))" using that by (simp add: handovers_ok_def)
    then have "g' = g" by (rule same_key) (use session_of_Some [OF g'] g in simp_all)
    then show "session_of d k day t = Some g" using g' by simp
  qed (rule session_of_Some)
  have ids: "distinct (map ho_id (op_handovers s))" using ok by (simp add: handovers_ok_def)
  have other: "ho_id g \<noteq> ho_id h" if "g \<in> set (op_handovers s)" "session_key g \<noteq> session_key h" for g
    using id
  proof
    assume "\<exists>g \<in> set (op_handovers s). ho_id g = ho_id h \<and> session_key g = session_key h"
    then obtain g' where "g' \<in> set (op_handovers s)" "ho_id g' = ho_id h" "session_key g' = session_key h" by blast
    then show ?thesis using same_key [OF ids, of g g'] that by auto
  qed (use that in \<open>metis image_eqI\<close>)
  have "session_of d k day s' = Some g \<longleftrightarrow> (if session_key h = (d, k, day) then Some h else session_of d k day s) = Some g" for g
  proof (cases "session_key h = (d, k, day)")
    case True
    have keys: "distinct (map session_key (op_handovers s'))" using ok' by (simp add: handovers_ok_def)
    have h: "h \<in> set (op_handovers s')" unfolding hs by (rule in_tbl_save)
    show ?thesis using True h same_key [OF keys, of h g] by (auto simp: found [OF ok'])
  next
    case False
    then show ?thesis using other by (auto simp: found [OF ok] found [OF ok'] hs set_tbl_save [OF ids])
  qed
  then show ?thesis by (metis option.exhaust)
qed

lemma alert_settles:
  assumes ok: "handovers_ok s" and a: "watched F a s = Some (d, sf)" "alertable F d sf s"
  shows "\<exists>l s'. watch_one F a s = (Inr l, s') \<and> \<not> alertable F d sf s'
    \<and> (\<forall>d' sf'. alertable F d' sf' s' \<longrightarrow> alertable F d' sf' s)
    \<and> (\<forall>b. watched F b s' = watched F b s) \<and> op_truckAssignments s' = op_truckAssignments s"
proof -
  let ?win = "\<lambda>sf. resolveShiftWindow (fw_zone F) sf (fw_now F)"
  let ?row = "\<lambda>d sf. session_of (dp_id d) (sf_id sf) (sw_workDate (?win sf))"
  obtain l s' where run: "watch_one F a s = (Inr l, s')" and ok': "handovers_ok s'"
    and same: "op_drivers s' = op_drivers s" "op_shifts s' = op_shifts s" "op_truckAssignments s' = op_truckAssignments s"
    and row: "\<exists>h. op_handovers s' = tbl_save ho_id h (op_handovers s) \<and> session_key h = (dp_id d, sf_id sf, sw_workDate (?win sf))
      \<and> ((\<exists>g \<in> set (op_handovers s). ho_id g = ho_id h \<and> session_key g = session_key h) \<or> ho_id h \<notin> ho_id ` set (op_handovers s))
      \<and> (ho_missedPickupNotifiedAt h \<noteq> None \<and> (\<forall>g. ?row d sf s = Some g \<longrightarrow> ho_status g \<noteq> HO_OPEN) \<and> ho_status h \<noteq> HO_OPEN
         \<or> ho_status h = HO_OPEN \<and> ho_lateDropoffNotifiedAt h \<noteq> None)"
  proof (cases "missed F (?win sf) (?row d sf s)")
    case True
    then have run: "watch_one F a s = markMissedPickup F d (sf_id sf) (sw_workDate (?win sf)) (ta_truckId a) s"
      using a(1) by (auto simp: watched_def watch_one_def Let_def split: option.splits if_splits)
    show thesis
    proof (cases "?row d sf s")
      case None
      let ?h = "missed_row F d (sf_id sf) (sw_workDate (?win sf)) (ta_truckId a) (next_id s)"
      have h: "ho_id ?h = next_id s" "session_key ?h = (dp_id d, sf_id sf, sw_workDate (?win sf))" "ho_status ?h \<noteq> HO_OPEN"
        "ho_missedPickupNotifiedAt ?h \<noteq> None" by (simp_all add: missed_row_def blank_session_def session_key_def)
      show thesis
        by (rule that [OF _ missed_row_ok [OF ok None, of F "ta_truckId a"]], simp_all only: run markMissedPickup_run None,
            simp_all, rule exI [of _ ?h]) (use h None fresh_handover [OF ok] in simp)
    next
      case (Some g)
      note g = session_of_Some [OF Some]
      have st: "ho_status g \<noteq> HO_OPEN" using True Some by (simp add: missed_def)
      show thesis
        by (rule that [OF _ marked_ok(1) [OF ok conjunct1 [OF g]]], simp_all only: run markMissedPickup_run Some,
            simp_all, rule exI [of _ "g\<lparr>ho_missedPickupNotifiedAt := Some (fw_now F)\<rparr>"]) (use g st Some in auto)
    qed
  next
    case False
    then obtain g where g: "?row d sf s = Some g" "overdue F (?win sf) g"
      using a(2) by (auto simp: alertable_def Let_def split: option.splits)
    note mem = session_of_Some [OF g(1)]
    have st: "ho_status g = HO_OPEN" using g(2) by (simp add: overdue_def)
    have run: "watch_one F a s = (Inr [Late_dropoff (ho_driverId g) (ho_shiftId g) (math_round (of_int (fw_now F
        - (sw_end (?win sf) + sw_toleranceMs (?win sf))) / 60000))],
        s\<lparr>op_handovers := tbl_save ho_id (g\<lparr>ho_lateDropoffNotifiedAt := Some (fw_now F)\<rparr>) (op_handovers s)\<rparr>)"
      using a(1) False g by (auto simp: watched_def watch_one_def Let_def markLateDropoff_def save_handover_def split: option.splits if_splits)
    show thesis
      by (rule that [OF run marked_ok(2) [OF ok conjunct1 [OF mem]]], simp_all, rule exI [of _ "g\<lparr>ho_lateDropoffNotifiedAt := Some (fw_now F)\<rparr>"])
        (use mem st in auto)
  qed
  from row obtain h where h: "op_handovers s' = tbl_save ho_id h (op_handovers s)" "session_key h = (dp_id d, sf_id sf, sw_workDate (?win sf))"
    "(\<exists>g \<in> set (op_handovers s). ho_id g = ho_id h \<and> session_key g = session_key h) \<or> ho_id h \<notin> ho_id ` set (op_handovers s)"
    "ho_missedPickupNotifiedAt h \<noteq> None \<and> (\<forall>g. ?row d sf s = Some g \<longrightarrow> ho_status g \<noteq> HO_OPEN) \<and> ho_status h \<noteq> HO_OPEN
       \<or> ho_status h = HO_OPEN \<and> ho_lateDropoffNotifiedAt h \<noteq> None" by (elim exE conjE) (rule that)
  note rows = session_after [OF ok ok' h(1,3)]
  have quiet: "\<not> missed F w (Some h)" "\<not> overdue F w h" for w using h(4) by (auto simp: missed_def overdue_def)
  have "\<not> alertable F d sf s'" using h(2) quiet by (simp add: alertable_def Let_def rows)
  moreover have "alertable F d' sf' s" if "alertable F d' sf' s'" for d' sf'
    using that quiet by (auto simp: alertable_def Let_def rows split: if_splits)
  moreover have "watched F b s' = watched F b s" for b by (simp add: watched_def find_driver_def find_shift_def same)
  ultimately show ?thesis using run same(3) by blast
qed

lemma watch_settles:
  assumes ok: "handovers_ok s"
  shows "\<exists>l s'. watch_one F a s = (Inr l, s') \<and> handovers_ok s' \<and> (\<forall>d sf. watched F a s = Some (d, sf) \<longrightarrow> \<not> alertable F d sf s')
    \<and> (\<forall>d' sf'. alertable F d' sf' s' \<longrightarrow> alertable F d' sf' s)
    \<and> (\<forall>b. watched F b s' = watched F b s) \<and> op_truckAssignments s' = op_truckAssignments s"
proof (cases "watched F a s")
  case None
  then show ?thesis using ok by (simp add: watch_none)
next
  case (Some p)
  obtain d sf where p: "p = (d, sf)" by (cases p)
  show ?thesis
  proof (cases "alertable F d sf s")
    case True
    then show ?thesis
      using alert_settles [OF ok _ True, of a] Some p keepsD [OF keeps_watch_one ok] by (metis option.inject prod.inject)
  qed (use Some p ok in \<open>simp add: watch_quiet\<close>)
qed

lemma watch_all_settles:
  "handovers_ok s \<Longrightarrow> \<exists>l s'. collect rows (watch_one F) s = (Inr l, s') \<and> handovers_ok s'
     \<and> (\<forall>a \<in> set rows. \<forall>d sf. watched F a s = Some (d, sf) \<longrightarrow> \<not> alertable F d sf s')
     \<and> (\<forall>d' sf'. alertable F d' sf' s' \<longrightarrow> alertable F d' sf' s)
     \<and> (\<forall>b. watched F b s' = watched F b s) \<and> op_truckAssignments s' = op_truckAssignments s"
proof (induction rows arbitrary: s)
  case (Cons a rows)
  obtain l1 s1 where one: "watch_one F a s = (Inr l1, s1)" "handovers_ok s1"
    "\<forall>d sf. watched F a s = Some (d, sf) \<longrightarrow> \<not> alertable F d sf s1" "\<forall>d' sf'. alertable F d' sf' s1 \<longrightarrow> alertable F d' sf' s"
    "\<forall>b. watched F b s1 = watched F b s" "op_truckAssignments s1 = op_truckAssignments s"
    using watch_settles [OF Cons.prems] by blast
  obtain l2 s2 where rest: "collect rows (watch_one F) s1 = (Inr l2, s2)" "handovers_ok s2"
    "\<forall>b \<in> set rows. \<forall>d sf. watched F b s1 = Some (d, sf) \<longrightarrow> \<not> alertable F d sf s2"
    "\<forall>d' sf'. alertable F d' sf' s2 \<longrightarrow> alertable F d' sf' s1" "\<forall>b. watched F b s2 = watched F b s1"
    "op_truckAssignments s2 = op_truckAssignments s1"
    using Cons.IH [OF one(2)] by blast
  have run: "collect (a # rows) (watch_one F) s = (Inr (l1 # l2), s2)"
    by (simp add: bind_Inr [where m = "watch_one F a", OF one(1)] bind_Inr [where m = "collect rows (watch_one F)", OF rest(1)])
  show ?case
    by (rule exI [of _ "l1 # l2"], rule exI [of _ s2]) (use run one rest in auto)
qed simp

lemma quiet_run:
  "\<forall>a \<in> set rows. \<forall>d sf. watched F a s = Some (d, sf) \<longrightarrow> \<not> alertable F d sf s
    \<Longrightarrow> collect rows (watch_one F) s = (Inr (map (\<lambda>_. []) rows), s)"
proof (induction rows)
  case (Cons a rows)
  have "watch_one F a s = (Inr [], s)" using Cons.prems watch_none watch_quiet by (cases "watched F a s") auto
  then show ?case using Cons by (simp add: bind_Inr [where m = "watch_one F a"] bind_Inr [where m = "collect rows (watch_one F)"])
qed simp


section \<open>A concrete day\<close>

definition ex_session :: truck_handover where
  "ex_session = opened_session 0 None ex_driver \<lparr>tk_id = ''t1'', tk_odooTruckId = Some 5, tk_warehouseId = None, tk_plateNumber = ''P'',
     tk_maxPayloadKg = Some 1000, tk_status = TK_ACTIVE\<rparr> (blank_session ''h1'' ''d1'' ''t1'' ''s1'' 0 0)"

definition ex_day :: shift where
  "ex_day = \<lparr>sf_id = ''s1'', sf_odooShiftId = Some 6, sf_name = ''day'', sf_isDriver = True, sf_isGlobal = True,
     sf_odooWarehouseIds = [], sf_isActive = True, sf_startTime = 0, sf_endTime = 1, sf_tolerance = 0\<rparr>"

definition ex_yard :: yard where
  "ex_yard = \<lparr>yd_fleet = ex_fleet\<lparr>op_shifts := [ex_day], op_handovers := [ex_session]\<rparr>, yd_changes = [], yd_problems = [], yd_jobs = []\<rparr>"

lemma ex_handovers: "handovers_ok (yd_fleet ex_yard)"
proof -
  have "db_uuid ex_store n \<noteq> ''h1''" for n by (cases n) (simp_all add: ex_store_def)
  then show ?thesis
    using ex_uuid_inj
    by (simp add: handovers_ok_def one_holder_def ex_yard_def ex_fleet_def ex_goods_def ex_session_def blank_session_def)
qed

theorem one_holder_per_truck_witness:
  "length (holders ''t1'' (after_yard ex_world (Hand_back ''drv'' ''ok'' None None) ex_yard)) \<le> 1"
  by (rule one_holder_per_truck [OF ex_handovers, THEN conjunct1]) (intro yard_reach.intros)


theorem truck_comes_back_witness:
  "ho_status (closing ex_world ex_day ''ok'' None None ex_session) = HO_CLOSED
    \<and> fst (dropoff ex_world ''drv'' ''ok'' None None ex_yard) = Inr (closing ex_world ex_day ''ok'' None None ex_session)"
proof -
  have run: "fw_zone ex_world = steady 0" "find_shift (ho_shiftId ex_session) (yd_fleet ex_yard) = Some ex_day" "clock_ok ex_day"
    "driver_of_account ''drv'' (yd_fleet ex_yard) = Some ex_driver" "account_active ''drv'' (yd_fleet ex_yard)"
    "newest_open (dp_id ex_driver) (yd_fleet ex_yard) = Some ex_session" "trim ''ok'' \<noteq> []"
    by (simp_all add: ex_world_def find_shift_def ex_session_def blank_session_def opened_session_def ex_yard_def ex_day_def clock_ok_def
      driver_of_account_def ex_fleet_def ex_driver_def account_active_def ex_goods_def newest_open_def)
      (simp add: trim_def is_space_def)
  have "sf_startTime ex_day < sf_endTime ex_day \<and> sf_endTime ex_day * 1000 \<le> (fw_now ex_world + 0 * 1000) mod day_ms"
    by (simp add: ex_day_def ex_world_def ex_clock_def)
  then show ?thesis using truck_comes_back [OF run refl ex_handovers, of None None] by auto
qed

end
