(* ===== verification/ShiftChanges.thy ===== *)
theory ShiftChanges
  imports Handovers
begin

text \<open>
  A driver asks to move to another shift (\<open>truck/shift-change-request.service.ts\<close>,
  \<open>shift/shift.service.ts\<close>), reports a problem of his truck (\<open>truck/truck-problem.service.ts\<close>), the
  manager decides in Odoo, and two reconciliations make up for lost messages in either direction
  (\<open>odoo-sync/shift-change-state-reconcile.service.ts\<close>, \<open>odoo-sync/push-reconcile.service.ts\<close>).
\<close>

section \<open>Shifts a driver may ask for\<close>

definition my_warehouse :: "collector_profile \<Rightarrow> ops \<Rightarrow> int option" where
  "my_warehouse d s = Option.bind (dp_warehouseId d) (\<lambda>w. Option.bind (tbl_find wh_id w (db_warehouses (op_shop s))) wh_odooWarehouseId)"

definition open_to :: "collector_profile \<Rightarrow> ops \<Rightarrow> shift \<Rightarrow> bool" where
  "open_to d s sf \<longleftrightarrow> sf_isGlobal sf \<or> (case my_warehouse d s of None \<Rightarrow> False | Some k \<Rightarrow> List.member (sf_odooWarehouseIds sf) k)"

definition requestable :: "collector_profile \<Rightarrow> ops \<Rightarrow> shift list" where
  "requestable d s = filter (\<lambda>sf. sf_id sf \<noteq> dp_shiftId d \<and> open_to d s sf)
     (filter (\<lambda>sf. sf_isDriver sf \<and> sf_isActive sf) (op_shifts s))"

definition availableShifts :: "ident \<Rightarrow> shift list fleet_action" where
  "availableShifts accountId = bind (active_driver accountId) (\<lambda>d. reads (\<lambda>s. sort_key sf_name (requestable d s)))"

definition listAvailableShifts :: "ident \<Rightarrow> shift list fleet_action" where
  "listAvailableShifts accountId =
     bind (reads (driver_of_account accountId)) (\<lambda>driver. case driver of None \<Rightarrow> throw NotFound | Some d \<Rightarrow>
     reads (\<lambda>s. sort_key sf_startTime (requestable d s)))"

definition listOnboardingShifts :: "ops \<Rightarrow> shift list" where
  "listOnboardingShifts s = sort_key sf_startTime (filter (\<lambda>sf. sf_isDriver sf \<and> sf_isActive sf \<and> sf_isGlobal sf) (op_shifts s))"

definition getDriverShiftOrThrow :: "ident \<Rightarrow> shift fleet_action" where
  "getDriverShiftOrThrow i =
     bind (reads (find_shift i)) (\<lambda>found. case found of None \<Rightarrow> throw NotFound | Some sf \<Rightarrow>
     bind (refuse_if (\<not> sf_isDriver sf \<or> \<not> sf_isActive sf \<or> \<not> sf_isGlobal sf) NotFound) (\<lambda>_. ret sf))"

section \<open>Requests\<close>

definition ACTIVE_STATES :: "change_status list" where
  "ACTIVE_STATES = [CH_PENDING, CH_PROCESSING]"

definition find_change :: "ident \<Rightarrow> yard \<Rightarrow> shift_change option" where
  "find_change i y = tbl_find sc_id i (yd_changes y)"

definition has_active_change :: "ident \<Rightarrow> yard \<Rightarrow> bool" where
  "has_active_change driverId y = list_ex (\<lambda>x. sc_driverId x = driverId \<and> List.member ACTIVE_STATES (sc_status x)) (yd_changes y)"

definition save_change :: "fleet_world \<Rightarrow> shift_change \<Rightarrow> unit yard_action" where
  "save_change F x = writes (\<lambda>y. y\<lparr>yd_changes := tbl_save sc_id (x\<lparr>sc_updatedAt := fw_now F\<rparr>) (yd_changes y)\<rparr>)"

definition change_create :: "fleet_world \<Rightarrow> ident \<Rightarrow> ident \<Rightarrow> string \<Rightarrow> shift_change yard_action" where
  "change_create F accountId shiftId reason =
     bind (on_fleet (active_driver accountId)) (\<lambda>d.
     bind (reads_fleet (assignment_of (dp_id d))) (\<lambda>mine.
     bind (refuse_if (mine = None) BadRequest) (\<lambda>_.
     bind (reads (has_active_change (dp_id d))) (\<lambda>twice.
     bind (refuse_if twice Conflict) (\<lambda>_.
     bind (reads_fleet (find_shift shiftId)) (\<lambda>shift. case shift of None \<Rightarrow> throw BadRequest | Some sf \<Rightarrow>
     bind (refuse_if (\<not> sf_isDriver sf \<or> \<not> sf_isActive sf) BadRequest) (\<lambda>_.
     bind (refuse_if (sf_id sf = dp_shiftId d) BadRequest) (\<lambda>_.
     bind (reads_fleet (\<lambda>s. open_to d s sf)) (\<lambda>mine_too.
     bind (refuse_if (\<not> mine_too) BadRequest) (\<lambda>_.
     bind (on_fleet new_id) (\<lambda>i.
     let x = \<lparr>sc_id = i, sc_odooRequestId = None, sc_driverId = dp_id d, sc_truckId = None, sc_shiftId = sf_id sf,
       sc_reason = Some (trim reason), sc_status = CH_PENDING, sc_rejectionReason = None, sc_createdAt = fw_now F,
       sc_updatedAt = fw_now F\<rparr> in
     bind (save_change F x) (\<lambda>_.
     bind (enqueue_yard (PUSH_SHIFT_CHANGE i)) (\<lambda>_. ret x)))))))))))))"

definition changes_listed :: "ident \<Rightarrow> nat \<Rightarrow> nat \<Rightarrow> (shift_change list \<times> nat) yard_action" where
  "changes_listed accountId page limit =
     bind (reads_fleet (driver_of_account accountId)) (\<lambda>driver. case driver of None \<Rightarrow> throw NotFound | Some d \<Rightarrow>
     reads (\<lambda>y. let mine = sort_key (\<lambda>x. - sc_createdAt x) (filter (\<lambda>x. sc_driverId x = dp_id d) (yd_changes y))
       in (take limit (drop ((page - 1) * limit) mine), length mine)))"

definition change_cancel :: "ident \<Rightarrow> ident \<Rightarrow> unit yard_action" where
  "change_cancel accountId requestId =
     bind (reads_fleet (driver_of_account accountId)) (\<lambda>driver. case driver of None \<Rightarrow> throw NotFound | Some d \<Rightarrow>
     bind (reads (find_change requestId)) (\<lambda>found. case found of None \<Rightarrow> throw NotFound | Some x \<Rightarrow>
     bind (refuse_if (sc_driverId x \<noteq> dp_id d) Forbidden) (\<lambda>_.
     bind (refuse_if (sc_status x \<noteq> CH_PENDING) BadRequest) (\<lambda>_.
     bind (enqueue_yard (CANCEL_SHIFT_CHANGE (sc_id x))) (\<lambda>_.
     writes (\<lambda>y. y\<lparr>yd_changes := filter (\<lambda>z. sc_id z \<noteq> sc_id x) (yd_changes y)\<rparr>))))))"

section \<open>The decision of the manager\<close>

text \<open>One row per driver and per slot of a truck; the database refuses a second.\<close>

definition link_clash :: "truck_assignment \<Rightarrow> truck_assignment \<Rightarrow> bool" where
  "link_clash a b \<longleftrightarrow> ta_id b \<noteq> ta_id a \<and> (ta_driverId b = ta_driverId a \<or> ta_truckId b = ta_truckId a \<and> ta_shiftId b = ta_shiftId a)"

definition save_link :: "truck_assignment \<Rightarrow> unit fleet_action" where
  "save_link a =
     bind (reads (\<lambda>s. list_ex (link_clash a) (op_truckAssignments s))) (\<lambda>clash.
     bind (refuse_if clash Crash) (\<lambda>_.
     writes (\<lambda>s. s\<lparr>op_truckAssignments := tbl_save ta_id a (op_truckAssignments s)\<rparr>)))"

definition move_driver :: "fleet_world \<Rightarrow> ident \<Rightarrow> truck \<Rightarrow> ident \<Rightarrow> unit fleet_action" where
  "move_driver F driverId tk shiftId =
     bind (reads (assignment_of driverId)) (\<lambda>mine.
     bind (case mine of Some a \<Rightarrow> ret a
           | None \<Rightarrow> bind new_id (\<lambda>i. ret \<lparr>ta_id = i, ta_truckId = [], ta_driverId = driverId, ta_shiftId = [], ta_assignedAt = fw_now F\<rparr>)) (\<lambda>a.
     save_link (a\<lparr>ta_truckId := tk_id tk, ta_shiftId := shiftId\<rparr>)))"

definition set_driver_shift :: "ident \<Rightarrow> ident \<Rightarrow> unit fleet_action" where
  "set_driver_shift driverId shiftId = writes (\<lambda>s. s\<lparr>op_drivers := map (\<lambda>d. if dp_id d = driverId then d\<lparr>dp_shiftId := shiftId\<rparr> else d)
     (op_drivers s)\<rparr>)"

definition accept_change :: "fleet_world \<Rightarrow> int option \<Rightarrow> shift_change \<Rightarrow> unit yard_action" where
  "accept_change F truckOdooId x =
     bind (reads_fleet (\<lambda>s. Option.bind truckOdooId (\<lambda>k. find (\<lambda>tk. tk_odooTruckId tk = Some k) (op_trucks s)))) (\<lambda>truck.
     bind (case truck of None \<Rightarrow> ret () | Some tk \<Rightarrow> on_fleet (move_driver F (sc_driverId x) tk (sc_shiftId x))) (\<lambda>_.
     bind (on_fleet (set_driver_shift (sc_driverId x) (sc_shiftId x))) (\<lambda>_.
     save_change F (x\<lparr>sc_truckId := (case truck of None \<Rightarrow> sc_truckId x | Some tk \<Rightarrow> Some (tk_id tk)), sc_status := CH_ACCEPTED\<rparr>))))"

definition applyShiftChangeDecision :: "fleet_world \<Rightarrow> change_decision \<Rightarrow> unit yard_action" where
  "applyShiftChangeDecision F p =
     bind (reads (find_change (de_requestId p))) (\<lambda>found. case found of None \<Rightarrow> ret () | Some x \<Rightarrow>
     if List.member [CH_ACCEPTED, CH_REJECTED] (sc_status x) then ret ()
     else case de_status p of
       D_PROCESSING \<Rightarrow> if sc_status x = CH_PENDING then save_change F (x\<lparr>sc_status := CH_PROCESSING\<rparr>) else ret ()
     | D_REJECTED \<Rightarrow> save_change F (x\<lparr>sc_status := CH_REJECTED, sc_rejectionReason := de_rejectionReason p\<rparr>)
     | D_ACCEPTED \<Rightarrow> accept_change F (de_truckOdooId p) x)"

section \<open>Decisions that were lost\<close>

record odoo_change =
  oc_requestId :: ident
  oc_state :: change_status
  oc_truckOdooId :: "int option"
  oc_rejectionReason :: "string option"

definition CHANGE_GRACE_MS :: time where
  "CHANGE_GRACE_MS = 5 * 60 * 1000"

definition CHANGE_BATCH :: nat where
  "CHANGE_BATCH = 100"

definition decision_of :: "change_status \<Rightarrow> decision option" where
  "decision_of st = (case st of CH_PENDING \<Rightarrow> None | CH_PROCESSING \<Rightarrow> Some D_PROCESSING | CH_ACCEPTED \<Rightarrow> Some D_ACCEPTED
     | CH_REJECTED \<Rightarrow> Some D_REJECTED)"

definition open_changes :: "time \<Rightarrow> yard \<Rightarrow> shift_change list" where
  "open_changes now y = take CHANGE_BATCH (filter (\<lambda>x. List.member ACTIVE_STATES (sc_status x)
     \<and> sc_updatedAt x < now - CHANGE_GRACE_MS) (yd_changes y))"

text \<open>The answer of Odoo is looked up by the last row of an id, as the map in the code is filled.\<close>

definition replayed :: "odoo_change list \<Rightarrow> shift_change \<Rightarrow> change_decision option" where
  "replayed states x =
     (case find (\<lambda>o'. oc_requestId o' = sc_id x) (rev states) of None \<Rightarrow> None
      | Some o' \<Rightarrow> if oc_state o' = sc_status x then None
          else map_option (\<lambda>d. \<lparr>de_requestId = sc_id x, de_status = d, de_truckOdooId = oc_truckOdooId o',
            de_rejectionReason = oc_rejectionReason o'\<rparr>) (decision_of (oc_state o')))"

definition change_reconcile :: "fleet_world \<Rightarrow> (ident list \<Rightarrow> odoo_change list option) \<Rightarrow> nat yard_action" where
  "change_reconcile F odoo =
     bind (reads (open_changes (fw_now F))) (\<lambda>due.
     if due = [] then ret 0
     else case odoo (map sc_id due) of None \<Rightarrow> ret 0
     | Some states \<Rightarrow>
         let decisions = List.map_filter (replayed states) due in
         bind (for_each decisions (\<lambda>d. enqueue_yard (APPLY_SHIFT_CHANGE_DECISION d))) (\<lambda>_. ret (length decisions)))"

section \<open>Problems of a truck\<close>

text \<open>The images are uploaded before anything is written; \<open>None\<close> is an upload that was refused.\<close>

definition problem_create :: "fleet_world \<Rightarrow> ident \<Rightarrow> string \<Rightarrow> string list option \<Rightarrow> truck_problem yard_action" where
  "problem_create F accountId reason images =
     bind (on_fleet (active_driver accountId)) (\<lambda>d. case images of None \<Rightarrow> throw BadRequest | Some urls \<Rightarrow>
     bind (on_fleet new_id) (\<lambda>i.
     let x = \<lparr>tp_id = i, tp_odooProblemId = None, tp_driverId = dp_id d, tp_reason = trim reason, tp_images = urls, tp_createdAt = fw_now F\<rparr> in
     bind (writes (\<lambda>y. y\<lparr>yd_problems := tbl_save tp_id x (yd_problems y)\<rparr>)) (\<lambda>_.
     bind (enqueue_yard (PUSH_TRUCK_PROBLEM i)) (\<lambda>_. ret x))))"

definition problems_listed :: "ident \<Rightarrow> nat \<Rightarrow> nat \<Rightarrow> (truck_problem list \<times> nat) yard_action" where
  "problems_listed accountId page limit =
     bind (reads_fleet (driver_of_account accountId)) (\<lambda>driver. case driver of None \<Rightarrow> throw NotFound | Some d \<Rightarrow>
     reads (\<lambda>y. let mine = sort_key (\<lambda>x. - tp_createdAt x) (filter (\<lambda>x. tp_driverId x = dp_id d) (yd_problems y))
       in (take limit (drop ((page - 1) * limit) mine), length mine)))"

end
