(* ===== verification/FleetMirror.thy ===== *)
theory FleetMirror
  imports Handovers
begin

text \<open>
  The mirror of the fleet that Odoo owns: \<open>syncFleet\<close> of \<open>odoo-sync/odoo-sync.processor.ts\<close>.  It reads
  the shifts, the trucks and the driver assignments of Odoo and brings the local tables in line with
  them.  The rows here have the columns the mirror reads or writes; what Odoo answers is an argument.
\<close>

section \<open>State\<close>

record mirror_shift =
  ms_id :: ident
  ms_odooShiftId :: "int option"
  ms_name :: string
  ms_isDriver :: bool
  ms_isGlobal :: bool
  ms_odooWarehouseIds :: "int list"
  ms_odooWarehouseId :: "int option"
  ms_isActive :: bool
  ms_startTime :: "int option"
  ms_endTime :: "int option"
  ms_tolerance :: int

datatype truck_type = COLLECTION_TRUCK | DELIVERY_TRUCK

record mirror_truck =
  mt_id :: ident
  mt_odooTruckId :: "int option"
  mt_warehouseId :: "ident option"
  mt_truckType :: truck_type
  mt_model :: string
  mt_year :: int
  mt_plateNumber :: "string option"
  mt_maxPayloadKg :: "rat option"
  mt_lengthM :: "rat option"
  mt_widthM :: "rat option"
  mt_status :: truck_status

record mirror_row =
  mr_id :: ident
  mr_odooAssignmentId :: "int option"
  mr_driverId :: ident
  mr_truckId :: ident
  mr_shiftId :: ident
  mr_assignedAt :: time

record mirror_driver =
  md_id :: ident
  md_shiftId :: "ident option"

record mirror_warehouse =
  mw_id :: ident
  mw_odooWarehouseId :: int
  mw_name :: string

datatype truck_notice = Truck_added string "string option" | Truck_moved string "string option"

text \<open>\<open>mi_history\<close> lists the shifts that old requests and sessions still refer to.\<close>

record mirror =
  mi_shifts :: "mirror_shift list"
  mi_trucks :: "mirror_truck list"
  mi_rows :: "mirror_row list"
  mi_drivers :: "mirror_driver list"
  mi_warehouses :: "mirror_warehouse list"
  mi_history :: "ident list"
  mi_notices :: "truck_notice list"
  mi_uuid :: "nat \<Rightarrow> ident"
  mi_next :: nat

type_synonym 'a mirror_action = "(mirror, 'a) act"

text \<open>What Odoo answers: \<open>None\<close> where a field is not set.\<close>

record odoo_shift =
  os_id :: int
  os_name :: string
  os_startTime :: "rat option"
  os_endTime :: "rat option"
  os_isDriver :: bool
  os_isGlobal :: bool
  os_warehouseIds :: "int list"
  os_tolerance :: "int option"

record odoo_truck =
  ot_id :: int
  ot_isDelivery :: bool
  ot_warehouseId :: "int option"
  ot_model :: "string option"
  ot_year :: "int option"
  ot_plateNumber :: "string option"
  ot_maxPayloadKg :: "rat option"
  ot_lengthM :: "rat option"
  ot_widthM :: "rat option"
  ot_isActive :: "bool option"

record odoo_assignment =
  oa_id :: int
  oa_driverId :: ident
  oa_truckId :: int
  oa_shiftId :: int

record odoo_fleet =
  of_shifts :: "odoo_shift list"
  of_trucks :: "odoo_truck list"
  of_assignments :: "odoo_assignment list"
  of_now :: time

definition mirror_id :: "ident mirror_action" where
  "mirror_id = (\<lambda>m. (Inr (mi_uuid m (mi_next m)), m\<lparr>mi_next := mi_next m + 1\<rparr>))"

section \<open>Shifts\<close>

text \<open>Hours as a fraction, to the nearest minute, in seconds of the day; midnight is the start of the day.\<close>

definition odooFloatToTime :: "rat option \<Rightarrow> int option" where
  "odooFloatToTime v = (case v of None \<Rightarrow> None
     | Some f \<Rightarrow> if f < 0 then None else Some (math_round (f * 60) mod (24 * 60) * 60))"

text \<open>The name and the Odoo id of a shift are unique, its times are mandatory.\<close>

definition save_mirror_shift :: "mirror_shift \<Rightarrow> unit mirror_action" where
  "save_mirror_shift x =
     bind (reads (\<lambda>m. list_ex (\<lambda>y. ms_id y \<noteq> ms_id x \<and> (ms_name y = ms_name x
       \<or> ms_odooShiftId x \<noteq> None \<and> ms_odooShiftId y = ms_odooShiftId x)) (mi_shifts m))) (\<lambda>clash.
     bind (refuse_if (clash \<or> ms_startTime x = None \<or> ms_endTime x = None) Crash) (\<lambda>_.
     writes (\<lambda>m. m\<lparr>mi_shifts := tbl_save ms_id x (mi_shifts m)\<rparr>)))"

definition mirrored_shift :: "odoo_shift \<Rightarrow> mirror_shift \<Rightarrow> mirror_shift" where
  "mirrored_shift ox x =
     (let ids = (if os_isGlobal ox then [] else os_warehouseIds ox) in
      x\<lparr>ms_odooShiftId := Some (os_id ox), ms_name := os_name ox,
        ms_startTime := (case odooFloatToTime (os_startTime ox) of None \<Rightarrow> ms_startTime x | t \<Rightarrow> t),
        ms_endTime := (case odooFloatToTime (os_endTime ox) of None \<Rightarrow> ms_endTime x | t \<Rightarrow> t),
        ms_isGlobal := os_isGlobal ox, ms_odooWarehouseIds := ids,
        ms_odooWarehouseId := (case ids of [] \<Rightarrow> None | i # _ \<Rightarrow> Some i),
        ms_tolerance := or_else (os_tolerance ox) 0, ms_isDriver := os_isDriver ox, ms_isActive := True\<rparr>)"

definition known_shift :: "odoo_shift \<Rightarrow> mirror \<Rightarrow> mirror_shift option" where
  "known_shift ox m = (case find (\<lambda>x. ms_odooShiftId x = Some (os_id ox)) (mi_shifts m) of
     None \<Rightarrow> find (\<lambda>x. ms_name x = os_name ox) (mi_shifts m) | x \<Rightarrow> x)"

definition sync_shift :: "odoo_shift \<Rightarrow> unit mirror_action" where
  "sync_shift ox =
     bind (reads (known_shift ox)) (\<lambda>found.
     bind (case found of Some x \<Rightarrow> ret x
           | None \<Rightarrow> bind mirror_id (\<lambda>i. ret \<lparr>ms_id = i, ms_odooShiftId = None, ms_name = os_name ox, ms_isDriver = True,
               ms_isGlobal = False, ms_odooWarehouseIds = [], ms_odooWarehouseId = None, ms_isActive = True,
               ms_startTime = None, ms_endTime = None, ms_tolerance = 0\<rparr>)) (\<lambda>x.
     save_mirror_shift (mirrored_shift ox x)))"

section \<open>Trucks\<close>

definition save_mirror_truck :: "mirror_truck \<Rightarrow> unit mirror_action" where
  "save_mirror_truck x =
     bind (reads (\<lambda>m. list_ex (\<lambda>y. mt_id y \<noteq> mt_id x \<and> (mt_plateNumber y = mt_plateNumber x
       \<or> mt_odooTruckId x \<noteq> None \<and> mt_odooTruckId y = mt_odooTruckId x)) (mi_trucks m))) (\<lambda>clash.
     bind (refuse_if (clash \<or> mt_plateNumber x = None) Crash) (\<lambda>_.
     writes (\<lambda>m. m\<lparr>mi_trucks := tbl_save mt_id x (mi_trucks m)\<rparr>)))"

text \<open>Odoo answers 0 for a length that was never recorded.\<close>

definition recorded :: "rat option \<Rightarrow> rat option" where
  "recorded v = (if v = Some 0 then None else v)"

definition mirrored_truck :: "odoo_truck \<Rightarrow> mirror_warehouse option \<Rightarrow> mirror_truck \<Rightarrow> mirror_truck" where
  "mirrored_truck ox w x = x\<lparr>mt_truckType := (if ot_isDelivery ox then DELIVERY_TRUCK else COLLECTION_TRUCK),
     mt_model := or_else (ot_model ox) (mt_model x), mt_year := or_else (ot_year ox) (mt_year x),
     mt_plateNumber := (case ot_plateNumber ox of None \<Rightarrow> mt_plateNumber x | p \<Rightarrow> p),
     mt_maxPayloadKg := (case ot_maxPayloadKg ox of None \<Rightarrow> mt_maxPayloadKg x | p \<Rightarrow> p),
     mt_lengthM := recorded (ot_lengthM ox), mt_widthM := recorded (ot_widthM ox),
     mt_warehouseId := map_option mw_id w,
     mt_status := (if ot_isActive ox = Some False then TK_DISABLED
                   else if mt_status x = TK_DISABLED then TK_ACTIVE else mt_status x)\<rparr>"

definition announce :: "bool \<Rightarrow> ident option \<Rightarrow> mirror_truck \<Rightarrow> mirror_warehouse option \<Rightarrow> unit mirror_action" where
  "announce isNew prev x w =
     (let plate = or_else (mt_plateNumber x) []; name = map_option mw_name w in
      if isNew then writes (\<lambda>m. m\<lparr>mi_notices := mi_notices m @ [Truck_added plate name]\<rparr>)
      else if prev \<noteq> mt_warehouseId x then writes (\<lambda>m. m\<lparr>mi_notices := mi_notices m @ [Truck_moved plate name]\<rparr>)
      else ret ())"

definition sync_truck :: "odoo_truck \<Rightarrow> unit mirror_action" where
  "sync_truck ox =
     (if ot_isDelivery ox then ret ()
      else
        bind (reads (\<lambda>m. (Option.bind (ot_warehouseId ox) (\<lambda>k. find (\<lambda>w. mw_odooWarehouseId w = k) (mi_warehouses m)),
          find (\<lambda>x. mt_odooTruckId x = Some (ot_id ox)) (mi_trucks m)))) (\<lambda>(w, found).
        bind (case found of Some x \<Rightarrow> ret x
              | None \<Rightarrow> bind mirror_id (\<lambda>i. ret \<lparr>mt_id = i, mt_odooTruckId = Some (ot_id ox), mt_warehouseId = None,
                  mt_truckType = COLLECTION_TRUCK, mt_model = [], mt_year = 0, mt_plateNumber = None, mt_maxPayloadKg = None,
                  mt_lengthM = None, mt_widthM = None, mt_status = TK_ACTIVE\<rparr>)) (\<lambda>x.
        let x' = mirrored_truck ox w x in
        bind (save_mirror_truck x') (\<lambda>_. announce (found = None) (Option.bind found mt_warehouseId) x' w))))"

text \<open>Delivery trucks mirrored before the types were told apart go, and their assignments with them.\<close>

definition purge_delivery :: "unit mirror_action" where
  "purge_delivery = writes (\<lambda>m. let gone = map mt_id (filter (\<lambda>x. mt_truckType x = DELIVERY_TRUCK) (mi_trucks m)) in
     m\<lparr>mi_trucks := filter (\<lambda>x. mt_truckType x \<noteq> DELIVERY_TRUCK) (mi_trucks m),
       mi_rows := filter (\<lambda>r. \<not> List.member gone (mr_truckId r)) (mi_rows m)\<rparr>)"

section \<open>Assignments\<close>

text \<open>One row per driver, per slot (truck and shift) and per assignment of Odoo; the database refuses a second.\<close>

definition row_clash :: "mirror_row \<Rightarrow> mirror_row \<Rightarrow> bool" where
  "row_clash r x \<longleftrightarrow> mr_id x \<noteq> mr_id r \<and> (mr_driverId x = mr_driverId r
     \<or> mr_truckId x = mr_truckId r \<and> mr_shiftId x = mr_shiftId r
     \<or> mr_odooAssignmentId r \<noteq> None \<and> mr_odooAssignmentId x = mr_odooAssignmentId r)"

definition save_row :: "mirror_row \<Rightarrow> unit mirror_action" where
  "save_row r =
     bind (reads (\<lambda>m. list_ex (row_clash r) (mi_rows m))) (\<lambda>clash.
     bind (refuse_if clash Crash) (\<lambda>_.
     writes (\<lambda>m. m\<lparr>mi_rows := tbl_save mr_id r (mi_rows m)\<rparr>)))"

definition resolved :: "odoo_assignment \<Rightarrow> mirror \<Rightarrow> (mirror_driver \<times> mirror_truck \<times> mirror_shift) option" where
  "resolved ox m = (case (tbl_find md_id (oa_driverId ox) (mi_drivers m),
       find (\<lambda>x. mt_odooTruckId x = Some (oa_truckId ox)) (mi_trucks m),
       find (\<lambda>x. ms_odooShiftId x = Some (oa_shiftId ox)) (mi_shifts m)) of
     (Some d, Some tk, Some sf) \<Rightarrow> Some (d, tk, sf) | _ \<Rightarrow> None)"

definition known_row :: "odoo_assignment \<Rightarrow> mirror_driver \<Rightarrow> mirror \<Rightarrow> mirror_row option" where
  "known_row ox d m = (case find (\<lambda>r. mr_odooAssignmentId r = Some (oa_id ox)) (mi_rows m) of
     None \<Rightarrow> find (\<lambda>r. mr_driverId r = md_id d) (mi_rows m) | r \<Rightarrow> r)"

definition linked_row :: "odoo_assignment \<Rightarrow> mirror_driver \<Rightarrow> mirror_truck \<Rightarrow> mirror_shift \<Rightarrow> mirror_row \<Rightarrow> mirror_row" where
  "linked_row ox d tk sf r = r\<lparr>mr_odooAssignmentId := Some (oa_id ox), mr_driverId := md_id d, mr_truckId := mt_id tk, mr_shiftId := ms_id sf\<rparr>"

definition align_driver :: "mirror_driver \<Rightarrow> ident \<Rightarrow> unit mirror_action" where
  "align_driver d shiftId = (if md_shiftId d = Some shiftId then ret ()
     else writes (\<lambda>m. m\<lparr>mi_drivers := tbl_save md_id (d\<lparr>md_shiftId := Some shiftId\<rparr>) (mi_drivers m)\<rparr>))"

text \<open>Returns the id of the row that was written, if the assignment can be mirrored yet.\<close>

definition sync_assignment :: "time \<Rightarrow> odoo_assignment \<Rightarrow> ident option mirror_action" where
  "sync_assignment now ox =
     bind (reads (resolved ox)) (\<lambda>parts. case parts of None \<Rightarrow> ret None | Some (d, tk, sf) \<Rightarrow>
     bind (reads (known_row ox d)) (\<lambda>found.
     bind (case found of Some r \<Rightarrow> ret r
           | None \<Rightarrow> bind mirror_id (\<lambda>i. ret \<lparr>mr_id = i, mr_odooAssignmentId = None, mr_driverId = [], mr_truckId = [],
               mr_shiftId = [], mr_assignedAt = now\<rparr>)) (\<lambda>r.
     bind (save_row (linked_row ox d tk sf r)) (\<lambda>_.
     bind (align_driver d (ms_id sf)) (\<lambda>_. ret (Some (mr_id r)))))))"

definition drop_unseen :: "ident list \<Rightarrow> unit mirror_action" where
  "drop_unseen seen = writes (\<lambda>m. m\<lparr>mi_rows := filter (\<lambda>r. mr_odooAssignmentId r = None \<or> List.member seen (mr_id r)) (mi_rows m)\<rparr>)"

definition sync_assignments :: "odoo_fleet \<Rightarrow> unit mirror_action" where
  "sync_assignments W = bind (collect (of_assignments W) (sync_assignment (of_now W))) (\<lambda>seen.
     drop_unseen (List.map_filter id seen))"

section \<open>What is left of removed shifts, and the status of the trucks\<close>

definition shift_referenced :: "ident \<Rightarrow> mirror \<Rightarrow> bool" where
  "shift_referenced i m \<longleftrightarrow> list_ex (\<lambda>r. mr_shiftId r = i) (mi_rows m) \<or> list_ex (\<lambda>d. md_shiftId d = Some i) (mi_drivers m)
     \<or> List.member (mi_history m) i"

definition retire_shift :: "mirror_shift \<Rightarrow> unit mirror_action" where
  "retire_shift x = writes (\<lambda>m. if shift_referenced (ms_id x) m
     then (if ms_isActive x then m\<lparr>mi_shifts := tbl_save ms_id (x\<lparr>ms_isActive := False\<rparr>) (mi_shifts m)\<rparr> else m)
     else m\<lparr>mi_shifts := filter (\<lambda>y. ms_id y \<noteq> ms_id x) (mi_shifts m)\<rparr>)"

definition retire_shifts :: "odoo_fleet \<Rightarrow> unit mirror_action" where
  "retire_shifts W =
     bind (reads (\<lambda>m. filter (\<lambda>x. case ms_odooShiftId x of None \<Rightarrow> False
       | Some k \<Rightarrow> \<not> List.member (map os_id (of_shifts W)) k) (mi_shifts m))) (\<lambda>gone.
     for_each gone retire_shift)"

definition rows_on :: "ident \<Rightarrow> mirror \<Rightarrow> nat" where
  "rows_on truckId m = length (filter (\<lambda>r. mr_truckId r = truckId) (mi_rows m))"

definition derive_statuses :: "unit mirror_action" where
  "derive_statuses = writes (\<lambda>m. m\<lparr>mi_trucks := map (\<lambda>x. if mt_status x = TK_DISABLED then x
     else x\<lparr>mt_status := derived_status (rows_on (mt_id x) m) (length (mi_shifts m))\<rparr>) (mi_trucks m)\<rparr>)"

definition syncFleet :: "odoo_fleet \<Rightarrow> (nat \<times> nat \<times> nat) mirror_action" where
  "syncFleet W =
     bind (for_each (of_shifts W) sync_shift) (\<lambda>_.
     bind (for_each (of_trucks W) sync_truck) (\<lambda>_.
     bind purge_delivery (\<lambda>_.
     bind (sync_assignments W) (\<lambda>_.
     bind (retire_shifts W) (\<lambda>_.
     bind derive_statuses (\<lambda>_.
     ret (length (of_shifts W), length (of_trucks W), length (of_assignments W))))))))"

end
