(* ===== verification/DriverDecisions.thy ===== *)
theory DriverDecisions
  imports FleetMirror
begin

text \<open>
  The review of a driver, decided in Odoo: the job that applies a decision
  (\<open>applyDriverDecision\<close> of \<open>odoo-sync/odoo-sync.processor.ts\<close>) and the reconciliation that replays
  decisions which were lost (\<open>odoo-sync/driver-state-reconcile.service.ts\<close>).  The texts of the
  notifications are left out; that one is sent, and about what, is kept.
\<close>

section \<open>State\<close>

datatype media_status = M_PENDING | M_APPROVED | M_REJECTED

record media_row =
  me_id :: ident
  me_ownerId :: ident
  me_url :: string
  me_status :: media_status
  me_reuploadRequestedAt :: "time option"
  me_reuploadReason :: "string option"

record reviewed_driver =
  rd_id :: ident
  rd_accountId :: ident
  rd_warehouseId :: "ident option"

record driver_account =
  da_id :: ident
  da_status :: account_status
  da_updatedAt :: time

record user_device =
  ud_accountId :: ident
  ud_refreshToken :: string
  ud_fcmToken :: string

record decision_payload =
  dd_driverId :: ident
  dd_approved :: bool
  dd_status :: "account_status option"
  dd_rejectionReason :: "string option"
  dd_truckOdooId :: "int option"
  dd_shiftOdooId :: "int option"
  dd_warehouseOdooId :: "int option"
  dd_warehouseChangeOnly :: bool
  dd_rejectedMediaIds :: "ident list"
  dd_documentsOnly :: bool
  dd_requestReupload :: bool
  dd_cancelReupload :: bool
  dd_approvedMediaIds :: "ident list"

datatype review_job = PUSH_DRIVER_REQUEST ident | APPLY_DRIVER_DECISION decision_payload

record driver_notice =
  dn_accountId :: ident
  dn_status :: account_status
  dn_reason :: "string option"
  dn_withdrawn :: bool

text \<open>The link of a driver to truck and shift lives in the mirror of the fleet.\<close>

record review =
  rv_drivers :: "reviewed_driver list"
  rv_accounts :: "driver_account list"
  rv_media :: "media_row list"
  rv_devices :: "user_device list"
  rv_fleet :: mirror
  rv_jobs :: "review_job list"
  rv_sent :: "driver_notice list"

type_synonym 'a review_action = "(review, 'a) act"

definition on_mirror :: "'a mirror_action \<Rightarrow> 'a review_action" where
  "on_mirror a = (\<lambda>s. case a (rv_fleet s) of (r, m) \<Rightarrow> (r, s\<lparr>rv_fleet := m\<rparr>))"

section \<open>Applying a decision\<close>

text \<open>\<open>update({ id: In(ids), ownerId }, ...)\<close>\<close>

definition update_media :: "ident list \<Rightarrow> ident \<Rightarrow> (media_row \<Rightarrow> media_row) \<Rightarrow> unit review_action" where
  "update_media ids owner f = writes (\<lambda>s. s\<lparr>rv_media := map (\<lambda>x. if List.member ids (me_id x) \<and> me_ownerId x = owner then f x else x) (rv_media s)\<rparr>)"

definition decided_status :: "decision_payload \<Rightarrow> account_status" where
  "decided_status p = (case dd_status p of Some st \<Rightarrow> st | None \<Rightarrow> if dd_approved p then A_ACTIVE else A_REJECTED)"

definition set_account_status :: "ident \<Rightarrow> account_status \<Rightarrow> time \<Rightarrow> unit review_action" where
  "set_account_status i st now = writes (\<lambda>s. s\<lparr>rv_accounts := map (\<lambda>a. if da_id a = i then a\<lparr>da_status := st, da_updatedAt := now\<rparr> else a)
     (rv_accounts s)\<rparr>)"

text \<open>Every device of a blocked driver loses its tokens.\<close>

definition wipe_devices :: "ident \<Rightarrow> unit review_action" where
  "wipe_devices i = writes (\<lambda>s. s\<lparr>rv_devices := map (\<lambda>v. if ud_accountId v = i then v\<lparr>ud_refreshToken := [], ud_fcmToken := []\<rparr> else v)
     (rv_devices s)\<rparr>)"

definition save_warehouse_of :: "reviewed_driver \<Rightarrow> mirror_warehouse option \<Rightarrow> unit review_action" where
  "save_warehouse_of d w = (case w of None \<Rightarrow> ret ()
     | Some w \<Rightarrow> writes (\<lambda>s. s\<lparr>rv_drivers := tbl_save rd_id (d\<lparr>rd_warehouseId := Some (mw_id w)\<rparr>) (rv_drivers s)\<rparr>))"

definition judged_media :: "decision_payload \<Rightarrow> time \<Rightarrow> media_row \<Rightarrow> media_row" where
  "judged_media p now x =
     (if dd_cancelReupload p then x\<lparr>me_reuploadRequestedAt := None, me_reuploadReason := None\<rparr>
      else if dd_requestReupload p
      then x\<lparr>me_status := M_REJECTED, me_reuploadRequestedAt := Some now, me_reuploadReason := dd_rejectionReason p\<rparr>
      else x\<lparr>me_status := M_REJECTED\<rparr>)"

text \<open>The assignment that may come with an acceptance.\<close>

definition link_truck :: "ident \<Rightarrow> int \<Rightarrow> int \<Rightarrow> time \<Rightarrow> unit mirror_action" where
  "link_truck driverId truckOdooId shiftOdooId now =
     bind (reads (\<lambda>m. (find (\<lambda>x. mt_odooTruckId x = Some truckOdooId) (mi_trucks m),
       find (\<lambda>x. ms_odooShiftId x = Some shiftOdooId) (mi_shifts m)))) (\<lambda>found. case found of
       (Some tk, Some sf) \<Rightarrow>
         bind (reads (\<lambda>m. find (\<lambda>r. mr_driverId r = driverId) (mi_rows m))) (\<lambda>mine.
         bind (case mine of Some r \<Rightarrow> ret r
               | None \<Rightarrow> bind mirror_id (\<lambda>i. ret \<lparr>mr_id = i, mr_odooAssignmentId = None, mr_driverId = driverId, mr_truckId = [],
                   mr_shiftId = [], mr_assignedAt = now\<rparr>)) (\<lambda>r.
         bind (save_row (r\<lparr>mr_truckId := mt_id tk, mr_shiftId := ms_id sf\<rparr>)) (\<lambda>_.
         writes (\<lambda>m. m\<lparr>mi_drivers := map (\<lambda>d. if md_id d = driverId then d\<lparr>md_shiftId := Some (ms_id sf)\<rparr> else d) (mi_drivers m)\<rparr>))))
     | _ \<Rightarrow> ret ())"

definition notify :: "driver_notice \<Rightarrow> unit review_action" where
  "notify x = writes (\<lambda>s. s\<lparr>rv_sent := rv_sent s @ [x]\<rparr>)"

definition judge_documents :: "decision_payload \<Rightarrow> ident \<Rightarrow> unit review_action" where
  "judge_documents p driverId =
     bind (update_media (dd_rejectedMediaIds p) driverId (\<lambda>x. x\<lparr>me_status := M_REJECTED\<rparr>)) (\<lambda>_.
     update_media (dd_approvedMediaIds p) driverId
       (\<lambda>x. x\<lparr>me_status := M_APPROVED, me_reuploadRequestedAt := None, me_reuploadReason := None\<rparr>))"

definition apply_verdict :: "decision_payload \<Rightarrow> time \<Rightarrow> reviewed_driver \<Rightarrow> mirror_warehouse option \<Rightarrow> unit review_action" where
  "apply_verdict p now d w =
     (let st = decided_status p in
      bind (set_account_status (rd_accountId d) st now) (\<lambda>_.
      bind (save_warehouse_of d w) (\<lambda>_.
      bind (if st = BLOCKED then wipe_devices (rd_accountId d) else ret ()) (\<lambda>_.
      bind (update_media (dd_rejectedMediaIds p) (rd_id d) (judged_media p now)) (\<lambda>_.
      bind (case (dd_truckOdooId p, dd_shiftOdooId p) of
              (Some tk, Some sf) \<Rightarrow> if st = A_ACTIVE then on_mirror (link_truck (rd_id d) tk sf now) else ret ()
            | _ \<Rightarrow> ret ()) (\<lambda>_.
      notify \<lparr>dn_accountId = rd_accountId d, dn_status = st, dn_reason = dd_rejectionReason p, dn_withdrawn = dd_cancelReupload p\<rparr>))))))"

definition applyDriverDecision :: "decision_payload \<Rightarrow> time \<Rightarrow> unit review_action" where
  "applyDriverDecision p now =
     bind (reads (\<lambda>s. tbl_find rd_id (dd_driverId p) (rv_drivers s))) (\<lambda>driver. case driver of None \<Rightarrow> ret () | Some d \<Rightarrow>
     bind (reads (\<lambda>s. tbl_find da_id (rd_accountId d) (rv_accounts s))) (\<lambda>account. case account of None \<Rightarrow> ret () | Some _ \<Rightarrow>
     bind (reads (\<lambda>s. Option.bind (dd_warehouseOdooId p) (\<lambda>k. find (\<lambda>w. mw_odooWarehouseId w = k) (mi_warehouses (rv_fleet s))))) (\<lambda>w.
     if dd_warehouseChangeOnly p then save_warehouse_of d w
     else if dd_documentsOnly p then judge_documents p (rd_id d)
     else apply_verdict p now d w)))"

section \<open>Reconciliation\<close>

datatype odoo_review = OR_PENDING | OR_ACCEPTED | OR_REJECTED | OR_NEED_CHANGES

record request_image =
  im_mediaId :: ident
  im_url :: "string option"
  im_rejected :: bool
  im_reuploadRequested :: bool

record driver_request_state =
  ds_driverId :: ident
  ds_state :: odoo_review
  ds_isBlocked :: bool
  ds_rejectionReason :: "string option"
  ds_warehouseOdooId :: "int option"
  ds_images :: "request_image list"

definition GRACE_MS :: time where
  "GRACE_MS = 5 * 60 * 1000"

definition RECONCILE_BATCH :: nat where
  "RECONCILE_BATCH = 100"

text \<open>A block lies over an accepted request.\<close>

definition expectedStatus :: "driver_request_state \<Rightarrow> account_status option" where
  "expectedStatus st = (if ds_isBlocked st then Some BLOCKED
     else case ds_state st of OR_ACCEPTED \<Rightarrow> Some A_ACTIVE | OR_REJECTED \<Rightarrow> Some A_REJECTED
       | OR_NEED_CHANGES \<Rightarrow> Some NEED_CHANGES | OR_PENDING \<Rightarrow> None)"

definition media_of :: "ident \<Rightarrow> ident \<Rightarrow> review \<Rightarrow> media_row option" where
  "media_of owner i s = find (\<lambda>x. me_id x = i \<and> me_ownerId x = owner) (rv_media s)"

text \<open>The driver replaced a file and Odoo still shows the old one.\<close>

definition answeredButNotPushed :: "driver_request_state \<Rightarrow> review \<Rightarrow> bool" where
  "answeredButNotPushed st s = list_ex (\<lambda>img. case (im_url img, media_of (ds_driverId st) (im_mediaId img) s) of
     (Some url, Some x) \<Rightarrow> url \<noteq> [] \<and> me_url x \<noteq> [] \<and> me_url x \<noteq> url | _ \<Rightarrow> False) (ds_images st)"

text \<open>A rejection or a request of Odoo that is not recorded here.\<close>

definition drifts :: "request_image \<Rightarrow> media_row \<Rightarrow> bool" where
  "drifts img x \<longleftrightarrow> me_status x \<noteq> M_REJECTED \<or> im_reuploadRequested img \<and> me_reuploadRequestedAt x = None"

definition mediaDrift :: "driver_request_state \<Rightarrow> review \<Rightarrow> bool" where
  "mediaDrift st s = list_ex (\<lambda>img. im_rejected img
     \<and> (case media_of (ds_driverId st) (im_mediaId img) s of None \<Rightarrow> False | Some x \<Rightarrow> drifts img x)) (ds_images st)"

definition asked_ids :: "driver_request_state \<Rightarrow> ident list" where
  "asked_ids st = map im_mediaId (filter im_reuploadRequested (ds_images st))"

definition rejected_ids :: "driver_request_state \<Rightarrow> ident list" where
  "rejected_ids st = map im_mediaId (filter im_rejected (ds_images st))"

definition payloadFor :: "driver_request_state \<Rightarrow> account_status \<Rightarrow> decision_payload" where
  "payloadFor st expected =
     \<lparr>dd_driverId = ds_driverId st, dd_approved = False, dd_status = Some expected, dd_rejectionReason = ds_rejectionReason st,
      dd_truckOdooId = None, dd_shiftOdooId = None, dd_warehouseOdooId = ds_warehouseOdooId st, dd_warehouseChangeOnly = False,
      dd_rejectedMediaIds = (if expected = NEED_CHANGES \<and> asked_ids st \<noteq> [] then asked_ids st else rejected_ids st),
      dd_documentsOnly = False, dd_requestReupload = (expected = NEED_CHANGES), dd_cancelReupload = False, dd_approvedMediaIds = []\<rparr>"

datatype review_verdict = Leave_alone | Report_ahead | Repush_request ident | Replay_decision decision_payload

definition review_verdict :: "time \<Rightarrow> review \<Rightarrow> driver_request_state \<Rightarrow> review_verdict" where
  "review_verdict now s st =
     (case Option.bind (tbl_find rd_id (ds_driverId st) (rv_drivers s)) (\<lambda>d. tbl_find da_id (rd_accountId d) (rv_accounts s)) of
        None \<Rightarrow> Leave_alone
      | Some a \<Rightarrow>
          if now - GRACE_MS \<le> da_updatedAt a then Leave_alone
          else case expectedStatus st of
            None \<Rightarrow> if da_status a \<noteq> PENDING_APPROVAL then Report_ahead else Leave_alone
          | Some expected \<Rightarrow>
              if answeredButNotPushed st s then Repush_request (da_id a)
              else if expected = da_status a \<and> \<not> mediaDrift st s then Leave_alone
              else Replay_decision (payloadFor st expected))"

text \<open>Converged, reported and re-pushed; after a full batch of replays the rest waits for the next run.\<close>

fun review_loop :: "time \<Rightarrow> driver_request_state list \<Rightarrow> nat \<times> nat \<times> nat \<Rightarrow> (nat \<times> nat \<times> nat) review_action" where
  "review_loop now [] counts = ret counts"
| "review_loop now (st # states) (converged, reported, repushed) =
     (if RECONCILE_BATCH \<le> converged then ret (converged, reported, repushed)
      else bind (reads (\<lambda>s. review_verdict now s st)) (\<lambda>v. case v of
        Leave_alone \<Rightarrow> review_loop now states (converged, reported, repushed)
      | Report_ahead \<Rightarrow> review_loop now states (converged, reported + 1, repushed)
      | Repush_request i \<Rightarrow> bind (writes (\<lambda>s. s\<lparr>rv_jobs := rv_jobs s @ [PUSH_DRIVER_REQUEST i]\<rparr>)) (\<lambda>_.
          review_loop now states (converged, reported, repushed + 1))
      | Replay_decision p \<Rightarrow> bind (writes (\<lambda>s. s\<lparr>rv_jobs := rv_jobs s @ [APPLY_DRIVER_DECISION p]\<rparr>)) (\<lambda>_.
          review_loop now states (converged + 1, reported, repushed))))"

text \<open>\<open>None\<close>: Odoo cannot be reached.\<close>

definition driver_reconcile :: "time \<Rightarrow> driver_request_state list option \<Rightarrow> (nat \<times> nat \<times> nat) review_action" where
  "driver_reconcile now answer = (case answer of None \<Rightarrow> ret (0, 0, 0) | Some states \<Rightarrow> review_loop now states (0, 0, 0))"

end
