(* ===== verification/DecisionFacts.thy ===== *)
theory DecisionFacts
  imports DriverDecisions
begin

text \<open>
  What a replayed decision does, and whether the reconciliation is content afterwards.
\<close>

section \<open>A replay\<close>

lemma media_map:
  "(\<And>x. me_id (f x) = me_id x \<and> me_ownerId (f x) = me_ownerId x) \<Longrightarrow>
   find (\<lambda>x. me_id x = i \<and> me_ownerId x = owner) (map f xs) = map_option f (find (\<lambda>x. me_id x = i \<and> me_ownerId x = owner) xs)"
  by (induction xs) auto

lemma account_map:
  "(\<And>x. da_id (f x) = da_id x) \<Longrightarrow> tbl_find da_id i (map f xs) = map_option f (tbl_find da_id i xs)"
  by (induction xs) auto

lemma judged_keys [simp]: "me_id (judged_media p t x) = me_id x" "me_ownerId (judged_media p t x) = me_ownerId x"
  "me_url (judged_media p t x) = me_url x"
  by (simp_all add: judged_media_def)

definition judged_in :: "decision_payload \<Rightarrow> time \<Rightarrow> media_row \<Rightarrow> media_row" where
  "judged_in p t x = (if List.member (dd_rejectedMediaIds p) (me_id x) \<and> me_ownerId x = dd_driverId p then judged_media p t x else x)"

lemma judged_in_keys [simp]: "me_id (judged_in p t x) = me_id x" "me_ownerId (judged_in p t x) = me_ownerId x"
  "me_url (judged_in p t x) = me_url x"
  by (simp_all add: judged_in_def)

definition decided_account :: "reviewed_driver \<Rightarrow> account_status \<Rightarrow> time \<Rightarrow> driver_account \<Rightarrow> driver_account" where
  "decided_account d st t a = (if da_id a = rd_accountId d then a\<lparr>da_status := st, da_updatedAt := t\<rparr> else a)"

lemma payload_simps [simp]:
  "dd_driverId (payloadFor st e) = ds_driverId st" "dd_status (payloadFor st e) = Some e" "dd_warehouseChangeOnly (payloadFor st e) = False"
  "dd_documentsOnly (payloadFor st e) = False" "dd_truckOdooId (payloadFor st e) = None" "dd_cancelReupload (payloadFor st e) = False"
  "dd_requestReupload (payloadFor st e) = (e = NEED_CHANGES)" "dd_rejectionReason (payloadFor st e) = ds_rejectionReason st"
  "decided_status (payloadFor st e) = e"
  by (simp_all add: payloadFor_def decided_status_def)

lemma replay_run:
  assumes d: "tbl_find rd_id (ds_driverId st) (rv_drivers s) = Some d" and a: "tbl_find da_id (rd_accountId d) (rv_accounts s) = Some a"
  shows "\<exists>D V. applyDriverDecision (payloadFor st e) t s = (Inr (), s\<lparr>
      rv_accounts := map (decided_account d e t) (rv_accounts s), rv_drivers := D, rv_devices := V,
      rv_media := map (judged_in (payloadFor st e) t) (rv_media s),
      rv_sent := rv_sent s @ [\<lparr>dn_accountId = rd_accountId d, dn_status = e, dn_reason = ds_rejectionReason st, dn_withdrawn = False\<rparr>]\<rparr>)
    \<and> (\<exists>w. tbl_find rd_id (ds_driverId st) D = Some (d\<lparr>rd_warehouseId := w\<rparr>))"
proof -
  let ?p = "payloadFor st e"
  let ?w = "Option.bind (dd_warehouseOdooId ?p) (\<lambda>k. find (\<lambda>w. mw_odooWarehouseId w = k) (mi_warehouses (rv_fleet s)))"
  let ?V = "if e = BLOCKED then map (\<lambda>v. if ud_accountId v = rd_accountId d then v\<lparr>ud_refreshToken := [], ud_fcmToken := []\<rparr> else v) (rv_devices s)
    else rv_devices s"
  let ?D = "case ?w of None \<Rightarrow> rv_drivers s | Some w \<Rightarrow> tbl_save rd_id (d\<lparr>rd_warehouseId := Some (mw_id w)\<rparr>) (rv_drivers s)"
  have id: "rd_id d = ds_driverId st" using d by (auto dest: tbl_find_SomeD)
  have run: "applyDriverDecision ?p t s = apply_verdict ?p t d ?w s" using d a by (simp add: applyDriverDecision_def)
  have media: "(\<lambda>x. if List.member (dd_rejectedMediaIds ?p) (me_id x) \<and> me_ownerId x = rd_id d then judged_media ?p t x else x) = judged_in ?p t"
    by (simp add: fun_eq_iff judged_in_def id)
  have accounts: "(\<lambda>a. if da_id a = rd_accountId d then a\<lparr>da_status := e, da_updatedAt := t\<rparr> else a) = decided_account d e t"
    by (simp add: fun_eq_iff decided_account_def)
  have "apply_verdict ?p t d ?w s = (Inr (), s\<lparr>
      rv_accounts := map (decided_account d e t) (rv_accounts s), rv_drivers := ?D, rv_devices := ?V,
      rv_media := map (judged_in ?p t) (rv_media s),
      rv_sent := rv_sent s @ [\<lparr>dn_accountId = rd_accountId d, dn_status = e, dn_reason = ds_rejectionReason st, dn_withdrawn = False\<rparr>]\<rparr>)"
    unfolding media [symmetric] accounts [symmetric]
    by (cases ?w) (simp_all add: apply_verdict_def set_account_status_def save_warehouse_of_def wipe_devices_def update_media_def notify_def
      Let_def)
  moreover have "\<exists>w. tbl_find rd_id (ds_driverId st) ?D = Some (d\<lparr>rd_warehouseId := w\<rparr>)"
  proof (cases ?w)
    case None
    then show ?thesis using d by (intro exI [of _ "rd_warehouseId d"]) simp
  next
    case (Some w)
    then show ?thesis by (intro exI [of _ "Some (mw_id w)"]) (simp add: tbl_find_save id)
  qed
  ultimately show ?thesis unfolding run by blast
qed

text \<open>
  What Odoo says of a document and no replay will ever record: with changes needed only the documents
  asked for are sent along, and otherwise a request for a new upload is not.
\<close>

definition unheard :: "driver_request_state \<Rightarrow> review \<Rightarrow> bool" where
  "unheard st s = list_ex (\<lambda>img. im_rejected img \<and> (case media_of (ds_driverId st) (im_mediaId img) s of None \<Rightarrow> False
     | Some x \<Rightarrow> if expectedStatus st = Some NEED_CHANGES
         then asked_ids st \<noteq> [] \<and> \<not> List.member (asked_ids st) (im_mediaId img) \<and> me_status x \<noteq> M_REJECTED
         else im_reuploadRequested img \<and> me_reuploadRequestedAt x = None)) (ds_images st)"

lemma list_ex_cong2: "(\<And>x. x \<in> set xs \<Longrightarrow> P x = Q x) \<Longrightarrow> list_ex P xs = list_ex Q xs"
  by (auto simp: list_ex_iff)

lemma drift_after:
  assumes s': "\<And>i. media_of (ds_driverId st) i s' = map_option (judged_in (payloadFor st e) t) (media_of (ds_driverId st) i s)"
    and e: "expectedStatus st = Some e"
  shows "mediaDrift st s' = unheard st s" and "unheard st s' = unheard st s"
    and "answeredButNotPushed st s' = answeredButNotPushed st s"
proof -
  have found: "me_id x = i \<and> me_ownerId x = ds_driverId st" if "media_of (ds_driverId st) i s = Some x" for i x
    using that by (auto simp: media_of_def find_Some_iff)
  have asked: "List.member (asked_ids st) (im_mediaId img)" if "img \<in> set (ds_images st)" "im_reuploadRequested img" for img
    using that by (auto simp: asked_ids_def)
  have rejected: "List.member (rejected_ids st) (im_mediaId img)" if "img \<in> set (ds_images st)" "im_rejected img" for img
    using that by (auto simp: rejected_ids_def)
  have ids: "dd_rejectedMediaIds (payloadFor st e) = (if e = NEED_CHANGES \<and> asked_ids st \<noteq> [] then asked_ids st else rejected_ids st)"
    by (simp add: payloadFor_def)
  show "mediaDrift st s' = unheard st s"
    unfolding mediaDrift_def unheard_def s' e
  proof (rule list_ex_cong2)
    fix img assume img: "img \<in> set (ds_images st)"
    show "(im_rejected img \<and> (case map_option (judged_in (payloadFor st e) t) (media_of (ds_driverId st) (im_mediaId img) s) of
          None \<Rightarrow> False | Some x \<Rightarrow> drifts img x))
      = (im_rejected img \<and> (case media_of (ds_driverId st) (im_mediaId img) s of None \<Rightarrow> False
         | Some x \<Rightarrow> if Some e = Some NEED_CHANGES
             then asked_ids st \<noteq> [] \<and> \<not> List.member (asked_ids st) (im_mediaId img) \<and> me_status x \<noteq> M_REJECTED
             else im_reuploadRequested img \<and> me_reuploadRequestedAt x = None))"
    proof (cases "media_of (ds_driverId st) (im_mediaId img) s")
      case (Some x)
      have "drifts img (judged_in (payloadFor st e) t x) = (if e = NEED_CHANGES
          then asked_ids st \<noteq> [] \<and> \<not> List.member (asked_ids st) (im_mediaId img) \<and> me_status x \<noteq> M_REJECTED
          else im_reuploadRequested img \<and> me_reuploadRequestedAt x = None)" if "im_rejected img"
        using found [OF Some] asked [OF img] rejected [OF img that]
        by (auto simp: drifts_def judged_in_def judged_media_def ids)
      then show ?thesis using Some by auto
    qed simp
  qed
  show "unheard st s' = unheard st s"
    unfolding unheard_def s' e
  proof (rule list_ex_cong2)
    fix img assume img: "img \<in> set (ds_images st)"
    show "(im_rejected img \<and> (case map_option (judged_in (payloadFor st e) t) (media_of (ds_driverId st) (im_mediaId img) s) of None \<Rightarrow> False
         | Some x \<Rightarrow> if Some e = Some NEED_CHANGES
             then asked_ids st \<noteq> [] \<and> \<not> List.member (asked_ids st) (im_mediaId img) \<and> me_status x \<noteq> M_REJECTED
             else im_reuploadRequested img \<and> me_reuploadRequestedAt x = None))
      = (im_rejected img \<and> (case media_of (ds_driverId st) (im_mediaId img) s of None \<Rightarrow> False
         | Some x \<Rightarrow> if Some e = Some NEED_CHANGES
             then asked_ids st \<noteq> [] \<and> \<not> List.member (asked_ids st) (im_mediaId img) \<and> me_status x \<noteq> M_REJECTED
             else im_reuploadRequested img \<and> me_reuploadRequestedAt x = None))"
    proof (cases "media_of (ds_driverId st) (im_mediaId img) s")
      case (Some x)
      then show ?thesis using found [OF Some] by (auto simp: judged_in_def judged_media_def ids)
    qed simp
  qed
  show "answeredButNotPushed st s' = answeredButNotPushed st s"
    unfolding answeredButNotPushed_def s' by (rule list_ex_cong2) (auto split: option.splits)
qed

text \<open>C40: replaying a lost decision always succeeds: the account gets the status Odoo decided, whatever it was, and
  the driver is told once more.  Past the grace period the reconciliation then leaves the driver alone,
  unless Odoo says something of a document that the replay does not carry: then it replays the same
  decision, and notifies the driver, again and again.\<close>

theorem replay_converges:
  assumes verdict: "review_verdict now s st = Replay_decision p"
  shows "\<exists>e a s'. expectedStatus st = Some e \<and> p = payloadFor st e \<and> applyDriverDecision p t s = (Inr (), s')
    \<and> tbl_find da_id a (rv_accounts s') = Some \<lparr>da_id = a, da_status = e, da_updatedAt = t\<rparr>
    \<and> length (rv_sent s') = length (rv_sent s) + 1 \<and> dn_accountId (last (rv_sent s')) = a
    \<and> unheard st s' = unheard st s
    \<and> (\<forall>later. review_verdict later s' st =
         (if t + GRACE_MS < later \<and> unheard st s then Replay_decision p else Leave_alone))"
proof -
  obtain d a e where d: "tbl_find rd_id (ds_driverId st) (rv_drivers s) = Some d"
    and a: "tbl_find da_id (rd_accountId d) (rv_accounts s) = Some a" and e: "expectedStatus st = Some e"
    and p: "p = payloadFor st e" and old: "\<not> answeredButNotPushed st s"
    using verdict by (auto simp: review_verdict_def split: option.splits bind_splits if_splits)
  have id: "da_id a = rd_accountId d" using a by (auto dest: tbl_find_SomeD)
  obtain D V w where run: "applyDriverDecision p t s = (Inr (), s\<lparr>
      rv_accounts := map (decided_account d e t) (rv_accounts s), rv_drivers := D, rv_devices := V,
      rv_media := map (judged_in p t) (rv_media s),
      rv_sent := rv_sent s @ [\<lparr>dn_accountId = rd_accountId d, dn_status = e, dn_reason = ds_rejectionReason st, dn_withdrawn = False\<rparr>]\<rparr>)"
    and D: "tbl_find rd_id (ds_driverId st) D = Some (d\<lparr>rd_warehouseId := w\<rparr>)"
    using replay_run [OF d a, of e t] unfolding p by blast
  let ?s = "s\<lparr>rv_accounts := map (decided_account d e t) (rv_accounts s), rv_drivers := D, rv_devices := V,
      rv_media := map (judged_in p t) (rv_media s),
      rv_sent := rv_sent s @ [\<lparr>dn_accountId = rd_accountId d, dn_status = e, dn_reason = ds_rejectionReason st, dn_withdrawn = False\<rparr>]\<rparr>"
  have account: "tbl_find da_id (rd_accountId d) (rv_accounts ?s) = Some \<lparr>da_id = rd_accountId d, da_status = e, da_updatedAt = t\<rparr>"
    using a id by (simp add: account_map decided_account_def)
  have media: "media_of (ds_driverId st) i ?s = map_option (judged_in (payloadFor st e) t) (media_of (ds_driverId st) i s)" for i
    by (simp add: media_of_def media_map p)
  note after = drift_after [OF media e]
  have "review_verdict later ?s st = (if t + GRACE_MS < later \<and> unheard st s then Replay_decision p else Leave_alone)" for later
    using D account after(1,3) old e by (auto simp: review_verdict_def p)
  then show ?thesis using run account after(2) e p by (intro exI [of _ e] exI [of _ "rd_accountId d"] exI [of _ ?s]) simp
qed

text \<open>Odoo turned down two documents and asked for one of them again; the app missed it.\<close>

definition ex_asked :: driver_request_state where
  "ex_asked = \<lparr>ds_driverId = ''d1'', ds_state = OR_NEED_CHANGES, ds_isBlocked = False, ds_rejectionReason = None, ds_warehouseOdooId = None,
     ds_images = [\<lparr>im_mediaId = ''licence'', im_url = None, im_rejected = True, im_reuploadRequested = True\<rparr>,
       \<lparr>im_mediaId = ''photo'', im_url = None, im_rejected = True, im_reuploadRequested = False\<rparr>]\<rparr>"

definition ex_document :: "ident \<Rightarrow> media_row" where
  "ex_document i = \<lparr>me_id = i, me_ownerId = ''d1'', me_url = ''u'', me_status = M_PENDING, me_reuploadRequestedAt = None,
     me_reuploadReason = None\<rparr>"

definition ex_review :: review where
  "ex_review = \<lparr>rv_drivers = [\<lparr>rd_id = ''d1'', rd_accountId = ''a1'', rd_warehouseId = None\<rparr>],
     rv_accounts = [\<lparr>da_id = ''a1'', da_status = PENDING_APPROVAL, da_updatedAt = 0\<rparr>],
     rv_media = map ex_document [''licence'', ''photo''], rv_devices = [],
     rv_fleet = \<lparr>mi_shifts = [], mi_trucks = [], mi_rows = [], mi_drivers = [], mi_warehouses = [], mi_history = [], mi_notices = [],
       mi_uuid = (\<lambda>_. []), mi_next = 0\<rparr>, rv_jobs = [], rv_sent = []\<rparr>"

lemma ex_verdict: "review_verdict 300001 ex_review ex_asked = Replay_decision (payloadFor ex_asked NEED_CHANGES)"
  by (simp add: review_verdict_def ex_review_def ex_asked_def ex_document_def expectedStatus_def answeredButNotPushed_def mediaDrift_def
    media_of_def drifts_def GRACE_MS_def)

lemma ex_unheard: "unheard ex_asked ex_review"
  by (simp add: unheard_def ex_review_def ex_asked_def ex_document_def expectedStatus_def asked_ids_def media_of_def)

theorem replay_converges_witness:
  "\<exists>a s'. applyDriverDecision (payloadFor ex_asked NEED_CHANGES) 300001 ex_review = (Inr (), s')
    \<and> tbl_find da_id a (rv_accounts s') = Some \<lparr>da_id = a, da_status = NEED_CHANGES, da_updatedAt = 300001\<rparr>
    \<and> review_verdict 900000 s' ex_asked = Replay_decision (payloadFor ex_asked NEED_CHANGES)"
proof -
  obtain e a s' where e: "expectedStatus ex_asked = Some e"
    and run: "applyDriverDecision (payloadFor ex_asked NEED_CHANGES) 300001 ex_review = (Inr (), s')"
    and account: "tbl_find da_id a (rv_accounts s') = Some \<lparr>da_id = a, da_status = e, da_updatedAt = 300001\<rparr>"
    and again: "\<forall>later. review_verdict later s' ex_asked = (if 300001 + GRACE_MS < later \<and> unheard ex_asked ex_review
      then Replay_decision (payloadFor ex_asked NEED_CHANGES) else Leave_alone)"
    using replay_converges [OF ex_verdict, of 300001] by blast
  moreover have "e = NEED_CHANGES" using e by (simp add: expectedStatus_def ex_asked_def)
  moreover have "review_verdict 900000 s' ex_asked = Replay_decision (payloadFor ex_asked NEED_CHANGES)"
    using again [rule_format, of 900000] ex_unheard by (simp add: GRACE_MS_def)
  ultimately show ?thesis by blast
qed

end
