(* ===== verification/PriceDesk.thy ===== *)
theory PriceDesk
  imports Cart OrderAllocation PointsWallet
begin

text \<open>
  What the services that administrate prices, grades and offers share
  (\<open>waste-management/admin\<close>): the live price rows and their archive, the jobs that mirror a change to
  Odoo, and the repricing of the baskets.  The caches they invalidate are not kept.
\<close>

section \<open>State\<close>

datatype archive_reason = AR_UPDATED | AR_DELETED | AR_GRADED | AR_EXPIRED

record price_history =
  ph_productId :: ident
  ph_tier :: pricing_tier
  ph_conditionCode :: "string option"
  ph_price :: rat
  ph_currency :: string
  ph_effectiveFrom :: time
  ph_archivedAt :: time
  ph_reason :: archive_reason
  ph_archivedBy :: ident

datatype desk_job = UPDATE_PRICING ident | SYNC_CONDITION ident | DELETE_CONDITION int

text \<open>The shop, the archive of the prices, and the jobs for Odoo.\<close>

record desk =
  dk_shop :: store
  dk_history :: "price_history list"
  dk_jobs :: "desk_job list"

type_synonym 'a desk_action = "(desk, 'a) act"

definition on_shop :: "'a action \<Rightarrow> 'a desk_action" where
  "on_shop m = (\<lambda>d. case m (dk_shop d) of (r, s) \<Rightarrow> (r, d\<lparr>dk_shop := s\<rparr>))"

definition reads_shop :: "(store \<Rightarrow> 'a) \<Rightarrow> 'a desk_action" where
  "reads_shop f = reads (\<lambda>d. f (dk_shop d))"

definition enqueue_desk :: "desk_job \<Rightarrow> unit desk_action" where
  "enqueue_desk j = writes (\<lambda>d. d\<lparr>dk_jobs := dk_jobs d @ [j]\<rparr>)"

text \<open>\<open>dataSource.transaction\<close>: an exception undoes the writes.\<close>

definition in_transaction :: "'a desk_action \<Rightarrow> 'a desk_action" where
  "in_transaction m = (\<lambda>d. case m d of (Inl e, _) \<Rightarrow> (Inl e, d) | r \<Rightarrow> r)"

text \<open>A text is given when it is there and not empty.\<close>

definition given :: "string option \<Rightarrow> bool" where
  "given c = (case c of None \<Rightarrow> False | Some k \<Rightarrow> k \<noteq> [])"

section \<open>Price rows\<close>

definition productOrThrow :: "ident \<Rightarrow> product desk_action" where
  "productOrThrow i = bind (reads_shop (\<lambda>s. tbl_find pd_id i (db_products s))) (\<lambda>found. case found of None \<Rightarrow> throw NotFound
     | Some p \<Rightarrow> ret p)"

definition archived :: "archive_reason \<Rightarrow> ident \<Rightarrow> time \<Rightarrow> product_pricing \<Rightarrow> price_history" where
  "archived reason adminId now r = \<lparr>ph_productId = pr_productId r, ph_tier = pr_tier r, ph_conditionCode = pr_conditionCode r,
     ph_price = pr_price r, ph_currency = pr_currency r, ph_effectiveFrom = pr_effectiveFrom r, ph_archivedAt = now,
     ph_reason = reason, ph_archivedBy = adminId\<rparr>"

definition drop_rows :: "product_pricing list \<Rightarrow> store \<Rightarrow> store" where
  "drop_rows rows s = s\<lparr>db_pricing := filter (\<lambda>r. \<not> List.member (map pr_id rows) (pr_id r)) (db_pricing s)\<rparr>"

text \<open>The column that tells who archived a price is a uuid: any other text is refused by the database.\<close>

definition archive_rows :: "world \<Rightarrow> archive_reason \<Rightarrow> ident \<Rightarrow> product_pricing list \<Rightarrow> unit desk_action" where
  "archive_rows W reason adminId rows =
     (if rows = [] then ret ()
      else bind (refuse_if (\<not> is_uuid adminId) Crash) (\<lambda>_.
           writes (\<lambda>d. d\<lparr>dk_history := dk_history d @ map (archived reason adminId (w_now W)) rows,
             dk_shop := drop_rows rows (dk_shop d)\<rparr>)))"

text \<open>\<open>None\<close>: every row of the tier; \<open>Some code\<close>: the rows of that grade, or of none.\<close>

definition archiveCurrent ::
    "world \<Rightarrow> ident \<Rightarrow> pricing_tier \<Rightarrow> archive_reason \<Rightarrow> ident \<Rightarrow> string option option \<Rightarrow> product_pricing list desk_action" where
  "archiveCurrent W productId tier reason adminId code =
     bind (reads_shop (\<lambda>s. filter (\<lambda>r. pr_productId r = productId \<and> pr_tier r = tier
       \<and> (case code of None \<Rightarrow> True | Some c \<Rightarrow> pr_conditionCode r = c)) (db_pricing s))) (\<lambda>rows.
     bind (archive_rows W reason adminId rows) (\<lambda>_. ret rows))"

definition insertCurrent ::
    "ident \<Rightarrow> pricing_tier \<Rightarrow> rat \<Rightarrow> string \<Rightarrow> time \<Rightarrow> string option \<Rightarrow> ident option \<Rightarrow> time option \<Rightarrow> product_pricing desk_action" where
  "insertCurrent productId tier price currency effectiveFrom code conditionId effectiveUntil =
     bind (on_shop fresh_id) (\<lambda>i.
     let r = \<lparr>pr_id = i, pr_productId = productId, pr_tier = tier, pr_conditionId = conditionId, pr_conditionCode = code,
       pr_price = round3 price, pr_currency = currency, pr_effectiveFrom = effectiveFrom, pr_effectiveUntil = effectiveUntil\<rparr> in
     bind (on_shop (writes (\<lambda>s. s\<lparr>db_pricing := db_pricing s @ [r]\<rparr>))) (\<lambda>_. ret r))"

section \<open>The baskets follow\<close>

definition line_role :: "store \<Rightarrow> cart_item \<Rightarrow> role option" where
  "line_role s it = Option.bind (tbl_find ct_id (ci_cartId it) (db_carts s))
     (\<lambda>c. map_option ac_role (tbl_find ac_id (ct_accountId c) (db_accounts s)))"

text \<open>The new price of a line, given what a role pays for a grade; lines bought on an offer are left alone.\<close>

definition line_quote :: "ident \<Rightarrow> (role \<Rightarrow> string option \<Rightarrow> rat option) \<Rightarrow> store \<Rightarrow> cart_item \<Rightarrow> rat option" where
  "line_quote productId rate s it = (if ci_productId it = productId \<and> \<not> ci_isOffer it
     then Option.bind (line_role s it) (\<lambda>r. rate r (ci_conditionCode it)) else None)"

definition repriced :: "rat \<Rightarrow> cart_item \<Rightarrow> cart_item" where
  "repriced price it = it\<lparr>ci_unitPrice := round3 price, ci_subtotal := round3 (price * ci_quantity it)\<rparr>"

definition reprice_lines :: "ident \<Rightarrow> (role \<Rightarrow> string option \<Rightarrow> rat option) \<Rightarrow> nat desk_action" where
  "reprice_lines productId rate =
     bind (reads_shop (\<lambda>s. length (filter (\<lambda>it. line_quote productId rate s it \<noteq> None) (db_cartItems s)))) (\<lambda>updated.
     bind (on_shop (writes (\<lambda>s. s\<lparr>db_cartItems := map (\<lambda>it. case line_quote productId rate s it of None \<Rightarrow> it
       | Some p \<Rightarrow> repriced p it) (db_cartItems s)\<rparr>))) (\<lambda>_. ret updated))"

section \<open>Offers that go with their grade\<close>

text \<open>A basket line that used a deleted offer loses the link, and keeps its price.\<close>

definition delete_promos :: "(promo \<Rightarrow> bool) \<Rightarrow> unit action" where
  "delete_promos P = writes (\<lambda>s. let gone = map of_id (filter P (db_promos s)) in
     s\<lparr>db_promos := filter (\<lambda>x. \<not> P x) (db_promos s),
       db_cartItems := map (\<lambda>it. case ci_offerId it of Some i \<Rightarrow> if List.member gone i then it\<lparr>ci_offerId := None\<rparr> else it
         | None \<Rightarrow> it) (db_cartItems s)\<rparr>)"

section \<open>After a change\<close>

text \<open>Every write of a price ends with the settlement of the offers and the push to Odoo.\<close>

definition settle_and_push :: "world \<Rightarrow> ident \<Rightarrow> ident \<Rightarrow> unit desk_action" where
  "settle_and_push W productId adminId =
     bind (on_shop (resettle W productId (Some adminId))) (\<lambda>_. enqueue_desk (UPDATE_PRICING productId))"

end
