(* ===== verification/Grades.thy ===== *)
theory Grades
  imports PriceDesk
begin

text \<open>
  The grades of a material, \<open>waste-management/admin/product-conditions.service.ts\<close>: adding, arranging,
  changing and removing them, and what the pricing asks of them.  The warning about ungraded stock is
  the second component of what \<open>grade_add\<close> returns; the views are the rows themselves.
\<close>

section \<open>Reading\<close>

definition grades_of :: "ident \<Rightarrow> store \<Rightarrow> material_condition list" where
  "grades_of productId s = sort_key g_sortOrder (filter (\<lambda>g. g_productId g = productId) (db_grades s))"

definition grades_listed :: "ident \<Rightarrow> (bool \<times> material_condition list) desk_action" where
  "grades_listed productId = bind (productOrThrow productId) (\<lambda>_.
     reads_shop (\<lambda>s. (grades_of productId s \<noteq> [], grades_of productId s)))"

definition activeCodes :: "ident \<Rightarrow> store \<Rightarrow> string list" where
  "activeCodes productId s = map g_code (activeForProduct productId s)"

definition conditionOrThrow :: "ident \<Rightarrow> ident option \<Rightarrow> material_condition desk_action" where
  "conditionOrThrow conditionId expected =
     bind (reads_shop (\<lambda>s. tbl_find g_id conditionId (db_grades s))) (\<lambda>found. case found of None \<Rightarrow> throw NotFound | Some g \<Rightarrow>
     bind (refuse_if (given expected \<and> expected \<noteq> Some (g_productId g)) BadRequest) (\<lambda>_. ret g))"

definition resolveForProduct :: "ident \<Rightarrow> ident \<Rightarrow> material_condition desk_action" where
  "resolveForProduct conditionId productId = conditionOrThrow conditionId (Some productId)"

definition findByCodeForProduct :: "ident \<Rightarrow> string \<Rightarrow> store \<Rightarrow> material_condition option" where
  "findByCodeForProduct productId code s = find (\<lambda>g. g_productId g = productId \<and> g_code g = toUpperCase (trim code)) (db_grades s)"

definition grade_getOne :: "ident \<Rightarrow> (material_condition \<times> product option) desk_action" where
  "grade_getOne conditionId = bind (conditionOrThrow conditionId None) (\<lambda>g.
     reads_shop (\<lambda>s. (g, tbl_find pd_id (g_productId g) (db_products s))))"

section \<open>Adding a grade\<close>

record grade_dto =
  gd_code :: string
  gd_nameEn :: string
  gd_nameAr :: string

definition toLowerCase :: "string \<Rightarrow> string" where
  "toLowerCase = map (\<lambda>c. let n = (of_char c :: nat) in if 65 \<le> n \<and> n \<le> 90 then char_of (n + 32) else c)"

definition same_name :: "string \<Rightarrow> string \<Rightarrow> bool" where
  "same_name a b \<longleftrightarrow> toLowerCase a = toLowerCase b"

definition clashes :: "grade_dto \<Rightarrow> material_condition \<Rightarrow> bool" where
  "clashes dto g \<longleftrightarrow> same_name (g_nameEn g) (trim (gd_nameEn dto)) \<or> same_name (g_nameAr g) (trim (gd_nameAr dto))"

definition last_position :: "ident \<Rightarrow> store \<Rightarrow> int" where
  "last_position productId s = fold max (map g_sortOrder (filter (\<lambda>g. g_productId g = productId) (db_grades s))) 0"

text \<open>A price without a grade is not a price of a graded material to those who buy per grade.\<close>

definition demoted_row :: "ident \<Rightarrow> product_pricing \<Rightarrow> bool" where
  "demoted_row productId r \<longleftrightarrow> pr_productId r = productId \<and> pr_conditionId r = None \<and> (pr_tier r = TIER_FACTORY \<or> pr_tier r = FREE_FACILITY)"

definition demoted_promo :: "ident \<Rightarrow> promo \<Rightarrow> bool" where
  "demoted_promo productId x \<longleftrightarrow> of_productId x = productId \<and> of_conditionId x = None \<and> of_audience x = BUYERS"

definition demoteConditionless :: "world \<Rightarrow> ident \<Rightarrow> ident \<Rightarrow> bool desk_action" where
  "demoteConditionless W adminId productId = in_transaction (
     bind (reads_shop (\<lambda>s. filter (demoted_row productId) (db_pricing s))) (\<lambda>baseRows.
     bind (archive_rows W AR_GRADED adminId baseRows) (\<lambda>_.
     bind (reads_shop (\<lambda>s. filter (demoted_promo productId) (db_promos s))) (\<lambda>baseless.
     bind (on_shop (delete_promos (demoted_promo productId))) (\<lambda>_.
     ret (baseRows \<noteq> [] \<or> baseless \<noteq> []))))))"

definition ungradedStockQuantity :: "product \<Rightarrow> store \<Rightarrow> rat" where
  "ungradedStockQuantity p s = (case pd_odooProductId p of None \<Rightarrow> 0 | Some k \<Rightarrow> if k = 0 then 0 else
     sum_list (map i_quantity (filter (\<lambda>i. i_odooProductId i = k \<and> (i_conditionCode i = [] \<or> toUpperCase (i_conditionCode i) = ''UNGRADED'')
       \<and> 0 < i_quantity i) (db_inventory s))))"

definition save_grade :: "material_condition \<Rightarrow> unit action" where
  "save_grade g = writes (\<lambda>s. s\<lparr>db_grades := tbl_save g_id g (db_grades s)\<rparr>)"

definition grade_add :: "world \<Rightarrow> ident \<Rightarrow> ident \<Rightarrow> grade_dto \<Rightarrow> (material_condition \<times> rat) desk_action" where
  "grade_add W adminId productId dto =
     bind (productOrThrow productId) (\<lambda>p.
     bind (reads_shop (\<lambda>s. filter (\<lambda>g. g_productId g = productId) (db_grades s))) (\<lambda>mine.
     bind (refuse_if (list_ex (\<lambda>g. g_code g = gd_code dto) mine) Conflict) (\<lambda>_.
     bind (refuse_if (list_ex (clashes dto) mine) Conflict) (\<lambda>_.
     bind (reads_shop (last_position productId)) (\<lambda>last.
     bind (on_shop fresh_id) (\<lambda>i.
     let g = \<lparr>g_id = i, g_productId = productId, g_code = gd_code dto, g_nameEn = gd_nameEn dto, g_nameAr = gd_nameAr dto,
       g_sortOrder = last + 1, g_isActive = True, g_odooConditionId = None, g_odooSyncStatus = SYNC_PENDING\<rparr> in
     bind (on_shop (save_grade g)) (\<lambda>_.
     bind (demoteConditionless W adminId productId) (\<lambda>graded.
     bind (on_shop (record_audit adminId ''ADD_PRODUCT_CONDITION'' i)) (\<lambda>_.
     bind (enqueue_desk (SYNC_CONDITION i)) (\<lambda>_.
     bind (if graded then enqueue_desk (UPDATE_PRICING productId) else ret ()) (\<lambda>_.
     reads_shop (\<lambda>s. (g, ungradedStockQuantity p s)))))))))))))"

section \<open>Arranging the grades\<close>

definition splice :: "nat \<Rightarrow> 'a \<Rightarrow> 'a list \<Rightarrow> 'a list" where
  "splice i x xs = take i xs @ x # drop i xs"

text \<open>The list is numbered anew from 1.\<close>

definition numbered :: "(int \<Rightarrow> material_condition \<Rightarrow> material_condition) \<Rightarrow> material_condition list \<Rightarrow> material_condition list" where
  "numbered f gs = map (\<lambda>(i, g). f (int i + 1) g) (List.enumerate 0 gs)"

definition save_grades :: "material_condition list \<Rightarrow> unit action" where
  "save_grades gs = writes (\<lambda>s. s\<lparr>db_grades := tbl_save_all g_id gs (db_grades s)\<rparr>)"

definition arranged :: "material_condition \<Rightarrow> nat \<Rightarrow> material_condition list \<Rightarrow> material_condition list" where
  "arranged g position siblings =
     (let others = filter (\<lambda>x. g_id x \<noteq> g_id g) siblings
      in numbered (\<lambda>i x. x\<lparr>g_sortOrder := i, g_odooSyncStatus := SYNC_PENDING\<rparr>)
           (splice (min position (length others + 1) - 1) g others))"

definition grade_reorder :: "ident \<Rightarrow> ident \<Rightarrow> nat \<Rightarrow> ident option \<Rightarrow> material_condition list desk_action" where
  "grade_reorder adminId conditionId position expected =
     bind (refuse_if (position < 1) BadRequest) (\<lambda>_.
     bind (conditionOrThrow conditionId expected) (\<lambda>g.
     bind (in_transaction (
       bind (reads_shop (grades_of (g_productId g))) (\<lambda>siblings.
       on_shop (save_grades (arranged g position siblings))))) (\<lambda>_.
     bind (on_shop (record_audit adminId ''REORDER_PRODUCT_CONDITION'' conditionId)) (\<lambda>_.
     bind (reads_shop (grades_of (g_productId g))) (\<lambda>all.
     bind (for_each all (\<lambda>x. enqueue_desk (SYNC_CONDITION (g_id x)))) (\<lambda>_. ret all))))))"

section \<open>Changing and removing a grade\<close>

record grade_patch =
  gp_nameEn :: "string option"
  gp_nameAr :: "string option"
  gp_isActive :: "bool option"

definition grade_patched :: "grade_patch \<Rightarrow> material_condition \<Rightarrow> material_condition" where
  "grade_patched dto g = g\<lparr>g_nameEn := or_else (gp_nameEn dto) (g_nameEn g), g_nameAr := or_else (gp_nameAr dto) (g_nameAr g),
     g_isActive := or_else (gp_isActive dto) (g_isActive g), g_odooSyncStatus := SYNC_PENDING\<rparr>"

definition grade_update :: "ident \<Rightarrow> ident \<Rightarrow> grade_patch \<Rightarrow> ident option \<Rightarrow> material_condition desk_action" where
  "grade_update adminId conditionId dto expected =
     bind (conditionOrThrow conditionId expected) (\<lambda>g.
     let g' = grade_patched dto g in
     bind (on_shop (save_grade g')) (\<lambda>_.
     bind (on_shop (record_audit adminId ''UPDATE_PRODUCT_CONDITION'' conditionId)) (\<lambda>_.
     bind (enqueue_desk (SYNC_CONDITION conditionId)) (\<lambda>_.
     bind (if g_isActive g' \<noteq> g_isActive g then enqueue_desk (UPDATE_PRICING (g_productId g)) else ret ()) (\<lambda>_.
     ret g')))))"

definition held_stock :: "int \<Rightarrow> string \<Rightarrow> store \<Rightarrow> rat" where
  "held_stock k code s = sum_list (map i_quantity (filter (\<lambda>i. i_odooProductId i = k \<and> i_conditionCode i = code) (db_inventory s)))"

definition mirrored_id :: "product option \<Rightarrow> int option" where
  "mirrored_id p = (case Option.bind p pd_odooProductId of Some k \<Rightarrow> if k = 0 then None else Some k | None \<Rightarrow> None)"

definition remove_with_prices :: "world \<Rightarrow> ident \<Rightarrow> material_condition \<Rightarrow> bool desk_action" where
  "remove_with_prices W adminId g = in_transaction (
     bind (reads_shop (\<lambda>s. filter (\<lambda>r. pr_productId r = g_productId g \<and> pr_conditionId r = Some (g_id g)) (db_pricing s))) (\<lambda>rows.
     bind (archive_rows W AR_DELETED adminId rows) (\<lambda>_.
     bind (on_shop (delete_promos (\<lambda>x. of_conditionId x = Some (g_id g)))) (\<lambda>_.
     bind (on_shop (writes (\<lambda>s. s\<lparr>db_grades := filter (\<lambda>x. g_id x \<noteq> g_id g) (db_grades s)\<rparr>))) (\<lambda>_.
     bind (reads_shop (grades_of (g_productId g))) (\<lambda>rest.
     bind (on_shop (save_grades (numbered (\<lambda>i x. x\<lparr>g_sortOrder := i\<rparr>) rest))) (\<lambda>_.
     ret (rows \<noteq> []))))))))"

definition grade_remove :: "world \<Rightarrow> ident \<Rightarrow> ident \<Rightarrow> ident option \<Rightarrow> unit desk_action" where
  "grade_remove W adminId conditionId expected =
     bind (conditionOrThrow conditionId expected) (\<lambda>g.
     bind (reads_shop (\<lambda>s. mirrored_id (tbl_find pd_id (g_productId g) (db_products s)))) (\<lambda>odoo.
     bind (reads_shop (\<lambda>s. case odoo of None \<Rightarrow> 0 | Some k \<Rightarrow> held_stock k (g_code g) s)) (\<lambda>held.
     bind (refuse_if (0 < held) Conflict) (\<lambda>_.
     bind (remove_with_prices W adminId g) (\<lambda>hadLivePrice.
     bind (if odoo \<noteq> None \<and> hadLivePrice then enqueue_desk (UPDATE_PRICING (g_productId g)) else ret ()) (\<lambda>_.
     bind (case g_odooConditionId g of None \<Rightarrow> ret () | Some k \<Rightarrow> if k = 0 then ret () else enqueue_desk (DELETE_CONDITION k)) (\<lambda>_.
     on_shop (record_audit adminId ''DELETE_PRODUCT_CONDITION'' conditionId))))))))"

end
