(* ===== verification/PriceAdmin.thy ===== *)
theory PriceAdmin
  imports Grades
begin

text \<open>
  The administration of the prices: \<open>waste-management/admin/pricing/pricing.service.ts\<close> with
  \<open>pricing-shape.ts\<close>.  The live table holds the current prices, one row per tier and grade; what is
  replaced goes to the archive.  The views are given as the rows they show.
\<close>

section \<open>The shape of a price list\<close>

definition GRADED_TIERS :: "pricing_tier list" where
  "GRADED_TIERS = [TIER_FACTORY, FREE_FACILITY]"

definition ALL_TIERS :: "pricing_tier list" where
  "ALL_TIERS = [INDIVIDUAL, COMPANY, TIER_FACTORY, FREE_FACILITY]"

definition isPricedPerCondition :: "pricing_tier \<Rightarrow> bool \<Rightarrow> bool" where
  "isPricedPerCondition tier graded \<longleftrightarrow> graded \<and> List.member GRADED_TIERS tier"

record price_line =
  pl_conditionId :: "ident option"
  pl_condition :: "string option"
  pl_price :: rat

record condition_line =
  cl_condition :: "string option"
  cl_conditionId :: "ident option"
  cl_price :: rat

text \<open>One line of a list priced per grade: the grade by its id, or by its code.\<close>

definition normalize_line :: "string list \<Rightarrow> ident \<Rightarrow> price_line \<Rightarrow> (string \<times> ident option) desk_action" where
  "normalize_line codes productId l =
     (if given (pl_conditionId l) then
        bind (resolveForProduct (or_else (pl_conditionId l) []) productId) (\<lambda>g.
        bind (refuse_if (given (pl_condition l) \<and> toUpperCase (trim (or_else (pl_condition l) [])) \<noteq> g_code g) BadRequest) (\<lambda>_.
        ret (g_code g, Some (g_id g))))
      else
        let code = toUpperCase (trim (or_else (pl_condition l) [])) in
        bind (refuse_if (code = []) BadRequest) (\<lambda>_.
        bind (refuse_if (\<not> List.member codes code) BadRequest) (\<lambda>_.
        reads_shop (\<lambda>s. (code, map_option g_id (findByCodeForProduct productId code s))))))"

fun normalize_loop :: "string list \<Rightarrow> ident \<Rightarrow> price_line list \<Rightarrow> string list \<Rightarrow> condition_line list desk_action" where
  "normalize_loop codes productId [] seen =
     bind (refuse_if (filter (\<lambda>c. \<not> List.member seen c) codes \<noteq> []) BadRequest) (\<lambda>_. ret [])"
| "normalize_loop codes productId (l # ls) seen =
     bind (normalize_line codes productId l) (\<lambda>(code, conditionId).
     bind (refuse_if (List.member seen code) BadRequest) (\<lambda>_.
     bind (normalize_loop codes productId ls (code # seen)) (\<lambda>rest.
     ret (\<lparr>cl_condition = Some code, cl_conditionId = conditionId, cl_price = pl_price l\<rparr> # rest))))"

definition normalizeConditionLines :: "price_line list \<Rightarrow> ident \<Rightarrow> pricing_tier \<Rightarrow> bool \<Rightarrow> condition_line list desk_action" where
  "normalizeConditionLines lines productId tier graded =
     (if \<not> isPricedPerCondition tier graded then
        (case lines of
           [l] \<Rightarrow> bind (refuse_if (given (pl_condition l) \<or> given (pl_conditionId l)) BadRequest) (\<lambda>_.
             ret [\<lparr>cl_condition = None, cl_conditionId = None, cl_price = pl_price l\<rparr>])
         | _ \<Rightarrow> throw BadRequest)
      else bind (reads_shop (activeCodes productId)) (\<lambda>codes. normalize_loop codes productId lines []))"

section \<open>The price of a basket line\<close>

record tier_values =
  tv_individual :: rat
  tv_company :: rat
  tv_factory :: "(string \<times> rat) list"
  tv_freeFacility :: "(string \<times> rat) list"

text \<open>The empty text is the key of the one price of a material without grades.\<close>

definition toPriceMap :: "condition_line list \<Rightarrow> (string \<times> rat) list" where
  "toPriceMap ls = js_map (map (\<lambda>l. (condition_key (cl_condition l), cl_price l)) ls)"

definition graded_price :: "(string \<times> rat) list \<Rightarrow> string option \<Rightarrow> rat option" where
  "graded_price m code = (if \<not> given code then map_of m []
     else case map_of m (or_else code []) of None \<Rightarrow> map_of m [] | p \<Rightarrow> p)"

definition line_price :: "tier_values \<Rightarrow> pricing_tier \<Rightarrow> string option \<Rightarrow> rat option" where
  "line_price v tier code = (case tier of INDIVIDUAL \<Rightarrow> Some (tv_individual v) | COMPANY \<Rightarrow> Some (tv_company v)
     | TIER_FACTORY \<Rightarrow> graded_price (tv_factory v) code | FREE_FACILITY \<Rightarrow> graded_price (tv_freeFacility v) code)"

definition repriceActiveCarts :: "ident \<Rightarrow> tier_values \<Rightarrow> nat desk_action" where
  "repriceActiveCarts productId v = reprice_lines productId (\<lambda>r. line_price v (tierForRole r))"

definition repriceTier :: "ident \<Rightarrow> pricing_tier \<Rightarrow> rat \<Rightarrow> string option \<Rightarrow> nat desk_action" where
  "repriceTier productId tier price code = reprice_lines productId (\<lambda>r c.
     if tierForRole r = tier \<and> (code = None \<or> c = code) then Some price else None)"

definition isLive :: "world \<Rightarrow> product_pricing \<Rightarrow> bool" where
  "isLive W r = in_force (w_now W) (pr_effectiveFrom r) (pr_effectiveUntil r)"

definition liveRows :: "world \<Rightarrow> ident \<Rightarrow> store \<Rightarrow> product_pricing list" where
  "liveRows W productId s = filter (\<lambda>r. pr_productId r = productId \<and> isLive W r) (db_pricing s)"

definition currentFlatPrice :: "world \<Rightarrow> ident \<Rightarrow> pricing_tier \<Rightarrow> store \<Rightarrow> rat" where
  "currentFlatPrice W productId tier s = (case find (\<lambda>r. pr_tier r = tier \<and> \<not> given (pr_conditionCode r)) (liveRows W productId s) of
     None \<Rightarrow> 0 | Some r \<Rightarrow> pr_price r)"

definition currentConditionLines :: "world \<Rightarrow> ident \<Rightarrow> pricing_tier \<Rightarrow> store \<Rightarrow> condition_line list" where
  "currentConditionLines W productId tier s = map (\<lambda>r. \<lparr>cl_condition = pr_conditionCode r, cl_conditionId = pr_conditionId r,
     cl_price = pr_price r\<rparr>) (filter (\<lambda>r. pr_tier r = tier) (liveRows W productId s))"

section \<open>A whole price list\<close>

record pricing_dto =
  sp_individual :: rat
  sp_company :: rat
  sp_factory :: "price_line list"
  sp_freeFacility :: "price_line list"
  sp_effectiveFrom :: "time option"

definition insert_lines :: "ident \<Rightarrow> pricing_tier \<Rightarrow> string \<Rightarrow> time \<Rightarrow> condition_line list \<Rightarrow> unit desk_action" where
  "insert_lines productId tier currency effectiveFrom ls = for_each ls (\<lambda>l.
     bind (insertCurrent productId tier (cl_price l) currency effectiveFrom (cl_condition l) (cl_conditionId l) None) (\<lambda>_. ret ()))"

definition insert_flat :: "ident \<Rightarrow> pricing_tier \<Rightarrow> rat \<Rightarrow> string \<Rightarrow> time \<Rightarrow> unit desk_action" where
  "insert_flat productId tier price currency effectiveFrom =
     bind (insertCurrent productId tier price currency effectiveFrom None None None) (\<lambda>_. ret ())"

definition archive_tier :: "world \<Rightarrow> ident \<Rightarrow> archive_reason \<Rightarrow> ident \<Rightarrow> pricing_tier \<Rightarrow> unit desk_action" where
  "archive_tier W productId reason adminId tier = bind (archiveCurrent W productId tier reason adminId None) (\<lambda>_. ret ())"

text \<open>The number of basket lines that follow.\<close>

definition setPricing :: "world \<Rightarrow> ident \<Rightarrow> ident \<Rightarrow> pricing_dto \<Rightarrow> nat desk_action" where
  "setPricing W adminId productId dto =
     bind (productOrThrow productId) (\<lambda>_.
     let effectiveFrom = or_else (sp_effectiveFrom dto) (w_now W) in
     bind (reads_shop (hasConditions productId)) (\<lambda>graded.
     bind (normalizeConditionLines (sp_factory dto) productId TIER_FACTORY graded) (\<lambda>factoryLines.
     bind (normalizeConditionLines (sp_freeFacility dto) productId FREE_FACILITY graded) (\<lambda>freeLines.
     bind (for_each ALL_TIERS (archive_tier W productId AR_UPDATED adminId)) (\<lambda>_.
     bind (reads_shop db_currency) (\<lambda>currency.
     bind (insert_flat productId INDIVIDUAL (sp_individual dto) currency effectiveFrom) (\<lambda>_.
     bind (insert_flat productId COMPANY (sp_company dto) currency effectiveFrom) (\<lambda>_.
     bind (insert_lines productId TIER_FACTORY currency effectiveFrom factoryLines) (\<lambda>_.
     bind (insert_lines productId FREE_FACILITY currency effectiveFrom freeLines) (\<lambda>_.
     bind (repriceActiveCarts productId \<lparr>tv_individual = sp_individual dto, tv_company = sp_company dto,
       tv_factory = toPriceMap factoryLines, tv_freeFacility = toPriceMap freeLines\<rparr>) (\<lambda>updated.
     bind (settle_and_push W productId adminId) (\<lambda>_.
     bind (on_shop (record_audit adminId ''SET_PRICING'' productId)) (\<lambda>_. ret updated)))))))))))))"

section \<open>Some tiers of a price list\<close>

record table_dto =
  ut_individual :: "rat option"
  ut_company :: "rat option"
  ut_factory :: "price_line list option"
  ut_freeFacility :: "price_line list option"
  ut_effectiveFrom :: "time option"

definition replace_flat :: "world \<Rightarrow> ident \<Rightarrow> ident \<Rightarrow> string \<Rightarrow> time \<Rightarrow> pricing_tier \<times> rat option \<Rightarrow> unit desk_action" where
  "replace_flat W adminId productId currency effectiveFrom = (\<lambda>(tier, price). case price of None \<Rightarrow> ret () | Some p \<Rightarrow>
     bind (archive_tier W productId AR_UPDATED adminId tier) (\<lambda>_. insert_flat productId tier p currency effectiveFrom))"

definition replace_graded ::
    "world \<Rightarrow> ident \<Rightarrow> ident \<Rightarrow> bool \<Rightarrow> string \<Rightarrow> time \<Rightarrow> pricing_tier \<times> price_line list option \<Rightarrow> condition_line list option desk_action" where
  "replace_graded W adminId productId graded currency effectiveFrom = (\<lambda>(tier, given_lines). case given_lines of None \<Rightarrow> ret None | Some ls \<Rightarrow>
     bind (normalizeConditionLines ls productId tier graded) (\<lambda>normalized.
     bind (archive_tier W productId AR_UPDATED adminId tier) (\<lambda>_.
     bind (insert_lines productId tier currency effectiveFrom normalized) (\<lambda>_. ret (Some normalized)))))"

definition updatePricingTable :: "world \<Rightarrow> ident \<Rightarrow> ident \<Rightarrow> table_dto \<Rightarrow> nat desk_action" where
  "updatePricingTable W adminId productId dto =
     bind (productOrThrow productId) (\<lambda>_.
     bind (refuse_if (ut_individual dto = None \<and> ut_company dto = None \<and> ut_factory dto = None \<and> ut_freeFacility dto = None) BadRequest) (\<lambda>_.
     let effectiveFrom = or_else (ut_effectiveFrom dto) (w_now W) in
     bind (reads_shop (\<lambda>s. (hasConditions productId s, db_currency s))) (\<lambda>(graded, currency).
     bind (for_each [(INDIVIDUAL, ut_individual dto), (COMPANY, ut_company dto)] (replace_flat W adminId productId currency effectiveFrom)) (\<lambda>_.
     bind (replace_graded W adminId productId graded currency effectiveFrom (TIER_FACTORY, ut_factory dto)) (\<lambda>factoryLines.
     bind (replace_graded W adminId productId graded currency effectiveFrom (FREE_FACILITY, ut_freeFacility dto)) (\<lambda>freeLines.
     bind (reads_shop (\<lambda>s. \<lparr>
       tv_individual = or_else (ut_individual dto) (currentFlatPrice W productId INDIVIDUAL s),
       tv_company = or_else (ut_company dto) (currentFlatPrice W productId COMPANY s),
       tv_factory = toPriceMap (or_else factoryLines (currentConditionLines W productId TIER_FACTORY s)),
       tv_freeFacility = toPriceMap (or_else freeLines (currentConditionLines W productId FREE_FACILITY s))\<rparr>)) (\<lambda>v.
     bind (repriceActiveCarts productId v) (\<lambda>updated.
     bind (settle_and_push W productId adminId) (\<lambda>_.
     bind (on_shop (record_audit adminId ''UPDATE_PRICING_TABLE'' productId)) (\<lambda>_. ret updated))))))))))"

section \<open>One price\<close>

record tier_dto =
  ud_conditionId :: "ident option"
  ud_condition :: "string option"
  ud_price :: rat
  ud_effectiveFrom :: "time option"
  ud_effectiveUntil :: "time option"

text \<open>The grade a single price is for: asked for, and only asked for, where prices are kept per grade.\<close>

definition named_grade :: "ident \<Rightarrow> pricing_tier \<Rightarrow> bool \<Rightarrow> tier_dto \<Rightarrow> (string option \<times> ident option) desk_action" where
  "named_grade productId tier graded dto =
     (if isPricedPerCondition tier graded then
        if given (ud_conditionId dto) then
          bind (resolveForProduct (or_else (ud_conditionId dto) []) productId) (\<lambda>g.
          bind (refuse_if (\<not> g_isActive g) BadRequest) (\<lambda>_.
          bind (refuse_if (given (ud_condition dto) \<and> toUpperCase (trim (or_else (ud_condition dto) [])) \<noteq> g_code g) BadRequest) (\<lambda>_.
          ret (Some (g_code g), Some (g_id g)))))
        else if given (ud_condition dto) then
          let code = toUpperCase (trim (or_else (ud_condition dto) [])) in
          bind (reads_shop (activeCodes productId)) (\<lambda>codes.
          bind (refuse_if (\<not> List.member codes code) BadRequest) (\<lambda>_.
          reads_shop (\<lambda>s. (Some code, map_option g_id (findByCodeForProduct productId code s)))))
        else throw BadRequest
      else bind (refuse_if (given (ud_condition dto) \<or> given (ud_conditionId dto)) BadRequest) (\<lambda>_. ret (None, None)))"

definition checked_until :: "world \<Rightarrow> time \<Rightarrow> time option \<Rightarrow> unit desk_action" where
  "checked_until W effectiveFrom effectiveUntil = (case effectiveUntil of None \<Rightarrow> ret () | Some u \<Rightarrow>
     bind (refuse_if (u \<le> w_now W) BadRequest) (\<lambda>_. refuse_if (u \<le> effectiveFrom) BadRequest))"

definition updateTierPrice :: "world \<Rightarrow> ident \<Rightarrow> ident \<Rightarrow> pricing_tier \<Rightarrow> tier_dto \<Rightarrow> (product_pricing \<times> nat) desk_action" where
  "updateTierPrice W adminId productId tier dto =
     bind (productOrThrow productId) (\<lambda>_.
     bind (reads_shop (hasConditions productId)) (\<lambda>graded.
     bind (named_grade productId tier graded dto) (\<lambda>(code, conditionId).
     let effectiveFrom = or_else (ud_effectiveFrom dto) (w_now W) in
     bind (checked_until W effectiveFrom (ud_effectiveUntil dto)) (\<lambda>_.
     bind (reads_shop db_currency) (\<lambda>currency.
     bind (archiveCurrent W productId tier AR_UPDATED adminId (Some code)) (\<lambda>_.
     bind (insertCurrent productId tier (ud_price dto) currency effectiveFrom code conditionId (ud_effectiveUntil dto)) (\<lambda>r.
     bind (repriceTier productId tier (ud_price dto) code) (\<lambda>updated.
     bind (settle_and_push W productId adminId) (\<lambda>_.
     bind (on_shop (record_audit adminId ''UPDATE_TIER_PRICING'' productId)) (\<lambda>_. ret (r, updated)))))))))))"

definition save_price :: "product_pricing \<Rightarrow> unit action" where
  "save_price r = writes (\<lambda>s. s\<lparr>db_pricing := tbl_save pr_id r (db_pricing s)\<rparr>)"

definition correctPricingRow :: "world \<Rightarrow> ident \<Rightarrow> ident \<Rightarrow> rat \<Rightarrow> nat desk_action" where
  "correctPricingRow W adminId pricingId price =
     bind (reads_shop (\<lambda>s. tbl_find pr_id pricingId (db_pricing s))) (\<lambda>found. case found of None \<Rightarrow> throw NotFound | Some r \<Rightarrow>
     bind (refuse_if (\<not> isLive W r) BadRequest) (\<lambda>_.
     bind (on_shop (save_price (r\<lparr>pr_price := round3 price\<rparr>))) (\<lambda>_.
     bind (repriceTier (pr_productId r) (pr_tier r) price (pr_conditionCode r)) (\<lambda>updated.
     bind (settle_and_push W (pr_productId r) adminId) (\<lambda>_.
     bind (on_shop (record_audit adminId ''CORRECT_PRICING_ROW'' pricingId)) (\<lambda>_. ret updated))))))"

section \<open>Withdrawing prices\<close>

definition chosen_tiers :: "pricing_tier list option \<Rightarrow> pricing_tier list" where
  "chosen_tiers tiers = (case tiers of Some (t # ts) \<Rightarrow> t # ts | _ \<Rightarrow> ALL_TIERS)"

text \<open>The number of rows withdrawn; nothing is undone when there were none.\<close>

definition deletePricing :: "world \<Rightarrow> ident \<Rightarrow> ident \<Rightarrow> pricing_tier list option \<Rightarrow> nat desk_action" where
  "deletePricing W adminId productId tiers =
     bind (productOrThrow productId) (\<lambda>_.
     bind (collect (chosen_tiers tiers) (\<lambda>tier. archiveCurrent W productId tier AR_DELETED adminId None)) (\<lambda>rows.
     let gone = length (concat rows) in
     bind (refuse_if (gone = 0) BadRequest) (\<lambda>_.
     bind (on_shop (record_audit adminId ''DELETE_PRICING'' productId)) (\<lambda>_.
     bind (settle_and_push W productId adminId) (\<lambda>_. ret gone)))))"

definition expireCurrentPricing :: "world \<Rightarrow> ident \<Rightarrow> ident \<Rightarrow> time \<Rightarrow> pricing_tier list option \<Rightarrow> nat desk_action" where
  "expireCurrentPricing W adminId productId effectiveUntil tiers =
     bind (productOrThrow productId) (\<lambda>_.
     bind (refuse_if (effectiveUntil \<le> w_now W) BadRequest) (\<lambda>_.
     bind (reads_shop (\<lambda>s. filter (\<lambda>r. List.member (chosen_tiers tiers) (pr_tier r)) (liveRows W productId s))) (\<lambda>live.
     bind (refuse_if (live = []) BadRequest) (\<lambda>_.
     bind (on_shop (writes (\<lambda>s. s\<lparr>db_pricing := tbl_save_all pr_id (map (\<lambda>r. r\<lparr>pr_effectiveUntil := Some effectiveUntil\<rparr>) live)
       (db_pricing s)\<rparr>))) (\<lambda>_.
     bind (settle_and_push W productId adminId) (\<lambda>_.
     bind (on_shop (record_audit adminId ''EXPIRE_PRICING'' productId)) (\<lambda>_. ret (length live))))))))"

section \<open>The sweep\<close>

definition ended :: "world \<Rightarrow> product_pricing \<Rightarrow> bool" where
  "ended W r \<longleftrightarrow> (case pr_effectiveUntil r of None \<Rightarrow> False | Some u \<Rightarrow> u \<le> w_now W)"

definition notifyAdminsPricingExpired :: "ident \<Rightarrow> unit action" where
  "notifyAdminsPricingExpired productId =
     bind (reads (\<lambda>s. filter (\<lambda>a. ac_role a = ADMIN) (db_accounts s))) (\<lambda>admins.
     for_each admins (\<lambda>a. createNotification \<lparr>no_userId = ac_id a, no_titleKey = ''Material pricing expired'', no_reference = productId\<rparr>))"

definition sweep_product :: "world \<Rightarrow> ident \<Rightarrow> product_pricing list \<Rightarrow> ident \<Rightarrow> unit desk_action" where
  "sweep_product W adminId expired productId =
     bind (archive_rows W AR_EXPIRED adminId (filter (\<lambda>r. pr_productId r = productId) expired)) (\<lambda>_.
     bind (on_shop (resettle W productId (Some adminId))) (\<lambda>_.
     bind (enqueue_desk (UPDATE_PRICING productId)) (\<lambda>_.
     on_shop (notifyAdminsPricingExpired productId))))"

definition sweepExpiredPricing :: "world \<Rightarrow> ident \<Rightarrow> (nat \<times> nat) desk_action" where
  "sweepExpiredPricing W adminId =
     bind (reads_shop (\<lambda>s. filter (ended W) (db_pricing s))) (\<lambda>expired.
     let products = uniq (map pr_productId expired) in
     bind (for_each products (sweep_product W adminId expired)) (\<lambda>_. ret (length products, length expired)))"

text \<open>The cron passes no account: the default takes the place of the administrator.\<close>

definition price_expiry_cron :: "world \<Rightarrow> (nat \<times> nat) desk_action" where
  "price_expiry_cron W = sweepExpiredPricing W ''system''"

section \<open>Reading\<close>

definition getCurrentPricing :: "ident \<Rightarrow> (product_pricing option \<times> product_pricing option \<times> product_pricing list \<times> product_pricing list) desk_action" where
  "getCurrentPricing productId = bind (productOrThrow productId) (\<lambda>_. reads_shop (\<lambda>s.
     let rows = filter (\<lambda>r. pr_productId r = productId) (db_pricing s);
         flat = (\<lambda>tier. find (\<lambda>r. pr_tier r = tier \<and> \<not> given (pr_conditionCode r)) rows);
         position = (\<lambda>r. case Option.bind (pr_conditionCode r) (\<lambda>c. find (\<lambda>g. g_code g = c) (grades_of productId s)) of
           None \<Rightarrow> 9007199254740991 | Some g \<Rightarrow> g_sortOrder g);
         graded = (\<lambda>tier. sort_key position (filter (\<lambda>r. pr_tier r = tier) rows))
     in (flat INDIVIDUAL, flat COMPANY, graded TIER_FACTORY, graded FREE_FACILITY)))"

text \<open>An entry of the timeline: the tier, the grade, the price, and the window it was or is in force.\<close>

record timeline_entry =
  tl_tier :: pricing_tier
  tl_condition :: "string option"
  tl_price :: rat
  tl_from :: time
  tl_until :: "time option"
  tl_live :: bool

definition price_timeline :: "ident \<Rightarrow> time option \<Rightarrow> timeline_entry list desk_action" where
  "price_timeline productId as_of = bind (productOrThrow productId) (\<lambda>_. reads (\<lambda>d.
     let live = map (\<lambda>r. \<lparr>tl_tier = pr_tier r, tl_condition = pr_conditionCode r, tl_price = pr_price r, tl_from = pr_effectiveFrom r,
           tl_until = pr_effectiveUntil r, tl_live = True\<rparr>) (filter (\<lambda>r. pr_productId r = productId) (db_pricing (dk_shop d)));
         old = map (\<lambda>h. \<lparr>tl_tier = ph_tier h, tl_condition = ph_conditionCode h, tl_price = ph_price h, tl_from = ph_effectiveFrom h,
           tl_until = Some (ph_archivedAt h), tl_live = False\<rparr>)
           (sort_key (\<lambda>h. - ph_archivedAt h) (filter (\<lambda>h. ph_productId h = productId) (dk_history d)));
         entries = filter (\<lambda>e. case as_of of None \<Rightarrow> True | Some day \<Rightarrow> in_force day (tl_from e) (tl_until e)) (live @ old)
     in sort_key (\<lambda>e. - tl_from e) entries))"

end
