(* ===== verification/OfferAdmin.thy ===== *)
theory OfferAdmin
  imports PriceDesk
begin

text \<open>
  The administration of the offers: the offer part of
  \<open>waste-management/admin/admin-catalog.service.ts\<close>.  An offer is stated as a percentage; the request
  becomes one row per role, and per grade where the buyers are priced per grade.  Descriptions and the
  list views are left out.
\<close>

section \<open>Planning the rows\<close>

record offer_row =
  ow_conditionId :: "ident option"
  ow_conditionCode :: "string option"
  ow_amount :: rat
  ow_roles :: "role list"
  ow_audience :: offer_audience
  ow_basis :: offer_basis
  ow_basisPercentage :: "rat option"
  ow_roleSpecific :: bool
  ow_percentage :: rat

text \<open>\<open>ORDER BY effectiveFrom DESC LIMIT 1\<close> among the rows in force.\<close>

definition livePriceFor :: "world \<Rightarrow> ident \<Rightarrow> pricing_tier \<Rightarrow> string option \<Rightarrow> store \<Rightarrow> rat option" where
  "livePriceFor W productId tier code s =
     (let wanted = (if given code then code else None)
      in map_option pr_price (find (\<lambda>_. True) (sort_key (\<lambda>r. - pr_effectiveFrom r) (filter (\<lambda>r. pr_productId r = productId
           \<and> pr_tier r = tier \<and> pr_conditionCode r = wanted
           \<and> in_force (w_now W) (pr_effectiveFrom r) (pr_effectiveUntil r)) (db_pricing s)))))"

definition resolveAudienceRoles :: "offer_audience \<Rightarrow> role list option \<Rightarrow> role list desk_action" where
  "resolveAudienceRoles audience requested =
     (case requested of Some (r # rs) \<Rightarrow>
        bind (refuse_if (filter (\<lambda>x. \<not> List.member (AUDIENCE_ROLES audience) x) (r # rs) \<noteq> []) BadRequest) (\<lambda>_. ret (uniq (r # rs)))
      | _ \<Rightarrow> ret (AUDIENCE_ROLES audience))"

definition dearest_of :: "rat list \<Rightarrow> rat option" where
  "dearest_of ps = fold (\<lambda>base c. Some (case c of None \<Rightarrow> base | Some m \<Rightarrow> max m base)) ps None"

definition buildOfferRow ::
    "world \<Rightarrow> ident \<Rightarrow> offer_audience \<Rightarrow> role list \<Rightarrow> ident option \<Rightarrow> string option \<Rightarrow> rat \<Rightarrow> bool \<Rightarrow> offer_row desk_action" where
  "buildOfferRow W productId audience roles conditionId code percentage roleSpecific =
     bind (collect (tiersForAudience audience (Some roles)) (\<lambda>tier.
       bind (reads_shop (livePriceFor W productId tier code)) (\<lambda>base. case base of None \<Rightarrow> throw BadRequest | Some b \<Rightarrow> ret b))) (\<lambda>bases.
     bind (refuse_if (audience = BUYERS \<and> 100 \<le> percentage) BadRequest) (\<lambda>_.
     let amount = amountFromPercentage (or_else (cheapest_of bases) 0) percentage in
     bind (refuse_if (\<not> 0 < amount) BadRequest) (\<lambda>_.
     bind (refuse_if (audience = BUYERS \<and> list_ex (\<lambda>b. b \<le> amount) bases) BadRequest) (\<lambda>_.
     ret \<lparr>ow_conditionId = conditionId, ow_conditionCode = code, ow_amount = amount, ow_roles = roles, ow_audience = audience,
       ow_basis = BASIS_PERCENTAGE, ow_basisPercentage = Some percentage, ow_roleSpecific = roleSpecific,
       ow_percentage = offerPercentage (or_else (dearest_of bases) 0) amount\<rparr>))))"

definition buildPerRoleRows ::
    "world \<Rightarrow> ident \<Rightarrow> offer_audience \<Rightarrow> role list \<Rightarrow> ident option \<Rightarrow> string option \<Rightarrow> rat \<Rightarrow> bool \<Rightarrow> offer_row list desk_action" where
  "buildPerRoleRows W productId audience roles conditionId code percentage roleSpecific =
     collect roles (\<lambda>r. buildOfferRow W productId audience [r] conditionId code percentage roleSpecific)"

record offer_dto =
  od_productId :: ident
  od_audience :: offer_audience
  od_targetRoles :: "role list option"
  od_percentage :: rat
  od_validFrom :: "time option"
  od_validUntil :: "time option"

definition planOfferRows :: "world \<Rightarrow> offer_dto \<Rightarrow> offer_row list desk_action" where
  "planOfferRows W dto =
     bind (resolveAudienceRoles (od_audience dto) (od_targetRoles dto)) (\<lambda>roles.
     bind (reads_shop (hasConditions (od_productId dto))) (\<lambda>graded.
     let specific = (case od_targetRoles dto of Some (_ # _) \<Rightarrow> True | _ \<Rightarrow> False) in
     if od_audience dto = SELLERS \<or> \<not> graded
     then buildPerRoleRows W (od_productId dto) (od_audience dto) roles None None (od_percentage dto) specific
     else
       bind (reads_shop (activeForProduct (od_productId dto))) (\<lambda>grades.
       bind (collect grades (\<lambda>g. buildPerRoleRows W (od_productId dto) (od_audience dto) roles (Some (g_id g)) (Some (g_code g))
         (od_percentage dto) specific)) (\<lambda>rows. ret (concat rows)))))"

section \<open>Creating an offer\<close>

definition some_roles :: "role list option \<Rightarrow> role list option" where
  "some_roles rs = (case rs of Some (r # rs') \<Rightarrow> Some (r # rs') | _ \<Rightarrow> None)"

text \<open>An offer that has not ended, at the same level, for a role of the new row.\<close>

definition competes :: "world \<Rightarrow> string option \<Rightarrow> role list option \<Rightarrow> bool \<Rightarrow> promo \<Rightarrow> bool" where
  "competes W code roles roleSpecific x \<longleftrightarrow> of_conditionCode x = code
     \<and> \<not> (case of_validUntil x of None \<Rightarrow> False | Some u \<Rightarrow> u \<le> w_now W)
     \<and> of_roleSpecific x = roleSpecific
     \<and> (case (some_roles roles, some_roles (of_targetRoles x)) of
          (Some rs, Some rs') \<Rightarrow> list_ex (List.member rs') rs | _ \<Rightarrow> True)"

definition assertNoDuplicateOffer :: "world \<Rightarrow> ident \<Rightarrow> offer_row \<Rightarrow> unit desk_action" where
  "assertNoDuplicateOffer W productId w =
     bind (reads_shop (\<lambda>s. list_ex (competes W (ow_conditionCode w) (Some (ow_roles w)) (ow_roleSpecific w))
       (filter (\<lambda>x. of_productId x = productId \<and> of_isActive x) (db_promos s)))) (\<lambda>clash. refuse_if clash Conflict)"

definition new_promo :: "world \<Rightarrow> offer_dto \<Rightarrow> ident \<Rightarrow> offer_row \<Rightarrow> promo" where
  "new_promo W dto i w = \<lparr>of_id = i, of_productId = od_productId dto, of_targetRoles = Some (ow_roles w), of_conditionId = ow_conditionId w,
     of_conditionCode = ow_conditionCode w, of_audience = ow_audience w, of_amount = ow_amount w, of_discountPercentage = ow_percentage w,
     of_basis = ow_basis w, of_basisPercentage = ow_basisPercentage w, of_validFrom = or_else (od_validFrom dto) (w_now W),
     of_validUntil = od_validUntil dto, of_isActive = True, of_roleSpecific = ow_roleSpecific w\<rparr>"

text \<open>A material that was never mirrored has no price sheet in Odoo.\<close>

definition afterOfferChange :: "product option \<Rightarrow> ident \<Rightarrow> string \<Rightarrow> ident \<Rightarrow> unit desk_action" where
  "afterOfferChange p adminId act entityId =
     bind (on_shop (record_audit adminId act entityId)) (\<lambda>_.
     case p of None \<Rightarrow> ret () | Some p \<Rightarrow> (case pd_odooProductId p of None \<Rightarrow> ret ()
       | Some k \<Rightarrow> if k = 0 then ret () else enqueue_desk (UPDATE_PRICING (pd_id p))))"

definition reached_roles :: "promo list \<Rightarrow> role list" where
  "reached_roles xs = uniq (concat (map (\<lambda>x. or_else (some_roles (of_targetRoles x)) (AUDIENCE_ROLES (of_audience x))) xs))"

definition notifyOfferAudience :: "ident \<Rightarrow> promo list \<Rightarrow> unit action" where
  "notifyOfferAudience productId xs =
     bind (reads (\<lambda>s. filter (\<lambda>a. List.member (reached_roles xs) (ac_role a) \<and> ac_status a = A_ACTIVE) (db_accounts s))) (\<lambda>accounts.
     for_each accounts (\<lambda>a. createNotification \<lparr>no_userId = ac_id a, no_titleKey = ''notifications.newOffer.title'', no_reference = productId\<rparr>))"

definition createOffer :: "world \<Rightarrow> ident \<Rightarrow> offer_dto \<Rightarrow> promo list desk_action" where
  "createOffer W adminId dto =
     bind (productOrThrow (od_productId dto)) (\<lambda>p.
     bind (refuse_if (\<not> pd_isActive p) BadRequest) (\<lambda>_.
     bind (planOfferRows W dto) (\<lambda>plan.
     bind (for_each plan (assertNoDuplicateOffer W (od_productId dto))) (\<lambda>_.
     bind (in_transaction (collect plan (\<lambda>w.
       bind (on_shop fresh_id) (\<lambda>i.
       let x = new_promo W dto i w in
       bind (on_shop (save_promo x)) (\<lambda>_. ret x))))) (\<lambda>created.
     bind (afterOfferChange (Some p) adminId ''CREATE_OFFER'' (case created of [] \<Rightarrow> [] | x # _ \<Rightarrow> of_id x)) (\<lambda>_.
     bind (on_shop (notifyOfferAudience (od_productId dto) created)) (\<lambda>_. ret created)))))))"

section \<open>Changing and deleting an offer\<close>

text \<open>\<open>ox_validUntil\<close>: absent, cleared, or a date.\<close>

record offer_patch =
  ox_percentage :: "rat option"
  ox_validFrom :: "time option"
  ox_validUntil :: "time option option"
  ox_description :: "string option"
  ox_isActive :: "bool option"

definition resized :: "offer_row \<Rightarrow> promo \<Rightarrow> promo" where
  "resized w x = x\<lparr>of_basis := ow_basis w, of_basisPercentage := ow_basisPercentage w, of_amount := ow_amount w,
     of_discountPercentage := ow_percentage w\<rparr>"

definition rewindowed :: "offer_patch \<Rightarrow> promo \<Rightarrow> promo" where
  "rewindowed dto x = x\<lparr>of_validFrom := or_else (ox_validFrom dto) (of_validFrom x),
     of_validUntil := or_else (ox_validUntil dto) (of_validUntil x)\<rparr>"

definition updateOffer :: "world \<Rightarrow> ident \<Rightarrow> ident \<Rightarrow> offer_patch \<Rightarrow> promo desk_action" where
  "updateOffer W adminId offerId dto =
     bind (reads_shop (\<lambda>s. tbl_find of_id offerId (db_promos s))) (\<lambda>found. case found of None \<Rightarrow> throw NotFound | Some x \<Rightarrow>
     bind (refuse_if (ox_percentage dto = None \<and> ox_validFrom dto = None \<and> ox_validUntil dto = None \<and> ox_description dto = None
       \<and> ox_isActive dto = None) BadRequest) (\<lambda>_.
     bind (case ox_percentage dto of None \<Rightarrow> ret x | Some q \<Rightarrow>
       bind (buildOfferRow W (of_productId x) (of_audience x) (or_else (some_roles (of_targetRoles x)) (AUDIENCE_ROLES (of_audience x)))
         (of_conditionId x) (of_conditionCode x) q False) (\<lambda>w. ret (resized w x))) (\<lambda>x1.
     let x2 = rewindowed dto x1 in
     bind (refuse_if (case of_validUntil x2 of None \<Rightarrow> False | Some u \<Rightarrow> u \<le> of_validFrom x2) BadRequest) (\<lambda>_.
     let x3 = x2\<lparr>of_isActive := or_else (ox_isActive dto) (of_isActive x2)\<rparr> in
     bind (on_shop (save_promo x3)) (\<lambda>_.
     bind (reads_shop (\<lambda>s. tbl_find pd_id (of_productId x) (db_products s))) (\<lambda>p.
     bind (afterOfferChange p adminId ''UPDATE_OFFER'' offerId) (\<lambda>_. ret x3)))))))"

definition deleteOffer :: "ident \<Rightarrow> ident \<Rightarrow> unit desk_action" where
  "deleteOffer adminId offerId =
     bind (reads_shop (\<lambda>s. tbl_find of_id offerId (db_promos s))) (\<lambda>found. case found of None \<Rightarrow> throw NotFound | Some x \<Rightarrow>
     bind (on_shop (delete_promos (\<lambda>y. of_id y = offerId))) (\<lambda>_.
     bind (reads_shop (\<lambda>s. tbl_find pd_id (of_productId x) (db_products s))) (\<lambda>p.
     afterOfferChange p adminId ''DELETE_OFFER'' offerId)))"

definition offerTimeline :: "ident \<Rightarrow> time option \<Rightarrow> time option \<Rightarrow> nat \<Rightarrow> nat \<Rightarrow> (promo list \<times> nat) desk_action" where
  "offerTimeline productId from until page limit = bind (productOrThrow productId) (\<lambda>_. reads_shop (\<lambda>s.
     let rows = sort_key (\<lambda>x. - of_validFrom x) (filter (\<lambda>x. of_productId x = productId
           \<and> (case until of None \<Rightarrow> True | Some u \<Rightarrow> of_validFrom x \<le> u)
           \<and> (case (from, of_validUntil x) of (Some f, Some u) \<Rightarrow> f < u | _ \<Rightarrow> True)) (db_promos s))
     in (take limit (drop ((page - 1) * limit) rows), length rows)))"

end
