(* ===== verification/ShelfFacts.thy ===== *)
theory ShelfFacts
  imports PriceAdmin OfferAdmin
begin

text \<open>
  What the administration of grades, prices and offers keeps of its tables: the grades of every
  material are numbered from one without a gap and have codes of their own, a material has one live
  price per tier and grade, and a price filed under a grade names a grade of that material by its id
  and by its code.
\<close>

section \<open>The invariant\<close>

definition grade_name :: "material_condition \<Rightarrow> ident \<times> ident \<times> string" where
  "grade_name g = (g_id g, g_productId g, g_code g)"

definition price_key :: "product_pricing \<Rightarrow> ident \<times> pricing_tier \<times> string option" where
  "price_key r = (pr_productId r, pr_tier r, pr_conditionCode r)"

text \<open>A price is filed without a grade, or under the id and the code of one grade of its material.\<close>

definition linked :: "(ident \<times> ident \<times> string) list \<Rightarrow> ident \<Rightarrow> string option \<Rightarrow> ident option \<Rightarrow> bool" where
  "linked ns p code i = (case i of None \<Rightarrow> code = None | Some k \<Rightarrow> \<exists>c. (k, p, c) \<in> set ns \<and> code = Some c)"

definition names_ok :: "(ident \<times> ident \<times> string) list \<Rightarrow> bool" where
  "names_ok ns \<longleftrightarrow> distinct (map fst ns) \<and> distinct (map snd ns) \<and> (\<forall>n \<in> set ns. snd (snd n) \<noteq> [])"

definition rows_ok :: "(ident \<times> ident \<times> string) list \<Rightarrow> product_pricing list \<Rightarrow> bool" where
  "rows_ok ns rs \<longleftrightarrow> distinct (map pr_id rs) \<and> distinct (map price_key rs)
     \<and> (\<forall>r \<in> set rs. linked ns (pr_productId r) (pr_conditionCode r) (pr_conditionId r))"

definition ladder :: "ident \<Rightarrow> material_condition list \<Rightarrow> bool" where
  "ladder p gs \<longleftrightarrow> (let mine = filter (\<lambda>g. g_productId g = p) gs
     in mset (map g_sortOrder mine) = mset (map int [1..<Suc (length mine)]))"

definition shelf_ids :: "store \<Rightarrow> ident set" where
  "shelf_ids s = pr_id ` set (db_pricing s) \<union> g_id ` set (db_grades s)"

definition shelf_ok :: "store \<Rightarrow> bool" where
  "shelf_ok s \<longleftrightarrow> names_ok (map grade_name (db_grades s)) \<and> (\<forall>p. ladder p (db_grades s))
     \<and> rows_ok (map grade_name (db_grades s)) (db_pricing s) \<and> fresh_for shelf_ids s"

text \<open>A state of the desk with the grades \<open>ns\<close>, in which no price is filed under the keys \<open>K\<close>.\<close>

definition vacant :: "(ident \<times> ident \<times> string) list \<Rightarrow> (ident \<times> pricing_tier \<times> string option) set \<Rightarrow> desk \<Rightarrow> bool" where
  "vacant ns K d \<longleftrightarrow> shelf_ok (dk_shop d) \<and> map grade_name (db_grades (dk_shop d)) = ns
     \<and> K \<inter> price_key ` set (db_pricing (dk_shop d)) = {}"

definition desk_ok :: "desk \<Rightarrow> bool" where
  "desk_ok d \<longleftrightarrow> shelf_ok (dk_shop d)"

lemma vacant_desk_ok: "vacant ns K d \<Longrightarrow> desk_ok d"
  by (simp add: vacant_def desk_ok_def)

lemma desk_ok_vacant: "desk_ok d \<longleftrightarrow> vacant (map grade_name (db_grades (dk_shop d))) {} d"
  by (simp add: vacant_def desk_ok_def)

lemma vacant_mono: "vacant ns K d \<Longrightarrow> K' \<subseteq> K \<Longrightarrow> vacant ns K' d"
  by (auto simp: vacant_def)

section \<open>What leaves the tables alone\<close>

definition shelf :: "store \<Rightarrow> product_pricing list \<times> material_condition list \<times> (nat \<Rightarrow> ident) \<times> nat" where
  "shelf s = (db_pricing s, db_grades s, db_uuid s, db_next s)"

lemma shelf_ok_cong: "shelf s' = shelf s \<Longrightarrow> shelf_ok s' = shelf_ok s"
  by (simp add: shelf_def shelf_ok_def fresh_for_def shelf_ids_def)

lemma vacant_cong: "shelf (dk_shop d') = shelf (dk_shop d) \<Longrightarrow> vacant ns K d' = vacant ns K d"
  using shelf_ok_cong [of "dk_shop d'" "dk_shop d"] by (simp add: vacant_def) (simp add: shelf_def)

lemma shelf_frame [simp]:
  "shelf (s\<lparr>db_promos := a\<rparr>) = shelf s" "shelf (s\<lparr>db_audit := b\<rparr>) = shelf s" "shelf (s\<lparr>db_notices := c\<rparr>) = shelf s"
  "shelf (s\<lparr>db_cartItems := e\<rparr>) = shelf s"
  by (simp_all add: shelf_def)

text \<open>An action leaves the shelf alone.\<close>

definition spares :: "'a desk_action \<Rightarrow> bool" where
  "spares m \<longleftrightarrow> (\<forall>c. keeps (\<lambda>d. shelf (dk_shop d) = c) m)"

lemma spares_keeps: "spares m \<Longrightarrow> keeps (vacant ns K) m"
  unfolding spares_def keeps_def by (metis vacant_cong)

lemma spares_triple: "spares m \<Longrightarrow> triple (vacant ns K) m (\<lambda>_. vacant ns K) desk_ok"
  using spares_keeps [of m ns K] vacant_desk_ok unfolding keeps_triple by (blast intro: triple_conseq)

lemma spares_on_shop: "(\<And>c. keeps (\<lambda>s. shelf s = c) m) \<Longrightarrow> spares (on_shop m)"
  by (auto simp: spares_def keeps_def on_shop_def split: prod.splits) (metis snd_conv)

lemma spares_bind: "spares m \<Longrightarrow> (\<And>x. spares (f x)) \<Longrightarrow> spares (bind m f)"
  by (simp add: spares_def keeps_bind)

lemma spares_simple [simp]: "spares (ret x)" "spares (enqueue_desk j)" "spares (reads_shop f)" "spares (throw e)" "spares (refuse_if b e)"
  by (simp_all add: spares_def enqueue_desk_def keeps_def reads_shop_def)

lemma spares_for_each: "(\<And>x. spares (f x)) \<Longrightarrow> spares (for_each xs f)"
  by (simp add: spares_def keeps_for_each)

lemma spares_audit [simp]: "spares (on_shop (record_audit u act e))"
  by (rule spares_on_shop) (simp add: record_audit_def keeps_def)

lemma keeps_shelf_resettle: "keeps (\<lambda>s. shelf s = c) (resettle W p a)"
  unfolding resettle_def resettle_one_def save_promo_def record_audit_def Let_def
  by (intro keeps_bind keeps_reads keeps_collect keeps_ret keeps_prod keeps_if) (simp_all add: keeps_def)

lemma spares_settle [simp]: "spares (settle_and_push W p a)" "spares (on_shop (resettle W p b))"
  unfolding settle_and_push_def by (simp_all add: spares_bind spares_on_shop keeps_shelf_resettle)

lemma spares_reprice [simp]: "spares (reprice_lines p rate)" "spares (repriceActiveCarts p v)" "spares (repriceTier p t x c)"
proof -
  show base: "spares (reprice_lines p rate)" for rate
    unfolding reprice_lines_def by (intro spares_bind spares_on_shop) (simp_all add: keeps_def)
  show "spares (repriceActiveCarts p v)" "spares (repriceTier p t x c)"
    by (simp_all add: repriceActiveCarts_def repriceTier_def base)
qed

lemma spares_delete_promos [simp]: "spares (on_shop (delete_promos P))"
  by (rule spares_on_shop) (simp add: delete_promos_def keeps_def Let_def)

lemma spares_read_product [simp]: "spares (productOrThrow p)"
  unfolding productOrThrow_def by (intro spares_bind) (simp_all split: option.splits)

lemma triple_spares: "spares m \<Longrightarrow> (\<And>x. triple (vacant ns K) (f x) Q desk_ok) \<Longrightarrow> triple (vacant ns K) (bind m f) Q desk_ok"
  by (rule triple_bind [OF spares_triple])

section \<open>Archiving and inserting\<close>

lemma rows_ok_filter: "rows_ok ns rs \<Longrightarrow> rows_ok ns (filter P rs)"
  by (auto simp: rows_ok_def distinct_map_filter)

lemma drop_rows_ok:
  assumes "shelf_ok s"
  shows "shelf_ok (drop_rows rows s)"
proof -
  have "fresh_for shelf_ids (drop_rows rows s)"
    using assms by (auto simp: shelf_ok_def fresh_for_def drop_rows_def shelf_ids_def)
  then show ?thesis using assms rows_ok_filter by (auto simp: shelf_ok_def drop_rows_def)
qed

lemma vacant_drop:
  assumes "vacant ns K d" and "\<And>r. r \<in> set (db_pricing (dk_shop d)) \<Longrightarrow> price_key r \<in> K' \<Longrightarrow> r \<in> set rows"
  shows "vacant ns (K \<union> K') (d\<lparr>dk_history := h, dk_shop := drop_rows rows (dk_shop d)\<rparr>)"
  using assms drop_rows_ok [of "dk_shop d" rows] by (auto simp: vacant_def drop_rows_def)

lemma vacant_more: "vacant ns K d \<Longrightarrow> (\<And>r. r \<in> set (db_pricing (dk_shop d)) \<Longrightarrow> price_key r \<notin> K') \<Longrightarrow> vacant ns (K \<union> K') d"
  unfolding vacant_def by blast

definition keys_at :: "ident \<Rightarrow> pricing_tier \<Rightarrow> string option option \<Rightarrow> (ident \<times> pricing_tier \<times> string option) set" where
  "keys_at p tier code = {(p, tier, c) | c. case code of None \<Rightarrow> True | Some k \<Rightarrow> c = k}"

lemma triple_archive_rows:
  assumes "\<And>d r. vacant ns K d \<Longrightarrow> P d \<Longrightarrow> r \<in> set (db_pricing (dk_shop d)) \<Longrightarrow> price_key r \<in> K' \<Longrightarrow> r \<in> set rows"
  shows "triple (\<lambda>d. vacant ns K d \<and> P d) (archive_rows W reason a rows) (\<lambda>_. vacant ns (K \<union> K')) desk_ok"
proof (cases "rows = []")
  case True
  then have "vacant ns (K \<union> K') d" if "vacant ns K d" "P d" for d
    using assms [OF that] that(1) by (intro vacant_more) auto
  with True show ?thesis by (auto simp: archive_rows_def intro!: triple_ret)
next
  case False
  show ?thesis unfolding archive_rows_def if_not_P [OF False]
    by (intro triple_bind_refuse triple_writes vacant_drop) (auto intro: vacant_desk_ok assms)
qed

lemma triple_archive:
  "triple (vacant ns K) (archiveCurrent W p tier reason a code) (\<lambda>_. vacant ns (K \<union> keys_at p tier code)) desk_ok"
  unfolding archiveCurrent_def reads_shop_def
  by (intro triple_bind_reads triple_bind [OF triple_archive_rows] triple_ret)
    (auto simp: keys_at_def price_key_def split: option.splits)

lemma triple_archive_tier:
  "triple (vacant ns K) (archive_tier W p reason a tier) (\<lambda>_. vacant ns (K \<union> keys_at p tier None)) desk_ok"
  unfolding archive_tier_def by (intro triple_bind [OF triple_archive] triple_ret)

lemma fresh_row:
  assumes "vacant ns (insert (price_key r) K) d" and "linked ns (pr_productId r) (pr_conditionCode r) (pr_conditionId r)"
    and "pr_id r = db_uuid (dk_shop d) (db_next (dk_shop d))"
  shows "vacant ns (K - {price_key r}) (d\<lparr>dk_shop := (dk_shop d)\<lparr>db_next := db_next (dk_shop d) + 1, db_pricing := db_pricing (dk_shop d) @ [r]\<rparr>\<rparr>)"
proof -
  let ?s = "dk_shop d"
  let ?s' = "?s\<lparr>db_next := db_next ?s + 1, db_pricing := db_pricing ?s @ [r]\<rparr>"
  have ok: "shelf_ok ?s" and ns: "map grade_name (db_grades ?s) = ns" and free: "price_key r \<notin> price_key ` set (db_pricing ?s)"
    using assms(1) by (auto simp: vacant_def)
  have fresh: "fresh_for shelf_ids ?s" using ok by (simp add: shelf_ok_def)
  have "pr_id r \<notin> pr_id ` set (db_pricing ?s)" using fresh_next [OF fresh] assms(3) by (simp add: shelf_ids_def)
  then have "rows_ok ns (db_pricing ?s @ [r])"
    using ok ns free assms(2) by (auto simp: shelf_ok_def rows_ok_def)
  moreover have "fresh_for shelf_ids ?s'"
    using assms(3) by (intro fresh_after [OF fresh]) (auto simp: shelf_ids_def)
  ultimately have "shelf_ok ?s'" using ok ns by (simp add: shelf_ok_def)
  then show ?thesis using assms(1) by (auto simp: vacant_def)
qed

lemma triple_insert:
  assumes "linked ns p code i"
  shows "triple (vacant ns (insert (p, tier, code) K)) (insertCurrent p tier price cur from code i until)
    (\<lambda>_. vacant ns (K - {(p, tier, code)})) desk_ok"
proof (rule tripleI, goal_cases)
  case (1 d e d')
  then show ?case by (simp add: insertCurrent_def on_shop_def fresh_id_def bind_def Let_def)
next
  case (2 d x d')
  have "x = \<lparr>pr_id = db_uuid (dk_shop d) (db_next (dk_shop d)), pr_productId = p, pr_tier = tier, pr_conditionId = i, pr_conditionCode = code,
       pr_price = round3 price, pr_currency = cur, pr_effectiveFrom = from, pr_effectiveUntil = until\<rparr>"
    and d': "d' = d\<lparr>dk_shop := (dk_shop d)\<lparr>db_next := db_next (dk_shop d) + 1, db_pricing := db_pricing (dk_shop d) @ [x]\<rparr>\<rparr>"
    using 2(2) by (auto simp: insertCurrent_def on_shop_def fresh_id_def bind_def Let_def)
  then show ?case using fresh_row [of ns x K d] 2(1) assms by (simp add: price_key_def)
qed

section \<open>Grades named by their code\<close>

lemma trim_ends: "dropWhile is_space (trim x) = trim x" "dropWhile is_space (rev (trim x)) = rev (trim x)"
proof -
  let ?y = "dropWhile is_space x"
  show "dropWhile is_space (rev (trim x)) = rev (trim x)" by (simp add: trim_def dropWhile_idem)
  have tail: "?y = trim x @ rev (takeWhile is_space (rev ?y))"
    by (metis rev_append rev_rev_ident takeWhile_dropWhile_id trim_def)
  show "dropWhile is_space (trim x) = trim x"
  proof (cases "trim x")
    case (Cons c cs)
    then have "hd ?y = c" and "?y \<noteq> []" using tail by (metis append_Cons list.sel(1)) (metis Cons append_is_Nil_conv list.distinct(1) tail)
    then have "\<not> is_space c" using hd_dropWhile by blast
    with Cons show ?thesis by simp
  qed simp
qed

lemma trim_trim: "trim (trim x) = trim x"
proof -
  have "trim y = y" if "dropWhile is_space y = y" "dropWhile is_space (rev y) = rev y" for y using that by (simp add: trim_def)
  then show ?thesis using trim_ends by blast
qed

lemma of_upper: "(of_char (upper_char c) :: nat) = (if 97 \<le> (of_char c :: nat) \<and> (of_char c :: nat) \<le> 122 then of_char c - 32 else of_char c)"
  by (auto simp: upper_char_def of_char_of intro!: mod_less)

lemma upper_idem: "toUpperCase (toUpperCase x) = toUpperCase x"
proof -
  have "upper_char (upper_char c) = upper_char c" for c
    using of_upper [of c] by (subst upper_char_def) auto
  then show ?thesis by (simp add: toUpperCase_def)
qed

lemma trim_upper: "trim (toUpperCase x) = toUpperCase (trim x)"
proof -
  have "is_space \<circ> upper_char = is_space" by (auto simp: fun_eq_iff is_space_def Let_def of_upper)
  then have drop: "dropWhile is_space (map upper_char y) = map upper_char (dropWhile is_space y)" for y by (simp add: dropWhile_map)
  show ?thesis by (simp add: toUpperCase_def trim_def drop rev_map)
qed

lemma code_idem: "toUpperCase (trim (toUpperCase (trim x))) = toUpperCase (trim x)"
  by (simp add: trim_upper trim_trim upper_idem)

section \<open>Whole price lists\<close>

definition own_codes :: "(ident \<times> ident \<times> string) list \<Rightarrow> ident \<Rightarrow> string set" where
  "own_codes ns p = {c. \<exists>i. (i, p, c) \<in> set ns}"

lemma active_own: "map grade_name (db_grades s) = ns \<Longrightarrow> set (activeCodes p s) \<subseteq> own_codes ns p"
  by (force simp: activeCodes_def activeForProduct_def own_codes_def grade_name_def)

lemma find_witness: "x \<in> set xs \<Longrightarrow> P x \<Longrightarrow> \<exists>y. find P xs = Some y \<and> y \<in> set xs \<and> P y"
  by (induction xs) auto

lemma code_linked:
  assumes "map grade_name (db_grades s) = ns" and "toUpperCase (trim code) = code" and "code \<in> own_codes ns p"
  shows "linked ns p (Some code) (map_option g_id (findByCodeForProduct p code s))"
proof -
  obtain h where "h \<in> set (db_grades s)" "g_productId h = p \<and> g_code h = code"
    using assms(1,3) by (auto simp: own_codes_def grade_name_def)
  from find_witness [where P = "\<lambda>g. g_productId g = p \<and> g_code g = code", OF this] assms(2)
  obtain g where "findByCodeForProduct p code s = Some g" "g \<in> set (db_grades s)" "g_productId g = p" "g_code g = code"
    by (auto simp: findByCodeForProduct_def)
  then show ?thesis using assms(1) by (force simp: linked_def grade_name_def)
qed

lemma grade_linked:
  "map grade_name (db_grades s) = ns \<Longrightarrow> tbl_find g_id i (db_grades s) = Some g \<Longrightarrow> linked ns (g_productId g) (Some (g_code g)) (Some (g_id g))"
  by (auto dest!: tbl_find_SomeD simp: linked_def grade_name_def)

lemma triple_find_grade:
  "triple (vacant ns K) (conditionOrThrow i e) (\<lambda>g d. vacant ns K d \<and> tbl_find g_id i (db_grades (dk_shop d)) = Some g
     \<and> (given e \<longrightarrow> e = Some (g_productId g))) desk_ok"
  unfolding conditionOrThrow_def reads_shop_def
  by (intro triple_bind_reads triple_option triple_bind_refuse triple_throw triple_ret) (auto intro: vacant_desk_ok)

lemma triple_resolve:
  assumes "p \<noteq> []"
  shows "triple (vacant ns K) (resolveForProduct i p)
    (\<lambda>g d. vacant ns K d \<and> linked ns p (Some (g_code g)) (Some (g_id g))) desk_ok"
proof -
  have "linked ns p (Some (g_code g)) (Some (g_id g))"
    if "vacant ns K d" "tbl_find g_id i (db_grades (dk_shop d)) = Some g" "g_productId g = p" for g d
    using grade_linked [of "dk_shop d" ns i g] that by (simp add: vacant_def)
  then show ?thesis unfolding resolveForProduct_def using assms
    by (intro triple_conseq [OF triple_find_grade]) (auto simp: given_def)
qed

lemma triple_normalize_line:
  assumes p: "p \<noteq> []" and codes: "set codes \<subseteq> own_codes ns p"
  shows "triple (vacant ns K) (normalize_line codes p l) (\<lambda>(code, i) d. vacant ns K d \<and> linked ns p (Some code) i) desk_ok"
proof (cases "given (pl_conditionId l)")
  case True
  then show ?thesis unfolding normalize_line_def if_P [OF True]
    by (intro triple_bind [OF triple_resolve [OF p]] triple_bind_refuse triple_ret) (auto intro: vacant_desk_ok)
next
  case False
  have "linked ns p (Some c) (map_option g_id (findByCodeForProduct p c s))"
    if "map grade_name (db_grades s) = ns" "c = toUpperCase (trim x)" "List.member codes c" for c x s
    using that codes code_idem by (intro code_linked) auto
  then show ?thesis unfolding normalize_line_def if_not_P [OF False] reads_shop_def
    by (intro triple_let triple_bind_refuse triple_reads) (auto simp: vacant_def desk_ok_def)
qed

text \<open>Lines ready to be inserted: every grade once, under its id and its code.\<close>

definition lines_ok :: "(ident \<times> ident \<times> string) list \<Rightarrow> ident \<Rightarrow> condition_line list \<Rightarrow> bool" where
  "lines_ok ns p ls \<longleftrightarrow> distinct (map cl_condition ls) \<and> (\<forall>l \<in> set ls. linked ns p (cl_condition l) (cl_conditionId l))"

lemma triple_normalize_loop:
  assumes p: "p \<noteq> []" and codes: "set codes \<subseteq> own_codes ns p"
  shows "triple (vacant ns K) (normalize_loop codes p ls seen)
    (\<lambda>out d. vacant ns K d \<and> lines_ok ns p out \<and> (\<forall>l \<in> set out. \<forall>c \<in> set seen. cl_condition l \<noteq> Some c)) desk_ok"
proof (induction ls arbitrary: seen)
  case Nil
  show ?case unfolding normalize_loop.simps
    by (intro triple_bind_refuse triple_ret) (auto simp: lines_ok_def intro: vacant_desk_ok)
next
  case (Cons l ls)
  have rest: "triple (\<lambda>d. vacant ns K d \<and> linked ns p (Some code) i)
      (bind (normalize_loop codes p ls (code # seen)) (\<lambda>rest. ret (\<lparr>cl_condition = Some code, cl_conditionId = i, cl_price = pl_price l\<rparr> # rest)))
      (\<lambda>out d. vacant ns K d \<and> lines_ok ns p out \<and> (\<forall>l \<in> set out. \<forall>c \<in> set seen. cl_condition l \<noteq> Some c)) desk_ok"
    if "code \<notin> set seen" for code i
  proof (cases "linked ns p (Some code) i")
    case True
    with that show ?thesis
      by (intro triple_bind [OF triple_pre [OF Cons.IH [of "code # seen"]]] triple_ret) (auto simp: lines_ok_def)
  qed (simp add: triple_def)
  show ?case unfolding normalize_loop.simps
    by (intro triple_bind [OF triple_normalize_line [OF p codes]]) (auto intro!: triple_bind_refuse rest intro: vacant_desk_ok)
qed

lemma triple_normalize:
  assumes p: "p \<noteq> []"
  shows "triple (vacant ns K) (normalizeConditionLines ls p tier graded) (\<lambda>out d. vacant ns K d \<and> lines_ok ns p out) desk_ok"
proof (cases "isPricedPerCondition tier graded")
  case True
  have "triple (\<lambda>d. vacant ns K d \<and> codes = activeCodes p (dk_shop d)) (normalize_loop codes p ls [])
      (\<lambda>out d. vacant ns K d \<and> lines_ok ns p out) desk_ok" for codes
  proof (cases "set codes \<subseteq> own_codes ns p")
    case True
    then show ?thesis by (intro triple_conseq [OF triple_normalize_loop [OF p]]) auto
  qed (use active_own [OF refl] in \<open>auto simp: triple_def vacant_def\<close>)
  with True show ?thesis by (simp add: normalizeConditionLines_def reads_shop_def triple_bind_reads)
next
  case False
  have "triple (vacant ns K) (bind (refuse_if b e) (\<lambda>_. ret [\<lparr>cl_condition = None, cl_conditionId = None, cl_price = x\<rparr>]))
      (\<lambda>out d. vacant ns K d \<and> lines_ok ns p out) desk_ok" for b e x
    by (intro triple_bind_refuse triple_ret) (auto simp: lines_ok_def linked_def intro: vacant_desk_ok)
  with False show ?thesis
    by (auto simp: normalizeConditionLines_def intro!: triple_throw intro: vacant_desk_ok split: list.splits simp del: bind_refuse_if)
qed

section \<open>The price operations\<close>

lemma triple_insert_at:
  assumes "linked ns p code i" and "(p, tier, code) \<in> K" and "K' \<subseteq> K - {(p, tier, code)}"
  shows "triple (vacant ns K) (insertCurrent p tier price cur from code i until) (\<lambda>_. vacant ns K') desk_ok"
  using assms by (intro triple_conseq [OF triple_insert [of ns p code i tier K]])
    (auto simp: insert_absorb elim: vacant_mono)

lemma triple_insert_flat:
  "(p, tier, None) \<in> K \<Longrightarrow> K' \<subseteq> K - {(p, tier, None)} \<Longrightarrow>
   triple (vacant ns K) (insert_flat p tier price cur from) (\<lambda>_. vacant ns K') desk_ok"
  unfolding insert_flat_def by (intro triple_bind [OF triple_insert_at] triple_ret) (auto simp: linked_def)

definition line_keys :: "ident \<Rightarrow> pricing_tier \<Rightarrow> condition_line list \<Rightarrow> (ident \<times> pricing_tier \<times> string option) set" where
  "line_keys p tier ls = (\<lambda>l. (p, tier, cl_condition l)) ` set ls"

lemma triple_insert_lines:
  "lines_ok ns p ls \<Longrightarrow> line_keys p tier ls \<subseteq> K \<Longrightarrow> K' \<subseteq> K - line_keys p tier ls \<Longrightarrow>
   triple (vacant ns K) (insert_lines p tier cur from ls) (\<lambda>_. vacant ns K') desk_ok"
proof (induction ls arbitrary: K)
  case Nil
  then show ?case unfolding insert_lines_def for_each.simps by (intro triple_ret) (auto simp: line_keys_def elim: vacant_mono)
next
  case (Cons l ls)
  let ?k = "(p, tier, cl_condition l)"
  have one: "triple (vacant ns K) (insertCurrent p tier (cl_price l) cur from (cl_condition l) (cl_conditionId l) None)
      (\<lambda>_. vacant ns (K - {?k})) desk_ok"
    using Cons.prems by (intro triple_insert_at) (auto simp: lines_ok_def line_keys_def)
  have "triple (vacant ns (K - {?k})) (insert_lines p tier cur from ls) (\<lambda>_. vacant ns K') desk_ok"
    using Cons.prems by (intro Cons.IH) (auto simp: lines_ok_def line_keys_def image_iff)
  then show ?case unfolding insert_lines_def for_each.simps
    by (intro triple_bind [OF triple_bind [OF one triple_ret]]) auto
qed

lemma triple_finish:
  "spares m \<Longrightarrow> (\<And>d. Q d \<Longrightarrow> vacant ns K d) \<Longrightarrow> triple Q m (\<lambda>_. desk_ok) desk_ok"
  by (rule triple_conseq [OF spares_triple]) (auto intro: vacant_desk_ok)

lemma triple_fact: "triple P m Q E \<Longrightarrow> triple (\<lambda>s. P s \<and> c) m (\<lambda>x s. Q x s \<and> c) E"
  by (cases c) (simp_all add: triple_def)

lemma keeps_by_vacant: "(\<And>ns. triple (vacant ns {}) m (\<lambda>_. desk_ok) desk_ok) \<Longrightarrow> keeps desk_ok m"
  unfolding keeps_triple by (auto simp: triple_def desk_ok_vacant)

lemma vacant_all_tiers:
  assumes "vacant ns ({} \<union> keys_at p INDIVIDUAL None \<union> keys_at p COMPANY None \<union> keys_at p TIER_FACTORY None \<union> keys_at p FREE_FACILITY None) d"
    and "fst ` K \<subseteq> {p}"
  shows "vacant ns K d"
proof (rule vacant_mono [OF assms(1)], rule subsetI)
  fix k assume "k \<in> K"
  then obtain t c where "k = (p, t, c)" using assms(2) by (cases k) auto
  then show "k \<in> {} \<union> keys_at p INDIVIDUAL None \<union> keys_at p COMPANY None \<union> keys_at p TIER_FACTORY None \<union> keys_at p FREE_FACILITY None"
    by (cases t) (auto simp: keys_at_def)
qed

lemma triple_archive_all:
  "fst ` K \<subseteq> {p} \<Longrightarrow> triple (vacant ns {}) (for_each ALL_TIERS (archive_tier W p reason a)) (\<lambda>_. vacant ns K) desk_ok"
  unfolding ALL_TIERS_def for_each.simps
  by (intro triple_bind [OF triple_archive_tier] triple_ret) (rule vacant_all_tiers)

lemma setPricing_keeps:
  assumes p: "p \<noteq> []"
  shows "keeps desk_ok (setPricing W a p dto)"
proof (rule keeps_by_vacant)
  fix ns
  have lists: "triple (\<lambda>d. (vacant ns {} d \<and> lines_ok ns p gs) \<and> lines_ok ns p fs)
      (bind (for_each ALL_TIERS (archive_tier W p AR_UPDATED a)) (\<lambda>_.
       bind (reads_shop db_currency) (\<lambda>cur.
       bind (insert_flat p INDIVIDUAL x cur start) (\<lambda>_.
       bind (insert_flat p COMPANY y cur start) (\<lambda>_.
       bind (insert_lines p TIER_FACTORY cur start fs) (\<lambda>_.
       bind (insert_lines p FREE_FACILITY cur start gs) (\<lambda>_. rest))))))) (\<lambda>_. desk_ok) desk_ok"
    if rest: "triple (vacant ns {}) rest (\<lambda>_. desk_ok) desk_ok" for fs gs x y start and rest :: "nat desk_action"
  proof (cases "lines_ok ns p fs \<and> lines_ok ns p gs")
    case True
    let ?A = "line_keys p TIER_FACTORY fs" and ?B = "line_keys p FREE_FACILITY gs"
    let ?K = "{(p, INDIVIDUAL, None), (p, COMPANY, None)} \<union> ?A \<union> ?B"
    have "triple (vacant ns {}) (bind (for_each ALL_TIERS (archive_tier W p AR_UPDATED a)) (\<lambda>_.
       bind (reads_shop db_currency) (\<lambda>cur.
       bind (insert_flat p INDIVIDUAL x cur start) (\<lambda>_.
       bind (insert_flat p COMPANY y cur start) (\<lambda>_.
       bind (insert_lines p TIER_FACTORY cur start fs) (\<lambda>_.
       bind (insert_lines p FREE_FACILITY cur start gs) (\<lambda>_. rest))))))) (\<lambda>_. desk_ok) desk_ok"
      using True
      by (intro triple_bind [OF triple_archive_all [where K = ?K]] triple_spares triple_bind [OF triple_insert_flat [where K' = "{(p, COMPANY, None)} \<union> ?A \<union> ?B"]]
        triple_bind [OF triple_insert_flat [where K' = "?A \<union> ?B"]] triple_bind [OF triple_insert_lines [where K' = ?B]]
        triple_bind [OF triple_insert_lines [where K' = "{}"]] rest) (auto simp: line_keys_def)
    then show ?thesis by (rule triple_pre) blast
  qed (auto simp: triple_def)
  show "triple (vacant ns {}) (setPricing W a p dto) (\<lambda>_. desk_ok) desk_ok"
    unfolding setPricing_def Let_def
    by (rule triple_spares [OF spares_read_product], rule triple_spares [OF spares_simple(3)], rule triple_bind [OF triple_normalize [OF p]],
        rule triple_bind [OF triple_fact [OF triple_normalize [OF p]]], rule lists, rule triple_finish) (simp_all add: spares_bind)
qed

lemma triple_for_each: "(\<And>x. triple I (f x) (\<lambda>_. I) E) \<Longrightarrow> triple I (for_each xs f) (\<lambda>_. I) E"
proof (induction xs)
  case (Cons x xs)
  then show ?case unfolding for_each.simps by (intro triple_bind [OF Cons.prems]) blast
qed (simp add: triple_def)

lemma triple_collect: "(\<And>x. triple I (f x) (\<lambda>_. I) E) \<Longrightarrow> triple I (collect xs f) (\<lambda>_. I) E"
proof (induction xs)
  case (Cons x xs)
  then show ?case unfolding collect.simps by (intro triple_bind [OF Cons.prems] triple_bind [OF Cons.IH] triple_ret) auto
qed (simp add: triple_def)

lemma triple_replace_flat: "triple (vacant ns {}) (replace_flat W a p cur start tp) (\<lambda>_. vacant ns {}) desk_ok"
proof (cases tp)
  case (Pair tier price)
  then show ?thesis unfolding replace_flat_def
    by (auto intro!: triple_option triple_ret triple_bind [OF triple_archive_tier] triple_insert_flat simp: keys_at_def)
qed

lemma triple_replace_graded:
  assumes p: "p \<noteq> []"
  shows "triple (vacant ns {}) (replace_graded W a p graded cur start req) (\<lambda>_. vacant ns {}) desk_ok"
proof (cases req)
  case (Pair tier ls)
  have "triple (\<lambda>d. vacant ns {} d \<and> lines_ok ns p out) (bind (archive_tier W p AR_UPDATED a tier) (\<lambda>_.
      bind (insert_lines p tier cur start out) (\<lambda>_. ret (Some out)))) (\<lambda>_. vacant ns {}) desk_ok" for out
  proof (cases "lines_ok ns p out")
    case True
    have "triple (vacant ns {}) (bind (archive_tier W p AR_UPDATED a tier) (\<lambda>_.
        bind (insert_lines p tier cur start out) (\<lambda>_. ret (Some out)))) (\<lambda>_. vacant ns {}) desk_ok"
      by (rule triple_bind [OF triple_archive_tier], rule triple_bind [OF triple_insert_lines [OF True, where K' = "{}"]])
        (auto simp: keys_at_def line_keys_def intro: triple_ret)
    then show ?thesis by (rule triple_pre) blast
  qed (simp add: triple_def)
  then show ?thesis unfolding Pair replace_graded_def
    by (auto intro!: triple_option triple_ret triple_bind [OF triple_normalize [OF p]])
qed

lemma updatePricingTable_keeps:
  assumes p: "p \<noteq> []"
  shows "keeps desk_ok (updatePricingTable W a p dto)"
proof (rule keeps_by_vacant)
  fix ns
  show "triple (vacant ns {}) (updatePricingTable W a p dto) (\<lambda>_. desk_ok) desk_ok"
    unfolding updatePricingTable_def Let_def
  proof (rule triple_spares [OF spares_read_product], rule triple_bind_refuse, goal_cases)
    case (2 p')
    show ?case
    proof (rule triple_spares [OF spares_simple(3)], goal_cases)
      case (1 x)
      obtain graded cur where x: "x = (graded, cur)" by force
      show ?case unfolding x prod.case
        by (rule triple_bind [OF triple_for_each [OF triple_replace_flat]], rule triple_bind [OF triple_replace_graded [OF p]],
            rule triple_bind [OF triple_replace_graded [OF p]], rule triple_finish) (simp_all add: spares_bind)
    qed
  qed (rule vacant_desk_ok)
qed

lemma triple_named_grade:
  assumes p: "p \<noteq> []"
  shows "triple (vacant ns {}) (named_grade p tier graded dto) (\<lambda>(code, i) d. vacant ns {} d \<and> linked ns p code i) desk_ok"
proof -
  let ?c = "toUpperCase (trim (or_else (ud_condition dto) []))"
  have by_code: "linked ns p (Some ?c) (map_option g_id (findByCodeForProduct p ?c (dk_shop d)))"
    if "vacant ns {} d" "\<not> \<not> List.member (activeCodes p (dk_shop d)) ?c" for d
    using that active_own [of "dk_shop d" ns p] code_idem by (intro code_linked) (auto simp: vacant_def)
  have none: "linked ns p None None" by (simp add: linked_def)
  show ?thesis unfolding named_grade_def Let_def reads_shop_def
  proof (intro triple_if, goal_cases)
    case 1
    show ?case by (rule triple_bind [OF triple_resolve [OF p]]) (intro triple_bind_refuse triple_ret; auto intro: vacant_desk_ok)
  next
    case 2
    show ?case by (intro triple_bind_reads triple_bind_refuse triple_reads) (use by_code in \<open>auto intro: vacant_desk_ok\<close>)
  next
    case 3
    show ?case by (rule triple_throw) (rule vacant_desk_ok)
  next
    case 4
    show ?case by (intro triple_bind_refuse triple_ret) (use none in \<open>auto intro: vacant_desk_ok\<close>)
  qed
qed

lemma spares_checked_until [simp]: "spares (checked_until W f u)"
  unfolding checked_until_def by (cases u) (simp_all add: spares_bind)

lemma updateTierPrice_keeps:
  assumes p: "p \<noteq> []"
  shows "keeps desk_ok (updateTierPrice W a p tier dto)"
proof (rule keeps_by_vacant)
  fix ns
  have filed: "triple (\<lambda>d. vacant ns {} d \<and> linked ns p code i)
      (bind (checked_until W start (ud_effectiveUntil dto)) (\<lambda>_.
       bind (reads_shop db_currency) (\<lambda>cur.
       bind (archiveCurrent W p tier AR_UPDATED a (Some code)) (\<lambda>_.
       bind (insertCurrent p tier (ud_price dto) cur start code i (ud_effectiveUntil dto)) (\<lambda>r.
       bind (repriceTier p tier (ud_price dto) code) (\<lambda>updated.
       bind (settle_and_push W p a) (\<lambda>_.
       bind (on_shop (record_audit a ''UPDATE_TIER_PRICING'' p)) (\<lambda>_. ret (r, updated)))))))))
      (\<lambda>_. desk_ok) desk_ok" for code i start
  proof (cases "linked ns p code i")
    case True
    have "triple (vacant ns {}) (bind (checked_until W start (ud_effectiveUntil dto)) (\<lambda>_.
       bind (reads_shop db_currency) (\<lambda>cur.
       bind (archiveCurrent W p tier AR_UPDATED a (Some code)) (\<lambda>_.
       bind (insertCurrent p tier (ud_price dto) cur start code i (ud_effectiveUntil dto)) (\<lambda>r.
       bind (repriceTier p tier (ud_price dto) code) (\<lambda>updated.
       bind (settle_and_push W p a) (\<lambda>_.
       bind (on_shop (record_audit a ''UPDATE_TIER_PRICING'' p)) (\<lambda>_. ret (r, updated)))))))))
      (\<lambda>_. desk_ok) desk_ok"
      by (rule triple_spares [OF spares_checked_until], rule triple_spares [OF spares_simple(3)], rule triple_bind [OF triple_archive],
          rule triple_bind [OF triple_insert_at [OF True, where K' = "{}"]]) (auto simp: keys_at_def intro!: triple_finish spares_bind)
    then show ?thesis by (rule triple_pre) blast
  qed (simp add: triple_def)
  show "triple (vacant ns {}) (updateTierPrice W a p tier dto) (\<lambda>_. desk_ok) desk_ok"
    unfolding updateTierPrice_def Let_def
    by (rule triple_spares [OF spares_read_product], rule triple_spares [OF spares_simple(3)], rule triple_bind [OF triple_named_grade [OF p]])
      (auto intro: filed split: prod.splits)
qed

end
