(* ===== verification/ShelfKeeping.thy ===== *)
theory ShelfKeeping
  imports ShelfFacts
begin

text \<open>
  Every request of an administrator to the catalogue, one after the other, keeps the tables of grades and
  prices in order: the rest of the operations of \<open>PriceAdmin\<close>, \<open>Grades\<close> and \<open>OfferAdmin\<close>, and the theorem
  for whole sessions.
\<close>

section \<open>Rows written back\<close>

lemma names_tbl_save:
  "tbl_find key (key r') rows = Some r \<Longrightarrow> nm r' = nm r \<Longrightarrow> map nm (tbl_save key r' rows) = map nm rows"
  by (induction rows) (auto split: if_splits)

lemma names_tbl_save_all:
  "(\<And>r'. r' \<in> set rs \<Longrightarrow> \<exists>r. tbl_find key (key r') rows = Some r \<and> nm r' = nm r) \<Longrightarrow>
   map nm (tbl_save_all key rs rows) = map nm rows"
proof (induction rs arbitrary: rows)
  case (Cons a rs)
  obtain r where r: "tbl_find key (key a) rows = Some r" "nm a = nm r" using Cons.prems by force
  have "\<exists>r. tbl_find key (key r') (tbl_save key a rows) = Some r \<and> nm r' = nm r" if "r' \<in> set rs" for r'
    using Cons.prems [of r'] that r by (auto simp: tbl_find_save)
  from Cons.IH [OF this] show ?case using names_tbl_save [OF r] by (simp add: tbl_save_all_def)
qed (simp add: tbl_save_all_def)

lemma distinct_tbl_save_all: "distinct (map key rows) \<Longrightarrow> distinct (map key (tbl_save_all key rs rows))"
  unfolding tbl_save_all_def by (induction rs arbitrary: rows) (simp_all add: distinct_tbl_save)

lemma set_tbl_save_all:
  "distinct (map key rows) \<Longrightarrow> distinct (map key rs) \<Longrightarrow>
   set (tbl_save_all key rs rows) = set rs \<union> {x \<in> set rows. key x \<notin> key ` set rs}"
proof (induction rs arbitrary: rows)
  case (Cons a rs)
  have "set (tbl_save_all key (a # rs) rows) = set rs \<union> {x \<in> set (tbl_save key a rows). key x \<notin> key ` set rs}"
    using Cons.IH [of "tbl_save key a rows"] Cons.prems by (simp add: tbl_save_all_def distinct_tbl_save)
  also have "\<dots> = set (a # rs) \<union> {x \<in> set rows. key x \<notin> key ` set (a # rs)}"
    using Cons.prems by (auto simp: set_tbl_save)
  finally show ?case .
qed (simp add: tbl_save_all_def)

definition row_name :: "product_pricing \<Rightarrow> ident \<times> (ident \<times> pricing_tier \<times> string option) \<times> ident option" where
  "row_name r = (pr_id r, price_key r, pr_conditionId r)"

lemma rows_ok_names:
  assumes "map row_name rs' = map row_name rs"
  shows "rows_ok ns rs' = rows_ok ns rs" and "pr_id ` set rs' = pr_id ` set rs" and "price_key ` set rs' = price_key ` set rs"
proof -
  have names: "rows_ok ns qs \<longleftrightarrow> distinct (map fst (map row_name qs)) \<and> distinct (map (\<lambda>n. fst (snd n)) (map row_name qs))
      \<and> (\<forall>n \<in> set (map row_name qs). linked ns (fst (fst (snd n))) (snd (snd (fst (snd n)))) (snd (snd n)))" for qs
    by (simp add: rows_ok_def row_name_def price_key_def [abs_def] comp_def)
  show "rows_ok ns rs' = rows_ok ns rs" unfolding names assms ..
  have ids: "pr_id ` set qs = fst ` set (map row_name qs)" "price_key ` set qs = (\<lambda>n. fst (snd n)) ` set (map row_name qs)" for qs
    by (force simp: row_name_def)+
  show "pr_id ` set rs' = pr_id ` set rs" "price_key ` set rs' = price_key ` set rs" unfolding ids assms by (rule refl)+
qed

lemma names_ids: "map grade_name gs' = map grade_name gs \<Longrightarrow> g_id ` set gs' = g_id ` set gs"
proof -
  assume same: "map grade_name gs' = map grade_name gs"
  have "g_id ` set xs = fst ` set (map grade_name xs)" for xs by (force simp: grade_name_def)
  then show ?thesis by (simp only: same)
qed

text \<open>A state whose rows carry the same names in the same places.\<close>

lemma shelf_renamed:
  assumes "shelf_ok s" and "map row_name (db_pricing s') = map row_name (db_pricing s)"
    and "map grade_name (db_grades s') = map grade_name (db_grades s)" and "\<And>p. ladder p (db_grades s')"
    and "db_uuid s' = db_uuid s" and "db_next s' = db_next s"
  shows "shelf_ok s'"
  using assms(1,4-6) names_ids [OF assms(3)] rows_ok_names [OF assms(2)]
  by (simp add: shelf_ok_def assms(3) fresh_for_def shelf_ids_def)

section \<open>Actions that keep the shelf\<close>

named_theorems kept \<open>actions of the desk that keep the shelf in order\<close>

lemma on_shop_writes: "on_shop (writes f) = writes (\<lambda>d. d\<lparr>dk_shop := f (dk_shop d)\<rparr>)"
  by (simp add: on_shop_def fun_eq_iff)

lemma spares_kept: "spares m \<Longrightarrow> keeps desk_ok m"
  unfolding spares_def keeps_def desk_ok_def by (metis shelf_ok_cong)

lemma kept_simple [kept]:
  "keeps desk_ok (reads_shop f)" "keeps desk_ok (on_shop (record_audit u act e))" "keeps desk_ok (enqueue_desk j)"
  "keeps desk_ok (settle_and_push W p a)" "keeps desk_ok (on_shop (resettle W p b))" "keeps desk_ok (productOrThrow p)"
  "keeps desk_ok (on_shop (delete_promos P))" "keeps desk_ok (repriceTier p t x c)"
  by (simp_all add: spares_kept)

lemma kept_fresh [kept]: "keeps desk_ok (on_shop fresh_id)"
  by (auto simp: keeps_def on_shop_def fresh_id_def desk_ok_def shelf_ok_def fresh_for_def shelf_ids_def intro: less_SucI)

lemma kept_promo [kept]: "keeps desk_ok (on_shop (save_promo x))"
  by (intro spares_kept spares_on_shop) (simp add: keeps_def save_promo_def)

lemma kept_transaction [kept]: "keeps I m \<Longrightarrow> keeps I (in_transaction m)"
  by (auto simp: keeps_def in_transaction_def split: prod.splits sum.splits)

lemma kept_archive [kept]: "keeps desk_ok (archive_rows W reason a rows)"
  by (auto simp: keeps_def archive_rows_def desk_ok_def drop_rows_ok)

lemma kept_archiveCurrent [kept]: "keeps desk_ok (archiveCurrent W p t reason a code)"
  unfolding archiveCurrent_def by (intro keeps_rules kept)

lemma kept_conditionOrThrow [kept]: "keeps desk_ok (conditionOrThrow i e)"
  unfolding conditionOrThrow_def by (intro keeps_rules kept)

section \<open>Changing and withdrawing prices\<close>

lemma vacant_saved:
  assumes "vacant ns K d" and "map row_name rs = map row_name (db_pricing (dk_shop d))"
  shows "vacant ns K (d\<lparr>dk_shop := (dk_shop d)\<lparr>db_pricing := rs\<rparr>\<rparr>)"
proof -
  have ok: "shelf_ok (dk_shop d)" using assms(1) by (simp add: vacant_def)
  then have ladders: "ladder p (db_grades (dk_shop d))" for p by (simp add: shelf_ok_def)
  have "shelf_ok ((dk_shop d)\<lparr>db_pricing := rs\<rparr>)"
    by (rule shelf_renamed [OF ok]) (simp_all add: assms(2) ladders)
  then show ?thesis using assms(1) rows_ok_names(3) [OF assms(2)] by (simp add: vacant_def)
qed

lemma correctPricingRow_keeps [kept]: "keeps desk_ok (correctPricingRow W a i x)"
proof (rule keeps_by_vacant)
  fix ns
  have save: "triple (\<lambda>d. vacant ns {} d \<and> Some r = tbl_find pr_id i (db_pricing (dk_shop d)))
      (on_shop (save_price (r\<lparr>pr_price := y\<rparr>))) (\<lambda>_. vacant ns {}) desk_ok" for r y
    unfolding save_price_def on_shop_writes
  proof (rule triple_writes, elim conjE)
    fix d assume d: "vacant ns {} d" and r: "Some r = tbl_find pr_id i (db_pricing (dk_shop d))"
    then have "tbl_find pr_id (pr_id (r\<lparr>pr_price := y\<rparr>)) (db_pricing (dk_shop d)) = Some r"
      using tbl_find_SomeD [OF r [symmetric]] by simp
    from names_tbl_save [OF this, of row_name]
    show "vacant ns {} (d\<lparr>dk_shop := (dk_shop d)\<lparr>db_pricing := tbl_save pr_id (r\<lparr>pr_price := y\<rparr>) (db_pricing (dk_shop d))\<rparr>\<rparr>)"
      by (intro vacant_saved [OF d]) (simp add: row_name_def price_key_def)
  qed
  show "triple (vacant ns {}) (correctPricingRow W a i x) (\<lambda>_. desk_ok) desk_ok"
    unfolding correctPricingRow_def reads_shop_def
  proof (rule triple_bind_reads, rule triple_option, goal_cases)
    case (1 found)
    show ?case by (rule triple_throw) (auto intro: vacant_desk_ok)
  next
    case (2 found r)
    show ?case unfolding 2
      by (rule triple_bind_refuse, blast intro: vacant_desk_ok, rule triple_bind [OF save], rule triple_finish) (simp_all add: spares_bind)
  qed
qed

lemma deletePricing_keeps [kept]: "keeps desk_ok (deletePricing W a p ts)"
  unfolding deletePricing_def by (intro keeps_rules kept)

lemma expireCurrentPricing_keeps [kept]: "keeps desk_ok (expireCurrentPricing W a p u ts)"
proof -
  let ?until = "map (\<lambda>r. r\<lparr>pr_effectiveUntil := Some u\<rparr>)"
  have ended: "desk_ok (d\<lparr>dk_shop := (dk_shop d)\<lparr>db_pricing := tbl_save_all pr_id (?until live) (db_pricing (dk_shop d))\<rparr>\<rparr>)"
    if d: "desk_ok d" and live: "set live \<subseteq> set (db_pricing (dk_shop d))" for d live
  proof -
    have ids: "distinct (map pr_id (db_pricing (dk_shop d)))" using d by (simp add: desk_ok_def shelf_ok_def rows_ok_def)
    have "\<exists>r. tbl_find pr_id (pr_id r') (db_pricing (dk_shop d)) = Some r \<and> row_name r' = row_name r" if r': "r' \<in> set (?until live)" for r'
    proof -
      obtain r where "r \<in> set live" "r' = r\<lparr>pr_effectiveUntil := Some u\<rparr>" using r' by auto
      then show ?thesis using live by (auto simp: found_row [OF ids] row_name_def price_key_def)
    qed
    then have "map row_name (tbl_save_all pr_id (?until live) (db_pricing (dk_shop d))) = map row_name (db_pricing (dk_shop d))"
      by (rule names_tbl_save_all)
    from vacant_saved [OF d [unfolded desk_ok_vacant] this] show ?thesis by (rule vacant_desk_ok)
  qed
  have tail: "triple desk_ok m (\<lambda>_. desk_ok) desk_ok" if "keeps desk_ok m" for m :: "nat desk_action"
    using that by (simp add: keeps_triple)
  have read: "keeps desk_ok (bind (reads_shop f) (\<lambda>live. bind (refuse_if (live = []) e) (\<lambda>_. bind (on_shop (writes (\<lambda>s. s\<lparr>db_pricing := tbl_save_all pr_id (?until live) (db_pricing s)\<rparr>))) (g live))))"
    if "\<And>s. set (f s) \<subseteq> set (db_pricing s)" and "\<And>live u. keeps desk_ok (g live u)" for f e and g :: "_ \<Rightarrow> unit \<Rightarrow> nat desk_action"
    unfolding keeps_triple reads_shop_def on_shop_writes
    by (intro triple_bind_reads triple_bind_refuse triple_bind [OF triple_writes [where Q = "\<lambda>_. desk_ok"]] tail that(2) ended) (use that(1) in auto)
  show ?thesis unfolding expireCurrentPricing_def
    by (intro keeps_bind [OF kept_simple(6)] keeps_bind [OF keeps_refuse_if] read keeps_rules kept) (auto simp: liveRows_def)
qed

lemma notices_kept [kept]: "keeps desk_ok (on_shop (notifyAdminsPricingExpired p))"
  unfolding notifyAdminsPricingExpired_def createNotification_def
  by (intro spares_kept spares_on_shop keeps_rules) (simp add: keeps_def)

lemma price_expiry_cron_keeps [kept]: "keeps desk_ok (price_expiry_cron W)"
  unfolding price_expiry_cron_def sweepExpiredPricing_def sweep_product_def Let_def by (intro keeps_rules kept)

section \<open>Offers\<close>

lemma kept_cases [kept]:
  "(\<And>y ys. xs = y # ys \<Longrightarrow> keeps I (f y ys)) \<Longrightarrow> (xs = [] \<Longrightarrow> keeps I m) \<Longrightarrow> keeps I (case xs of [] \<Rightarrow> m | y # ys \<Rightarrow> f y ys)"
  by (cases xs) auto

lemma buildOfferRow_keeps [kept]: "keeps desk_ok (buildOfferRow W p au rs i c q sp)"
  unfolding buildOfferRow_def by (intro keeps_rules kept)

lemma planOfferRows_keeps [kept]: "keeps desk_ok (planOfferRows W dto)"
  unfolding planOfferRows_def resolveAudienceRoles_def buildPerRoleRows_def by (intro keeps_rules kept)

lemma afterOfferChange_keeps [kept]: "keeps desk_ok (afterOfferChange p a act e)"
  unfolding afterOfferChange_def by (intro keeps_rules kept)

lemma offer_notices_kept [kept]: "keeps desk_ok (on_shop (notifyOfferAudience p xs))"
  unfolding notifyOfferAudience_def createNotification_def
  by (intro spares_kept spares_on_shop keeps_rules) (simp add: keeps_def)

lemma offers_keep [kept]:
  "keeps desk_ok (createOffer W a dto)" "keeps desk_ok (updateOffer W a i patch)" "keeps desk_ok (deleteOffer a i)"
  unfolding createOffer_def updateOffer_def deleteOffer_def assertNoDuplicateOffer_def by (intro keeps_rules kept)+

section \<open>Numbering the grades\<close>

definition mine :: "ident \<Rightarrow> store \<Rightarrow> material_condition list" where
  "mine p s = filter (\<lambda>g. g_productId g = p) (db_grades s)"

definition from_one :: "material_condition list \<Rightarrow> bool" where
  "from_one gs \<longleftrightarrow> mset (map g_sortOrder gs) = mset (map int [1..<Suc (length gs)])"

lemma ladder_mine: "ladder p (db_grades s) \<longleftrightarrow> from_one (mine p s)"
  by (simp add: ladder_def from_one_def mine_def Let_def del: upt_Suc)

lemma from_one_mset: "mset gs = mset hs \<Longrightarrow> from_one gs \<longleftrightarrow> from_one hs"
  unfolding from_one_def by (metis mset_map mset_eq_length)

lemma last_from_one: "from_one (mine p s) \<Longrightarrow> last_position p s = int (length (mine p s))"
proof -
  assume "from_one (mine p s)"
  then have "set (map g_sortOrder (mine p s)) = int ` {1..<Suc (length (mine p s))}"
    unfolding from_one_def by (metis mset_eq_setD set_map set_upt)
  moreover have "fold max xs 0 = Max (insert 0 (set xs))" for xs :: "int list"
    by (metis Max.set_eq_fold list.simps(15))
  moreover have "Max (insert 0 (int ` {1..<Suc n})) = int n" for n
    by (rule Max_eqI) (auto simp: image_iff)
  ultimately show ?thesis by (simp only: last_position_def mine_def)
qed

text \<open>The names, prices and ids are in order, and so are the grades of all other materials.\<close>

definition shelf_but :: "ident \<Rightarrow> store \<Rightarrow> bool" where
  "shelf_but p s \<longleftrightarrow> names_ok (map grade_name (db_grades s)) \<and> (\<forall>q. q \<noteq> p \<longrightarrow> ladder q (db_grades s))
     \<and> rows_ok (map grade_name (db_grades s)) (db_pricing s) \<and> fresh_for shelf_ids s"

lemma shelf_ok_but: "shelf_ok s \<Longrightarrow> shelf_but p s"
  by (simp add: shelf_ok_def shelf_but_def)

lemma names_ids_distinct: "names_ok (map grade_name gs) \<Longrightarrow> distinct (map g_id gs)"
  by (simp add: names_ok_def grade_name_def comp_def)

lemma shelf_renumbered:
  assumes but: "shelf_but p s" and names: "mset (map grade_name rs) = mset (map grade_name (mine p s))" and one: "from_one rs"
  shows "shelf_ok (s\<lparr>db_grades := tbl_save_all g_id rs (db_grades s)\<rparr>)"
proof -
  let ?gs = "db_grades s" and ?gs' = "tbl_save_all g_id rs (db_grades s)"
  have ids: "distinct (map g_id ?gs)" using but by (simp add: shelf_but_def names_ids_distinct)
  have named: "grade_name ` set rs = grade_name ` set (mine p s)" using names by (metis mset_eq_setD set_map)
  have source: "\<exists>g. g \<in> set (mine p s) \<and> grade_name r = grade_name g" if r: "r \<in> set rs" for r
    using imageI [OF r, of grade_name] unfolding named by blast
  have found: "\<exists>g. tbl_find g_id (g_id r) ?gs = Some g \<and> grade_name r = grade_name g" if r: "r \<in> set rs" for r
    using source [OF r] by (auto simp: found_row [OF ids] mine_def grade_name_def)
  have same: "map grade_name ?gs' = map grade_name ?gs" by (rule names_tbl_save_all [OF found])
  have "distinct (map fst (map grade_name (mine p s)))" using ids by (simp add: mine_def grade_name_def comp_def distinct_map_filter)
  moreover have "mset (map fst (map grade_name rs)) = mset (map fst (map grade_name (mine p s)))" using names by (metis mset_map)
  ultimately have "distinct (map fst (map grade_name rs))" by (metis mset_eq_imp_distinct_iff)
  then have rids: "distinct (map g_id rs)" by (simp add: grade_name_def comp_def)
  have ids': "distinct (map g_id ?gs')" by (rule distinct_tbl_save_all [OF ids])
  have rows: "set ?gs' = set rs \<union> {x \<in> set ?gs. g_id x \<notin> g_id ` set rs}" by (rule set_tbl_save_all [OF ids rids])
  have p: "g_productId r = p" if r: "r \<in> set rs" for r
    using source [OF r] by (auto simp: grade_name_def mine_def)
  have covered: "g_id x \<in> g_id ` set rs \<longleftrightarrow> g_productId x = p" if "x \<in> set ?gs" for x
  proof
    assume "g_id x \<in> g_id ` set rs"
    then obtain r where r: "r \<in> set rs" "g_id r = g_id x" by force
    obtain g where g: "g \<in> set (mine p s)" "grade_name r = grade_name g" using source [OF r(1)] by blast
    then have "g_id x = g_id g" "g \<in> set ?gs" "g_productId g = p" using r(2) by (auto simp: grade_name_def mine_def)
    moreover from this have "x = g" using ids \<open>x \<in> set ?gs\<close> by (auto simp: distinct_map dest: inj_onD)
    ultimately show "g_productId x = p" by simp
  next
    assume "g_productId x = p"
    then have "x \<in> set (mine p s)" using that by (simp add: mine_def)
    then have "grade_name x \<in> grade_name ` set rs" using named by blast
    then show "g_id x \<in> g_id ` set rs" by (force simp: grade_name_def)
  qed
  have part: "mset (filter (\<lambda>g. g_productId g = q) ?gs') = mset (if q = p then rs else mine q s)" for q
  proof -
    have "set (filter (\<lambda>g. g_productId g = q) ?gs') = set (if q = p then rs else mine q s)"
      using rows p covered by (auto simp: mine_def)
    moreover have "distinct (filter (\<lambda>g. g_productId g = q) ?gs')" "distinct (if q = p then rs else mine q s)"
      using ids ids' rids by (auto simp: mine_def distinct_map)
    ultimately show ?thesis by (metis set_eq_iff_mset_eq_distinct)
  qed
  have "ladder q ?gs'" for q
    using from_one_mset [OF part [of q]] one but by (auto simp: ladder_def from_one_def shelf_but_def mine_def)
  moreover have "fresh_for shelf_ids (s\<lparr>db_grades := ?gs'\<rparr>)"
    using but names_ids [OF same] by (simp add: shelf_but_def fresh_for_def shelf_ids_def)
  ultimately show ?thesis using but by (simp add: shelf_ok_def shelf_but_def same)
qed

lemma numbered_from_one: "(\<And>i x. g_sortOrder (f i x) = i) \<Longrightarrow> from_one (numbered f gs)"
proof -
  assume order: "\<And>i x. g_sortOrder (f i x) = i"
  have "map g_sortOrder (numbered f gs) = map int [1..<Suc (length gs)]"
    by (rule nth_equalityI) (auto simp: numbered_def order nth_enumerate_eq simp del: upt_Suc)
  then show ?thesis by (simp add: from_one_def numbered_def del: upt_Suc)
qed

lemma numbered_names: "(\<And>i x. grade_name (f i x) = grade_name x) \<Longrightarrow> map grade_name (numbered f gs) = map grade_name gs"
  by (rule nth_equalityI) (auto simp: numbered_def nth_enumerate_eq)

lemma mset_grades_of: "mset (grades_of p s) = mset (mine p s)"
  by (simp add: grades_of_def mine_def)

lemma mset_splice: "mset (splice i x xs) = add_mset x (mset xs)"
proof -
  have "mset xs = mset (take i xs) + mset (drop i xs)" by (metis append_take_drop_id mset_append)
  then show ?thesis by (simp add: splice_def)
qed

lemma arranged_names:
  assumes "distinct (map g_id gs)" and "g \<in> set gs"
  shows "mset (map grade_name (arranged g n gs)) = mset (map grade_name gs)"
proof -
  let ?others = "filter (\<lambda>x. g_id x \<noteq> g_id g) gs"
  have "map grade_name (arranged g n gs) = map grade_name (splice (min n (length ?others + 1) - 1) g ?others)"
    unfolding arranged_def Let_def by (rule numbered_names) (simp add: grade_name_def)
  then have "mset (map grade_name (arranged g n gs)) = image_mset grade_name (mset (g # ?others))" by (simp add: mset_splice)
  moreover have "mset (g # ?others) = mset gs"
  proof -
    have "distinct (g # ?others)" "distinct gs" using assms(1) by (auto simp: distinct_map)
    moreover have "set (g # ?others) = set gs" using assms by (auto simp: distinct_map dest: inj_onD)
    ultimately show ?thesis by (metis set_eq_iff_mset_eq_distinct)
  qed
  ultimately show ?thesis by (simp only: mset_map)
qed

section \<open>The operations on grades\<close>

lemma linked_mono: "linked ns p c i \<Longrightarrow> set ns \<subseteq> set ns' \<Longrightarrow> linked ns' p c i"
  by (auto simp: linked_def split: option.splits)

lemma from_one_snoc: "from_one gs \<Longrightarrow> g_sortOrder g = int (length gs) + 1 \<Longrightarrow> from_one (gs @ [g])"
proof -
  assume gs: "from_one gs" and g: "g_sortOrder g = int (length gs) + 1"
  have "[1..<Suc (length (gs @ [g]))] = [1..<Suc (length gs)] @ [Suc (length gs)]" by simp
  then have "map int [1..<Suc (length (gs @ [g]))] = map int [1..<Suc (length gs)] @ [g_sortOrder g]"
    unfolding g by (simp only: map_append) simp
  with gs show ?thesis unfolding from_one_def by (simp only: map_append mset_append list.map)
qed

lemma grade_appended:
  assumes ok: "shelf_ok s" and g: "g_id g = db_uuid s (db_next s)" "g_sortOrder g = last_position (g_productId g) s + 1"
    and code: "g_code g \<noteq> []" "\<And>h. h \<in> set (db_grades s) \<Longrightarrow> g_productId h = g_productId g \<Longrightarrow> g_code h \<noteq> g_code g"
  shows "shelf_ok (s\<lparr>db_next := db_next s + 1, db_grades := tbl_save g_id g (db_grades s)\<rparr>)"
proof -
  let ?gs = "db_grades s" and ?s' = "s\<lparr>db_next := db_next s + 1, db_grades := db_grades s @ [g]\<rparr>"
  have fresh: "fresh_for shelf_ids s" using ok by (simp add: shelf_ok_def)
  have new: "g_id g \<notin> g_id ` set ?gs" using fresh_next [OF fresh] g(1) by (simp add: shelf_ids_def)
  have ladders: "from_one (mine p s)" for p using ok by (simp add: shelf_ok_def ladder_mine)
  have "from_one (filter (\<lambda>h. g_productId h = p) (?gs @ [g]))" for p
    using ladders [of p] last_from_one [OF ladders [of "g_productId g"]] g(2) from_one_snoc [of "mine p s" g] by (simp add: mine_def)
  then have "ladder p (?gs @ [g])" for p by (simp add: ladder_def from_one_def Let_def)
  moreover have "names_ok (map grade_name (?gs @ [g]))"
    using ok new code by (force simp: shelf_ok_def names_ok_def grade_name_def)
  moreover have "rows_ok (map grade_name (?gs @ [g])) (db_pricing s)"
  proof -
    have "set (map grade_name ?gs) \<subseteq> set (map grade_name (?gs @ [g]))" by auto
    with ok show ?thesis unfolding shelf_ok_def rows_ok_def by (blast intro: linked_mono)
  qed
  moreover have "fresh_for shelf_ids ?s'" by (rule fresh_after [OF fresh]) (auto simp: shelf_ids_def g(1))
  ultimately show ?thesis by (simp add: shelf_ok_def tbl_save_fresh [OF new])
qed

lemma demoteConditionless_keeps [kept]: "keeps desk_ok (demoteConditionless W a p)"
  unfolding demoteConditionless_def by (intro keeps_rules kept)

lemma kept_triple: "keeps desk_ok m \<Longrightarrow> (\<And>s. P s \<Longrightarrow> desk_ok s) \<Longrightarrow> triple P m (\<lambda>_. desk_ok) desk_ok"
  unfolding keeps_triple by (rule triple_pre)

lemma grade_add_keeps:
  assumes code: "gd_code dto \<noteq> []"
  shows "keeps desk_ok (grade_add W a p dto)"
proof -
  let ?P = "\<lambda>codes last d. (desk_ok d \<and> codes = filter (\<lambda>g. g_productId g = p) (db_grades (dk_shop d))) \<and> last = last_position p (dk_shop d)"
  have added: "triple (?P codes last) (bind (on_shop fresh_id) (\<lambda>i. bind (on_shop (save_grade (new i))) (\<lambda>_. rest i))) (\<lambda>_. desk_ok) desk_ok"
    if "\<not> list_ex (\<lambda>g. g_code g = gd_code dto) codes" and rest: "\<And>i. keeps desk_ok (rest i)"
      and new: "\<And>i. g_id (new i) = i \<and> g_productId (new i) = p \<and> g_code (new i) = gd_code dto \<and> g_sortOrder (new i) = last + 1"
    for codes last and new :: "ident \<Rightarrow> material_condition" and rest :: "ident \<Rightarrow> (material_condition \<times> rat) desk_action"
  proof -
    have "desk_ok (d\<lparr>dk_shop := (dk_shop d)\<lparr>db_next := db_next (dk_shop d) + 1,
        db_grades := tbl_save g_id (new (db_uuid (dk_shop d) (db_next (dk_shop d)))) (db_grades (dk_shop d))\<rparr>\<rparr>)" if d: "?P codes last d" for d
    proof -
      have "shelf_ok ((dk_shop d)\<lparr>db_next := db_next (dk_shop d) + 1,
        db_grades := tbl_save g_id (new (db_uuid (dk_shop d) (db_next (dk_shop d)))) (db_grades (dk_shop d))\<rparr>)"
        using d new code \<open>\<not> list_ex _ codes\<close> by (intro grade_appended) (auto simp: desk_ok_def list_ex_iff)
      then show ?thesis by (simp add: desk_ok_def)
    qed
    then have both: "triple (?P codes last) (bind (on_shop fresh_id) (\<lambda>i. bind (on_shop (save_grade (new i))) (\<lambda>_. ret i))) (\<lambda>_. desk_ok) desk_ok"
      by (auto simp: triple_def on_shop_def fresh_id_def bind_def save_grade_def)
    have "bind (on_shop fresh_id) (\<lambda>i. bind (on_shop (save_grade (new i))) (\<lambda>_. rest i)) =
        bind (bind (on_shop fresh_id) (\<lambda>i. bind (on_shop (save_grade (new i))) (\<lambda>_. ret i))) rest"
      by (simp add: bind_assoc)
    then show ?thesis using triple_bind [OF both, of rest] rest by (simp add: kept_triple)
  qed
  have tail: "keeps desk_ok (bind (demoteConditionless W a p) (\<lambda>graded.
     bind (on_shop (record_audit a ''ADD_PRODUCT_CONDITION'' i)) (\<lambda>_.
     bind (enqueue_desk (SYNC_CONDITION i)) (\<lambda>_.
     bind (if graded then enqueue_desk (UPDATE_PRICING p) else ret ()) (\<lambda>_.
     reads_shop (f i))))))" for i and f :: "ident \<Rightarrow> store \<Rightarrow> material_condition \<times> rat"
    by (intro keeps_rules kept)
  show ?thesis unfolding grade_add_def Let_def
    by (rule keeps_bind [OF kept_simple(6)], unfold keeps_triple reads_shop_def,
        intro triple_bind_reads triple_bind_refuse added tail [unfolded reads_shop_def]) auto
qed

lemma grade_arranged:
  assumes "shelf_ok s" and "tbl_find g_id i (db_grades s) = Some g"
  shows "shelf_ok (s\<lparr>db_grades := tbl_save_all g_id (arranged g n (grades_of (g_productId g) s)) (db_grades s)\<rparr>)"
proof (rule shelf_renumbered [OF shelf_ok_but [OF assms(1)]])
  let ?gs = "grades_of (g_productId g) s"
  have "distinct (map g_id (db_grades s))" using assms(1) by (simp add: shelf_ok_def names_ids_distinct)
  then have "distinct (map g_id ?gs)" by (simp add: grades_of_def distinct_map inj_on_def)
  moreover have "g \<in> set ?gs" using tbl_find_SomeD [OF assms(2)] by (simp add: grades_of_def)
  ultimately show "mset (map grade_name (arranged g n ?gs)) = mset (map grade_name (mine (g_productId g) s))"
    using arranged_names by (simp add: mset_grades_of)
  show "from_one (arranged g n ?gs)" unfolding arranged_def Let_def by (rule numbered_from_one) simp
qed

lemma triple_transaction: "triple P m Q E' \<Longrightarrow> (\<And>s. P s \<Longrightarrow> E s) \<Longrightarrow> triple P (in_transaction m) Q E"
  by (fastforce simp: triple_def in_transaction_def split: prod.splits sum.splits)

text \<open>The grade a request names, as it stands in the table.\<close>

definition at_grade :: "ident \<Rightarrow> material_condition \<Rightarrow> desk \<Rightarrow> bool" where
  "at_grade i g d \<longleftrightarrow> desk_ok d \<and> tbl_find g_id i (db_grades (dk_shop d)) = Some g"

lemma triple_at_grade: "triple desk_ok (conditionOrThrow i e) (at_grade i) desk_ok"
  unfolding conditionOrThrow_def reads_shop_def at_grade_def
  by (intro triple_bind_reads triple_option triple_bind_refuse triple_throw triple_ret) auto

lemma keeps_at_grade: "(\<And>g. triple (at_grade i g) (f g) (\<lambda>_. desk_ok) desk_ok) \<Longrightarrow> keeps desk_ok (bind (conditionOrThrow i e) f)"
  unfolding keeps_triple by (rule triple_bind [OF triple_at_grade])

lemma grade_reorder_keeps [kept]: "keeps desk_ok (grade_reorder a i n e)"
proof -
  have "triple (at_grade i g) (in_transaction (bind (reads_shop (grades_of (g_productId g))) (\<lambda>gs. on_shop (save_grades (arranged g n gs)))))
      (\<lambda>_. desk_ok) desk_ok" for g
    unfolding reads_shop_def save_grades_def on_shop_writes
    by (intro triple_transaction triple_bind_reads triple_writes)
      (auto simp: at_grade_def desk_ok_def intro: grade_arranged)
  then show ?thesis unfolding grade_reorder_def
    by (intro keeps_bind [OF keeps_refuse_if] keeps_at_grade) (rule triple_bind, assumption, intro kept_triple keeps_rules kept)
qed

lemma grade_patched_ok:
  assumes "shelf_ok s" and "tbl_find g_id i (db_grades s) = Some g"
  shows "shelf_ok (s\<lparr>db_grades := tbl_save g_id (grade_patched dto g) (db_grades s)\<rparr>)"
proof -
  have found: "tbl_find g_id (g_id (grade_patched dto g)) (db_grades s) = Some g"
    using tbl_find_SomeD [OF assms(2)] assms(2) by (simp add: grade_patched_def)
  have same: "map (\<lambda>g. (grade_name g, g_sortOrder g)) (tbl_save g_id (grade_patched dto g) (db_grades s))
      = map (\<lambda>g. (grade_name g, g_sortOrder g)) (db_grades s)"
    by (rule names_tbl_save [OF found]) (simp add: grade_patched_def grade_name_def)
  have orders: "map g_sortOrder (filter (\<lambda>g. g_productId g = p) gs) =
      map snd (filter (\<lambda>x. fst (snd (fst x)) = p) (map (\<lambda>g. (grade_name g, g_sortOrder g)) gs))" for gs p
    by (induction gs) (simp_all add: grade_name_def)
  have ladders: "ladder p (tbl_save g_id (grade_patched dto g) (db_grades s)) = ladder p (db_grades s)" for p
  proof -
    have "ladder p gs \<longleftrightarrow> (let os = map snd (filter (\<lambda>x. fst (snd (fst x)) = p) (map (\<lambda>g. (grade_name g, g_sortOrder g)) gs))
        in mset os = mset (map int [1..<Suc (length os)]))" for gs
      unfolding ladder_def Let_def orders [symmetric] length_map by (rule refl)
    then show ?thesis by (simp only: same)
  qed
  show ?thesis
  proof (rule shelf_renamed [OF assms(1)], goal_cases)
    case 2
    show ?case using arg_cong [OF same, of "map fst"] by (simp add: comp_def)
  next
    case (3 p)
    show ?case using assms(1) ladders by (simp add: shelf_ok_def)
  qed simp_all
qed

lemma grade_update_keeps [kept]: "keeps desk_ok (grade_update a i dto e)"
proof -
  have "triple (at_grade i g) (on_shop (save_grade (grade_patched dto g))) (\<lambda>_. desk_ok) desk_ok" for g
    unfolding save_grade_def on_shop_writes
    by (intro triple_writes) (auto simp: at_grade_def desk_ok_def intro: grade_patched_ok)
  then show ?thesis unfolding grade_update_def Let_def
    by (intro keeps_at_grade) (rule triple_bind, assumption, intro kept_triple keeps_rules kept)
qed

lemma same_row_key: "distinct (map f xs) \<Longrightarrow> x \<in> set xs \<Longrightarrow> y \<in> set xs \<Longrightarrow> f x = f y \<Longrightarrow> x = y"
  unfolding distinct_map by (blast dest: inj_onD)

text \<open>A price filed under a grade belongs to the material of the grade.\<close>

lemma row_of_grade:
  assumes ok: "shelf_ok s" and g: "g \<in> set (db_grades s)" and r: "r \<in> set (db_pricing s)" "pr_conditionId r = Some (g_id g)"
  shows "pr_productId r = g_productId g"
proof -
  have "linked (map grade_name (db_grades s)) (pr_productId r) (pr_conditionCode r) (pr_conditionId r)"
    using ok r(1) by (simp add: shelf_ok_def rows_ok_def)
  then obtain h where h: "h \<in> set (db_grades s)" "g_id h = g_id g" "g_productId h = pr_productId r"
    using r(2) by (auto simp: linked_def grade_name_def)
  have "distinct (map g_id (db_grades s))" using ok by (simp add: shelf_ok_def names_ids_distinct)
  from same_row_key [OF this h(1) g h(2)] h(3) show ?thesis by simp
qed

lemma grade_dropped:
  assumes ok: "shelf_ok s" and free: "\<And>r. r \<in> set (db_pricing s) \<Longrightarrow> pr_conditionId r \<noteq> Some (g_id g)" and g: "g \<in> set (db_grades s)"
  shows "shelf_but (g_productId g) (s\<lparr>db_grades := filter (\<lambda>x. g_id x \<noteq> g_id g) (db_grades s)\<rparr>)"
proof -
  let ?rest = "filter (\<lambda>x. g_id x \<noteq> g_id g) (db_grades s)"
  have ids: "distinct (map g_id (db_grades s))" using ok by (simp add: shelf_ok_def names_ids_distinct)
  have "names_ok (map grade_name ?rest)"
    using ok by (auto simp: shelf_ok_def names_ok_def distinct_map_filter)
  moreover have "ladder q ?rest" if "q \<noteq> g_productId g" for q
  proof -
    have "filter (\<lambda>x. g_productId x = q) ?rest = filter (\<lambda>x. g_productId x = q) (db_grades s)"
      using that same_row_key [OF ids _ g] by (auto intro!: filter_cong)
    then show ?thesis using ok by (simp add: shelf_ok_def ladder_def)
  qed
  moreover have "linked (map grade_name ?rest) (pr_productId r) (pr_conditionCode r) (pr_conditionId r)" if r: "r \<in> set (db_pricing s)" for r
  proof -
    have "linked (map grade_name (db_grades s)) (pr_productId r) (pr_conditionCode r) (pr_conditionId r)"
      using ok r by (simp add: shelf_ok_def rows_ok_def)
    then show ?thesis using free [OF r] by (force simp: linked_def grade_name_def split: option.splits)
  qed
  moreover have "fresh_for shelf_ids (s\<lparr>db_grades := ?rest\<rparr>)"
    using ok by (auto simp: shelf_ok_def fresh_for_def shelf_ids_def)
  ultimately show ?thesis using ok by (simp add: shelf_but_def shelf_ok_def rows_ok_def)
qed

text \<open>The grade is there, and no price is filed under it.\<close>

definition bare :: "material_condition \<Rightarrow> desk \<Rightarrow> bool" where
  "bare g d \<longleftrightarrow> desk_ok d \<and> g \<in> set (db_grades (dk_shop d)) \<and> (\<forall>r \<in> set (db_pricing (dk_shop d)). pr_conditionId r \<noteq> Some (g_id g))"

lemma grade_bared:
  "triple (\<lambda>d. at_grade i g d \<and> rows = filter (\<lambda>r. pr_productId r = g_productId g \<and> pr_conditionId r = Some (g_id g)) (db_pricing (dk_shop d)))
     (archive_rows W reason a rows) (\<lambda>_. bare g) desk_ok"
proof -
  have there: "g \<in> set (db_grades s)" "\<And>r. r \<in> set (db_pricing s) \<Longrightarrow> pr_conditionId r = Some (g_id g) \<Longrightarrow> r \<in> set rows"
    if "shelf_ok s" "tbl_find g_id i (db_grades s) = Some g"
      "rows = filter (\<lambda>r. pr_productId r = g_productId g \<and> pr_conditionId r = Some (g_id g)) (db_pricing s)" for s
    using that row_of_grade [OF that(1)] tbl_find_SomeD [OF that(2)] by auto
  show ?thesis
  proof (cases "rows = []")
    case True
    show ?thesis unfolding archive_rows_def if_P [OF True]
    proof (rule triple_ret, goal_cases)
      case (1 d)
      then have s: "shelf_ok (dk_shop d)" "tbl_find g_id i (db_grades (dk_shop d)) = Some g"
        "rows = filter (\<lambda>r. pr_productId r = g_productId g \<and> pr_conditionId r = Some (g_id g)) (db_pricing (dk_shop d))"
        by (simp_all add: at_grade_def desk_ok_def)
      show ?case using there [OF s] s(1) True by (auto simp: bare_def desk_ok_def)
    qed
  next
    case False
    show ?thesis unfolding archive_rows_def if_not_P [OF False]
    proof (intro triple_bind_refuse triple_writes, goal_cases)
      case (2 d)
      let ?s = "dk_shop d"
      have s: "shelf_ok ?s" "tbl_find g_id i (db_grades ?s) = Some g"
        "rows = filter (\<lambda>r. pr_productId r = g_productId g \<and> pr_conditionId r = Some (g_id g)) (db_pricing ?s)"
        using 2 by (simp_all add: at_grade_def desk_ok_def)
      have "pr_conditionId r \<noteq> Some (g_id g)" if "r \<in> set (db_pricing (drop_rows rows ?s))" for r
        using that there(2) [OF s, of r] by (auto simp: drop_rows_def)
      then show ?case using there(1) [OF s] drop_rows_ok [OF s(1)] by (simp add: bare_def desk_ok_def) (simp add: drop_rows_def)
    qed (simp add: at_grade_def)
  qed
qed

lemma grade_renumbered:
  assumes "shelf_but p (dk_shop d)" and "\<And>i x. g_sortOrder (f i x) = i" and "\<And>i x. grade_name (f i x) = grade_name x"
    and rest: "rest = grades_of p (dk_shop d)"
  shows "desk_ok (d\<lparr>dk_shop := (dk_shop d)\<lparr>db_grades := tbl_save_all g_id (numbered f rest) (db_grades (dk_shop d))\<rparr>\<rparr>)"
proof -
  have "mset (map grade_name (numbered f rest)) = mset (map grade_name (mine p (dk_shop d)))"
    unfolding numbered_names [OF assms(3)] rest by (simp add: mset_grades_of)
  from shelf_renumbered [OF assms(1) this numbered_from_one [OF assms(2)]] show ?thesis by (simp add: desk_ok_def)
qed

lemma bare_spared: "spares m \<Longrightarrow> triple (bare g) m (\<lambda>_. bare g) (\<lambda>_. True)"
proof -
  assume m: "spares m"
  have "bare g d' = bare g d" if "shelf (dk_shop d') = shelf (dk_shop d)" for d d'
    using that shelf_ok_cong [OF that] by (simp add: bare_def desk_ok_def shelf_def)
  moreover have "shelf (dk_shop (snd (m d))) = shelf (dk_shop d)" for d using m unfolding spares_def keeps_def by blast
  ultimately have "bare g (snd (m d)) = bare g d" for d by blast
  then show ?thesis by (intro tripleI) (metis snd_conv)+
qed

lemma remove_with_prices_keeps: "triple (at_grade i g) (remove_with_prices W a g) (\<lambda>_. desk_ok) desk_ok"
proof -
  let ?rest = "\<lambda>s. s\<lparr>db_grades := filter (\<lambda>x. g_id x \<noteq> g_id g) (db_grades s)\<rparr>"
  have number: "triple (\<lambda>d. shelf_but (g_productId g) (dk_shop d) \<and> rest = grades_of (g_productId g) (dk_shop d))
      (on_shop (save_grades (numbered (\<lambda>i x. x\<lparr>g_sortOrder := i\<rparr>) rest))) (\<lambda>_. desk_ok) (\<lambda>_. True)" for rest
    unfolding save_grades_def on_shop_writes
    by (intro triple_writes, elim conjE, rule grade_renumbered) (auto simp: grade_name_def)
  have dropped: "triple (bare g) (on_shop (writes ?rest)) (\<lambda>_ d. shelf_but (g_productId g) (dk_shop d)) (\<lambda>_. True)"
    unfolding on_shop_writes by (intro triple_writes) (auto simp: bare_def desk_ok_def intro: grade_dropped)
  have bared: "triple (\<lambda>d. at_grade i g d \<and> rows = filter (\<lambda>r. pr_productId r = g_productId g \<and> pr_conditionId r = Some (g_id g)) (db_pricing (dk_shop d)))
     (archive_rows W AR_DELETED a rows) (\<lambda>_. bare g) (\<lambda>_. True)" for rows
    by (rule triple_conseq [OF grade_bared]) auto
  show ?thesis unfolding remove_with_prices_def reads_shop_def
    by (rule triple_transaction, rule triple_bind_reads, rule triple_bind [OF bared], rule triple_bind [OF bare_spared], simp,
        rule triple_bind [OF dropped], rule triple_bind_reads, rule triple_bind [OF number], rule triple_ret) (auto simp: at_grade_def)
qed

lemma grade_remove_keeps [kept]: "keeps desk_ok (grade_remove W a i e)"
proof -
  have read: "triple (at_grade i g) (bind (reads_shop f) h) (\<lambda>_. desk_ok) desk_ok"
    if "\<And>x. triple (at_grade i g) (h x) (\<lambda>_. desk_ok) desk_ok" for g f and h :: "'a \<Rightarrow> unit desk_action"
    unfolding reads_shop_def by (rule triple_bind_reads, rule triple_pre [OF that]) blast
  show ?thesis unfolding grade_remove_def
    by (intro keeps_at_grade read triple_bind_refuse triple_bind [OF remove_with_prices_keeps] kept_triple keeps_rules kept)
      (simp_all add: at_grade_def)
qed

section \<open>Whole sessions\<close>

datatype desk_request =
    SET_PRICING ident pricing_dto
  | UPDATE_TABLE ident table_dto
  | UPDATE_TIER ident pricing_tier tier_dto
  | CORRECT_ROW ident rat
  | DELETE_PRICES ident "pricing_tier list option"
  | END_PRICES ident time "pricing_tier list option"
  | PRICE_CRON
  | ADD_GRADE ident grade_dto
  | REORDER_GRADE ident nat "ident option"
  | UPDATE_GRADE ident grade_patch "ident option"
  | REMOVE_GRADE ident "ident option"
  | CREATE_OFFER offer_dto
  | UPDATE_OFFER ident offer_patch
  | DELETE_OFFER ident

fun serve_desk :: "world \<Rightarrow> ident \<Rightarrow> desk_request \<Rightarrow> unit desk_action" where
  "serve_desk W a (SET_PRICING p dto) = bind (setPricing W a p dto) (\<lambda>_. ret ())"
| "serve_desk W a (UPDATE_TABLE p dto) = bind (updatePricingTable W a p dto) (\<lambda>_. ret ())"
| "serve_desk W a (UPDATE_TIER p t dto) = bind (updateTierPrice W a p t dto) (\<lambda>_. ret ())"
| "serve_desk W a (CORRECT_ROW i x) = bind (correctPricingRow W a i x) (\<lambda>_. ret ())"
| "serve_desk W a (DELETE_PRICES p ts) = bind (deletePricing W a p ts) (\<lambda>_. ret ())"
| "serve_desk W a (END_PRICES p u ts) = bind (expireCurrentPricing W a p u ts) (\<lambda>_. ret ())"
| "serve_desk W a PRICE_CRON = bind (price_expiry_cron W) (\<lambda>_. ret ())"
| "serve_desk W a (ADD_GRADE p dto) = bind (grade_add W a p dto) (\<lambda>_. ret ())"
| "serve_desk W a (REORDER_GRADE i n e) = bind (grade_reorder a i n e) (\<lambda>_. ret ())"
| "serve_desk W a (UPDATE_GRADE i dto e) = bind (grade_update a i dto e) (\<lambda>_. ret ())"
| "serve_desk W a (REMOVE_GRADE i e) = grade_remove W a i e"
| "serve_desk W a (CREATE_OFFER dto) = bind (createOffer W a dto) (\<lambda>_. ret ())"
| "serve_desk W a (UPDATE_OFFER i dto) = bind (updateOffer W a i dto) (\<lambda>_. ret ())"
| "serve_desk W a (DELETE_OFFER i) = deleteOffer a i"

text \<open>What the routes check beforehand: the material is named, and a grade has a code.\<close>

fun well_addressed :: "desk_request \<Rightarrow> bool" where
  "well_addressed (SET_PRICING p _) = (p \<noteq> [])"
| "well_addressed (UPDATE_TABLE p _) = (p \<noteq> [])"
| "well_addressed (UPDATE_TIER p _ _) = (p \<noteq> [])"
| "well_addressed (ADD_GRADE _ dto) = (gd_code dto \<noteq> [])"
| "well_addressed _ = True"

lemma serve_desk_keeps: "well_addressed r \<Longrightarrow> keeps desk_ok (serve_desk W a r)"
  by (cases r) (auto intro!: keeps_bind keeps_ret kept setPricing_keeps updatePricingTable_keeps updateTierPrice_keeps grade_add_keeps)

text \<open>Calls at their own times, by administrators of their own; what a refused one wrote stays.\<close>

definition desk_session :: "(world \<times> ident \<times> desk_request) list \<Rightarrow> desk \<Rightarrow> desk" where
  "desk_session calls d = fold (\<lambda>(W, a, r) d. snd (serve_desk W a r d)) calls d"

text \<open>C2: whatever requests the administrators make to the catalogue, accepted or refused, and whenever the
  expiry cron runs in between, the grades of every material stay numbered from one without a gap under
  codes of their own, a material keeps at most one live price per tier and grade, and every price filed
  under a grade names, by id and by code, a grade its material has.  The routes check that a material is
  named and that a grade has a code.\<close>

theorem catalogue_stays_in_order:
  assumes "desk_ok d" and "list_all (\<lambda>(W, a, r). well_addressed r) calls"
  shows "desk_ok (desk_session calls d)"
  using assms
proof (induction calls arbitrary: d)
  case (Cons c calls)
  obtain W a r where c: "c = (W, a, r)" by (cases c)
  have "desk_ok (snd (serve_desk W a r d))"
    using serve_desk_keeps [of r W a] Cons.prems by (simp add: c keeps_def)
  then show ?case using Cons.IH [of "snd (serve_desk W a r d)"] Cons.prems(2) by (simp add: c desk_session_def)
qed (simp add: desk_session_def)

definition ex_desk :: desk where
  "ex_desk = \<lparr>dk_shop = ex_basket\<lparr>db_pricing := []\<rparr>, dk_history = [], dk_jobs = []\<rparr>"

definition ex_admin :: ident where
  "ex_admin = ''00000000-0000-0000-0000-000000000001''"

text \<open>Two grades are added, priced, swapped, and the first of them is taken away with its price.\<close>

definition ex_calls :: "(world \<times> ident \<times> desk_request) list" where
  "ex_calls = map (\<lambda>r. (ex_clock, ex_admin, r))
    [ADD_GRADE ''copper'' \<lparr>gd_code = ''A'', gd_nameEn = ''Clean'', gd_nameAr = ''a''\<rparr>,
     ADD_GRADE ''copper'' \<lparr>gd_code = ''B'', gd_nameEn = ''Mixed'', gd_nameAr = ''b''\<rparr>,
     SET_PRICING ''copper'' \<lparr>sp_individual = 1, sp_company = 2,
       sp_factory = [\<lparr>pl_conditionId = None, pl_condition = Some ''a'', pl_price = 5\<rparr>, \<lparr>pl_conditionId = Some ''uu'', pl_condition = None, pl_price = 4\<rparr>],
       sp_freeFacility = [\<lparr>pl_conditionId = None, pl_condition = Some ''A'', pl_price = 6\<rparr>, \<lparr>pl_conditionId = None, pl_condition = Some ''B'', pl_price = 5\<rparr>],
       sp_effectiveFrom = None\<rparr>,
     UPDATE_TIER ''copper'' TIER_FACTORY \<lparr>ud_conditionId = None, ud_condition = Some ''B'', ud_price = 3, ud_effectiveFrom = None, ud_effectiveUntil = None\<rparr>,
     REORDER_GRADE ''uu'' 1 None,
     REMOVE_GRADE ''u'' None]"

lemma ex_grades_run:
  "map (\<lambda>g. (g_code g, g_sortOrder g)) (db_grades (dk_shop (desk_session (take 2 ex_calls @ drop 4 ex_calls) ex_desk))) = [(''B'', 1)]"
  by code_simp

theorem catalogue_stays_in_order_witness: "desk_ok (desk_session ex_calls ex_desk)"
proof (rule catalogue_stays_in_order)
  show "desk_ok ex_desk"
    using ex_uuid_inj by (simp add: desk_ok_def shelf_ok_def names_ok_def rows_ok_def ladder_def fresh_for_def shelf_ids_def
      ex_desk_def ex_basket_def ex_shop_def ex_store_def)
  show "list_all (\<lambda>(W, a, r). well_addressed r) ex_calls" by (simp add: ex_calls_def)
qed

end
