(* ===== verification/PriceChange.thy ===== *)
theory PriceChange
  imports ShelfKeeping
begin

text \<open>
  What the change of one price does: to the live prices, to the archive, to the baskets and to the jobs
  for Odoo.
\<close>

section \<open>The steps\<close>

definition unchanging :: "'a desk_action \<Rightarrow> bool" where
  "unchanging m \<longleftrightarrow> (\<forall>c. keeps (\<lambda>d. d = c) m)"

lemma unchanging_run: "unchanging m \<Longrightarrow> m d = (x, d') \<Longrightarrow> d' = d"
  unfolding unchanging_def keeps_def by (metis snd_conv)

lemma unchanging_checks:
  "unchanging (productOrThrow p)" "unchanging (reads_shop f)" "unchanging (named_grade p t g dto)" "unchanging (checked_until W x u)"
  unfolding unchanging_def productOrThrow_def reads_shop_def named_grade_def checked_until_def resolveForProduct_def conditionOrThrow_def
  by (intro allI keeps_rules)+

lemma drop_chosen:
  assumes "distinct (map pr_id (db_pricing s))"
  shows "drop_rows (filter P (db_pricing s)) s = s\<lparr>db_pricing := filter (\<lambda>r. \<not> P r) (db_pricing s)\<rparr>"
proof -
  have "filter (\<lambda>r. \<not> List.member (map pr_id (filter P (db_pricing s))) (pr_id r)) (db_pricing s) = filter (\<lambda>r. \<not> P r) (db_pricing s)"
    using same_row_key [OF assms] by (intro filter_cong) auto
  then show ?thesis by (simp only: drop_rows_def)
qed

lemma archive_chosen:
  assumes "distinct (map pr_id (db_pricing (dk_shop d)))"
    and "archive_rows W reason a (filter P (db_pricing (dk_shop d))) d = (Inr (), d')"
  shows "d' = d\<lparr>dk_history := dk_history d @ map (archived reason a (w_now W)) (filter P (db_pricing (dk_shop d))),
    dk_shop := (dk_shop d)\<lparr>db_pricing := filter (\<lambda>r. \<not> P r) (db_pricing (dk_shop d))\<rparr>\<rparr>"
proof (cases "filter P (db_pricing (dk_shop d)) = []")
  case True
  then have "filter (\<lambda>r. \<not> P r) (db_pricing (dk_shop d)) = db_pricing (dk_shop d)" by (simp add: filter_empty_conv filter_id_conv)
  with True assms(2) show ?thesis by (simp add: archive_rows_def)
next
  case False
  then show ?thesis using assms(2) by (auto simp: archive_rows_def drop_chosen [OF assms(1)] split: if_splits)
qed

lemma archive_run:
  assumes "desk_ok d" and "archiveCurrent W p t reason a (Some code) d = (Inr rows, d')"
  shows "d' = d\<lparr>dk_history := dk_history d @ map (archived reason a (w_now W)) (filter (\<lambda>x. price_key x = (p, t, code)) (db_pricing (dk_shop d))),
    dk_shop := (dk_shop d)\<lparr>db_pricing := filter (\<lambda>x. price_key x \<noteq> (p, t, code)) (db_pricing (dk_shop d))\<rparr>\<rparr>"
proof -
  have ids: "distinct (map pr_id (db_pricing (dk_shop d)))" using assms(1) by (simp add: desk_ok_def shelf_ok_def rows_ok_def)
  have keys: "(\<lambda>r. pr_productId r = p \<and> pr_tier r = t \<and> pr_conditionCode r = code) = (\<lambda>x. price_key x = (p, t, code))"
    by (auto simp: price_key_def)
  have "archive_rows W reason a (filter (\<lambda>x. price_key x = (p, t, code)) (db_pricing (dk_shop d))) d = (Inr (), d')"
    using assms(2) by (auto simp: archiveCurrent_def reads_shop_def bind_Inr_iff keys)
  from archive_chosen [OF ids this] show ?thesis .
qed

definition follows :: "ident \<Rightarrow> pricing_tier \<Rightarrow> string option \<Rightarrow> rat \<Rightarrow> store \<Rightarrow> cart_item \<Rightarrow> cart_item" where
  "follows p t code price s it = (case line_role s it of None \<Rightarrow> it
     | Some r \<Rightarrow> if ci_productId it = p \<and> \<not> ci_isOffer it \<and> tierForRole r = t \<and> (code = None \<or> ci_conditionCode it = code)
         then repriced price it else it)"

lemma follows_cong:
  "db_carts s' = db_carts s \<Longrightarrow> db_accounts s' = db_accounts s \<Longrightarrow> follows p t code price s' = follows p t code price s"
  by (simp add: fun_eq_iff follows_def line_role_def)

lemma reprice_run:
  assumes "repriceTier p t price code d = (Inr n, d')"
  shows "d' = d\<lparr>dk_shop := (dk_shop d)\<lparr>db_cartItems := map (follows p t code price (dk_shop d)) (db_cartItems (dk_shop d))\<rparr>\<rparr>"
proof -
  have "follows p t code price s it = (case line_quote p (\<lambda>r c. if tierForRole r = t \<and> (code = None \<or> c = code) then Some price else None) s it of
      None \<Rightarrow> it | Some x \<Rightarrow> repriced x it)" for s it
    by (auto simp: follows_def line_quote_def split: option.splits Option.bind_splits)
  then show ?thesis using assms
    by (auto simp: repriceTier_def reprice_lines_def reads_shop_def on_shop_def bind_Inr_iff)
qed

definition snapshot :: "desk \<Rightarrow> product_pricing list \<times> cart_item list \<times> price_history list" where
  "snapshot d = (db_pricing (dk_shop d), db_cartItems (dk_shop d), dk_history d)"

lemma keeps_pair_resettle: "keeps (\<lambda>s. (db_pricing s, db_cartItems s) = c) (resettle W p a)"
  unfolding resettle_def resettle_one_def save_promo_def record_audit_def Let_def
  by (intro keeps_bind keeps_reads keeps_collect keeps_ret keeps_prod keeps_if) (simp_all add: keeps_def)

lemma settle_run:
  assumes "settle_and_push W p a d = (Inr u, d')"
  shows "snapshot d' = snapshot d" and "dk_jobs d' = dk_jobs d @ [UPDATE_PRICING p]"
proof -
  obtain x s where s: "resettle W p (Some a) (dk_shop d) = (Inr x, s)" "d' = d\<lparr>dk_shop := s, dk_jobs := dk_jobs d @ [UPDATE_PRICING p]\<rparr>"
    using assms by (auto simp: settle_and_push_def on_shop_def enqueue_desk_def bind_Inr_iff split: prod.splits)
  then show "snapshot d' = snapshot d" "dk_jobs d' = dk_jobs d @ [UPDATE_PRICING p]"
    using keepsD [OF keeps_pair_resettle refl s(1)] by (simp_all add: snapshot_def)
qed

section \<open>One price changes\<close>

lemma updateTierPrice_steps:
  assumes "updateTierPrice W a p t dto d = (Inr (r, n), d')"
  obtains code i start cur rows u d1 d2 d3 d4 where
    "archiveCurrent W p t AR_UPDATED a (Some code) d = (Inr rows, d1)"
    "insertCurrent p t (ud_price dto) cur start code i (ud_effectiveUntil dto) d1 = (Inr r, d2)"
    "repriceTier p t (ud_price dto) code d2 = (Inr n, d3)" "settle_and_push W p a d3 = (Inr u, d4)"
    "d' = d4\<lparr>dk_shop := (dk_shop d4)\<lparr>db_audit := db_audit (dk_shop d') \<rparr>\<rparr>"
proof -
  note pure = unchanging_run [OF unchanging_checks(1)] unchanging_run [OF unchanging_checks(2)] unchanging_run [OF unchanging_checks(3)]
    unchanging_run [OF unchanging_checks(4)]
  have audit: "x = (r, n) \<and> d' = d4\<lparr>dk_shop := (dk_shop d4)\<lparr>db_audit := db_audit (dk_shop d')\<rparr>\<rparr>"
    if "bind (on_shop (record_audit a act e)) (\<lambda>_. ret x) d4 = (Inr (r, n), d')" for act e d4 x
    using that by (auto simp: bind_Inr_iff on_shop_def record_audit_def)
  from assms show thesis
    unfolding updateTierPrice_def Let_def bind_Inr_iff [of "productOrThrow p"] bind_Inr_iff [of "reads_shop _"]
      bind_Inr_iff [of "checked_until _ _ _"] bind_Inr_iff [of "named_grade _ _ _ _"] bind_Inr_iff [of "archiveCurrent _ _ _ _ _ _"]
      bind_Inr_iff [of "insertCurrent _ _ _ _ _ _ _ _"] bind_Inr_iff [of "repriceTier _ _ _ _"] bind_Inr_iff [of "settle_and_push _ _ _"]
      split_paired_Ex prod.case
    by (elim exE conjE) ((drule pure audit; (elim conjE)?; (simp only: prod.inject)?)+, (rule that; assumption))
qed

text \<open>C7: when an administrator changes one price of a material, the row returned is the only live price
  of its tier and grade and bears the given price to three decimals; the price it replaces, and no other,
  is in the archive; every other live price stands; in the baskets exactly the lines of the buyers of
  that tier and grade that were not bought on an offer follow, with their subtotals; and Odoo is told.\<close>

theorem tier_price_takes_effect:
  assumes "desk_ok d" and run: "updateTierPrice W a p t dto d = (Inr (r, n), d')"
  shows "pr_productId r = p \<and> pr_tier r = t \<and> pr_price r = round3 (ud_price dto) \<and> pr_effectiveUntil r = ud_effectiveUntil dto
    \<and> db_pricing (dk_shop d') = filter (\<lambda>x. price_key x \<noteq> price_key r) (db_pricing (dk_shop d)) @ [r]
    \<and> dk_history d' = dk_history d @ map (archived AR_UPDATED a (w_now W)) (filter (\<lambda>x. price_key x = price_key r) (db_pricing (dk_shop d)))
    \<and> db_cartItems (dk_shop d') = map (follows p t (pr_conditionCode r) (ud_price dto) (dk_shop d)) (db_cartItems (dk_shop d))
    \<and> dk_jobs d' = dk_jobs d @ [UPDATE_PRICING p]"
proof -
  from run obtain code i start cur rows u d1 d2 d3 d4 where
    s1: "archiveCurrent W p t AR_UPDATED a (Some code) d = (Inr rows, d1)" and
    s2: "insertCurrent p t (ud_price dto) cur start code i (ud_effectiveUntil dto) d1 = (Inr r, d2)" and
    s3: "repriceTier p t (ud_price dto) code d2 = (Inr n, d3)" and s4: "settle_and_push W p a d3 = (Inr u, d4)" and
    s5: "d' = d4\<lparr>dk_shop := (dk_shop d4)\<lparr>db_audit := db_audit (dk_shop d') \<rparr>\<rparr>"
    by (rule updateTierPrice_steps)
  have r: "pr_productId r = p" "pr_tier r = t" "pr_price r = round3 (ud_price dto)" "pr_conditionCode r = code" "pr_effectiveUntil r = ud_effectiveUntil dto"
    and d2: "d2 = d1\<lparr>dk_shop := (dk_shop d1)\<lparr>db_next := db_next (dk_shop d1) + 1, db_pricing := db_pricing (dk_shop d1) @ [r]\<rparr>\<rparr>"
    using s2 by (auto simp: insertCurrent_def on_shop_def fresh_id_def bind_def Let_def)
  then have key: "price_key r = (p, t, code)" by (simp add: price_key_def)
  note d1 = archive_run [OF assms(1) s1] and d3 = reprice_run [OF s3] and d4 = settle_run [OF s4]
  have "follows p t code (ud_price dto) (dk_shop d2) = follows p t code (ud_price dto) (dk_shop d)"
    by (rule follows_cong) (simp_all add: d1 d2)
  then have "snapshot d3 = (db_pricing (dk_shop d2), map (follows p t code (ud_price dto) (dk_shop d)) (db_cartItems (dk_shop d2)), dk_history d2)"
    by (simp add: d3 snapshot_def)
  then have s3: "snapshot d3 = (filter (\<lambda>x. price_key x \<noteq> (p, t, code)) (db_pricing (dk_shop d)) @ [r],
      map (follows p t code (ud_price dto) (dk_shop d)) (db_cartItems (dk_shop d)),
      dk_history d @ map (archived AR_UPDATED a (w_now W)) (filter (\<lambda>x. price_key x = (p, t, code)) (db_pricing (dk_shop d))))"
    by (simp add: d1 d2)
  have final: "snapshot d' = snapshot d3" "dk_jobs d' = dk_jobs d4" by (subst s5, use d4 in \<open>simp add: snapshot_def\<close>)+
  then have jobs: "dk_jobs d' = dk_jobs d @ [UPDATE_PRICING p]" using d4(2) by (simp add: d1 d2 d3)
  show ?thesis using final(1) jobs r by (simp add: s3 snapshot_def [of d'] key)
qed

text \<open>A factory has thirty kilograms of copper in its basket, at three; the price becomes two and a half.\<close>

definition ex_price_desk :: desk where
  "ex_price_desk = \<lparr>dk_shop = ex_basket\<lparr>db_accounts := [\<lparr>ac_id = ''acc'', ac_name = ''F'', ac_role = FACTORY, ac_status = A_ACTIVE\<rparr>],
     db_carts := [\<lparr>ct_id = ''ct'', ct_accountId = ''acc''\<rparr>],
     db_cartItems := [\<lparr>ci_id = ''ci'', ci_cartId = ''ct'', ci_productId = ''copper'', ci_offerId = None, ci_quantity = 30,
       ci_unitType = ''KG'', ci_conditionCode = None, ci_unitPrice = 3, ci_subtotal = 90, ci_isOffer = False\<rparr>]\<rparr>,
     dk_history = [], dk_jobs = []\<rparr>"

definition ex_price_dto :: tier_dto where
  "ex_price_dto = \<lparr>ud_conditionId = None, ud_condition = None, ud_price = 5 / 2, ud_effectiveFrom = None, ud_effectiveUntil = None\<rparr>"

definition ex_new_price :: product_pricing where
  "ex_new_price = \<lparr>pr_id = ''u'', pr_productId = ''copper'', pr_tier = TIER_FACTORY, pr_conditionId = None, pr_conditionCode = None,
     pr_price = 5 / 2, pr_currency = ''SYP'', pr_effectiveFrom = 1000, pr_effectiveUntil = None\<rparr>"

abbreviation ex_changed :: "(err + product_pricing \<times> nat) \<times> desk" where
  "ex_changed \<equiv> updateTierPrice ex_clock ex_admin ''copper'' TIER_FACTORY ex_price_dto ex_price_desk"

lemma ex_changed_run: "fst ex_changed = Inr (ex_new_price, 1)"
  by code_simp

lemma ex_price_desk_ok: "desk_ok ex_price_desk"
proof -
  have "replicate i CHR ''u'' \<noteq> ''pr''" for i by (cases i) auto
  with ex_uuid_inj show ?thesis by (simp add: desk_ok_def shelf_ok_def names_ok_def rows_ok_def ladder_def fresh_for_def shelf_ids_def linked_def
    ex_price_desk_def ex_basket_def ex_shop_def ex_store_def price_key_def)
qed

theorem tier_price_takes_effect_witness:
  "db_pricing (dk_shop (snd ex_changed)) = [ex_new_price] \<and> map ph_price (dk_history (snd ex_changed)) = [3]
   \<and> map (\<lambda>it. (ci_unitPrice it, ci_subtotal it)) (db_cartItems (dk_shop (snd ex_changed))) = [(5 / 2, 75)]
   \<and> dk_jobs (snd ex_changed) = [UPDATE_PRICING ''copper'']"
proof -
  have run: "ex_changed = (Inr (ex_new_price, 1), snd ex_changed)" using ex_changed_run by (metis prod.collapse)
  have baskets: "map (\<lambda>it. (ci_unitPrice it, ci_subtotal it)) (map (follows ''copper'' TIER_FACTORY (pr_conditionCode ex_new_price)
      (ud_price ex_price_dto) (dk_shop ex_price_desk)) (db_cartItems (dk_shop ex_price_desk))) = [(5 / 2, 75)]"
    by code_simp
  show ?thesis using tier_price_takes_effect [OF ex_price_desk_ok run] baskets
    by (simp add: ex_price_desk_def ex_basket_def ex_shop_def price_key_def ex_new_price_def archived_def)
qed

end
