(* ===== verification/Spec2Isabelle.thy ===== *)
theory Spec2Isabelle
  imports CapacityPlanner TruckScore OrderState OrderCheckout OfferExpiry OrderReconcile DeliveryCustody PointsWallet PlanFacts TourFacts
    HandoverFacts ShiftChanges DecisionFacts PriceChange
begin

text \<open>
  The backend of Dawrha (\<open>src/src\<close>, a NestJS application): recyclable materials are sold and collected.
  Buyers order graded materials from warehouses, trucks deliver the orders; producers ask for a
  collection, drivers are elected for it and work off tours; administrators keep prices, offers, stages
  and plans; the ERP system Odoo owns warehouses, stock and fleet and is kept in step by jobs.  The
  theories model the services behind this, one theory per service or part of one, with the names of the
  TypeScript functions.

  How code is read.  A table is the list of its rows (\<open>Prelude\<close>, \<open>OrderStore\<close>, \<open>CollectionStore\<close>: one record
  per entity class); \<open>save\<close> writes a row by its id.  A service method is an action (\<open>Actions\<close>): from a
  state to a result or an exception and the state left behind, so that what was written before an
  exception stays, unless the code opens a transaction.  Jobs, domain events, notifications and audit
  entries are lists in the state.  A JavaScript number that holds a quantity, price or distance is an
  exact rational; rounding (\<open>Math.round\<close>, \<open>toFixed\<close>, numeric columns) is written out where the code rounds,
  the error of binary floating point is not modelled.  Ids come from an injective stream \<open>db_uuid\<close>.

  Parameters.  What is not under \<open>src/\<close> or not computed is a field of the records \<open>world\<close> and
  \<open>fleet_world\<close>: the clock, the great-circle and road distances, the bearings, the answers of Odoo, the
  positions in Redis, the rules of the time zone and the texts of dates.  No law is assumed of them except
  where a lemma states it (a fixed offset of the zone, exact stock figures).

  The order side, in the order of the calls:
  \<^item> \<open>OrderLifecycle\<close> (\<open>order/enums\<close>, \<open>derive-order-status.ts\<close>): the status tables as instances of the locale
    \<open>lifecycle\<close>, whose rank shows that a run only moves forward save for the named rewinds.
  \<^item> \<open>PriceRules\<close>, \<open>Pricing\<close>, \<open>Cart\<close>, \<open>OrderPolicy\<close>: prices and offers, the basket, the minimum, the spending cap
    and the delivery rate, all of which \<open>OrderCheckout\<close> asks.
  \<^item> \<open>Distances\<close>, \<open>AllocationPlanner\<close>, \<open>OrderAllocation\<close>: ranking warehouses, planning who gives what, and
    writing parts, offers and jobs; \<open>AllocationPlans\<close> holds what a plan promises (fewest warehouses, least
    distance, conservation, stock), \<open>AllocationFacts\<close>, \<open>AllocationOutcomes\<close> and \<open>AllocationEffect\<close> what an
    allocation writes, \<open>OrderFrame\<close> what it never touches (locales \<open>allocation_frame\<close>, \<open>order_frame\<close>).
  \<^item> \<open>OfferExpiry\<close>, \<open>OdooEvents\<close>, \<open>OrderReconcile\<close>: unanswered offers, the warehouse's answers, lost answers.
    \<open>LifeSpec\<close> is the abstract machine (finite maps of statuses and their allowed moves) these refine.
  \<^item> \<open>DeliveryPlanning\<close>, \<open>DeliveryRun\<close>, \<open>CapacityPlanner\<close>, \<open>TruckScore\<close>: grouping ready parts into trips, choosing
    trucks, collecting and delivering; \<open>DeliveryFacts\<close> and \<open>DeliveryCustody\<close> hold their theorems, the latter
    the invariant of arbitrary sequences of requests.
  \<^item> \<open>Stages\<close>, \<open>PointsWallet\<close>: the ladder of stages, points, leaderboard and trends.

  The administration of the catalogue: \<open>PriceDesk\<close> (what the services share), \<open>Grades\<close>, \<open>PriceAdmin\<close>, \<open>OfferAdmin\<close>;
  \<open>ShelfFacts\<close> and \<open>ShelfKeeping\<close> show that every request, accepted or refused, keeps the tables of grades
  and prices in order, \<open>PriceChange\<close> what the change of one price does.

  The collection side:
  \<^item> \<open>CollectionLife\<close>, \<open>CollectionStore\<close>, \<open>OperationTime\<close>, \<open>SequenceNumbers\<close>, \<open>RoutePlanner\<close>: status tables, entities,
    wall-clock times and shift windows, business numbers, and the nearest-neighbour tour.
  \<^item> \<open>Dispatch\<close>, \<open>Elections\<close>, \<open>Tours\<close>, \<open>Shipments\<close>, \<open>CollectionRequests\<close>, \<open>CollectionPlans\<close>, \<open>Coverage\<close>: candidates and
    scores, offers to drivers and their answers, tours, shipments, requests and walk-ins, standing plans,
    idle drivers.  \<open>FleetLedger\<close> proves the ledger of offers sound under every request (locale
    \<open>ledger_view\<close> for the handlers that leave it alone), \<open>ElectionFacts\<close>, \<open>PlanFacts\<close>, \<open>TourFacts\<close> the rest;
    \<open>FleetExample\<close> is the fleet the concrete runs start from.
  \<^item> \<open>Handovers\<close>, \<open>ShiftChanges\<close>, \<open>FleetMirror\<close>, \<open>DriverDecisions\<close>: who holds which truck, changes of shift, the
    mirror of Odoo's fleet, and the review of drivers; \<open>HandoverFacts\<close> and \<open>DecisionFacts\<close> their theorems.

  Termination.  Every loop is a total function (the packing loop and the planning loop by a measure)
  except the generator of combinations, a \<open>partial_function\<close> as its loop runs until an index says stop; it
  is proved to return, and to return the reference enumeration.  No fuel is used anywhere.

  Concrete runs.  A theorem with hypotheses has a witness right after it that applies it to an example
  store.  Where the code is at odds with its intent, a lemma states what it does (for instance
  \<open>refused_twice_doubles\<close>, \<open>cancelled_part_blocks\<close>, \<open>rebalance_swings\<close>, \<open>night_window_never_ends\<close>).

  Not modelled: controllers, DTO validation other than what a handler relies on, guards and modules
  (framework glue); accounts, onboarding, permissions and media (CRUD over tables); the catalogue and
  report queries (SQL); Redis positions, sockets and push delivery (I/O); the payloads sent to Odoo and the
  passes that push rows again.  Two transactions running at once are not interleaved: an operation is one
  step, and the order of steps is arbitrary where a theorem speaks of sequences.
\<close>

end
